(* ===== verification/Prelude.thy ===== *)
theory Prelude
  imports Main "HOL-Library.Multiset" "HOL-Library.List_Lexorder" "HOL-Library.Char_ord"
    "HOL-Library.Sublist"
begin

text \<open>
  What every component of the model shares: the result type of fallible operations, Go's
  64-bit integers, the parts of \<^verbatim>\<open>strings\<close>, \<^verbatim>\<open>path\<close> and \<^verbatim>\<open>sort\<close> the code calls, the
  lemmas about them, and the hint collections of the development.
\<close>

named_theorems go_simps \<open>unfolding equations of small helper definitions\<close>
named_theorems inv_intros \<open>introduction rules of invariants\<close>

section \<open>Results, integers and maps\<close>

text \<open>
  A function that returns \<^verbatim>\<open>(T, error)\<close> is a function into \<open>'e + 'a\<close>, \<open>Inl\<close> for the error. A
  Go string is its bytes, so \<open>length\<close> is \<^verbatim>\<open>len\<close>. A \<^verbatim>\<open>map[string]V\<close> is an association list with the first
  binding of a key in force.
\<close>

type_synonym 'v gomap = "(string \<times> 'v) list"

definition is_ok :: "'e + 'a \<Rightarrow> bool" where
  "is_ok r = (case r of Inl _ \<Rightarrow> False | Inr _ \<Rightarrow> True)"

lemma is_ok_simps [simp]: "is_ok (Inl e) = False" "is_ok (Inr a) = True"
  by (simp_all add: is_ok_def)

lemma is_ok_iff: "is_ok r \<longleftrightarrow> (\<exists>a. r = Inr a)"
  by (cases r) simp_all

text \<open>Go's signed 64-bit arithmetic wraps: \<open>i64\<close> is applied to the exact result of an operation.\<close>

definition i64 :: "int \<Rightarrow> int" where
  "i64 x = (x + 9223372036854775808) mod 18446744073709551616 - 9223372036854775808"

definition in_i64 :: "int \<Rightarrow> bool" where
  "in_i64 x \<longleftrightarrow> - 9223372036854775808 \<le> x \<and> x < 9223372036854775808"

lemma i64_id [simp]: "in_i64 x \<Longrightarrow> i64 x = x"
  by (simp add: in_i64_def i64_def)

lemma i64_in_range: "in_i64 (i64 x)"
  by (simp add: in_i64_def i64_def)

lemma i64_nonneg: "0 \<le> x \<Longrightarrow> x < 9223372036854775808 \<Longrightarrow> i64 x = x"
  by (simp add: i64_def)

text \<open>Reading a missing key of a \<^verbatim>\<open>map[string]string\<close> gives the empty string.\<close>

definition gomap_get :: "string gomap \<Rightarrow> string \<Rightarrow> string" where
  "gomap_get m k = (case map_of m k of None \<Rightarrow> '''' | Some v \<Rightarrow> v)"

section \<open>Strings\<close>

definition HasPrefix :: "string \<Rightarrow> string \<Rightarrow> bool" where
  "HasPrefix s p \<longleftrightarrow> take (length p) s = p"

lemma HasPrefix_prefix: "HasPrefix s p \<longleftrightarrow> prefix p s"
  unfolding HasPrefix_def prefix_def by (metis append_eq_conv_conj append_take_drop_id)

definition ContainsAny :: "string \<Rightarrow> string \<Rightarrow> bool" where
  "ContainsAny s chars \<longleftrightarrow> list_ex (\<lambda>c. List.member chars c) s"

lemma ContainsAny_iff: "ContainsAny s chars \<longleftrightarrow> (\<exists>c\<in>set s. c \<in> set chars)"
  by (simp add: ContainsAny_def list_ex_iff)

text \<open>
  \<^verbatim>\<open>strings.TrimSpace\<close> removes the code points \<^verbatim>\<open>unicode.IsSpace\<close> accepts from both ends. On the
  bytes of a string these are the ASCII spaces and the UTF-8 encodings of U+0085, U+00A0,
  U+1680, U+2000 to U+200A, U+2028, U+2029, U+202F, U+205F and U+3000.
\<close>

definition space_encodings :: "string list" where
  "space_encodings =
     [[CHR 0x09], [CHR 0x0A], [CHR 0x0B], [CHR 0x0C], [CHR 0x0D], [CHR 0x20],
      [CHR 0xC2, CHR 0x85], [CHR 0xC2, CHR 0xA0], [CHR 0xE1, CHR 0x9A, CHR 0x80],
      [CHR 0xE2, CHR 0x80, CHR 0x80], [CHR 0xE2, CHR 0x80, CHR 0x81], [CHR 0xE2, CHR 0x80, CHR 0x82],
      [CHR 0xE2, CHR 0x80, CHR 0x83], [CHR 0xE2, CHR 0x80, CHR 0x84], [CHR 0xE2, CHR 0x80, CHR 0x85],
      [CHR 0xE2, CHR 0x80, CHR 0x86], [CHR 0xE2, CHR 0x80, CHR 0x87], [CHR 0xE2, CHR 0x80, CHR 0x88],
      [CHR 0xE2, CHR 0x80, CHR 0x89], [CHR 0xE2, CHR 0x80, CHR 0x8A], [CHR 0xE2, CHR 0x80, CHR 0xA8],
      [CHR 0xE2, CHR 0x80, CHR 0xA9], [CHR 0xE2, CHR 0x80, CHR 0xAF], [CHR 0xE2, CHR 0x81, CHR 0x9F],
      [CHR 0xE3, CHR 0x80, CHR 0x80]]"

definition leading_space :: "string list \<Rightarrow> string \<Rightarrow> nat" where
  "leading_space encs s = (case find (\<lambda>e. HasPrefix s e) encs of None \<Rightarrow> 0 | Some e \<Rightarrow> length e)"

function trim_left :: "string list \<Rightarrow> string \<Rightarrow> string" where
  "trim_left encs s =
     (if leading_space encs s = 0 \<or> s = [] then s
      else trim_left encs (drop (leading_space encs s) s))"
  by pat_completeness auto
termination
  by (relation "measure (\<lambda>(encs, s). length s)") auto

declare trim_left.simps [simp del]

definition TrimSpace :: "string \<Rightarrow> string" where
  "TrimSpace s = rev (trim_left (map rev space_encodings) (rev (trim_left space_encodings s)))"

lemma trim_left_length: "length (trim_left encs s) \<le> length s"
proof (induction encs s rule: trim_left.induct)
  case (1 encs s)
  then show ?case by (subst trim_left.simps) (auto intro: order_trans)
qed

lemma TrimSpace_length: "length (TrimSpace s) \<le> length s"
  unfolding TrimSpace_def by (metis length_rev order_trans trim_left_length)

lemma TrimSpace_Nil [simp]: "TrimSpace [] = []"
  by (simp add: TrimSpace_def trim_left.simps)

text \<open>\<^verbatim>\<open>strings.Split(s, c)\<close> for a one-byte separator, and \<^verbatim>\<open>strings.Join\<close>.\<close>

fun split_on :: "char \<Rightarrow> string \<Rightarrow> string list" where
  "split_on c [] = [[]]"
| "split_on c (x # xs) =
     (if x = c then [] # split_on c xs
      else case split_on c xs of [] \<Rightarrow> [[x]] | p # ps \<Rightarrow> (x # p) # ps)"

fun join_with :: "char \<Rightarrow> string list \<Rightarrow> string" where
  "join_with c [] = []"
| "join_with c [p] = p"
| "join_with c (p # q # ps) = p @ c # join_with c (q # ps)"

lemma split_on_not_Nil [simp]: "split_on c s \<noteq> []"
  by (induction s) (auto split: list.splits)

lemma join_split [simp]: "join_with c (split_on c s) = s"
proof (induction s)
  case Nil
  then show ?case by simp
next
  case (Cons x xs)
  obtain p ps where sp: "split_on c xs = p # ps"
    by (cases "split_on c xs") auto
  with Cons.IH have "join_with c (p # ps) = xs" by simp
  with sp show ?case by (cases ps) auto
qed

lemma split_on_no_sep: "p \<in> set (split_on c s) \<Longrightarrow> c \<notin> set p"
  by (induction s arbitrary: p) (fastforce split: list.splits if_splits)+

lemma split_on_append_sep:
  "c \<notin> set p \<Longrightarrow> split_on c (p @ c # s) = p # split_on c s"
  by (induction p) (auto split: list.splits)

lemma split_on_single: "c \<notin> set p \<Longrightarrow> split_on c p = [p]"
  by (induction p) auto

lemma split_join:
  "ps \<noteq> [] \<Longrightarrow> (\<And>p. p \<in> set ps \<Longrightarrow> c \<notin> set p) \<Longrightarrow> split_on c (join_with c ps) = ps"
proof (induction c ps rule: join_with.induct)
  case (3 c p q ps)
  then show ?case by (simp add: split_on_append_sep)
qed (auto simp: split_on_single)

section \<open>Slash-separated paths\<close>

text \<open>
  \<^verbatim>\<open>path.Clean\<close>: empty and ``.'' elements go, ``..'' removes the element before it, a leading
  ``..'' stays in a relative path and goes in a rooted one, and the empty result is ``.''. The
  elements kept so far are a stack, innermost first.
\<close>

definition clean_step :: "bool \<Rightarrow> string list \<Rightarrow> string \<Rightarrow> string list" where
  "clean_step rooted stack c =
     (if c = '''' \<or> c = ''.'' then stack
      else if c = ''..'' then
        (case stack of
           [] \<Rightarrow> if rooted then [] else [''..'']
         | up # rest \<Rightarrow> if up = ''..'' then ''..'' # stack else rest)
      else c # stack)"

definition path_is_abs :: "string \<Rightarrow> bool" where
  "path_is_abs s = HasPrefix s ''/''"

definition clean_elements :: "string \<Rightarrow> string list" where
  "clean_elements s = rev (foldl (clean_step (path_is_abs s)) [] (split_on (CHR ''/'') s))"

definition path_clean :: "string \<Rightarrow> string" where
  "path_clean s =
     (let body = (if path_is_abs s then ''/'' else '''') @ join_with (CHR ''/'') (clean_elements s)
      in if body = '''' then ''.'' else body)"

text \<open>\<^verbatim>\<open>path.Base\<close>: the last element, ``.'' for the empty path, ``/'' for a path of slashes only.\<close>

definition path_base :: "string \<Rightarrow> string" where
  "path_base s =
     (if s = '''' then ''.''
      else let t = rev (dropWhile (\<lambda>c. c = CHR ''/'') (rev s))
           in if t = '''' then ''/'' else last (split_on (CHR ''/'') t))"

definition ordinary_element :: "string \<Rightarrow> bool" where
  "ordinary_element c \<longleftrightarrow> c \<noteq> '''' \<and> c \<noteq> ''.'' \<and> c \<noteq> ''..'' \<and> CHR ''/'' \<notin> set c"

definition clean_stack :: "string list \<Rightarrow> bool" where
  "clean_stack st \<longleftrightarrow> (\<exists>us k. st = us @ replicate k ''..'' \<and> list_all ordinary_element us)"

lemma clean_stack_Nil [intro, simp]: "clean_stack []"
  by (auto simp: clean_stack_def)

lemma clean_step_stack:
  assumes "clean_stack st" "CHR ''/'' \<notin> set c"
  shows "clean_stack (clean_step rooted st c)"
proof -
  from assms(1) obtain us k where st: "st = us @ replicate k ''..''" "list_all ordinary_element us"
    unfolding clean_stack_def by blast
  have up: "clean_stack (''..'' # replicate k ''..'')" for k
    unfolding clean_stack_def by (rule exI [of _ "[]"], rule exI [of _ "Suc k"]) simp
  have one: "clean_stack [''..'']" using up [of 0] by simp
  have rest: "list_all ordinary_element vs \<Longrightarrow> clean_stack (vs @ replicate k ''..'')" for vs
    unfolding clean_stack_def by blast
  have add: "ordinary_element c \<Longrightarrow> clean_stack (c # st)"
    using rest [of "c # us"] st by simp
  show ?thesis
  proof (cases us)
    case Nil
    with st add up [of k] one assms show ?thesis
      by (cases k) (auto simp: clean_step_def ordinary_element_def)
  next
    case (Cons u vs)
    with st add rest [of vs] assms show ?thesis
      by (auto simp: clean_step_def ordinary_element_def)
  qed
qed

lemma foldl_clean_stack:
  "clean_stack st \<Longrightarrow> list_all (\<lambda>c. CHR ''/'' \<notin> set c) cs \<Longrightarrow>
   clean_stack (foldl (clean_step rooted) st cs)"
  by (induction cs arbitrary: st) (auto intro: clean_step_stack)

lemma clean_elements_shape:
  "\<exists>us k. clean_elements s = replicate k ''..'' @ us \<and> list_all ordinary_element us"
proof -
  have "clean_stack (foldl (clean_step (path_is_abs s)) [] (split_on (CHR ''/'') s))"
    by (rule foldl_clean_stack) (auto simp: list_all_iff dest: split_on_no_sep)
  then obtain us k where
    "foldl (clean_step (path_is_abs s)) [] (split_on (CHR ''/'') s) = us @ replicate k ''..''"
    and us: "list_all ordinary_element us"
    unfolding clean_stack_def by blast
  then have "clean_elements s = replicate k ''..'' @ rev us"
    by (simp add: clean_elements_def)
  moreover from us have "list_all ordinary_element (rev us)" by simp
  ultimately show ?thesis by blast
qed

lemma join_with_prefix_parent:
  "HasPrefix (join_with (CHR ''/'') (''..'' # ps)) ''../'' \<or> join_with (CHR ''/'') (''..'' # ps) = ''..''"
  by (cases ps) (auto simp: HasPrefix_def)

text \<open>
  The lemma the path checks rest on: a relative path that \<^verbatim>\<open>path.Clean\<close> leaves alone and that is
  neither ``.'' nor ``..'' nor below ``../'' consists of ordinary elements only.
\<close>

lemma clean_path_ordinary:
  assumes clean: "path_clean s = s" and rel: "\<not> path_is_abs s"
    and "s \<noteq> ''.''" "s \<noteq> ''..''" "\<not> HasPrefix s ''../''"
  shows "list_all ordinary_element (split_on (CHR ''/'') s)"
proof -
  let ?es = "clean_elements s"
  obtain us k where es: "?es = replicate k ''..'' @ us" and us: "list_all ordinary_element us"
    using clean_elements_shape by blast
  from clean rel assms(3) have j: "join_with (CHR ''/'') ?es = s" and ne: "s \<noteq> ''''"
    by (auto simp: path_clean_def Let_def split: if_splits)
  have k: "k = 0"
  proof (rule ccontr)
    assume "k \<noteq> 0"
    then obtain n where "?es = ''..'' # (replicate n ''..'' @ us)"
      using es by (cases k) auto
    with j join_with_prefix_parent [of "replicate n ''..'' @ us"] assms(4,5) show False by auto
  qed
  with es us j ne have "?es \<noteq> []" "list_all ordinary_element ?es" by auto
  then have "split_on (CHR ''/'') (join_with (CHR ''/'') ?es) = ?es"
    by (intro split_join) (auto simp: list_all_iff ordinary_element_def)
  with j \<open>list_all ordinary_element ?es\<close> show ?thesis by simp
qed

section \<open>Sorting with a comparison function\<close>

text \<open>
  \<^verbatim>\<open>sort.Slice\<close> takes a \<^verbatim>\<open>less\<close> function and leaves the order of equal elements unspecified. The
  model sorts by insertion. The locale states the contract: for any strict weak order the result
  is a sorted permutation, and where no two different elements are equivalent it is the only
  one, so whatever algorithm the runtime uses returns the same list.
\<close>

fun insert_by :: "('a \<Rightarrow> 'a \<Rightarrow> bool) \<Rightarrow> 'a \<Rightarrow> 'a list \<Rightarrow> 'a list" where
  "insert_by lt x [] = [x]"
| "insert_by lt x (y # ys) = (if lt y x then y # insert_by lt x ys else x # y # ys)"

definition sort_slice :: "('a \<Rightarrow> 'a \<Rightarrow> bool) \<Rightarrow> 'a list \<Rightarrow> 'a list" where
  "sort_slice lt xs = foldr (insert_by lt) xs []"

lemma mset_insert_by [simp]: "mset (insert_by lt x ys) = add_mset x (mset ys)"
  by (induction ys) auto

lemma mset_sort_slice [simp]: "mset (sort_slice lt xs) = mset xs"
  by (induction xs) (auto simp: sort_slice_def)

lemma set_sort_slice [simp]: "set (sort_slice lt xs) = set xs"
  by (metis mset_sort_slice set_mset_mset)

lemma length_sort_slice [simp]: "length (sort_slice lt xs) = length xs"
  by (metis mset_sort_slice size_mset)

lemma sort_slice_Nil_iff [simp]: "sort_slice lt xs = [] \<longleftrightarrow> xs = []"
  by (metis length_0_conv length_sort_slice)

lemma distinct_sort_slice [simp]: "distinct (sort_slice lt xs) \<longleftrightarrow> distinct xs"
  by (metis mset_eq_imp_distinct_iff mset_sort_slice)

locale slice_order =
  fixes lt :: "'a \<Rightarrow> 'a \<Rightarrow> bool"
  assumes less_asym: "lt x y \<Longrightarrow> \<not> lt y x"
    and not_less_trans: "\<not> lt y x \<Longrightarrow> \<not> lt z y \<Longrightarrow> \<not> lt z x"
begin

lemma sorted_insert_by:
  "sorted_wrt (\<lambda>a b. \<not> lt b a) ys \<Longrightarrow> sorted_wrt (\<lambda>a b. \<not> lt b a) (insert_by lt x ys)"
proof (induction ys)
  case Nil
  then show ?case by simp
next
  case (Cons y ys)
  have set_ins: "set (insert_by lt x ys) = insert x (set ys)"
    by (metis mset_insert_by set_mset_add_mset_insert set_mset_mset)
  show ?case
  proof (cases "lt y x")
    case True
    with Cons set_ins show ?thesis by (auto dest: less_asym)
  next
    case False
    then have "\<not> lt z x" if "z \<in> set ys" for z
      using Cons.prems that not_less_trans [of y x z] by auto
    with False Cons.prems show ?thesis by auto
  qed
qed

lemma sorted_sort_slice: "sorted_wrt (\<lambda>a b. \<not> lt b a) (sort_slice lt xs)"
  by (induction xs) (auto simp: sort_slice_def intro: sorted_insert_by)

lemma hd_sort_slice_least:
  assumes "xs \<noteq> []" "y \<in> set xs"
  shows "\<not> lt y (hd (sort_slice lt xs))"
proof -
  obtain z zs where s: "sort_slice lt xs = z # zs"
    using assms(1) by (cases "sort_slice lt xs") (auto dest: sort_slice_Nil_iff [THEN iffD1])
  have "set (z # zs) = set xs" using set_sort_slice [of lt xs] s by simp
  with assms(2) have "y = z \<or> y \<in> set zs" by auto
  moreover from sorted_sort_slice [of xs] s have "\<forall>b\<in>set zs. \<not> lt b z" by simp
  ultimately show ?thesis using s less_asym by auto
qed

lemma sorted_unique:
  assumes "mset ys = mset xs" "sorted_wrt (\<lambda>a b. \<not> lt b a) ys"
    and "sorted_wrt (\<lambda>a b. \<not> lt b a) xs"
    and total: "\<And>a b. a \<in> set xs \<Longrightarrow> b \<in> set xs \<Longrightarrow> \<not> lt a b \<Longrightarrow> \<not> lt b a \<Longrightarrow> a = b"
  shows "ys = xs"
  using assms
proof (induction xs arbitrary: ys)
  case Nil
  then show ?case by simp
next
  case (Cons x xs)
  from Cons.prems(1) obtain y zs where ys: "ys = y # zs" by (cases ys) auto
  have mem: "y \<in> set (x # xs)" "x \<in> set (y # zs)"
    using Cons.prems(1) ys by (metis list.set_intros(1) set_mset_mset)+
  have "\<not> lt y x" "\<not> lt x y"
    using mem Cons.prems(2,3) ys less_asym by auto
  with mem(1) Cons.prems(4) have "y = x" by auto
  with Cons.prems ys have "zs = xs" by (intro Cons.IH) auto
  with ys \<open>y = x\<close> show ?case by simp
qed

lemma sort_slice_unique:
  assumes "mset ys = mset xs" "sorted_wrt (\<lambda>a b. \<not> lt b a) ys"
    and "\<And>a b. a \<in> set xs \<Longrightarrow> b \<in> set xs \<Longrightarrow> \<not> lt a b \<Longrightarrow> \<not> lt b a \<Longrightarrow> a = b"
  shows "ys = sort_slice lt xs"
  by (rule sorted_unique) (use assms sorted_sort_slice in auto)

end

end
