(* ===== verification/Types.thy ===== *)
theory Types
  imports Prelude
begin

text \<open>
  The data of \<^verbatim>\<open>internal/domain/types.go\<close>: one \<^theory_text>\<open>datatype\<close> per string enumeration, one \<^theory_text>\<open>record\<close> per
  struct, fields in the source's order and named \<open><struct>_<field>\<close>. Strings of an enumeration
  that the constants do not name (an agent can send any text) are the constructor with a string
  argument. Pointers are options, \<^verbatim>\<open>time.Time\<close> is nanoseconds since the Unix epoch, \<^verbatim>\<open>int64\<close>
  and \<^verbatim>\<open>int\<close> are \<open>int\<close> (operations on them wrap by \<open>i64\<close> where they can overflow).
\<close>

type_synonym gotime = int

text \<open>The zero \<^verbatim>\<open>time.Time\<close>, 0001-01-01T00:00:00Z.\<close>

definition zero_time :: gotime where
  "zero_time = - 62135596800 * 1000000000"

text \<open>Values decoded from JSON objects (\<^verbatim>\<open>map[string]any\<close>); numbers keep their literal text.\<close>

datatype json =
    JNull
  | JBool bool
  | JNum string
  | JStr string
  | JArr "json list"
  | JObj "(string \<times> json) list"

section \<open>Enumerations\<close>

datatype Role = RoleAdmin | RoleMember | RoleOther string

datatype JobStatus =
    JobQueued
  | JobAssigned
  | JobPullingImage
  | JobStarting
  | JobRunning
  | JobStopping
  | JobCancelled
  | JobSucceeded
  | JobFailed
  | JobLost
  | JobDeleting
  | JobDeleted
  | JobStatusOther string

datatype NodeStatus = NodeOnline | NodeDraining | NodeOffline | NodeDegraded | NodeStatusOther string

datatype BuildStatus =
    BuildCreated | BuildAnalyzing | BuildBuilding | BuildSucceeded | BuildFailed | BuildCancelled

datatype BuildMode = BuildModeRailpack | BuildModeDockerfile | BuildModeOther string

datatype BuildAssignmentStatus =
    BuildAssignmentPending
  | BuildAssignmentRunning
  | BuildAssignmentSucceeded
  | BuildAssignmentFailed
  | BuildAssignmentCancelled
  | BuildAssignmentOther string

section \<open>Source builds\<close>

record BuildSource =
  src_Filename :: string
  src_Size :: int
  src_SHA256 :: string

record Build =
  build_ID :: string
  build_OwnerID :: string
  build_Name :: string
  build_Mode :: BuildMode
  build_Status :: BuildStatus
  build_Source :: BuildSource
  build_ContextPath :: string
  build_DockerfilePath :: string
  build_OCIDigest :: string
  build_ArtifactReference :: string
  build_ArtifactAvailable :: bool
  build_FailureReason :: string
  build_CreatedAt :: gotime
  build_StartedAt :: "gotime option"
  build_FinishedAt :: "gotime option"
  build_Version :: int

record ManagedArtifact =
  art_BuildID :: string
  art_OwnerID :: string
  art_Digest :: string
  art_SHA256 :: string
  art_Size :: int
  art_MediaType :: string
  art_RuntimeImage :: string
  art_CreatedAt :: gotime
  art_LastReferencedAt :: gotime

record BuildEvent =
  bev_ID :: int
  bev_BuildID :: string
  bev_Status :: BuildStatus
  bev_Message :: string
  bev_CreatedAt :: gotime

record BuildPlan =
  plan_BuildID :: string
  plan_Provider :: string
  plan_Runtime :: string
  plan_PackageManager :: string
  plan_Entrypoint :: string
  plan_RailpackVersion :: string
  plan_Plan :: string
  plan_Info :: string
  plan_CreatedAt :: gotime
  plan_ConfirmedAt :: "gotime option"

record BuildAssignment =
  basg_ID :: string
  basg_BuildID :: string
  basg_Status :: BuildAssignmentStatus
  basg_CancelRequested :: bool
  basg_BuilderID :: string
  basg_LeaseExpiresAt :: "gotime option"
  basg_CreatedAt :: gotime
  basg_UpdatedAt :: gotime

record BuildWork =
  work_Assignment :: BuildAssignment
  work_Build :: Build
  work_Plan :: "BuildPlan option"

section \<open>Jobs\<close>

record GPURequest =
  gpureq_Count :: int
  gpureq_MinVRAMBytes :: int
  gpureq_UUIDs :: "string list"

record Resources =
  res_CPUMillis :: int
  res_CPUPackageID :: string
  res_MemoryBytes :: int
  res_GPU :: GPURequest

record SecretRef =
  ref_Name :: string
  ref_Target :: string
  ref_Mode :: string

record InputFile =
  input_Path :: string
  input_Size :: int
  input_SHA256 :: string

record JobSpec =
  spec_Name :: string
  spec_Image :: string
  spec_Command :: "string list"
  spec_WorkingDirectory :: string
  spec_Environment :: "string gomap"
  spec_SecretRefs :: "SecretRef list"
  spec_RegistrySecret :: string
  spec_Resources :: Resources
  spec_Labels :: "string gomap"
  spec_NodeSelector :: "string gomap"
  spec_TargetNodeID :: string
  spec_Inputs :: "InputFile list"

record Job =
  job_ID :: string
  job_OwnerID :: string
  job_Spec :: JobSpec
  job_Status :: JobStatus
  job_DesiredStatus :: JobStatus
  job_ObservedStatus :: JobStatus
  job_AssignedNodeID :: string
  job_AttemptID :: string
  job_ImageDigest :: string
  job_ExitCode :: "int option"
  job_QueueReasonCode :: string
  job_QueueReason :: string
  job_FailureReason :: string
  job_CreatedAt :: gotime
  job_StartedAt :: "gotime option"
  job_FinishedAt :: "gotime option"
  job_DeletedAt :: "gotime option"
  job_Version :: int

record OutputFile =
  output_Path :: string
  output_Size :: int
  output_SHA256 :: string

record JobAttempt =
  attempt_ID :: string
  attempt_JobID :: string
  attempt_AttemptNumber :: int
  attempt_NodeID :: string
  attempt_CPUPackageID :: string
  attempt_GPUUUIDs :: "string list"
  attempt_Status :: JobStatus
  attempt_ImageDigest :: string
  attempt_ExitCode :: "int option"
  attempt_FailureReason :: string
  attempt_Outputs :: "OutputFile list"
  attempt_CreatedAt :: gotime
  attempt_StartedAt :: "gotime option"
  attempt_FinishedAt :: "gotime option"

section \<open>Execution nodes\<close>

record GPU =
  gpu_UUID :: string
  gpu_Model :: string
  gpu_VRAMBytes :: int
  gpu_PCIBusID :: string
  gpu_DriverVersion :: string
  gpu_ComputeCapability :: string
  gpu_UtilizationBasisPoints :: "int option"
  gpu_UtilizationAverageBasisPoints :: "int option"
  gpu_UtilizationPeakBasisPoints :: "int option"
  gpu_UtilizationSampledAt :: "gotime option"
  gpu_UtilizationWindowSeconds :: int
  gpu_UtilizationSampleCount :: int
  gpu_MemoryUsedBytes :: "int option"
  gpu_TemperatureCelsius :: "int option"
  gpu_Allocated :: bool
  gpu_AllocatedJobID :: string

record CPUPackage =
  pkg_ID :: string
  pkg_Vendor :: string
  pkg_Model :: string
  pkg_PhysicalCores :: int
  pkg_LogicalCPUs :: "int list"
  pkg_TotalMillis :: int
  pkg_AllocatedMillis :: int

record NodeSystemInfo =
  sys_Hostname :: string
  sys_OperatingSystem :: string
  sys_OSVersion :: string
  sys_OSType :: string
  sys_KernelVersion :: string
  sys_Architecture :: string

record NodeRuntimeInfo =
  rt_DockerVersion :: string
  rt_StorageDriver :: string
  rt_CgroupDriver :: string
  rt_CgroupVersion :: string

record GPUDiscovery =
  disc_Status :: string
  disc_ErrorCode :: string
  disc_Message :: string

record Node =
  node_ID :: string
  node_Name :: string
  node_Status :: NodeStatus
  node_AgentVersion :: string
  node_ProtocolVersion :: int
  node_Architecture :: string
  node_DockerVersion :: string
  node_CPUTotalMillis :: int
  node_CPUAllocatedMillis :: int
  node_MemoryTotalBytes :: int
  node_MemoryAllocatedBytes :: int
  node_WorkspaceTotalBytes :: int
  node_WorkspaceFreeBytes :: int
  node_Labels :: "string gomap"
  node_Capabilities :: "string list"
  node_CPUPackages :: "CPUPackage list"
  node_GPUs :: "GPU list"
  node_GPUDiscovery :: GPUDiscovery
  node_System :: NodeSystemInfo
  node_Runtime :: NodeRuntimeInfo
  node_LastHeartbeat :: gotime
  node_CreatedAt :: gotime

section \<open>Assignments, checkpoints and events\<close>

record Assignment =
  asg_ID :: string
  asg_JobID :: string
  asg_AttemptID :: string
  asg_Spec :: JobSpec
  asg_GPUUUIDs :: "string list"
  asg_CPUPackageID :: string
  asg_CPUSet :: string
  asg_JobToken :: string
  asg_JobTokenEncrypted :: string
  asg_Secrets :: "string gomap"
  asg_RegistryAuth :: string
  asg_ManagedArtifact :: "ManagedArtifact option"
  asg_CreatedAt :: gotime
  asg_EventSequence :: int

record CheckpointSync =
  sync_Cursor :: int
  sync_ID :: string
  sync_JobID :: string
  sync_AttemptID :: string
  sync_Status :: string
  sync_FileCount :: int
  sync_ByteCount :: int
  sync_RequestedAt :: gotime
  sync_ConfirmedAt :: "gotime option"
  sync_Label :: string
  sync_Step :: "int option"
  sync_ObservedAt :: "gotime option"
  sync_Metadata :: "json gomap"

record CheckpointFile =
  ckfile_Path :: string
  ckfile_Size :: int

record Event =
  event_ID :: int
  event_JobID :: string
  event_AttemptID :: string
  event_Sequence :: int
  event_Type :: string
  event_Status :: JobStatus
  event_Payload :: "json gomap"
  event_CreatedAt :: gotime

section \<open>Lifecycle tables\<close>

text \<open>\<^verbatim>\<open>IsActive\<close>: the job holds an attempt on a node.\<close>

fun IsActive :: "JobStatus \<Rightarrow> bool" where
  "IsActive JobAssigned = True"
| "IsActive JobPullingImage = True"
| "IsActive JobStarting = True"
| "IsActive JobRunning = True"
| "IsActive JobStopping = True"
| "IsActive JobLost = True"
| "IsActive _ = False"

text \<open>The rows of the table \<^verbatim>\<open>allowed\<close>; a missing row gives a nil map, which holds nothing.\<close>

fun allowed_transitions :: "JobStatus \<Rightarrow> JobStatus list" where
  "allowed_transitions JobQueued = [JobAssigned, JobCancelled, JobDeleting]"
| "allowed_transitions JobAssigned =
     [JobPullingImage, JobStarting, JobRunning, JobStopping, JobFailed, JobLost]"
| "allowed_transitions JobPullingImage = [JobStarting, JobStopping, JobFailed, JobLost]"
| "allowed_transitions JobStarting = [JobRunning, JobStopping, JobFailed, JobLost]"
| "allowed_transitions JobRunning = [JobStopping, JobSucceeded, JobFailed, JobLost]"
| "allowed_transitions JobStopping = [JobCancelled, JobFailed, JobLost]"
| "allowed_transitions JobLost = [JobRunning, JobStopping, JobSucceeded, JobFailed, JobCancelled]"
| "allowed_transitions JobCancelled = [JobDeleting]"
| "allowed_transitions JobSucceeded = [JobDeleting]"
| "allowed_transitions JobFailed = [JobDeleting]"
| "allowed_transitions JobDeleting = [JobDeleted]"
| "allowed_transitions _ = []"

definition CanTransition :: "JobStatus \<Rightarrow> JobStatus \<Rightarrow> bool" where
  "CanTransition from to = (if from = to then True else List.member (allowed_transitions from) to)"

fun allowed_build_transitions :: "BuildStatus \<Rightarrow> BuildStatus list" where
  "allowed_build_transitions BuildCreated =
     [BuildAnalyzing, BuildBuilding, BuildFailed, BuildCancelled]"
| "allowed_build_transitions BuildAnalyzing = [BuildBuilding, BuildFailed, BuildCancelled]"
| "allowed_build_transitions BuildBuilding = [BuildSucceeded, BuildFailed, BuildCancelled]"
| "allowed_build_transitions _ = []"

definition CanBuildTransition :: "BuildStatus \<Rightarrow> BuildStatus \<Rightarrow> bool" where
  "CanBuildTransition from to =
     (if from = to then True else List.member (allowed_build_transitions from) to)"

end
