(* ===== verification/Tables.thy ===== *)
theory Tables
  imports Types
begin

text \<open>
  The persistent state: the SQLite tables of \<^verbatim>\<open>internal/store/migrations\<close> as lists of rows, in rowid
  order, and the few statement forms the store uses on them. A \<^verbatim>\<open>NULL\<close> column is \<open>None\<close>; JSON columns hold
  the value that was marshalled; time columns hold the text \<^verbatim>\<open>formatTime\<close> writes.
\<close>

section \<open>Times as text\<close>

text \<open>
  \<^verbatim>\<open>formatTime\<close> writes RFC 3339 with the fraction's trailing zeros dropped, and no fraction at all
  when it is zero. SQL compares the text. The part up to the seconds has a fixed width and, for
  the years 0 to 9999, orders as the seconds do; it is kept as the number of seconds. The rest of
  the text is kept as it is.
\<close>

datatype stamp = Stamp int string

fun frac_digits :: "nat \<Rightarrow> nat \<Rightarrow> string" where
  "frac_digits 0 n = []"
| "frac_digits (Suc k) n = char_of (48 + n div 10 ^ k mod 10) # frac_digits k n"

definition drop_trailing_zeros :: "string \<Rightarrow> string" where
  "drop_trailing_zeros s = rev (dropWhile (\<lambda>c. c = CHR ''0'') (rev s))"

definition frac_text :: "nat \<Rightarrow> string" where
  "frac_text n =
     (let ds = drop_trailing_zeros (frac_digits 9 n)
      in if ds = [] then ''Z'' else CHR ''.'' # ds @ ''Z'')"

definition formatTime :: "gotime \<Rightarrow> stamp" where
  "formatTime t = Stamp (t div 1000000000) (frac_text (nat (t mod 1000000000)))"

text \<open>The order of the text: the fixed-width part first, then the fractions byte by byte.\<close>

fun stamp_less :: "stamp \<Rightarrow> stamp \<Rightarrow> bool" where
  "stamp_less (Stamp s f) (Stamp s' f') = (s < s' \<or> s = s' \<and> f < f')"

text \<open>\<^verbatim>\<open>time.Parse\<close> of such a text: the digits of the fraction count tenths, hundredths and so on.\<close>

fun frac_value :: "nat \<Rightarrow> string \<Rightarrow> nat" where
  "frac_value 0 ds = 0"
| "frac_value (Suc k) [] = 0"
| "frac_value (Suc k) (d # ds) = (of_char d - 48) * 10 ^ k + frac_value k ds"

fun parseTime :: "stamp \<Rightarrow> gotime" where
  "parseTime (Stamp s f) =
     s * 1000000000 + (if f = ''Z'' then 0 else int (frac_value 9 (butlast (tl f))))"

lemma digit_value: "(of_char (char_of (48 + n mod 10) :: char) :: nat) = 48 + n mod 10" for n :: nat
proof -
  have "48 + n mod 10 < 256" using mod_less_divisor [of 10 n] by linarith
  then show ?thesis by simp
qed

lemma frac_value_Nil [simp]: "frac_value k [] = 0"
  by (cases k) auto

lemma frac_value_digits: "frac_value k (frac_digits k n) = n mod 10 ^ k"
proof (induction k)
  case 0
  then show ?case by simp
next
  case (Suc k)
  have "n mod (10 ^ k * 10) = 10 ^ k * (n div 10 ^ k mod 10) + n mod 10 ^ k"
    by (rule mod_mult2_eq)
  with Suc show ?case by (simp add: digit_value algebra_simps)
qed

lemma frac_value_zeros: "frac_value k (ds @ replicate m (CHR ''0'')) = frac_value k ds"
proof (induction k ds rule: frac_value.induct)
  case (2 k)
  have "frac_value j (replicate m (CHR ''0'')) = 0" for j
    by (induction m arbitrary: j) (case_tac j; simp)+
  then show ?case by simp
qed auto

lemma drop_trailing_zeros_split:
  "\<exists>m. s = drop_trailing_zeros s @ replicate m (CHR ''0'')"
proof -
  let ?z = "takeWhile (\<lambda>c. c = CHR ''0'') (rev s)"
  have "?z = replicate (length ?z) (CHR ''0'')"
    by (auto simp: list_eq_iff_nth_eq dest: nth_mem set_takeWhileD)
  moreover have "s = drop_trailing_zeros s @ rev ?z"
    unfolding drop_trailing_zeros_def by (metis rev_append rev_rev_ident takeWhile_dropWhile_id)
  ultimately show ?thesis by (metis rev_replicate)
qed

lemma parse_frac_text:
  assumes "n < 1000000000"
  shows "(if frac_text n = ''Z'' then 0 else frac_value 9 (butlast (tl (frac_text n)))) = n"
proof -
  let ?ds = "frac_digits 9 n"
  have "frac_value 9 ?ds = n" using frac_value_digits [of 9 n] assms by simp
  moreover have "frac_value 9 ?ds = frac_value 9 (drop_trailing_zeros ?ds)"
    using drop_trailing_zeros_split [of ?ds] frac_value_zeros by metis
  ultimately have v: "frac_value 9 (drop_trailing_zeros ?ds) = n" by simp
  show ?thesis
  proof (cases "drop_trailing_zeros ?ds = []")
    case True
    with v have "n = 0" by (simp only: frac_value_Nil)
    moreover from True have "frac_text n = ''Z''" by (simp add: frac_text_def)
    ultimately show ?thesis by simp
  next
    case False
    then have "frac_text n = CHR ''.'' # drop_trailing_zeros ?ds @ ''Z''"
      by (simp add: frac_text_def Let_def)
    then have "frac_text n \<noteq> ''Z''" "butlast (tl (frac_text n)) = drop_trailing_zeros ?ds"
      by simp_all
    with v show ?thesis by (simp only: if_False)
  qed
qed

lemma parse_formatTime: "parseTime (formatTime t) = t"
proof -
  define f where "f = frac_text (nat (t mod 1000000000))"
  have n: "nat (t mod 1000000000) < 1000000000" by simp
  from parse_frac_text [OF n]
  have "int (if f = ''Z'' then 0 else frac_value 9 (butlast (tl f))) = t mod 1000000000"
    unfolding f_def by simp
  then have "(if f = ''Z'' then 0 else int (frac_value 9 (butlast (tl f)))) = t mod 1000000000"
    by (simp split: if_splits)
  then have "parseTime (Stamp (t div 1000000000) f) = t div 1000000000 * 1000000000 + t mod 1000000000"
    unfolding parseTime.simps by (simp only:)
  then show ?thesis by (simp add: formatTime_def f_def)
qed

text \<open>Different seconds order as the times do; the same second need not.\<close>

lemma stamp_less_seconds:
  "t div 1000000000 < u div 1000000000 \<Longrightarrow> stamp_less (formatTime t) (formatTime u)"
  by (simp add: formatTime_def)

section \<open>Statements\<close>

text \<open>\<^verbatim>\<open>UPDATE\<close> with its number of affected rows, \<^verbatim>\<open>DELETE\<close>, \<^verbatim>\<open>INSERT\<close> under a unique key, and \<^verbatim>\<open>ORDER BY\<close>.\<close>

definition update_where :: "('r \<Rightarrow> bool) \<Rightarrow> ('r \<Rightarrow> 'r) \<Rightarrow> 'r list \<Rightarrow> 'r list" where
  "update_where P f t = map (\<lambda>r. if P r then f r else r) t"

definition rows_affected :: "('r \<Rightarrow> bool) \<Rightarrow> 'r list \<Rightarrow> nat" where
  "rows_affected P t = length (filter P t)"

definition delete_where :: "('r \<Rightarrow> bool) \<Rightarrow> 'r list \<Rightarrow> 'r list" where
  "delete_where P t = filter (\<lambda>r. \<not> P r) t"

definition has_row :: "('r \<Rightarrow> bool) \<Rightarrow> 'r list \<Rightarrow> bool" where
  "has_row P t = list_ex P t"

definition order_by :: "('r \<Rightarrow> stamp) \<Rightarrow> 'r list \<Rightarrow> 'r list" where
  "order_by col t = sort_slice (\<lambda>a b. stamp_less (col a) (col b)) t"

text \<open>\<^verbatim>\<open>COALESCE(MAX(col),0)\<close> and \<^verbatim>\<open>COALESCE(a,b)\<close>.\<close>

definition max_or_zero :: "int list \<Rightarrow> int" where
  "max_or_zero xs = (case xs of [] \<Rightarrow> 0 | _ \<Rightarrow> Max (set xs))"

definition coalesce :: "'a option \<Rightarrow> 'a option \<Rightarrow> 'a option" where
  "coalesce a b = (case a of None \<Rightarrow> b | Some _ \<Rightarrow> a)"

definition text_of :: "string option \<Rightarrow> string" where
  "text_of c = (case c of None \<Rightarrow> '''' | Some s \<Rightarrow> s)"

definition nullable :: "string \<Rightarrow> string option" where
  "nullable v = (if v = '''' then None else Some v)"

lemma update_where_Nil [simp]: "update_where P f [] = []"
  by (simp add: update_where_def)

lemma update_where_Cons [simp]:
  "update_where P f (r # t) = (if P r then f r else r) # update_where P f t"
  by (simp add: update_where_def)

lemma length_update_where [simp]: "length (update_where P f t) = length t"
  by (simp add: update_where_def)

lemma map_key_update_where [simp]:
  "(\<And>r. key (f r) = key r) \<Longrightarrow> map key (update_where P f t) = map key t"
  by (induction t) auto

lemma set_update_where: "set (update_where P f t) = (\<lambda>r. if P r then f r else r) ` set t"
  by (simp add: update_where_def)

lemma update_where_none: "rows_affected P t = 0 \<Longrightarrow> update_where P f t = t"
  by (induction t) (auto simp: rows_affected_def split: if_splits)

lemma rows_affected_zero: "rows_affected P t = 0 \<longleftrightarrow> (\<forall>r\<in>set t. \<not> P r)"
  by (simp add: rows_affected_def filter_empty_conv)

lemma has_row_iff: "has_row P t \<longleftrightarrow> (\<exists>r\<in>set t. P r)"
  by (simp add: has_row_def list_ex_iff)

lemma set_delete_where [simp]: "set (delete_where P t) = {r\<in>set t. \<not> P r}"
  by (auto simp: delete_where_def)

lemma distinct_delete_where: "distinct (map key t) \<Longrightarrow> distinct (map key (delete_where P t))"
  by (simp add: delete_where_def distinct_map_filter)

lemma find_key: "distinct (map key t) \<Longrightarrow> r \<in> set t \<Longrightarrow> find (\<lambda>x. key x = key r) t = Some r"
  by (induction t) auto

lemma find_key_Some: "find (\<lambda>x. key x = k) t = Some r \<Longrightarrow> r \<in> set t \<and> key r = k"
  by (auto simp: find_Some_iff)

lemma find_update_where:
  "(\<And>r. key (f r) = key r) \<Longrightarrow>
   find (\<lambda>x. key x = k) (update_where P f t) =
   map_option (\<lambda>r. if P r then f r else r) (find (\<lambda>x. key x = k) t)"
  by (induction t) auto

lemma find_Some_in: "find P xs = Some x \<Longrightarrow> x \<in> set xs \<and> P x"
  by (auto simp: find_Some_iff)

lemma ball_update_where: "(\<forall>r\<in>set (update_where P f t). Q r) \<longleftrightarrow> (\<forall>r\<in>set t. Q (if P r then f r else r))"
  by (induction t) auto

lemma bex_update_where: "(\<exists>r\<in>set (update_where P f t). Q r) \<longleftrightarrow> (\<exists>r\<in>set t. Q (if P r then f r else r))"
  by (induction t) auto

lemma rows_affected_key:
  assumes "distinct (map key t)"
  shows "rows_affected (\<lambda>r. key r = k \<and> Q r) t \<le> 1"
  using assms by (induction t) (auto simp: rows_affected_def filter_empty_conv image_iff)

lemma rows_affected_one:
  assumes "distinct (map key t)"
  shows "rows_affected (\<lambda>r. key r = k \<and> Q r) t = 1 \<longleftrightarrow> (\<exists>r. find (\<lambda>x. key x = k) t = Some r \<and> Q r)"
  using assms
  by (induction t) (auto simp: rows_affected_def filter_empty_conv image_iff dest!: find_key_Some)

lemma max_or_zero_ge: "x \<in> set xs \<Longrightarrow> x \<le> max_or_zero xs"
  by (auto simp: max_or_zero_def split: list.splits)

lemma map_set_order_by [simp]: "set (order_by col t) = set t"
  by (simp add: order_by_def)

section \<open>Rows\<close>

record JobRow =
  jr_id :: string
  jr_owner_id :: string
  jr_spec :: JobSpec
  jr_status :: JobStatus
  jr_desired_status :: JobStatus
  jr_observed_status :: JobStatus
  jr_assigned_node_id :: "string option"
  jr_attempt_id :: "string option"
  jr_image_digest :: string
  jr_exit_code :: "int option"
  jr_queue_reason_code :: string
  jr_queue_reason :: string
  jr_failure_reason :: string
  jr_created_at :: stamp
  jr_started_at :: "stamp option"
  jr_finished_at :: "stamp option"
  jr_deleted_at :: "stamp option"
  jr_version :: int

record AttemptRow =
  ar_id :: string
  ar_job_id :: string
  ar_attempt_number :: int
  ar_node_id :: string
  ar_assignment_id :: string
  ar_container_id :: string
  ar_cpu_package_id :: string
  ar_gpu_uuids :: "string list"
  ar_status :: JobStatus
  ar_job_token_hash :: string
  ar_image_digest :: string
  ar_exit_code :: "int option"
  ar_failure_reason :: string
  ar_outputs :: "OutputFile list"
  ar_created_at :: stamp
  ar_started_at :: "stamp option"
  ar_finished_at :: "stamp option"

record AssignmentRow =
  as_id :: string
  as_job_id :: string
  as_attempt_id :: string
  as_node_id :: string
  as_gpu_uuids :: "string list"
  as_job_token_ciphertext :: string
  as_delivered_at :: "stamp option"
  as_accepted_at :: "stamp option"
  as_created_at :: stamp
  as_cpu_package_id :: string
  as_cpu_set :: string

record EventRow =
  ev_id :: int
  ev_job_id :: string
  ev_attempt_id :: "string option"
  ev_sequence :: int
  ev_type :: string
  ev_status :: JobStatus
  ev_payload :: "json gomap"
  ev_created_at :: stamp

record NodeRow =
  nr_id :: string
  nr_name :: string
  nr_name_override :: "string option"
  nr_status :: NodeStatus
  nr_agent_version :: string
  nr_protocol_version :: int
  nr_architecture :: string
  nr_docker_version :: string
  nr_cpu_total_millis :: int
  nr_memory_total_bytes :: int
  nr_workspace_total_bytes :: int
  nr_workspace_free_bytes :: int
  nr_labels :: "string gomap"
  nr_labels_override :: "string gomap option"
  nr_credential_hash :: string
  nr_credential_created_at :: stamp
  nr_previous_credential_hash :: "string option"
  nr_previous_credential_expires_at :: "stamp option"
  nr_last_heartbeat :: stamp
  nr_created_at :: stamp
  nr_gpu_discovery :: GPUDiscovery
  nr_capabilities :: "string list"
  nr_system :: NodeSystemInfo
  nr_runtime :: NodeRuntimeInfo
  nr_deleted_at :: "stamp option"

record CheckpointRow =
  cr_id :: string
  cr_job_id :: string
  cr_attempt_id :: string
  cr_requested_at :: stamp
  cr_confirmed_at :: "stamp option"
  cr_file_count :: int
  cr_byte_count :: int
  cr_manifest :: "CheckpointFile list"
  cr_label :: "string option"
  cr_step :: "int option"
  cr_observed_at :: "int option"
  cr_metadata :: "json gomap"

record BuildRow =
  br_id :: string
  br_owner_id :: string
  br_name :: string
  br_mode :: BuildMode
  br_status :: BuildStatus
  br_source :: BuildSource
  br_context_path :: string
  br_dockerfile_path :: string
  br_oci_digest :: string
  br_failure_reason :: string
  br_created_at :: stamp
  br_started_at :: "stamp option"
  br_finished_at :: "stamp option"
  br_version :: int

record BuildEventRow =
  ber_id :: int
  ber_build_id :: string
  ber_status :: BuildStatus
  ber_message :: string
  ber_created_at :: stamp

record BuildPlanRow =
  pr_build_id :: string
  pr_plan :: BuildPlan
  pr_created_at :: stamp
  pr_confirmed_at :: "stamp option"

record BuildAssignmentRow =
  bar_id :: string
  bar_build_id :: string
  bar_status :: BuildAssignmentStatus
  bar_cancel_requested :: bool
  bar_builder_id :: "string option"
  bar_lease_expires_at :: "stamp option"
  bar_created_at :: stamp
  bar_updated_at :: stamp

record ArtifactRow =
  mar_build_id :: string
  mar_owner_id :: string
  mar_digest :: string
  mar_sha256 :: string
  mar_size_bytes :: int
  mar_media_type :: string
  mar_runtime_image :: string
  mar_created_at :: stamp
  mar_last_referenced_at :: stamp

text \<open>The database. \<open>seq_*\<close> are the \<^verbatim>\<open>AUTOINCREMENT\<close> counters: the last id ever handed out.\<close>

record db =
  tbl_jobs :: "JobRow list"
  tbl_attempts :: "AttemptRow list"
  tbl_assignments :: "AssignmentRow list"
  tbl_events :: "EventRow list"
  seq_events :: int
  tbl_nodes :: "NodeRow list"
  tbl_gpus :: "(string \<times> GPU) list"
  tbl_cpu_packages :: "(string \<times> CPUPackage) list"
  tbl_checkpoints :: "CheckpointRow list"
  tbl_builds :: "BuildRow list"
  tbl_build_events :: "BuildEventRow list"
  seq_build_events :: int
  tbl_build_plans :: "BuildPlanRow list"
  tbl_build_assignments :: "BuildAssignmentRow list"
  tbl_artifacts :: "ArtifactRow list"

definition empty_db :: db where
  "empty_db = \<lparr>tbl_jobs = [], tbl_attempts = [], tbl_assignments = [], tbl_events = [], seq_events = 0,
     tbl_nodes = [], tbl_gpus = [], tbl_cpu_packages = [], tbl_checkpoints = [], tbl_builds = [],
     tbl_build_events = [], seq_build_events = 0, tbl_build_plans = [], tbl_build_assignments = [],
     tbl_artifacts = []\<rparr>"

text \<open>The errors of the store; \<open>ErrConstraint\<close> is a violated key or foreign key reported as it is.\<close>

datatype store_error =
    ErrNotFound
  | ErrConflict
  | ErrConstraint
  | ErrRawTelemetry
  | ErrInvalid

end
