(* ===== verification/Json.thy ===== *)
theory Json
  imports Prelude
begin

text \<open>
  \<^verbatim>\<open>json.Valid\<close> as the byte-driven machine of the standard library: the state is what may come
  next and a stack of the open objects and arrays. Every byte is read once, so the recognizer is
  a structural recursion over the text.
\<close>

datatype parse_ctx = ParseObjectKey | ParseObjectValue | ParseArrayValue

datatype scan_state =
    BeginValue
  | BeginValueOrEmpty
  | BeginStringOrEmpty
  | BeginString
  | EndValue
  | EndTop
  | InString
  | InStringEsc
  | InStringEscU nat
  | Neg
  | Num1
  | Num0
  | Dot
  | Dot0
  | ExpE
  | ExpSign
  | Exp0
  | Literal string

type_synonym scanner = "scan_state \<times> parse_ctx list"

definition json_space :: "char \<Rightarrow> bool" where
  "json_space c \<longleftrightarrow> c = CHR '' '' \<or> c = CHR 0x09 \<or> c = CHR 0x0D \<or> c = CHR 0x0A"

definition json_digit :: "char \<Rightarrow> bool" where
  "json_digit c \<longleftrightarrow> List.member ''0123456789'' c"

definition json_hex :: "char \<Rightarrow> bool" where
  "json_hex c \<longleftrightarrow> List.member ''0123456789abcdefABCDEF'' c"

definition max_nesting_depth :: nat where
  "max_nesting_depth = 10000"

definition push_state :: "parse_ctx \<Rightarrow> scan_state \<Rightarrow> parse_ctx list \<Rightarrow> scanner option" where
  "push_state ctx st stack =
     (if length (ctx # stack) \<le> max_nesting_depth then Some (st, ctx # stack) else None)"

definition pop_state :: "parse_ctx list \<Rightarrow> scanner option" where
  "pop_state stack =
     (case stack of [] \<Rightarrow> None | c # rest \<Rightarrow> Some (if rest = [] then EndTop else EndValue, rest))"

text \<open>What follows a complete value, by the innermost open container.\<close>

definition end_value :: "parse_ctx list \<Rightarrow> char \<Rightarrow> scanner option" where
  "end_value stack c =
     (case stack of
        [] \<Rightarrow> if json_space c then Some (EndTop, []) else None
      | ctx # rest \<Rightarrow>
          if json_space c then Some (EndValue, stack)
          else (case ctx of
              ParseObjectKey \<Rightarrow>
                if c = CHR '':'' then Some (BeginValue, ParseObjectValue # rest) else None
            | ParseObjectValue \<Rightarrow>
                if c = CHR '','' then Some (BeginString, ParseObjectKey # rest)
                else if c = CHR ''}'' then pop_state stack else None
            | ParseArrayValue \<Rightarrow>
                if c = CHR '','' then Some (BeginValue, stack)
                else if c = CHR '']'' then pop_state stack else None))"

definition begin_value :: "parse_ctx list \<Rightarrow> char \<Rightarrow> scanner option" where
  "begin_value stack c =
     (if json_space c then Some (BeginValue, stack)
      else if c = CHR ''{'' then push_state ParseObjectKey BeginStringOrEmpty stack
      else if c = CHR ''['' then push_state ParseArrayValue BeginValueOrEmpty stack
      else if c = CHR 0x22 then Some (InString, stack)
      else if c = CHR ''-'' then Some (Neg, stack)
      else if c = CHR ''0'' then Some (Num0, stack)
      else if c = CHR ''t'' then Some (Literal ''rue'', stack)
      else if c = CHR ''f'' then Some (Literal ''alse'', stack)
      else if c = CHR ''n'' then Some (Literal ''ull'', stack)
      else if json_digit c then Some (Num1, stack)
      else None)"

fun scan_byte :: "scanner \<Rightarrow> char \<Rightarrow> scanner option" where
  "scan_byte (BeginValue, k) c = begin_value k c"
| "scan_byte (BeginValueOrEmpty, k) c =
     (if json_space c then Some (BeginValueOrEmpty, k)
      else if c = CHR '']'' then end_value k c else begin_value k c)"
| "scan_byte (BeginStringOrEmpty, k) c =
     (if json_space c then Some (BeginStringOrEmpty, k)
      else if c = CHR ''}'' then
        (case k of [] \<Rightarrow> None | _ # rest \<Rightarrow> end_value (ParseObjectValue # rest) c)
      else if c = CHR 0x22 then Some (InString, k) else None)"
| "scan_byte (BeginString, k) c =
     (if json_space c then Some (BeginString, k)
      else if c = CHR 0x22 then Some (InString, k) else None)"
| "scan_byte (EndValue, k) c = end_value k c"
| "scan_byte (EndTop, k) c = (if json_space c then Some (EndTop, k) else None)"
| "scan_byte (InString, k) c =
     (if c = CHR 0x22 then Some (EndValue, k)
      else if c = CHR 0x5C then Some (InStringEsc, k)
      else if of_char c < (0x20 :: nat) then None else Some (InString, k))"
| "scan_byte (InStringEsc, k) c =
     (if List.member [CHR ''b'', CHR ''f'', CHR ''n'', CHR ''r'', CHR ''t'', CHR 0x5C, CHR ''/'', CHR 0x22] c
      then Some (InString, k)
      else if c = CHR ''u'' then Some (InStringEscU 4, k) else None)"
| "scan_byte (InStringEscU n, k) c =
     (if json_hex c then Some (if n \<le> 1 then InString else InStringEscU (n - 1), k) else None)"
| "scan_byte (Neg, k) c =
     (if c = CHR ''0'' then Some (Num0, k) else if json_digit c then Some (Num1, k) else None)"
| "scan_byte (Num1, k) c =
     (if json_digit c then Some (Num1, k)
      else if c = CHR ''.'' then Some (Dot, k)
      else if c = CHR ''e'' \<or> c = CHR ''E'' then Some (ExpE, k) else end_value k c)"
| "scan_byte (Num0, k) c =
     (if c = CHR ''.'' then Some (Dot, k)
      else if c = CHR ''e'' \<or> c = CHR ''E'' then Some (ExpE, k) else end_value k c)"
| "scan_byte (Dot, k) c = (if json_digit c then Some (Dot0, k) else None)"
| "scan_byte (Dot0, k) c =
     (if json_digit c then Some (Dot0, k)
      else if c = CHR ''e'' \<or> c = CHR ''E'' then Some (ExpE, k) else end_value k c)"
| "scan_byte (ExpE, k) c =
     (if c = CHR ''+'' \<or> c = CHR ''-'' then Some (ExpSign, k)
      else if json_digit c then Some (Exp0, k) else None)"
| "scan_byte (ExpSign, k) c = (if json_digit c then Some (Exp0, k) else None)"
| "scan_byte (Exp0, k) c = (if json_digit c then Some (Exp0, k) else end_value k c)"
| "scan_byte (Literal rest, k) c =
     (case rest of
        [] \<Rightarrow> None
      | x # xs \<Rightarrow> if c = x then Some (if xs = [] then EndValue else Literal xs, k) else None)"

fun scan_bytes :: "scanner \<Rightarrow> string \<Rightarrow> scanner option" where
  "scan_bytes st [] = Some st"
| "scan_bytes st (c # cs) = (case scan_byte st c of None \<Rightarrow> None | Some st' \<Rightarrow> scan_bytes st' cs)"

text \<open>At the end of the input the machine steps once on a space and must be at the top level.\<close>

definition json_valid :: "string \<Rightarrow> bool" where
  "json_valid s =
     (case scan_bytes (BeginValue, []) s of
        None \<Rightarrow> False
      | Some st \<Rightarrow>
          fst st = EndTop \<or>
          (case scan_byte st (CHR '' '') of None \<Rightarrow> False | Some st' \<Rightarrow> fst st' = EndTop))"

lemma json_valid_not_empty: "\<not> json_valid ''''"
  by code_simp

lemma json_valid_samples:
  "json_valid ''{}''" "json_valid ''{\"a\":[1,-2.5e3,true]}''" "\<not> json_valid ''{,}''"
  "\<not> json_valid ''[1,]''" "\<not> json_valid ''01''"
  by code_simp+

end
