(* ===== verification/Validate.thy ===== *)
theory Validate
  imports Types Json
begin

text \<open>
  \<^verbatim>\<open>internal/domain/validate.go\<close> and \<^verbatim>\<open>managed_artifact.go\<close>: the checks a build, a build plan, a build
  assignment, a managed artifact and a job specification must pass, each branch an error value
  of its own, in the order of the code; and what an accepted value is known to satisfy.
\<close>

section \<open>Patterns\<close>

definition ascii_letter :: "char \<Rightarrow> bool" where
  "ascii_letter c \<longleftrightarrow>
     (65 \<le> (of_char c :: nat) \<and> of_char c \<le> (90 :: nat)) \<or>
     (97 \<le> (of_char c :: nat) \<and> of_char c \<le> (122 :: nat))"

definition ascii_digit :: "char \<Rightarrow> bool" where
  "ascii_digit c \<longleftrightarrow> 48 \<le> (of_char c :: nat) \<and> of_char c \<le> (57 :: nat)"

definition lower_hex :: "char \<Rightarrow> bool" where
  "lower_hex c \<longleftrightarrow> List.member ''0123456789abcdef'' c"

text \<open>\<^verbatim>\<open>^[A-Za-z_][A-Za-z0-9_]*$\<close>, \<^verbatim>\<open>^[0-9a-f]{64}$\<close> and \<^verbatim>\<open>^sha256:[0-9a-f]{64}$\<close>.\<close>

definition envName :: "string \<Rightarrow> bool" where
  "envName s =
     (case s of
        [] \<Rightarrow> False
      | c # cs \<Rightarrow> (ascii_letter c \<or> c = CHR ''_'') \<and>
          list_all (\<lambda>x. ascii_letter x \<or> ascii_digit x \<or> x = CHR ''_'') cs)"

definition lowercaseSHA256 :: "string \<Rightarrow> bool" where
  "lowercaseSHA256 s \<longleftrightarrow> length s = 64 \<and> list_all lower_hex s"

definition ociDigest :: "string \<Rightarrow> bool" where
  "ociDigest s \<longleftrightarrow> HasPrefix s ''sha256:'' \<and> lowercaseSHA256 (drop 7 s)"

lemma ociDigest_not_empty [simp]: "\<not> ociDigest ''''"
  by (simp add: ociDigest_def HasPrefix_def)

section \<open>Builds\<close>

datatype build_error =
    BuildNameLength
  | BuildModeInvalid
  | SourceFilenameInvalid
  | SourceDigestInvalid
  | BuildContextInvalid
  | DockerfilePathInvalid
  | RailpackContextForbidden
  | SucceededWithoutDigest
  | DigestWithoutSuccess
  | DigestMalformed
  | FailureReasonMissing

datatype path_error = PathForm | PathNotNormalized

definition validateBuildRelativePath :: "string \<Rightarrow> bool \<Rightarrow> path_error + unit" where
  "validateBuildRelativePath v allowDot =
     (if v = '''' \<or> length v > 512 \<or> ContainsAny v [CHR 0x5C, CHR '':'', CHR 0x00] \<or> HasPrefix v ''/''
      then Inl PathForm
      else let cleaned = path_clean v in
        if cleaned = ''..'' \<or> HasPrefix cleaned ''../'' \<or> (\<not> allowDot \<and> cleaned = ''.'') \<or> cleaned \<noteq> v
        then Inl PathNotNormalized
        else Inr ())"

text \<open>The checks after the path settings, shared by both modes.\<close>

definition validate_build_outcome :: "Build \<Rightarrow> build_error + unit" where
  "validate_build_outcome b =
     (if build_Status b = BuildSucceeded \<and> \<not> ociDigest (build_OCIDigest b) then Inl SucceededWithoutDigest
      else if build_Status b \<noteq> BuildSucceeded \<and> build_OCIDigest b \<noteq> '''' then Inl DigestWithoutSuccess
      else if build_OCIDigest b \<noteq> '''' \<and> \<not> ociDigest (build_OCIDigest b) then Inl DigestMalformed
      else if build_Status b = BuildFailed \<and> TrimSpace (build_FailureReason b) = ''''
        then Inl FailureReasonMissing
      else Inr ())"

definition ValidateBuild :: "Build \<Rightarrow> build_error + unit" where
  "ValidateBuild b =
     (let n = length (TrimSpace (build_Name b)) in
      if n < 3 \<or> n > 120 then Inl BuildNameLength
      else if build_Mode b \<noteq> BuildModeRailpack \<and> build_Mode b \<noteq> BuildModeDockerfile
        then Inl BuildModeInvalid
      else if TrimSpace (src_Filename (build_Source b)) = '''' \<or> length (src_Filename (build_Source b)) > 255
        then Inl SourceFilenameInvalid
      else if src_Size (build_Source b) \<le> 0 \<or> \<not> lowercaseSHA256 (src_SHA256 (build_Source b))
        then Inl SourceDigestInvalid
      else if build_Mode b = BuildModeDockerfile then
        (let contextPath = (if build_ContextPath b = '''' then ''.'' else build_ContextPath b);
             dockerfilePath =
               (if build_DockerfilePath b = '''' then ''Dockerfile'' else build_DockerfilePath b)
         in if \<not> is_ok (validateBuildRelativePath contextPath True) then Inl BuildContextInvalid
            else if \<not> is_ok (validateBuildRelativePath dockerfilePath False) then Inl DockerfilePathInvalid
            else validate_build_outcome b)
      else if build_ContextPath b \<noteq> '''' \<or> build_DockerfilePath b \<noteq> '''' then Inl RailpackContextForbidden
      else validate_build_outcome b)"

datatype plan_error = PlanBuildIDMissing | PlanProviderInvalid | PlanSummaryTooLong | PlanJSONInvalid

definition ValidateBuildPlan :: "BuildPlan \<Rightarrow> plan_error + unit" where
  "ValidateBuildPlan p =
     (if TrimSpace (plan_BuildID p) = '''' then Inl PlanBuildIDMissing
      else if TrimSpace (plan_Provider p) = '''' \<or> length (plan_Provider p) > 128
        then Inl PlanProviderInvalid
      else if length (plan_Runtime p) > 256 \<or> length (plan_PackageManager p) > 256 \<or>
              length (plan_Entrypoint p) > 8192 \<or> length (plan_RailpackVersion p) > 128
        then Inl PlanSummaryTooLong
      else if \<not> json_valid (plan_Plan p) \<or> \<not> json_valid (plan_Info p) then Inl PlanJSONInvalid
      else Inr ())"

datatype build_assignment_error =
  AssignmentIDsMissing | AssignmentStatusInvalid | RunningWithoutBuilder

definition ValidateBuildAssignment :: "BuildAssignment \<Rightarrow> build_assignment_error + unit" where
  "ValidateBuildAssignment a =
     (if TrimSpace (basg_ID a) = '''' \<or> TrimSpace (basg_BuildID a) = '''' then Inl AssignmentIDsMissing
      else if \<not> List.member [BuildAssignmentPending, BuildAssignmentRunning, BuildAssignmentSucceeded,
                BuildAssignmentFailed, BuildAssignmentCancelled] (basg_Status a)
        then Inl AssignmentStatusInvalid
      else if basg_Status a = BuildAssignmentRunning \<and> TrimSpace (basg_BuilderID a) = ''''
        then Inl RunningWithoutBuilder
      else Inr ())"

section \<open>Managed artifacts\<close>

definition ManagedImageMediaType :: string where
  "ManagedImageMediaType = ''application/vnd.jobdock.image.archive.v1+tar''"

datatype artifact_error =
  ArtifactIDsMissing | ArtifactDigestsInvalid | ArtifactSizeOrType | ArtifactRuntimeImage | ArtifactTimes

definition ValidateManagedArtifact :: "ManagedArtifact \<Rightarrow> artifact_error + unit" where
  "ValidateManagedArtifact a =
     (if TrimSpace (art_BuildID a) = '''' \<or> TrimSpace (art_OwnerID a) = '''' then Inl ArtifactIDsMissing
      else if \<not> ociDigest (art_Digest a) \<or> \<not> lowercaseSHA256 (art_SHA256 a)
        then Inl ArtifactDigestsInvalid
      else if art_Size a \<le> 0 \<or> art_MediaType a \<noteq> ManagedImageMediaType then Inl ArtifactSizeOrType
      else if art_RuntimeImage a \<noteq> ''jobdock.local/managed/'' @ art_BuildID a @ '':artifact''
        then Inl ArtifactRuntimeImage
      else if art_CreatedAt a = zero_time \<or> art_LastReferencedAt a = zero_time then Inl ArtifactTimes
      else Inr ())"

definition ManagedArtifactReference :: "string \<Rightarrow> string \<Rightarrow> string" where
  "ManagedArtifactReference buildID digest = ''jobdock://build/'' @ buildID @ ''@'' @ digest"

text \<open>
  \<^verbatim>\<open>^jobdock://build/([^/@]+)@(sha256:[a-f0-9]{64})$\<close>: the build id holds no \<open>@\<close>, so the first
  \<open>@\<close> ends it.
\<close>

definition managedReferencePattern :: "string \<Rightarrow> (string \<times> string) option" where
  "managedReferencePattern s =
     (if HasPrefix s ''jobdock://build/'' then
        (let rest = drop 16 s;
             buildID = takeWhile (\<lambda>c. c \<noteq> CHR ''/'' \<and> c \<noteq> CHR ''@'') rest;
             tail = drop (length buildID) rest
         in if buildID \<noteq> '''' \<and> HasPrefix tail ''@'' \<and> ociDigest (drop 1 tail)
            then Some (buildID, drop 1 tail) else None)
      else None)"

datatype reference_result = NotManaged | InvalidReference | ManagedReference string string

definition ParseManagedArtifactReference :: "string \<Rightarrow> reference_result" where
  "ParseManagedArtifactReference reference =
     (if length reference < length ''jobdock://'' \<or>
         take (length ''jobdock://'') reference \<noteq> ''jobdock://'' then NotManaged
      else case managedReferencePattern reference of
             None \<Rightarrow> InvalidReference
           | Some (buildID, digest) \<Rightarrow> ManagedReference buildID digest)"

section \<open>Job specifications\<close>

datatype spec_error =
    SpecNameLength
  | SpecImageInvalid
  | SpecCommandTooLong
  | SpecArgumentTooLong
  | SpecResourcesNotPositive
  | SpecGPUNegative
  | SpecGPUTargetMissing
  | SpecGPUCountMismatch
  | SpecGPUUUIDsInvalid
  | SpecCPUPackageTargetMissing
  | SpecEnvironmentInvalid
  | SecretModeInvalid
  | SecretNameMissing
  | SecretEnvTargetInvalid
  | SecretFileTargetInvalid
  | SpecTooManyInputs
  | InputPathInvalid string
  | InputPathDuplicate string
  | InputDigestInvalid string
  | InputDigestCharacter string

definition validSecretFilename :: "string \<Rightarrow> bool" where
  "validSecretFilename v \<longleftrightarrow>
     v \<noteq> '''' \<and> length v \<le> 255 \<and> v \<noteq> ''.'' \<and> v \<noteq> ''..'' \<and> path_base v = v \<and>
     \<not> ContainsAny v [CHR 0x5C, CHR 0x00]"

text \<open>The loop over explicit GPU UUIDs with its \<open>seen\<close> set.\<close>

fun gpu_uuids_ok :: "string list \<Rightarrow> string list \<Rightarrow> bool" where
  "gpu_uuids_ok seen [] = True"
| "gpu_uuids_ok seen (i # rest) =
     (if TrimSpace i = '''' \<or> List.member seen i then False else gpu_uuids_ok (i # seen) rest)"

definition reserved_env :: "string \<Rightarrow> bool" where
  "reserved_env k \<longleftrightarrow> \<not> envName k \<or> HasPrefix k ''JOBDOCK_''"

definition validate_secret_ref :: "SecretRef \<Rightarrow> spec_error + unit" where
  "validate_secret_ref ref =
     (if ref_Mode ref \<noteq> ''file'' \<and> ref_Mode ref \<noteq> ''env'' then Inl SecretModeInvalid
      else if TrimSpace (ref_Name ref) = '''' then Inl SecretNameMissing
      else if ref_Mode ref = ''env'' \<and> reserved_env (ref_Target ref) then Inl SecretEnvTargetInvalid
      else if ref_Mode ref = ''file'' \<and> \<not> validSecretFilename (ref_Target ref)
        then Inl SecretFileTargetInvalid
      else Inr ())"

fun validate_secret_refs :: "SecretRef list \<Rightarrow> spec_error + unit" where
  "validate_secret_refs [] = Inr ()"
| "validate_secret_refs (r # rs) =
     (case validate_secret_ref r of Inl e \<Rightarrow> Inl e | Inr _ \<Rightarrow> validate_secret_refs rs)"

definition normalize_input_path :: "string \<Rightarrow> string" where
  "normalize_input_path p = map (\<lambda>c. if c = CHR 0x5C then CHR ''/'' else c) p"

definition input_path_rejected :: "string \<Rightarrow> bool" where
  "input_path_rejected normalized \<longleftrightarrow>
     normalized = '''' \<or> path_is_abs normalized \<or> path_clean normalized \<noteq> normalized \<or>
     normalized = ''.'' \<or> HasPrefix normalized ''../''"

fun validate_inputs :: "string list \<Rightarrow> InputFile list \<Rightarrow> spec_error + unit" where
  "validate_inputs seen [] = Inr ()"
| "validate_inputs seen (f # fs) =
     (let normalized = normalize_input_path (input_Path f) in
      if input_path_rejected normalized then Inl (InputPathInvalid (input_Path f))
      else if List.member seen normalized then Inl (InputPathDuplicate (input_Path f))
      else if input_Size f < 0 \<or> length (input_SHA256 f) \<noteq> 64 then Inl (InputDigestInvalid (input_Path f))
      else if \<not> list_all lower_hex (input_SHA256 f) then Inl (InputDigestCharacter (input_Path f))
      else validate_inputs (normalized # seen) fs)"

definition validate_gpu_request :: "JobSpec \<Rightarrow> spec_error + unit" where
  "validate_gpu_request spec =
     (let gpu = res_GPU (spec_Resources spec) in
      if gpureq_UUIDs gpu = [] then Inr ()
      else if spec_TargetNodeID spec = '''' then Inl SpecGPUTargetMissing
      else if gpureq_Count gpu \<noteq> int (length (gpureq_UUIDs gpu)) then Inl SpecGPUCountMismatch
      else if \<not> gpu_uuids_ok [] (gpureq_UUIDs gpu) then Inl SpecGPUUUIDsInvalid
      else Inr ())"

definition ValidateJobSpec :: "JobSpec \<Rightarrow> spec_error + unit" where
  "ValidateJobSpec spec =
     (let n = length (TrimSpace (spec_Name spec)); res = spec_Resources spec in
      if n < 3 \<or> n > 120 then Inl SpecNameLength
      else if TrimSpace (spec_Image spec) = '''' \<or> length (spec_Image spec) > 512 then Inl SpecImageInvalid
      else if length (spec_Command spec) > 128 then Inl SpecCommandTooLong
      else if list_ex (\<lambda>arg. length arg > 8192) (spec_Command spec) then Inl SpecArgumentTooLong
      else if res_CPUMillis res \<le> 0 \<or> res_MemoryBytes res \<le> 0 then Inl SpecResourcesNotPositive
      else if gpureq_Count (res_GPU res) < 0 \<or> gpureq_MinVRAMBytes (res_GPU res) < 0
        then Inl SpecGPUNegative
      else case validate_gpu_request spec of Inl e \<Rightarrow> Inl e | Inr _ \<Rightarrow>
        if res_CPUPackageID res \<noteq> '''' \<and> spec_TargetNodeID spec = '''' then Inl SpecCPUPackageTargetMissing
        else if list_ex (\<lambda>(k, v). reserved_env k) (spec_Environment spec) then Inl SpecEnvironmentInvalid
        else case validate_secret_refs (spec_SecretRefs spec) of Inl e \<Rightarrow> Inl e | Inr _ \<Rightarrow>
          if length (spec_Inputs spec) > 1024 then Inl SpecTooManyInputs
          else validate_inputs [] (spec_Inputs spec))"

section \<open>What accepted values satisfy\<close>

text \<open>Path settings.\<close>

lemma path_rejects_abs: "\<not> HasPrefix v ''/'' \<Longrightarrow> \<not> path_is_abs v"
  by (simp add: path_is_abs_def)

lemma relative_path_elements:
  assumes "is_ok (validateBuildRelativePath v allowDot)"
  shows "v = ''.'' \<and> allowDot \<or> v \<noteq> ''.'' \<and> list_all ordinary_element (split_on (CHR ''/'') v)"
proof (cases "v = ''.''")
  case True
  with assms show ?thesis
    by (auto simp: validateBuildRelativePath_def Let_def split: if_splits)
next
  case False
  from assms have "path_clean v = v" "\<not> HasPrefix v ''/''" "v \<noteq> ''..''" "\<not> HasPrefix v ''../''"
    by (auto simp: validateBuildRelativePath_def Let_def split: if_splits)
  with False show ?thesis using clean_path_ordinary path_rejects_abs by blast
qed

lemma relative_path_chars:
  "is_ok (validateBuildRelativePath v allowDot) \<Longrightarrow>
   length v \<le> 512 \<and> CHR 0x5C \<notin> set v \<and> CHR '':'' \<notin> set v \<and> CHR 0x00 \<notin> set v"
  by (auto simp: validateBuildRelativePath_def ContainsAny_iff split: if_splits)

lemma input_path_elements:
  "\<not> input_path_rejected p \<Longrightarrow> p = ''..'' \<or> list_all ordinary_element (split_on (CHR ''/'') p)"
  unfolding input_path_rejected_def by (blast intro: clean_path_ordinary)

lemma normalize_input_path_no_backslash: "CHR 0x5C \<notin> set (normalize_input_path p)"
  by (auto simp: normalize_input_path_def)

text \<open>Input manifests.\<close>

lemma validate_inputs_sound:
  assumes "validate_inputs seen fs = Inr ()"
  shows "distinct (map (normalize_input_path \<circ> input_Path) fs)"
    and "set (map (normalize_input_path \<circ> input_Path) fs) \<inter> set seen = {}"
    and "f \<in> set fs \<Longrightarrow> \<not> input_path_rejected (normalize_input_path (input_Path f))"
    and "f \<in> set fs \<Longrightarrow> 0 \<le> input_Size f \<and> lowercaseSHA256 (input_SHA256 f)"
  using assms
  by (induction seen fs rule: validate_inputs.induct)
    (auto simp: Let_def lowercaseSHA256_def split: if_splits)

text \<open>Managed image references.\<close>

lemma takeWhile_id_append:
  "(\<And>x. x \<in> set b \<Longrightarrow> P x) \<Longrightarrow> \<not> P c \<Longrightarrow> takeWhile P (b @ c # cs) = b"
  by (simp add: takeWhile_append2)

lemma pattern_of_reference:
  assumes "b \<noteq> ''''" "CHR ''/'' \<notin> set b" "CHR ''@'' \<notin> set b" "ociDigest d"
  shows "managedReferencePattern (ManagedArtifactReference b d) = Some (b, d)"
proof -
  let ?rest = "b @ CHR ''@'' # d"
  have d: "drop 16 (ManagedArtifactReference b d) = ?rest"
    by (simp add: ManagedArtifactReference_def)
  have p: "HasPrefix (ManagedArtifactReference b d) ''jobdock://build/''"
    by (simp add: ManagedArtifactReference_def HasPrefix_def)
  have "takeWhile (\<lambda>c. c \<noteq> CHR ''/'' \<and> c \<noteq> CHR ''@'') ?rest = b"
    by (rule takeWhile_id_append) (use assms in auto)
  with d p assms show ?thesis
    by (simp add: managedReferencePattern_def Let_def HasPrefix_def)
qed

lemma drop_length_takeWhile: "drop (length (takeWhile P xs)) xs = dropWhile P xs"
  by (induction xs) auto

lemma HasPrefix_split: "HasPrefix s p \<Longrightarrow> s = p @ drop (length p) s"
  unfolding HasPrefix_def by (metis append_take_drop_id)

lemma reference_of_pattern:
  assumes "managedReferencePattern s = Some (b, d)"
  shows "s = ManagedArtifactReference b d \<and> b \<noteq> '''' \<and> CHR ''/'' \<notin> set b \<and> CHR ''@'' \<notin> set b \<and> ociDigest d"
proof -
  let ?P = "\<lambda>c. c \<noteq> CHR ''/'' \<and> c \<noteq> CHR ''@''"
  let ?rest = "drop 16 s" let ?tail = "dropWhile ?P ?rest"
  from assms have pre: "HasPrefix s ''jobdock://build/''" and b: "b = takeWhile ?P ?rest"
    and ne: "b \<noteq> ''''" and at: "HasPrefix ?tail ''@''" and d: "d = drop 1 ?tail" and oci: "ociDigest d"
    by (auto simp: managedReferencePattern_def Let_def drop_length_takeWhile simp del: drop_drop
        split: if_splits)
  obtain r where s: "s = ''jobdock://build/'' @ r" and r: "?rest = r"
    using HasPrefix_split [OF pre] by (simp add: numeral_eq_Suc)
  have "r = b @ ?tail" using b r by (metis takeWhile_dropWhile_id)
  moreover have "?tail = CHR ''@'' # d"
    using at d by (cases ?tail) (auto simp: HasPrefix_def)
  ultimately have "r = b @ CHR ''@'' # d" by simp
  then have "s = ManagedArtifactReference b d"
    unfolding s ManagedArtifactReference_def by simp
  moreover have "CHR ''/'' \<notin> set b" "CHR ''@'' \<notin> set b"
    unfolding b by (blast dest: set_takeWhileD)+
  ultimately show ?thesis using ne oci by blast
qed

end
