(* ===== verification/JobStore.thy ===== *)
theory JobStore
  imports Tables Validate
begin

text \<open>
  The job part of \<^verbatim>\<open>internal/store/store.go\<close>: creation, queries, reservation, status updates, stop,
  rerun and deletion of jobs, assignments, events and checkpoints. An operation maps the database
  to a result and the database after it; a transaction that is rolled back leaves the database as
  it was. Where the code reads a row in one statement and writes in a later one outside a
  transaction, the model takes the effect \<open>env\<close> of the requests that commit in between.
\<close>

type_synonym 'a dbop = "db \<Rightarrow> (store_error + 'a) \<times> db"

section \<open>Reading rows\<close>

definition parseNullTime :: "stamp option \<Rightarrow> gotime option" where
  "parseNullTime v = map_option parseTime v"

definition scanJob :: "JobRow \<Rightarrow> Job" where
  "scanJob r = \<lparr>job_ID = jr_id r, job_OwnerID = jr_owner_id r, job_Spec = jr_spec r,
     job_Status = jr_status r, job_DesiredStatus = jr_desired_status r,
     job_ObservedStatus = jr_observed_status r, job_AssignedNodeID = text_of (jr_assigned_node_id r),
     job_AttemptID = text_of (jr_attempt_id r), job_ImageDigest = jr_image_digest r,
     job_ExitCode = jr_exit_code r, job_QueueReasonCode = jr_queue_reason_code r,
     job_QueueReason = jr_queue_reason r, job_FailureReason = jr_failure_reason r,
     job_CreatedAt = parseTime (jr_created_at r), job_StartedAt = parseNullTime (jr_started_at r),
     job_FinishedAt = parseNullTime (jr_finished_at r), job_DeletedAt = parseNullTime (jr_deleted_at r),
     job_Version = jr_version r\<rparr>"

definition scanAttempt :: "AttemptRow \<Rightarrow> JobAttempt" where
  "scanAttempt r = \<lparr>attempt_ID = ar_id r, attempt_JobID = ar_job_id r,
     attempt_AttemptNumber = ar_attempt_number r, attempt_NodeID = ar_node_id r,
     attempt_CPUPackageID = ar_cpu_package_id r, attempt_GPUUUIDs = ar_gpu_uuids r,
     attempt_Status = ar_status r, attempt_ImageDigest = ar_image_digest r,
     attempt_ExitCode = ar_exit_code r, attempt_FailureReason = ar_failure_reason r,
     attempt_Outputs = ar_outputs r, attempt_CreatedAt = parseTime (ar_created_at r),
     attempt_StartedAt = parseNullTime (ar_started_at r),
     attempt_FinishedAt = parseNullTime (ar_finished_at r)\<rparr>"

definition job_row :: "string \<Rightarrow> db \<Rightarrow> JobRow option" where
  "job_row i d = find (\<lambda>r. jr_id r = i) (tbl_jobs d)"

definition attempt_row :: "string \<Rightarrow> db \<Rightarrow> AttemptRow option" where
  "attempt_row i d = find (\<lambda>r. ar_id r = i) (tbl_attempts d)"

definition Job :: "string \<Rightarrow> db \<Rightarrow> store_error + Job" where
  "Job i d = (case job_row i d of None \<Rightarrow> Inl ErrNotFound | Some r \<Rightarrow> Inr (scanJob r))"

definition Attempts :: "string \<Rightarrow> db \<Rightarrow> JobAttempt list" where
  "Attempts jobID d =
     map scanAttempt (sort_slice (\<lambda>a b. ar_attempt_number b < ar_attempt_number a)
       (filter (\<lambda>r. ar_job_id r = jobID) (tbl_attempts d)))"

definition Attempt :: "string \<Rightarrow> string \<Rightarrow> db \<Rightarrow> store_error + JobAttempt" where
  "Attempt jobID attemptID d =
     (case find (\<lambda>r. ar_id r = attemptID \<and> ar_job_id r = jobID) (tbl_attempts d) of
        None \<Rightarrow> Inl ErrNotFound | Some r \<Rightarrow> Inr (scanAttempt r))"

definition ListJobs :: "bool \<Rightarrow> db \<Rightarrow> Job list" where
  "ListJobs includeDeleted d =
     map scanJob (sort_slice (\<lambda>a b. stamp_less (jr_created_at b) (jr_created_at a))
       (filter (\<lambda>r. includeDeleted \<or> jr_status r \<noteq> JobDeleted) (tbl_jobs d)))"

definition QueuedJobs :: "db \<Rightarrow> Job list" where
  "QueuedJobs d = map scanJob (order_by jr_created_at (filter (\<lambda>r. jr_status r = JobQueued) (tbl_jobs d)))"

section \<open>Creating, queueing and reserving\<close>

definition CreateJob :: "Job \<Rightarrow> unit dbop" where
  "CreateJob job d =
     (if has_row (\<lambda>r. jr_id r = job_ID job) (tbl_jobs d) then (Inl ErrConstraint, d)
      else (Inr (), d\<lparr>tbl_jobs := tbl_jobs d @
        [\<lparr>jr_id = job_ID job, jr_owner_id = job_OwnerID job, jr_spec = job_Spec job,
          jr_status = job_Status job, jr_desired_status = job_DesiredStatus job,
          jr_observed_status = job_ObservedStatus job, jr_assigned_node_id = None,
          jr_attempt_id = None, jr_image_digest = '''', jr_exit_code = None,
          jr_queue_reason_code = '''', jr_queue_reason = '''', jr_failure_reason = '''',
          jr_created_at = formatTime (job_CreatedAt job), jr_started_at = None,
          jr_finished_at = None, jr_deleted_at = None, jr_version = 1\<rparr>]\<rparr>))"

definition SetQueueReason :: "string \<Rightarrow> string \<Rightarrow> string \<Rightarrow> unit dbop" where
  "SetQueueReason jobID code message d =
     (Inr (), d\<lparr>tbl_jobs := update_where (\<lambda>r. jr_id r = jobID \<and> jr_status r = JobQueued)
        (\<lambda>r. r\<lparr>jr_queue_reason_code := code, jr_queue_reason := message,
               jr_version := jr_version r + 1\<rparr>) (tbl_jobs d)\<rparr>)"

text \<open>What a reservation stores: the ids and the encrypted token made for it, and the choice.\<close>

record ticket =
  tk_attemptID :: string
  tk_assignmentID :: string
  tk_jobTokenHash :: string
  tk_jobTokenCiphertext :: string

definition next_event_row :: "db \<Rightarrow> string \<Rightarrow> string option \<Rightarrow> string \<Rightarrow> JobStatus \<Rightarrow> json gomap \<Rightarrow> gotime \<Rightarrow> EventRow" where
  "next_event_row d jobID attemptID type st payload now =
     \<lparr>ev_id = seq_events d + 1, ev_job_id = jobID, ev_attempt_id = attemptID,
      ev_sequence = max_or_zero (map ev_sequence (filter (\<lambda>e. ev_job_id e = jobID) (tbl_events d))) + 1,
      ev_type = type, ev_status = st, ev_payload = payload, ev_created_at = formatTime now\<rparr>"

definition push_event :: "EventRow \<Rightarrow> db \<Rightarrow> db" where
  "push_event e d = d\<lparr>tbl_events := tbl_events d @ [e], seq_events := ev_id e\<rparr>"

definition reserve_job_row :: "string \<Rightarrow> string \<Rightarrow> JobRow \<Rightarrow> JobRow" where
  "reserve_job_row nodeID attemptID r = r\<lparr>jr_status := JobAssigned, jr_desired_status := JobRunning,
     jr_assigned_node_id := Some nodeID, jr_attempt_id := Some attemptID,
     jr_queue_reason_code := '''', jr_queue_reason := '''', jr_version := jr_version r + 1\<rparr>"

definition next_attempt_row ::
  "db \<Rightarrow> string \<Rightarrow> string \<Rightarrow> ticket \<Rightarrow> string list \<Rightarrow> string \<Rightarrow> gotime \<Rightarrow> AttemptRow" where
  "next_attempt_row d jobID nodeID tk gpuUUIDs cpuPackageID now =
     \<lparr>ar_id = tk_attemptID tk, ar_job_id = jobID,
      ar_attempt_number =
        max_or_zero (map ar_attempt_number (filter (\<lambda>a. ar_job_id a = jobID) (tbl_attempts d))) + 1,
      ar_node_id = nodeID, ar_assignment_id = tk_assignmentID tk, ar_container_id = '''',
      ar_cpu_package_id = cpuPackageID, ar_gpu_uuids = gpuUUIDs, ar_status = JobAssigned,
      ar_job_token_hash = tk_jobTokenHash tk, ar_image_digest = '''', ar_exit_code = None,
      ar_failure_reason = '''', ar_outputs = [], ar_created_at = formatTime now,
      ar_started_at = None, ar_finished_at = None\<rparr>"

definition ReserveJobWithAffinity ::
  "string \<Rightarrow> string \<Rightarrow> ticket \<Rightarrow> string list \<Rightarrow> string \<Rightarrow> string \<Rightarrow> gotime \<Rightarrow> unit dbop" where
  "ReserveJobWithAffinity jobID nodeID tk gpuUUIDs cpuPackageID cpuSet now d =
     (let queued = (\<lambda>r. jr_id r = jobID \<and> jr_status r = JobQueued) in
      if rows_affected queued (tbl_jobs d) \<noteq> 1 then (Inl ErrConflict, d)
      else if \<not> has_row (\<lambda>n. nr_id n = nodeID) (tbl_nodes d) then (Inl ErrConstraint, d)
      else if has_row (\<lambda>a. ar_id a = tk_attemptID tk \<or> ar_assignment_id a = tk_assignmentID tk \<or>
                 ar_job_token_hash a = tk_jobTokenHash tk) (tbl_attempts d) then (Inl ErrConstraint, d)
      else if has_row (\<lambda>a. as_id a = tk_assignmentID tk) (tbl_assignments d) then (Inl ErrConstraint, d)
      else
        let attempt = next_attempt_row d jobID nodeID tk gpuUUIDs cpuPackageID now;
            assignment = \<lparr>as_id = tk_assignmentID tk, as_job_id = jobID, as_attempt_id = tk_attemptID tk,
              as_node_id = nodeID, as_gpu_uuids = gpuUUIDs,
              as_job_token_ciphertext = tk_jobTokenCiphertext tk, as_delivered_at = None,
              as_accepted_at = None, as_created_at = formatTime now,
              as_cpu_package_id = cpuPackageID, as_cpu_set = cpuSet\<rparr>;
            event = next_event_row d jobID (Some (tk_attemptID tk)) ''assigned'' JobAssigned [] now
        in (Inr (), push_event event (d\<lparr>
             tbl_jobs := update_where queued (reserve_job_row nodeID (tk_attemptID tk)) (tbl_jobs d),
             tbl_attempts := tbl_attempts d @ [attempt],
             tbl_assignments := tbl_assignments d @ [assignment]\<rparr>)))"

definition ReserveJob :: "string \<Rightarrow> string \<Rightarrow> ticket \<Rightarrow> string list \<Rightarrow> gotime \<Rightarrow> unit dbop" where
  "ReserveJob jobID nodeID tk gpuUUIDs now =
     ReserveJobWithAffinity jobID nodeID tk gpuUUIDs '''' '''' now"

section \<open>Status updates\<close>

definition is_finished :: "JobStatus \<Rightarrow> bool" where
  "is_finished st \<longleftrightarrow> st = JobSucceeded \<or> st = JobFailed \<or> st = JobCancelled"

record report =
  rp_status :: JobStatus
  rp_exitCode :: "int option"
  rp_imageDigest :: string
  rp_reason :: string

definition status_job_row :: "report \<Rightarrow> stamp option \<Rightarrow> stamp option \<Rightarrow> JobRow \<Rightarrow> JobRow" where
  "status_job_row rp started finished r = r\<lparr>jr_status := rp_status rp, jr_observed_status := rp_status rp,
     jr_exit_code := coalesce (rp_exitCode rp) (jr_exit_code r),
     jr_image_digest := (if rp_imageDigest rp = '''' then jr_image_digest r else rp_imageDigest rp),
     jr_failure_reason := (if rp_reason rp = '''' then jr_failure_reason r else rp_reason rp),
     jr_started_at := coalesce started (jr_started_at r),
     jr_finished_at := coalesce finished (jr_finished_at r), jr_version := jr_version r + 1\<rparr>"

definition status_attempt_row :: "report \<Rightarrow> stamp option \<Rightarrow> stamp option \<Rightarrow> AttemptRow \<Rightarrow> AttemptRow" where
  "status_attempt_row rp started finished r = r\<lparr>ar_status := rp_status rp,
     ar_exit_code := coalesce (rp_exitCode rp) (ar_exit_code r),
     ar_image_digest := (if rp_imageDigest rp = '''' then ar_image_digest r else rp_imageDigest rp),
     ar_failure_reason := (if rp_reason rp = '''' then ar_failure_reason r else rp_reason rp),
     ar_started_at := coalesce started (ar_started_at r),
     ar_finished_at := coalesce finished (ar_finished_at r),
     ar_job_token_hash := (if finished \<noteq> None then ''revoked:'' @ ar_id r else ar_job_token_hash r)\<rparr>"

text \<open>
  The transaction of one try: \<open>None\<close> when the compare-and-swap finds another status or attempt
  (the loop goes on), otherwise the result. \<open>job\<close> is what was read before.
\<close>

definition status_transaction ::
  "Job \<Rightarrow> report \<Rightarrow> gotime \<Rightarrow> db \<Rightarrow> ((store_error + unit) \<times> db) option" where
  "status_transaction job rp now d =
     (let started = (if rp_status rp = JobRunning \<and> job_StartedAt job = None
                     then Some (formatTime now) else None);
          finished = (if is_finished (rp_status rp) then Some (formatTime now) else None);
          match = (\<lambda>r. jr_id r = job_ID job \<and> jr_status r = job_Status job \<and>
                       jr_attempt_id r = Some (job_AttemptID job));
          amatch = (\<lambda>a. ar_id a = job_AttemptID job \<and> ar_job_id a = job_ID job)
      in if rows_affected match (tbl_jobs d) \<noteq> 1 then None
         else if rows_affected amatch (tbl_attempts d) \<noteq> 1 then Some (Inl ErrConflict, d)
         else Some (Inr (), d\<lparr>
           tbl_jobs := update_where match (status_job_row rp started finished) (tbl_jobs d),
           tbl_attempts := update_where amatch (status_attempt_row rp started finished) (tbl_attempts d)\<rparr>))"

text \<open>The retry loop; \<open>env k\<close> is what other requests commit between the read and the write.\<close>

fun update_status_loop :: "nat \<Rightarrow> (nat \<Rightarrow> db \<Rightarrow> db) \<Rightarrow> string \<Rightarrow> report \<Rightarrow> gotime \<Rightarrow> unit dbop" where
  "update_status_loop 0 env jobID rp now d = (Inl ErrConflict, d)"
| "update_status_loop (Suc k) env jobID rp now d =
     (case Job jobID d of
        Inl e \<Rightarrow> (Inl e, d)
      | Inr job \<Rightarrow>
          if job_Status job = rp_status rp \<and> job_ObservedStatus job = rp_status rp then (Inr (), d)
          else if \<not> CanTransition (job_Status job) (rp_status rp) then (Inl ErrConflict, d)
          else (case status_transaction job rp now (env k d) of
                  None \<Rightarrow> update_status_loop k env jobID rp now (env k d)
                | Some result \<Rightarrow> result))"

definition UpdateJobStatus :: "(nat \<Rightarrow> db \<Rightarrow> db) \<Rightarrow> string \<Rightarrow> report \<Rightarrow> gotime \<Rightarrow> unit dbop" where
  "UpdateJobStatus env jobID rp now d = update_status_loop 3 env jobID rp now d"

definition SetAttemptOutputs :: "string \<Rightarrow> string \<Rightarrow> OutputFile list \<Rightarrow> unit dbop" where
  "SetAttemptOutputs jobID attemptID outputs d =
     (let match = (\<lambda>a. ar_id a = attemptID \<and> ar_job_id a = jobID)
      in if rows_affected match (tbl_attempts d) \<noteq> 1 then (Inl ErrNotFound, d)
         else (Inr (), d\<lparr>tbl_attempts := update_where match (\<lambda>a. a\<lparr>ar_outputs := outputs\<rparr>) (tbl_attempts d)\<rparr>))"

definition rerun_job_row :: "JobRow \<Rightarrow> JobRow" where
  "rerun_job_row r = r\<lparr>jr_status := JobQueued, jr_desired_status := JobRunning,
     jr_observed_status := JobQueued, jr_assigned_node_id := None, jr_attempt_id := None,
     jr_image_digest := '''', jr_exit_code := None, jr_queue_reason_code := '''', jr_queue_reason := '''',
     jr_failure_reason := '''', jr_started_at := None, jr_finished_at := None,
     jr_version := jr_version r + 1\<rparr>"

definition RerunJob :: "string \<Rightarrow> unit dbop" where
  "RerunJob jobID d =
     (let match = (\<lambda>r. jr_id r = jobID \<and> is_finished (jr_status r))
      in if rows_affected match (tbl_jobs d) \<noteq> 1 then (Inl ErrConflict, d)
         else (Inr (), d\<lparr>tbl_jobs := update_where match rerun_job_row (tbl_jobs d)\<rparr>))"

text \<open>
  \<^verbatim>\<open>RequestStop\<close> decides on the status it reads first; the update of a queued job repeats the check,
  the update of an active one does not.
\<close>

definition stoppable :: "JobStatus \<Rightarrow> bool" where
  "stoppable st \<longleftrightarrow>
     List.member [JobAssigned, JobPullingImage, JobStarting, JobRunning, JobLost] st"

definition RequestStop :: "(db \<Rightarrow> db) \<Rightarrow> string \<Rightarrow> gotime \<Rightarrow> unit dbop" where
  "RequestStop env jobID now d =
     (case Job jobID d of
        Inl e \<Rightarrow> (Inl e, d)
      | Inr job \<Rightarrow>
          if job_Status job = JobQueued then
            (let d = env d in
             (Inr (), d\<lparr>tbl_jobs := update_where (\<lambda>r. jr_id r = jobID \<and> jr_status r = JobQueued)
                (\<lambda>r. r\<lparr>jr_status := JobCancelled, jr_desired_status := JobCancelled,
                       jr_observed_status := JobCancelled, jr_finished_at := Some (formatTime now),
                       jr_version := jr_version r + 1\<rparr>) (tbl_jobs d)\<rparr>))
          else if stoppable (job_Status job) then
            (let d = env d;
                 d = d\<lparr>tbl_jobs := update_where (\<lambda>r. jr_id r = jobID)
                   (\<lambda>r. r\<lparr>jr_status := JobStopping, jr_desired_status := JobCancelled,
                          jr_version := jr_version r + 1\<rparr>) (tbl_jobs d)\<rparr>
             in if job_AttemptID job = '''' then (Inr (), d)
                else (Inr (), d\<lparr>tbl_attempts :=
                  update_where (\<lambda>a. ar_id a = job_AttemptID job \<and> ar_job_id a = jobID)
                    (\<lambda>a. a\<lparr>ar_status := JobStopping\<rparr>) (tbl_attempts d)\<rparr>))
          else (Inl ErrConflict, d))"

definition MarkDeleting :: "(db \<Rightarrow> db) \<Rightarrow> string \<Rightarrow> unit dbop" where
  "MarkDeleting env jobID d =
     (case Job jobID d of
        Inl e \<Rightarrow> (Inl e, d)
      | Inr job \<Rightarrow>
          if IsActive (job_Status job) then (Inl ErrConflict, d)
          else if job_Status job = JobDeleted \<or> job_Status job = JobDeleting then (Inr (), d)
          else let d = env d in
            (Inr (), d\<lparr>tbl_jobs := update_where (\<lambda>r. jr_id r = jobID)
               (\<lambda>r. r\<lparr>jr_status := JobDeleting, jr_desired_status := JobDeleting,
                      jr_version := jr_version r + 1\<rparr>) (tbl_jobs d)\<rparr>))"

text \<open>The specification \<^verbatim>\<open>{}\<close> that replaces a deleted job's.\<close>

definition empty_spec :: JobSpec where
  "empty_spec = \<lparr>spec_Name = '''', spec_Image = '''', spec_Command = [], spec_WorkingDirectory = '''',
     spec_Environment = [], spec_SecretRefs = [], spec_RegistrySecret = '''',
     spec_Resources = \<lparr>res_CPUMillis = 0, res_CPUPackageID = '''', res_MemoryBytes = 0,
       res_GPU = \<lparr>gpureq_Count = 0, gpureq_MinVRAMBytes = 0, gpureq_UUIDs = []\<rparr>\<rparr>,
     spec_Labels = [], spec_NodeSelector = [], spec_TargetNodeID = '''', spec_Inputs = []\<rparr>"

definition MarkDeleted :: "string \<Rightarrow> gotime \<Rightarrow> unit dbop" where
  "MarkDeleted jobID now d =
     (Inr (), d\<lparr>tbl_jobs := update_where (\<lambda>r. jr_id r = jobID)
        (\<lambda>r. r\<lparr>jr_status := JobDeleted, jr_desired_status := JobDeleted, jr_observed_status := JobDeleted,
               jr_spec := empty_spec, jr_image_digest := '''', jr_failure_reason := '''',
               jr_deleted_at := Some (formatTime now), jr_version := jr_version r + 1\<rparr>) (tbl_jobs d)\<rparr>)"

end
