(* ===== verification/AgentStore.thy ===== *)
theory AgentStore
  imports JobStore
begin

text \<open>
  The part of \<^verbatim>\<open>internal/store/store.go\<close> the agents talk to: pending assignments and their
  acceptance, stop requests, the GPUs in use, the event log of a job, and checkpoint
  synchronisation.
\<close>

section \<open>Assignments\<close>

definition active_row :: "JobRow \<Rightarrow> bool" where
  "active_row r \<longleftrightarrow> IsActive (jr_status r)"

definition assignment_pending :: "db \<Rightarrow> string \<Rightarrow> AssignmentRow \<Rightarrow> bool" where
  "assignment_pending d nodeID a \<longleftrightarrow>
     as_node_id a = nodeID \<and> as_accepted_at a = None \<and>
     (case job_row (as_job_id a) d of
        None \<Rightarrow> False
      | Some j \<Rightarrow> jr_attempt_id j = Some (as_attempt_id a) \<and>
          List.member [JobAssigned, JobPullingImage, JobStarting] (jr_status j))"

definition AssignmentForNode :: "string \<Rightarrow> gotime \<Rightarrow> Assignment dbop" where
  "AssignmentForNode nodeID now d =
     (case order_by as_created_at (filter (assignment_pending d nodeID) (tbl_assignments d)) of
        [] \<Rightarrow> (Inl ErrNotFound, d)
      | a # _ \<Rightarrow>
          (case job_row (as_job_id a) d of
             None \<Rightarrow> (Inl ErrNotFound, d)
           | Some j \<Rightarrow>
               (Inr \<lparr>asg_ID = as_id a, asg_JobID = as_job_id a, asg_AttemptID = as_attempt_id a,
                  asg_Spec = jr_spec j, asg_GPUUUIDs = as_gpu_uuids a,
                  asg_CPUPackageID = as_cpu_package_id a, asg_CPUSet = as_cpu_set a, asg_JobToken = '''',
                  asg_JobTokenEncrypted = as_job_token_ciphertext a, asg_Secrets = [],
                  asg_RegistryAuth = '''', asg_ManagedArtifact = None,
                  asg_CreatedAt = parseTime (as_created_at a),
                  asg_EventSequence =
                    max_or_zero (map ev_sequence (filter (\<lambda>e. ev_job_id e = as_job_id a) (tbl_events d)))\<rparr>,
                d\<lparr>tbl_assignments := update_where (\<lambda>b. as_id b = as_id a)
                    (\<lambda>b. b\<lparr>as_delivered_at := coalesce (as_delivered_at b) (Some (formatTime now))\<rparr>)
                    (tbl_assignments d)\<rparr>)))"

definition StopRequestsForNode :: "string \<Rightarrow> db \<Rightarrow> string list" where
  "StopRequestsForNode nodeID d =
     map jr_id (filter (\<lambda>j. jr_assigned_node_id j = Some nodeID \<and> jr_desired_status j = JobCancelled \<and>
       (jr_status j = JobStopping \<or> jr_status j = JobLost)) (tbl_jobs d))"

text \<open>
  The join of \<^verbatim>\<open>AllocatedGPUUUIDs\<close>: every assignment of an active job counts, whatever the
  attempt it belongs to.
\<close>

definition AllocatedGPUUUIDs :: "db \<Rightarrow> string \<Rightarrow> string \<Rightarrow> bool" where
  "AllocatedGPUUUIDs d nodeID uuid =
     has_row (\<lambda>a. as_node_id a = nodeID \<and> List.member (as_gpu_uuids a) uuid \<and>
       (case job_row (as_job_id a) d of None \<Rightarrow> False | Some j \<Rightarrow> active_row j)) (tbl_assignments d)"

definition AcceptAssignment :: "string \<Rightarrow> string \<Rightarrow> string \<Rightarrow> gotime \<Rightarrow> unit dbop" where
  "AcceptAssignment nodeID assignmentID containerID now d =
     (let match = (\<lambda>a. as_id a = assignmentID \<and> as_node_id a = nodeID)
      in if rows_affected match (tbl_assignments d) = 0 then (Inl ErrNotFound, d)
         else (Inr (), d\<lparr>
           tbl_assignments := update_where match
             (\<lambda>a. a\<lparr>as_accepted_at := coalesce (as_accepted_at a) (Some (formatTime now))\<rparr>) (tbl_assignments d),
           tbl_attempts := update_where (\<lambda>a. ar_assignment_id a = assignmentID)
             (\<lambda>a. a\<lparr>ar_container_id := containerID, ar_status := JobStarting\<rparr>) (tbl_attempts d)\<rparr>))"

section \<open>Events\<close>

definition AppendEvent :: "Event \<Rightarrow> unit dbop" where
  "AppendEvent event d =
     (if event_Type event = ''resource_sample'' then (Inl ErrRawTelemetry, d)
      else if has_row (\<lambda>e. ev_job_id e = event_JobID event \<and> ev_sequence e = event_Sequence event) (tbl_events d)
        then (Inr (), d)
      else if \<not> has_row (\<lambda>j. jr_id j = event_JobID event) (tbl_jobs d) then (Inl ErrConstraint, d)
      else (Inr (), push_event
        \<lparr>ev_id = seq_events d + 1, ev_job_id = event_JobID event,
         ev_attempt_id = nullable (event_AttemptID event), ev_sequence = event_Sequence event,
         ev_type = event_Type event, ev_status = event_Status event,
         ev_payload = event_Payload event, ev_created_at = formatTime (event_CreatedAt event)\<rparr> d))"

text \<open>
  \<^verbatim>\<open>AppendServerEvent\<close>: the next sequence number is computed by the insert itself, a unique violation
  is retried up to three times.
\<close>

fun append_server_event_loop :: "nat \<Rightarrow> string \<Rightarrow> string \<Rightarrow> json gomap \<Rightarrow> gotime \<Rightarrow> unit dbop" where
  "append_server_event_loop 0 jobID type payload now d = (Inl ErrConflict, d)"
| "append_server_event_loop (Suc k) jobID type payload now d =
     (case job_row jobID d of
        None \<Rightarrow> (Inl ErrConstraint, d)
      | Some j \<Rightarrow>
          let e = next_event_row d jobID (jr_attempt_id j) type (jr_status j) payload now in
          if has_row (\<lambda>x. ev_job_id x = jobID \<and> ev_sequence x = ev_sequence e) (tbl_events d)
          then append_server_event_loop k jobID type payload now d
          else (Inr (), push_event e d))"

definition AppendServerEvent :: "string \<Rightarrow> string \<Rightarrow> json gomap \<Rightarrow> gotime \<Rightarrow> unit dbop" where
  "AppendServerEvent jobID type payload now d = append_server_event_loop 3 jobID type payload now d"

definition JobByToken :: "string \<Rightarrow> db \<Rightarrow> store_error + Job" where
  "JobByToken tokenHash d =
     (case find (\<lambda>j. has_row (\<lambda>a. ar_job_id a = jr_id j \<and> jr_attempt_id j = Some (ar_id a) \<and>
                   ar_job_token_hash a = tokenHash) (tbl_attempts d)) (tbl_jobs d) of
        None \<Rightarrow> Inl ErrNotFound | Some j \<Rightarrow> Inr (scanJob j))"

definition scanEvent :: "EventRow \<Rightarrow> Event" where
  "scanEvent e = \<lparr>event_ID = ev_id e, event_JobID = ev_job_id e, event_AttemptID = text_of (ev_attempt_id e),
     event_Sequence = ev_sequence e, event_Type = ev_type e, event_Status = ev_status e,
     event_Payload = ev_payload e, event_CreatedAt = parseTime (ev_created_at e)\<rparr>"

definition events_query :: "string \<Rightarrow> string \<Rightarrow> int \<Rightarrow> db \<Rightarrow> Event list" where
  "events_query jobID attemptID after d =
     map scanEvent (take 1000 (sort_slice (\<lambda>a b. ev_id a < ev_id b)
       (filter (\<lambda>e. ev_job_id e = jobID \<and> ev_id e > after \<and>
                    (attemptID = '''' \<or> ev_attempt_id e = Some attemptID)) (tbl_events d))))"

definition Events :: "string \<Rightarrow> int \<Rightarrow> db \<Rightarrow> Event list" where
  "Events jobID after d = events_query jobID '''' after d"

definition EventsForAttempt :: "string \<Rightarrow> string \<Rightarrow> int \<Rightarrow> db \<Rightarrow> Event list" where
  "EventsForAttempt jobID attemptID after d = events_query jobID attemptID after d"

record JobUpdate =
  upd_Cursor :: int
  upd_JobID :: string
  upd_Name :: string
  upd_Status :: JobStatus
  upd_Version :: int
  upd_CreatedAt :: gotime

text \<open>The cursor-ordered status changes of one owner's jobs (\<open>JobStatusOther ''''\<close> is the empty status).\<close>

definition owned_event :: "db \<Rightarrow> string \<Rightarrow> EventRow \<Rightarrow> bool" where
  "owned_event d ownerID e \<longleftrightarrow>
     (case job_row (ev_job_id e) d of None \<Rightarrow> False | Some j \<Rightarrow> jr_owner_id j = ownerID)"

definition job_update :: "db \<Rightarrow> EventRow \<Rightarrow> JobUpdate" where
  "job_update d e = \<lparr>upd_Cursor = ev_id e, upd_JobID = ev_job_id e,
     upd_Name = (case job_row (ev_job_id e) d of None \<Rightarrow> '''' | Some j \<Rightarrow> spec_Name (jr_spec j)),
     upd_Status = ev_status e,
     upd_Version = (case job_row (ev_job_id e) d of None \<Rightarrow> 0 | Some j \<Rightarrow> jr_version j),
     upd_CreatedAt = parseTime (ev_created_at e)\<rparr>"

definition JobUpdatesForOwner :: "string \<Rightarrow> int \<Rightarrow> db \<Rightarrow> JobUpdate list" where
  "JobUpdatesForOwner ownerID after d =
     map (job_update d) (take 1000 (sort_slice (\<lambda>a b. ev_id a < ev_id b)
       (filter (\<lambda>e. owned_event d ownerID e \<and> ev_id e > after \<and> ev_status e \<noteq> JobStatusOther '''')
          (tbl_events d))))"

definition LatestJobUpdateCursorForOwner :: "string \<Rightarrow> db \<Rightarrow> int" where
  "LatestJobUpdateCursorForOwner ownerID d =
     max_or_zero (map ev_id (filter (owned_event d ownerID) (tbl_events d)))"

section \<open>Checkpoints\<close>

definition CreateCheckpointSync :: "CheckpointSync \<Rightarrow> unit dbop" where
  "CreateCheckpointSync sync d =
     (if has_row (\<lambda>c. cr_id c = sync_ID sync) (tbl_checkpoints d) then (Inl ErrConflict, d)
      else if job_row (sync_JobID sync) d = None \<or> attempt_row (sync_AttemptID sync) d = None
        then (Inl ErrConstraint, d)
      else (Inr (), d\<lparr>tbl_checkpoints := tbl_checkpoints d @
        [\<lparr>cr_id = sync_ID sync, cr_job_id = sync_JobID sync, cr_attempt_id = sync_AttemptID sync,
          cr_requested_at = formatTime (sync_RequestedAt sync), cr_confirmed_at = None,
          cr_file_count = 0, cr_byte_count = 0, cr_manifest = [], cr_label = nullable (sync_Label sync),
          cr_step = sync_Step sync,
          cr_observed_at = map_option (\<lambda>t. t div 1000000) (sync_ObservedAt sync),
          cr_metadata = sync_Metadata sync\<rparr>]\<rparr>))"

definition checkpoint_pending :: "db \<Rightarrow> string \<Rightarrow> CheckpointRow \<Rightarrow> bool" where
  "checkpoint_pending d nodeID c \<longleftrightarrow>
     cr_confirmed_at c = None \<and>
     (case job_row (cr_job_id c) d of
        None \<Rightarrow> False
      | Some j \<Rightarrow> jr_assigned_node_id j = Some nodeID \<and> jr_attempt_id j = Some (cr_attempt_id c) \<and>
          active_row j)"

definition PendingCheckpointSyncsForNode :: "string \<Rightarrow> db \<Rightarrow> CheckpointSync list" where
  "PendingCheckpointSyncsForNode nodeID d =
     map (\<lambda>c. \<lparr>sync_Cursor = 0, sync_ID = cr_id c, sync_JobID = cr_job_id c,
            sync_AttemptID = cr_attempt_id c, sync_Status = ''PENDING'', sync_FileCount = 0,
            sync_ByteCount = 0, sync_RequestedAt = parseTime (cr_requested_at c),
            sync_ConfirmedAt = None, sync_Label = '''', sync_Step = None, sync_ObservedAt = None,
            sync_Metadata = []\<rparr>)
       (order_by cr_requested_at (filter (checkpoint_pending d nodeID) (tbl_checkpoints d)))"

definition checkpoint_total :: "CheckpointFile list \<Rightarrow> int" where
  "checkpoint_total files = foldl (\<lambda>total f. i64 (total + ckfile_Size f)) 0 files"

definition ConfirmCheckpointSync :: "string \<Rightarrow> CheckpointFile list \<Rightarrow> gotime \<Rightarrow> unit dbop" where
  "ConfirmCheckpointSync i files now d =
     (if rows_affected (\<lambda>c. cr_id c = i) (tbl_checkpoints d) = 0 then (Inl ErrNotFound, d)
      else (Inr (), d\<lparr>tbl_checkpoints := update_where (\<lambda>c. cr_id c = i)
        (\<lambda>c. c\<lparr>cr_confirmed_at := coalesce (cr_confirmed_at c) (Some (formatTime now)),
               cr_file_count := (if cr_confirmed_at c = None then int (length files) else cr_file_count c),
               cr_byte_count := (if cr_confirmed_at c = None then checkpoint_total files else cr_byte_count c),
               cr_manifest := (if cr_confirmed_at c = None then files else cr_manifest c)\<rparr>)
        (tbl_checkpoints d)\<rparr>))"

definition scanCheckpointObservation :: "CheckpointRow \<Rightarrow> CheckpointSync" where
  "scanCheckpointObservation c =
     \<lparr>sync_Cursor = 0, sync_ID = cr_id c, sync_JobID = cr_job_id c, sync_AttemptID = cr_attempt_id c,
      sync_Status = (if cr_confirmed_at c = None then ''PENDING'' else ''CONFIRMED''),
      sync_FileCount = cr_file_count c, sync_ByteCount = cr_byte_count c,
      sync_RequestedAt = parseTime (cr_requested_at c), sync_ConfirmedAt = parseNullTime (cr_confirmed_at c),
      sync_Label = text_of (cr_label c), sync_Step = cr_step c,
      sync_ObservedAt = map_option (\<lambda>ms. ms * 1000000) (cr_observed_at c), sync_Metadata = cr_metadata c\<rparr>"

definition CheckpointSync_by_id :: "string \<Rightarrow> db \<Rightarrow> store_error + CheckpointSync" where
  "CheckpointSync_by_id i d =
     (case find (\<lambda>c. cr_id c = i) (tbl_checkpoints d) of
        None \<Rightarrow> Inl ErrNotFound | Some c \<Rightarrow> Inr (scanCheckpointObservation c))"

definition LatestConfirmedCheckpoint :: "string \<Rightarrow> db \<Rightarrow> store_error + CheckpointSync" where
  "LatestConfirmedCheckpoint jobID d =
     (case sort_slice (\<lambda>a b. case (cr_confirmed_at a, cr_confirmed_at b) of
             (Some x, Some y) \<Rightarrow> stamp_less y x | _ \<Rightarrow> False)
          (filter (\<lambda>c. cr_job_id c = jobID \<and> cr_confirmed_at c \<noteq> None) (tbl_checkpoints d)) of
        [] \<Rightarrow> Inl ErrNotFound
      | c # _ \<Rightarrow> CheckpointSync_by_id (cr_id c) d)"

section \<open>The agent's event handler\<close>

text \<open>
  \<^verbatim>\<open>agentEvent\<close> of \<^verbatim>\<open>internal/httpapi/api.go\<close>: the report of an agent about a job on its node. The first
  components of an answer are the HTTP status and the problem code. \<open>outputs\<close> is what decoding
  \<^verbatim>\<open>payload.outputs\<close> gives.
\<close>

datatype agent_answer = Accepted | Problem nat string | StoreFailure store_error

record agent_report =
  ag_attemptID :: string
  ag_sequence :: int
  ag_type :: string
  ag_report :: report
  ag_payload :: "json gomap"
  ag_outputs :: "OutputFile list"

definition agentEvent ::
  "(nat \<Rightarrow> db \<Rightarrow> db) \<Rightarrow> string \<Rightarrow> string \<Rightarrow> agent_report \<Rightarrow> gotime \<Rightarrow> db \<Rightarrow> agent_answer \<times> db" where
  "agentEvent env nodeID jobID body now d =
     (case Job jobID d of
        Inl e \<Rightarrow> (StoreFailure e, d)
      | Inr job \<Rightarrow>
          if job_AssignedNodeID job \<noteq> nodeID then (Problem 403 ''forbidden'', d)
          else if ag_attemptID body = '''' \<or> ag_attemptID body \<noteq> job_AttemptID job
            then (Problem 409 ''stale_attempt'', d)
          else if ag_type body = ''resource_sample'' then (Problem 422 ''raw_telemetry_rejected'', d)
          else
            (case AppendEvent \<lparr>event_ID = 0, event_JobID = job_ID job, event_AttemptID = ag_attemptID body,
                event_Sequence = ag_sequence body, event_Type = ag_type body,
                event_Status = rp_status (ag_report body), event_Payload = ag_payload body,
                event_CreatedAt = now\<rparr> d of
               (Inl e, d) \<Rightarrow> (StoreFailure e, d)
             | (Inr _, d) \<Rightarrow>
                 if rp_status (ag_report body) = JobStatusOther '''' then (Accepted, d)
                 else (case UpdateJobStatus env (job_ID job) (ag_report body) now d of
                    (Inl e, d) \<Rightarrow> (StoreFailure e, d)
                  | (Inr _, d) \<Rightarrow>
                      if is_finished (rp_status (ag_report body)) then
                        (case SetAttemptOutputs (job_ID job) (ag_attemptID body) (ag_outputs body) d of
                           (Inl e, d) \<Rightarrow> (StoreFailure e, d)
                         | (Inr _, d) \<Rightarrow> (Accepted, d))
                      else (Accepted, d))))"

end
