(* ===== verification/Scheduler.thy ===== *)
theory Scheduler
  imports Types
begin

text \<open>
  \<^verbatim>\<open>internal/capacity/capacity.go\<close> and the selection part of \<^verbatim>\<open>internal/scheduler/scheduler.go\<close>: the
  accounting of active jobs onto a snapshot of the nodes, the choice of a node and of GPUs for a
  queued job, the reason given when there is none, and the reservation in the snapshot.
\<close>

section \<open>Accounting\<close>

text \<open>
  \<^verbatim>\<open>Account\<close> writes through \<^verbatim>\<open>byID\<close>, which holds the last node of an id; \<open>update_last\<close> updates the last
  element that satisfies the predicate.
\<close>

fun update_last :: "('a \<Rightarrow> bool) \<Rightarrow> ('a \<Rightarrow> 'a) \<Rightarrow> 'a list \<Rightarrow> 'a list" where
  "update_last P f [] = []"
| "update_last P f (x # xs) =
     (if P x \<and> \<not> list_ex P xs then f x # xs else x # update_last P f xs)"

definition charge_package :: "Resources \<Rightarrow> CPUPackage \<Rightarrow> CPUPackage" where
  "charge_package res pkg =
     (if pkg_ID pkg = res_CPUPackageID res
      then pkg\<lparr>pkg_AllocatedMillis := i64 (pkg_AllocatedMillis pkg + res_CPUMillis res)\<rparr> else pkg)"

text \<open>The charges both \<^verbatim>\<open>Account\<close> and \<^verbatim>\<open>reserveInSnapshot\<close> make to a node.\<close>

definition charge_node :: "Resources \<Rightarrow> Node \<Rightarrow> Node" where
  "charge_node res node = node\<lparr>
     node_CPUAllocatedMillis := i64 (node_CPUAllocatedMillis node + res_CPUMillis res),
     node_CPUPackages :=
       (if res_CPUPackageID res \<noteq> '''' then map (charge_package res) (node_CPUPackages node)
        else node_CPUPackages node),
     node_MemoryAllocatedBytes := i64 (node_MemoryAllocatedBytes node + res_MemoryBytes res)\<rparr>"

definition mark_allocated :: "(string \<Rightarrow> bool) \<Rightarrow> GPU \<Rightarrow> GPU" where
  "mark_allocated alloc gpu = gpu\<lparr>gpu_Allocated := alloc (gpu_UUID gpu)\<rparr>"

text \<open>The allocated GPUs as node id to UUIDs; a missing node has none.\<close>

type_synonym gpu_allocations = "string \<Rightarrow> string \<Rightarrow> bool"

definition account_job :: "Node list \<Rightarrow> Job \<Rightarrow> Node list" where
  "account_job nodes job =
     (if \<not> IsActive (job_Status job) \<or> job_AssignedNodeID job = '''' then nodes
      else update_last (\<lambda>n. node_ID n = job_AssignedNodeID job)
             (charge_node (spec_Resources (job_Spec job))) nodes)"

definition Account :: "Node list \<Rightarrow> Job list \<Rightarrow> gpu_allocations \<Rightarrow> Node list" where
  "Account nodes jobs alloc =
     foldl account_job
       (map (\<lambda>n. n\<lparr>node_GPUs := map (mark_allocated (alloc (node_ID n))) (node_GPUs n)\<rparr>) nodes) jobs"

section \<open>Selecting a node\<close>

record candidate =
  cand_node :: Node
  cand_gpuUUIDs :: "string list"
  cand_vramWaste :: int
  cand_ramWaste :: int
  cand_cpuWaste :: int
  cand_cpuPackageID :: string
  cand_cpuSet :: string

text \<open>The flags of the loop over the nodes and the candidates found so far.\<close>

record selection =
  hasTarget :: bool
  hasOnline :: bool
  hasLabels :: bool
  hasCPU :: bool
  hasMemory :: bool
  hasGPUModel :: bool
  hasGPUInventory :: bool
  hasFreeRequestedGPU :: bool
  hasCPUCapability :: bool
  hasCPUPackage :: bool
  hasCPUPackageCapacity :: bool
  candidates :: "candidate list"

definition empty_selection :: selection where
  "empty_selection = \<lparr>hasTarget = False, hasOnline = False, hasLabels = False, hasCPU = False,
     hasMemory = False, hasGPUModel = False, hasGPUInventory = False, hasFreeRequestedGPU = False,
     hasCPUCapability = False, hasCPUPackage = False, hasCPUPackageCapacity = False, candidates = []\<rparr>"

definition decimal_digit :: "nat \<Rightarrow> char" where
  "decimal_digit n = char_of (48 + n)"

fun itoa_nat :: "nat \<Rightarrow> string" where
  "itoa_nat n =
     (if n < 10 then [decimal_digit n] else itoa_nat (n div 10) @ [decimal_digit (n mod 10)])"

declare itoa_nat.simps [simp del]

definition Itoa :: "int \<Rightarrow> string" where
  "Itoa i = (if i < 0 then CHR ''-'' # itoa_nat (nat (- i)) else itoa_nat (nat i))"

definition logicalCPUSet :: "int list \<Rightarrow> string" where
  "logicalCPUSet values = join_with (CHR '','') (map Itoa values)"

definition labelsMatch :: "string gomap \<Rightarrow> string gomap \<Rightarrow> bool" where
  "labelsMatch labels selector = list_all (\<lambda>(k, v). gomap_get labels k = v) selector"

definition gpu_less :: "GPU \<Rightarrow> GPU \<Rightarrow> bool" where
  "gpu_less a b =
     (if gpu_VRAMBytes a = gpu_VRAMBytes b then gpu_UUID a < gpu_UUID b
      else gpu_VRAMBytes a < gpu_VRAMBytes b)"

definition candidate_less :: "candidate \<Rightarrow> candidate \<Rightarrow> bool" where
  "candidate_less a b =
     (if cand_vramWaste a \<noteq> cand_vramWaste b then cand_vramWaste a < cand_vramWaste b
      else if cand_ramWaste a \<noteq> cand_ramWaste b then cand_ramWaste a < cand_ramWaste b
      else if cand_cpuWaste a \<noteq> cand_cpuWaste b then cand_cpuWaste a < cand_cpuWaste b
      else node_ID (cand_node a) < node_ID (cand_node b))"

text \<open>
  The CPU package part of the loop body: \<open>None\<close> is \<^verbatim>\<open>continue\<close>, otherwise the package id and its
  CPU set (both empty when no package is requested).
\<close>

definition cpu_package_step ::
  "JobSpec \<Rightarrow> Node \<Rightarrow> selection \<Rightarrow> selection \<times> (string \<times> string) option" where
  "cpu_package_step spec node st =
     (let res = spec_Resources spec in
      if res_CPUPackageID res = '''' then (st, Some ('''', ''''))
      else if \<not> List.member (node_Capabilities node) ''cpu_package_affinity'' then (st, None)
      else let st = st\<lparr>hasCPUCapability := True\<rparr> in
        case find (\<lambda>p. pkg_ID p = res_CPUPackageID res) (node_CPUPackages node) of
          None \<Rightarrow> (st, None)
        | Some sel \<Rightarrow>
            let st = st\<lparr>hasCPUPackage := True\<rparr> in
            if i64 (pkg_TotalMillis sel - pkg_AllocatedMillis sel) < res_CPUMillis res then (st, None)
            else (st\<lparr>hasCPUPackageCapacity := True\<rparr>,
                  Some (pkg_ID sel, logicalCPUSet (pkg_LogicalCPUs sel))))"

text \<open>
  The loop over explicitly requested UUIDs: whether all exist and are free, and the ids chosen
  before the loop ended.
\<close>

fun pick_explicit :: "GPU gomap \<Rightarrow> string list \<Rightarrow> bool \<Rightarrow> string list \<Rightarrow> bool \<times> bool \<times> string list" where
  "pick_explicit byID [] allFree chosen = (True, allFree, chosen)"
| "pick_explicit byID (i # rest) allFree chosen =
     (case map_of byID i of
        None \<Rightarrow> (False, allFree, chosen)
      | Some gpu \<Rightarrow> pick_explicit byID rest (allFree \<and> \<not> gpu_Allocated gpu) (chosen @ [i]))"

text \<open>The greedy loop over the sorted GPUs: chosen UUIDs, accumulated waste, and \<^verbatim>\<open>hasGPUModel\<close>.\<close>

fun pick_greedy :: "GPURequest \<Rightarrow> GPU list \<Rightarrow> string list \<Rightarrow> int \<Rightarrow> bool \<Rightarrow> string list \<times> int \<times> bool" where
  "pick_greedy req [] chosen waste model = (chosen, waste, model)"
| "pick_greedy req (g # gs) chosen waste model =
     (let model = (model \<or> gpu_VRAMBytes g \<ge> gpureq_MinVRAMBytes req) in
      if \<not> gpu_Allocated g \<and> gpu_VRAMBytes g \<ge> gpureq_MinVRAMBytes req \<and>
         int (length chosen) < gpureq_Count req
      then pick_greedy req gs (chosen @ [gpu_UUID g])
             (i64 (waste + i64 (gpu_VRAMBytes g - gpureq_MinVRAMBytes req))) model
      else pick_greedy req gs chosen waste model)"

definition gpu_step ::
  "JobSpec \<Rightarrow> Node \<Rightarrow> selection \<Rightarrow> selection \<times> (string list \<times> int) option" where
  "gpu_step spec node st =
     (let req = res_GPU (spec_Resources spec);
          gpus = sort_slice gpu_less (node_GPUs node)
      in if gpureq_UUIDs req \<noteq> [] then
           (case pick_explicit (rev (map (\<lambda>g. (gpu_UUID g, g)) gpus)) (gpureq_UUIDs req) True [] of
              (allExist, allFree, chosen) \<Rightarrow>
                if \<not> allExist then (st, None)
                else let st = st\<lparr>hasGPUInventory := True\<rparr> in
                  if \<not> allFree then (st, None)
                  else (st\<lparr>hasFreeRequestedGPU := True, hasGPUModel := True\<rparr>, Some (chosen, 0)))
         else
           (case pick_greedy req gpus [] 0 (hasGPUModel st) of
              (chosen, waste, model) \<Rightarrow> (st\<lparr>hasGPUModel := model\<rparr>, Some (chosen, waste))))"

definition consider_node :: "JobSpec \<Rightarrow> selection \<Rightarrow> Node \<Rightarrow> selection" where
  "consider_node spec st node =
     (let res = spec_Resources spec in
      if spec_TargetNodeID spec \<noteq> '''' \<and> node_ID node \<noteq> spec_TargetNodeID spec then st
      else let st = st\<lparr>hasTarget := True\<rparr> in
      if node_Status node \<noteq> NodeOnline then st
      else let st = st\<lparr>hasOnline := True\<rparr> in
      if \<not> labelsMatch (node_Labels node) (spec_NodeSelector spec) then st
      else let st = st\<lparr>hasLabels := True\<rparr>;
               cpuFree = i64 (node_CPUTotalMillis node - node_CPUAllocatedMillis node) in
      if cpuFree < res_CPUMillis res then st
      else let st = st\<lparr>hasCPU := True\<rparr>;
               memoryFree = i64 (node_MemoryTotalBytes node - node_MemoryAllocatedBytes node) in
      if memoryFree < res_MemoryBytes res then st
      else let st = st\<lparr>hasMemory := True\<rparr> in
      case cpu_package_step spec node st of
        (st, None) \<Rightarrow> st
      | (st, Some (cpuPackageID, cpuSet)) \<Rightarrow>
          (case gpu_step spec node st of
             (st, None) \<Rightarrow> st
           | (st, Some (chosen, vramWaste)) \<Rightarrow>
               if int (length chosen) \<noteq> gpureq_Count (res_GPU res) then st
               else st\<lparr>candidates := candidates st @
                 [\<lparr>cand_node = node, cand_gpuUUIDs = chosen, cand_vramWaste = vramWaste,
                   cand_ramWaste = i64 (memoryFree - res_MemoryBytes res),
                   cand_cpuWaste = i64 (cpuFree - res_CPUMillis res),
                   cand_cpuPackageID = cpuPackageID, cand_cpuSet = cpuSet\<rparr>]\<rparr>))"

text \<open>The code and message of the \<^verbatim>\<open>switch\<close> over the flags when there is no candidate.\<close>

definition queue_reason :: "JobSpec \<Rightarrow> selection \<Rightarrow> string \<times> string" where
  "queue_reason spec st =
     (let res = spec_Resources spec; gpu = res_GPU res in
      if spec_TargetNodeID spec \<noteq> '''' \<and> \<not> hasTarget st then
        (''REQUESTED_NODE_NOT_FOUND'', ''Waiting: the requested execution node is not registered'')
      else if spec_TargetNodeID spec \<noteq> '''' \<and> \<not> hasOnline st then
        (''REQUESTED_NODE_UNAVAILABLE'', ''Waiting: the requested execution node is not online'')
      else if \<not> hasOnline st then
        (''NO_ONLINE_NODE'', ''Waiting: no execution node is online'')
      else if \<not> hasLabels st then
        (''NODE_SELECTOR_MISMATCH'', ''Waiting: no online node matches the requested labels'')
      else if \<not> hasCPU st then
        (''INSUFFICIENT_CPU'', ''Waiting: compatible nodes do not have enough unreserved CPU'')
      else if \<not> hasMemory st then
        (''INSUFFICIENT_MEMORY'', ''Waiting: compatible nodes do not have enough unreserved memory'')
      else if res_CPUPackageID res \<noteq> '''' \<and> \<not> hasCPUCapability st then
        (''CPU_AFFINITY_UNSUPPORTED'', ''Waiting: the requested node does not support CPU package affinity'')
      else if res_CPUPackageID res \<noteq> '''' \<and> \<not> hasCPUPackage st then
        (''REQUESTED_CPU_PACKAGE_NOT_FOUND'',
         ''Waiting: the requested CPU package is not present on the node'')
      else if res_CPUPackageID res \<noteq> '''' \<and> \<not> hasCPUPackageCapacity st then
        (''INSUFFICIENT_CPU_PACKAGE'',
         ''Waiting: the requested CPU package does not have enough unreserved capacity'')
      else if gpureq_UUIDs gpu \<noteq> [] \<and> \<not> hasGPUInventory st then
        (''REQUESTED_GPU_NOT_FOUND'',
         ''Waiting: one or more requested GPUs are not present on the node'')
      else if gpureq_UUIDs gpu \<noteq> [] \<and> \<not> hasFreeRequestedGPU st then
        (''REQUESTED_GPU_ALLOCATED'',
         ''Waiting: one or more requested GPUs are currently allocated'')
      else if gpureq_Count gpu > 0 \<and> \<not> hasGPUModel st then
        (''NO_COMPATIBLE_GPU'',
         ''Waiting: no node has '' @ Itoa (gpureq_Count gpu) @ '' GPU(s) with the requested VRAM'')
      else
        (''RESOURCES_ALLOCATED'',
         ''Waiting: compatible resources exist but are currently allocated''))"

definition select_scan :: "JobSpec \<Rightarrow> Node list \<Rightarrow> selection" where
  "select_scan spec nodes = foldl (consider_node spec) empty_selection nodes"

text \<open>\<open>Inl\<close> is the code and message for the queue, \<open>Inr\<close> the first candidate after sorting.\<close>

definition selectNode :: "JobSpec \<Rightarrow> Node list \<Rightarrow> (string \<times> string) + candidate" where
  "selectNode spec nodes =
     (let st = select_scan spec nodes in
      case sort_slice candidate_less (candidates st) of
        [] \<Rightarrow> Inl (queue_reason spec st)
      | c # _ \<Rightarrow> Inr c)"

definition reserve_gpu :: "string list \<Rightarrow> GPU \<Rightarrow> GPU" where
  "reserve_gpu gpuUUIDs gpu =
     (if List.member gpuUUIDs (gpu_UUID gpu) then gpu\<lparr>gpu_Allocated := True\<rparr> else gpu)"

definition reserve_node :: "Resources \<Rightarrow> string list \<Rightarrow> Node \<Rightarrow> Node" where
  "reserve_node res gpuUUIDs node =
     (charge_node res node)\<lparr>node_GPUs := map (reserve_gpu gpuUUIDs) (node_GPUs node)\<rparr>"

definition reserveInSnapshot :: "Node list \<Rightarrow> string \<Rightarrow> Resources \<Rightarrow> string list \<Rightarrow> Node list" where
  "reserveInSnapshot nodes nodeID res gpuUUIDs =
     map (\<lambda>n. if node_ID n \<noteq> nodeID then n else reserve_node res gpuUUIDs n) nodes"

end
