(* ===== verification/NodeStore.thy ===== *)
theory NodeStore
  imports AgentStore Scheduler
begin

text \<open>
  The node part of \<^verbatim>\<open>internal/store/store.go\<close>: enrolment, heartbeats, the inventory tables,
  credentials, removal of nodes, and the sweep that marks silent nodes offline and their jobs lost;
  then the capacity snapshot and one pass of the scheduler over the queue.
\<close>

section \<open>Inventory\<close>

definition stored_gpu :: "GPU \<Rightarrow> GPU" where
  "stored_gpu g = g\<lparr>gpu_Allocated := False, gpu_AllocatedJobID := ''''\<rparr>"

definition stored_package :: "CPUPackage \<Rightarrow> CPUPackage" where
  "stored_package p = p\<lparr>pkg_AllocatedMillis := 0\<rparr>"

text \<open>
  The inventory tables after a node's rows were deleted and reinserted; \<open>None\<close> when a UUID or a package
  id repeats.
\<close>

definition replace_inventory :: "Node \<Rightarrow> db \<Rightarrow> db option" where
  "replace_inventory node d =
     (if \<not> distinct (map gpu_UUID (node_GPUs node)) \<or> \<not> distinct (map pkg_ID (node_CPUPackages node)) then None
      else Some (d\<lparr>
        tbl_gpus := delete_where (\<lambda>(n, g). n = node_ID node) (tbl_gpus d) @
          map (\<lambda>g. (node_ID node, stored_gpu g)) (node_GPUs node),
        tbl_cpu_packages := delete_where (\<lambda>(n, p). n = node_ID node) (tbl_cpu_packages d) @
          map (\<lambda>p. (node_ID node, stored_package p)) (node_CPUPackages node)\<rparr>))"

definition refresh_node_row :: "Node \<Rightarrow> NodeStatus \<Rightarrow> NodeRow \<Rightarrow> NodeRow" where
  "refresh_node_row node st r = r\<lparr>nr_name := node_Name node, nr_status := st,
     nr_agent_version := node_AgentVersion node, nr_protocol_version := node_ProtocolVersion node,
     nr_architecture := node_Architecture node, nr_docker_version := node_DockerVersion node,
     nr_cpu_total_millis := node_CPUTotalMillis node, nr_memory_total_bytes := node_MemoryTotalBytes node,
     nr_workspace_total_bytes := node_WorkspaceTotalBytes node,
     nr_workspace_free_bytes := node_WorkspaceFreeBytes node, nr_labels := node_Labels node,
     nr_last_heartbeat := formatTime (node_LastHeartbeat node), nr_gpu_discovery := node_GPUDiscovery node,
     nr_capabilities := node_Capabilities node, nr_system := node_System node,
     nr_runtime := node_Runtime node\<rparr>"

definition new_node_row :: "Node \<Rightarrow> string \<Rightarrow> gotime \<Rightarrow> NodeRow" where
  "new_node_row node credentialHash now =
     \<lparr>nr_id = node_ID node, nr_name = node_Name node, nr_name_override = None, nr_status = node_Status node,
      nr_agent_version = node_AgentVersion node, nr_protocol_version = node_ProtocolVersion node,
      nr_architecture = node_Architecture node, nr_docker_version = node_DockerVersion node,
      nr_cpu_total_millis = node_CPUTotalMillis node, nr_memory_total_bytes = node_MemoryTotalBytes node,
      nr_workspace_total_bytes = node_WorkspaceTotalBytes node,
      nr_workspace_free_bytes = node_WorkspaceFreeBytes node, nr_labels = node_Labels node,
      nr_labels_override = None, nr_credential_hash = credentialHash,
      nr_credential_created_at = formatTime now, nr_previous_credential_hash = None,
      nr_previous_credential_expires_at = None, nr_last_heartbeat = formatTime (node_LastHeartbeat node),
      nr_created_at = formatTime (node_CreatedAt node), nr_gpu_discovery = node_GPUDiscovery node,
      nr_capabilities = node_Capabilities node, nr_system = node_System node,
      nr_runtime = node_Runtime node, nr_deleted_at = None\<rparr>"

definition UpsertNode :: "Node \<Rightarrow> string \<Rightarrow> gotime \<Rightarrow> unit dbop" where
  "UpsertNode node credentialHash now d =
     (let exists = has_row (\<lambda>r. nr_id r = node_ID node) (tbl_nodes d) in
      if \<not> exists \<and> has_row (\<lambda>r. nr_credential_hash r = credentialHash) (tbl_nodes d) then (Inl ErrConstraint, d)
      else let d' = d\<lparr>tbl_nodes :=
             (if exists then
                update_where (\<lambda>r. nr_id r = node_ID node) (refresh_node_row node (node_Status node)) (tbl_nodes d)
              else tbl_nodes d @ [new_node_row node credentialHash now])\<rparr>
        in case replace_inventory node d' of
             None \<Rightarrow> (Inl ErrConstraint, d) | Some d'' \<Rightarrow> (Inr (), d''))"

definition Heartbeat :: "Node \<Rightarrow> unit dbop" where
  "Heartbeat node d =
     (let match = (\<lambda>r. nr_id r = node_ID node \<and> nr_deleted_at r = None) in
      if rows_affected match (tbl_nodes d) = 0 then (Inl ErrNotFound, d)
      else let d' = d\<lparr>tbl_nodes := update_where match
             (\<lambda>r. refresh_node_row node
                (if nr_status r = NodeDraining then nr_status r else node_Status node) r) (tbl_nodes d)\<rparr>
        in case replace_inventory node d' of
             None \<Rightarrow> (Inl ErrConstraint, d) | Some d'' \<Rightarrow> (Inr (), d''))"

definition scanNode :: "db \<Rightarrow> NodeRow \<Rightarrow> Node" where
  "scanNode d r =
     \<lparr>node_ID = nr_id r,
      node_Name = (case nr_name_override r of None \<Rightarrow> nr_name r | Some n \<Rightarrow> n),
      node_Status = nr_status r, node_AgentVersion = nr_agent_version r,
      node_ProtocolVersion = nr_protocol_version r, node_Architecture = nr_architecture r,
      node_DockerVersion = nr_docker_version r, node_CPUTotalMillis = nr_cpu_total_millis r,
      node_CPUAllocatedMillis = 0, node_MemoryTotalBytes = nr_memory_total_bytes r,
      node_MemoryAllocatedBytes = 0, node_WorkspaceTotalBytes = nr_workspace_total_bytes r,
      node_WorkspaceFreeBytes = nr_workspace_free_bytes r,
      node_Labels = (case nr_labels_override r of None \<Rightarrow> nr_labels r | Some l \<Rightarrow> l),
      node_Capabilities = nr_capabilities r,
      node_CPUPackages = sort_slice (\<lambda>a b. pkg_ID a < pkg_ID b)
        (map snd (filter (\<lambda>(n, p). n = nr_id r) (tbl_cpu_packages d))),
      node_GPUs = sort_slice (\<lambda>a b. gpu_UUID a < gpu_UUID b)
        (map snd (filter (\<lambda>(n, g). n = nr_id r) (tbl_gpus d))),
      node_GPUDiscovery = nr_gpu_discovery r,
      node_System = (nr_system r)\<lparr>sys_Architecture :=
        (if sys_Architecture (nr_system r) = '''' then nr_architecture r else sys_Architecture (nr_system r))\<rparr>,
      node_Runtime = (nr_runtime r)\<lparr>rt_DockerVersion :=
        (if rt_DockerVersion (nr_runtime r) = '''' then nr_docker_version r else rt_DockerVersion (nr_runtime r))\<rparr>,
      node_LastHeartbeat = parseTime (nr_last_heartbeat r), node_CreatedAt = parseTime (nr_created_at r)\<rparr>"

definition ListNodes :: "db \<Rightarrow> Node list" where
  "ListNodes d = map (scanNode d)
     (sort_slice (\<lambda>a b. node_Name (scanNode d a) < node_Name (scanNode d b))
       (filter (\<lambda>r. nr_deleted_at r = None) (tbl_nodes d)))"

section \<open>Administration\<close>

definition update_live_node :: "string \<Rightarrow> (NodeRow \<Rightarrow> NodeRow) \<Rightarrow> unit dbop" where
  "update_live_node i f d =
     (let match = (\<lambda>r. nr_id r = i \<and> nr_deleted_at r = None) in
      if rows_affected match (tbl_nodes d) = 0 then (Inl ErrNotFound, d)
      else (Inr (), d\<lparr>tbl_nodes := update_where match f (tbl_nodes d)\<rparr>))"

definition UpdateNodeMetadata :: "string \<Rightarrow> string \<Rightarrow> string gomap \<Rightarrow> unit dbop" where
  "UpdateNodeMetadata i name labels =
     update_live_node i (\<lambda>r. r\<lparr>nr_name_override := Some name, nr_labels_override := Some labels\<rparr>)"

definition NodeByCredential :: "string \<Rightarrow> gotime \<Rightarrow> db \<Rightarrow> store_error + NodeRow" where
  "NodeByCredential credentialHash now d =
     (case find (\<lambda>r. nr_deleted_at r = None \<and>
          (nr_credential_hash r = credentialHash \<or>
           nr_previous_credential_hash r = Some credentialHash \<and>
           (case nr_previous_credential_expires_at r of
              None \<Rightarrow> False | Some e \<Rightarrow> stamp_less (formatTime now) e))) (tbl_nodes d) of
        None \<Rightarrow> Inl ErrNotFound | Some r \<Rightarrow> Inr r)"

definition RotateNodeCredential :: "string \<Rightarrow> string \<Rightarrow> gotime \<Rightarrow> unit dbop" where
  "RotateNodeCredential nodeID credentialHash now d =
     (if has_row (\<lambda>r. nr_id r \<noteq> nodeID \<and> nr_credential_hash r = credentialHash) (tbl_nodes d) \<and>
         has_row (\<lambda>r. nr_id r = nodeID \<and> nr_deleted_at r = None) (tbl_nodes d)
      then (Inl ErrConstraint, d)
      else update_live_node nodeID
        (\<lambda>r. r\<lparr>nr_previous_credential_hash := Some (nr_credential_hash r),
               nr_previous_credential_expires_at := Some (formatTime (now + 600000000000)),
               nr_credential_hash := credentialHash, nr_credential_created_at := formatTime now\<rparr>) d)"

definition SetNodeStatus :: "string \<Rightarrow> NodeStatus \<Rightarrow> unit dbop" where
  "SetNodeStatus i st = update_live_node i (\<lambda>r. r\<lparr>nr_status := st\<rparr>)"

definition DeleteNode :: "string \<Rightarrow> gotime \<Rightarrow> unit dbop" where
  "DeleteNode i now d =
     (case find (\<lambda>r. nr_id r = i) (tbl_nodes d) of
        None \<Rightarrow> (Inl ErrNotFound, d)
      | Some r \<Rightarrow>
          if nr_deleted_at r \<noteq> None then (Inl ErrNotFound, d)
          else if rows_affected (\<lambda>j. jr_assigned_node_id j = Some i \<and> active_row j) (tbl_jobs d) > 0
            then (Inl ErrConflict, d)
          else (Inr (), d\<lparr>
            tbl_nodes := update_where (\<lambda>r. nr_id r = i \<and> nr_deleted_at r = None)
              (\<lambda>r. r\<lparr>nr_status := NodeOffline, nr_deleted_at := Some (formatTime now),
                     nr_credential_hash := ''revoked:'' @ nr_id r, nr_previous_credential_hash := None,
                     nr_previous_credential_expires_at := None\<rparr>) (tbl_nodes d),
            tbl_gpus := delete_where (\<lambda>(n, g). n = i) (tbl_gpus d)\<rparr>))"

section \<open>Silent nodes\<close>

text \<open>The statuses \<^verbatim>\<open>MarkStaleNodes\<close> turns into \<^verbatim>\<open>LOST\<close>.\<close>

definition losable :: "JobStatus \<Rightarrow> bool" where
  "losable st \<longleftrightarrow>
     List.member [JobAssigned, JobPullingImage, JobStarting, JobRunning, JobStopping] st"

definition mark_job_lost :: "gotime \<Rightarrow> string \<Rightarrow> unit dbop" where
  "mark_job_lost now jobID d =
     (let d1 = d\<lparr>tbl_jobs := update_where (\<lambda>r. jr_id r = jobID \<and> losable (jr_status r))
            (\<lambda>r. r\<lparr>jr_status := JobLost, jr_observed_status := JobLost, jr_version := jr_version r + 1\<rparr>)
            (tbl_jobs d)\<rparr>;
          current = (case job_row jobID d1 of None \<Rightarrow> None | Some j \<Rightarrow> jr_attempt_id j);
          d2 = d1\<lparr>tbl_attempts := update_where (\<lambda>a. current = Some (ar_id a))
            (\<lambda>a. a\<lparr>ar_status := JobLost\<rparr>) (tbl_attempts d1)\<rparr>
      in AppendServerEvent jobID ''lost'' [] now d2)"

fun mark_jobs_lost :: "gotime \<Rightarrow> string list \<Rightarrow> unit dbop" where
  "mark_jobs_lost now [] d = (Inr (), d)"
| "mark_jobs_lost now (i # is) d =
     (case mark_job_lost now i d of (Inl e, d) \<Rightarrow> (Inl e, d) | (Inr _, d) \<Rightarrow> mark_jobs_lost now is d)"

definition stale_node :: "stamp \<Rightarrow> NodeRow \<Rightarrow> bool" where
  "stale_node before r \<longleftrightarrow> nr_deleted_at r = None \<and> stamp_less (nr_last_heartbeat r) before"

definition MarkStaleNodes :: "gotime \<Rightarrow> gotime \<Rightarrow> gotime \<Rightarrow> unit dbop" where
  "MarkStaleNodes offlineBefore lostBefore now d =
     (let d1 = d\<lparr>tbl_nodes := update_where
            (\<lambda>r. (nr_status r = NodeOnline \<or> nr_status r = NodeDegraded) \<and> stale_node (formatTime offlineBefore) r)
            (\<lambda>r. r\<lparr>nr_status := NodeOffline\<rparr>) (tbl_nodes d)\<rparr>;
          jobIDs = map jr_id (filter (\<lambda>j. losable (jr_status j) \<and>
            has_row (\<lambda>n. stale_node (formatTime lostBefore) n \<and> jr_assigned_node_id j = Some (nr_id n))
              (tbl_nodes d1)) (tbl_jobs d1))
      in mark_jobs_lost now jobIDs d1)"

section \<open>One scheduling pass\<close>

definition Snapshot :: "db \<Rightarrow> Node list" where
  "Snapshot d = Account (ListNodes d) (ListJobs False d) (AllocatedGPUUUIDs d)"

text \<open>
  The loop of \<^verbatim>\<open>Schedule\<close>. \<open>tickets k\<close> is what the \<open>k\<close>-th placement of the pass generates: fresh ids,
  the token hash and the encrypted token, or the error of the encryption. The bookkeeping of the
  snapshot follows the reservations. A conflict goes on with the next job, another error ends the
  pass.
\<close>

fun schedule_jobs ::
  "gotime \<Rightarrow> (nat \<Rightarrow> store_error + ticket) \<Rightarrow> nat \<Rightarrow> Node list \<Rightarrow> Job list \<Rightarrow> unit dbop" where
  "schedule_jobs now tickets k nodes [] d = (Inr (), d)"
| "schedule_jobs now tickets k nodes (job # jobs) d =
     (case selectNode (job_Spec job) nodes of
        Inl (code, message) \<Rightarrow>
          schedule_jobs now tickets k nodes jobs (snd (SetQueueReason (job_ID job) code message d))
      | Inr c \<Rightarrow>
          (case tickets k of
             Inl e \<Rightarrow> (Inl e, d)
           | Inr tk \<Rightarrow>
               (case ReserveJobWithAffinity (job_ID job) (node_ID (cand_node c)) tk (cand_gpuUUIDs c)
                       (cand_cpuPackageID c) (cand_cpuSet c) now d of
                  (Inl e, d') \<Rightarrow>
                    if e = ErrConflict then schedule_jobs now tickets (Suc k) nodes jobs d' else (Inl e, d')
                | (Inr _, d') \<Rightarrow>
                    schedule_jobs now tickets (Suc k)
                      (reserveInSnapshot nodes (node_ID (cand_node c)) (spec_Resources (job_Spec job))
                        (cand_gpuUUIDs c))
                      jobs d')))"

definition Schedule :: "gotime \<Rightarrow> (nat \<Rightarrow> store_error + ticket) \<Rightarrow> unit dbop" where
  "Schedule now tickets d =
     (let jobs = QueuedJobs d in
      if jobs = [] then (Inr (), d) else schedule_jobs now tickets 0 (Snapshot d) jobs d)"

end
