(* ===== verification/Systems.thy ===== *)
theory Systems
  imports Main
begin

text \<open>
  The contracts the stateful components are proved against: a transition system with an invariant,
  and a store whose records move along an allowed relation of statuses and never vanish.
\<close>

locale invariant_system =
  fixes step :: "'s \<Rightarrow> 's \<Rightarrow> bool"
    and inv :: "'s \<Rightarrow> bool"
  assumes step_inv: "inv s \<Longrightarrow> step s s' \<Longrightarrow> inv s'"
begin

lemma run_inv: "step\<^sup>*\<^sup>* s s' \<Longrightarrow> inv s \<Longrightarrow> inv s'"
  by (induction rule: rtranclp_induct) (auto intro: step_inv)

end

locale status_machine = invariant_system step inv
  for step :: "'s \<Rightarrow> 's \<Rightarrow> bool" and inv :: "'s \<Rightarrow> bool" +
  fixes status :: "'s \<Rightarrow> 'k \<Rightarrow> 'st option"
    and allowed :: "'st \<Rightarrow> 'st \<Rightarrow> bool"
  assumes step_allowed:
    "inv s \<Longrightarrow> step s s' \<Longrightarrow> status s k = Some a \<Longrightarrow> \<exists>b. status s' k = Some b \<and> allowed a b"
begin

lemma run_allowed:
  assumes "step\<^sup>*\<^sup>* s s'" "inv s" "status s k = Some a"
  shows "\<exists>b. status s' k = Some b \<and> allowed\<^sup>*\<^sup>* a b"
  using assms
proof (induction rule: rtranclp_induct)
  case base
  then show ?case by auto
next
  case (step t u)
  then obtain b where b: "status t k = Some b" "allowed\<^sup>*\<^sup>* a b" by blast
  from step.prems(1) step.hyps(1) have "inv t" using run_inv by blast
  from step_allowed [OF this step.hyps(2) b(1)] obtain c where "status u k = Some c" "allowed b c" by blast
  with b(2) show ?case by (auto intro: rtranclp.rtrancl_into_rtrancl)
qed

text \<open>A set of statuses the relation does not leave is never left.\<close>

lemma run_stays:
  assumes "step\<^sup>*\<^sup>* s s'" "inv s" "status s k = Some a" "a \<in> C"
    and closed: "\<And>x y. x \<in> C \<Longrightarrow> allowed x y \<Longrightarrow> y \<in> C"
  shows "\<exists>b\<in>C. status s' k = Some b"
proof -
  from run_allowed [OF assms(1-3)] obtain b where b: "status s' k = Some b" "allowed\<^sup>*\<^sup>* a b" by blast
  from b(2) assms(4) have "b \<in> C" by (induction rule: rtranclp_induct) (auto intro: closed)
  with b show ?thesis by blast
qed

end

end
