(* ===== verification/SchedulerFacts.thy ===== *)
theory SchedulerFacts
  imports Scheduler
begin

text \<open>
  The lemmas on node selection: both comparison functions are strict weak orders, each flag of the
  scan is a statement about the nodes, a candidate exists exactly for the feasible nodes, and a
  candidate's resources fit the node it names.
\<close>

interpretation gpu_order: slice_order gpu_less
  by unfold_locales (auto simp: gpu_less_def split: if_splits)

interpretation candidate_order: slice_order candidate_less
  by unfold_locales (auto simp: candidate_less_def split: if_splits)

section \<open>The stages of the scan\<close>

definition at_target :: "JobSpec \<Rightarrow> Node \<Rightarrow> bool" where
  "at_target spec n \<longleftrightarrow> spec_TargetNodeID spec = '''' \<or> node_ID n = spec_TargetNodeID spec"

definition at_online :: "JobSpec \<Rightarrow> Node \<Rightarrow> bool" where
  "at_online spec n \<longleftrightarrow> at_target spec n \<and> node_Status n = NodeOnline"

definition at_labels :: "JobSpec \<Rightarrow> Node \<Rightarrow> bool" where
  "at_labels spec n \<longleftrightarrow> at_online spec n \<and> labelsMatch (node_Labels n) (spec_NodeSelector spec)"

definition cpu_free :: "Node \<Rightarrow> int" where
  "cpu_free n = i64 (node_CPUTotalMillis n - node_CPUAllocatedMillis n)"

definition memory_free :: "Node \<Rightarrow> int" where
  "memory_free n = i64 (node_MemoryTotalBytes n - node_MemoryAllocatedBytes n)"

definition at_cpu :: "JobSpec \<Rightarrow> Node \<Rightarrow> bool" where
  "at_cpu spec n \<longleftrightarrow> at_labels spec n \<and> res_CPUMillis (spec_Resources spec) \<le> cpu_free n"

definition at_memory :: "JobSpec \<Rightarrow> Node \<Rightarrow> bool" where
  "at_memory spec n \<longleftrightarrow> at_cpu spec n \<and> res_MemoryBytes (spec_Resources spec) \<le> memory_free n"

definition requested_package :: "JobSpec \<Rightarrow> Node \<Rightarrow> CPUPackage option" where
  "requested_package spec n =
     find (\<lambda>p. pkg_ID p = res_CPUPackageID (spec_Resources spec)) (node_CPUPackages n)"

definition package_fits :: "JobSpec \<Rightarrow> Node \<Rightarrow> bool" where
  "package_fits spec n \<longleftrightarrow>
     res_CPUPackageID (spec_Resources spec) = '''' \<or>
     List.member (node_Capabilities n) ''cpu_package_affinity'' \<and>
     (case requested_package spec n of
        None \<Rightarrow> False
      | Some p \<Rightarrow> res_CPUMillis (spec_Resources spec) \<le> i64 (pkg_TotalMillis p - pkg_AllocatedMillis p))"

definition at_package :: "JobSpec \<Rightarrow> Node \<Rightarrow> bool" where
  "at_package spec n \<longleftrightarrow> at_memory spec n \<and> package_fits spec n"

lemmas stage_defs = at_target_def at_online_def at_labels_def at_cpu_def at_memory_def
  at_package_def package_fits_def requested_package_def cpu_free_def memory_free_def

text \<open>Free GPUs that are large enough, and what the GPU step chooses on a node.\<close>

definition usable_gpu :: "GPURequest \<Rightarrow> GPU \<Rightarrow> bool" where
  "usable_gpu req g \<longleftrightarrow> \<not> gpu_Allocated g \<and> gpureq_MinVRAMBytes req \<le> gpu_VRAMBytes g"

definition gpus_by_id :: "Node \<Rightarrow> GPU gomap" where
  "gpus_by_id n = rev (map (\<lambda>g. (gpu_UUID g, g)) (sort_slice gpu_less (node_GPUs n)))"

definition gpu_choice :: "JobSpec \<Rightarrow> Node \<Rightarrow> (string list \<times> int) option" where
  "gpu_choice spec n = snd (gpu_step spec n empty_selection)"

lemma pick_greedy_model:
  "fst (pick_greedy req gs ch w m) = fst (pick_greedy req gs ch w m') \<and>
   fst (snd (pick_greedy req gs ch w m)) = fst (snd (pick_greedy req gs ch w m'))"
  by (induction gs arbitrary: ch w m m') (auto simp: Let_def)

lemma gpu_step_snd: "snd (gpu_step spec n st) = gpu_choice spec n"
  using pick_greedy_model [of "res_GPU (spec_Resources spec)" "sort_slice gpu_less (node_GPUs n)"
      "[]" 0 "hasGPUModel st" "hasGPUModel empty_selection"]
  by (auto simp: gpu_choice_def gpu_step_def Let_def split: prod.splits)

lemma gpu_step_keeps:
  "candidates (fst (gpu_step spec n st)) = candidates st"
  "hasTarget (fst (gpu_step spec n st)) = hasTarget st"
  "hasOnline (fst (gpu_step spec n st)) = hasOnline st"
  "hasLabels (fst (gpu_step spec n st)) = hasLabels st"
  "hasCPU (fst (gpu_step spec n st)) = hasCPU st"
  "hasMemory (fst (gpu_step spec n st)) = hasMemory st"
  "hasCPUCapability (fst (gpu_step spec n st)) = hasCPUCapability st"
  "hasCPUPackage (fst (gpu_step spec n st)) = hasCPUPackage st"
  "hasCPUPackageCapacity (fst (gpu_step spec n st)) = hasCPUPackageCapacity st"
  by (simp_all add: gpu_step_def Let_def split: prod.splits)

definition package_choice :: "JobSpec \<Rightarrow> Node \<Rightarrow> string \<times> string" where
  "package_choice spec n =
     (if res_CPUPackageID (spec_Resources spec) = '''' then ('''', '''')
      else case requested_package spec n of
             None \<Rightarrow> ('''', '''')
           | Some p \<Rightarrow> (pkg_ID p, logicalCPUSet (pkg_LogicalCPUs p)))"

lemma cpu_package_step_snd:
  "snd (cpu_package_step spec n st) = (if package_fits spec n then Some (package_choice spec n) else None)"
  by (auto simp: cpu_package_step_def package_fits_def package_choice_def requested_package_def Let_def
      not_less split: option.splits)

lemma cpu_package_step_keeps:
  "candidates (fst (cpu_package_step spec n st)) = candidates st"
  "hasTarget (fst (cpu_package_step spec n st)) = hasTarget st"
  "hasOnline (fst (cpu_package_step spec n st)) = hasOnline st"
  "hasLabels (fst (cpu_package_step spec n st)) = hasLabels st"
  "hasCPU (fst (cpu_package_step spec n st)) = hasCPU st"
  "hasMemory (fst (cpu_package_step spec n st)) = hasMemory st"
  by (simp_all add: cpu_package_step_def Let_def split: option.splits)

text \<open>The candidate of a node, as the loop body builds it.\<close>

definition node_candidate :: "JobSpec \<Rightarrow> Node \<Rightarrow> candidate option" where
  "node_candidate spec n =
     (if \<not> at_package spec n then None
      else case gpu_choice spec n of
        None \<Rightarrow> None
      | Some (chosen, waste) \<Rightarrow>
          if int (length chosen) \<noteq> gpureq_Count (res_GPU (spec_Resources spec)) then None
          else Some \<lparr>cand_node = n, cand_gpuUUIDs = chosen, cand_vramWaste = waste,
            cand_ramWaste = i64 (memory_free n - res_MemoryBytes (spec_Resources spec)),
            cand_cpuWaste = i64 (cpu_free n - res_CPUMillis (spec_Resources spec)),
            cand_cpuPackageID = fst (package_choice spec n),
            cand_cpuSet = snd (package_choice spec n)\<rparr>)"

lemma consider_node_candidates:
  "candidates (consider_node spec st n) =
   candidates st @ (case node_candidate spec n of None \<Rightarrow> [] | Some c \<Rightarrow> [c])"
proof (cases "at_memory spec n")
  case False
  then show ?thesis
    by (auto simp: consider_node_def node_candidate_def stage_defs Let_def not_le)
next
  case True
  let ?st = "st\<lparr>hasTarget := True, hasOnline := True, hasLabels := True, hasCPU := True, hasMemory := True\<rparr>"
  let ?p = "cpu_package_step spec n ?st"
  have eq: "consider_node spec st n =
      (case ?p of (st, None) \<Rightarrow> st
       | (st, Some (cpuPackageID, cpuSet)) \<Rightarrow>
          (case gpu_step spec n st of
             (st, None) \<Rightarrow> st
           | (st, Some (chosen, vramWaste)) \<Rightarrow>
               if int (length chosen) \<noteq> gpureq_Count (res_GPU (spec_Resources spec)) then st
               else st\<lparr>candidates := candidates st @
                 [\<lparr>cand_node = n, cand_gpuUUIDs = chosen, cand_vramWaste = vramWaste,
                   cand_ramWaste = i64 (memory_free n - res_MemoryBytes (spec_Resources spec)),
                   cand_cpuWaste = i64 (cpu_free n - res_CPUMillis (spec_Resources spec)),
                   cand_cpuPackageID = cpuPackageID, cand_cpuSet = cpuSet\<rparr>]\<rparr>))"
    using True unfolding consider_node_def stage_defs Let_def
    by (elim conjE disjE) (simp_all add: not_less)
  show ?thesis
  proof (cases "package_fits spec n")
    case False
    then have "snd ?p = None" by (simp add: cpu_package_step_snd)
    with False show ?thesis
      using cpu_package_step_keeps(1) [of spec n ?st]
      by (auto simp: eq node_candidate_def at_package_def split: prod.splits)
  next
    case fits: True
    then obtain s1 where p: "?p = (s1, Some (package_choice spec n))"
      using cpu_package_step_snd [of spec n ?st] by (metis prod.collapse)
    obtain s2 where g: "gpu_step spec n s1 = (s2, gpu_choice spec n)"
      using gpu_step_snd [of spec n s1] by (metis prod.collapse)
    have keep: "candidates s2 = candidates st"
      using gpu_step_keeps(1) [of spec n s1] cpu_package_step_keeps(1) [of spec n ?st] p g by simp
    from eq p g True fits keep show ?thesis
      by (auto simp: node_candidate_def at_package_def split_beta split: option.splits)
  qed
qed

lemma select_scan_candidates:
  "candidates (foldl (consider_node spec) st nodes) =
   candidates st @ List.map_filter (node_candidate spec) nodes"
  by (induction nodes arbitrary: st) (auto simp: consider_node_candidates map_filter_simps split: option.splits)

corollary scan_candidates: "candidates (select_scan spec nodes) = List.map_filter (node_candidate spec) nodes"
  by (simp add: select_scan_def select_scan_candidates empty_selection_def)

section \<open>What the GPU loops compute\<close>

lemma pick_explicit_all:
  "(\<And>u. u \<in> set us \<Longrightarrow> map_of m u \<noteq> None) \<Longrightarrow>
   pick_explicit m us af ch =
     (True, af \<and> (\<forall>u\<in>set us. \<not> gpu_Allocated (the (map_of m u))), ch @ us)"
  by (induction us arbitrary: af ch) (auto split: option.splits)

lemma pick_explicit_missing:
  "u \<in> set us \<Longrightarrow> map_of m u = None \<Longrightarrow> fst (pick_explicit m us af ch) = False"
  by (induction us arbitrary: af ch) (auto split: option.splits)

definition all_requested_exist :: "JobSpec \<Rightarrow> Node \<Rightarrow> bool" where
  "all_requested_exist spec n \<longleftrightarrow>
     list_all (\<lambda>u. map_of (gpus_by_id n) u \<noteq> None) (gpureq_UUIDs (res_GPU (spec_Resources spec)))"

definition all_requested_free :: "JobSpec \<Rightarrow> Node \<Rightarrow> bool" where
  "all_requested_free spec n \<longleftrightarrow>
     list_all (\<lambda>u. \<not> gpu_Allocated (the (map_of (gpus_by_id n) u)))
       (gpureq_UUIDs (res_GPU (spec_Resources spec)))"

lemma gpu_step_explicit:
  assumes "gpureq_UUIDs (res_GPU (spec_Resources spec)) \<noteq> []"
  shows "gpu_step spec n st =
     (if \<not> all_requested_exist spec n then (st, None)
      else if \<not> all_requested_free spec n then (st\<lparr>hasGPUInventory := True\<rparr>, None)
      else (st\<lparr>hasGPUInventory := True, hasFreeRequestedGPU := True, hasGPUModel := True\<rparr>,
            Some (gpureq_UUIDs (res_GPU (spec_Resources spec)), 0)))"
proof (cases "all_requested_exist spec n")
  case True
  then show ?thesis
    using assms pick_explicit_all [of "gpureq_UUIDs (res_GPU (spec_Resources spec))" "gpus_by_id n" True "[]"]
    by (simp add: gpu_step_def gpus_by_id_def all_requested_exist_def all_requested_free_def
        list_all_iff Let_def)
next
  case False
  then obtain u where "u \<in> set (gpureq_UUIDs (res_GPU (spec_Resources spec)))"
    "map_of (gpus_by_id n) u = None"
    by (auto simp: all_requested_exist_def list_all_iff)
  from pick_explicit_missing [OF this, of True "[]"] assms False show ?thesis
    by (simp add: gpu_step_def gpus_by_id_def Let_def split_beta)
qed

lemma pick_greedy_chosen:
  "fst (pick_greedy req gs ch w m) =
   ch @ map gpu_UUID (take (nat (gpureq_Count req) - length ch) (filter (usable_gpu req) gs))"
proof (induction gs arbitrary: ch w m)
  case Nil
  then show ?case by simp
next
  case (Cons g gs)
  show ?case
  proof (cases "usable_gpu req g \<and> int (length ch) < gpureq_Count req")
    case True
    then obtain k where "nat (gpureq_Count req) - length ch = Suc k"
      "nat (gpureq_Count req) - Suc (length ch) = k"
      by (metis Suc_diff_Suc zless_nat_eq_int_zless)
    with True Cons.IH show ?thesis by (simp add: usable_gpu_def Let_def)
  next
    case False
    then have "\<not> int (length ch) < gpureq_Count req \<longrightarrow> nat (gpureq_Count req) - length ch = 0"
      by linarith
    with False Cons.IH show ?thesis by (auto simp: usable_gpu_def Let_def)
  qed
qed

lemma pick_greedy_waste:
  "fst (snd (pick_greedy req gs ch w m)) =
   foldl (\<lambda>w g. i64 (w + i64 (gpu_VRAMBytes g - gpureq_MinVRAMBytes req))) w
     (take (nat (gpureq_Count req) - length ch) (filter (usable_gpu req) gs))"
proof (induction gs arbitrary: ch w m)
  case Nil
  then show ?case by simp
next
  case (Cons g gs)
  show ?case
  proof (cases "usable_gpu req g \<and> int (length ch) < gpureq_Count req")
    case True
    then obtain k where "nat (gpureq_Count req) - length ch = Suc k"
      "nat (gpureq_Count req) - Suc (length ch) = k"
      by (metis Suc_diff_Suc zless_nat_eq_int_zless)
    with True Cons.IH show ?thesis by (simp add: usable_gpu_def Let_def)
  next
    case False
    then have "\<not> int (length ch) < gpureq_Count req \<longrightarrow> nat (gpureq_Count req) - length ch = 0"
      by linarith
    with False Cons.IH show ?thesis by (auto simp: usable_gpu_def Let_def)
  qed
qed

lemma pick_greedy_flag:
  "snd (snd (pick_greedy req gs ch w m)) \<longleftrightarrow>
   m \<or> (\<exists>g\<in>set gs. gpureq_MinVRAMBytes req \<le> gpu_VRAMBytes g)"
  by (induction gs arbitrary: ch w m) (auto simp: Let_def)

text \<open>The GPUs the greedy loop takes: the first usable ones in the sorted order.\<close>

definition greedy_gpus :: "JobSpec \<Rightarrow> Node \<Rightarrow> GPU list" where
  "greedy_gpus spec n =
     (let req = res_GPU (spec_Resources spec) in
      take (nat (gpureq_Count req)) (filter (usable_gpu req) (sort_slice gpu_less (node_GPUs n))))"

definition greedy_waste :: "GPURequest \<Rightarrow> GPU list \<Rightarrow> int" where
  "greedy_waste req gs = foldl (\<lambda>w g. i64 (w + i64 (gpu_VRAMBytes g - gpureq_MinVRAMBytes req))) 0 gs"

lemma gpu_step_greedy:
  assumes "gpureq_UUIDs (res_GPU (spec_Resources spec)) = []"
  shows "gpu_step spec n st =
    (st\<lparr>hasGPUModel := hasGPUModel st \<or>
         (\<exists>g\<in>set (node_GPUs n). gpureq_MinVRAMBytes (res_GPU (spec_Resources spec)) \<le> gpu_VRAMBytes g)\<rparr>,
     Some (map gpu_UUID (greedy_gpus spec n), greedy_waste (res_GPU (spec_Resources spec)) (greedy_gpus spec n)))"
proof -
  let ?req = "res_GPU (spec_Resources spec)" let ?gs = "sort_slice gpu_less (node_GPUs n)"
  obtain a b c where abc: "pick_greedy ?req ?gs [] 0 (hasGPUModel st) = (a, b, c)"
    by (metis prod_cases3)
  with pick_greedy_chosen [of ?req ?gs "[]" 0 "hasGPUModel st"]
    pick_greedy_waste [of ?req ?gs "[]" 0 "hasGPUModel st"]
    pick_greedy_flag [of ?req ?gs "[]" 0 "hasGPUModel st"]
  show ?thesis using assms
    by (simp add: gpu_step_def greedy_gpus_def greedy_waste_def Let_def)
qed

section \<open>Feasible nodes\<close>

definition gpu_feasible :: "JobSpec \<Rightarrow> Node \<Rightarrow> bool" where
  "gpu_feasible spec n \<longleftrightarrow>
     (let req = res_GPU (spec_Resources spec) in
      if gpureq_UUIDs req \<noteq> [] then
        gpureq_Count req = int (length (gpureq_UUIDs req)) \<and>
        all_requested_exist spec n \<and> all_requested_free spec n
      else 0 \<le> gpureq_Count req \<and>
        gpureq_Count req \<le> int (length (filter (usable_gpu req) (node_GPUs n))))"

definition feasible :: "JobSpec \<Rightarrow> Node \<Rightarrow> bool" where
  "feasible spec n \<longleftrightarrow> at_package spec n \<and> gpu_feasible spec n"

lemma length_filter_sort_slice:
  "length (filter P (sort_slice lt xs)) = length (filter P xs)"
  by (metis mset_filter mset_sort_slice size_mset)

lemma length_greedy_gpus:
  "length (greedy_gpus spec n) =
     min (nat (gpureq_Count (res_GPU (spec_Resources spec))))
         (length (filter (usable_gpu (res_GPU (spec_Resources spec))) (node_GPUs n)))"
  by (simp add: greedy_gpus_def Let_def length_filter_sort_slice min.commute)

lemma node_candidate_iff_feasible: "node_candidate spec n \<noteq> None \<longleftrightarrow> feasible spec n"
proof (cases "gpureq_UUIDs (res_GPU (spec_Resources spec)) = []")
  case True
  have "(int (length (greedy_gpus spec n)) = gpureq_Count (res_GPU (spec_Resources spec)))
     = gpu_feasible spec n"
    using True unfolding length_greedy_gpus gpu_feasible_def Let_def by auto
  with True show ?thesis
    by (auto simp: node_candidate_def feasible_def gpu_choice_def gpu_step_greedy)
next
  case False
  then show ?thesis
    by (auto simp: node_candidate_def feasible_def gpu_choice_def gpu_step_explicit gpu_feasible_def Let_def)
qed

lemma node_candidate_node: "node_candidate spec n = Some c \<Longrightarrow> cand_node c = n"
  by (auto simp: node_candidate_def split: if_splits option.splits)

lemma selectNode_Inl_iff: "(\<exists>r. selectNode spec nodes = Inl r) \<longleftrightarrow> (\<forall>n\<in>set nodes. \<not> feasible spec n)"
proof -
  have "(\<exists>r. selectNode spec nodes = Inl r) \<longleftrightarrow> List.map_filter (node_candidate spec) nodes = []"
    by (auto simp: selectNode_def Let_def scan_candidates split: list.splits dest: sort_slice_Nil_iff [THEN iffD1])
      (metis list.exhaust sort_slice_Nil_iff list.distinct(1))
  also have "\<dots> \<longleftrightarrow> (\<forall>n\<in>set nodes. node_candidate spec n = None)"
    by (induction nodes) (auto simp: map_filter_simps split: option.splits)
  finally show ?thesis using node_candidate_iff_feasible by blast
qed

lemma selectNode_Inr:
  assumes "selectNode spec nodes = Inr c"
  shows "\<exists>n\<in>set nodes. node_candidate spec n = Some c"
    and "\<And>n d. n \<in> set nodes \<Longrightarrow> node_candidate spec n = Some d \<Longrightarrow> \<not> candidate_less d c"
proof -
  let ?cs = "List.map_filter (node_candidate spec) nodes"
  from assms obtain rest where s: "sort_slice candidate_less ?cs = c # rest"
    by (auto simp: selectNode_def Let_def scan_candidates split: list.splits)
  then have "c \<in> set ?cs" by (metis list.set_intros(1) set_sort_slice)
  then show "\<exists>n\<in>set nodes. node_candidate spec n = Some c"
    by (auto simp: map_filter_def)
  fix n d assume "n \<in> set nodes" "node_candidate spec n = Some d"
  then have "d \<in> set ?cs" by (force simp: map_filter_def)
  then have "\<not> candidate_less d (hd (sort_slice candidate_less ?cs))"
    using candidate_order.hd_sort_slice_least by (metis empty_iff list.set(1))
  with s show "\<not> candidate_less d c" by simp
qed

section \<open>What the flags say\<close>

lemma foldl_flag:
  assumes "\<And>st n. f (step st n) \<longleftrightarrow> f st \<or> p n"
  shows "f (foldl step st ns) \<longleftrightarrow> f st \<or> (\<exists>n\<in>set ns. p n)"
  by (induction ns arbitrary: st) (auto simp: assms)

definition pkg_requested :: "JobSpec \<Rightarrow> bool" where
  "pkg_requested spec \<longleftrightarrow> res_CPUPackageID (spec_Resources spec) \<noteq> ''''"

definition at_capability :: "JobSpec \<Rightarrow> Node \<Rightarrow> bool" where
  "at_capability spec n \<longleftrightarrow> at_memory spec n \<and> pkg_requested spec \<and>
     List.member (node_Capabilities n) ''cpu_package_affinity''"

definition at_package_present :: "JobSpec \<Rightarrow> Node \<Rightarrow> bool" where
  "at_package_present spec n \<longleftrightarrow> at_capability spec n \<and> requested_package spec n \<noteq> None"

definition at_gpu_inventory :: "JobSpec \<Rightarrow> Node \<Rightarrow> bool" where
  "at_gpu_inventory spec n \<longleftrightarrow> at_package spec n \<and>
     gpureq_UUIDs (res_GPU (spec_Resources spec)) \<noteq> [] \<and> all_requested_exist spec n"

definition at_gpu_free :: "JobSpec \<Rightarrow> Node \<Rightarrow> bool" where
  "at_gpu_free spec n \<longleftrightarrow> at_gpu_inventory spec n \<and> all_requested_free spec n"

definition at_gpu_model :: "JobSpec \<Rightarrow> Node \<Rightarrow> bool" where
  "at_gpu_model spec n \<longleftrightarrow> at_gpu_free spec n \<or>
     at_package spec n \<and> gpureq_UUIDs (res_GPU (spec_Resources spec)) = [] \<and>
     (\<exists>g\<in>set (node_GPUs n). gpureq_MinVRAMBytes (res_GPU (spec_Resources spec)) \<le> gpu_VRAMBytes g)"

text \<open>The loop body, one case per stage at which it leaves the node.\<close>

lemma consider_node_early:
  assumes "\<not> at_memory spec n"
  shows "consider_node spec st n =
    st\<lparr>hasTarget := hasTarget st \<or> at_target spec n,
       hasOnline := hasOnline st \<or> at_online spec n,
       hasLabels := hasLabels st \<or> at_labels spec n,
       hasCPU := hasCPU st \<or> at_cpu spec n\<rparr>"
  using assms by (auto simp: consider_node_def stage_defs Let_def not_le not_less)

lemma consider_node_late:
  assumes "at_memory spec n"
  shows "\<exists>cs. consider_node spec st n =
    (let s1 = fst (cpu_package_step spec n
                (st\<lparr>hasTarget := True, hasOnline := True, hasLabels := True, hasCPU := True, hasMemory := True\<rparr>))
     in if package_fits spec n then (fst (gpu_step spec n s1))\<lparr>candidates := cs\<rparr> else s1)"
proof -
  let ?st = "st\<lparr>hasTarget := True, hasOnline := True, hasLabels := True, hasCPU := True, hasMemory := True\<rparr>"
  let ?p = "cpu_package_step spec n ?st"
  have eq: "consider_node spec st n =
      (case ?p of (st, None) \<Rightarrow> st
       | (st, Some (cpuPackageID, cpuSet)) \<Rightarrow>
          (case gpu_step spec n st of
             (st, None) \<Rightarrow> st
           | (st, Some (chosen, vramWaste)) \<Rightarrow>
               if int (length chosen) \<noteq> gpureq_Count (res_GPU (spec_Resources spec)) then st
               else st\<lparr>candidates := candidates st @
                 [\<lparr>cand_node = n, cand_gpuUUIDs = chosen, cand_vramWaste = vramWaste,
                   cand_ramWaste = i64 (memory_free n - res_MemoryBytes (spec_Resources spec)),
                   cand_cpuWaste = i64 (cpu_free n - res_CPUMillis (spec_Resources spec)),
                   cand_cpuPackageID = cpuPackageID, cand_cpuSet = cpuSet\<rparr>]\<rparr>))"
    using assms unfolding consider_node_def stage_defs Let_def
    by (elim conjE disjE) (simp_all add: not_less)
  obtain s1 where p: "?p = (s1, if package_fits spec n then Some (package_choice spec n) else None)"
    by (cases ?p) (use cpu_package_step_snd [of spec n ?st] in simp)
  obtain s2 where g: "gpu_step spec n s1 = (s2, gpu_choice spec n)"
    by (cases "gpu_step spec n s1") (use gpu_step_snd [of spec n s1] in simp)
  show ?thesis
  proof (cases "package_fits spec n")
    case False
    with eq p show ?thesis by (simp add: Let_def)
  next
    case True
    have "\<exists>cs. consider_node spec st n = s2\<lparr>candidates := cs\<rparr>"
    proof (cases "gpu_choice spec n")
      case None
      with True eq p g have "consider_node spec st n = s2\<lparr>candidates := candidates s2\<rparr>" by simp
      then show ?thesis ..
    next
      case (Some ab)
      obtain a b where ab: "ab = (a, b)" by (cases ab)
      show ?thesis
      proof (cases "int (length a) = gpureq_Count (res_GPU (spec_Resources spec))")
        case False
        with True Some ab eq p g have "consider_node spec st n = s2\<lparr>candidates := candidates s2\<rparr>" by simp
        then show ?thesis ..
      next
        case fits: True
        with True Some ab eq p g show ?thesis
          by (cases "package_choice spec n") auto
      qed
    qed
    with True p g show ?thesis by (simp add: Let_def)
  qed
qed

lemma at_memory_implies:
  "at_memory spec n \<Longrightarrow> at_cpu spec n \<and> at_labels spec n \<and> at_online spec n \<and> at_target spec n"
  by (simp add: stage_defs)

lemma consider_node_flags_conj:
  "(hasTarget (consider_node spec st n) \<longleftrightarrow> hasTarget st \<or> at_target spec n) \<and>
   (hasOnline (consider_node spec st n) \<longleftrightarrow> hasOnline st \<or> at_online spec n) \<and>
   (hasLabels (consider_node spec st n) \<longleftrightarrow> hasLabels st \<or> at_labels spec n) \<and>
   (hasCPU (consider_node spec st n) \<longleftrightarrow> hasCPU st \<or> at_cpu spec n) \<and>
   (hasMemory (consider_node spec st n) \<longleftrightarrow> hasMemory st \<or> at_memory spec n)"
proof (cases "at_memory spec n")
  case False
  then show ?thesis
    by (simp add: consider_node_early)
next
  case True
  with consider_node_late [OF True, of st] at_memory_implies [OF True]
  show ?thesis
    by (auto simp: Let_def gpu_step_keeps cpu_package_step_keeps split: if_splits)
qed

lemma consider_node_flags:
  "hasTarget (consider_node spec st n) \<longleftrightarrow> hasTarget st \<or> at_target spec n"
  "hasOnline (consider_node spec st n) \<longleftrightarrow> hasOnline st \<or> at_online spec n"
  "hasLabels (consider_node spec st n) \<longleftrightarrow> hasLabels st \<or> at_labels spec n"
  "hasCPU (consider_node spec st n) \<longleftrightarrow> hasCPU st \<or> at_cpu spec n"
  "hasMemory (consider_node spec st n) \<longleftrightarrow> hasMemory st \<or> at_memory spec n"
  using consider_node_flags_conj [of spec st n] by simp_all

lemma cpu_package_step_flags:
  "hasCPUCapability (fst (cpu_package_step spec n st)) \<longleftrightarrow> hasCPUCapability st \<or>
     pkg_requested spec \<and> List.member (node_Capabilities n) ''cpu_package_affinity''"
  "hasCPUPackage (fst (cpu_package_step spec n st)) \<longleftrightarrow> hasCPUPackage st \<or>
     pkg_requested spec \<and> List.member (node_Capabilities n) ''cpu_package_affinity'' \<and>
     requested_package spec n \<noteq> None"
  "hasCPUPackageCapacity (fst (cpu_package_step spec n st)) \<longleftrightarrow> hasCPUPackageCapacity st \<or>
     pkg_requested spec \<and> package_fits spec n"
  "hasGPUModel (fst (cpu_package_step spec n st)) = hasGPUModel st"
  "hasGPUInventory (fst (cpu_package_step spec n st)) = hasGPUInventory st"
  "hasFreeRequestedGPU (fst (cpu_package_step spec n st)) = hasFreeRequestedGPU st"
  by (auto simp: cpu_package_step_def pkg_requested_def requested_package_def package_fits_def Let_def
      split: option.splits)

lemma consider_node_package_flags_conj:
  "(hasCPUCapability (consider_node spec st n) \<longleftrightarrow> hasCPUCapability st \<or> at_capability spec n) \<and>
   (hasCPUPackage (consider_node spec st n) \<longleftrightarrow> hasCPUPackage st \<or> at_package_present spec n) \<and>
   (hasCPUPackageCapacity (consider_node spec st n) \<longleftrightarrow> hasCPUPackageCapacity st \<or> at_package spec n \<and> pkg_requested spec)"
proof (cases "at_memory spec n")
  case False
  then show ?thesis
    by (simp add: consider_node_early at_capability_def at_package_present_def at_package_def)
next
  case True
  with consider_node_late [OF True, of st]
  show ?thesis
    by (auto simp: Let_def gpu_step_keeps cpu_package_step_flags at_capability_def
        at_package_present_def at_package_def split: if_splits)
qed

lemma consider_node_package_flags:
  "hasCPUCapability (consider_node spec st n) \<longleftrightarrow> hasCPUCapability st \<or> at_capability spec n"
  "hasCPUPackage (consider_node spec st n) \<longleftrightarrow> hasCPUPackage st \<or> at_package_present spec n"
  "hasCPUPackageCapacity (consider_node spec st n) \<longleftrightarrow>
     hasCPUPackageCapacity st \<or> at_package spec n \<and> pkg_requested spec"
  using consider_node_package_flags_conj [of spec st n] by simp_all

lemma gpu_step_flags:
  "hasGPUInventory (fst (gpu_step spec n st)) \<longleftrightarrow> hasGPUInventory st \<or>
     gpureq_UUIDs (res_GPU (spec_Resources spec)) \<noteq> [] \<and> all_requested_exist spec n"
  "hasFreeRequestedGPU (fst (gpu_step spec n st)) \<longleftrightarrow> hasFreeRequestedGPU st \<or>
     gpureq_UUIDs (res_GPU (spec_Resources spec)) \<noteq> [] \<and> all_requested_exist spec n \<and> all_requested_free spec n"
  "hasGPUModel (fst (gpu_step spec n st)) \<longleftrightarrow> hasGPUModel st \<or>
     (if gpureq_UUIDs (res_GPU (spec_Resources spec)) \<noteq> []
      then all_requested_exist spec n \<and> all_requested_free spec n
      else \<exists>g\<in>set (node_GPUs n). gpureq_MinVRAMBytes (res_GPU (spec_Resources spec)) \<le> gpu_VRAMBytes g)"
  by (cases "gpureq_UUIDs (res_GPU (spec_Resources spec)) = []";
      simp add: gpu_step_greedy gpu_step_explicit)+

lemma consider_node_gpu_flags_conj:
  "(hasGPUInventory (consider_node spec st n) \<longleftrightarrow> hasGPUInventory st \<or> at_gpu_inventory spec n) \<and>
   (hasFreeRequestedGPU (consider_node spec st n) \<longleftrightarrow> hasFreeRequestedGPU st \<or> at_gpu_free spec n) \<and>
   (hasGPUModel (consider_node spec st n) \<longleftrightarrow> hasGPUModel st \<or> at_gpu_model spec n)"
proof (cases "at_package spec n")
  case False
  then show ?thesis
    using consider_node_early [of spec n st] consider_node_late [of spec n st]
    by (cases "at_memory spec n")
      (auto simp: at_gpu_inventory_def at_gpu_free_def at_gpu_model_def at_package_def Let_def
        cpu_package_step_flags)
next
  case True
  then have m: "at_memory spec n" and f: "package_fits spec n" by (simp_all add: at_package_def)
  from consider_node_late [OF m, of st] f True
  show ?thesis
    by (auto simp: at_gpu_inventory_def at_gpu_free_def at_gpu_model_def Let_def
        cpu_package_step_flags gpu_step_flags split: if_splits)
qed

lemma consider_node_gpu_flags:
  "hasGPUInventory (consider_node spec st n) \<longleftrightarrow> hasGPUInventory st \<or> at_gpu_inventory spec n"
  "hasFreeRequestedGPU (consider_node spec st n) \<longleftrightarrow> hasFreeRequestedGPU st \<or> at_gpu_free spec n"
  "hasGPUModel (consider_node spec st n) \<longleftrightarrow> hasGPUModel st \<or> at_gpu_model spec n"
  using consider_node_gpu_flags_conj [of spec st n] by simp_all

lemma scan_flags:
  "hasTarget (select_scan spec nodes) \<longleftrightarrow> (\<exists>n\<in>set nodes. at_target spec n)"
  "hasOnline (select_scan spec nodes) \<longleftrightarrow> (\<exists>n\<in>set nodes. at_online spec n)"
  "hasLabels (select_scan spec nodes) \<longleftrightarrow> (\<exists>n\<in>set nodes. at_labels spec n)"
  "hasCPU (select_scan spec nodes) \<longleftrightarrow> (\<exists>n\<in>set nodes. at_cpu spec n)"
  "hasMemory (select_scan spec nodes) \<longleftrightarrow> (\<exists>n\<in>set nodes. at_memory spec n)"
  "hasCPUCapability (select_scan spec nodes) \<longleftrightarrow> (\<exists>n\<in>set nodes. at_capability spec n)"
  "hasCPUPackage (select_scan spec nodes) \<longleftrightarrow> (\<exists>n\<in>set nodes. at_package_present spec n)"
  "hasCPUPackageCapacity (select_scan spec nodes) \<longleftrightarrow>
     (\<exists>n\<in>set nodes. at_package spec n \<and> pkg_requested spec)"
  "hasGPUInventory (select_scan spec nodes) \<longleftrightarrow> (\<exists>n\<in>set nodes. at_gpu_inventory spec n)"
  "hasFreeRequestedGPU (select_scan spec nodes) \<longleftrightarrow> (\<exists>n\<in>set nodes. at_gpu_free spec n)"
  "hasGPUModel (select_scan spec nodes) \<longleftrightarrow> (\<exists>n\<in>set nodes. at_gpu_model spec n)"
  unfolding select_scan_def
  by (subst foldl_flag, rule consider_node_flags consider_node_package_flags consider_node_gpu_flags,
      simp add: empty_selection_def)+

section \<open>Nodes without overcommitment\<close>

text \<open>
  The inventory an agent reports: what is allocated lies between nothing and the total, package
  ids and GPU UUIDs do not repeat (they are keys of their tables), and the sizes are within 64 bits.
\<close>

definition fits_total :: "int \<Rightarrow> int \<Rightarrow> bool" where
  "fits_total a t \<longleftrightarrow> 0 \<le> a \<and> a \<le> t \<and> t < 9223372036854775808"

definition sane_node :: "Node \<Rightarrow> bool" where
  "sane_node n \<longleftrightarrow>
     fits_total (node_CPUAllocatedMillis n) (node_CPUTotalMillis n) \<and>
     fits_total (node_MemoryAllocatedBytes n) (node_MemoryTotalBytes n) \<and>
     list_all (\<lambda>p. fits_total (pkg_AllocatedMillis p) (pkg_TotalMillis p)) (node_CPUPackages n) \<and>
     distinct (map pkg_ID (node_CPUPackages n)) \<and>
     distinct (map gpu_UUID (node_GPUs n)) \<and>
     list_all (\<lambda>g. 0 \<le> gpu_VRAMBytes g) (node_GPUs n) \<and>
     sum_list (map gpu_VRAMBytes (node_GPUs n)) < 9223372036854775808"

text \<open>What \<^verbatim>\<open>ValidateJobSpec\<close> guarantees of the resources.\<close>

definition sane_request :: "Resources \<Rightarrow> bool" where
  "sane_request res \<longleftrightarrow> 0 < res_CPUMillis res \<and> 0 < res_MemoryBytes res \<and>
     0 \<le> gpureq_Count (res_GPU res) \<and> 0 \<le> gpureq_MinVRAMBytes (res_GPU res)"

lemma fits_total_diff: "fits_total a t \<Longrightarrow> i64 (t - a) = t - a"
  by (simp add: fits_total_def in_i64_def)

lemma fits_total_add:
  "fits_total a t \<Longrightarrow> 0 \<le> r \<Longrightarrow> r \<le> i64 (t - a) \<Longrightarrow> i64 (a + r) = a + r \<and> fits_total (a + r) t"
  by (simp add: fits_total_diff) (simp add: fits_total_def in_i64_def)

lemma sane_free:
  "sane_node n \<Longrightarrow> cpu_free n = node_CPUTotalMillis n - node_CPUAllocatedMillis n"
  "sane_node n \<Longrightarrow> memory_free n = node_MemoryTotalBytes n - node_MemoryAllocatedBytes n"
  by (simp_all add: sane_node_def cpu_free_def memory_free_def fits_total_diff)

lemma find_distinct_key:
  "distinct (map f xs) \<Longrightarrow> x \<in> set xs \<Longrightarrow> f x = k \<Longrightarrow> find (\<lambda>y. f y = k) xs = Some x"
  by (induction xs) auto

lemma requested_package_the:
  assumes "sane_node n" "p \<in> set (node_CPUPackages n)" "pkg_ID p = res_CPUPackageID (spec_Resources spec)"
  shows "requested_package spec n = Some p"
  using assms by (simp add: requested_package_def sane_node_def find_distinct_key)

lemma pkg_ID_charge [simp]: "pkg_ID (charge_package res p) = pkg_ID p"
  by (simp add: charge_package_def)

lemma map_pkg_ID_charge [simp]: "map pkg_ID (map (charge_package res) ps) = map pkg_ID ps"
  by (simp add: charge_package_def)

lemma reserve_gpu_same [simp]:
  "gpu_UUID (reserve_gpu us g) = gpu_UUID g" "gpu_VRAMBytes (reserve_gpu us g) = gpu_VRAMBytes g"
  by (simp_all add: reserve_gpu_def)

lemma map_reserve_gpu [simp]:
  "map gpu_UUID (map (reserve_gpu us) gs) = map gpu_UUID gs"
  "map gpu_VRAMBytes (map (reserve_gpu us) gs) = map gpu_VRAMBytes gs"
  by simp_all

lemma charge_package_fits:
  assumes "sane_node n" "package_fits spec n" "0 \<le> res_CPUMillis (spec_Resources spec)"
    "res_CPUPackageID (spec_Resources spec) \<noteq> ''''" "p \<in> set (node_CPUPackages n)"
  shows "fits_total (pkg_AllocatedMillis (charge_package (spec_Resources spec) p))
           (pkg_TotalMillis (charge_package (spec_Resources spec) p))"
proof (cases "pkg_ID p = res_CPUPackageID (spec_Resources spec)")
  case True
  have f: "fits_total (pkg_AllocatedMillis p) (pkg_TotalMillis p)"
    using assms(1,5) by (simp add: sane_node_def list_all_iff)
  from assms(2,4) requested_package_the [OF assms(1,5) True]
  have "res_CPUMillis (spec_Resources spec) \<le> i64 (pkg_TotalMillis p - pkg_AllocatedMillis p)"
    by (simp add: package_fits_def)
  with fits_total_add [OF f assms(3)] True show ?thesis by (simp add: charge_package_def)
next
  case False
  with assms(1,5) show ?thesis by (simp add: charge_package_def sane_node_def list_all_iff)
qed

lemma reserve_node_sane:
  assumes "sane_node n" "sane_request (spec_Resources spec)" "feasible spec n"
  shows "sane_node (reserve_node (spec_Resources spec) us n)"
proof -
  let ?res = "spec_Resources spec"
  have cpu: "res_CPUMillis ?res \<le> i64 (node_CPUTotalMillis n - node_CPUAllocatedMillis n)"
    and mem: "res_MemoryBytes ?res \<le> i64 (node_MemoryTotalBytes n - node_MemoryAllocatedBytes n)"
    and pkg: "package_fits spec n"
    using assms(3) by (simp_all add: feasible_def at_package_def at_memory_def at_cpu_def cpu_free_def memory_free_def)
  have pos: "0 \<le> res_CPUMillis ?res" "0 \<le> res_MemoryBytes ?res"
    using assms(2) by (simp_all add: sane_request_def)
  have "fits_total (i64 (node_CPUAllocatedMillis n + res_CPUMillis ?res)) (node_CPUTotalMillis n)"
    using assms(1) fits_total_add [OF _ pos(1) cpu] by (simp add: sane_node_def)
  moreover have "fits_total (i64 (node_MemoryAllocatedBytes n + res_MemoryBytes ?res)) (node_MemoryTotalBytes n)"
    using assms(1) fits_total_add [OF _ pos(2) mem] by (simp add: sane_node_def)
  moreover have "list_all (\<lambda>p. fits_total (pkg_AllocatedMillis p) (pkg_TotalMillis p))
      (if res_CPUPackageID ?res \<noteq> '''' then map (charge_package ?res) (node_CPUPackages n)
       else node_CPUPackages n)"
    using assms(1) charge_package_fits [OF assms(1) pkg pos(1)]
    by (auto simp: list_all_iff sane_node_def)
  ultimately show ?thesis
    using assms(1) unfolding sane_node_def reserve_node_def charge_node_def
    by (simp add: list_all_iff comp_def)
qed

lemma reserveInSnapshot_ids [simp]:
  "map node_ID (reserveInSnapshot nodes i res us) = map node_ID nodes"
  by (simp add: reserveInSnapshot_def reserve_node_def charge_node_def)

text \<open>Reserving for the candidate selected on a snapshot of sane nodes keeps every node sane.\<close>

lemma selected_feasible:
  assumes "selectNode spec nodes = Inr c"
  shows "cand_node c \<in> set nodes" "feasible spec (cand_node c)" "node_candidate spec (cand_node c) = Some c"
proof -
  from selectNode_Inr(1) [OF assms] obtain n where n: "n \<in> set nodes" "node_candidate spec n = Some c" by blast
  then have "cand_node c = n" by (auto dest: node_candidate_node)
  with n node_candidate_iff_feasible [of spec n]
  show "cand_node c \<in> set nodes" "feasible spec (cand_node c)" "node_candidate spec (cand_node c) = Some c"
    by simp_all
qed

lemma reserve_selected_sane:
  assumes "selectNode spec nodes = Inr c" "sane_request (spec_Resources spec)"
    "distinct (map node_ID nodes)" "list_all sane_node nodes"
  shows "list_all sane_node (reserveInSnapshot nodes (node_ID (cand_node c)) (spec_Resources spec) us)"
proof -
  note sel = selected_feasible [OF assms(1)]
  have "sane_node (reserve_node (spec_Resources spec) us n)"
    if "n \<in> set nodes" "node_ID n = node_ID (cand_node c)" for n
  proof -
    from that sel(1) assms(3) have "n = cand_node c"
      by (auto simp: distinct_map dest: inj_onD)
    with sel assms(2,4) show ?thesis by (auto intro: reserve_node_sane simp: list_all_iff)
  qed
  with assms(4) show ?thesis by (auto simp: reserveInSnapshot_def list_all_iff)
qed

section \<open>The GPUs of a candidate\<close>

lemma gpus_by_id_lookup:
  assumes "distinct (map gpu_UUID (node_GPUs n))"
  shows "map_of (gpus_by_id n) u = Some g \<longleftrightarrow> g \<in> set (node_GPUs n) \<and> gpu_UUID g = u"
proof -
  have "distinct (map fst (gpus_by_id n))"
    using assms by (simp add: gpus_by_id_def rev_map [symmetric] comp_def)
      (metis distinct_map distinct_sort_slice set_sort_slice)
  then show ?thesis by (auto simp: map_of_eq_Some_iff gpus_by_id_def)
qed

definition node_gpu_free :: "Node \<Rightarrow> string \<Rightarrow> bool" where
  "node_gpu_free n u \<longleftrightarrow> (\<exists>g\<in>set (node_GPUs n). gpu_UUID g = u \<and> \<not> gpu_Allocated g)"

lemma set_greedy_gpus: "set (greedy_gpus spec n) \<subseteq> {g\<in>set (node_GPUs n). usable_gpu (res_GPU (spec_Resources spec)) g}"
  by (auto simp: greedy_gpus_def Let_def dest!: in_set_takeD)

lemma candidate_gpus:
  assumes "node_candidate spec n = Some c" "sane_node n"
  shows "int (length (cand_gpuUUIDs c)) = gpureq_Count (res_GPU (spec_Resources spec))"
    and "u \<in> set (cand_gpuUUIDs c) \<Longrightarrow> node_gpu_free n u"
proof -
  let ?req = "res_GPU (spec_Resources spec)"
  from assms(1) show "int (length (cand_gpuUUIDs c)) = gpureq_Count ?req"
    by (auto simp: node_candidate_def split: if_splits option.splits)
  assume u: "u \<in> set (cand_gpuUUIDs c)"
  have d: "distinct (map gpu_UUID (node_GPUs n))" using assms(2) by (simp add: sane_node_def)
  show "node_gpu_free n u"
  proof (cases "gpureq_UUIDs ?req = []")
    case True
    with assms(1) have "cand_gpuUUIDs c = map gpu_UUID (greedy_gpus spec n)"
      by (auto simp: node_candidate_def gpu_choice_def gpu_step_greedy split: if_splits)
    with u set_greedy_gpus [of spec n] show ?thesis
      by (auto simp: node_gpu_free_def usable_gpu_def)
  next
    case False
    with assms(1) have "cand_gpuUUIDs c = gpureq_UUIDs ?req" "all_requested_exist spec n" "all_requested_free spec n"
      by (auto simp: node_candidate_def gpu_choice_def gpu_step_explicit split: if_splits)
    with u obtain g where "map_of (gpus_by_id n) u = Some g" "\<not> gpu_Allocated g"
      by (fastforce simp: all_requested_exist_def all_requested_free_def list_all_iff)
    with d show ?thesis by (auto simp: gpus_by_id_lookup node_gpu_free_def)
  qed
qed

lemma candidate_gpus_distinct:
  assumes "node_candidate spec n = Some c" "sane_node n"
    "distinct (gpureq_UUIDs (res_GPU (spec_Resources spec)))"
  shows "distinct (cand_gpuUUIDs c)"
proof (cases "gpureq_UUIDs (res_GPU (spec_Resources spec)) = []")
  case True
  have "distinct (map gpu_UUID (sort_slice gpu_less (node_GPUs n)))"
    using assms(2) by (metis distinct_map distinct_sort_slice sane_node_def set_sort_slice)
  then have "distinct (map gpu_UUID (greedy_gpus spec n))"
    unfolding greedy_gpus_def Let_def take_map [symmetric]
    by (intro distinct_take) (simp add: distinct_map_filter)
  with True assms(1) show ?thesis
    by (auto simp: node_candidate_def gpu_choice_def gpu_step_greedy split: if_splits)
next
  case False
  with assms show ?thesis
    by (auto simp: node_candidate_def gpu_choice_def gpu_step_explicit split: if_splits)
qed

section \<open>The greedy choice wastes least VRAM\<close>

lemma greedy_waste_exact:
  assumes "0 \<le> w" "\<And>g. g \<in> set gs \<Longrightarrow> 0 \<le> m \<and> m \<le> gpu_VRAMBytes g"
    "w + sum_list (map gpu_VRAMBytes gs) < 9223372036854775808"
  shows "foldl (\<lambda>w g. i64 (w + i64 (gpu_VRAMBytes g - m))) w gs =
    w + sum_list (map (\<lambda>g. gpu_VRAMBytes g - m) gs)"
  using assms
proof (induction gs arbitrary: w)
  case Nil
  then show ?case by simp
next
  case (Cons g gs)
  have nn: "0 \<le> sum_list (map gpu_VRAMBytes gs)"
    using Cons.prems(2) by (intro sum_list_nonneg) force
  have g: "0 \<le> m" "m \<le> gpu_VRAMBytes g" using Cons.prems(2) by auto
  with Cons.prems(1,3) nn have in1: "in_i64 (gpu_VRAMBytes g - m)" "in_i64 (w + (gpu_VRAMBytes g - m))"
    by (auto simp: in_i64_def)
  have "foldl (\<lambda>w g. i64 (w + i64 (gpu_VRAMBytes g - m))) (w + (gpu_VRAMBytes g - m)) gs =
      w + (gpu_VRAMBytes g - m) + sum_list (map (\<lambda>g. gpu_VRAMBytes g - m) gs)"
    using Cons.prems g by (intro Cons.IH) auto
  with in1 show ?case by simp
qed

text \<open>A prefix of a sorted list has the least sum among the sub-multisets of its size.\<close>

lemma sorted_prefix_least_sum:
  fixes xs ys :: "int list"
  assumes "sorted xs" "mset ys \<subseteq># mset xs"
  shows "sum_list (take (length ys) xs) \<le> sum_list ys"
  using assms
proof (induction xs arbitrary: ys)
  case Nil
  then show ?case by simp
next
  case (Cons x xs)
  show ?case
  proof (cases "ys = []")
    case True
    then show ?thesis by simp
  next
    case False
    define y where "y = (if x \<in> set ys then x else hd ys)"
    have y: "y \<in> set ys" using False by (auto simp: y_def)
    have sub: "mset (remove1 y ys) \<subseteq># mset xs"
    proof (cases "x \<in> set ys")
      case True
      with Cons.prems(2) show ?thesis by (simp add: y_def subset_eq_diff_conv)
    next
      case nx: False
      with Cons.prems(2) have "mset ys \<subseteq># mset xs"
        by (simp add: inter_add_left1 subset_mset.inf.absorb_iff2)
      then show ?thesis by (simp add: subset_mset.order_trans [OF diff_subset_eq_self])
    qed
    have xy: "x \<le> y"
      using y Cons.prems by (metis list.set_intros(1) mset_subset_eqD set_ConsD set_mset_mset sorted_simps(2) order_refl)
    have "sum_list (take (length (remove1 y ys)) xs) \<le> sum_list (remove1 y ys)"
      using Cons.prems(1) sub by (intro Cons.IH) auto
    moreover have "sum_list ys = y + sum_list (remove1 y ys)"
      using y by (metis mset_remove1 sum_mset_sum_list sum_mset.remove set_mset_mset)
    moreover have "length ys = Suc (length (remove1 y ys))"
      using y by (simp add: length_remove1) (metis Suc_pred length_pos_if_in_set)
    ultimately show ?thesis using xy by simp
  qed
qed

lemma sorted_vram: "sorted (map gpu_VRAMBytes (sort_slice gpu_less gs))"
proof -
  have "sorted_wrt (\<lambda>a b. gpu_VRAMBytes a \<le> gpu_VRAMBytes b) (sort_slice gpu_less gs)"
    by (rule sorted_wrt_mono_rel [OF _ gpu_order.sorted_sort_slice])
      (auto simp: gpu_less_def split: if_splits)
  then show ?thesis by (simp add: sorted_wrt_map)
qed

lemma sum_list_filter_le:
  fixes f :: "'a \<Rightarrow> int"
  assumes "\<And>x. x \<in> set xs \<Longrightarrow> 0 \<le> f x"
  shows "sum_list (map f (take k (filter P xs))) \<le> sum_list (map f xs)"
  using assms
proof (induction xs arbitrary: k)
  case (Cons x xs)
  have "0 \<le> f x" "\<And>k. sum_list (map f (take k (filter P xs))) \<le> sum_list (map f xs)"
    using Cons by auto
  moreover from this(2) [of 0] have "0 \<le> sum_list (map f xs)" by simp
  ultimately show ?case by (cases k) (auto intro: add_increasing)
qed simp

lemma greedy_waste_sum:
  assumes "sane_node n" "0 \<le> gpureq_MinVRAMBytes (res_GPU (spec_Resources spec))"
  shows "greedy_waste (res_GPU (spec_Resources spec)) (greedy_gpus spec n) =
    sum_list (map (\<lambda>g. gpu_VRAMBytes g - gpureq_MinVRAMBytes (res_GPU (spec_Resources spec))) (greedy_gpus spec n))"
proof -
  have "sum_list (map gpu_VRAMBytes (greedy_gpus spec n)) \<le>
      sum_list (map gpu_VRAMBytes (sort_slice gpu_less (node_GPUs n)))"
    unfolding greedy_gpus_def Let_def
    by (rule sum_list_filter_le) (use assms(1) in \<open>auto simp: sane_node_def list_all_iff\<close>)
  also have "\<dots> = sum_list (map gpu_VRAMBytes (node_GPUs n))"
    by (metis mset_map mset_sort_slice sum_mset_sum_list)
  also have "\<dots> < 9223372036854775808" using assms(1) by (simp add: sane_node_def)
  finally have "sum_list (map gpu_VRAMBytes (greedy_gpus spec n)) < 9223372036854775808" .
  with assms(2) set_greedy_gpus [of spec n] show ?thesis
    unfolding greedy_waste_def by (subst greedy_waste_exact) (auto simp: usable_gpu_def)
qed

lemma greedy_least_waste:
  assumes "sane_node n" "0 \<le> gpureq_MinVRAMBytes (res_GPU (spec_Resources spec))"
    and hs: "distinct hs" "set hs \<subseteq> {g\<in>set (node_GPUs n). usable_gpu (res_GPU (spec_Resources spec)) g}"
    and len: "int (length hs) = gpureq_Count (res_GPU (spec_Resources spec))"
  shows "greedy_waste (res_GPU (spec_Resources spec)) (greedy_gpus spec n) \<le>
    sum_list (map (\<lambda>g. gpu_VRAMBytes g - gpureq_MinVRAMBytes (res_GPU (spec_Resources spec))) hs)"
proof -
  let ?req = "res_GPU (spec_Resources spec)" let ?w = "\<lambda>g. gpu_VRAMBytes g - gpureq_MinVRAMBytes ?req"
  let ?us = "filter (usable_gpu ?req) (sort_slice gpu_less (node_GPUs n))"
  have "sorted (map gpu_VRAMBytes ?us)"
    using sorted_vram by (metis sorted_filter)
  then have sorted: "sorted (map ?w ?us)" by (simp add: sorted_map)
  have "distinct (node_GPUs n)" using assms(1) by (simp add: sane_node_def distinct_map)
  then have "mset hs \<subseteq># mset ?us"
    using hs by (simp only: mset_set_set [symmetric] distinct_filter distinct_sort_slice)
      (auto intro!: subset_imp_msubset_mset_set)
  then have "mset (map ?w hs) \<subseteq># mset (map ?w ?us)"
    by (simp add: image_mset_subseteq_mono)
  from sorted_prefix_least_sum [OF sorted this]
  have "sum_list (map ?w (take (length hs) ?us)) \<le> sum_list (map ?w hs)"
    by (simp add: take_map)
  moreover have "take (length hs) ?us = greedy_gpus spec n"
    using len [symmetric] by (simp add: greedy_gpus_def Let_def)
  ultimately show ?thesis using greedy_waste_sum [OF assms(1,2)] by simp
qed

end
