(* ===== verification/LifecycleFacts.thy ===== *)
theory LifecycleFacts
  imports NodeStore Systems SchedulerFacts
begin

text \<open>
  How every operation of the store moves the jobs, their attempts and assignments: the lifecycle of
  a job's status, the agreement between jobs and attempts, and the exclusive use of GPUs.
\<close>

section \<open>Rows under updates\<close>

lemma job_row_update:
  "(\<And>r. jr_id (f r) = jr_id r) \<Longrightarrow>
   job_row i (d\<lparr>tbl_jobs := update_where P f (tbl_jobs d)\<rparr>) =
   map_option (\<lambda>r. if P r then f r else r) (job_row i d)"
  by (simp add: job_row_def find_update_where)

lemma job_row_Some: "job_row i d = Some r \<Longrightarrow> r \<in> set (tbl_jobs d) \<and> jr_id r = i"
  by (auto simp: job_row_def dest: find_key_Some)

lemma job_row_in: "distinct (map jr_id (tbl_jobs d)) \<Longrightarrow> r \<in> set (tbl_jobs d) \<Longrightarrow> job_row (jr_id r) d = Some r"
  by (simp add: job_row_def find_key)

lemma job_row_cong: "tbl_jobs d' = tbl_jobs d \<Longrightarrow> job_row i d' = job_row i d"
  by (simp add: job_row_def)

lemma job_row_append:
  "tbl_jobs d' = tbl_jobs d @ [r] \<Longrightarrow> job_row i d = Some q \<Longrightarrow> job_row i d' = Some q"
  by (auto simp: job_row_def find_Some_iff nth_append)

lemma Job_Inr: "Job i d = Inr job \<longleftrightarrow> (\<exists>r. job_row i d = Some r \<and> job = scanJob r)"
  by (auto simp: Job_def split: option.splits)

lemma scanJob_simps [simp]:
  "job_ID (scanJob r) = jr_id r" "job_Status (scanJob r) = jr_status r"
  "job_ObservedStatus (scanJob r) = jr_observed_status r" "job_DesiredStatus (scanJob r) = jr_desired_status r"
  "job_AttemptID (scanJob r) = text_of (jr_attempt_id r)"
  "job_AssignedNodeID (scanJob r) = text_of (jr_assigned_node_id r)"
  "job_Spec (scanJob r) = jr_spec r" "job_OwnerID (scanJob r) = jr_owner_id r"
  "job_StartedAt (scanJob r) = parseNullTime (jr_started_at r)"
  by (simp_all add: scanJob_def)

lemma row_update_ids [simp]:
  "jr_id (reserve_job_row n a r) = jr_id r" "jr_id (status_job_row rp s f r) = jr_id r"
  "jr_id (rerun_job_row r) = jr_id r"
  "ar_id (status_attempt_row rp s f t) = ar_id t" "ar_job_id (status_attempt_row rp s f t) = ar_job_id t"
  "ar_node_id (status_attempt_row rp s f t) = ar_node_id t"
  "ar_assignment_id (status_attempt_row rp s f t) = ar_assignment_id t"
  "jr_attempt_id (status_job_row rp s f r) = jr_attempt_id r"
  "jr_assigned_node_id (status_job_row rp s f r) = jr_assigned_node_id r"
  "jr_status (status_job_row rp s f r) = rp_status rp"
  by (simp_all add: reserve_job_row_def status_job_row_def rerun_job_row_def status_attempt_row_def)

section \<open>The lifecycle of a job\<close>

text \<open>Rerunning a finished job is the one edge outside the table of \<^verbatim>\<open>CanTransition\<close>.\<close>

definition lifecycle_edge :: "JobStatus \<Rightarrow> JobStatus \<Rightarrow> bool" where
  "lifecycle_edge a b \<longleftrightarrow> CanTransition a b \<or> is_finished a \<and> b = JobQueued"

lemma lifecycle_refl [simp, intro]: "lifecycle_edge a a"
  by (simp add: lifecycle_edge_def CanTransition_def)

lemma lifecycle_stop: "stoppable a \<Longrightarrow> lifecycle_edge a JobStopping"
  by (auto simp: stoppable_def lifecycle_edge_def CanTransition_def)

lemma lifecycle_lost: "losable a \<Longrightarrow> lifecycle_edge a JobLost"
  by (auto simp: losable_def lifecycle_edge_def CanTransition_def)

lemma lifecycle_assign: "lifecycle_edge JobQueued JobAssigned"
  by (simp add: lifecycle_edge_def CanTransition_def)

text \<open>Every job of \<open>d\<close> is in \<open>d'\<close>, its status moved along \<open>R\<close>.\<close>

definition jobs_move :: "(JobStatus \<Rightarrow> JobStatus \<Rightarrow> bool) \<Rightarrow> db \<Rightarrow> db \<Rightarrow> bool" where
  "jobs_move R d d' \<longleftrightarrow>
     (\<forall>i r. job_row i d = Some r \<longrightarrow> (\<exists>r'. job_row i d' = Some r' \<and> R (jr_status r) (jr_status r')))"

lemma jobs_move_refl: "(\<And>a. R a a) \<Longrightarrow> tbl_jobs d' = tbl_jobs d \<Longrightarrow> jobs_move R d d'"
  by (simp add: jobs_move_def job_row_def)

lemma jobs_move_trans:
  "jobs_move R d d1 \<Longrightarrow> jobs_move R d1 d2 \<Longrightarrow> (\<And>a b c. R a b \<Longrightarrow> R b c \<Longrightarrow> R a c) \<Longrightarrow> jobs_move R d d2"
  unfolding jobs_move_def by meson

lemma jobs_move_mono: "jobs_move R d d' \<Longrightarrow> (\<And>a b. R a b \<Longrightarrow> S a b) \<Longrightarrow> jobs_move S d d'"
  unfolding jobs_move_def by meson

lemma jobs_move_update:
  assumes "tbl_jobs d' = update_where P f (tbl_jobs d)" "\<And>r. jr_id (f r) = jr_id r" "\<And>a. R a a"
    and "\<And>r. r \<in> set (tbl_jobs d) \<Longrightarrow> job_row (jr_id r) d = Some r \<Longrightarrow> P r \<Longrightarrow> R (jr_status r) (jr_status (f r))"
  shows "jobs_move R d d'"
proof -
  have "job_row i d' = map_option (\<lambda>r. if P r then f r else r) (job_row i d)" for i
    using assms(1,2) by (simp add: job_row_def find_update_where)
  moreover have "R (jr_status r) (jr_status (if P r then f r else r))" if "job_row i d = Some r" for i r
    using that assms(3,4) job_row_Some [OF that] by auto
  ultimately show ?thesis by (simp add: jobs_move_def)
qed

lemma CreateJob_moves: "CreateJob job d = (r, d') \<Longrightarrow> jobs_move lifecycle_edge d d'"
  by (auto simp: CreateJob_def jobs_move_def split: if_splits intro!: exI dest: job_row_append [rotated])
    (metis (no_types, lifting) db.select_convs(1) db.surjective db.update_convs(1) job_row_append lifecycle_refl)+

lemma SetQueueReason_jobs:
  "tbl_jobs (snd (SetQueueReason i c m d)) =
   update_where (\<lambda>r. jr_id r = i \<and> jr_status r = JobQueued)
     (\<lambda>r. r\<lparr>jr_queue_reason_code := c, jr_queue_reason := m, jr_version := jr_version r + 1\<rparr>) (tbl_jobs d)"
  by (simp add: SetQueueReason_def)

lemma SetQueueReason_moves: "(\<And>a. R a a) \<Longrightarrow> jobs_move R d (snd (SetQueueReason i c m d))"
  by (rule jobs_move_update [OF SetQueueReason_jobs]) auto

lemma Reserve_jobs:
  assumes "ReserveJobWithAffinity i n tk us p s now d = (Inr (), d')"
  shows "tbl_jobs d' = update_where (\<lambda>r. jr_id r = i \<and> jr_status r = JobQueued)
           (reserve_job_row n (tk_attemptID tk)) (tbl_jobs d)"
    and "rows_affected (\<lambda>r. jr_id r = i \<and> jr_status r = JobQueued) (tbl_jobs d) = 1"
    and "tbl_attempts d' = tbl_attempts d @ [next_attempt_row d i n tk us p now]"
    and "\<exists>a. tbl_assignments d' = tbl_assignments d @ [a] \<and> as_id a = tk_assignmentID tk \<and>
           as_job_id a = i \<and> as_attempt_id a = tk_attemptID tk \<and> as_node_id a = n \<and> as_gpu_uuids a = us"
    and "\<not> has_row (\<lambda>a. ar_id a = tk_attemptID tk) (tbl_attempts d)"
    and "\<not> has_row (\<lambda>a. as_id a = tk_assignmentID tk) (tbl_assignments d)"
    and "tbl_nodes d' = tbl_nodes d"
  using assms
  by (auto simp: ReserveJobWithAffinity_def push_event_def Let_def has_row_iff split: if_splits)

lemma Reserve_Inl: "ReserveJobWithAffinity i n tk us p s now d = (Inl e, d') \<Longrightarrow> d' = d"
  by (auto simp: ReserveJobWithAffinity_def Let_def split: if_splits)

definition assigned_or_same :: "JobStatus \<Rightarrow> JobStatus \<Rightarrow> bool" where
  "assigned_or_same a b \<longleftrightarrow> a = b \<or> a = JobQueued \<and> b = JobAssigned"

lemma Reserve_moves:
  "ReserveJobWithAffinity i n tk us p s now d = (r, d') \<Longrightarrow> jobs_move assigned_or_same d d'"
proof (cases r)
  case (Inl e)
  assume "ReserveJobWithAffinity i n tk us p s now d = (r, d')"
  with Inl show ?thesis by (auto dest!: Reserve_Inl intro: jobs_move_refl simp: assigned_or_same_def)
next
  case (Inr u)
  assume "ReserveJobWithAffinity i n tk us p s now d = (r, d')"
  with Inr have "ReserveJobWithAffinity i n tk us p s now d = (Inr (), d')" by simp
  from Reserve_jobs(1) [OF this] show ?thesis
    by (rule jobs_move_update) (auto simp: assigned_or_same_def reserve_job_row_def)
qed

lemma schedule_jobs_moves:
  "schedule_jobs now tickets k nodes jobs d = (r, d') \<Longrightarrow> jobs_move assigned_or_same d d'"
proof (induction now tickets k nodes jobs d arbitrary: r d' rule: schedule_jobs.induct)
  case (1 now tickets k nodes d)
  then show ?case by (auto intro: jobs_move_refl simp: assigned_or_same_def)
next
  case (2 now tickets k nodes job jobs d)
  have tr: "assigned_or_same a b \<Longrightarrow> assigned_or_same b c \<Longrightarrow> assigned_or_same a c" for a b c
    by (auto simp: assigned_or_same_def)
  have self: "jobs_move assigned_or_same d d" for d
    by (rule jobs_move_refl) (auto simp: assigned_or_same_def)
  show ?case
  proof (cases "selectNode (job_Spec job) nodes")
    case (Inl cm)
    obtain c m where cm: "cm = (c, m)" by (cases cm)
    with 2 Inl have rest: "jobs_move assigned_or_same (snd (SetQueueReason (job_ID job) c m d)) d'" by simp
    have "jobs_move assigned_or_same d (snd (SetQueueReason (job_ID job) c m d))"
      by (rule SetQueueReason_moves) (simp add: assigned_or_same_def)
    from jobs_move_trans [OF this rest tr] show ?thesis .
  next
    case sel: (Inr c)
    show ?thesis
    proof (cases "tickets k")
      case (Inl e)
      with sel "2.prems" self show ?thesis by simp
    next
      case tk: (Inr tk)
      obtain res d1 where res: "ReserveJobWithAffinity (job_ID job) (node_ID (cand_node c)) tk
          (cand_gpuUUIDs c) (cand_cpuPackageID c) (cand_cpuSet c) now d = (res, d1)"
        by (metis prod.exhaust)
      note m1 = Reserve_moves [OF res]
      show ?thesis
      proof (cases res)
        case (Inl e)
        with res sel tk "2.prems" "2.IH"(2) [OF sel tk] m1 tr show ?thesis
          by (auto split: if_splits intro: jobs_move_trans)
      next
        case (Inr u)
        with res sel tk "2.prems" "2.IH"(3) [OF sel tk] m1 tr show ?thesis
          by (auto intro: jobs_move_trans)
      qed
    qed
  qed
qed

lemma Schedule_moves: "Schedule now tickets d = (r, d') \<Longrightarrow> jobs_move assigned_or_same d d'"
  by (auto simp: Schedule_def Let_def split: if_splits intro: schedule_jobs_moves jobs_move_refl
      simp: assigned_or_same_def)

end
