(* ===== verification/BuildStore.thy ===== *)
theory BuildStore
  imports AgentStore
begin

text \<open>
  \<^verbatim>\<open>internal/store/builds.go\<close>, \<^verbatim>\<open>build_assignments.go\<close> and \<^verbatim>\<open>managed_artifacts.go\<close>: source builds and
  their plans, the leases builders hold on them, and the images they produce. Each operation is one
  transaction; a validation error is \<open>ErrInvalid\<close>, a unique violation \<open>ErrConflict\<close>.
\<close>

section \<open>Reading builds\<close>

definition build_row :: "string \<Rightarrow> db \<Rightarrow> BuildRow option" where
  "build_row i d = find (\<lambda>r. br_id r = i) (tbl_builds d)"

definition artifact_row :: "string \<Rightarrow> db \<Rightarrow> ArtifactRow option" where
  "artifact_row i d = find (\<lambda>r. mar_build_id r = i) (tbl_artifacts d)"

definition scanBuild :: "db \<Rightarrow> BuildRow \<Rightarrow> Build" where
  "scanBuild d r =
     (let available = has_row (\<lambda>a. mar_build_id a = br_id r) (tbl_artifacts d) in
      \<lparr>build_ID = br_id r, build_OwnerID = br_owner_id r, build_Name = br_name r, build_Mode = br_mode r,
       build_Status = br_status r, build_Source = br_source r, build_ContextPath = br_context_path r,
       build_DockerfilePath = br_dockerfile_path r, build_OCIDigest = br_oci_digest r,
       build_ArtifactReference =
         (if available then ManagedArtifactReference (br_id r) (br_oci_digest r) else ''''),
       build_ArtifactAvailable = available, build_FailureReason = br_failure_reason r,
       build_CreatedAt = parseTime (br_created_at r), build_StartedAt = parseNullTime (br_started_at r),
       build_FinishedAt = parseNullTime (br_finished_at r), build_Version = br_version r\<rparr>)"

definition Build :: "string \<Rightarrow> db \<Rightarrow> store_error + Build" where
  "Build i d = (case build_row i d of None \<Rightarrow> Inl ErrNotFound | Some r \<Rightarrow> Inr (scanBuild d r))"

definition ListBuilds :: "string \<Rightarrow> db \<Rightarrow> Build list" where
  "ListBuilds ownerID d =
     map (scanBuild d) (sort_slice (\<lambda>a b. stamp_less (br_created_at b) (br_created_at a))
       (filter (\<lambda>r. ownerID = '''' \<or> br_owner_id r = ownerID) (tbl_builds d)))"

definition scanBuildEvent :: "BuildEventRow \<Rightarrow> BuildEvent" where
  "scanBuildEvent r = \<lparr>bev_ID = ber_id r, bev_BuildID = ber_build_id r, bev_Status = ber_status r,
     bev_Message = ber_message r, bev_CreatedAt = parseTime (ber_created_at r)\<rparr>"

definition BuildEvents :: "string \<Rightarrow> db \<Rightarrow> BuildEvent list" where
  "BuildEvents buildID d =
     map scanBuildEvent (sort_slice (\<lambda>a b. ber_id a < ber_id b)
       (filter (\<lambda>e. ber_build_id e = buildID) (tbl_build_events d)))"

definition scanPlan :: "BuildPlanRow \<Rightarrow> BuildPlan" where
  "scanPlan p = (pr_plan p)\<lparr>plan_BuildID := pr_build_id p, plan_CreatedAt := parseTime (pr_created_at p),
     plan_ConfirmedAt := parseNullTime (pr_confirmed_at p)\<rparr>"

definition BuildPlan :: "string \<Rightarrow> db \<Rightarrow> store_error + BuildPlan" where
  "BuildPlan buildID d =
     (case find (\<lambda>p. pr_build_id p = buildID) (tbl_build_plans d) of
        None \<Rightarrow> Inl ErrNotFound | Some p \<Rightarrow> Inr (scanPlan p))"

section \<open>Builds and plans\<close>

definition push_build_event :: "string \<Rightarrow> BuildStatus \<Rightarrow> string \<Rightarrow> gotime \<Rightarrow> db \<Rightarrow> db" where
  "push_build_event buildID st message now d = d\<lparr>
     tbl_build_events := tbl_build_events d @
       [\<lparr>ber_id = seq_build_events d + 1, ber_build_id = buildID, ber_status = st, ber_message = message,
         ber_created_at = formatTime now\<rparr>],
     seq_build_events := seq_build_events d + 1\<rparr>"


definition CreateBuild :: "Build \<Rightarrow> unit dbop" where
  "CreateBuild b d =
     (if \<not> is_ok (ValidateBuild b) then (Inl ErrInvalid, d)

      else if has_row (\<lambda>r. br_id r = build_ID b) (tbl_builds d) then (Inl ErrConflict, d)
      else (Inr (), push_build_event (build_ID b) (build_Status b) '''' (build_CreatedAt b) (d\<lparr>tbl_builds := tbl_builds d @
        [\<lparr>br_id = build_ID b, br_owner_id = build_OwnerID b, br_name = build_Name b, br_mode = build_Mode b,
          br_status = build_Status b, br_source = build_Source b, br_context_path = build_ContextPath b,
          br_dockerfile_path = build_DockerfilePath b, br_oci_digest = '''', br_failure_reason = '''',
          br_created_at = formatTime (build_CreatedAt b), br_started_at = None, br_finished_at = None,
          br_version = 1\<rparr>]\<rparr>)))"

definition SaveBuildPlan :: "BuildPlan \<Rightarrow> unit dbop" where
  "SaveBuildPlan plan d =
     (if \<not> is_ok (ValidateBuildPlan plan) then (Inl ErrInvalid, d)
      else (case build_row (plan_BuildID plan) d of
        None \<Rightarrow> (Inl ErrNotFound, d)
      | Some r \<Rightarrow>
          if br_status r \<noteq> BuildAnalyzing then (Inl ErrConflict, d)
          else if has_row (\<lambda>p. pr_build_id p = plan_BuildID plan) (tbl_build_plans d) then (Inl ErrConflict, d)
          else (Inr (), d\<lparr>tbl_build_plans := tbl_build_plans d @
            [\<lparr>pr_build_id = plan_BuildID plan, pr_plan = plan, pr_created_at = formatTime (plan_CreatedAt plan),
              pr_confirmed_at = None\<rparr>]\<rparr>)))"

definition confirm_plan :: "gotime \<Rightarrow> BuildPlanRow \<Rightarrow> BuildPlanRow" where
  "confirm_plan now p = p\<lparr>pr_confirmed_at := coalesce (pr_confirmed_at p) (Some (formatTime now))\<rparr>"

definition ConfirmBuildPlan :: "string \<Rightarrow> gotime \<Rightarrow> BuildPlan dbop" where
  "ConfirmBuildPlan buildID now d =
     (let match = (\<lambda>p. pr_build_id p = buildID \<and>
            has_row (\<lambda>b. br_id b = pr_build_id p \<and> br_status b = BuildAnalyzing) (tbl_builds d))
      in if rows_affected match (tbl_build_plans d) \<noteq> 1 then (Inl ErrConflict, d)
         else let d = d\<lparr>tbl_build_plans := update_where match (confirm_plan now) (tbl_build_plans d)\<rparr>
           in (BuildPlan buildID d, d))"

definition terminal_build :: "BuildStatus \<Rightarrow> bool" where
  "terminal_build st \<longleftrightarrow> List.member [BuildSucceeded, BuildFailed, BuildCancelled] st"

definition UpdateBuildStatus :: "string \<Rightarrow> BuildStatus \<Rightarrow> string \<Rightarrow> string \<Rightarrow> gotime \<Rightarrow> Build dbop" where
  "UpdateBuildStatus i st digest message now d =
     (case Build i d of
        Inl e \<Rightarrow> (Inl e, d)
      | Inr current \<Rightarrow>
          if build_Status current = st then (Inr current, d)
          else if \<not> CanBuildTransition (build_Status current) st then (Inl ErrConflict, d)
          else
            let reason = (if st = BuildFailed then message else '''');
                cand = current\<lparr>build_Status := st, build_OCIDigest := digest, build_FailureReason := reason\<rparr>;
                startedAt = (if build_StartedAt current = None \<and> (st = BuildAnalyzing \<or> st = BuildBuilding)
                             then Some (formatTime now) else None);
                finishedAt = (if terminal_build st then Some (formatTime now) else None);
                match = (\<lambda>r. br_id r = i \<and> br_status r = build_Status current)
            in if \<not> is_ok (ValidateBuild cand) then (Inl ErrInvalid, d)
               else if rows_affected match (tbl_builds d) \<noteq> 1 then (Inl ErrConflict, d)
               else let d = push_build_event i st message now (d\<lparr>tbl_builds := update_where match
                      (\<lambda>r. r\<lparr>br_status := st, br_oci_digest := digest, br_failure_reason := reason,
                             br_started_at := coalesce (br_started_at r) startedAt,
                             br_finished_at := finishedAt, br_version := br_version r + 1\<rparr>) (tbl_builds d)\<rparr>)
                 in (Build i d, d))"

definition image_referenced :: "db \<Rightarrow> string \<Rightarrow> bool" where
  "image_referenced d reference =
     has_row (\<lambda>j. jr_status j \<noteq> JobDeleted \<and> spec_Image (jr_spec j) = reference) (tbl_jobs d)"

text \<open>\<^verbatim>\<open>ON DELETE CASCADE\<close> removes the children of a deleted build.\<close>

definition DeleteBuild :: "string \<Rightarrow> unit dbop" where
  "DeleteBuild i d =
     (case build_row i d of
        None \<Rightarrow> (Inl ErrNotFound, d)
      | Some r \<Rightarrow>
          if br_status r = BuildAnalyzing \<or> br_status r = BuildBuilding then (Inl ErrConflict, d)
          else if br_oci_digest r \<noteq> '''' \<and> image_referenced d (ManagedArtifactReference i (br_oci_digest r))
            then (Inl ErrConflict, d)
          else (Inr (), d\<lparr>
            tbl_builds := delete_where (\<lambda>b. br_id b = i) (tbl_builds d),
            tbl_build_events := delete_where (\<lambda>e. ber_build_id e = i) (tbl_build_events d),
            tbl_build_plans := delete_where (\<lambda>p. pr_build_id p = i) (tbl_build_plans d),
            tbl_build_assignments := delete_where (\<lambda>a. bar_build_id a = i) (tbl_build_assignments d),
            tbl_artifacts := delete_where (\<lambda>a. mar_build_id a = i) (tbl_artifacts d)\<rparr>))"

section \<open>Leases\<close>

definition scanBuildAssignment :: "BuildAssignmentRow \<Rightarrow> BuildAssignment" where
  "scanBuildAssignment a = \<lparr>basg_ID = bar_id a, basg_BuildID = bar_build_id a, basg_Status = bar_status a,
     basg_CancelRequested = bar_cancel_requested a, basg_BuilderID = text_of (bar_builder_id a),
     basg_LeaseExpiresAt = parseNullTime (bar_lease_expires_at a),
     basg_CreatedAt = parseTime (bar_created_at a), basg_UpdatedAt = parseTime (bar_updated_at a)\<rparr>"

definition assignment_of :: "string \<Rightarrow> db \<Rightarrow> BuildAssignmentRow option" where
  "assignment_of i d = find (\<lambda>a. bar_id a = i) (tbl_build_assignments d)"

definition BuildAssignment :: "string \<Rightarrow> db \<Rightarrow> store_error + BuildAssignment" where
  "BuildAssignment i d =
     (case assignment_of i d of None \<Rightarrow> Inl ErrNotFound | Some a \<Rightarrow> Inr (scanBuildAssignment a))"

text \<open>\<^verbatim>\<open>buildPlanTx\<close> with its error turned into no plan.\<close>

definition plan_option :: "string \<Rightarrow> db \<Rightarrow> BuildPlan option" where
  "plan_option buildID d = (case BuildPlan buildID d of Inl _ \<Rightarrow> None | Inr p \<Rightarrow> Some p)"

definition queueable :: "Build \<Rightarrow> bool" where
  "queueable b \<longleftrightarrow>
     build_Mode b = BuildModeRailpack \<and> build_Status b = BuildAnalyzing \<or>
     build_Mode b = BuildModeDockerfile \<and> build_Status b = BuildCreated"

definition new_build_assignment :: "string \<Rightarrow> string \<Rightarrow> gotime \<Rightarrow> BuildAssignment" where
  "new_build_assignment i buildID now = \<lparr>basg_ID = i, basg_BuildID = buildID,
     basg_Status = BuildAssignmentPending, basg_CancelRequested = False, basg_BuilderID = '''',
     basg_LeaseExpiresAt = None, basg_CreatedAt = now, basg_UpdatedAt = now\<rparr>"

definition start_build :: "Build \<Rightarrow> string \<Rightarrow> gotime \<Rightarrow> db \<Rightarrow> db" where
  "start_build b assignmentID now d =
     (let i = build_ID b;
          d = (if build_Mode b = BuildModeRailpack
               then d\<lparr>tbl_build_plans := update_where (\<lambda>p. pr_build_id p = i) (confirm_plan now) (tbl_build_plans d)\<rparr>
               else d);
          d = d\<lparr>tbl_builds := update_where (\<lambda>r. br_id r = i \<and> br_status r = build_Status b)
                (\<lambda>r. r\<lparr>br_status := BuildBuilding, br_failure_reason := '''',
                       br_started_at := coalesce (br_started_at r) (Some (formatTime now)),
                       br_finished_at := None, br_version := br_version r + 1\<rparr>) (tbl_builds d)\<rparr>;
          d = push_build_event i BuildBuilding ''Queued for isolated BuildKit execution'' now d
      in d\<lparr>tbl_build_assignments := tbl_build_assignments d @
           [\<lparr>bar_id = assignmentID, bar_build_id = i, bar_status = BuildAssignmentPending,
             bar_cancel_requested = False, bar_builder_id = None, bar_lease_expires_at = None,
             bar_created_at = formatTime now, bar_updated_at = formatTime now\<rparr>]\<rparr>)"

definition QueueBuild :: "string \<Rightarrow> string \<Rightarrow> gotime \<Rightarrow> BuildWork dbop" where
  "QueueBuild buildID assignmentID now d =
     (case Build buildID d of
        Inl e \<Rightarrow> (Inl e, d)
      | Inr b \<Rightarrow>
          (case find (\<lambda>a. bar_build_id a = buildID) (tbl_build_assignments d) of
             Some a \<Rightarrow> (Inr \<lparr>work_Assignment = scanBuildAssignment a, work_Build = b,
                            work_Plan = plan_option buildID d\<rparr>, d)
           | None \<Rightarrow>
               if \<not> queueable b then (Inl ErrConflict, d)
               else if build_Mode b = BuildModeRailpack \<and> plan_option buildID d = None then (Inl ErrNotFound, d)
               else if rows_affected (\<lambda>r. br_id r = buildID \<and> br_status r = build_Status b) (tbl_builds d) \<noteq> 1
                 then (Inl ErrConflict, d)
               else if \<not> is_ok (ValidateBuildAssignment (new_build_assignment assignmentID buildID now))
                 then (Inl ErrInvalid, d)
               else if has_row (\<lambda>a. bar_id a = assignmentID) (tbl_build_assignments d) then (Inl ErrConflict, d)
               else
                 let plan = (if build_Mode b = BuildModeRailpack
                       then map_option (\<lambda>p. p\<lparr>plan_ConfirmedAt := coalesce (plan_ConfirmedAt p) (Some now)\<rparr>)
                              (plan_option buildID d)
                       else None);
                     d = start_build b assignmentID now d
                 in (case Build buildID d of
                       Inl e \<Rightarrow> (Inl e, d)
                     | Inr b \<Rightarrow> (Inr \<lparr>work_Assignment = new_build_assignment assignmentID buildID now,
                                    work_Build = b, work_Plan = plan\<rparr>, d))))"

text \<open>What a builder may claim: pending work, its own, or work whose lease has expired.\<close>

definition claimable :: "string \<Rightarrow> gotime \<Rightarrow> BuildAssignmentRow \<Rightarrow> bool" where
  "claimable builderID now a \<longleftrightarrow> \<not> bar_cancel_requested a \<and>
     (bar_status a = BuildAssignmentPending \<or>
      bar_status a = BuildAssignmentRunning \<and>
        (bar_builder_id a = Some builderID \<or>
         (case bar_lease_expires_at a of None \<Rightarrow> False | Some e \<Rightarrow> stamp_less e (formatTime now))))"

definition claim_rank :: "string \<Rightarrow> BuildAssignmentRow \<Rightarrow> nat" where
  "claim_rank builderID a = (if bar_builder_id a = Some builderID then 0 else 1)"

definition claim_less :: "string \<Rightarrow> BuildAssignmentRow \<Rightarrow> BuildAssignmentRow \<Rightarrow> bool" where
  "claim_less builderID a b \<longleftrightarrow> claim_rank builderID a < claim_rank builderID b \<or>
     claim_rank builderID a = claim_rank builderID b \<and> stamp_less (bar_created_at a) (bar_created_at b)"

definition claim_row :: "string \<Rightarrow> gotime \<Rightarrow> int \<Rightarrow> BuildAssignmentRow \<Rightarrow> BuildAssignmentRow" where
  "claim_row builderID now lease a = a\<lparr>bar_status := BuildAssignmentRunning, bar_builder_id := Some builderID,
     bar_lease_expires_at := Some (formatTime (now + lease)), bar_updated_at := formatTime now\<rparr>"

definition NextBuildWork :: "string \<Rightarrow> int \<Rightarrow> gotime \<Rightarrow> BuildWork dbop" where
  "NextBuildWork builderID lease now d =
     (case sort_slice (claim_less builderID) (filter (claimable builderID now) (tbl_build_assignments d)) of
        [] \<Rightarrow> (Inl ErrNotFound, d)
      | a # _ \<Rightarrow>
          let match = (\<lambda>b. bar_id b = bar_id a \<and> bar_updated_at b = formatTime (parseTime (bar_updated_at a)) \<and>
                           claimable builderID now b);
              d' = d\<lparr>tbl_build_assignments :=
                    update_where match (claim_row builderID now lease) (tbl_build_assignments d)\<rparr>
          in if rows_affected match (tbl_build_assignments d) \<noteq> 1 then (Inl ErrConflict, d)
             else (case Build (bar_build_id a) d of
               Inl e \<Rightarrow> (Inl e, d)
             | Inr b \<Rightarrow>
                 let plan = plan_option (build_ID b) d in
                 if plan = None \<and> build_Mode b \<noteq> BuildModeDockerfile then (Inl ErrNotFound, d)
                 else (Inr \<lparr>work_Assignment = (scanBuildAssignment a)\<lparr>basg_Status := BuildAssignmentRunning,
                             basg_BuilderID := builderID, basg_LeaseExpiresAt := Some (now + lease),
                             basg_UpdatedAt := now\<rparr>,
                           work_Build = b, work_Plan = plan\<rparr>, d')))"

definition RenewBuildAssignment :: "string \<Rightarrow> string \<Rightarrow> int \<Rightarrow> gotime \<Rightarrow> BuildAssignment dbop" where
  "RenewBuildAssignment i builderID lease now d =
     (let match = (\<lambda>a. bar_id a = i \<and> bar_builder_id a = Some builderID \<and> bar_status a = BuildAssignmentRunning)
      in if rows_affected match (tbl_build_assignments d) \<noteq> 1 then (Inl ErrConflict, d)
         else let d = d\<lparr>tbl_build_assignments := update_where match
                (\<lambda>a. a\<lparr>bar_lease_expires_at := Some (formatTime (now + lease)), bar_updated_at := formatTime now\<rparr>)
                (tbl_build_assignments d)\<rparr>
           in (BuildAssignment i d, d))"

definition open_assignment :: "BuildAssignmentStatus \<Rightarrow> bool" where
  "open_assignment st \<longleftrightarrow> st = BuildAssignmentPending \<or> st = BuildAssignmentRunning"

definition finish_build :: "BuildStatus \<Rightarrow> string \<Rightarrow> string \<Rightarrow> gotime \<Rightarrow> string \<Rightarrow> BuildRow list \<Rightarrow> BuildRow list" where
  "finish_build st digest reason now i rows = update_where (\<lambda>r. br_id r = i \<and> br_status r = BuildBuilding)
     (\<lambda>r. r\<lparr>br_status := st, br_oci_digest := digest, br_failure_reason := reason,
            br_finished_at := Some (formatTime now), br_version := br_version r + 1\<rparr>) rows"

definition RequestBuildCancellation :: "string \<Rightarrow> gotime \<Rightarrow> Build dbop" where
  "RequestBuildCancellation buildID now d =
     (case Build buildID d of
        Inl e \<Rightarrow> (Inl e, d)
      | Inr b \<Rightarrow>
          if build_Status b = BuildCancelled then (Inr b, d)
          else if build_Status b \<noteq> BuildBuilding then (Inl ErrConflict, d)
          else
            let match = (\<lambda>a. bar_build_id a = buildID \<and> open_assignment (bar_status a)) in
            if rows_affected match (tbl_build_assignments d) \<noteq> 1 then (Inl ErrConflict, d)
            else let d = push_build_event buildID BuildCancelled ''Cancellation requested by user'' now (d\<lparr>
                   tbl_build_assignments := update_where match
                     (\<lambda>a. a\<lparr>bar_cancel_requested := True,
                            bar_status := (if bar_status a = BuildAssignmentPending
                                           then BuildAssignmentCancelled else bar_status a),
                            bar_updated_at := formatTime now\<rparr>) (tbl_build_assignments d),
                   tbl_builds := update_where (\<lambda>r. br_id r = buildID \<and> br_status r = BuildBuilding)
                     (\<lambda>r. r\<lparr>br_status := BuildCancelled, br_failure_reason := '''',
                            br_finished_at := Some (formatTime now), br_version := br_version r + 1\<rparr>)
                     (tbl_builds d)\<rparr>)
              in (Build buildID d, d))"

definition close_assignment :: "string \<Rightarrow> BuildAssignmentStatus \<Rightarrow> gotime \<Rightarrow> db \<Rightarrow> db" where
  "close_assignment i st now d = d\<lparr>tbl_build_assignments := update_where (\<lambda>a. bar_id a = i)
     (\<lambda>a. a\<lparr>bar_status := st, bar_lease_expires_at := None, bar_updated_at := formatTime now\<rparr>)
     (tbl_build_assignments d)\<rparr>"

text \<open>The build status, digest and failure reason a terminal assignment gives.\<close>

definition build_outcome :: "BuildAssignmentStatus \<Rightarrow> string \<Rightarrow> string \<Rightarrow> BuildStatus \<times> string \<times> string" where
  "build_outcome st digest message =
     (if st = BuildAssignmentFailed then (BuildFailed, '''', message)
      else if st = BuildAssignmentCancelled then (BuildCancelled, '''', '''')
      else (BuildSucceeded, digest, ''''))"

definition settle_build ::
  "Build \<Rightarrow> string \<Rightarrow> BuildAssignmentStatus \<Rightarrow> string \<Rightarrow> string \<Rightarrow> gotime \<Rightarrow> Build dbop" where
  "settle_build b i st digest message now d =
     (if st = BuildAssignmentSucceeded \<and>
         (case artifact_row (build_ID b) d of None \<Rightarrow> True | Some m \<Rightarrow> mar_digest m \<noteq> digest)
      then (Inl ErrConflict, d)
      else (case build_outcome st digest message of (bst, dg, reason) \<Rightarrow>
        if build_Status b = BuildBuilding then
          if \<not> is_ok (ValidateBuild (b\<lparr>build_Status := bst, build_OCIDigest := dg, build_FailureReason := reason\<rparr>))
          then (Inl ErrInvalid, d)
          else let d = close_assignment i st now (push_build_event (build_ID b) bst message now
                 (d\<lparr>tbl_builds := finish_build bst dg reason now (build_ID b) (tbl_builds d)\<rparr>))
            in (Build (build_ID b) d, d)
        else let d = close_assignment i st now d in (Build (build_ID b) d, d)))"

definition CompleteBuildAssignment ::
  "string \<Rightarrow> string \<Rightarrow> BuildAssignmentStatus \<Rightarrow> string \<Rightarrow> string \<Rightarrow> gotime \<Rightarrow> Build dbop" where
  "CompleteBuildAssignment i builderID st digest message now d =
     (if \<not> List.member [BuildAssignmentSucceeded, BuildAssignmentFailed, BuildAssignmentCancelled] st
      then (Inl ErrInvalid, d)
      else (case BuildAssignment i d of
        Inl e \<Rightarrow> (Inl e, d)
      | Inr a \<Rightarrow>
          if basg_BuilderID a \<noteq> builderID \<or> (basg_Status a \<noteq> BuildAssignmentRunning \<and> basg_Status a \<noteq> st)
          then (Inl ErrConflict, d)
          else (case Build (basg_BuildID a) d of
            Inl e \<Rightarrow> (Inl e, d)
          | Inr b \<Rightarrow>
              if basg_CancelRequested a \<or> build_Status b = BuildCancelled
              then settle_build b i BuildAssignmentCancelled '''' ''Build cancelled'' now d
              else settle_build b i st digest message now d)))"

section \<open>Managed images\<close>

definition scanManagedArtifact :: "ArtifactRow \<Rightarrow> ManagedArtifact" where
  "scanManagedArtifact a = \<lparr>art_BuildID = mar_build_id a, art_OwnerID = mar_owner_id a,
     art_Digest = mar_digest a, art_SHA256 = mar_sha256 a, art_Size = mar_size_bytes a,
     art_MediaType = mar_media_type a, art_RuntimeImage = mar_runtime_image a,
     art_CreatedAt = parseTime (mar_created_at a), art_LastReferencedAt = parseTime (mar_last_referenced_at a)\<rparr>"

definition same_artifact :: "ManagedArtifact \<Rightarrow> ArtifactRow \<Rightarrow> bool" where
  "same_artifact art a \<longleftrightarrow> mar_digest a = art_Digest art \<and> mar_sha256 a = art_SHA256 art \<and>
     mar_size_bytes a = art_Size art \<and> mar_runtime_image a = art_RuntimeImage art"

definition SaveManagedArtifact :: "ManagedArtifact \<Rightarrow> unit dbop" where
  "SaveManagedArtifact art d =
     (if \<not> is_ok (ValidateManagedArtifact art) then (Inl ErrInvalid, d)
      else (case build_row (art_BuildID art) d of
        None \<Rightarrow> (Inl ErrNotFound, d)
      | Some b \<Rightarrow>
          if br_owner_id b \<noteq> art_OwnerID art \<or> br_status b \<noteq> BuildBuilding then (Inl ErrConflict, d)
          else (case artifact_row (art_BuildID art) d of
            None \<Rightarrow> (Inr (), d\<lparr>tbl_artifacts := tbl_artifacts d @
              [\<lparr>mar_build_id = art_BuildID art, mar_owner_id = art_OwnerID art, mar_digest = art_Digest art,
                mar_sha256 = art_SHA256 art, mar_size_bytes = art_Size art,
                mar_media_type = art_MediaType art, mar_runtime_image = art_RuntimeImage art,
                mar_created_at = formatTime (art_CreatedAt art),
                mar_last_referenced_at = formatTime (art_LastReferencedAt art)\<rparr>]\<rparr>)
          | Some a \<Rightarrow>
              if \<not> same_artifact art a then (Inl ErrConflict, d)
              else (Inr (), d\<lparr>tbl_artifacts := update_where (\<lambda>r. mar_build_id r = art_BuildID art)
                (\<lambda>r. r\<lparr>mar_last_referenced_at := formatTime (art_LastReferencedAt art)\<rparr>) (tbl_artifacts d)\<rparr>))))"

definition ManagedArtifact :: "string \<Rightarrow> db \<Rightarrow> store_error + ManagedArtifact" where
  "ManagedArtifact buildID d =
     (case artifact_row buildID d of None \<Rightarrow> Inl ErrNotFound | Some a \<Rightarrow> Inr (scanManagedArtifact a))"

definition artifact_for_owner :: "db \<Rightarrow> string \<Rightarrow> string \<Rightarrow> string \<Rightarrow> ArtifactRow \<Rightarrow> bool" where
  "artifact_for_owner d buildID ownerID digest a \<longleftrightarrow>
     mar_build_id a = buildID \<and> mar_owner_id a = ownerID \<and> mar_digest a = digest \<and>
     has_row (\<lambda>b. br_id b = mar_build_id a \<and> br_status b = BuildSucceeded) (tbl_builds d)"

definition ManagedArtifactForOwner :: "string \<Rightarrow> string \<Rightarrow> string \<Rightarrow> db \<Rightarrow> store_error + ManagedArtifact" where
  "ManagedArtifactForOwner buildID ownerID digest d =
     (case find (artifact_for_owner d buildID ownerID digest) (tbl_artifacts d) of
        None \<Rightarrow> Inl ErrNotFound | Some a \<Rightarrow> Inr (scanManagedArtifact a))"

definition touch_artifact :: "string \<Rightarrow> gotime \<Rightarrow> db \<Rightarrow> db" where
  "touch_artifact buildID now d = d\<lparr>tbl_artifacts := update_where (\<lambda>a. mar_build_id a = buildID)
     (\<lambda>a. a\<lparr>mar_last_referenced_at := formatTime now\<rparr>) (tbl_artifacts d)\<rparr>"

text \<open>The image of the job whose current assignment it is, \<open>None\<close> for SQL's \<^verbatim>\<open>NULL\<close>.\<close>

definition assignment_image :: "db \<Rightarrow> string \<Rightarrow> string \<Rightarrow> string option" where
  "assignment_image d assignmentID nodeID =
     (case find (\<lambda>x. as_id x = assignmentID \<and> as_node_id x = nodeID \<and>
          (case job_row (as_job_id x) d of
             None \<Rightarrow> False
           | Some j \<Rightarrow> jr_attempt_id j = Some (as_attempt_id x) \<and>
               List.member [JobAssigned, JobPullingImage, JobStarting, JobRunning] (jr_status j)))
        (tbl_assignments d) of
        None \<Rightarrow> None
      | Some x \<Rightarrow> map_option (\<lambda>j. spec_Image (jr_spec j)) (job_row (as_job_id x) d))"

definition ManagedArtifactForAssignment :: "string \<Rightarrow> string \<Rightarrow> gotime \<Rightarrow> ManagedArtifact dbop" where
  "ManagedArtifactForAssignment assignmentID nodeID now d =
     (case find (\<lambda>a. assignment_image d assignmentID nodeID =
            Some (ManagedArtifactReference (mar_build_id a) (mar_digest a))) (tbl_artifacts d) of
        None \<Rightarrow> (Inl ErrNotFound, d)
      | Some a \<Rightarrow> (Inr (scanManagedArtifact a), touch_artifact (mar_build_id a) now d))"

definition CreateJobWithManagedArtifact :: "Job \<Rightarrow> string \<Rightarrow> string \<Rightarrow> gotime \<Rightarrow> unit dbop" where
  "CreateJobWithManagedArtifact job buildID digest now d =
     (if \<not> has_row (artifact_for_owner d buildID (job_OwnerID job) digest) (tbl_artifacts d)
      then (Inl ErrNotFound, d)
      else (case CreateJob job d of
        (Inl _, _) \<Rightarrow> (Inl ErrConflict, d)
      | (Inr _, d') \<Rightarrow> (Inr (), touch_artifact buildID now d')))"

definition collectable :: "gotime \<Rightarrow> db \<Rightarrow> ArtifactRow \<Rightarrow> bool" where
  "collectable before d a \<longleftrightarrow> stamp_less (mar_last_referenced_at a) (formatTime before) \<and>
     \<not> image_referenced d (ManagedArtifactReference (mar_build_id a) (mar_digest a))"

text \<open>The deletions run in one transaction: each removes the build's row if it is still old enough.\<close>

definition collect_one :: "gotime \<Rightarrow> db \<Rightarrow> ArtifactRow \<Rightarrow> db" where
  "collect_one before d a = d\<lparr>tbl_artifacts := delete_where (\<lambda>r. mar_build_id r = mar_build_id a \<and>
     stamp_less (mar_last_referenced_at r) (formatTime before) \<and>
     \<not> image_referenced d (ManagedArtifactReference (mar_build_id a) (mar_digest a))) (tbl_artifacts d)\<rparr>"

definition GarbageCollectManagedArtifacts :: "gotime \<Rightarrow> db \<Rightarrow> ManagedArtifact list \<times> db" where
  "GarbageCollectManagedArtifacts before d =
     (let found = filter (collectable before d) (tbl_artifacts d)
      in (map scanManagedArtifact found, foldl (collect_one before) d found))"

end
