(* ===== verification/StoreSteps.thy ===== *)
theory StoreSteps
  imports LifecycleFacts BuildStore
begin

text \<open>
  The committed operations on jobs and nodes as one step relation on the database, and what every
  step but a creation, a scheduling pass and a rerun leaves alone: the identity of jobs, attempts
  and assignments, and the attempts that hold resources.
\<close>

section \<open>The step relation\<close>

definition no_env :: "'a \<Rightarrow> db \<Rightarrow> db" where
  "no_env k d = d"

text \<open>What the operations on jobs and agents share; the other tables may change at any time.\<close>

definition job_tables :: "db \<Rightarrow> JobRow list \<times> AttemptRow list \<times> AssignmentRow list \<times> EventRow list \<times> int" where
  "job_tables d = (tbl_jobs d, tbl_attempts d, tbl_assignments d, tbl_events d, seq_events d)"

inductive store_step :: "db \<Rightarrow> db \<Rightarrow> bool" where
  create: "job_Status job = JobQueued \<Longrightarrow> store_step d (snd (CreateJob job d))"
| create_managed: "job_Status job = JobQueued \<Longrightarrow> store_step d (snd (CreateJobWithManagedArtifact job b g now d))"
| elsewhere: "job_tables d' = job_tables d \<Longrightarrow> store_step d d'"
| queue_reason: "store_step d (snd (SetQueueReason i code message d))"
| schedule: "store_step d (snd (Schedule now tickets d))"
| update: "store_step d (snd (UpdateJobStatus no_env i rp now d))"
| agent: "store_step d (snd (agentEvent no_env n i body now d))"
| outputs: "store_step d (snd (SetAttemptOutputs i a outs d))"
| rerun: "store_step d (snd (RerunJob i d))"
| stop: "store_step d (snd (RequestStop (no_env ()) i now d))"
| deleting: "store_step d (snd (MarkDeleting (no_env ()) i d))"
| deleted: "job_row i d = Some r \<Longrightarrow> jr_status r = JobDeleting \<or> jr_status r = JobDeleted \<Longrightarrow>
    store_step d (snd (MarkDeleted i now d))"
| fetch: "store_step d (snd (AssignmentForNode n now d))"
| accept: "store_step d (snd (AcceptAssignment n a c now d))"
| event: "store_step d (snd (AppendEvent e d))"
| server_event: "store_step d (snd (AppendServerEvent i ty payload now d))"
| checkpoint: "store_step d (snd (CreateCheckpointSync s d))"
| confirm: "store_step d (snd (ConfirmCheckpointSync c files now d))"
| upsert: "store_step d (snd (UpsertNode node h now d))"
| heartbeat: "store_step d (snd (Heartbeat node d))"
| metadata: "store_step d (snd (UpdateNodeMetadata n name labels d))"
| rotate: "store_step d (snd (RotateNodeCredential n h now d))"
| node_status: "store_step d (snd (SetNodeStatus n st d))"
| delete_node: "store_step d (snd (DeleteNode n now d))"
| stale: "store_step d (snd (MarkStaleNodes ob lb now d))"

section \<open>Calm steps\<close>

text \<open>
  A calm step moves statuses along \<open>R\<close>, activates and requeues no job, and neither hands out nor takes
  away an attempt.
\<close>

definition calm_row :: "(JobStatus \<Rightarrow> JobStatus \<Rightarrow> bool) \<Rightarrow> JobRow \<Rightarrow> JobRow \<Rightarrow> bool" where
  "calm_row R r r' \<longleftrightarrow> jr_id r' = jr_id r \<and> R (jr_status r) (jr_status r') \<and>
     jr_attempt_id r' = jr_attempt_id r \<and> jr_assigned_node_id r' = jr_assigned_node_id r \<and>
     (IsActive (jr_status r') \<longrightarrow> IsActive (jr_status r)) \<and>
     (jr_status r' = JobQueued \<longrightarrow> jr_status r = JobQueued)"

definition attempt_key :: "AttemptRow \<Rightarrow> string \<times> string \<times> string \<times> string \<times> string list \<times> int" where
  "attempt_key t = (ar_id t, ar_job_id t, ar_node_id t, ar_assignment_id t, ar_gpu_uuids t, ar_attempt_number t)"

definition assignment_key :: "AssignmentRow \<Rightarrow> string \<times> string \<times> string \<times> string \<times> string list" where
  "assignment_key a = (as_id a, as_job_id a, as_attempt_id a, as_node_id a, as_gpu_uuids a)"

definition event_log_ok :: "db \<Rightarrow> bool" where
  "event_log_ok d \<longleftrightarrow>
     sorted_wrt (<) (map ev_id (tbl_events d)) \<and> (\<forall>e\<in>set (tbl_events d). ev_id e \<le> seq_events d)"

definition calm_step :: "(JobStatus \<Rightarrow> JobStatus \<Rightarrow> bool) \<Rightarrow> db \<Rightarrow> db \<Rightarrow> bool" where
  "calm_step R d d' \<longleftrightarrow>
     list_all2 (calm_row R) (tbl_jobs d) (tbl_jobs d') \<and>
     map attempt_key (tbl_attempts d') = map attempt_key (tbl_attempts d) \<and>
     map assignment_key (tbl_assignments d') = map assignment_key (tbl_assignments d) \<and>
     (event_log_ok d \<longrightarrow> event_log_ok d')"

lemma calm_row_refl: "R (jr_status r) (jr_status r) \<Longrightarrow> calm_row R r r"
  by (simp add: calm_row_def)

lemma calm_row_trans:
  "calm_row R a b \<Longrightarrow> calm_row S b c \<Longrightarrow> (\<And>x y z. R x y \<Longrightarrow> S y z \<Longrightarrow> T x z) \<Longrightarrow> calm_row T a c"
  unfolding calm_row_def by (elim conjE) (intro conjI; simp)

lemma calm_step_trans:
  assumes "calm_step R a b" "calm_step S b c" and tr: "\<And>x y z. R x y \<Longrightarrow> S y z \<Longrightarrow> T x z"
  shows "calm_step T a c"
proof -
  have rows: "calm_row R x y \<Longrightarrow> calm_row S y z \<Longrightarrow> calm_row T x z" for x y z
    by (rule calm_row_trans [OF _ _ tr])
  from assms(1,2) have "list_all2 (calm_row R) (tbl_jobs a) (tbl_jobs b)"
    "list_all2 (calm_row S) (tbl_jobs b) (tbl_jobs c)" by (simp_all add: calm_step_def)
  from list_all2_trans [OF rows this] have "list_all2 (calm_row T) (tbl_jobs a) (tbl_jobs c)" .
  with assms(1,2) show ?thesis unfolding calm_step_def by argo
qed

lemma calm_step_mono: "calm_step R a b \<Longrightarrow> (\<And>x y. R x y \<Longrightarrow> S x y) \<Longrightarrow> calm_step S a b"
  unfolding calm_step_def calm_row_def by (auto elim!: list_all2_mono)

lemma calm_rows_same: "(\<And>x. R x x) \<Longrightarrow> list_all2 (calm_row R) rows rows"
  by (simp add: list_all2_same calm_row_refl)

lemma calm_rows_update:
  "(\<And>x. R x x) \<Longrightarrow> (\<And>r. r \<in> set rows \<Longrightarrow> P r \<Longrightarrow> calm_row R r (f r)) \<Longrightarrow>
   list_all2 (calm_row R) rows (update_where P f rows)"
  by (induction rows) (auto simp: calm_row_refl)

lemma calm_quiet:
  "(\<And>x. R x x) \<Longrightarrow> tbl_jobs d' = tbl_jobs d \<Longrightarrow>
   map attempt_key (tbl_attempts d') = map attempt_key (tbl_attempts d) \<Longrightarrow>
   map assignment_key (tbl_assignments d') = map assignment_key (tbl_assignments d) \<Longrightarrow>
   tbl_events d' = tbl_events d \<Longrightarrow> seq_events d' = seq_events d \<Longrightarrow> calm_step R d d'"
  by (simp add: calm_step_def event_log_ok_def calm_rows_same)

lemma calm_refl: "(\<And>x. R x x) \<Longrightarrow> calm_step R d d"
  by (rule calm_quiet) auto

section \<open>The operations that are calm\<close>

lemma keys_update:
  "(\<And>r. key (f r) = key r) \<Longrightarrow> map key (update_where P f rows) = map key rows"
  by (rule map_key_update_where)

lemma key_updates [simp]:
  "attempt_key (status_attempt_row rp s f t) = attempt_key t"
  "attempt_key (t\<lparr>ar_outputs := outs\<rparr>) = attempt_key t"
  "attempt_key (t\<lparr>ar_status := st\<rparr>) = attempt_key t"
  "attempt_key (t\<lparr>ar_container_id := c\<rparr>) = attempt_key t"
  "assignment_key (a\<lparr>as_delivered_at := x\<rparr>) = assignment_key a"
  "assignment_key (a\<lparr>as_accepted_at := x\<rparr>) = assignment_key a"
  by (simp_all add: attempt_key_def assignment_key_def status_attempt_row_def)

lemma event_log_push:
  "ev_id e = seq_events d + 1 \<Longrightarrow> event_log_ok d \<Longrightarrow> event_log_ok (push_event e d)"
  by (fastforce simp: event_log_ok_def push_event_def sorted_wrt_append)

lemma calm_push:
  "(\<And>x. R x x) \<Longrightarrow> ev_id e = seq_events d + 1 \<Longrightarrow> calm_step R d (push_event e d)"
  using event_log_push [of e d]
  by (simp add: calm_step_def calm_rows_same) (simp add: push_event_def calm_rows_same)

lemma AppendEvent_calm: "(\<And>x. R x x) \<Longrightarrow> calm_step R d (snd (AppendEvent e d))"
  by (auto simp: AppendEvent_def intro!: calm_push calm_refl)

lemma append_server_event_calm:
  "(\<And>x. R x x) \<Longrightarrow> calm_step R d (snd (append_server_event_loop k i ty payload now d))"
  by (induction k) (auto simp: Let_def next_event_row_def intro!: calm_push calm_refl split: option.splits)

lemma AppendServerEvent_calm: "(\<And>x. R x x) \<Longrightarrow> calm_step R d (snd (AppendServerEvent i ty payload now d))"
  unfolding AppendServerEvent_def by (rule append_server_event_calm)

lemma node_tables_calm:
  "(\<And>x. R x x) \<Longrightarrow> tbl_jobs d' = tbl_jobs d \<Longrightarrow> tbl_attempts d' = tbl_attempts d \<Longrightarrow>
   tbl_assignments d' = tbl_assignments d \<Longrightarrow> tbl_events d' = tbl_events d \<Longrightarrow>
   seq_events d' = seq_events d \<Longrightarrow> calm_step R d d'"
  by (rule calm_quiet) auto

lemma replace_inventory_tables:
  "replace_inventory node d = Some d' \<Longrightarrow>
   tbl_jobs d' = tbl_jobs d \<and> tbl_attempts d' = tbl_attempts d \<and> tbl_assignments d' = tbl_assignments d \<and>
   tbl_events d' = tbl_events d \<and> seq_events d' = seq_events d \<and> tbl_nodes d' = tbl_nodes d"
  by (auto simp: replace_inventory_def split: if_splits)

lemma node_operations_calm:
  assumes "\<And>x. R x x"
  shows "calm_step R d (snd (UpsertNode node h now d))" "calm_step R d (snd (Heartbeat node d))"
    "calm_step R d (snd (UpdateNodeMetadata n name labels d))" "calm_step R d (snd (SetNodeStatus n st d))"
    "calm_step R d (snd (RotateNodeCredential n h now d))" "calm_step R d (snd (DeleteNode n now d))"
  by (rule node_tables_calm [OF assms];
      auto simp: UpsertNode_def Heartbeat_def UpdateNodeMetadata_def SetNodeStatus_def update_live_node_def
        RotateNodeCredential_def DeleteNode_def Let_def
      split: option.splits if_splits dest!: replace_inventory_tables)+

lemma checkpoint_operations_calm:
  assumes "\<And>x. R x x"
  shows "calm_step R d (snd (CreateCheckpointSync s d))" "calm_step R d (snd (ConfirmCheckpointSync c files now d))"
  by (rule node_tables_calm [OF assms]; simp add: CreateCheckpointSync_def ConfirmCheckpointSync_def)+

lemma assignment_operations_calm:
  assumes "\<And>x. R x x"
  shows "calm_step R d (snd (AssignmentForNode n now d))" "calm_step R d (snd (AcceptAssignment n a c now d))"
    "calm_step R d (snd (SetAttemptOutputs i a outs d))"
  by (rule calm_quiet [OF assms];
      simp add: AssignmentForNode_def AcceptAssignment_def SetAttemptOutputs_def Let_def
      split: list.split option.split)+

lemma calm_jobs_update:
  assumes "\<And>x. R x x" "\<And>r. r \<in> set (tbl_jobs d) \<Longrightarrow> P r \<Longrightarrow> calm_row R r (f r)"
    and "tbl_jobs d' = update_where P f (tbl_jobs d)"
    and "map attempt_key (tbl_attempts d') = map attempt_key (tbl_attempts d)"
    and "map assignment_key (tbl_assignments d') = map assignment_key (tbl_assignments d)"
    and "tbl_events d' = tbl_events d" "seq_events d' = seq_events d"
  shows "calm_step R d d'"
  using calm_rows_update [OF assms(1,2)] assms(3-) by (simp add: calm_step_def event_log_ok_def)

lemma SetQueueReason_calm: "(\<And>x. R x x) \<Longrightarrow> calm_step R d (snd (SetQueueReason i c m d))"
  by (rule calm_jobs_update) (auto simp: SetQueueReason_def calm_row_def)

lemma MarkDeleted_calm:
  assumes "job_row i d = Some r" "jr_status r = JobDeleting \<or> jr_status r = JobDeleted"
    "distinct (map jr_id (tbl_jobs d))"
  shows "calm_step lifecycle_edge d (snd (MarkDeleted i now d))"
proof (rule calm_jobs_update)
  fix q assume "q \<in> set (tbl_jobs d)" "jr_id q = i"
  with assms job_row_in have "q = r" by fastforce
  with assms(2) show "calm_row lifecycle_edge q (q\<lparr>jr_status := JobDeleted, jr_desired_status := JobDeleted,
    jr_observed_status := JobDeleted, jr_spec := empty_spec, jr_image_digest := '''', jr_failure_reason := '''',
    jr_deleted_at := Some (formatTime now), jr_version := jr_version q + 1\<rparr>)"
    by (auto simp: calm_row_def lifecycle_edge_def CanTransition_def)
qed (simp_all add: MarkDeleted_def)

section \<open>Status operations\<close>

definition queued_free :: "db \<Rightarrow> bool" where
  "queued_free d \<longleftrightarrow> (\<forall>r\<in>set (tbl_jobs d). jr_status r = JobQueued \<longrightarrow> jr_attempt_id r = None)"

definition known_status :: "JobStatus \<Rightarrow> bool" where
  "known_status st = (case st of JobStatusOther _ \<Rightarrow> False | _ \<Rightarrow> True)"

definition jobs_ok :: "db \<Rightarrow> bool" where
  "jobs_ok d \<longleftrightarrow> distinct (map jr_id (tbl_jobs d)) \<and> queued_free d \<and>
     (\<forall>r\<in>set (tbl_jobs d). known_status (jr_status r))"

lemma transition_active:
  "CanTransition a b \<Longrightarrow> a \<noteq> JobQueued \<Longrightarrow>
   (IsActive b \<longrightarrow> IsActive a) \<and> (b = JobQueued \<longrightarrow> a = JobQueued)"
  by (cases a; auto simp: CanTransition_def split: if_splits)

lemma lifecycle_transition: "CanTransition a b \<Longrightarrow> lifecycle_edge a b"
  by (simp add: lifecycle_edge_def)

lemma status_transaction_calm:
  assumes "status_transaction job rp now d = Some (res, d')"
    and "CanTransition (job_Status job) (rp_status rp)" "queued_free d"
  shows "calm_step CanTransition d d'"
proof -
  have refl: "CanTransition x x" for x by (simp add: CanTransition_def)
  let ?match = "\<lambda>r. jr_id r = job_ID job \<and> jr_status r = job_Status job \<and>
     jr_attempt_id r = Some (job_AttemptID job)"
  have row: "calm_row CanTransition r (status_job_row rp s f r)"
    if "r \<in> set (tbl_jobs d)" "?match r" for r s f
    using that assms(2,3) transition_active [OF assms(2)]
    by (auto simp: calm_row_def queued_free_def status_job_row_def)
  show ?thesis
  proof (cases res)
    case (Inl e)
    with assms(1) have "d' = d" by (auto simp: status_transaction_def Let_def split: if_splits)
    then show ?thesis by (simp add: calm_refl refl)
  next
    case (Inr u)
    with assms(1) obtain s f where
      "tbl_jobs d' = update_where ?match (status_job_row rp s f) (tbl_jobs d)"
      "map attempt_key (tbl_attempts d') = map attempt_key (tbl_attempts d)"
      "tbl_assignments d' = tbl_assignments d" "tbl_events d' = tbl_events d" "seq_events d' = seq_events d"
      by (auto simp: status_transaction_def Let_def split: if_splits)
    with row refl show ?thesis by (intro calm_jobs_update [where P = ?match]) auto
  qed
qed

lemma update_status_loop_calm:
  "queued_free d \<Longrightarrow> calm_step CanTransition d (snd (update_status_loop k no_env i rp now d))"
proof (induction k)
  case 0
  then show ?case by (simp add: calm_refl CanTransition_def)
next
  case (Suc k)
  have self: "calm_step CanTransition d d" by (simp add: calm_refl CanTransition_def)
  show ?case
  proof (cases "Job i d")
    case (Inr job)
    with Suc self show ?thesis
      by (auto simp: no_env_def split: option.splits dest: status_transaction_calm)
  qed (simp add: self)
qed

lemma UpdateJobStatus_calm:
  "queued_free d \<Longrightarrow> calm_step lifecycle_edge d (snd (UpdateJobStatus no_env i rp now d))"
  unfolding UpdateJobStatus_def
  by (rule calm_step_mono [OF update_status_loop_calm]) (auto intro: lifecycle_transition)

lemma calm_queued_free: "calm_step R d d' \<Longrightarrow> queued_free d \<Longrightarrow> queued_free d'"
  by (fastforce simp: calm_step_def queued_free_def calm_row_def list_all2_conv_all_nth in_set_conv_nth)

lemma calm_then_same:
  "calm_step R a b \<Longrightarrow> calm_step (=) b c \<Longrightarrow> calm_step R a c"
  by (erule (1) calm_step_trans) simp

lemma agentEvent_calm:
  assumes "queued_free d"
  shows "calm_step lifecycle_edge d (snd (agentEvent no_env n i body now d))"
proof (cases "Job i d")
  case (Inl e)
  then show ?thesis by (simp add: agentEvent_def calm_refl)
next
  case (Inr job)
  let ?e = "\<lparr>event_ID = 0, event_JobID = job_ID job, event_AttemptID = ag_attemptID body,
                event_Sequence = ag_sequence body, event_Type = ag_type body,
                event_Status = rp_status (ag_report body), event_Payload = ag_payload body,
                event_CreatedAt = now\<rparr>"
  obtain r1 d1 where e1: "AppendEvent ?e d = (r1, d1)" by fastforce
  obtain r2 d2 where e2: "UpdateJobStatus no_env (job_ID job) (ag_report body) now d1 = (r2, d2)" by fastforce
  have c1: "calm_step (=) d d1" using AppendEvent_calm [of "(=)" d ?e] e1 by simp
  from calm_queued_free [OF this assms] have "queued_free d1" .
  from UpdateJobStatus_calm [OF this] e2 have c2: "calm_step lifecycle_edge d1 d2" by (metis snd_conv)
  have c12: "calm_step lifecycle_edge d d2" by (rule calm_step_trans [OF c1 c2]) simp
  have c3: "calm_step lifecycle_edge d (snd (SetAttemptOutputs j a outs d2))" for j a outs
    by (rule calm_then_same [OF c12]) (simp add: assignment_operations_calm)
  have c1': "calm_step lifecycle_edge d d1" by (rule calm_step_mono [OF c1]) simp
  show ?thesis
    using Inr e1 e2 c1' c12 c3 [of "job_ID job" "ag_attemptID body" "ag_outputs body"]
    by (auto simp: agentEvent_def calm_refl split: sum.splits prod.splits)
qed

lemma Job_row_unique:
  assumes "Job i d = Inr job" "distinct (map jr_id (tbl_jobs d))" "r \<in> set (tbl_jobs d)" "jr_id r = i"
  shows "jr_status r = job_Status job"
  using assms job_row_in [OF assms(2,3)] by (auto simp: Job_Inr)

lemma RequestStop_calm:
  assumes "jobs_ok d"
  shows "calm_step lifecycle_edge d (snd (RequestStop (no_env ()) i now d))"
proof (cases "Job i d")
  case (Inr job)
  note st = Job_row_unique [OF Inr]
  consider (q) "job_Status job = JobQueued" | (s) "job_Status job \<noteq> JobQueued" "stoppable (job_Status job)"
    | (n) "job_Status job \<noteq> JobQueued" "\<not> stoppable (job_Status job)" by blast
  then show ?thesis
  proof cases
    case q
    with Inr show ?thesis
      by (intro calm_jobs_update [where P = "\<lambda>r. jr_id r = i \<and> jr_status r = JobQueued"])
        (auto simp: RequestStop_def no_env_def calm_row_def lifecycle_edge_def CanTransition_def)
  next
    case s
    have row: "calm_row lifecycle_edge r (r\<lparr>jr_status := JobStopping, jr_desired_status := JobCancelled,
                          jr_version := jr_version r + 1\<rparr>)"
      if "r \<in> set (tbl_jobs d)" "jr_id r = i" for r
      using that st [of r] s assms lifecycle_stop
      by (auto simp: calm_row_def jobs_ok_def stoppable_def)
    from Inr s row show ?thesis
      by (intro calm_jobs_update [where P = "\<lambda>r. jr_id r = i"]) (auto simp: RequestStop_def no_env_def Let_def)
  qed (use Inr in \<open>simp add: RequestStop_def calm_refl\<close>)
qed (simp add: RequestStop_def calm_refl)

lemma MarkDeleting_calm:
  assumes "jobs_ok d"
  shows "calm_step lifecycle_edge d (snd (MarkDeleting (no_env ()) i d))"
proof (cases "Job i d")
  case (Inr job)
  have row: "calm_row lifecycle_edge r (r\<lparr>jr_status := JobDeleting, jr_desired_status := JobDeleting,
                      jr_version := jr_version r + 1\<rparr>)"
    if "r \<in> set (tbl_jobs d)" "jr_id r = i" "\<not> IsActive (job_Status job)" "job_Status job \<noteq> JobDeleted" for r
  proof -
    from assms that have "jr_status r = job_Status job" "known_status (jr_status r)"
      using Job_row_unique [OF Inr _ that(1,2)] by (auto simp: jobs_ok_def)
    with that(3,4) show ?thesis
      by (cases "job_Status job")
        (auto simp: calm_row_def known_status_def lifecycle_edge_def CanTransition_def)
  qed
  from Inr row show ?thesis
    by (cases "IsActive (job_Status job) \<or> job_Status job = JobDeleted \<or> job_Status job = JobDeleting")
      (auto simp: MarkDeleting_def no_env_def Let_def calm_refl
        intro!: calm_jobs_update [where P = "\<lambda>r. jr_id r = i"])
qed (simp add: MarkDeleting_def calm_refl)

section \<open>The sweep over silent nodes\<close>

definition lost_or_same :: "JobStatus \<Rightarrow> JobStatus \<Rightarrow> bool" where
  "lost_or_same a b \<longleftrightarrow> a = b \<or> losable a \<and> b = JobLost"

lemma lost_or_same_simps [simp, intro]: "lost_or_same a a" "losable a \<Longrightarrow> lost_or_same a JobLost"
  by (simp_all add: lost_or_same_def)

lemma lost_trans: "lost_or_same a b \<Longrightarrow> lost_or_same b c \<Longrightarrow> lost_or_same a c"
  by (auto simp: lost_or_same_def losable_def)

lemma lost_lifecycle: "lost_or_same a b \<Longrightarrow> lifecycle_edge a b"
  by (auto simp: lost_or_same_def lifecycle_lost)

lemma mark_job_lost_calm: "calm_step lost_or_same d (snd (mark_job_lost now i d))"
proof -
  define d1 where "d1 = d\<lparr>tbl_jobs := update_where (\<lambda>r. jr_id r = i \<and> losable (jr_status r))
            (\<lambda>r. r\<lparr>jr_status := JobLost, jr_observed_status := JobLost, jr_version := jr_version r + 1\<rparr>)
            (tbl_jobs d)\<rparr>"
  define current where "current = (case job_row i d1 of None \<Rightarrow> None | Some j \<Rightarrow> jr_attempt_id j)"
  define d2 where "d2 = d1\<lparr>tbl_attempts := update_where (\<lambda>a. current = Some (ar_id a))
            (\<lambda>a. a\<lparr>ar_status := JobLost\<rparr>) (tbl_attempts d1)\<rparr>"
  have "calm_step lost_or_same d d2"
    by (rule calm_jobs_update [where P = "\<lambda>r. jr_id r = i \<and> losable (jr_status r)"])
      (auto simp: d2_def d1_def calm_row_def losable_def)
  moreover have "snd (mark_job_lost now i d) = snd (AppendServerEvent i ''lost'' [] now d2)"
    by (simp add: mark_job_lost_def Let_def d2_def d1_def current_def)
  moreover have "calm_step (=) d2 (snd (AppendServerEvent i ''lost'' [] now d2))"
    by (rule AppendServerEvent_calm) simp
  ultimately show ?thesis by (simp only: calm_then_same)
qed

lemma mark_jobs_lost_calm: "calm_step lost_or_same d (snd (mark_jobs_lost now is d))"
proof (induction "is" arbitrary: d)
  case Nil
  then show ?case by (simp add: calm_refl)
next
  case (Cons i "is")
  obtain r d1 where m: "mark_job_lost now i d = (r, d1)" by fastforce
  with mark_job_lost_calm [of d now i] have c: "calm_step lost_or_same d d1" by simp
  from calm_step_trans [OF c Cons.IH lost_trans]
  have "calm_step lost_or_same d (snd (mark_jobs_lost now is d1))" .
  with m c show ?case by (cases r) simp_all
qed

lemma MarkStaleNodes_calm: "calm_step lost_or_same d (snd (MarkStaleNodes ob lb now d))"
proof -
  define d1 where "d1 = d\<lparr>tbl_nodes := update_where
            (\<lambda>r. (nr_status r = NodeOnline \<or> nr_status r = NodeDegraded) \<and> stale_node (formatTime ob) r)
            (\<lambda>r. r\<lparr>nr_status := NodeOffline\<rparr>) (tbl_nodes d)\<rparr>"
  have "calm_step (=) d d1" by (rule node_tables_calm) (simp_all add: d1_def)
  from calm_step_trans [OF this mark_jobs_lost_calm, of lost_or_same now] show ?thesis
    unfolding MarkStaleNodes_def Let_def d1_def by simp
qed

section \<open>Classification of the steps\<close>

text \<open>Every step is a creation, a scheduling pass, a rerun, or calm.\<close>

lemma queued_free_ok: "jobs_ok d \<Longrightarrow> queued_free d"
  by (simp add: jobs_ok_def)

lemma store_step_cases:
  assumes "store_step d d'" "jobs_ok d"
  obtains (create) job where "job_Status job = JobQueued" "job_tables d' = job_tables (snd (CreateJob job d))"
    | (schedule) now tickets where "d' = snd (Schedule now tickets d)"
    | (rerun) i where "d' = snd (RerunJob i d)"
    | (calm) "calm_step lifecycle_edge d d'"
  using assms(1)
proof cases
  case (create_managed job b g now)
  have "job_tables d' = job_tables (snd (CreateJob job d)) \<or> d' = d"
    unfolding create_managed(1)
    by (auto simp: CreateJobWithManagedArtifact_def touch_artifact_def job_tables_def CreateJob_def)
  then show ?thesis
  proof
    assume "job_tables d' = job_tables (snd (CreateJob job d))"
    with create_managed(2) show ?thesis by (rule create)
  next
    assume "d' = d"
    then show ?thesis by (simp add: calm calm_refl)
  qed
next
  case elsewhere
  then show ?thesis by (auto simp: job_tables_def intro!: calm node_tables_calm)
next
  case (deleted i r now)
  with assms(2) calm show ?thesis by (auto simp: jobs_ok_def intro: MarkDeleted_calm)
next
  case (stale ob lb now)
  with calm calm_step_mono [OF MarkStaleNodes_calm lost_lifecycle] show ?thesis by simp
qed (use assms(2) queued_free_ok [OF assms(2)] in \<open>auto intro: that SetQueueReason_calm UpdateJobStatus_calm agentEvent_calm
      RequestStop_calm MarkDeleting_calm assignment_operations_calm AppendEvent_calm AppendServerEvent_calm
      checkpoint_operations_calm node_operations_calm\<close>)

end
