(* ===== verification/StoreInvariant.thy ===== *)
theory StoreInvariant
  imports StoreSteps
begin

text \<open>
  The invariant of the job store over every committed operation: the rows of jobs, attempts and
  assignments agree, attempts are numbered without gaps, no two active jobs hold the same GPU of a
  node, and the event log has increasing ids. The store is then an instance of \<open>status_machine\<close>.
\<close>

section \<open>The invariant\<close>

definition linked :: "AttemptRow \<Rightarrow> AssignmentRow \<Rightarrow> bool" where
  "linked t s \<longleftrightarrow> ar_id t = as_attempt_id s \<and> ar_job_id t = as_job_id s \<and> ar_node_id t = as_node_id s \<and>
     ar_assignment_id t = as_id s \<and> ar_gpu_uuids t = as_gpu_uuids s"

definition job_attempt_ok :: "db \<Rightarrow> JobRow \<Rightarrow> bool" where
  "job_attempt_ok d r =
     (case jr_attempt_id r of
        None \<Rightarrow> \<not> IsActive (jr_status r) \<and> jr_assigned_node_id r = None
      | Some a \<Rightarrow> \<exists>t\<in>set (tbl_attempts d). \<exists>s\<in>set (tbl_assignments d).
          linked t s \<and> ar_id t = a \<and> ar_job_id t = jr_id r \<and> jr_assigned_node_id r = Some (ar_node_id t))"

definition attempt_numbers :: "string \<Rightarrow> AttemptRow list \<Rightarrow> int list" where
  "attempt_numbers i ts = map ar_attempt_number (filter (\<lambda>t. ar_job_id t = i) ts)"

definition attempts_ok :: "db \<Rightarrow> bool" where
  "attempts_ok d \<longleftrightarrow> distinct (map ar_id (tbl_attempts d)) \<and>
     (\<forall>s\<in>set (tbl_assignments d). \<exists>t\<in>set (tbl_attempts d). linked t s) \<and>
     (\<forall>r\<in>set (tbl_jobs d). job_attempt_ok d r) \<and>
     (\<forall>i. attempt_numbers i (tbl_attempts d) = [1..int (length (attempt_numbers i (tbl_attempts d)))])"

text \<open>The assignment of the job's current attempt gives it the GPU \<open>u\<close> of node \<open>n\<close>.\<close>

definition holds_gpu :: "db \<Rightarrow> JobRow \<Rightarrow> string \<Rightarrow> string \<Rightarrow> bool" where
  "holds_gpu d r n u \<longleftrightarrow>
     (\<exists>s\<in>set (tbl_assignments d). as_job_id s = jr_id r \<and> jr_attempt_id r = Some (as_attempt_id s) \<and>
        as_node_id s = n \<and> u \<in> set (as_gpu_uuids s))"

definition gpu_exclusive :: "db \<Rightarrow> bool" where
  "gpu_exclusive d \<longleftrightarrow>
     (\<forall>r\<in>set (tbl_jobs d). \<forall>q\<in>set (tbl_jobs d). \<forall>n u.
        active_row r \<and> active_row q \<and> holds_gpu d r n u \<and> holds_gpu d q n u \<longrightarrow> jr_id r = jr_id q)"

definition store_inv :: "db \<Rightarrow> bool" where
  "store_inv d \<longleftrightarrow> jobs_ok d \<and> attempts_ok d \<and> gpu_exclusive d \<and> event_log_ok d"

section \<open>Rows with the same keys\<close>

lemma same_keys: "map f ys = map f xs \<Longrightarrow> x \<in> set xs \<Longrightarrow> \<exists>y\<in>set ys. f y = f x"
  by (metis imageE image_eqI list.set_map)

lemma linked_keys:
  "attempt_key t' = attempt_key t \<Longrightarrow> assignment_key s' = assignment_key s \<Longrightarrow> linked t' s' = linked t s"
  by (simp add: linked_def attempt_key_def assignment_key_def)

lemma attempt_numbers_keys:
  "attempt_numbers i ts = map (\<lambda>(a, j, n, s, g, k). k) (filter (\<lambda>(a, j, n, s, g, k). j = i) (map attempt_key ts))"
  by (induction ts) (auto simp: attempt_numbers_def attempt_key_def)

lemma holds_gpu_keys:
  "holds_gpu d r n u \<longleftrightarrow>
   (\<exists>(i, j, a, m, us)\<in>set (map assignment_key (tbl_assignments d)).
      j = jr_id r \<and> jr_attempt_id r = Some a \<and> m = n \<and> u \<in> set us)"
  by (auto simp: holds_gpu_def assignment_key_def)

section \<open>Calm steps keep the invariant\<close>

lemma calm_ids: "calm_step R d d' \<Longrightarrow> map jr_id (tbl_jobs d') = map jr_id (tbl_jobs d)"
  by (auto simp: calm_step_def calm_row_def list_all2_conv_all_nth intro!: nth_equalityI)

lemma calm_origin:
  "calm_step R d d' \<Longrightarrow> r' \<in> set (tbl_jobs d') \<Longrightarrow> \<exists>r\<in>set (tbl_jobs d). calm_row R r r'"
  by (fastforce simp: calm_step_def list_all2_conv_all_nth in_set_conv_nth)

lemma calm_image:
  "calm_step R d d' \<Longrightarrow> r \<in> set (tbl_jobs d) \<Longrightarrow> \<exists>r'\<in>set (tbl_jobs d'). calm_row R r r'"
  by (fastforce simp: calm_step_def list_all2_conv_all_nth in_set_conv_nth)

lemma known_lifecycle: "lifecycle_edge a b \<Longrightarrow> known_status a \<Longrightarrow> known_status b"
  by (cases a) (auto simp: lifecycle_edge_def CanTransition_def known_status_def split: if_splits)

lemma calm_jobs_ok: "calm_step lifecycle_edge d d' \<Longrightarrow> jobs_ok d \<Longrightarrow> jobs_ok d'"
  using calm_ids [of lifecycle_edge d d'] calm_queued_free [of lifecycle_edge d d']
  by (auto simp: jobs_ok_def calm_row_def dest!: calm_origin intro: known_lifecycle)

lemma calm_holds:
  "calm_step R d d' \<Longrightarrow> calm_row R r r' \<Longrightarrow> holds_gpu d' r' n u = holds_gpu d r n u"
  by (simp add: holds_gpu_keys calm_step_def calm_row_def)

lemma calm_job_attempt_ok:
  assumes "calm_step R d d'" "calm_row R r r'" "job_attempt_ok d r"
  shows "job_attempt_ok d' r'"
proof (cases "jr_attempt_id r")
  case None
  with assms show ?thesis by (auto simp: job_attempt_ok_def calm_row_def)
next
  case (Some a)
  with assms(3) obtain t s where ts: "t \<in> set (tbl_attempts d)" "s \<in> set (tbl_assignments d)"
    "linked t s" "ar_id t = a" "ar_job_id t = jr_id r" "jr_assigned_node_id r = Some (ar_node_id t)"
    by (auto simp: job_attempt_ok_def)
  from assms(1) have "map attempt_key (tbl_attempts d') = map attempt_key (tbl_attempts d)"
    "map assignment_key (tbl_assignments d') = map assignment_key (tbl_assignments d)"
    by (simp_all add: calm_step_def)
  with ts obtain t' s' where ts': "t' \<in> set (tbl_attempts d')" "attempt_key t' = attempt_key t"
    "s' \<in> set (tbl_assignments d')" "assignment_key s' = assignment_key s"
    by (meson same_keys)
  with linked_keys ts have "linked t' s'" by blast
  with ts ts' assms(2) Some show ?thesis
    by (auto simp: job_attempt_ok_def calm_row_def attempt_key_def intro!: bexI [of _ t'] bexI [of _ s'])
qed

lemma calm_attempts_ok:
  assumes "calm_step R d d'" "attempts_ok d"
  shows "attempts_ok d'"
proof -
  from assms(1) have k: "map attempt_key (tbl_attempts d') = map attempt_key (tbl_attempts d)"
    "map assignment_key (tbl_assignments d') = map assignment_key (tbl_assignments d)"
    by (simp_all add: calm_step_def)
  have "map ar_id ts = map fst (map attempt_key ts)" for ts by (simp add: attempt_key_def)
  with k(1) have ids: "map ar_id (tbl_attempts d') = map ar_id (tbl_attempts d)" by metis
  have links: "\<exists>t\<in>set (tbl_attempts d'). linked t s'" if s': "s' \<in> set (tbl_assignments d')" for s'
  proof -
    from same_keys [OF k(2) [symmetric] s'] obtain s where
      "s \<in> set (tbl_assignments d)" "assignment_key s = assignment_key s'" by blast
    moreover with assms(2) obtain t where "t \<in> set (tbl_attempts d)" "linked t s"
      by (auto simp: attempts_ok_def)
    ultimately show ?thesis using same_keys [OF k(1)] linked_keys by metis
  qed
  have jobs: "job_attempt_ok d' r'" if "r' \<in> set (tbl_jobs d')" for r'
    using calm_origin [OF assms(1) that] calm_job_attempt_ok [OF assms(1)] assms(2)
    by (auto simp: attempts_ok_def)
  have "attempt_numbers i (tbl_attempts d') = attempt_numbers i (tbl_attempts d)" for i
    using k(1) by (simp only: attempt_numbers_keys)
  with ids links jobs assms(2) show ?thesis by (simp add: attempts_ok_def)
qed

lemma calm_gpu_exclusive:
  assumes "calm_step R d d'" "gpu_exclusive d"
  shows "gpu_exclusive d'"
  unfolding gpu_exclusive_def
proof (intro ballI allI impI)
  fix r' q' n u
  assume r': "r' \<in> set (tbl_jobs d')" and q': "q' \<in> set (tbl_jobs d')"
    and h: "active_row r' \<and> active_row q' \<and> holds_gpu d' r' n u \<and> holds_gpu d' q' n u"
  from calm_origin [OF assms(1) r'] calm_origin [OF assms(1) q'] obtain r q where
    rq: "r \<in> set (tbl_jobs d)" "calm_row R r r'" "q \<in> set (tbl_jobs d)" "calm_row R q q'" by blast
  with h have "active_row r" "active_row q" by (auto simp: calm_row_def active_row_def)
  moreover from rq h calm_holds [OF assms(1)] have "holds_gpu d r n u" "holds_gpu d q n u" by blast+
  ultimately have "jr_id r = jr_id q" using assms(2) rq by (auto simp: gpu_exclusive_def)
  with rq show "jr_id r' = jr_id q'" by (simp add: calm_row_def)
qed

lemma calm_inv: "calm_step lifecycle_edge d d' \<Longrightarrow> store_inv d \<Longrightarrow> store_inv d'"
  using calm_jobs_ok calm_attempts_ok calm_gpu_exclusive by (auto simp: store_inv_def calm_step_def)

section \<open>Creation and rerun\<close>

lemma holds_gpu_same:
  "tbl_assignments d' = tbl_assignments d \<Longrightarrow> holds_gpu d' r n u = holds_gpu d r n u"
  by (simp add: holds_gpu_def)

lemma job_attempt_ok_same:
  "tbl_assignments d' = tbl_assignments d \<Longrightarrow> tbl_attempts d' = tbl_attempts d \<Longrightarrow>
   job_attempt_ok d' r = job_attempt_ok d r"
  by (simp add: job_attempt_ok_def split: option.split)

lemma CreateJob_tables:
  assumes "job_Status job = JobQueued"
  obtains "snd (CreateJob job d) = d"
  | r where "tbl_jobs (snd (CreateJob job d)) = tbl_jobs d @ [r]" "jr_status r = JobQueued"
      "jr_attempt_id r = None" "jr_assigned_node_id r = None" "jr_id r \<notin> set (map jr_id (tbl_jobs d))"
      "tbl_attempts (snd (CreateJob job d)) = tbl_attempts d"
      "tbl_assignments (snd (CreateJob job d)) = tbl_assignments d"
      "tbl_events (snd (CreateJob job d)) = tbl_events d" "seq_events (snd (CreateJob job d)) = seq_events d"
proof (cases "has_row (\<lambda>r. jr_id r = job_ID job) (tbl_jobs d)")
  case True
  then show ?thesis by (intro that(1)) (simp add: CreateJob_def)
next
  case False
  then show ?thesis using assms by (intro that(2)) (auto simp: CreateJob_def has_row_iff)
qed

lemma CreateJob_inv:
  assumes "job_Status job = JobQueued" "store_inv d"
  shows "store_inv (snd (CreateJob job d))"
  using assms(1)
proof (cases rule: CreateJob_tables [of job d])
  case 1
  with assms(2) show ?thesis by simp
next
  case (2 r)
  let ?d = "snd (CreateJob job d)"
  have ok: "jobs_ok ?d"
    using 2 assms(2) by (auto simp: store_inv_def jobs_ok_def queued_free_def known_status_def)
  have "job_attempt_ok ?d r" using 2 by (simp add: job_attempt_ok_def)
  then have at: "attempts_ok ?d"
    using 2 assms(2) by (simp add: store_inv_def attempts_ok_def job_attempt_ok_same [of ?d d])
  have ex: "gpu_exclusive ?d"
    using 2 assms(2)
    by (auto simp: store_inv_def gpu_exclusive_def holds_gpu_same [of ?d d] active_row_def)
  have "event_log_ok ?d" using 2 assms(2) by (simp add: store_inv_def event_log_ok_def)
  with ok at ex show ?thesis by (simp add: store_inv_def)
qed

lemma RerunJob_tables:
  "tbl_jobs (snd (RerunJob i d)) = tbl_jobs d \<and> snd (RerunJob i d) = d \<or>
   tbl_jobs (snd (RerunJob i d)) =
     update_where (\<lambda>r. jr_id r = i \<and> is_finished (jr_status r)) rerun_job_row (tbl_jobs d)"
  "tbl_attempts (snd (RerunJob i d)) = tbl_attempts d"
  "tbl_assignments (snd (RerunJob i d)) = tbl_assignments d"
  "tbl_events (snd (RerunJob i d)) = tbl_events d" "seq_events (snd (RerunJob i d)) = seq_events d"
  by (auto simp: RerunJob_def Let_def)

lemma rerun_row [simp]:
  "jr_status (rerun_job_row r) = JobQueued" "jr_attempt_id (rerun_job_row r) = None"
  "jr_assigned_node_id (rerun_job_row r) = None"
  by (simp_all add: rerun_job_row_def)

lemma RerunJob_inv:
  assumes "store_inv d"
  shows "store_inv (snd (RerunJob i d))"
proof -
  let ?d = "snd (RerunJob i d)"
  consider "?d = d" | "tbl_jobs ?d = update_where (\<lambda>r. jr_id r = i \<and> is_finished (jr_status r)) rerun_job_row (tbl_jobs d)"
    using RerunJob_tables(1) [of i d] by blast
  then show ?thesis
  proof cases
    case 2
    note t = 2 RerunJob_tables(2-5) [of i d]
    have ok: "jobs_ok ?d"
      using t assms by (auto simp: store_inv_def jobs_ok_def queued_free_def set_update_where known_status_def)
    have "job_attempt_ok ?d (rerun_job_row r)" for r by (simp add: job_attempt_ok_def)
    then have at: "attempts_ok ?d"
      using t assms by (auto simp: store_inv_def attempts_ok_def set_update_where job_attempt_ok_same [of ?d d])
    have ex: "gpu_exclusive ?d"
      using t assms
      by (auto simp: store_inv_def gpu_exclusive_def holds_gpu_same [of ?d d] active_row_def set_update_where)
    have "event_log_ok ?d" using t assms by (simp add: store_inv_def event_log_ok_def)
    with ok at ex show ?thesis by (simp add: store_inv_def)
  qed (use assms in simp)
qed

section \<open>Reservation\<close>

lemma Reserve_event_log:
  "event_log_ok d \<Longrightarrow> event_log_ok (snd (ReserveJobWithAffinity i n tk us p s now d))"
  by (auto simp: ReserveJobWithAffinity_def Let_def next_event_row_def event_log_ok_def
      push_event_def sorted_wrt_append dest: less_le_trans intro: order_le_less_trans)

lemma max_or_zero_Max: "xs \<noteq> [] \<Longrightarrow> max_or_zero xs = Max (set xs)"
  by (cases xs) (simp_all add: max_or_zero_def)

lemma max_upto: "max_or_zero [1..int k] = int k"
proof (cases k)
  case (Suc m)
  have "Max {1..int (Suc m)} = int (Suc m)" by (rule Max_eqI) auto
  then show ?thesis using Suc by (subst max_or_zero_Max) simp_all
qed (simp add: max_or_zero_def)

lemma upto_snoc: "[1..int k] @ [int k + 1] = [1..int (Suc k)]"
  using upto_rec2 [of 1 "int (Suc k)"] by (simp add: add.commute)

lemma consecutive_snoc:
  assumes "xs = [1..int (length xs)]"
  shows "xs @ [max_or_zero xs + 1] = [1..int (length (xs @ [max_or_zero xs + 1]))]"
proof -
  have "max_or_zero xs = int (length xs)" by (subst assms) (rule max_upto)
  then have "xs @ [max_or_zero xs + 1] = [1..int (length xs)] @ [int (length xs) + 1]"
    using assms by simp
  also have "\<dots> = [1..int (Suc (length xs))]" by (rule upto_snoc)
  finally show ?thesis by (metis length_append_singleton)
qed

lemma attempt_numbers_snoc:
  "attempt_numbers j (ts @ [t]) =
   attempt_numbers j ts @ (if ar_job_id t = j then [ar_attempt_number t] else [])"
  by (simp add: attempt_numbers_def)

lemma next_attempt_fields [simp]:
  "ar_id (next_attempt_row d i n tk us p now) = tk_attemptID tk"
  "ar_job_id (next_attempt_row d i n tk us p now) = i"
  "ar_node_id (next_attempt_row d i n tk us p now) = n"
  "ar_assignment_id (next_attempt_row d i n tk us p now) = tk_assignmentID tk"
  "ar_gpu_uuids (next_attempt_row d i n tk us p now) = us"
  "ar_attempt_number (next_attempt_row d i n tk us p now) =
     max_or_zero (attempt_numbers i (tbl_attempts d)) + 1"
  by (simp_all add: next_attempt_row_def attempt_numbers_def)

lemma reserve_row_fields [simp]:
  "jr_status (reserve_job_row n a r) = JobAssigned" "jr_attempt_id (reserve_job_row n a r) = Some a"
  "jr_assigned_node_id (reserve_job_row n a r) = Some n"
  by (simp_all add: reserve_job_row_def)

lemma job_attempt_ok_mono:
  "job_attempt_ok d r \<Longrightarrow> set (tbl_attempts d) \<subseteq> set (tbl_attempts d') \<Longrightarrow>
   set (tbl_assignments d) \<subseteq> set (tbl_assignments d') \<Longrightarrow> job_attempt_ok d' r"
  by (fastforce simp: job_attempt_ok_def split: option.splits)

lemma Reserve_attempts_ok:
  assumes res: "ReserveJobWithAffinity i n tk us p s now d = (Inr (), d')" and ok: "attempts_ok d"
  shows "attempts_ok d'"
proof -
  note R = Reserve_jobs [OF res]
  let ?t = "next_attempt_row d i n tk us p now"
  from R(4) obtain a where a: "tbl_assignments d' = tbl_assignments d @ [a]" "linked ?t a"
    by (auto simp: linked_def)
  have ids: "distinct (map ar_id (tbl_attempts d'))"
    using R(3,5) ok by (auto simp: attempts_ok_def has_row_iff)
  have links: "\<forall>s\<in>set (tbl_assignments d'). \<exists>t\<in>set (tbl_attempts d'). linked t s"
    using a R(3) ok by (auto simp: attempts_ok_def)
  have new: "job_attempt_ok d' (reserve_job_row n (tk_attemptID tk) r)" if "jr_id r = i" for r
    using a R(3) that by (auto simp: job_attempt_ok_def)
  have old: "job_attempt_ok d' r" if "r \<in> set (tbl_jobs d)" for r
    using ok that a(1) R(3) by (auto simp: attempts_ok_def intro: job_attempt_ok_mono)
  have jobs: "\<forall>r\<in>set (tbl_jobs d'). job_attempt_ok d' r"
    using R(1) new old by (auto simp: set_update_where)
  have "attempt_numbers j (tbl_attempts d') = [1..int (length (attempt_numbers j (tbl_attempts d')))]" for j
  proof -
    from ok have n: "attempt_numbers j (tbl_attempts d) = [1..int (length (attempt_numbers j (tbl_attempts d)))]"
      by (simp add: attempts_ok_def)
    have "attempt_numbers j (tbl_attempts d') = (if j = i
        then attempt_numbers j (tbl_attempts d) @ [max_or_zero (attempt_numbers j (tbl_attempts d)) + 1]
        else attempt_numbers j (tbl_attempts d))"
      using R(3) by (auto simp: attempt_numbers_snoc)
    with consecutive_snoc [OF n] n show ?thesis by (metis (full_types))
  qed
  with ids links jobs show ?thesis unfolding attempts_ok_def by blast
qed

lemma Reserve_jobs_ok:
  assumes "ReserveJobWithAffinity i n tk us p s now d = (Inr (), d')" "jobs_ok d"
  shows "jobs_ok d'"
  using Reserve_jobs(1) [OF assms(1)] assms(2)
  by (auto simp: jobs_ok_def queued_free_def set_update_where known_status_def)

lemma Reserve_holds:
  assumes res: "ReserveJobWithAffinity i n tk us p s now d = (Inr (), d')" and ok: "attempts_ok d"
  shows "jr_id r = i \<Longrightarrow> holds_gpu d' (reserve_job_row n (tk_attemptID tk) r) m u \<longleftrightarrow> m = n \<and> u \<in> set us"
    and "r \<in> set (tbl_jobs d) \<Longrightarrow> holds_gpu d' r m u = holds_gpu d r m u"
proof -
  note R = Reserve_jobs [OF res]
  from R(4) obtain a where a: "tbl_assignments d' = tbl_assignments d @ [a]"
    "as_job_id a = i" "as_attempt_id a = tk_attemptID tk" "as_node_id a = n" "as_gpu_uuids a = us" by blast
  from R(5) ok have fresh: "\<forall>s\<in>set (tbl_assignments d). as_attempt_id s \<noteq> tk_attemptID tk"
    by (fastforce simp: attempts_ok_def linked_def has_row_iff)
  then show "holds_gpu d' (reserve_job_row n (tk_attemptID tk) r) m u \<longleftrightarrow> m = n \<and> u \<in> set us"
    if "jr_id r = i"
    using a that by (auto simp: holds_gpu_def)
  show "holds_gpu d' r m u = holds_gpu d r m u" if "r \<in> set (tbl_jobs d)"
  proof -
    from ok that R(5) have "jr_attempt_id r \<noteq> Some (tk_attemptID tk)"
      by (auto simp: attempts_ok_def job_attempt_ok_def has_row_iff)
    with a show ?thesis by (auto simp: holds_gpu_def)
  qed
qed

definition gpus_free :: "db \<Rightarrow> string \<Rightarrow> string list \<Rightarrow> bool" where
  "gpus_free d n us \<longleftrightarrow>
     (\<forall>u\<in>set us. \<forall>r\<in>set (tbl_jobs d). active_row r \<longrightarrow> \<not> holds_gpu d r n u)"

lemma Reserve_gpu_exclusive:
  assumes res: "ReserveJobWithAffinity i n tk us p s now d = (Inr (), d')"
    and ok: "attempts_ok d" and ex: "gpu_exclusive d" and free: "gpus_free d n us"
  shows "gpu_exclusive d'"
  unfolding gpu_exclusive_def
proof (intro ballI allI impI)
  note R = Reserve_jobs [OF res]
  note H = Reserve_holds [OF res ok]
  let ?P = "\<lambda>r. jr_id r = i \<and> jr_status r = JobQueued"
  let ?f = "\<lambda>r. if ?P r then reserve_job_row n (tk_attemptID tk) r else r"
  fix r' q' m u
  assume "r' \<in> set (tbl_jobs d')" "q' \<in> set (tbl_jobs d')"
    and h: "active_row r' \<and> active_row q' \<and> holds_gpu d' r' m u \<and> holds_gpu d' q' m u"
  with R(1) obtain r q where rq: "r \<in> set (tbl_jobs d)" "r' = ?f r" "q \<in> set (tbl_jobs d)" "q' = ?f q"
    by (auto simp: set_update_where)
  consider "?P r" "?P q" | "?P r" "\<not> ?P q" | "\<not> ?P r" "?P q" | "\<not> ?P r" "\<not> ?P q" by blast
  then show "jr_id r' = jr_id q'"
  proof cases
    case 1
    with rq show ?thesis by simp
  next
    case 2
    with rq h H(1) [of r m u] H(2) [of q m u] free have False by (auto simp: gpus_free_def)
    then show ?thesis ..
  next
    case 3
    with rq h H(1) [of q m u] H(2) [of r m u] free have False by (auto simp: gpus_free_def)
    then show ?thesis ..
  next
    case 4
    then have "r' = r" "q' = q" using rq(2,4) by auto
    with rq h H(2) [of r m u] H(2) [of q m u] ex show ?thesis by (auto simp: gpu_exclusive_def)
  qed
qed

lemma Reserve_inv:
  assumes "ReserveJobWithAffinity i n tk us p s now d = (Inr (), d')" "store_inv d" "gpus_free d n us"
  shows "store_inv d'"
  using Reserve_attempts_ok [OF assms(1)] Reserve_jobs_ok [OF assms(1)] Reserve_gpu_exclusive [OF assms(1)]
    Reserve_event_log [of d i n tk us p s now] assms
  by (simp add: store_inv_def)

section \<open>A scheduling pass\<close>

text \<open>Every GPU an active job holds is marked in the snapshot.\<close>

definition snapshot_marks :: "db \<Rightarrow> Node list \<Rightarrow> bool" where
  "snapshot_marks d nodes \<longleftrightarrow>
     (\<forall>x\<in>set nodes. \<forall>g\<in>set (node_GPUs x). \<forall>r\<in>set (tbl_jobs d).
        active_row r \<and> holds_gpu d r (node_ID x) (gpu_UUID g) \<longrightarrow> gpu_Allocated g)"

lemma update_last_all:
  "(\<And>x. Q x \<Longrightarrow> Q (f x)) \<Longrightarrow> \<forall>x\<in>set xs. Q x \<Longrightarrow> \<forall>x\<in>set (update_last P f xs). Q x"
  by (induction xs) auto

lemma charge_node_fields [simp]:
  "node_ID (charge_node res n) = node_ID n" "node_GPUs (charge_node res n) = node_GPUs n"
  by (simp_all add: charge_node_def)

lemma account_job_all:
  assumes "\<And>n res. Q n \<Longrightarrow> Q (charge_node res n)" "\<forall>n\<in>set xs. Q n"
  shows "\<forall>n\<in>set (account_job xs job). Q n"
proof (cases "\<not> IsActive (job_Status job) \<or> job_AssignedNodeID job = ''''")
  case False
  then show ?thesis
    using update_last_all [of Q, OF assms(1) assms(2)] by (simp add: account_job_def)
qed (use assms(2) in \<open>simp add: account_job_def\<close>)

lemma Account_all:
  assumes "\<And>n res. Q n \<Longrightarrow> Q (charge_node res n)"
    and "\<forall>n\<in>set nodes. Q (n\<lparr>node_GPUs := map (mark_allocated (alloc (node_ID n))) (node_GPUs n)\<rparr>)"
  shows "\<forall>n\<in>set (Account nodes jobs alloc). Q n"
proof -
  have "\<forall>n\<in>set (foldl account_job xs jobs). Q n" if "\<forall>n\<in>set xs. Q n" for xs
    using that
  proof (induction jobs arbitrary: xs)
    case (Cons job jobs)
    from Cons.IH [OF account_job_all [of Q, OF assms(1) Cons.prems]] show ?case by simp
  qed simp
  from this [of "map (\<lambda>n. n\<lparr>node_GPUs := map (mark_allocated (alloc (node_ID n))) (node_GPUs n)\<rparr>) nodes"]
    assms(2) show ?thesis unfolding Account_def by simp
qed

lemma holds_allocated:
  assumes "jobs_ok d" "r \<in> set (tbl_jobs d)" "active_row r" "holds_gpu d r n u"
  shows "AllocatedGPUUUIDs d n u"
proof -
  from assms(4) obtain s where s: "s \<in> set (tbl_assignments d)" "as_job_id s = jr_id r" "as_node_id s = n"
    "u \<in> set (as_gpu_uuids s)" by (auto simp: holds_gpu_def)
  moreover have "job_row (as_job_id s) d = Some r"
    using assms(1,2) s(2) job_row_in by (auto simp: jobs_ok_def)
  ultimately show ?thesis using assms(3)
    by (auto simp: AllocatedGPUUUIDs_def has_row_iff intro!: bexI [of _ s])
qed

lemma Snapshot_marks: "jobs_ok d \<Longrightarrow> snapshot_marks d (Snapshot d)"
  unfolding snapshot_marks_def Snapshot_def
  by (rule Account_all) (auto simp: mark_allocated_def dest: holds_allocated)

lemma candidate_gpus_free:
  assumes "node_candidate spec n = Some c" "u \<in> set (cand_gpuUUIDs c)"
  shows "\<exists>g\<in>set (node_GPUs n). gpu_UUID g = u \<and> \<not> gpu_Allocated g"
proof (cases "gpureq_UUIDs (res_GPU (spec_Resources spec)) = []")
  case True
  with assms(1) have "cand_gpuUUIDs c = map gpu_UUID (greedy_gpus spec n)"
    by (auto simp: node_candidate_def gpu_choice_def gpu_step_greedy split: if_splits)
  with assms(2) set_greedy_gpus [of spec n] show ?thesis
    by (auto simp: usable_gpu_def)
next
  case False
  with assms have "all_requested_exist spec n" "all_requested_free spec n"
    "u \<in> set (gpureq_UUIDs (res_GPU (spec_Resources spec)))"
    by (auto simp: node_candidate_def gpu_choice_def gpu_step_explicit split: if_splits)
  then obtain g where "map_of (gpus_by_id n) u = Some g" "\<not> gpu_Allocated g"
    by (fastforce simp: all_requested_exist_def all_requested_free_def list_all_iff)
  then show ?thesis by (auto simp: gpus_by_id_def dest!: map_of_SomeD)
qed

lemma selected_gpus_free:
  assumes "selectNode spec nodes = Inr c" "snapshot_marks d nodes"
  shows "gpus_free d (node_ID (cand_node c)) (cand_gpuUUIDs c)"
  unfolding gpus_free_def
proof (intro ballI impI notI)
  fix u r
  assume u: "u \<in> set (cand_gpuUUIDs c)" and r: "r \<in> set (tbl_jobs d)" "active_row r"
    and h: "holds_gpu d r (node_ID (cand_node c)) u"
  from selectNode_Inr [OF assms(1)] obtain n where n: "n \<in> set nodes" "node_candidate spec n = Some c"
    by (auto simp: node_candidate_node)
  from candidate_gpus_free [OF n(2) u] obtain g where "g \<in> set (node_GPUs n)" "gpu_UUID g = u" "\<not> gpu_Allocated g"
    by blast
  with assms(2) n r h node_candidate_node [OF n(2)] show False by (auto simp: snapshot_marks_def)
qed

lemma Reserve_marks:
  assumes res: "ReserveJobWithAffinity i n tk us p s now d = (Inr (), d')" and ok: "attempts_ok d"
    and marks: "snapshot_marks d nodes"
  shows "snapshot_marks d' (reserveInSnapshot nodes n req us)"
  unfolding snapshot_marks_def
proof (intro ballI impI)
  let ?P = "\<lambda>r. jr_id r = i \<and> jr_status r = JobQueued"
  fix x' g' r'
  assume x': "x' \<in> set (reserveInSnapshot nodes n req us)" and g': "g' \<in> set (node_GPUs x')"
    and r': "r' \<in> set (tbl_jobs d')" and h: "active_row r' \<and> holds_gpu d' r' (node_ID x') (gpu_UUID g')"
  from x' obtain x where x: "x \<in> set nodes" "x' = (if node_ID x \<noteq> n then x else reserve_node req us x)"
    by (auto simp: reserveInSnapshot_def)
  then have id: "node_ID x' = node_ID x" by (simp add: reserve_node_def)
  from x g' obtain g where g: "g \<in> set (node_GPUs x)"
    "g' = (if node_ID x \<noteq> n then g else reserve_gpu us g)"
    by (auto simp: reserve_node_def split: if_splits)
  then have gid: "gpu_UUID g' = gpu_UUID g" "gpu_Allocated g \<Longrightarrow> gpu_Allocated g'"
    by (auto simp: reserve_gpu_def)
  from r' Reserve_jobs(1) [OF res] obtain r where
    r: "r \<in> set (tbl_jobs d)" "r' = (if ?P r then reserve_job_row n (tk_attemptID tk) r else r)"
    by (auto simp: set_update_where)
  show "gpu_Allocated g'"
  proof (cases "?P r")
    case True
    with r h id gid Reserve_holds(1) [OF res ok, of r "node_ID x" "gpu_UUID g"]
    have "node_ID x = n" "gpu_UUID g \<in> set us" by auto
    with g show ?thesis by (simp add: reserve_gpu_def)
  next
    case False
    then have "r' = r" using r(2) by auto
    with h id gid Reserve_holds(2) [OF res ok r(1)] have "active_row r" "holds_gpu d r (node_ID x) (gpu_UUID g)"
      by simp_all
    with marks x(1) g(1) r(1) have "gpu_Allocated g" unfolding snapshot_marks_def by blast
    with gid show ?thesis by blast
  qed
qed

lemma quiet_marks:
  assumes "calm_step R d d'" "snapshot_marks d nodes"
  shows "snapshot_marks d' nodes"
  unfolding snapshot_marks_def
proof (intro ballI impI)
  fix x g r'
  assume x: "x \<in> set nodes" "g \<in> set (node_GPUs x)" and r': "r' \<in> set (tbl_jobs d')"
    and h: "active_row r' \<and> holds_gpu d' r' (node_ID x) (gpu_UUID g)"
  from calm_origin [OF assms(1) r'] obtain r where r: "r \<in> set (tbl_jobs d)" "calm_row R r r'" by blast
  with h calm_holds [OF assms(1) r(2)] have "active_row r" "holds_gpu d r (node_ID x) (gpu_UUID g)"
    by (auto simp: calm_row_def active_row_def)
  with assms(2) x r(1) show "gpu_Allocated g" unfolding snapshot_marks_def by blast
qed

lemma schedule_jobs_inv:
  "store_inv d \<Longrightarrow> snapshot_marks d nodes \<Longrightarrow> store_inv (snd (schedule_jobs now tickets k nodes jobs d))"
proof (induction jobs arbitrary: k nodes d)
  case Nil
  then show ?case by simp
next
  case (Cons job jobs)
  show ?case
  proof (cases "selectNode (job_Spec job) nodes")
    case (Inl cm)
    obtain c m where cm: "cm = (c, m)" by (cases cm)
    let ?d = "snd (SetQueueReason (job_ID job) c m d)"
    have "calm_step lifecycle_edge d ?d" by (rule SetQueueReason_calm) simp
    then have "store_inv ?d" "snapshot_marks ?d nodes"
      using Cons.prems calm_inv quiet_marks by blast+
    from Cons.IH [OF this] Inl cm show ?thesis by simp
  next
    case sel: (Inr c)
    show ?thesis
    proof (cases "tickets k")
      case (Inl e)
      with sel Cons.prems show ?thesis by simp
    next
      case tk: (Inr tk)
      obtain res d1 where res: "ReserveJobWithAffinity (job_ID job) (node_ID (cand_node c)) tk
          (cand_gpuUUIDs c) (cand_cpuPackageID c) (cand_cpuSet c) now d = (res, d1)" by fastforce
      show ?thesis
      proof (cases res)
        case (Inl e)
        with res have "d1 = d" by (auto dest: Reserve_Inl)
        with res sel tk Inl Cons.IH [of d nodes "Suc k"] Cons.prems show ?thesis by simp
      next
        case (Inr u)
        with res have ok: "ReserveJobWithAffinity (job_ID job) (node_ID (cand_node c)) tk
          (cand_gpuUUIDs c) (cand_cpuPackageID c) (cand_cpuSet c) now d = (Inr (), d1)" by simp
        have "store_inv d1" using Reserve_inv [OF ok Cons.prems(1) selected_gpus_free [OF sel Cons.prems(2)]] .
        moreover have "snapshot_marks d1 (reserveInSnapshot nodes (node_ID (cand_node c))
            (spec_Resources (job_Spec job)) (cand_gpuUUIDs c))"
          using Reserve_marks [OF ok _ Cons.prems(2)] Cons.prems(1) by (simp add: store_inv_def)
        ultimately show ?thesis using Cons.IH ok sel tk by simp
      qed
    qed
  qed
qed

lemma Schedule_inv: "store_inv d \<Longrightarrow> store_inv (snd (Schedule now tickets d))"
  by (simp add: Schedule_def Let_def schedule_jobs_inv Snapshot_marks store_inv_def [of d])

section \<open>The store as a status machine\<close>

lemma job_tables_inv: "job_tables d' = job_tables d \<Longrightarrow> store_inv d \<Longrightarrow> store_inv d'"
  by (rule calm_inv [OF node_tables_calm]) (simp_all add: job_tables_def)

lemma store_step_inv:
  assumes "store_inv d" "store_step d d'"
  shows "store_inv d'"
  using assms(2)
proof (rule store_step_cases)
  show "jobs_ok d" using assms(1) by (simp add: store_inv_def)
next
  fix job assume "job_Status job = JobQueued" "job_tables d' = job_tables (snd (CreateJob job d))"
  with assms(1) show ?thesis using job_tables_inv CreateJob_inv by blast
qed (use assms(1) in \<open>auto intro: Schedule_inv RerunJob_inv calm_inv\<close>)

lemma empty_inv: "store_inv empty_db"
  by (simp add: store_inv_def jobs_ok_def attempts_ok_def gpu_exclusive_def event_log_ok_def empty_db_def
      queued_free_def attempt_numbers_def)

definition job_status :: "db \<Rightarrow> string \<Rightarrow> JobStatus option" where
  "job_status d i = map_option jr_status (job_row i d)"

lemma moves_status:
  "jobs_move R d d' \<Longrightarrow> job_status d i = Some a \<Longrightarrow> \<exists>b. job_status d' i = Some b \<and> R a b"
  by (fastforce simp: jobs_move_def job_status_def)

lemma calm_moves:
  assumes "calm_step R d d'" "distinct (map jr_id (tbl_jobs d))"
  shows "jobs_move R d d'"
  unfolding jobs_move_def
proof (intro allI impI)
  fix i r assume r: "job_row i d = Some r"
  from job_row_Some [OF r] calm_image [OF assms(1)] obtain r' where
    r': "r' \<in> set (tbl_jobs d')" "calm_row R r r'" by blast
  moreover from r' job_row_Some [OF r] have "jr_id r' = i" by (simp add: calm_row_def)
  moreover have "distinct (map jr_id (tbl_jobs d'))" using calm_ids [OF assms(1)] assms(2) by simp
  ultimately have "job_row i d' = Some r'" using job_row_in by blast
  with r' show "\<exists>r'. job_row i d' = Some r' \<and> R (jr_status r) (jr_status r')" by (auto simp: calm_row_def)
qed

lemma RerunJob_moves: "jobs_move lifecycle_edge d (snd (RerunJob i d))"
proof (cases "snd (RerunJob i d) = d")
  case True
  then show ?thesis by (auto intro: jobs_move_refl)
next
  case False
  with RerunJob_tables(1) [of i d] show ?thesis
    by (intro jobs_move_update [where P = "\<lambda>r. jr_id r = i \<and> is_finished (jr_status r)" and f = rerun_job_row])
      (auto simp: lifecycle_edge_def)
qed

lemma store_step_moves:
  assumes "store_inv d" "store_step d d'"
  shows "jobs_move lifecycle_edge d d'"
  using assms(2)
proof (rule store_step_cases)
  show "jobs_ok d" using assms(1) by (simp add: store_inv_def)
next
  fix job assume "job_tables d' = job_tables (snd (CreateJob job d))"
  then have "tbl_jobs d' = tbl_jobs (snd (CreateJob job d))" by (simp add: job_tables_def)
  moreover have "jobs_move lifecycle_edge d (snd (CreateJob job d))"
    using CreateJob_moves by (metis prod.collapse)
  ultimately show ?thesis by (simp add: jobs_move_def job_row_def)
next
  fix now tickets assume "d' = snd (Schedule now tickets d)"
  then have "jobs_move assigned_or_same d d'" using Schedule_moves by (metis prod.collapse)
  then show ?thesis
    by (rule jobs_move_mono) (auto simp: assigned_or_same_def lifecycle_assign)
next
  fix i assume "d' = snd (RerunJob i d)"
  then show ?thesis using RerunJob_moves by simp
next
  assume "calm_step lifecycle_edge d d'"
  then show ?thesis using calm_moves assms(1) by (auto simp: store_inv_def jobs_ok_def)
qed

interpretation store: status_machine store_step store_inv job_status lifecycle_edge
  by unfold_locales (auto intro: store_step_inv moves_status store_step_moves)

end
