(* ===== verification/Samples.thy ===== *)
theory Samples
  imports StoreInvariant "HOL-Library.Code_Target_Numeral"
begin

text \<open>
  Concrete values: a node with two GPUs, a job that asks for one of them, and a database in which
  the job was created, scheduled, run, and rerun. The witnesses of the properties evaluate on them.
\<close>

section \<open>Evaluation\<close>

text \<open>Recursion on natural numbers without constructor patterns, so that they evaluate as numerals.\<close>

lemma frac_digits_code [code]:
  "frac_digits k n = (if k = 0 then [] else char_of (48 + n div 10 ^ (k - 1) mod 10) # frac_digits (k - 1) n)"
  by (cases k) simp_all

lemma frac_value_code [code]:
  "frac_value k ds = (if k = 0 then 0 else case ds of [] \<Rightarrow> 0
     | c # cs \<Rightarrow> (of_char c - 48) * 10 ^ (k - 1) + frac_value (k - 1) cs)"
  by (cases k; cases ds) simp_all

lemma update_status_loop_code [code]:
  "update_status_loop k env jobID rp now d =
     (if k = 0 then (Inl ErrConflict, d) else
      case Job jobID d of
        Inl e \<Rightarrow> (Inl e, d)
      | Inr job \<Rightarrow>
          if job_Status job = rp_status rp \<and> job_ObservedStatus job = rp_status rp then (Inr (), d)
          else if \<not> CanTransition (job_Status job) (rp_status rp) then (Inl ErrConflict, d)
          else (case status_transaction job rp now (env (k - 1) d) of
                  None \<Rightarrow> update_status_loop (k - 1) env jobID rp now (env (k - 1) d)
                | Some result \<Rightarrow> result))"
  by (cases k) (simp_all only: update_status_loop.simps append_server_event_loop.simps nat.simps if_True if_False diff_Suc_1 simp_thms)

lemma append_server_event_loop_code [code]:
  "append_server_event_loop k jobID type payload now d =
     (if k = 0 then (Inl ErrConflict, d) else
      case job_row jobID d of
        None \<Rightarrow> (Inl ErrConstraint, d)
      | Some j \<Rightarrow>
          let e = next_event_row d jobID (jr_attempt_id j) type (jr_status j) payload now in
          if has_row (\<lambda>x. ev_job_id x = jobID \<and> ev_sequence x = ev_sequence e) (tbl_events d)
          then append_server_event_loop (k - 1) jobID type payload now d
          else (Inr (), push_event e d))"
  by (cases k) (simp_all only: update_status_loop.simps append_server_event_loop.simps nat.simps if_True if_False diff_Suc_1 simp_thms)

section \<open>A node and a job\<close>

definition sample_gpu :: "string \<Rightarrow> int \<Rightarrow> GPU" where
  "sample_gpu uuid vram = \<lparr>gpu_UUID = uuid, gpu_Model = ''A'', gpu_VRAMBytes = vram, gpu_PCIBusID = '''',
     gpu_DriverVersion = '''', gpu_ComputeCapability = '''', gpu_UtilizationBasisPoints = None,
     gpu_UtilizationAverageBasisPoints = None, gpu_UtilizationPeakBasisPoints = None,
     gpu_UtilizationSampledAt = None, gpu_UtilizationWindowSeconds = 0, gpu_UtilizationSampleCount = 0,
     gpu_MemoryUsedBytes = None, gpu_TemperatureCelsius = None, gpu_Allocated = False,
     gpu_AllocatedJobID = ''''\<rparr>"

definition sample_node :: Node where
  "sample_node = \<lparr>node_ID = ''n1'', node_Name = ''one'', node_Status = NodeOnline, node_AgentVersion = '''',
     node_ProtocolVersion = 1, node_Architecture = ''amd64'', node_DockerVersion = '''',
     node_CPUTotalMillis = 8000, node_CPUAllocatedMillis = 0, node_MemoryTotalBytes = 16000,
     node_MemoryAllocatedBytes = 0, node_WorkspaceTotalBytes = 0, node_WorkspaceFreeBytes = 0,
     node_Labels = [], node_Capabilities = [], node_CPUPackages = [],
     node_GPUs = [sample_gpu ''g2'' 48, sample_gpu ''g1'' 24],
     node_GPUDiscovery = \<lparr>disc_Status = ''ok'', disc_ErrorCode = '''', disc_Message = ''''\<rparr>,
     node_System = \<lparr>sys_Hostname = '''', sys_OperatingSystem = '''', sys_OSVersion = '''', sys_OSType = '''',
       sys_KernelVersion = '''', sys_Architecture = ''''\<rparr>,
     node_Runtime = \<lparr>rt_DockerVersion = '''', rt_StorageDriver = '''', rt_CgroupDriver = '''',
       rt_CgroupVersion = ''''\<rparr>,
     node_LastHeartbeat = 0, node_CreatedAt = 0\<rparr>"

definition sample_resources :: Resources where
  "sample_resources = \<lparr>res_CPUMillis = 1000, res_CPUPackageID = '''', res_MemoryBytes = 1000,
     res_GPU = \<lparr>gpureq_Count = 1, gpureq_MinVRAMBytes = 16, gpureq_UUIDs = []\<rparr>\<rparr>"

definition sample_spec :: JobSpec where
  "sample_spec = empty_spec\<lparr>spec_Name := ''train'', spec_Image := ''img@sha256:0'',
     spec_Resources := sample_resources\<rparr>"

definition sample_job :: "string \<Rightarrow> Job" where
  "sample_job i = \<lparr>job_ID = i, job_OwnerID = ''o1'', job_Spec = sample_spec, job_Status = JobQueued,
     job_DesiredStatus = JobRunning, job_ObservedStatus = JobQueued, job_AssignedNodeID = '''',
     job_AttemptID = '''', job_ImageDigest = '''', job_ExitCode = None, job_QueueReasonCode = '''',
     job_QueueReason = '''', job_FailureReason = '''', job_CreatedAt = 5000000000, job_StartedAt = None,
     job_FinishedAt = None, job_DeletedAt = None, job_Version = 1\<rparr>"

definition sample_ticket :: "string \<Rightarrow> nat \<Rightarrow> store_error + ticket" where
  "sample_ticket i k = Inr \<lparr>tk_attemptID = ''a'' @ i @ itoa_nat k, tk_assignmentID = ''s'' @ i @ itoa_nat k,
     tk_jobTokenHash = ''h'' @ i @ itoa_nat k, tk_jobTokenCiphertext = ''c''\<rparr>"

definition sample_report :: "JobStatus \<Rightarrow> report" where
  "sample_report st = \<lparr>rp_status = st, rp_exitCode = Some 0, rp_imageDigest = '''', rp_reason = ''''\<rparr>"

section \<open>A history\<close>

text \<open>Node enrolled, two jobs created and placed on its two GPUs.\<close>

definition placed_db :: db where
  "placed_db = snd (Schedule 6000000000 (sample_ticket ''x'')
     (snd (CreateJob (sample_job ''j2'')
       (snd (CreateJob (sample_job ''j1'') (snd (UpsertNode sample_node ''k1'' 0 empty_db)))))))"

text \<open>The first job ran and succeeded.\<close>

definition finished_db :: db where
  "finished_db = snd (UpdateJobStatus no_env ''j1'' (sample_report JobSucceeded) 8000000000
     (snd (UpdateJobStatus no_env ''j1'' (sample_report JobRunning) 7000000000 placed_db)))"

text \<open>It was rerun and placed again.\<close>

definition rerun_db :: db where
  "rerun_db = snd (Schedule 9000000000 (sample_ticket ''y'') (snd (RerunJob ''j1'' finished_db)))"

text \<open>And a deletion instead.\<close>

definition deleting_db :: db where
  "deleting_db = snd (MarkDeleting (no_env ()) ''j1'' finished_db)"

definition deleted_db :: db where
  "deleted_db = snd (MarkDeleted ''j1'' 9000000000 deleting_db)"

lemma sample_values:
  "job_status placed_db ''j1'' = Some JobAssigned"
  "job_status finished_db ''j1'' = Some JobSucceeded"
  "job_status rerun_db ''j1'' = Some JobAssigned"
  "job_status deleting_db ''j1'' = Some JobDeleting"
  "job_status deleted_db ''j1'' = Some JobDeleted"
  by code_simp+

lemma then_step: "store_step\<^sup>*\<^sup>* a b \<Longrightarrow> store_step b c \<Longrightarrow> store_step\<^sup>*\<^sup>* a c"
  by (rule rtranclp.rtrancl_into_rtrancl)

lemma then_create: "store_step\<^sup>*\<^sup>* a b \<Longrightarrow> store_step\<^sup>*\<^sup>* a (snd (CreateJob (sample_job i) b))"
  by (erule then_step) (rule store_step.create, simp add: sample_job_def)

lemma placed_reachable: "store_step\<^sup>*\<^sup>* empty_db placed_db"
  unfolding placed_db_def
  by (rule then_step [OF _ store_step.schedule] then_create then_step [OF _ store_step.upsert]
      rtranclp.rtrancl_refl)+

lemma finished_steps: "store_step\<^sup>*\<^sup>* placed_db finished_db"
  unfolding finished_db_def
  by (rule then_step [OF _ store_step.update] rtranclp.rtrancl_refl)+

lemma finished_reachable: "store_step\<^sup>*\<^sup>* empty_db finished_db"
  by (rule rtranclp_trans [OF placed_reachable finished_steps])

lemma rerun_reachable: "store_step\<^sup>*\<^sup>* empty_db rerun_db"
  unfolding rerun_db_def
  by (rule then_step [OF _ store_step.schedule] then_step [OF _ store_step.rerun] finished_reachable)+

lemma deleting_step: "store_step finished_db deleting_db"
  unfolding deleting_db_def by (rule store_step.deleting)

lemma deleted_step: "store_step deleting_db deleted_db"
proof -
  obtain r where "job_row ''j1'' deleting_db = Some r" "jr_status r = JobDeleting"
    using sample_values(4) by (auto simp: job_status_def)
  then show ?thesis unfolding deleted_db_def by (intro store_step.deleted) auto
qed

lemma deleted_reachable: "store_step\<^sup>*\<^sup>* empty_db deleted_db"
  by (rule rtranclp.rtrancl_into_rtrancl [OF rtranclp.rtrancl_into_rtrancl
        [OF finished_reachable deleting_step] deleted_step])

end
