(* ===== verification/SchedulerProperties.thy ===== *)
theory SchedulerProperties
  imports Samples
begin

text \<open>
  What the scheduler guarantees: it places a job exactly when a node can take it, on the node that
  wastes least, on free GPUs, without overcommitting, and the reason it gives for waiting is true.
\<close>

section \<open>Selection\<close>

lemma candidate_count:
  "node_candidate spec n = Some c \<Longrightarrow>
   int (length (cand_gpuUUIDs c)) = gpureq_Count (res_GPU (spec_Resources spec))"
  by (auto simp: node_candidate_def split: if_splits option.splits)

text \<open>C5: \<^verbatim>\<open>selectNode\<close> finds a node for a job exactly when some node of the snapshot is feasible: the
  requested one if any, online, with matching labels, enough free CPU, memory, package capacity and
  GPUs.\<close>

theorem selects_iff_feasible:
  "(\<exists>c. selectNode spec nodes = Inr c) \<longleftrightarrow> (\<exists>n\<in>set nodes. feasible spec n)"
  using selectNode_Inl_iff [of spec nodes] by (metis Inl_Inr_False obj_sumE)

text \<open>C6: The node \<^verbatim>\<open>selectNode\<close> chooses is in the snapshot and feasible, and no other candidate comes
  before it in the order by wasted VRAM, memory, CPU and node id.\<close>

theorem selected_node_is_best:
  assumes "selectNode spec nodes = Inr c"
  shows "cand_node c \<in> set nodes \<and> feasible spec (cand_node c) \<and>
    (\<forall>n\<in>set nodes. \<forall>c'. node_candidate spec n = Some c' \<longrightarrow> \<not> candidate_less c' c)"
  using selected_feasible [OF assms] selectNode_Inr(2) [OF assms] by blast

lemma sample_selection: "\<exists>c. selectNode sample_spec [sample_node] = Inr c"
proof -
  have "case selectNode sample_spec [sample_node] of Inl e \<Rightarrow> False | Inr c \<Rightarrow> True" by code_simp
  then show ?thesis by (cases "selectNode sample_spec [sample_node]") simp_all
qed

theorem selected_node_is_best_witness: "\<exists>c. selectNode sample_spec [sample_node] = Inr c \<and>
    cand_node c = sample_node \<and> feasible sample_spec sample_node"
proof -
  from sample_selection obtain c where c: "selectNode sample_spec [sample_node] = Inr c" by blast
  from selected_node_is_best [OF c] c show ?thesis by auto
qed

text \<open>The GPUs of the chosen candidate are as many as the job asks for, and each of them is a GPU of
  the chosen node that is not allocated.\<close>

theorem selected_gpus_are_free:
  assumes "selectNode spec nodes = Inr c"
  shows "int (length (cand_gpuUUIDs c)) = gpureq_Count (res_GPU (spec_Resources spec)) \<and>
    (\<forall>u\<in>set (cand_gpuUUIDs c). \<exists>g\<in>set (node_GPUs (cand_node c)). gpu_UUID g = u \<and> \<not> gpu_Allocated g)"
proof -
  note c = selected_feasible(3) [OF assms]
  with candidate_count [OF c] candidate_gpus_free [OF c] show ?thesis by blast
qed

theorem selected_gpus_are_free_witness:
  "\<exists>c. selectNode sample_spec [sample_node] = Inr c \<and> int (length (cand_gpuUUIDs c)) = 1"
proof -
  from sample_selection obtain c where c: "selectNode sample_spec [sample_node] = Inr c" by blast
  have "gpureq_Count (res_GPU (spec_Resources sample_spec)) = 1"
    by (simp add: sample_spec_def sample_resources_def)
  with selected_gpus_are_free [OF c] c show ?thesis by auto
qed

text \<open>Without explicit UUIDs the GPUs taken on a node waste the least VRAM: any other choice of as many
  free GPUs that are large enough exceeds the requested minimum by at least as much in total.\<close>

theorem chosen_gpus_waste_least:
  assumes "node_candidate spec n = Some c" "gpureq_UUIDs (res_GPU (spec_Resources spec)) = []"
    and "sane_node n" "sane_request (spec_Resources spec)"
    and "distinct hs" "set hs \<subseteq> set (node_GPUs n)"
    and "\<forall>g\<in>set hs. \<not> gpu_Allocated g \<and> gpureq_MinVRAMBytes (res_GPU (spec_Resources spec)) \<le> gpu_VRAMBytes g"
    and "int (length hs) = gpureq_Count (res_GPU (spec_Resources spec))"
  shows "cand_vramWaste c \<le>
    sum_list (map (\<lambda>g. gpu_VRAMBytes g - gpureq_MinVRAMBytes (res_GPU (spec_Resources spec))) hs)"
proof -
  have "cand_vramWaste c = greedy_waste (res_GPU (spec_Resources spec)) (greedy_gpus spec n)"
    using assms(1,2)
    by (auto simp: node_candidate_def gpu_choice_def gpu_step_greedy split: if_splits)
  moreover have "set hs \<subseteq> {g\<in>set (node_GPUs n). usable_gpu (res_GPU (spec_Resources spec)) g}"
    using assms(6,7) by (auto simp: usable_gpu_def)
  ultimately show ?thesis
    using greedy_least_waste [OF assms(3) _ assms(5) _ assms(8)] assms(4) by (simp add: sane_request_def)
qed

lemma sample_sane: "sane_node sample_node" "sane_request (spec_Resources sample_spec)"
  by code_simp+

theorem chosen_gpus_waste_least_witness:
  "\<exists>c. node_candidate sample_spec sample_node = Some c \<and> cand_vramWaste c \<le> 8"
proof -
  from sample_selection obtain c where "selectNode sample_spec [sample_node] = Inr c" by blast
  then have c: "node_candidate sample_spec sample_node = Some c"
    using selected_feasible(1,3) by fastforce
  have "cand_vramWaste c \<le> sum_list (map (\<lambda>g. gpu_VRAMBytes g -
      gpureq_MinVRAMBytes (res_GPU (spec_Resources sample_spec))) [sample_gpu ''g1'' 24])"
    by (rule chosen_gpus_waste_least [OF c _ sample_sane])
      (simp_all add: sample_spec_def sample_resources_def sample_gpu_def sample_node_def)
  with c show ?thesis by (simp add: sample_spec_def sample_resources_def sample_gpu_def)
qed

section \<open>Waiting\<close>

text \<open>What a reason code claims about the job and the snapshot.\<close>

definition reason_holds :: "JobSpec \<Rightarrow> Node list \<Rightarrow> string \<Rightarrow> bool" where
  "reason_holds spec nodes code =
     (let some = (\<lambda>P. \<exists>n\<in>set nodes. P spec n) in
      if code = ''REQUESTED_NODE_NOT_FOUND'' then
        spec_TargetNodeID spec \<noteq> '''' \<and> \<not> (\<exists>n\<in>set nodes. node_ID n = spec_TargetNodeID spec)
      else if code = ''REQUESTED_NODE_UNAVAILABLE'' then some at_target \<and> \<not> some at_online
      else if code = ''NO_ONLINE_NODE'' then \<not> some at_online
      else if code = ''NODE_SELECTOR_MISMATCH'' then some at_online \<and> \<not> some at_labels
      else if code = ''INSUFFICIENT_CPU'' then some at_labels \<and> \<not> some at_cpu
      else if code = ''INSUFFICIENT_MEMORY'' then some at_cpu \<and> \<not> some at_memory
      else if code = ''CPU_AFFINITY_UNSUPPORTED'' then some at_memory \<and> \<not> some at_capability
      else if code = ''REQUESTED_CPU_PACKAGE_NOT_FOUND'' then some at_capability \<and> \<not> some at_package_present
      else if code = ''INSUFFICIENT_CPU_PACKAGE'' then some at_package_present \<and> \<not> some at_package
      else if code = ''REQUESTED_GPU_NOT_FOUND'' then some at_package \<and> \<not> some at_gpu_inventory
      else if code = ''REQUESTED_GPU_ALLOCATED'' then some at_gpu_inventory \<and> \<not> some at_gpu_free
      else if code = ''NO_COMPATIBLE_GPU'' then some at_package \<and> \<not> some at_gpu_model
      else if code = ''RESOURCES_ALLOCATED'' then some at_package \<and> \<not> some feasible
      else False)"

lemma reason_simps:
  "reason_holds spec nodes ''REQUESTED_NODE_NOT_FOUND'' \<longleftrightarrow>
     spec_TargetNodeID spec \<noteq> '''' \<and> \<not> (\<exists>n\<in>set nodes. node_ID n = spec_TargetNodeID spec)"
  "reason_holds spec nodes ''REQUESTED_NODE_UNAVAILABLE'' \<longleftrightarrow>
     (\<exists>n\<in>set nodes. at_target spec n) \<and> \<not> (\<exists>n\<in>set nodes. at_online spec n)"
  "reason_holds spec nodes ''NO_ONLINE_NODE'' \<longleftrightarrow> \<not> (\<exists>n\<in>set nodes. at_online spec n)"
  "reason_holds spec nodes ''NODE_SELECTOR_MISMATCH'' \<longleftrightarrow>
     (\<exists>n\<in>set nodes. at_online spec n) \<and> \<not> (\<exists>n\<in>set nodes. at_labels spec n)"
  "reason_holds spec nodes ''INSUFFICIENT_CPU'' \<longleftrightarrow>
     (\<exists>n\<in>set nodes. at_labels spec n) \<and> \<not> (\<exists>n\<in>set nodes. at_cpu spec n)"
  "reason_holds spec nodes ''INSUFFICIENT_MEMORY'' \<longleftrightarrow>
     (\<exists>n\<in>set nodes. at_cpu spec n) \<and> \<not> (\<exists>n\<in>set nodes. at_memory spec n)"
  "reason_holds spec nodes ''CPU_AFFINITY_UNSUPPORTED'' \<longleftrightarrow>
     (\<exists>n\<in>set nodes. at_memory spec n) \<and> \<not> (\<exists>n\<in>set nodes. at_capability spec n)"
  "reason_holds spec nodes ''REQUESTED_CPU_PACKAGE_NOT_FOUND'' \<longleftrightarrow>
     (\<exists>n\<in>set nodes. at_capability spec n) \<and> \<not> (\<exists>n\<in>set nodes. at_package_present spec n)"
  "reason_holds spec nodes ''INSUFFICIENT_CPU_PACKAGE'' \<longleftrightarrow>
     (\<exists>n\<in>set nodes. at_package_present spec n) \<and> \<not> (\<exists>n\<in>set nodes. at_package spec n)"
  "reason_holds spec nodes ''REQUESTED_GPU_NOT_FOUND'' \<longleftrightarrow>
     (\<exists>n\<in>set nodes. at_package spec n) \<and> \<not> (\<exists>n\<in>set nodes. at_gpu_inventory spec n)"
  "reason_holds spec nodes ''REQUESTED_GPU_ALLOCATED'' \<longleftrightarrow>
     (\<exists>n\<in>set nodes. at_gpu_inventory spec n) \<and> \<not> (\<exists>n\<in>set nodes. at_gpu_free spec n)"
  "reason_holds spec nodes ''NO_COMPATIBLE_GPU'' \<longleftrightarrow>
     (\<exists>n\<in>set nodes. at_package spec n) \<and> \<not> (\<exists>n\<in>set nodes. at_gpu_model spec n)"
  "reason_holds spec nodes ''RESOURCES_ALLOCATED'' \<longleftrightarrow>
     (\<exists>n\<in>set nodes. at_package spec n) \<and> \<not> (\<exists>n\<in>set nodes. feasible spec n)"
  by (simp_all add: reason_holds_def Let_def)

lemma memory_package:
  "\<not> pkg_requested spec \<Longrightarrow> at_memory spec n \<Longrightarrow> at_package spec n"
  by (simp add: pkg_requested_def at_package_def package_fits_def)

lemma queue_reason_holds:
  assumes none: "\<not> (\<exists>n\<in>set nodes. feasible spec n)"
  shows "reason_holds spec nodes (fst (queue_reason spec (select_scan spec nodes)))"
proof -
  define E where "E P \<longleftrightarrow> (\<exists>n\<in>set nodes. P spec n)" for P :: "JobSpec \<Rightarrow> Node \<Rightarrow> bool"
  note folds = E_def [of at_target, symmetric] E_def [of at_online, symmetric] E_def [of at_labels, symmetric]
    E_def [of at_cpu, symmetric] E_def [of at_memory, symmetric] E_def [of at_capability, symmetric]
    E_def [of at_package_present, symmetric] E_def [of at_package, symmetric] E_def [of at_gpu_inventory, symmetric]
    E_def [of at_gpu_free, symmetric] E_def [of at_gpu_model, symmetric] E_def [of feasible, symmetric]
  have package: "E at_package" if "E at_memory" "\<not> pkg_requested spec"
    using that memory_package by (auto simp: E_def)
  have requested: "(\<exists>n\<in>set nodes. at_package spec n \<and> pkg_requested spec) \<longleftrightarrow> E at_package \<and> pkg_requested spec"
    by (auto simp: E_def)
  have target: "\<not> (\<exists>n\<in>set nodes. node_ID n = spec_TargetNodeID spec)"
    if "spec_TargetNodeID spec \<noteq> ''''" "\<not> E at_target"
    using that by (auto simp: E_def at_target_def)
  show ?thesis
    using none package target
    unfolding queue_reason_def Let_def scan_flags pkg_requested_def [symmetric] requested folds
      if_distrib [of fst] fst_conv if_distrib [of "reason_holds spec nodes"] reason_simps
    by argo
qed

text \<open>The code with which \<^verbatim>\<open>selectNode\<close> makes a job wait is true of the job and the nodes: every stage
  before it is passed by some node, and no node passes the one it names.\<close>

theorem waiting_reason_is_true:
  assumes "selectNode spec nodes = Inl (code, message)"
  shows "reason_holds spec nodes code"
proof -
  from assms have "queue_reason spec (select_scan spec nodes) = (code, message)"
    by (auto simp: selectNode_def Let_def split: list.splits)
  moreover have "\<not> (\<exists>n\<in>set nodes. feasible spec n)"
    using assms selectNode_Inl_iff [of spec nodes] by blast
  ultimately show ?thesis using queue_reason_holds [of nodes spec] by simp
qed

theorem waiting_reason_is_true_witness:
  "reason_holds sample_spec [sample_node\<lparr>node_CPUTotalMillis := 500\<rparr>] ''INSUFFICIENT_CPU''"
proof -
  have "selectNode sample_spec [sample_node\<lparr>node_CPUTotalMillis := 500\<rparr>] =
    Inl (''INSUFFICIENT_CPU'', ''Waiting: compatible nodes do not have enough unreserved CPU'')"
    by code_simp
  then show ?thesis by (rule waiting_reason_is_true)
qed

section \<open>Accounting\<close>

definition jobs_on :: "string \<Rightarrow> Job list \<Rightarrow> Job list" where
  "jobs_on i jobs = filter (\<lambda>j. IsActive (job_Status j) \<and> job_AssignedNodeID j = i) jobs"

lemma update_last_key:
  assumes "distinct (map key xs)"
  shows "update_last (\<lambda>x. key x = k) f xs = map (\<lambda>x. if key x = k then f x else x) xs"
  using assms
  by (induction xs) (auto simp: list_ex_iff image_iff intro!: map_idI [symmetric])

lemma account_job_map:
  assumes "distinct (map node_ID ns)"
  shows "account_job ns job =
    map (\<lambda>n. if IsActive (job_Status job) \<and> job_AssignedNodeID job \<noteq> '''' \<and> node_ID n = job_AssignedNodeID job
             then charge_node (spec_Resources (job_Spec job)) n else n) ns"
  using assms by (auto simp: account_job_def update_last_key)

lemma i64_add_left: "i64 (i64 a + b) = i64 (a + b)"
  by (simp add: i64_def mod_simps algebra_simps)

definition charge_job :: "Node \<Rightarrow> Job \<Rightarrow> Node" where
  "charge_job n job =
     (if IsActive (job_Status job) \<and> job_AssignedNodeID job \<noteq> '''' \<and> node_ID n = job_AssignedNodeID job
      then charge_node (spec_Resources (job_Spec job)) n else n)"

lemma charge_job_id [simp]: "node_ID (charge_job n job) = node_ID n"
  by (simp add: charge_job_def)

lemma account_jobs_map:
  "distinct (map node_ID ns) \<Longrightarrow> foldl account_job ns jobs = map (\<lambda>n. foldl charge_job n jobs) ns"
proof (induction jobs arbitrary: ns)
  case (Cons job jobs)
  have "distinct (map node_ID (map (\<lambda>n. charge_job n job) ns))" using Cons.prems by (simp add: comp_def)
  from Cons.IH [OF this] account_job_map [OF Cons.prems, of job] show ?case
    by (simp add: charge_job_def [symmetric] comp_def)
qed simp

lemma charge_jobs_id [simp]: "node_ID (foldl charge_job n jobs) = node_ID n"
  by (induction jobs arbitrary: n) simp_all

lemma charge_jobs_gpus: "node_GPUs (foldl charge_job n jobs) = node_GPUs n"
  by (induction jobs arbitrary: n) (simp_all add: charge_job_def charge_node_def)

definition cpu_requests :: "Job list \<Rightarrow> int" where
  "cpu_requests jobs = sum_list (map (\<lambda>j. res_CPUMillis (spec_Resources (job_Spec j))) jobs)"

definition memory_requests :: "Job list \<Rightarrow> int" where
  "memory_requests jobs = sum_list (map (\<lambda>j. res_MemoryBytes (spec_Resources (job_Spec j))) jobs)"

lemma charge_jobs_totals:
  "node_ID n \<noteq> '''' \<Longrightarrow> i64 (node_CPUAllocatedMillis (foldl charge_job n jobs)) =
     i64 (node_CPUAllocatedMillis n + cpu_requests (jobs_on (node_ID n) jobs)) \<and>
   i64 (node_MemoryAllocatedBytes (foldl charge_job n jobs)) =
     i64 (node_MemoryAllocatedBytes n + memory_requests (jobs_on (node_ID n) jobs))"
proof (induction jobs arbitrary: n)
  case (Cons job jobs)
  then show ?case
    by (auto simp: charge_job_def charge_node_def jobs_on_def cpu_requests_def memory_requests_def
        i64_add_left add.assoc)
qed (simp add: jobs_on_def cpu_requests_def memory_requests_def)

text \<open>Building the snapshot charges every node with exactly the active jobs assigned to it: the CPU and
  memory counted are what it had plus their requests (modulo 64 bits), and a GPU is marked exactly when
  the allocation table says so.\<close>

theorem account_charges_active_jobs:
  assumes "distinct (map node_ID nodes)" "n \<in> set nodes" "node_ID n \<noteq> ''''"
  shows "\<exists>m\<in>set (Account nodes jobs alloc). node_ID m = node_ID n \<and>
    i64 (node_CPUAllocatedMillis m) =
      i64 (node_CPUAllocatedMillis n + cpu_requests (jobs_on (node_ID n) jobs)) \<and>
    i64 (node_MemoryAllocatedBytes m) =
      i64 (node_MemoryAllocatedBytes n + memory_requests (jobs_on (node_ID n) jobs)) \<and>
    node_GPUs m = map (mark_allocated (alloc (node_ID n))) (node_GPUs n)"
proof -
  let ?mark = "\<lambda>n. n\<lparr>node_GPUs := map (mark_allocated (alloc (node_ID n))) (node_GPUs n)\<rparr>"
  have "Account nodes jobs alloc = map (\<lambda>n. foldl charge_job (?mark n) jobs) nodes"
    using assms(1) by (simp add: Account_def account_jobs_map comp_def)
  then have "foldl charge_job (?mark n) jobs \<in> set (Account nodes jobs alloc)" using assms(2) by simp
  then show ?thesis
    using charge_jobs_totals [of "?mark n" jobs] assms(3)
    by (intro bexI [of _ "foldl charge_job (?mark n) jobs"]) (simp_all add: charge_jobs_gpus)
qed

theorem account_charges_active_jobs_witness:
  "\<exists>m\<in>set (Account [sample_node] [(sample_job ''j'')\<lparr>job_Status := JobRunning, job_AssignedNodeID := ''n1''\<rparr>]
      (\<lambda>n u. u = ''g1'')). i64 (node_CPUAllocatedMillis m) = 1000"
proof -
  let ?j = "(sample_job ''j'')\<lparr>job_Status := JobRunning, job_AssignedNodeID := ''n1''\<rparr>"
  have "i64 (node_CPUAllocatedMillis sample_node + cpu_requests (jobs_on (node_ID sample_node) [?j])) = 1000"
    by code_simp
  with account_charges_active_jobs [of "[sample_node]" sample_node "[?j]" "\<lambda>n u. u = ''g1''"]
  show ?thesis by (auto simp: sample_node_def)
qed

text \<open>Placing the selected job in the snapshot overcommits no node: CPU, memory and package allocations
  stay between zero and the totals of every node.\<close>

theorem reservation_fits:
  assumes "selectNode spec nodes = Inr c" "sane_request (spec_Resources spec)"
    "distinct (map node_ID nodes)" "list_all sane_node nodes"
  shows "list_all sane_node
    (reserveInSnapshot nodes (node_ID (cand_node c)) (spec_Resources spec) (cand_gpuUUIDs c))"
  by (rule reserve_selected_sane [OF assms])

theorem reservation_fits_witness:
  "\<exists>c :: candidate. list_all sane_node (reserveInSnapshot [sample_node] (node_ID (cand_node c)) (spec_Resources sample_spec)
     (cand_gpuUUIDs c))"
proof -
  from sample_selection obtain c where c: "selectNode sample_spec [sample_node] = Inr c" by blast
  have "list_all sane_node (reserveInSnapshot [sample_node] (node_ID (cand_node c)) (spec_Resources sample_spec)
     (cand_gpuUUIDs c))"
    by (rule reservation_fits [OF c]) (simp_all add: sample_sane)
  then show ?thesis by blast
qed

end
