(* ===== verification/JobProperties.thy ===== *)
theory JobProperties
  imports Samples
begin

text \<open>
  What the job store guarantees over every sequence of committed operations, what an operation does
  whatever commits while it runs, and where the code gives less than its own transition table.
\<close>

section \<open>Every reachable database\<close>

lemma reachable_inv: "store_step\<^sup>*\<^sup>* empty_db d \<Longrightarrow> store_inv d"
  by (rule store.run_inv [OF _ empty_inv])



lemma from_deleted: "lifecycle_edge JobDeleted y \<Longrightarrow> y = JobDeleted"
  by (simp add: lifecycle_edge_def CanTransition_def is_finished_def split: if_splits)

lemma from_deleting: "lifecycle_edge JobDeleting y \<Longrightarrow> y = JobDeleting \<or> y = JobDeleted"
  by (auto simp: lifecycle_edge_def CanTransition_def is_finished_def split: if_splits)

text \<open>A deleted job stays deleted: no sequence of operations gives it another status, and a job being
  deleted can only become deleted.\<close>

theorem deletion_is_final:
  assumes "store_step\<^sup>*\<^sup>* empty_db d" "store_step\<^sup>*\<^sup>* d d'" "job_status d i = Some a"
    and "a = JobDeleting \<or> a = JobDeleted"
  shows "\<exists>b. job_status d' i = Some b \<and> (b = JobDeleted \<or> b = JobDeleting \<and> a = JobDeleting)"
proof -
  note stays = store.run_stays [OF assms(2) reachable_inv [OF assms(1)] assms(3)]
  show ?thesis
  proof (cases "a = JobDeleted")
    case True
    with stays [of "{JobDeleted}"] from_deleted show ?thesis by blast
  next
    case False
    with assms(4) have "a = JobDeleting" by blast
    with stays [of "{JobDeleting, JobDeleted}"] from_deleting from_deleted show ?thesis by blast
  qed
qed

theorem deletion_is_final_witness:
  "\<exists>b. job_status deleted_db ''j1'' = Some b \<and> (b = JobDeleted \<or> b = JobDeleting \<and> JobDeleting = JobDeleting)"
  by (rule deletion_is_final [OF then_step [OF finished_reachable deleting_step] _ sample_values(4)])
    (auto intro: deleted_step)






text \<open>The attempts of a job are numbered 1, 2, 3, ... in the order of their creation, without gaps or
  repetitions, through any number of reruns.\<close>

theorem attempts_are_numbered:
  assumes "store_step\<^sup>*\<^sup>* empty_db d"
  shows "attempt_numbers i (tbl_attempts d) = [1..int (length (attempt_numbers i (tbl_attempts d)))]"
  using reachable_inv [OF assms] unfolding store_inv_def attempts_ok_def by blast

theorem attempts_are_numbered_witness: "attempt_numbers ''j1'' (tbl_attempts rerun_db) = [1..2]"
proof -
  have "length (attempt_numbers ''j1'' (tbl_attempts rerun_db)) = 2" by code_simp
  with attempts_are_numbered [OF rerun_reachable, of "''j1''"] show ?thesis by simp
qed

section \<open>Operations under interference\<close>













text \<open>\<^verbatim>\<open>RequestStop\<close> decides on the status it read: once that was an active one, the job becomes
  \<^verbatim>\<open>STOPPING\<close> whatever was committed before the write. So a completion committed in between is
  overwritten, a move \<^verbatim>\<open>CanTransition\<close> forbids.\<close>

theorem stop_overwrites:
  assumes "job_status d i = Some a" "stoppable a" "job_status (env d) i \<noteq> None"
  shows "job_status (snd (RequestStop env i now d)) i = Some JobStopping"
proof -
  from assms(1) obtain job where job: "Job i d = Inr job" "job_Status job = a"
    by (auto simp: job_status_def Job_Inr)
  from assms(3) obtain r where r: "job_row i (env d) = Some r" "jr_id r = i"
    by (auto simp: job_status_def dest: job_row_Some)
  have "job_Status job \<noteq> JobQueued" using job(2) assms(2) by (auto simp: stoppable_def)
  with job assms(2) r show ?thesis
    by (simp add: RequestStop_def Let_def job_status_def job_row_def find_update_where)
qed

theorem stop_overwrites_witness:
  "job_status finished_db ''j1'' = Some JobSucceeded \<and>
   job_status (snd (RequestStop (\<lambda>_. finished_db) ''j1'' 9 placed_db)) ''j1'' = Some JobStopping \<and>
   \<not> CanTransition JobSucceeded JobStopping"
  using stop_overwrites [OF sample_values(1), of "\<lambda>_. finished_db" 9] sample_values(2)
  by (simp add: stoppable_def CanTransition_def)

text \<open>\<^verbatim>\<open>RequestStop\<close> with nothing in between: a queued job is cancelled, an active one begins to stop,
  every other status is a conflict and nothing changes.\<close>

theorem stop_by_status:
  assumes "job_status d i = Some a"
  shows "if a = JobQueued then fst (RequestStop (\<lambda>e. e) i now d) = Inr () \<and>
           job_status (snd (RequestStop (\<lambda>e. e) i now d)) i = Some JobCancelled
         else if stoppable a then fst (RequestStop (\<lambda>e. e) i now d) = Inr () \<and>
           job_status (snd (RequestStop (\<lambda>e. e) i now d)) i = Some JobStopping
         else RequestStop (\<lambda>e. e) i now d = (Inl ErrConflict, d)"
proof -
  from assms obtain r where "job_row i d = Some r" "jr_id r = i" "jr_status r = a"
    by (auto simp: job_status_def dest: job_row_Some)
  then show ?thesis
    by (simp add: RequestStop_def Job_def Let_def job_status_def job_row_def find_update_where)
qed

theorem stop_by_status_witness:
  "RequestStop (\<lambda>e. e) ''j1'' 9 finished_db = (Inl ErrConflict, finished_db)"
  using stop_by_status [OF sample_values(2), of 9] by (simp add: stoppable_def)

end
