(* ===== verification/AgentProperties.thy ===== *)
theory AgentProperties
  imports Samples
begin

text \<open>
  What agents, and the tokens of jobs, can do to the store: stale reports are refused, tokens end
  with the attempt, repeated reports and confirmations change nothing, and the node administration
  keeps what it promises.
\<close>

section \<open>Reports and tokens\<close>

text \<open>A report about another node's job, about an attempt that is not the job's current one, or of raw
  telemetry changes nothing and is answered with the code for it.\<close>

theorem stale_reports_rejected:
  assumes "Job i d = Inr job"
    and "job_AssignedNodeID job \<noteq> n \<or> ag_attemptID body \<noteq> job_AttemptID job \<or> ag_type body = ''resource_sample''"
  shows "\<exists>code reason. agentEvent env n i body now d = (Problem code reason, d) \<and> code \<in> {403, 409, 422}"
  using assms by (auto simp: agentEvent_def)

theorem stale_reports_rejected_witness:
  "\<exists>code reason. agentEvent no_env ''n1'' ''j1''
     \<lparr>ag_attemptID = ''ax0'', ag_sequence = 9, ag_type = ''status'', ag_report = sample_report JobFailed,
      ag_payload = [], ag_outputs = []\<rparr> 9 rerun_db = (Problem code reason, rerun_db)"
proof -
  let ?b = "\<lparr>ag_attemptID = ''ax0'', ag_sequence = 9, ag_type = ''status'', ag_report = sample_report JobFailed,
      ag_payload = [], ag_outputs = []\<rparr>"
  have "case Job ''j1'' rerun_db of Inl e \<Rightarrow> False | Inr job \<Rightarrow> job_AttemptID job = ''ay0''" by code_simp
  then obtain job where job: "Job ''j1'' rerun_db = Inr job" "job_AttemptID job = ''ay0''"
    by (auto split: sum.splits)
  from stale_reports_rejected [OF job(1), of "''n1''" ?b no_env 9] job(2) show ?thesis by fastforce
qed


lemma finishing_transaction:
  assumes "status_transaction job rp now d = Some (Inr (), d')" "is_finished (rp_status rp)"
  obtains s where "rows_affected (\<lambda>r. jr_id r = job_ID job \<and> jr_status r = job_Status job \<and>
      jr_attempt_id r = Some (job_AttemptID job)) (tbl_jobs d) = 1"
    and "tbl_jobs d' = update_where (\<lambda>r. jr_id r = job_ID job \<and> jr_status r = job_Status job \<and>
      jr_attempt_id r = Some (job_AttemptID job)) (status_job_row rp s (Some (formatTime now))) (tbl_jobs d)"
    and "tbl_attempts d' = update_where (\<lambda>a. ar_id a = job_AttemptID job \<and> ar_job_id a = job_ID job)
      (status_attempt_row rp s (Some (formatTime now))) (tbl_attempts d)"
  by (rule that [of "if rp_status rp = JobRunning \<and> job_StartedAt job = None then Some (formatTime now) else None"];
      use assms in \<open>auto simp: status_transaction_def Let_def split: if_splits\<close>)

lemma JobByToken_attempt:
  assumes "JobByToken h d = Inr job"
  shows "\<exists>r\<in>set (tbl_jobs d). \<exists>a\<in>set (tbl_attempts d). job = scanJob r \<and> ar_job_id a = jr_id r \<and>
    jr_attempt_id r = Some (ar_id a) \<and> ar_job_token_hash a = h"
  using assms by (fastforce simp: JobByToken_def has_row_iff split: option.splits dest!: find_Some_in)

text \<open>C7: Once a report finishes an attempt its token is dead: no token hash (which is never of the form
  \<^verbatim>\<open>revoked:...\<close>) gives access to that job any more.\<close>

theorem finished_token_is_revoked:
  assumes "status_transaction job rp now d = Some (Inr (), d')" "is_finished (rp_status rp)"
    and "distinct (map jr_id (tbl_jobs d))" "distinct (map ar_id (tbl_attempts d))"
    and "JobByToken h d' = Inr job'" "\<not> HasPrefix h ''revoked:''"
  shows "job_ID job' \<noteq> job_ID job"
proof
  assume same: "job_ID job' = job_ID job"
  let ?match = "\<lambda>r. jr_status r = job_Status job \<and> jr_attempt_id r = Some (job_AttemptID job)"
  let ?amatch = "\<lambda>a. ar_id a = job_AttemptID job \<and> ar_job_id a = job_ID job"
  let ?f = "Some (formatTime now)"
  from finishing_transaction [OF assms(1,2)] obtain s where
    m: "rows_affected (\<lambda>r. jr_id r = job_ID job \<and> ?match r) (tbl_jobs d) = 1"
    and j: "tbl_jobs d' = update_where (\<lambda>r. jr_id r = job_ID job \<and> ?match r) (status_job_row rp s ?f) (tbl_jobs d)"
    and a: "tbl_attempts d' = update_where ?amatch (status_attempt_row rp s ?f) (tbl_attempts d)" .
  from JobByToken_attempt [OF assms(5)] same obtain r' t' where
    r': "r' \<in> set (tbl_jobs d')" "jr_id r' = job_ID job"
    and t': "t' \<in> set (tbl_attempts d')" "ar_job_id t' = job_ID job" "jr_attempt_id r' = Some (ar_id t')"
      "ar_job_token_hash t' = h" by auto
  from r'(1) j obtain r where r: "r \<in> set (tbl_jobs d)" "jr_id r = job_ID job" "jr_attempt_id r' = jr_attempt_id r"
    using r'(2) by (auto simp: set_update_where split: if_splits)
  from m rows_affected_one [OF assms(3), of "job_ID job" ?match] obtain q where
    "job_row (job_ID job) d = Some q" "?match q" by (auto simp: job_row_def)
  with r job_row_in [OF assms(3) r(1)] have att: "jr_attempt_id r = Some (job_AttemptID job)" by auto
  with t' r have "ar_id t' = job_AttemptID job" by simp
  with t' a obtain t where "t' = status_attempt_row rp s ?f t"
    by (auto simp: set_update_where split: if_splits)
  with t'(4) have "h = ''revoked:'' @ ar_id t" by (simp add: status_attempt_row_def)
  with assms(6) show False by (simp add: HasPrefix_def)
qed

definition running_db :: db where
  "running_db = snd (UpdateJobStatus no_env ''j1'' (sample_report JobRunning) 7000000000 placed_db)"

theorem finished_token_is_revoked_witness:
  "\<exists>job'. JobByToken ''hx1'' finished_db = Inr job' \<and> job_ID job' \<noteq> ''j1''"
proof -
  have "case Job ''j1'' running_db of Inl e \<Rightarrow> False
    | Inr job \<Rightarrow> job_ID job = ''j1'' \<and> (case status_transaction job (sample_report JobSucceeded) 8000000000 running_db of
        None \<Rightarrow> False | Some (res, d') \<Rightarrow> res = Inr () \<and> is_ok (JobByToken ''hx1'' d'))"
    by code_simp
  moreover have "distinct (map jr_id (tbl_jobs running_db)) \<and> distinct (map ar_id (tbl_attempts running_db))"
    by code_simp
  moreover have "case JobByToken ''hx1'' finished_db of Inl e \<Rightarrow> False | Inr j \<Rightarrow> True" by code_simp
  moreover have "(case Job ''j1'' running_db of Inl e \<Rightarrow> None | Inr job \<Rightarrow>
      map_option snd (status_transaction job (sample_report JobSucceeded) 8000000000 running_db)) = Some finished_db"
    by code_simp
  ultimately obtain job job' where "job_ID job = ''j1''" "JobByToken ''hx1'' finished_db = Inr job'"
    "status_transaction job (sample_report JobSucceeded) 8000000000 running_db = Some (Inr (), finished_db)"
    "distinct (map jr_id (tbl_jobs running_db))" "distinct (map ar_id (tbl_attempts running_db))"
    by (auto split: sum.splits option.splits)
  with finished_token_is_revoked [of job "sample_report JobSucceeded" 8000000000 running_db finished_db "''hx1''" job']
  show ?thesis by (simp add: is_finished_def sample_report_def HasPrefix_def)
qed

section \<open>Acceptance\<close>

text \<open>\<^verbatim>\<open>AcceptAssignment\<close> puts the attempt of the assignment in \<^verbatim>\<open>STARTING\<close> whatever its status was, so a
  delayed acceptance reopens an attempt that has already finished.\<close>

theorem acceptance_resets_attempt:
  assumes "has_row (\<lambda>a. as_id a = i \<and> as_node_id a = n) (tbl_assignments d)"
    and "t \<in> set (tbl_attempts d)" "ar_assignment_id t = i"
  shows "\<exists>t'\<in>set (tbl_attempts (snd (AcceptAssignment n i c now d))). ar_id t' = ar_id t \<and> ar_status t' = JobStarting"
proof -
  from assms(1) have "rows_affected (\<lambda>a. as_id a = i \<and> as_node_id a = n) (tbl_assignments d) \<noteq> 0"
    by (auto simp: has_row_iff rows_affected_zero)
  then have "tbl_attempts (snd (AcceptAssignment n i c now d)) = update_where (\<lambda>a. ar_assignment_id a = i)
      (\<lambda>a. a\<lparr>ar_container_id := c, ar_status := JobStarting\<rparr>) (tbl_attempts d)"
    by (simp add: AcceptAssignment_def Let_def)
  with assms(2,3) have "t\<lparr>ar_container_id := c, ar_status := JobStarting\<rparr>
      \<in> set (tbl_attempts (snd (AcceptAssignment n i c now d)))"
    by (auto simp: set_update_where image_iff intro!: bexI [of _ t])
  then show ?thesis by (rule bexI [rotated]) simp
qed

theorem acceptance_resets_attempt_witness:
  "list_ex (\<lambda>t. ar_id t = ''ax0'' \<and> ar_status t = JobSucceeded) (tbl_attempts finished_db) \<and>
   list_ex (\<lambda>t. ar_id t = ''ax0'' \<and> ar_status t = JobStarting)
     (tbl_attempts (snd (AcceptAssignment ''n1'' ''sx0'' ''c'' 9000000000 finished_db)))"
proof -
  have a: "list_ex (\<lambda>t. ar_id t = ''ax0'' \<and> ar_status t = JobSucceeded \<and> ar_assignment_id t = ''sx0'')
      (tbl_attempts finished_db)"
    and b: "has_row (\<lambda>a. as_id a = ''sx0'' \<and> as_node_id a = ''n1'') (tbl_assignments finished_db)"
    by code_simp+
  from a obtain t where t: "t \<in> set (tbl_attempts finished_db)" "ar_id t = ''ax0''" "ar_status t = JobSucceeded"
    "ar_assignment_id t = ''sx0''" by (auto simp: list_ex_iff)
  from acceptance_resets_attempt [OF b t(1,4), of "''c''" 9000000000] t show ?thesis
    by (auto simp: list_ex_iff)
qed

lemma AssignmentForNode_source:
  assumes "fst (AssignmentForNode m now d) = Inr asg"
  shows "\<exists>a\<in>set (tbl_assignments d). assignment_pending d m a \<and> asg_ID asg = as_id a"
proof -
  let ?rows = "order_by as_created_at (filter (assignment_pending d m) (tbl_assignments d))"
  from assms obtain a rest where a: "?rows = a # rest" "asg_ID asg = as_id a"
    by (auto simp: AssignmentForNode_def split: list.splits option.splits)
  then have "a \<in> set ?rows" by simp
  with a(2) show ?thesis by auto
qed

text \<open>An accepted assignment is not delivered again: after its acceptance \<^verbatim>\<open>AssignmentForNode\<close> answers
  every node with another assignment or with none.\<close>

theorem accepted_not_delivered_again:
  assumes "distinct (map as_id (tbl_assignments d))"
    and "has_row (\<lambda>a. as_id a = i \<and> as_node_id a = n) (tbl_assignments d)"
    and "fst (AssignmentForNode m later (snd (AcceptAssignment n i c now d))) = Inr asg"
  shows "asg_ID asg \<noteq> i"
proof
  let ?d = "snd (AcceptAssignment n i c now d)"
  assume i: "asg_ID asg = i"
  from assms(2) have "rows_affected (\<lambda>a. as_id a = i \<and> as_node_id a = n) (tbl_assignments d) \<noteq> 0"
    by (auto simp: has_row_iff rows_affected_zero)
  then have t: "tbl_assignments ?d = update_where (\<lambda>a. as_id a = i \<and> as_node_id a = n)
      (\<lambda>a. a\<lparr>as_accepted_at := coalesce (as_accepted_at a) (Some (formatTime now))\<rparr>) (tbl_assignments d)"
    by (simp add: AcceptAssignment_def Let_def)
  from AssignmentForNode_source [OF assms(3)] obtain a where
    a: "a \<in> set (tbl_assignments ?d)" "assignment_pending ?d m a" and "asg_ID asg = as_id a"
    by (elim bexE conjE)
  with i have a3: "as_id a = i" by simp
  from a(1) obtain b where b: "b \<in> set (tbl_assignments d)"
    "a = (if as_id b = i \<and> as_node_id b = n
      then b\<lparr>as_accepted_at := coalesce (as_accepted_at b) (Some (formatTime now))\<rparr> else b)"
    unfolding t set_update_where by (rule imageE) blast
  with a3 have id: "as_id b = i" by (simp split: if_splits)
  from assms(2) obtain e where e: "e \<in> set (tbl_assignments d)" "as_id e = i" "as_node_id e = n"
    by (auto simp: has_row_iff)
  from e id b(1) assms(1) have "b = e" by (simp add: distinct_map inj_on_def)
  with e b id have "as_accepted_at a \<noteq> None" by (simp add: coalesce_def split: option.split)
  with a(2) show False by (simp add: assignment_pending_def)
qed

theorem accepted_not_delivered_again_witness:
  "\<exists>asg. fst (AssignmentForNode ''n1'' 9 (snd (AcceptAssignment ''n1'' ''sx0'' ''c'' 8 placed_db))) = Inr asg \<and>
     asg_ID asg \<noteq> ''sx0''"
proof -
  have d: "distinct (map as_id (tbl_assignments placed_db))"
    and h: "has_row (\<lambda>a. as_id a = ''sx0'' \<and> as_node_id a = ''n1'') (tbl_assignments placed_db)"
    and o: "is_ok (fst (AssignmentForNode ''n1'' 9 (snd (AcceptAssignment ''n1'' ''sx0'' ''c'' 8 placed_db))))"
    by code_simp+
  from o obtain asg where
    "fst (AssignmentForNode ''n1'' 9 (snd (AcceptAssignment ''n1'' ''sx0'' ''c'' 8 placed_db))) = Inr asg"
    by (cases "fst (AssignmentForNode ''n1'' 9 (snd (AcceptAssignment ''n1'' ''sx0'' ''c'' 8 placed_db)))") auto
  with accepted_not_delivered_again [OF d h this] show ?thesis by blast
qed

section \<open>GPUs in use\<close>

text \<open>Every GPU an active job holds is in \<^verbatim>\<open>AllocatedGPUUUIDs\<close>, in every reachable database, so the
  scheduler never sees it as free.\<close>

theorem held_gpus_are_allocated:
  assumes "store_step\<^sup>*\<^sup>* empty_db d" "r \<in> set (tbl_jobs d)" "IsActive (jr_status r)" "holds_gpu d r n u"
  shows "AllocatedGPUUUIDs d n u"
  using holds_allocated [OF _ assms(2) _ assms(4)] store.run_inv [OF assms(1) empty_inv] assms(3)
  by (simp add: store_inv_def active_row_def)

theorem held_gpus_are_allocated_witness: "AllocatedGPUUUIDs placed_db ''n1'' ''g1''"
proof -
  have "list_ex (\<lambda>r. IsActive (jr_status r) \<and>
    list_ex (\<lambda>s. as_job_id s = jr_id r \<and> jr_attempt_id r = Some (as_attempt_id s) \<and> as_node_id s = ''n1'' \<and>
      List.member (as_gpu_uuids s) ''g1'') (tbl_assignments placed_db)) (tbl_jobs placed_db)"
    by code_simp
  then obtain r where "r \<in> set (tbl_jobs placed_db)" "IsActive (jr_status r)" "holds_gpu placed_db r ''n1'' ''g1''"
    by (auto simp: list_ex_iff holds_gpu_def)
  then show ?thesis by (rule held_gpus_are_allocated [OF placed_reachable])
qed

text \<open>Two jobs on one GPU each; the first is rerun while the second holds its former GPU, which then ends.\<close>

definition swapped_db :: db where
  "swapped_db =
     snd (UpdateJobStatus no_env ''j2'' (sample_report JobFailed) 9000000000
       (snd (Schedule 8000000000 (sample_ticket ''z'') (snd (RerunJob ''j1''
         (snd (Schedule 7000000000 (sample_ticket ''y'') (snd (CreateJob (sample_job ''j2'')
           (snd (UpdateJobStatus no_env ''j1'' (sample_report JobFailed) 6000000000
             (snd (Schedule 5000000000 (sample_ticket ''x'')
               (snd (CreateJob (sample_job ''j1'') (snd (UpsertNode sample_node ''k1'' 0 empty_db)))))))))))))))))"

lemma swapped_reachable: "store_step\<^sup>*\<^sup>* empty_db swapped_db"
  unfolding swapped_db_def
  by (rule then_step [OF _ store_step.schedule] then_step [OF _ store_step.update]
      then_step [OF _ store_step.rerun] then_create then_step [OF _ store_step.upsert] rtranclp.rtrancl_refl)+

text \<open>The converse fails: after a rerun, \<^verbatim>\<open>AllocatedGPUUUIDs\<close> still counts the GPU of the job's earlier
  attempt, although no active job holds it. There is a reachable database with such a GPU, which the
  scheduler then treats as taken.\<close>

theorem rerun_keeps_old_gpus_allocated:
  "\<exists>d n u. store_step\<^sup>*\<^sup>* empty_db d \<and> AllocatedGPUUUIDs d n u \<and>
     \<not> (\<exists>r\<in>set (tbl_jobs d). IsActive (jr_status r) \<and> holds_gpu d r n u)"
proof -
  have "AllocatedGPUUUIDs swapped_db ''n1'' ''g1''" by code_simp
  moreover have "\<not> list_ex (\<lambda>r. IsActive (jr_status r) \<and>
    list_ex (\<lambda>s. as_job_id s = jr_id r \<and> jr_attempt_id r = Some (as_attempt_id s) \<and> as_node_id s = ''n1'' \<and>
      List.member (as_gpu_uuids s) ''g1'') (tbl_assignments swapped_db)) (tbl_jobs swapped_db)"
    by code_simp
  ultimately show ?thesis using swapped_reachable by (fastforce simp: list_ex_iff holds_gpu_def)
qed

end
