(* ===== verification/NodeProperties.thy ===== *)
theory NodeProperties
  imports Samples
begin

text \<open>
  The event log, checkpoints and nodes: what repeated reports do, what a heartbeat may change, when a
  node can be removed, how a credential is rotated, and which jobs the sweep over silent nodes loses.
\<close>


section \<open>Events and checkpoints\<close>

text \<open>Delivering an event again changes nothing and succeeds: \<^verbatim>\<open>AppendEvent\<close> is idempotent.\<close>

theorem append_event_idempotent:
  assumes "AppendEvent e d = (Inr (), d')"
  shows "AppendEvent e d' = (Inr (), d')"
  using assms by (auto simp: AppendEvent_def push_event_def has_row_iff split: if_splits)

definition sample_event :: Event where
  "sample_event = \<lparr>event_ID = 0, event_JobID = ''j1'', event_AttemptID = ''ax0'', event_Sequence = 7,
     event_Type = ''status'', event_Status = JobRunning, event_Payload = [], event_CreatedAt = 0\<rparr>"

theorem append_event_idempotent_witness:
  "\<exists>d'. AppendEvent sample_event placed_db = (Inr (), d') \<and> AppendEvent sample_event d' = (Inr (), d')"
proof -
  have "is_ok (fst (AppendEvent sample_event placed_db))" by code_simp
  then obtain d' where "AppendEvent sample_event placed_db = (Inr (), d')"
    by (cases "AppendEvent sample_event placed_db") (auto simp: is_ok_def split: sum.splits)
  with append_event_idempotent [OF this] show ?thesis by blast
qed

text \<open>The server's own events never collide: for an existing job \<^verbatim>\<open>AppendServerEvent\<close> succeeds at the
  first try and its sequence number exceeds every earlier one of the job, whatever numbers agents chose.\<close>

theorem server_event_is_last:
  assumes "job_row i d = Some j"
  shows "\<exists>e. AppendServerEvent i ty payload now d = (Inr (), push_event e d) \<and> ev_job_id e = i \<and>
    ev_status e = jr_status j \<and> (\<forall>x\<in>set (tbl_events d). ev_job_id x = i \<longrightarrow> ev_sequence x < ev_sequence e)"
proof -
  let ?e = "next_event_row d i (jr_attempt_id j) ty (jr_status j) payload now"
  have last: "ev_sequence x < ev_sequence ?e" if "x \<in> set (tbl_events d)" "ev_job_id x = i" for x
  proof -
    from that have "ev_sequence x \<in> set (map ev_sequence (filter (\<lambda>e. ev_job_id e = i) (tbl_events d)))" by auto
    from max_or_zero_ge [OF this] show ?thesis by (simp add: next_event_row_def)
  qed
  then have "\<not> has_row (\<lambda>x. ev_job_id x = i \<and> ev_sequence x = ev_sequence ?e) (tbl_events d)"
    by (force simp: has_row_iff)
  with assms have "AppendServerEvent i ty payload now d = (Inr (), push_event ?e d)"
    by (simp add: AppendServerEvent_def numeral_3_eq_3 Let_def)
  moreover have "ev_job_id ?e = i" "ev_status ?e = jr_status j" by (simp_all add: next_event_row_def)
  ultimately show ?thesis using last by blast
qed

theorem server_event_is_last_witness:
  "\<exists>e. AppendServerEvent ''j1'' ''note'' [] 0 placed_db = (Inr (), push_event e placed_db) \<and> ev_job_id e = ''j1''"
proof -
  obtain j where "job_row ''j1'' placed_db = Some j" using sample_values(1) by (auto simp: job_status_def)
  from server_event_is_last [OF this] show ?thesis by blast
qed

text \<open>The first confirmation of a checkpoint is final: confirming it again, with any other manifest,
  leaves the database as it was.\<close>

theorem confirmation_is_final:
  assumes "ConfirmCheckpointSync i files now d = (Inr (), d')"
  shows "ConfirmCheckpointSync i files' now' d' = (Inr (), d')"
proof -
  let ?P = "\<lambda>c. cr_id c = i"
  let ?f = "\<lambda>files now c. c\<lparr>cr_confirmed_at := coalesce (cr_confirmed_at c) (Some (formatTime now)),
               cr_file_count := (if cr_confirmed_at c = None then int (length files) else cr_file_count c),
               cr_byte_count := (if cr_confirmed_at c = None then checkpoint_total files else cr_byte_count c),
               cr_manifest := (if cr_confirmed_at c = None then files else cr_manifest c)\<rparr>"
  have once: "update_where ?P (?f files' now') (update_where ?P (?f files now) cs) = update_where ?P (?f files now) cs"
    for cs :: "CheckpointRow list"
    by (induction cs) (auto simp: coalesce_def split: option.splits)
  have rows: "rows_affected ?P (update_where ?P (?f files now) cs) = rows_affected ?P cs" for cs :: "CheckpointRow list"
    by (induction cs) (auto simp: rows_affected_def)
  from assms have d': "rows_affected ?P (tbl_checkpoints d) \<noteq> 0"
    "d' = d\<lparr>tbl_checkpoints := update_where ?P (?f files now) (tbl_checkpoints d)\<rparr>"
    by (auto simp: ConfirmCheckpointSync_def split: if_splits)
  with once [of "tbl_checkpoints d"] rows [of "tbl_checkpoints d"] show ?thesis
    by (simp add: ConfirmCheckpointSync_def)
qed

definition sample_sync :: CheckpointSync where
  "sample_sync = \<lparr>sync_Cursor = 0, sync_ID = ''c1'', sync_JobID = ''j1'', sync_AttemptID = ''ax0'',
     sync_Status = ''PENDING'', sync_FileCount = 0, sync_ByteCount = 0, sync_RequestedAt = 0,
     sync_ConfirmedAt = None, sync_Label = '''', sync_Step = None, sync_ObservedAt = None, sync_Metadata = []\<rparr>"

theorem confirmation_is_final_witness:
  "\<exists>d'. ConfirmCheckpointSync ''c1'' [] 1 (snd (CreateCheckpointSync sample_sync placed_db)) = (Inr (), d') \<and>
     ConfirmCheckpointSync ''c1'' [\<lparr>ckfile_Path = ''x'', ckfile_Size = 5\<rparr>] 2 d' = (Inr (), d')"
proof -
  let ?d = "snd (CreateCheckpointSync sample_sync placed_db)"
  have "is_ok (fst (ConfirmCheckpointSync ''c1'' [] 1 ?d))" by code_simp
  then obtain d' where "ConfirmCheckpointSync ''c1'' [] 1 ?d = (Inr (), d')"
    by (cases "ConfirmCheckpointSync ''c1'' [] 1 ?d") (auto simp: is_ok_def split: sum.splits)
  with confirmation_is_final [OF this] show ?thesis by blast
qed

section \<open>Nodes\<close>

text \<open>A heartbeat refreshes what the agent reports but keeps what the administrator decided: a draining
  node stays draining, and the name and label overrides and the credentials are untouched.\<close>

theorem heartbeat_keeps_decisions:
  assumes "Heartbeat node d = (Inr (), d')" "r' \<in> set (tbl_nodes d')"
  shows "\<exists>r\<in>set (tbl_nodes d). nr_id r' = nr_id r \<and> (nr_status r = NodeDraining \<longrightarrow> nr_status r' = NodeDraining) \<and>
    nr_name_override r' = nr_name_override r \<and> nr_labels_override r' = nr_labels_override r \<and>
    nr_credential_hash r' = nr_credential_hash r \<and> nr_deleted_at r' = nr_deleted_at r \<and>
    (nr_id r \<noteq> node_ID node \<or> nr_deleted_at r \<noteq> None \<longrightarrow> r' = r)"
proof -
  let ?match = "\<lambda>r. nr_id r = node_ID node \<and> nr_deleted_at r = None"
  let ?f = "\<lambda>r. refresh_node_row node (if nr_status r = NodeDraining then nr_status r else node_Status node) r"
  let ?d = "d\<lparr>tbl_nodes := update_where ?match ?f (tbl_nodes d)\<rparr>"
  from assms(1) have "replace_inventory node ?d = Some d'"
    by (auto simp: Heartbeat_def Let_def split: if_splits option.splits)
  from replace_inventory_tables [OF this] assms(2) obtain r where
    r: "r \<in> set (tbl_nodes d)" "r' = (if ?match r then ?f r else r)"
    by (auto simp: set_update_where)
  then show ?thesis by (intro bexI [OF _ r(1)]) (auto simp: refresh_node_row_def)
qed

definition draining_db :: db where
  "draining_db = snd (SetNodeStatus ''n1'' NodeDraining placed_db)"

theorem heartbeat_keeps_decisions_witness:
  "\<exists>d' r'. Heartbeat sample_node draining_db = (Inr (), d') \<and> r' \<in> set (tbl_nodes d') \<and> nr_status r' = NodeDraining"
proof -
  have ok: "is_ok (fst (Heartbeat sample_node draining_db))"
    and all: "list_all (\<lambda>r. nr_status r = NodeDraining) (tbl_nodes draining_db)"
    and ne: "tbl_nodes (snd (Heartbeat sample_node draining_db)) \<noteq> []" by code_simp+
  from ok obtain d' where d': "Heartbeat sample_node draining_db = (Inr (), d')"
    by (cases "Heartbeat sample_node draining_db") (auto simp: is_ok_def split: sum.splits)
  with ne obtain r' where r': "r' \<in> set (tbl_nodes d')" by (cases "tbl_nodes d'") auto
  from heartbeat_keeps_decisions [OF d' r'] all have "nr_status r' = NodeDraining" by (auto simp: list_all_iff)
  with d' r' show ?thesis by blast
qed

text \<open>C8: A node is removed only when no active job is assigned to it, and from then on no credential
  authenticates it (the hashes are never of the form \<^verbatim>\<open>revoked:...\<close>).\<close>

theorem removed_node_is_locked_out:
  assumes "DeleteNode i now d = (Inr (), d')"
  shows "(\<forall>j\<in>set (tbl_jobs d). jr_assigned_node_id j = Some i \<longrightarrow> \<not> IsActive (jr_status j)) \<and>
    (\<forall>h t r. NodeByCredential h t d' = Inr r \<longrightarrow> nr_id r \<noteq> i)"
proof -
  from assms obtain r where free: "rows_affected (\<lambda>j. jr_assigned_node_id j = Some i \<and> active_row j) (tbl_jobs d) = 0"
    and nodes: "tbl_nodes d' = update_where (\<lambda>r. nr_id r = i \<and> nr_deleted_at r = None)
              (\<lambda>r. r\<lparr>nr_status := NodeOffline, nr_deleted_at := Some (formatTime now),
                     nr_credential_hash := ''revoked:'' @ nr_id r, nr_previous_credential_hash := None,
                     nr_previous_credential_expires_at := None\<rparr>) (tbl_nodes d)"
    by (auto simp: DeleteNode_def split: option.splits if_splits)
  from nodes have "\<forall>r\<in>set (tbl_nodes d'). nr_id r = i \<longrightarrow> nr_deleted_at r \<noteq> None"
    unfolding nodes ball_update_where by simp
  then have "nr_id r \<noteq> i" if "NodeByCredential h t d' = Inr r" for h t r
    using that by (auto simp: NodeByCredential_def split: option.splits dest!: find_Some_in)
  with free show ?thesis by (auto simp: rows_affected_zero active_row_def)
qed

theorem removed_node_is_locked_out_witness:
  "\<exists>d'. DeleteNode ''n1'' 5 (snd (UpsertNode sample_node ''k1'' 0 empty_db)) = (Inr (), d') \<and>
    (\<forall>r. NodeByCredential ''k1'' 6 d' = Inr r \<longrightarrow> nr_id r \<noteq> ''n1'')"
proof -
  let ?d = "snd (UpsertNode sample_node ''k1'' 0 empty_db)"
  have "is_ok (fst (DeleteNode ''n1'' 5 ?d))" by code_simp
  then obtain d' where "DeleteNode ''n1'' 5 ?d = (Inr (), d')"
    by (cases "DeleteNode ''n1'' 5 ?d") (auto simp: is_ok_def split: sum.splits)
  with removed_node_is_locked_out [OF this] show ?thesis by blast
qed

section \<open>Credentials\<close>

text \<open>A row accepts a token hash at a time: the condition of \<^verbatim>\<open>NodeByCredential\<close>.\<close>

definition accepts_credential :: "string \<Rightarrow> gotime \<Rightarrow> NodeRow \<Rightarrow> bool" where
  "accepts_credential h t r \<longleftrightarrow> nr_deleted_at r = None \<and>
     (nr_credential_hash r = h \<or> nr_previous_credential_hash r = Some h \<and>
       (case nr_previous_credential_expires_at r of None \<Rightarrow> False | Some e \<Rightarrow> stamp_less (formatTime t) e))"

lemma NodeByCredential_accepts:
  "NodeByCredential h t d = (case find (accepts_credential h t) (tbl_nodes d) of
     None \<Rightarrow> Inl ErrNotFound | Some r \<Rightarrow> Inr r)"
  by (simp add: NodeByCredential_def accepts_credential_def [abs_def])

lemma stamp_not_less_seconds:
  "u div 1000000000 < t div 1000000000 \<Longrightarrow> \<not> stamp_less (formatTime t) (formatTime u)"
  by (simp add: formatTime_def)

text \<open>After a rotation the node's new credential is accepted at once; the one it replaces is accepted
  for another ten minutes (compared by whole seconds) and then no longer; any older one is not accepted.\<close>

theorem rotation_has_grace:
  assumes "RotateNodeCredential n new now d = (Inr (), d')"
    and "r' \<in> set (tbl_nodes d')" "nr_id r' = n" "nr_deleted_at r' = None"
  shows "\<exists>r\<in>set (tbl_nodes d). nr_id r = n \<and> nr_deleted_at r = None \<and>
    (\<forall>t. accepts_credential new t r') \<and>
    (\<forall>t. t div 1000000000 < (now + 600000000000) div 1000000000 \<longrightarrow> accepts_credential (nr_credential_hash r) t r') \<and>
    (\<forall>t h. accepts_credential h t r' \<and> h \<noteq> new \<longrightarrow>
       h = nr_credential_hash r \<and> t div 1000000000 \<le> (now + 600000000000) div 1000000000)"
proof -
  let ?f = "\<lambda>r. r\<lparr>nr_previous_credential_hash := Some (nr_credential_hash r),
               nr_previous_credential_expires_at := Some (formatTime (now + 600000000000)),
               nr_credential_hash := new, nr_credential_created_at := formatTime now\<rparr>"
  from assms(1) have "tbl_nodes d' = update_where (\<lambda>r. nr_id r = n \<and> nr_deleted_at r = None) ?f (tbl_nodes d)"
    by (auto simp: RotateNodeCredential_def update_live_node_def Let_def split: if_splits)
  with assms(2-4) obtain r where r: "r \<in> set (tbl_nodes d)" "nr_id r = n" "nr_deleted_at r = None" "r' = ?f r"
    by (auto simp: set_update_where split: if_splits)
  have late: "t div 1000000000 \<le> (now + 600000000000) div 1000000000"
    if "stamp_less (formatTime t) (formatTime (now + 600000000000))" for t
    using that stamp_not_less_seconds [of "now + 600000000000" t] by fastforce
  have new: "\<forall>t. accepts_credential new t r'" using r by (simp add: accepts_credential_def)
  have old: "accepts_credential (nr_credential_hash r) t r'"
    if "t div 1000000000 < (now + 600000000000) div 1000000000" for t
    using r stamp_less_seconds [OF that] by (simp add: accepts_credential_def)
  have gone: "h = nr_credential_hash r \<and> t div 1000000000 \<le> (now + 600000000000) div 1000000000"
    if "accepts_credential h t r'" "h \<noteq> new" for t h
    using that r late [of t] by (simp add: accepts_credential_def)
  from new old gone r show ?thesis by (intro bexI [OF _ r(1)]) blast
qed

theorem rotation_has_grace_witness:
  "\<exists>r'\<in>set (tbl_nodes (snd (RotateNodeCredential ''n1'' ''k2'' 5 placed_db))).
     accepts_credential ''k2'' 7 r' \<and> \<not> accepts_credential ''k0'' 7 r'"
proof -
  let ?d' = "snd (RotateNodeCredential ''n1'' ''k2'' 5 placed_db)"
  have "is_ok (fst (RotateNodeCredential ''n1'' ''k2'' 5 placed_db)) \<and>
      list_ex (\<lambda>r. nr_id r = ''n1'' \<and> nr_deleted_at r = None) (tbl_nodes ?d') \<and>
      list_all (\<lambda>r. nr_credential_hash r = ''k1'') (tbl_nodes placed_db)" by code_simp
  then obtain r' where ok: "RotateNodeCredential ''n1'' ''k2'' 5 placed_db = (Inr (), ?d')"
    and r': "r' \<in> set (tbl_nodes ?d')" "nr_id r' = ''n1''" "nr_deleted_at r' = None"
    and k: "\<forall>r\<in>set (tbl_nodes placed_db). nr_credential_hash r = ''k1''"
    by (cases "RotateNodeCredential ''n1'' ''k2'' 5 placed_db")
      (auto simp: is_ok_def list_ex_iff list_all_iff split: sum.splits)
  from rotation_has_grace [OF ok r'] k have "accepts_credential ''k2'' 7 r' \<and> \<not> accepts_credential ''k0'' 7 r'"
    by fastforce
  with r'(1) show ?thesis by blast
qed

section \<open>Silent nodes\<close>

lemma mark_job_lost_ok:
  assumes "job_row i d = Some r" "jr_id r = i" "losable (jr_status r)"
  shows "job_status (snd (mark_job_lost now i d)) i = Some JobLost"
proof -
  let ?f = "\<lambda>r. r\<lparr>jr_status := JobLost, jr_observed_status := JobLost, jr_version := jr_version r + 1\<rparr>"
  let ?j = "update_where (\<lambda>r. jr_id r = i \<and> losable (jr_status r)) ?f (tbl_jobs d)"
  have same: "tbl_jobs (snd (AppendServerEvent i ty p now e)) = tbl_jobs e" for ty p e
  proof -
    have "tbl_jobs (snd (append_server_event_loop k i ty p now e)) = tbl_jobs e" for k
      by (induction k) (auto simp: Let_def push_event_def split: option.splits)
    then show ?thesis by (simp add: AppendServerEvent_def)
  qed
  have "tbl_jobs (snd (mark_job_lost now i d)) = ?j"
    by (simp add: mark_job_lost_def Let_def same)
  with assms show ?thesis
    by (simp add: job_status_def job_row_def find_update_where)
qed

lemma mark_jobs_lost_marks:
  assumes "mark_jobs_lost now is d = (Inr (), d')" "i \<in> set is"
    and "job_status d i = Some a" "losable a \<or> a = JobLost" "distinct (map jr_id (tbl_jobs d))"
  shows "job_status d' i = Some JobLost"
  using assms
proof (induction "is" arbitrary: d a)
  case (Cons j js)
  obtain res d1 where m: "mark_job_lost now j d = (res, d1)" by fastforce
  with Cons.prems(1) have rest: "mark_jobs_lost now js d1 = (Inr (), d')"
    by (auto split: sum.splits)
  have calm: "calm_step lost_or_same d d1" using mark_job_lost_calm [of d now j] m by simp
  from calm_ids [OF calm] Cons.prems(5) have dist: "distinct (map jr_id (tbl_jobs d1))" by simp
  from moves_status [OF calm_moves [OF calm Cons.prems(5)] Cons.prems(3)] obtain b where
    b: "job_status d1 i = Some b" "lost_or_same a b" by blast
  with Cons.prems(4) have l: "losable b \<or> b = JobLost" by (auto simp: lost_or_same_def)
  show ?case
  proof (cases "i \<in> set js")
    case True
    from Cons.IH [OF rest True b(1) l dist] show ?thesis .
  next
    case False
    with Cons.prems(2) have "i = j" by simp
    have lost: "job_status d1 i = Some JobLost"
    proof (cases "a = JobLost")
      case True
      with b show ?thesis by (auto simp: lost_or_same_def losable_def)
    next
      case False
      with Cons.prems(3,4) \<open>i = j\<close> obtain r where "job_row i d = Some r" "losable (jr_status r)"
        by (auto simp: job_status_def)
      with mark_job_lost_ok [of i d r now] job_row_Some m \<open>i = j\<close> show ?thesis by fastforce
    qed
    have "calm_step lost_or_same d1 d'" using mark_jobs_lost_calm [of d1 now js] rest by simp
    from moves_status [OF calm_moves [OF this dist] lost] show ?thesis
      by (auto simp: lost_or_same_def losable_def)
  qed
qed simp

text \<open>When the sweep over silent nodes succeeds, every running job of a node that was silent past the
  limit is \<^verbatim>\<open>LOST\<close>.\<close>

theorem silent_nodes_lose_jobs:
  assumes "MarkStaleNodes ob lb now d = (Inr (), d')" "distinct (map jr_id (tbl_jobs d))"
    and "j \<in> set (tbl_jobs d)" "losable (jr_status j)"
    and "n \<in> set (tbl_nodes d)" "stale_node (formatTime lb) n" "jr_assigned_node_id j = Some (nr_id n)"
  shows "job_status d' (jr_id j) = Some JobLost"
proof -
  let ?f = "\<lambda>r. r\<lparr>nr_status := NodeOffline\<rparr>"
  define d1 where "d1 = d\<lparr>tbl_nodes := update_where
      (\<lambda>r. (nr_status r = NodeOnline \<or> nr_status r = NodeDegraded) \<and> stale_node (formatTime ob) r) ?f (tbl_nodes d)\<rparr>"
  define ids where "ids = map jr_id (filter (\<lambda>j. losable (jr_status j) \<and>
      has_row (\<lambda>n. stale_node (formatTime lb) n \<and> jr_assigned_node_id j = Some (nr_id n)) (tbl_nodes d1)) (tbl_jobs d1))"
  have run: "mark_jobs_lost now ids d1 = (Inr (), d')"
    using assms(1) by (simp add: MarkStaleNodes_def Let_def d1_def ids_def)
  have jobs: "tbl_jobs d1 = tbl_jobs d" by (simp add: d1_def)
  have "has_row (\<lambda>m. stale_node (formatTime lb) m \<and> jr_assigned_node_id j = Some (nr_id m)) (tbl_nodes d1)"
    using assms(5-7) by (simp add: has_row_iff d1_def bex_update_where stale_node_def) (rule bexI [of _ n]; simp)
  with assms(3,4) jobs have "jr_id j \<in> set ids" by (auto simp: ids_def)
  moreover have "job_status d1 (jr_id j) = Some (jr_status j)"
    using job_row_in [OF assms(2,3)] by (simp add: job_status_def d1_def job_row_def)
  ultimately show ?thesis
    using mark_jobs_lost_marks [OF run] assms(2,4) jobs by simp
qed

theorem silent_nodes_lose_jobs_witness:
  "\<exists>d'. MarkStaleNodes 100000000000 100000000000 100000000000 placed_db = (Inr (), d') \<and>
     job_status d' ''j1'' = Some JobLost"
proof -
  let ?t = "100000000000"
  have "is_ok (fst (MarkStaleNodes ?t ?t ?t placed_db)) \<and> distinct (map jr_id (tbl_jobs placed_db)) \<and>
    list_ex (\<lambda>j. jr_id j = ''j1'' \<and> losable (jr_status j) \<and> jr_assigned_node_id j = Some ''n1'') (tbl_jobs placed_db) \<and>
    list_ex (\<lambda>n. nr_id n = ''n1'' \<and> stale_node (formatTime ?t) n) (tbl_nodes placed_db)" by code_simp
  then obtain d' j n where ok: "MarkStaleNodes ?t ?t ?t placed_db = (Inr (), d')"
    and "distinct (map jr_id (tbl_jobs placed_db))" "j \<in> set (tbl_jobs placed_db)" "losable (jr_status j)"
      "n \<in> set (tbl_nodes placed_db)" "stale_node (formatTime ?t) n" "jr_assigned_node_id j = Some (nr_id n)"
      "jr_id j = ''j1''"
    by (cases "MarkStaleNodes ?t ?t ?t placed_db") (auto simp: is_ok_def list_ex_iff split: sum.splits)
  with silent_nodes_lose_jobs [OF ok, of j n] show ?thesis by simp
qed

end
