(* ===== verification/ValidationProperties.thy ===== *)
theory ValidationProperties
  imports Samples
begin

text \<open>
  What accepted builds, job specifications and references satisfy, and how stored times behave.
\<close>

section \<open>Builds\<close>

text \<open>A path that stays below the directory it is joined to: no empty, dot or dot-dot element, nothing a
  shell or Windows would read as a separator.\<close>

definition confined_path :: "string \<Rightarrow> bool" where
  "confined_path p \<longleftrightarrow> list_all ordinary_element (split_on (CHR ''/'') p)"

text \<open>C15: The Dockerfile path and the context of an accepted Dockerfile build stay inside the uploaded source:
  the context is the source itself or a confined path, the Dockerfile is a confined path.\<close>

theorem build_paths_are_confined:
  assumes "ValidateBuild b = Inr ()" "build_Mode b = BuildModeDockerfile"
  shows "(build_ContextPath b \<in> {'''', ''.''} \<or> confined_path (build_ContextPath b)) \<and>
    (build_DockerfilePath b = '''' \<or> confined_path (build_DockerfilePath b)) \<and>
    CHR 0x5C \<notin> set (build_ContextPath b @ build_DockerfilePath b) \<and>
    CHR '':'' \<notin> set (build_ContextPath b @ build_DockerfilePath b)"
proof -
  let ?c = "if build_ContextPath b = '''' then ''.'' else build_ContextPath b"
  let ?d = "if build_DockerfilePath b = '''' then ''Dockerfile'' else build_DockerfilePath b"
  from assms have ok: "is_ok (validateBuildRelativePath ?c True)" "is_ok (validateBuildRelativePath ?d False)"
    by (auto simp: ValidateBuild_def Let_def split: if_splits)
  from relative_path_elements [OF ok(1)] relative_path_elements [OF ok(2)]
    relative_path_chars [OF ok(1)] relative_path_chars [OF ok(2)]
  show ?thesis by (auto simp: confined_path_def split: if_splits)
qed

definition sample_build :: Build where
  "sample_build = \<lparr>build_ID = ''b1'', build_OwnerID = ''o1'', build_Name = ''image'',
     build_Mode = BuildModeDockerfile, build_Status = BuildCreated,
     build_Source = \<lparr>src_Filename = ''s.zip'', src_Size = 10, src_SHA256 = replicate 64 (CHR ''a'')\<rparr>,
     build_ContextPath = ''app'', build_DockerfilePath = ''app/Dockerfile'', build_OCIDigest = '''',
     build_ArtifactReference = '''', build_ArtifactAvailable = False, build_FailureReason = '''',
     build_CreatedAt = 0, build_StartedAt = None, build_FinishedAt = None, build_Version = 1\<rparr>"

lemma sample_build_ok: "ValidateBuild sample_build = Inr ()"
  by code_simp

theorem build_paths_are_confined_witness:
  "confined_path (build_ContextPath sample_build) \<and> confined_path (build_DockerfilePath sample_build)"
  using build_paths_are_confined [OF sample_build_ok] by (simp add: sample_build_def)

text \<open>An accepted build names an image digest exactly when it succeeded, and a failed one says why.\<close>

theorem build_outcome_is_consistent:
  assumes "ValidateBuild b = Inr ()"
  shows "(build_Status b = BuildSucceeded \<longleftrightarrow> build_OCIDigest b \<noteq> '''') \<and>
    (build_OCIDigest b \<noteq> '''' \<longrightarrow> ociDigest (build_OCIDigest b)) \<and>
    (build_Status b = BuildFailed \<longrightarrow> TrimSpace (build_FailureReason b) \<noteq> '''')"
proof -
  from assms have "validate_build_outcome b = Inr ()"
    by (auto simp: ValidateBuild_def Let_def split: if_splits)
  moreover have "\<not> ociDigest ''''" by code_simp
  ultimately show ?thesis by (auto simp: validate_build_outcome_def split: if_splits)
qed

theorem build_outcome_is_consistent_witness: "build_Status sample_build \<noteq> BuildSucceeded"
  using build_outcome_is_consistent [OF sample_build_ok] by (simp add: sample_build_def)

section \<open>Job specifications\<close>

text \<open>An accepted job asks for a positive amount of CPU and memory and no negative GPUs, its explicit GPU
  list matches its count on a named node, and its input files have distinct normalized paths, each a
  confined path or the single element \<^verbatim>\<open>..\<close>, with a size and a digest.\<close>

theorem accepted_specs_are_sound:
  assumes "ValidateJobSpec spec = Inr ()"
  shows "sane_request (spec_Resources spec) \<and>
    (gpureq_UUIDs (res_GPU (spec_Resources spec)) \<noteq> [] \<longrightarrow> spec_TargetNodeID spec \<noteq> '''' \<and>
      gpureq_Count (res_GPU (spec_Resources spec)) = int (length (gpureq_UUIDs (res_GPU (spec_Resources spec))))) \<and>
    distinct (map (normalize_input_path \<circ> input_Path) (spec_Inputs spec)) \<and>
    (\<forall>f\<in>set (spec_Inputs spec). 0 \<le> input_Size f \<and> lowercaseSHA256 (input_SHA256 f) \<and>
      (normalize_input_path (input_Path f) = ''..'' \<or> confined_path (normalize_input_path (input_Path f))))"
proof -
  from assms have inputs: "validate_inputs [] (spec_Inputs spec) = Inr ()"
    and gpu: "validate_gpu_request spec = Inr ()"
    and sane: "sane_request (spec_Resources spec)"
    by (auto simp: ValidateJobSpec_def sane_request_def Let_def split: if_splits sum.splits)
  from gpu have "gpureq_UUIDs (res_GPU (spec_Resources spec)) \<noteq> [] \<longrightarrow> spec_TargetNodeID spec \<noteq> '''' \<and>
      gpureq_Count (res_GPU (spec_Resources spec)) = int (length (gpureq_UUIDs (res_GPU (spec_Resources spec))))"
    by (auto simp: validate_gpu_request_def Let_def split: if_splits)
  with sane validate_inputs_sound [OF inputs] input_path_elements show ?thesis
    unfolding confined_path_def by blast
qed

definition input_spec :: "string \<Rightarrow> JobSpec" where
  "input_spec p = sample_spec\<lparr>spec_Inputs := [\<lparr>input_Path = p, input_Size = 1, input_SHA256 = replicate 64 (CHR ''0'')\<rparr>]\<rparr>"

theorem accepted_specs_are_sound_witness: "sane_request (spec_Resources (input_spec ''data/x''))"
proof -
  have "ValidateJobSpec (input_spec ''data/x'') = Inr ()" by code_simp
  from accepted_specs_are_sound [OF this] show ?thesis by blast
qed

text \<open>The parent directory itself is accepted as an input path, in either notation of the separator: the
  check rejects \<^verbatim>\<open>../x\<close> but not \<^verbatim>\<open>..\<close>, which the build paths reject.\<close>

theorem parent_directory_input_accepted:
  "ValidateJobSpec (input_spec ''..'') = Inr () \<and> \<not> confined_path ''..'' \<and>
   ValidateJobSpec (input_spec ''../x'') = Inl (InputPathInvalid ''../x'') \<and>
   \<not> is_ok (validateBuildRelativePath ''..'' True)"
  by (intro conjI; code_simp)

section \<open>References\<close>

text \<open>A reference to a managed image parses to a build id and a digest exactly when it is the reference
  made of them, the id is a non-empty path element without \<^verbatim>\<open>@\<close> and the digest is well-formed.\<close>

theorem reference_roundtrip:
  "ParseManagedArtifactReference s = ManagedReference b d \<longleftrightarrow>
   s = ManagedArtifactReference b d \<and> b \<noteq> '''' \<and> CHR ''/'' \<notin> set b \<and> CHR ''@'' \<notin> set b \<and> ociDigest d"
proof -
  have scheme: "take (length ''jobdock://'') (ManagedArtifactReference b d) = ''jobdock://''"
    "\<not> length (ManagedArtifactReference b d) < length ''jobdock://''"
    by (simp_all add: ManagedArtifactReference_def)
  show ?thesis
  proof
    assume "ParseManagedArtifactReference s = ManagedReference b d"
    then have "managedReferencePattern s = Some (b, d)"
      by (auto simp: ParseManagedArtifactReference_def split: if_splits option.splits)
    then show "s = ManagedArtifactReference b d \<and> b \<noteq> '''' \<and> CHR ''/'' \<notin> set b \<and> CHR ''@'' \<notin> set b \<and> ociDigest d"
      by (rule reference_of_pattern)
  next
    assume "s = ManagedArtifactReference b d \<and> b \<noteq> '''' \<and> CHR ''/'' \<notin> set b \<and> CHR ''@'' \<notin> set b \<and> ociDigest d"
    then have s: "s = ManagedArtifactReference b d" and p: "managedReferencePattern s = Some (b, d)"
      using pattern_of_reference by auto
    from scheme p show "ParseManagedArtifactReference s = ManagedReference b d"
      unfolding ParseManagedArtifactReference_def s by simp
  qed
qed

section \<open>Stored times\<close>

text \<open>Reading a stored time gives the time that was written, to the nanosecond.\<close>

theorem stored_time_roundtrip: "parseTime (formatTime t) = t"
  by (rule parse_formatTime)

text \<open>The text order of stored times is the order of the times only between different seconds: within one
  second a later time can sort first, because trailing zeros of the fraction are dropped.\<close>

theorem text_order_is_not_time_order:
  "(\<forall>t u. t div 1000000000 < u div 1000000000 \<longrightarrow> stamp_less (formatTime t) (formatTime u)) \<and>
   (\<exists>t u. t < u \<and> stamp_less (formatTime u) (formatTime t))"
proof -
  have "stamp_less (formatTime 510000000) (formatTime 500000000)" by code_simp
  then show ?thesis using stamp_less_seconds by (intro conjI allI impI exI [of _ 500000000] exI [of _ 510000000]) auto
qed

theorem text_order_is_not_time_order_witness: "stamp_less (formatTime 1500000000) (formatTime 2000000000)"
  using text_order_is_not_time_order by simp

end
