(* ===== verification/BuildSteps.thy ===== *)
theory BuildSteps
  imports BuildStore Systems
begin

text \<open>
  The operations on source builds as one step relation, the invariant of the build tables, and the
  lifecycle of a build: the store's second instance of \<open>status_machine\<close>, here with deletion.
\<close>

section \<open>Steps\<close>

definition build_tables :: "db \<Rightarrow> BuildRow list \<times> BuildAssignmentRow list" where
  "build_tables d = (tbl_builds d, tbl_build_assignments d)"

inductive build_step :: "db \<Rightarrow> db \<Rightarrow> bool" where
  create: "build_Status b = BuildCreated \<Longrightarrow> build_step d (snd (CreateBuild b d))"
| update: "build_step d (snd (UpdateBuildStatus i st dg message now d))"
| delete: "build_step d (snd (DeleteBuild i d))"
| queue: "build_step d (snd (QueueBuild i a now d))"
| claim: "build_step d (snd (NextBuildWork w lease now d))"
| renew: "build_step d (snd (RenewBuildAssignment a w lease now d))"
| cancel: "build_step d (snd (RequestBuildCancellation i now d))"
| complete: "build_step d (snd (CompleteBuildAssignment a w ast dg message now d))"
| save_plan: "build_step d (snd (SaveBuildPlan p d))"
| confirm_plan: "build_step d (snd (ConfirmBuildPlan i now d))"
| save_artifact: "build_step d (snd (SaveManagedArtifact art d))"
| fetch_artifact: "build_step d (snd (ManagedArtifactForAssignment s n now d))"
| collect: "build_step d (snd (GarbageCollectManagedArtifacts before d))"
| elsewhere: "build_tables d' = build_tables d \<Longrightarrow> build_step d d'"

definition build_status :: "db \<Rightarrow> string \<Rightarrow> BuildStatus option" where
  "build_status d i = map_option br_status (build_row i d)"

text \<open>How the status of an id may change, \<open>None\<close> being no build: \<^verbatim>\<open>CanBuildTransition\<close>, creation, and
  removal of a build that is not active.\<close>

definition build_change :: "BuildStatus option \<Rightarrow> BuildStatus option \<Rightarrow> bool" where
  "build_change x y \<longleftrightarrow>
     (case (x, y) of
        (None, None) \<Rightarrow> True
      | (None, Some b) \<Rightarrow> b = BuildCreated
      | (Some a, None) \<Rightarrow> a \<noteq> BuildAnalyzing \<and> a \<noteq> BuildBuilding
      | (Some a, Some b) \<Rightarrow> CanBuildTransition a b)"

lemma CanBuildTransition_refl [simp]: "CanBuildTransition a a"
  by (simp add: CanBuildTransition_def)

lemma build_change_refl [simp]: "build_change x x"
  by (cases x) (simp_all add: build_change_def)

text \<open>A build names a digest exactly when it succeeded; a failed one has a reason.\<close>

definition outcome_ok :: "BuildRow \<Rightarrow> bool" where
  "outcome_ok r \<longleftrightarrow> (br_status r = BuildSucceeded \<longleftrightarrow> br_oci_digest r \<noteq> '''') \<and>
     (br_oci_digest r \<noteq> '''' \<longrightarrow> ociDigest (br_oci_digest r)) \<and>
     (br_status r = BuildFailed \<longrightarrow> TrimSpace (br_failure_reason r) \<noteq> '''')"

definition build_inv :: "db \<Rightarrow> bool" where
  "build_inv d \<longleftrightarrow> distinct (map br_id (tbl_builds d)) \<and> (\<forall>r\<in>set (tbl_builds d). outcome_ok r) \<and>
     distinct (map bar_id (tbl_build_assignments d)) \<and> distinct (map bar_build_id (tbl_build_assignments d))"

section \<open>Shapes of updates\<close>

text \<open>What one step does to the builds: every status changes as allowed, and the invariant is kept.\<close>

definition build_good :: "db \<Rightarrow> db \<Rightarrow> bool" where
  "build_good d d' \<longleftrightarrow> build_inv d' \<and> (\<forall>i. build_change (build_status d i) (build_status d' i))"

lemma build_row_Some: "build_row i d = Some r \<Longrightarrow> r \<in> set (tbl_builds d) \<and> br_id r = i"
  by (auto simp: build_row_def dest: find_key_Some)

lemma good_same: "build_inv d \<Longrightarrow> build_tables d' = build_tables d \<Longrightarrow> build_good d d'"
  by (simp add: build_good_def build_inv_def build_tables_def build_status_def build_row_def)

lemma good_update:
  assumes "build_inv d" "tbl_builds d' = update_where P f (tbl_builds d)"
    and "\<And>r. br_id (f r) = br_id r"
    and "\<And>r. r \<in> set (tbl_builds d) \<Longrightarrow> P r \<Longrightarrow> CanBuildTransition (br_status r) (br_status (f r)) \<and> outcome_ok (f r)"
    and "distinct (map bar_id (tbl_build_assignments d'))" "distinct (map bar_build_id (tbl_build_assignments d'))"
  shows "build_good d d'"
proof -
  have row: "build_row i d' = map_option (\<lambda>r. if P r then f r else r) (build_row i d)" for i
    using assms(2,3) by (simp add: build_row_def find_update_where)
  have "build_change (build_status d i) (build_status d' i)" for i
  proof (cases "build_row i d")
    case None
    with row show ?thesis by (simp add: build_status_def)
  next
    case (Some r)
    with row [of i] assms(4) build_row_Some [OF Some] show ?thesis
      by (auto simp: build_status_def build_change_def)
  qed
  moreover have "build_inv d'"
    using assms by (auto simp: build_inv_def set_update_where)
  ultimately show ?thesis by (simp add: build_good_def)
qed

lemma assignments_update:
  "build_inv d \<Longrightarrow> tbl_build_assignments d' = update_where Q g (tbl_build_assignments d) \<Longrightarrow>
   (\<And>a. bar_id (g a) = bar_id a) \<Longrightarrow> (\<And>a. bar_build_id (g a) = bar_build_id a) \<Longrightarrow>
   distinct (map bar_id (tbl_build_assignments d')) \<and> distinct (map bar_build_id (tbl_build_assignments d'))"
  by (simp add: build_inv_def)

lemma good_assignments:
  assumes "build_inv d" "tbl_builds d' = tbl_builds d"
    and "tbl_build_assignments d' = update_where Q g (tbl_build_assignments d)"
    and "\<And>a. bar_id (g a) = bar_id a" "\<And>a. bar_build_id (g a) = bar_build_id a"
  shows "build_good d d'"
  using assignments_update [OF assms(1,3,4,5)] assms(1,2)
  by (simp add: build_good_def build_inv_def build_status_def build_row_def)

lemma validated_outcome:
  assumes "is_ok (ValidateBuild b)"
  shows "(build_Status b = BuildSucceeded \<longleftrightarrow> build_OCIDigest b \<noteq> '''') \<and>
    (build_OCIDigest b \<noteq> '''' \<longrightarrow> ociDigest (build_OCIDigest b)) \<and>
    (build_Status b = BuildFailed \<longrightarrow> TrimSpace (build_FailureReason b) \<noteq> '''')"
proof -
  from assms have "is_ok (validate_build_outcome b)"
    by (auto simp: ValidateBuild_def Let_def split: if_splits)
  moreover have "\<not> ociDigest ''''" by (simp add: ociDigest_def HasPrefix_def)
  ultimately show ?thesis by (auto simp: validate_build_outcome_def split: if_splits)
qed

lemma push_build_event_tables [simp]:
  "tbl_builds (push_build_event i st m now d) = tbl_builds d"
  "tbl_build_assignments (push_build_event i st m now d) = tbl_build_assignments d"
  "tbl_artifacts (push_build_event i st m now d) = tbl_artifacts d"
  by (simp_all add: push_build_event_def)

lemma Build_Inr: "Build i d = Inr b \<longleftrightarrow> (\<exists>r. build_row i d = Some r \<and> b = scanBuild d r)"
  by (auto simp: Build_def split: option.splits)

lemma scanBuild_simps [simp]:
  "build_ID (scanBuild d r) = br_id r" "build_Status (scanBuild d r) = br_status r"
  "build_Mode (scanBuild d r) = br_mode r" "build_OCIDigest (scanBuild d r) = br_oci_digest r"
  "build_FailureReason (scanBuild d r) = br_failure_reason r"
  by (simp_all add: scanBuild_def Let_def)

section \<open>Each operation is good\<close>

lemma find_snoc:
  "find P (xs @ [x]) = (case find P xs of None \<Rightarrow> if P x then Some x else None | Some y \<Rightarrow> Some y)"
  by (induction xs) auto

lemma find_delete_key:
  "find (\<lambda>r. key r = j) (delete_where (\<lambda>r. key r = i) t) = (if j = i then None else find (\<lambda>r. key r = j) t)"
  by (induction t) (auto simp: delete_where_def)

lemma CreateBuild_good:
  assumes "build_inv d" "build_Status b = BuildCreated"
  shows "build_good d (snd (CreateBuild b d))"
proof (cases "is_ok (ValidateBuild b) \<and> \<not> has_row (\<lambda>r. br_id r = build_ID b) (tbl_builds d)")
  case False
  then show ?thesis using assms(1) by (auto simp: CreateBuild_def intro: good_same)
next
  case True
  let ?d = "snd (CreateBuild b d)"
  from True assms(2) obtain r where t: "tbl_builds ?d = tbl_builds d @ [r]" "br_id r = build_ID b"
    "br_status r = BuildCreated" "br_oci_digest r = ''''" "tbl_build_assignments ?d = tbl_build_assignments d"
    by (auto simp: CreateBuild_def)
  from True have new: "build_ID b \<notin> br_id ` set (tbl_builds d)" by (auto simp: has_row_iff)
  have "build_change (build_status d i) (build_status ?d i)" for i
  proof (cases "build_row i d")
    case None
    with t new show ?thesis by (simp add: build_status_def build_row_def build_change_def find_snoc)
  next
    case (Some q)
    with t show ?thesis by (simp add: build_status_def build_row_def find_snoc)
  qed
  moreover have "build_inv ?d" using assms(1) t new by (auto simp: build_inv_def outcome_ok_def)
  ultimately show ?thesis by (simp add: build_good_def)
qed

lemma UpdateBuildStatus_good:
  assumes inv: "build_inv d"
  shows "build_good d (snd (UpdateBuildStatus i st dg message now d))"
proof (cases "Build i d")
  case (Inl e)
  with inv show ?thesis by (simp add: UpdateBuildStatus_def good_same)
next
  case (Inr current)
  let ?d = "snd (UpdateBuildStatus i st dg message now d)"
  let ?reason = "if st = BuildFailed then message else ''''"
  let ?cand = "current\<lparr>build_Status := st, build_OCIDigest := dg, build_FailureReason := ?reason\<rparr>"
  let ?match = "\<lambda>r. br_id r = i \<and> br_status r = build_Status current"
  show ?thesis
  proof (cases "build_Status current \<noteq> st \<and> CanBuildTransition (build_Status current) st \<and>
      is_ok (ValidateBuild ?cand) \<and> rows_affected ?match (tbl_builds d) = 1")
    case False
    with Inr inv show ?thesis by (auto simp: UpdateBuildStatus_def Let_def intro: good_same)
  next
    case True
    with Inr obtain s f where t: "tbl_builds ?d = update_where ?match
        (\<lambda>r. r\<lparr>br_status := st, br_oci_digest := dg, br_failure_reason := ?reason,
               br_started_at := coalesce (br_started_at r) s, br_finished_at := f, br_version := br_version r + 1\<rparr>)
        (tbl_builds d)" "tbl_build_assignments ?d = tbl_build_assignments d"
      by (simp add: UpdateBuildStatus_def Let_def)
    from True validated_outcome [of ?cand] show ?thesis
      by (intro good_update [OF inv t(1)]) (use inv t(2) in \<open>auto simp: outcome_ok_def build_inv_def\<close>)
  qed
qed

lemma DeleteBuild_good:
  assumes inv: "build_inv d"
  shows "build_good d (snd (DeleteBuild i d))"
proof (cases "fst (DeleteBuild i d) = Inr ()")
  case False
  then have "snd (DeleteBuild i d) = d"
    by (auto simp: DeleteBuild_def split: option.splits if_splits)
  with inv show ?thesis by (simp add: good_same)
next
  case True
  let ?d = "snd (DeleteBuild i d)"
  from True obtain r where r: "build_row i d = Some r" "br_status r \<noteq> BuildAnalyzing" "br_status r \<noteq> BuildBuilding"
    and t: "tbl_builds ?d = delete_where (\<lambda>b. br_id b = i) (tbl_builds d)"
      "tbl_build_assignments ?d = delete_where (\<lambda>a. bar_build_id a = i) (tbl_build_assignments d)"
    by (auto simp: DeleteBuild_def split: option.splits if_splits)
  have "build_row j ?d = (if j = i then None else build_row j d)" for j
    unfolding build_row_def t(1) by (rule find_delete_key)
  then have "build_status ?d j = (if j = i then None else build_status d j)" for j
    by (simp add: build_status_def)
  moreover have "build_change (build_status d i) None"
    using r by (simp add: build_status_def build_change_def)
  ultimately have "build_change (build_status d j) (build_status ?d j)" for j by simp
  moreover have "build_inv ?d" using inv t by (auto simp: build_inv_def intro: distinct_delete_where)
  ultimately show ?thesis by (simp add: build_good_def)
qed

lemma QueueBuild_good:
  assumes inv: "build_inv d"
  shows "build_good d (snd (QueueBuild i a now d))"
proof (cases "snd (QueueBuild i a now d) = d")
  case True
  with inv show ?thesis by (simp add: good_same)
next
  case False
  let ?d = "snd (QueueBuild i a now d)"
  from False obtain b where b: "Build i d = Inr b" "queueable b"
    and free: "find (\<lambda>x. bar_build_id x = i) (tbl_build_assignments d) = None"
      "\<not> has_row (\<lambda>x. bar_id x = a) (tbl_build_assignments d)" and d: "?d = start_build b a now d"
    by (auto simp: QueueBuild_def Let_def split: sum.splits option.splits if_splits)
  from b have id: "build_ID b = i" by (auto simp: Build_Inr dest: build_row_Some)
  let ?match = "\<lambda>r. br_id r = i \<and> br_status r = build_Status b"
  from d id obtain f where t: "tbl_builds ?d = update_where ?match f (tbl_builds d)"
    and f: "\<And>r. br_id (f r) = br_id r \<and> br_status (f r) = BuildBuilding \<and> br_oci_digest (f r) = br_oci_digest r"
    and asg: "\<exists>x. tbl_build_assignments ?d = tbl_build_assignments d @ [x] \<and> bar_id x = a \<and> bar_build_id x = i"
    by (simp add: start_build_def Let_def)
  have st: "build_Status b = BuildAnalyzing \<or> build_Status b = BuildCreated"
    using b(2) by (auto simp: queueable_def)
  then have edge: "CanBuildTransition (build_Status b) BuildBuilding" by (auto simp: CanBuildTransition_def)
  have rows: "outcome_ok (f r)" if "r \<in> set (tbl_builds d)" "?match r" for r
    using inv that st f [of r] by (auto simp: build_inv_def outcome_ok_def)
  from free have "i \<notin> bar_build_id ` set (tbl_build_assignments d)" "a \<notin> bar_id ` set (tbl_build_assignments d)"
    by (auto simp: has_row_iff find_None_iff)
  moreover from asg obtain x where "tbl_build_assignments ?d = tbl_build_assignments d @ [x]"
    "bar_id x = a" "bar_build_id x = i" by blast
  ultimately have "distinct (map bar_id (tbl_build_assignments ?d)) \<and>
      distinct (map bar_build_id (tbl_build_assignments ?d))"
    using inv by (simp add: build_inv_def)
  with f edge rows show ?thesis by (intro good_update [OF inv t]) auto
qed

lemma NextBuildWork_good:
  assumes inv: "build_inv d"
  shows "build_good d (snd (NextBuildWork w lease now d))"
proof (cases "snd (NextBuildWork w lease now d) = d")
  case True
  with inv show ?thesis by (simp add: good_same)
next
  case False
  then obtain P where "snd (NextBuildWork w lease now d) =
      d\<lparr>tbl_build_assignments := update_where P (claim_row w now lease) (tbl_build_assignments d)\<rparr>"
    by (auto simp: NextBuildWork_def Let_def split: list.splits sum.splits if_splits)
  then show ?thesis
    by (intro good_assignments [OF inv, where Q = P and g = "claim_row w now lease"]) (auto simp: claim_row_def)
qed

lemma RenewBuildAssignment_good:
  "build_inv d \<Longrightarrow> build_good d (snd (RenewBuildAssignment a w lease now d))"
  by (cases "snd (RenewBuildAssignment a w lease now d) = d")
    (auto simp: RenewBuildAssignment_def Let_def intro: good_same good_assignments)

lemma RequestBuildCancellation_good:
  assumes inv: "build_inv d"
  shows "build_good d (snd (RequestBuildCancellation i now d))"
proof (cases "snd (RequestBuildCancellation i now d) = d")
  case True
  with inv show ?thesis by (simp add: good_same)
next
  case False
  let ?d = "snd (RequestBuildCancellation i now d)"
  let ?f = "\<lambda>r. r\<lparr>br_status := BuildCancelled, br_failure_reason := '''',
              br_finished_at := Some (formatTime now), br_version := br_version r + 1\<rparr>"
  from False obtain Q g where t: "tbl_builds ?d = update_where (\<lambda>r. br_id r = i \<and> br_status r = BuildBuilding) ?f (tbl_builds d)"
    and a: "tbl_build_assignments ?d = update_where Q g (tbl_build_assignments d)"
      "\<And>a. bar_id (g a) = bar_id a" "\<And>a. bar_build_id (g a) = bar_build_id a"
    by (auto simp: RequestBuildCancellation_def Let_def split: sum.splits if_splits)
  have "outcome_ok (?f r)" if "r \<in> set (tbl_builds d)" "br_status r = BuildBuilding" for r
    using inv that by (auto simp: build_inv_def outcome_ok_def)
  then show ?thesis
    using assignments_update [OF inv a]
    by (intro good_update [OF inv t]) (auto simp: CanBuildTransition_def)
qed

lemma settle_build_good:
  assumes inv: "build_inv d"
  shows "build_good d (snd (settle_build b i st dg message now d))"
proof -
  let ?d = "snd (settle_build b i st dg message now d)"
  obtain bst dig reason where o: "build_outcome st dg message = (bst, dig, reason)"
    by (cases "build_outcome st dg message")
  have bst: "bst \<in> {BuildSucceeded, BuildFailed, BuildCancelled}"
    using o by (auto simp: build_outcome_def split: if_splits)
  consider (same) "?d = d" | (close) "?d = close_assignment i st now d"
    | (finish) "is_ok (ValidateBuild (b\<lparr>build_Status := bst, build_OCIDigest := dig, build_FailureReason := reason\<rparr>))"
      "?d = close_assignment i st now (push_build_event (build_ID b) bst message now
                 (d\<lparr>tbl_builds := finish_build bst dig reason now (build_ID b) (tbl_builds d)\<rparr>))"
  proof -
    let ?F = "close_assignment i st now (push_build_event (build_ID b) bst message now
                 (d\<lparr>tbl_builds := finish_build bst dig reason now (build_ID b) (tbl_builds d)\<rparr>))"
    have "?d = d \<or> ?d = close_assignment i st now d \<or>
        is_ok (ValidateBuild (b\<lparr>build_Status := bst, build_OCIDigest := dig, build_FailureReason := reason\<rparr>)) \<and> ?d = ?F"
      unfolding settle_build_def o Let_def by simp
    then show ?thesis using that by blast
  qed
  then show ?thesis
  proof cases
    case same
    with inv show ?thesis by (simp add: good_same)
  next
    case close
    then show ?thesis
      by (intro good_assignments [OF inv, where Q = "\<lambda>a. bar_id a = i" and g = "\<lambda>a. a\<lparr>bar_status := st,
          bar_lease_expires_at := None, bar_updated_at := formatTime now\<rparr>"]) (auto simp: close_assignment_def)
  next
    case finish
    let ?f = "\<lambda>r. r\<lparr>br_status := bst, br_oci_digest := dig, br_failure_reason := reason,
            br_finished_at := Some (formatTime now), br_version := br_version r + 1\<rparr>"
    have t: "tbl_builds ?d = update_where (\<lambda>r. br_id r = build_ID b \<and> br_status r = BuildBuilding) ?f (tbl_builds d)"
      using finish(2) by (simp add: close_assignment_def finish_build_def)
    have a: "tbl_build_assignments ?d = update_where (\<lambda>a. bar_id a = i)
        (\<lambda>a. a\<lparr>bar_status := st, bar_lease_expires_at := None, bar_updated_at := formatTime now\<rparr>) (tbl_build_assignments d)"
      using finish(2) by (simp add: close_assignment_def)
    have "outcome_ok (?f r)" for r using validated_outcome [OF finish(1)] by (simp add: outcome_ok_def)
    moreover have "CanBuildTransition BuildBuilding bst" using bst by (auto simp: CanBuildTransition_def)
    ultimately show ?thesis
      using assignments_update [OF inv a] by (intro good_update [OF inv t]) auto
  qed
qed

lemma CompleteBuildAssignment_good:
  "build_inv d \<Longrightarrow> build_good d (snd (CompleteBuildAssignment a w st dg message now d))"
  by (auto simp: CompleteBuildAssignment_def Let_def good_same settle_build_good split: sum.split)

text \<open>Plans and images leave the builds and assignments alone.\<close>

lemma collect_tables: "build_tables (foldl (collect_one before) d as) = build_tables d"
  by (induction "as" arbitrary: d) (simp_all add: collect_one_def build_tables_def)

lemma other_tables:
  "build_tables (snd (SaveBuildPlan p d)) = build_tables d"
  "build_tables (snd (ConfirmBuildPlan i now d)) = build_tables d"
  "build_tables (snd (SaveManagedArtifact art d)) = build_tables d"
  "build_tables (snd (ManagedArtifactForAssignment s n now d)) = build_tables d"
  "build_tables (snd (GarbageCollectManagedArtifacts before d)) = build_tables d"
  by (simp_all add: build_tables_def SaveBuildPlan_def ConfirmBuildPlan_def SaveManagedArtifact_def
      ManagedArtifactForAssignment_def touch_artifact_def GarbageCollectManagedArtifacts_def
      collect_tables [unfolded build_tables_def, simplified] Let_def split: option.split)

section \<open>Builds as a status machine\<close>

lemma build_step_good:
  assumes "build_step d d'" "build_inv d"
  shows "build_good d d'"
  using assms(1)
  by cases (use assms(2) in \<open>auto intro: CreateBuild_good UpdateBuildStatus_good DeleteBuild_good QueueBuild_good
      NextBuildWork_good RenewBuildAssignment_good RequestBuildCancellation_good CompleteBuildAssignment_good
      good_same simp: other_tables\<close>)

lemma empty_build_inv: "build_inv empty_db"
  by (simp add: build_inv_def empty_db_def)

interpretation builds: status_machine build_step build_inv "\<lambda>d i. Some (build_status d i)" build_change
  by unfold_locales (auto dest: build_step_good simp: build_good_def)

end
