(* ===== verification/Redactor.thy ===== *)
theory Redactor
  imports Prelude
begin

text \<open>
  \<^verbatim>\<open>internal/agent/redactor.go\<close>: the filter on the log stream of a container that replaces the values of
  secrets by asterisks, across the boundaries of the chunks the stream arrives in. Then the proof
  that no secret gets through and that nothing but secrets is replaced.
\<close>

section \<open>The filter\<close>

record redactor =
  red_secrets :: "string list"
  red_pending :: string
  red_max :: nat

text \<open>The values in the order in which the loop over the map visits them, which Go leaves open.\<close>

definition newRedactor :: "string list \<Rightarrow> redactor" where
  "newRedactor values =
     (let secrets = filter (\<lambda>v. v \<noteq> '''') values
      in \<lparr>red_secrets = secrets, red_pending = '''', red_max = fold (\<lambda>s m. max m (length s)) secrets 0\<rparr>)"

text \<open>\<^verbatim>\<open>bytes.Index\<close>.\<close>

fun Index :: "string \<Rightarrow> string \<Rightarrow> nat option" where
  "Index s [] = (if s = '''' then Some 0 else None)"
| "Index s (c # cs) = (if HasPrefix (c # cs) s then Some 0 else map_option Suc (Index s cs))"

lemma Index_Some: "Index s xs = Some i \<Longrightarrow> i + length s \<le> length xs \<and> take (length s) (drop i xs) = s"
proof (induction s xs arbitrary: i rule: Index.induct)
  case (2 s c cs)
  show ?case
  proof (cases "HasPrefix (c # cs) s")
    case True
    then have "length s \<le> length (c # cs)" by (metis HasPrefix_def nat_le_linear take_all)
    with True 2 show ?thesis by (auto simp: HasPrefix_def)
  next
    case False
    with 2 show ?thesis by (auto simp del: take_Suc_Cons)
  qed
qed (auto split: if_splits)

text \<open>
  The inner loop of \<^verbatim>\<open>mask\<close> for one secret: what comes before a match stays, the match is overwritten,
  and the search goes on behind it. No secret is empty, \<^verbatim>\<open>newRedactor\<close> drops those.
\<close>

function mask_one :: "string \<Rightarrow> string \<Rightarrow> string" where
  "mask_one secret data =
     (if secret = '''' then data
      else case Index secret data of
             None \<Rightarrow> data
           | Some i \<Rightarrow> take i data @ replicate (length secret) (CHR ''*'') @
                        mask_one secret (drop (i + length secret) data))"
  by pat_completeness auto

termination
  by (relation "measure (\<lambda>(s, xs). length xs)") (auto dest!: Index_Some intro!: diff_less)

declare mask_one.simps [simp del]

definition mask :: "string list \<Rightarrow> string \<Rightarrow> string" where
  "mask secrets data = foldl (\<lambda>result secret. mask_one secret result) data secrets"

definition Push :: "redactor \<Rightarrow> string \<Rightarrow> string \<times> redactor" where
  "Push r data =
     (if red_max r = 0 then (data, r)
      else let combined = red_pending r @ data; keep = red_max r - 1 in
        if length combined \<le> keep then ('''', r\<lparr>red_pending := combined\<rparr>)
        else let cut = length combined - keep; masked = mask (red_secrets r) combined
             in (take cut masked, r\<lparr>red_pending := drop cut masked\<rparr>))"

definition Flush :: "redactor \<Rightarrow> string \<times> redactor" where
  "Flush r = (mask (red_secrets r) (red_pending r), r\<lparr>red_pending := ''''\<rparr>)"

text \<open>A whole stream: the chunks pushed one after the other, then the rest.\<close>

fun push_all :: "redactor \<Rightarrow> string list \<Rightarrow> string \<times> redactor" where
  "push_all r [] = ('''', r)"
| "push_all r (c # cs) =
     (case Push r c of (out, r) \<Rightarrow> case push_all r cs of (rest, r) \<Rightarrow> (out @ rest, r))"

definition redact_stream :: "string list \<Rightarrow> string list \<Rightarrow> string" where
  "redact_stream values chunks =
     (case push_all (newRedactor values) chunks of (out, r) \<Rightarrow> out @ fst (Flush r))"

section \<open>Occurrences\<close>

definition occurs_at :: "string \<Rightarrow> string \<Rightarrow> nat \<Rightarrow> bool" where
  "occurs_at s xs p \<longleftrightarrow> p + length s \<le> length xs \<and> take (length s) (drop p xs) = s"

definition occurs :: "string \<Rightarrow> string \<Rightarrow> bool" where
  "occurs s xs \<longleftrightarrow> (\<exists>p. occurs_at s xs p)"

lemma occurs_at_nth:
  "occurs_at s xs p \<longleftrightarrow> p + length s \<le> length xs \<and> (\<forall>k<length s. xs ! (p + k) = s ! k)"
  by (auto simp: occurs_at_def list_eq_iff_nth_eq)

lemma Index_None: "Index s xs = None \<Longrightarrow> \<not> occurs_at s xs p"
proof (induction s xs arbitrary: p rule: Index.induct)
  case (1 s)
  then show ?case by (auto simp: occurs_at_def split: if_splits)
next
  case (2 s c cs)
  then have np: "\<not> HasPrefix (c # cs) s" and n: "Index s cs = None" by (auto split: if_splits)
  show ?case
  proof (cases p)
    case 0
    with np show ?thesis by (auto simp: occurs_at_def HasPrefix_def)
  next
    case (Suc q)
    with "2.IH" [OF np n, of q] show ?thesis by (simp add: occurs_at_def)
  qed
qed

lemma Index_first: "Index s xs = Some i \<Longrightarrow> p < i \<Longrightarrow> \<not> occurs_at s xs p"
proof (induction s xs arbitrary: i p rule: Index.induct)
  case (2 s c cs)
  show ?case
  proof (cases "HasPrefix (c # cs) s")
    case False
    with 2 obtain j where j: "Index s cs = Some j" "i = Suc j" by auto
    show ?thesis
    proof (cases p)
      case 0
      with False show ?thesis by (auto simp: occurs_at_def HasPrefix_def)
    next
      case (Suc q)
      with "2.IH" [OF False j(1), of q] j "2.prems"(2) show ?thesis by (simp add: occurs_at_def)
    qed
  qed (use 2 in auto)
qed (auto split: if_splits)

section \<open>What masking does\<close>

text \<open>\<open>ys\<close> is \<open>xs\<close> with some bytes replaced by asterisks, each of them inside an occurrence of a secret.\<close>

definition covered :: "string list \<Rightarrow> string \<Rightarrow> nat \<Rightarrow> bool" where
  "covered S xs i \<longleftrightarrow> (\<exists>s\<in>set S. \<exists>p. p \<le> i \<and> i < p + length s \<and> occurs_at s xs p)"

definition hides :: "string list \<Rightarrow> string \<Rightarrow> string \<Rightarrow> bool" where
  "hides S xs ys \<longleftrightarrow> length ys = length xs \<and>
     (\<forall>i<length xs. ys ! i = xs ! i \<or> ys ! i = CHR ''*'' \<and> covered S xs i)"

definition plain :: "string list \<Rightarrow> bool" where
  "plain S \<longleftrightarrow> (\<forall>s\<in>set S. CHR ''*'' \<notin> set s)"

lemma hides_refl [simp]: "hides S xs xs"
  by (simp add: hides_def)

text \<open>An occurrence in the masked text is one in the text, because the secret has no asterisk.\<close>

lemma occurs_unmasked:
  assumes "hides S xs ys" "occurs_at s ys p" "CHR ''*'' \<notin> set s"
  shows "occurs_at s xs p"
proof -
  from assms(1,2) have l: "p + length s \<le> length xs" by (simp add: hides_def occurs_at_def)
  have "xs ! (p + k) = s ! k" if "k < length s" for k
  proof -
    from assms(2) that have "ys ! (p + k) = s ! k" by (simp add: occurs_at_nth)
    moreover have "s ! k \<noteq> CHR ''*''" using assms(3) that by (metis nth_mem)
    moreover have "p + k < length xs" using l that by simp
    with assms(1) have "ys ! (p + k) = xs ! (p + k) \<or> ys ! (p + k) = CHR ''*''"
      unfolding hides_def by blast
    ultimately show ?thesis by simp
  qed
  with l show ?thesis by (simp add: occurs_at_nth)
qed

lemma hides_trans:
  assumes "hides S xs ys" "hides S ys zs" "plain S"
  shows "hides S xs zs"
proof -
  have "covered S ys i \<Longrightarrow> covered S xs i" for i
    using occurs_unmasked [OF assms(1)] assms(3) unfolding covered_def plain_def by blast
  with assms(1,2) show ?thesis unfolding hides_def by metis
qed

lemma hides_prepend: "hides S xs ys \<Longrightarrow> hides S (out @ xs) (out @ ys)"
proof -
  assume h: "hides S xs ys"
  have c: "covered S (out @ xs) i" if "covered S xs (i - length out)" "length out \<le> i" for i
  proof -
    from that(1) obtain s p where s: "s \<in> set S" "p \<le> i - length out" "i - length out < p + length s"
      "occurs_at s xs p" unfolding covered_def by blast
    then have "occurs_at s (out @ xs) (length out + p)" by (simp add: occurs_at_def)
    moreover have "length out + p \<le> i" "i < length out + p + length s" using s that(2) by auto
    ultimately show ?thesis using s(1) unfolding covered_def by blast
  qed
  from h have l: "length ys = length xs" by (simp add: hides_def)
  show ?thesis
    unfolding hides_def
  proof (intro conjI allI impI)
    fix i assume i: "i < length (out @ xs)"
    show "(out @ ys) ! i = (out @ xs) ! i \<or> (out @ ys) ! i = CHR ''*'' \<and> covered S (out @ xs) i"
    proof (cases "i < length out")
      case False
      then have "i - length out < length xs" using i by auto
      with h have "ys ! (i - length out) = xs ! (i - length out) \<or>
          ys ! (i - length out) = CHR ''*'' \<and> covered S xs (i - length out)"
        unfolding hides_def by blast
      with False c [of i] show ?thesis by (auto simp: nth_append)
    qed (simp add: nth_append)
  qed (simp add: l)
qed

lemma occurs_at_append: "occurs_at s xs p \<Longrightarrow> occurs_at s (xs @ zs) p"
  by (auto simp: occurs_at_nth nth_append)

lemma hides_append: "hides S xs ys \<Longrightarrow> hides S (xs @ zs) (ys @ zs)"
proof -
  assume h: "hides S xs ys"
  have "covered S (xs @ zs) i" if "covered S xs i" for i
    using that occurs_at_append unfolding covered_def by blast
  then show ?thesis using h by (auto simp: hides_def nth_append)
qed

text \<open>The text before the first match, asterisks over the match, the rest unchanged.\<close>

lemma hides_match:
  assumes "Index s xs = Some i" "s \<in> set S"
  shows "hides S xs (take i xs @ replicate (length s) (CHR ''*'') @ drop (i + length s) xs)"
proof -
  from Index_Some [OF assms(1)] have o: "occurs_at s xs i" by (simp add: occurs_at_def)
  then have l: "i + length s \<le> length xs" by (simp add: occurs_at_def)
  have "covered S xs k" if "i \<le> k" "k < i + length s" for k
    using that o assms(2) unfolding covered_def by blast
  then show ?thesis using l by (auto simp: hides_def nth_append min_def)
qed

lemma hides_mask_one: "s \<in> set S \<Longrightarrow> plain S \<Longrightarrow> hides S xs (mask_one s xs)"
proof (induction s xs rule: mask_one.induct)
  case (1 s xs)
  show ?case
  proof (cases "s = '''' \<or> Index s xs = None")
    case False
    then obtain i where i: "Index s xs = Some i" by auto
    let ?m = "take i xs @ replicate (length s) (CHR ''*'')"
    from hides_match [OF i "1.prems"(1)] have a: "hides S xs (?m @ drop (i + length s) xs)" by simp
    have "hides S (drop (i + length s) xs) (mask_one s (drop (i + length s) xs))"
      using 1 False i by blast
    then have "hides S (?m @ drop (i + length s) xs) (?m @ mask_one s (drop (i + length s) xs))"
      by (rule hides_prepend)
    from hides_trans [OF a this "1.prems"(2)] show ?thesis
      using False i by (subst mask_one.simps) simp
  qed (auto simp: mask_one.simps)
qed

lemma mask_one_length: "length (mask_one s xs) = length xs"
proof (induction s xs rule: mask_one.induct)
  case (1 s xs)
  then show ?case by (subst mask_one.simps) (auto dest: Index_Some split: option.split)
qed

lemma mask_one_clean:
  "s \<noteq> '''' \<Longrightarrow> CHR ''*'' \<notin> set s \<Longrightarrow> \<not> occurs_at s (mask_one s xs) p"
proof (induction s xs arbitrary: p rule: mask_one.induct)
  case (1 s xs)
  show ?case
  proof (cases "Index s xs")
    case None
    then show ?thesis using Index_None [OF None] "1.prems"(1) by (simp add: mask_one.simps)
  next
    case (Some i)
    let ?r = "mask_one s (drop (i + length s) xs)"
    let ?y = "take i xs @ replicate (length s) (CHR ''*'') @ ?r"
    have l: "i + length s \<le> length xs" using Index_Some [OF Some] by simp
    have star: "?y ! k = CHR ''*''" if "i \<le> k" "k < i + length s" for k
      using that l by (auto simp: nth_append min_def)
    have "\<not> occurs_at s ?y p"
    proof
      assume o: "occurs_at s ?y p"
      have no: "k < p \<or> p + length s \<le> k" if "i \<le> k" "k < i + length s" for k
      proof (rule ccontr)
        assume "\<not> (k < p \<or> p + length s \<le> k)"
        then have "k - p < length s" "p + (k - p) = k" by auto
        with o have "?y ! k = s ! (k - p)" by (metis occurs_at_nth)
        with star [OF that] \<open>k - p < length s\<close> "1.prems"(2) show False by (metis nth_mem)
      qed
      from no [of i] no [of p] "1.prems"(1) consider "p + length s \<le> i" | "i + length s \<le> p"
        by fastforce
      then show False
      proof cases
        case 1
        with o l have "occurs_at s xs p" by (auto simp: occurs_at_nth nth_append)
        with Index_first [OF Some, of p] 1 "1.prems"(1) show False by (cases s) auto
      next
        case 2
        have "length (take i xs) = i" using l by simp
        with o 2 have "occurs_at s ?r (p - (i + length s))"
          by (auto simp: occurs_at_def drop_append min_def)
        with "1.IH" [OF "1.prems"(1) Some "1.prems"] show False by blast
      qed
    qed
    with Some "1.prems"(1) show ?thesis by (subst mask_one.simps) simp
  qed
qed

lemma hides_mask: "set T \<subseteq> set S \<Longrightarrow> plain S \<Longrightarrow> hides S xs (mask T xs)"
proof (induction T arbitrary: xs)
  case (Cons t T)
  then have "hides S xs (mask_one t xs)" "hides S (mask_one t xs) (mask T (mask_one t xs))"
    by (auto intro: hides_mask_one)
  from hides_trans [OF this Cons.prems(2)] show ?case by (simp add: mask_def)
qed (simp add: mask_def)

lemma mask_clean:
  "set T \<subseteq> set S \<Longrightarrow> plain S \<Longrightarrow> s \<in> set T \<Longrightarrow> s \<noteq> '''' \<Longrightarrow> \<not> occurs_at s (mask T xs) p"
proof (induction T arbitrary: xs)
  case (Cons t T)
  have e: "mask (t # T) xs = mask T (mask_one t xs)" by (simp add: mask_def)
  show ?case
  proof (cases "s = t")
    case True
    have h: "hides S (mask_one t xs) (mask T (mask_one t xs))"
      using Cons.prems by (intro hides_mask) auto
    have "CHR ''*'' \<notin> set s" using Cons.prems by (auto simp: plain_def)
    with occurs_unmasked [OF h, of s p] mask_one_clean [of s xs p] True Cons.prems(4) show ?thesis
      by (auto simp: e)
  next
    case False
    with Cons show ?thesis by (simp add: e)
  qed
qed simp

section \<open>The stream\<close>

text \<open>
  Between two chunks: what went out together with what is held back is the input with nothing but
  secrets overwritten; no secret begins in what went out; and once anything went out, one byte less
  than the longest secret is held back.
\<close>

definition stream_inv :: "redactor \<Rightarrow> string \<Rightarrow> string \<Rightarrow> bool" where
  "stream_inv r xs out \<longleftrightarrow>
     hides (red_secrets r) xs (out @ red_pending r) \<and>
     (out = '''' \<or> length (red_pending r) = red_max r - 1) \<and>
     (\<forall>s\<in>set (red_secrets r). \<forall>p<length out. \<not> occurs_at s (out @ red_pending r) p)"

definition good_redactor :: "redactor \<Rightarrow> bool" where
  "good_redactor r \<longleftrightarrow> plain (red_secrets r) \<and>
     (\<forall>s\<in>set (red_secrets r). s \<noteq> '''' \<and> length s \<le> red_max r) \<and>
     (red_max r = 0 \<longrightarrow> red_secrets r = [] \<and> red_pending r = '''')"

lemma stream_mask:
  assumes "good_redactor r" "stream_inv r xs out"
  shows "hides (red_secrets r) (xs @ data) (out @ mask (red_secrets r) (red_pending r @ data))"
    and "s \<in> set (red_secrets r) \<Longrightarrow>
           \<not> occurs_at s (out @ mask (red_secrets r) (red_pending r @ data)) p"
proof -
  let ?S = "red_secrets r" and ?m = "mask (red_secrets r) (red_pending r @ data)"
  have pl: "plain ?S" using assms(1) by (simp add: good_redactor_def)
  have hm: "hides ?S (red_pending r @ data) ?m" by (rule hides_mask [OF _ pl]) simp
  have "hides ?S (xs @ data) ((out @ red_pending r) @ data)"
    using assms(2) by (intro hides_append) (simp add: stream_inv_def)
  with hides_prepend [OF hm, of out] pl show "hides ?S (xs @ data) (out @ ?m)"
    by (auto intro: hides_trans)
  assume s: "s \<in> set ?S"
  show "\<not> occurs_at s (out @ ?m) p"
  proof
    assume o: "occurs_at s (out @ ?m) p"
    show False
    proof (cases "p < length out")
      case True
      have "s \<noteq> ''''" "length s \<le> red_max r" "length (red_pending r) = red_max r - 1"
        using assms s True by (auto simp: good_redactor_def stream_inv_def)
      with True have f: "p + length s \<le> length (out @ red_pending r)" by (cases s) auto
      have "occurs_at s ((out @ red_pending r) @ data) p"
        using o occurs_unmasked [OF hides_prepend [OF hm, of out]] pl s by (simp add: plain_def)
      with f have "occurs_at s (out @ red_pending r) p" unfolding occurs_at_def by simp
      with assms(2) s True show False by (auto simp: stream_inv_def)
    next
      case False
      with o have "occurs_at s ?m (p - length out)" by (auto simp: occurs_at_def)
      with mask_clean [OF subset_refl pl s] assms(1) s show False by (auto simp: good_redactor_def)
    qed
  qed
qed

lemma mask_length: "length (mask T xs) = length xs"
  unfolding mask_def by (induction T arbitrary: xs) (simp_all add: mask_one_length)

lemma Push_inv:
  assumes "good_redactor r" "stream_inv r xs out" "Push r data = (safe, r')"
  shows "stream_inv r' (xs @ data) (out @ safe) \<and> good_redactor r'
    \<and> red_secrets r' = red_secrets r"
proof -
  note m = stream_mask(1) [OF assms(1,2), of data] stream_mask(2) [OF assms(1,2), of _ data]
  let ?S = "red_secrets r"
  have pl: "plain ?S" using assms(1) by (simp add: good_redactor_def)
  consider "red_max r = 0" | "red_max r \<noteq> 0" "length (red_pending r @ data) \<le> red_max r - 1"
    | "red_max r \<noteq> 0" "red_max r - 1 < length (red_pending r @ data)" by linarith
  then show ?thesis
  proof cases
    case 1
    then have "?S = []" "red_pending r = ''''"
      using assms(1,2) by (auto simp: good_redactor_def stream_inv_def)
    with 1 assms m(1) show ?thesis
      by (auto simp: Push_def stream_inv_def mask_def good_redactor_def hides_def covered_def)
  next
    case 2
    then have e: "safe = ''''" "r' = r\<lparr>red_pending := red_pending r @ data\<rparr>"
      using assms(3) by (auto simp: Push_def Let_def)
    have h: "hides ?S (xs @ data) (out @ red_pending r @ data)"
      using assms(2) hides_append [of ?S xs "out @ red_pending r" data] by (simp add: stream_inv_def)
    have d: "data = ''''" if "out \<noteq> ''''"
    proof -
      have "length (red_pending r) = red_max r - 1" using assms(2) that by (simp add: stream_inv_def)
      with 2 have "length data = 0" unfolding length_append by linarith
      then show ?thesis by simp
    qed
    show ?thesis
    proof (cases "out = ''''")
      case True
      with e h 2(1) assms(1) show ?thesis by (auto simp: stream_inv_def good_redactor_def)
    next
      case False
      with d e h assms(1,2) show ?thesis by (auto simp: stream_inv_def good_redactor_def)
    qed
  next
    case 3
    let ?c = "red_pending r @ data"
    let ?k = "length ?c - (red_max r - 1)" and ?m = "mask ?S ?c"
    have e: "safe = take ?k ?m" "r' = r\<lparr>red_pending := drop ?k ?m\<rparr>"
      using 3 assms(3) by (auto simp: Push_def Let_def)
    have "length (drop ?k ?m) = red_max r - 1" using 3 by (simp add: mask_length)
    with e m assms(1) show ?thesis by (auto simp: stream_inv_def good_redactor_def)
  qed
qed

lemma push_all_inv:
  "good_redactor r \<Longrightarrow> stream_inv r xs out \<Longrightarrow> push_all r cs = (safe, r') \<Longrightarrow>
   stream_inv r' (xs @ concat cs) (out @ safe) \<and> good_redactor r' \<and> red_secrets r' = red_secrets r"
proof (induction r cs arbitrary: xs out safe r' rule: push_all.induct)
  case (2 r c cs)
  obtain o1 r1 where p: "Push r c = (o1, r1)" by fastforce
  obtain o2 r2 where q: "push_all r1 cs = (o2, r2)" by fastforce
  have e: "safe = o1 @ o2" "r' = r2" using 2 p q by auto
  from Push_inv [OF "2.prems"(1,2) p] have i: "stream_inv r1 (xs @ c) (out @ o1)"
    "good_redactor r1" "red_secrets r1 = red_secrets r" by auto
  from "2.IH" [OF p [symmetric] i(2,1) q] i(3) e show ?case by simp
qed simp

lemma fold_max_length: "length s \<le> fold (\<lambda>s m. max m (length s)) ss n"
  if "length s \<le> n \<or> s \<in> set ss"
  using that
proof (induction ss arbitrary: n)
  case (Cons t ss)
  show ?case unfolding fold_Cons comp_apply by (rule Cons.IH) (use Cons.prems in \<open>auto simp: le_max_iff_disj\<close>)
qed simp

lemma newRedactor_good: "plain values \<Longrightarrow> good_redactor (newRedactor values)"
proof -
  assume "plain values"
  moreover have "length s \<le> red_max (newRedactor values)" if "s \<in> set (red_secrets (newRedactor values))" for s
    using that fold_max_length [of s 0 "filter (\<lambda>v. v \<noteq> '''') values"]
    by (auto simp: newRedactor_def Let_def)
  moreover from this have "red_secrets (newRedactor values) = []" if "red_max (newRedactor values) = 0"
    using that by (fastforce simp: newRedactor_def Let_def filter_empty_conv)
  moreover have "red_pending (newRedactor values) = ''''" by (simp add: newRedactor_def Let_def)
  ultimately show ?thesis by (auto simp: good_redactor_def plain_def newRedactor_def Let_def)
qed

lemma redact_stream_facts:
  assumes "plain values"
  shows "hides values (concat chunks) (redact_stream values chunks)"
    and "s \<in> set values \<Longrightarrow> s \<noteq> '''' \<Longrightarrow> \<not> occurs s (redact_stream values chunks)"
proof -
  let ?r = "newRedactor values"
  obtain out r where p: "push_all ?r chunks = (out, r)" by fastforce
  have "stream_inv ?r '''' ''''" by (simp add: stream_inv_def newRedactor_def Let_def)
  from push_all_inv [OF newRedactor_good [OF assms] this p]
  have i: "stream_inv r (concat chunks) out" "good_redactor r" "red_secrets r = red_secrets ?r" by auto
  have e: "redact_stream values chunks = out @ mask (red_secrets r) (red_pending r)"
    using p by (simp add: redact_stream_def Flush_def)
  have S: "set (red_secrets ?r) = {s \<in> set values. s \<noteq> ''''}" by (auto simp: newRedactor_def Let_def)
  have "covered (red_secrets r) xs k \<Longrightarrow> covered values xs k" for xs k
    using i(3) S by (auto simp: covered_def)
  with stream_mask(1) [OF i(2,1), of "[]"] e
  show "hides values (concat chunks) (redact_stream values chunks)"
    by (auto simp: hides_def)
  assume "s \<in> set values" "s \<noteq> ''''"
  with stream_mask(2) [OF i(2,1), of s "[]"] i(3) S e show "\<not> occurs s (redact_stream values chunks)"
    by (simp add: occurs_def)
qed

end
