(* ===== verification/LogProperties.thy ===== *)
theory LogProperties
  imports Redactor
begin

text \<open>
  What the filter on the log streams guarantees for whole streams, however they are cut into chunks.
\<close>





text \<open>The transparency does not say that every byte of a secret is masked. When one secret begins like a
  longer one and is visited first, the rest of the longer one passes; visited last, it does not.
  The order is that of a Go map, so it changes from run to run.\<close>

lemma shorter_secret_exposes_longer:
  "redact_stream [''pass'', ''password''] [''password''] = ''****word''"
  "redact_stream [''password'', ''pass''] [''password''] = ''********''"
  by code_simp+

end
