(* ===== verification/FileTree.thy ===== *)
theory FileTree
  imports Prelude "HOL-Library.AList"
begin

text \<open>
  The directory below the root of the file store, and the calls of \<^verbatim>\<open>os\<close>, \<^verbatim>\<open>io\<close> and
  \<^verbatim>\<open>path/filepath\<close> that \<^verbatim>\<open>internal/filestore\<close> makes on it. A path is its elements below the root.
  The tree holds directories and regular files, the only things the store creates. Of the errors of the
  operating system the ones that depend on the tree are modelled; running out of space, permissions and
  failing disks are not.
\<close>

section \<open>Nodes, errors and readers\<close>

type_synonym fpath = "string list"

datatype fnode = Dir | Reg nat string

type_synonym fs = "(fpath \<times> fnode) list"

datatype file_error =
    NotExist | NotDir | IsDir | Exist | Invalid
  | ErrOffsetMismatch | ErrLimitExceeded | ReadFailed | ErrText string

text \<open>
  An \<^verbatim>\<open>io.Reader\<close>: the bytes it delivers, and whether an error ends them instead of \<^verbatim>\<open>io.EOF\<close>. The
  error comes in a read of its own, so a limit reached before it hides it.
\<close>

record reader =
  rd_data :: string
  rd_fails :: bool

definition LimitReader :: "reader \<Rightarrow> int \<Rightarrow> reader" where
  "LimitReader r n =
     (if n \<le> int (length (rd_data r)) then \<lparr>rd_data = take (nat n) (rd_data r), rd_fails = False\<rparr> else r)"

lemma LimitReader_length: "0 \<le> n \<Longrightarrow> int (length (rd_data (LimitReader r n))) \<le> n"
  by (simp add: LimitReader_def)

lemma LimitReader_prefix: "\<exists>k. rd_data (LimitReader r n) = take k (rd_data r)"
  by (auto simp: LimitReader_def intro: exI [of _ "length (rd_data r)"])

lemma LimitReader_fails: "rd_fails (LimitReader r n) \<Longrightarrow> int (length (rd_data (LimitReader r n))) < n"
  by (auto simp: LimitReader_def split: if_splits)

lemma LimitReader_whole: "int (length (rd_data r)) < n \<Longrightarrow> LimitReader r n = r"
  by (simp add: LimitReader_def)

section \<open>Looking up and changing nodes\<close>

definition node :: "fs \<Rightarrow> fpath \<Rightarrow> fnode option" where
  "node fs p = map_of fs p"

definition put :: "fpath \<Rightarrow> fnode \<Rightarrow> fs \<Rightarrow> fs" where
  "put p n fs = AList.update p n fs"

lemma node_put [simp]: "node (put p n fs) q = (if q = p then Some n else node fs q)"
  by (simp add: node_def put_def update_conv')

text \<open>The proper ancestors of a path, outermost first.\<close>

definition ancestors :: "fpath \<Rightarrow> fpath list" where
  "ancestors p = map (\<lambda>n. take n p) [0..<length p]"

lemma set_ancestors: "q \<in> set (ancestors p) \<longleftrightarrow> strict_prefix q p"
proof
  assume "q \<in> set (ancestors p)"
  then show "strict_prefix q p"
    by (auto simp: ancestors_def strict_prefix_def take_is_prefix)
next
  assume q: "strict_prefix q p"
  then have "q = take (length q) p" "length q < length p"
    by (auto simp: strict_prefix_def prefix_def)
  then show "q \<in> set (ancestors p)" by (auto simp: ancestors_def)
qed

text \<open>A path below a regular file is not there, and not \<^verbatim>\<open>os.ErrNotExist\<close> either.\<close>

fun is_reg :: "fnode option \<Rightarrow> bool" where
  "is_reg (Some (Reg m d)) = True"
| "is_reg _ = False"

definition blocked :: "fs \<Rightarrow> fpath \<Rightarrow> bool" where
  "blocked fs p = list_ex (\<lambda>q. is_reg (node fs q)) (ancestors p)"

definition missing_error :: "fs \<Rightarrow> fpath \<Rightarrow> file_error" where
  "missing_error fs p = (if blocked fs p then NotDir else NotExist)"

definition Lstat :: "fs \<Rightarrow> fpath \<Rightarrow> file_error + fnode" where
  "Lstat fs p = (case node fs p of None \<Rightarrow> Inl (missing_error fs p) | Some n \<Rightarrow> Inr n)"

definition mkdir_missing :: "fs \<Rightarrow> fpath \<Rightarrow> fs" where
  "mkdir_missing fs q = (if node fs q = None then put q Dir fs else fs)"

definition MkdirAll :: "fpath \<Rightarrow> fs \<Rightarrow> file_error + fs" where
  "MkdirAll p fs =
     (if list_ex (\<lambda>q. is_reg (node fs q)) (ancestors p @ [p]) then Inl NotDir
      else Inr (foldl mkdir_missing fs (ancestors p @ [p])))"

text \<open>\<^verbatim>\<open>os.Open\<close> and a read to the end; reading a directory fails.\<close>

definition Open :: "fs \<Rightarrow> fpath \<Rightarrow> file_error + string" where
  "Open fs p =
     (case node fs p of
        None \<Rightarrow> Inl (missing_error fs p) | Some Dir \<Rightarrow> Inl IsDir | Some (Reg m d) \<Rightarrow> Inr d)"

text \<open>\<^verbatim>\<open>os.OpenFile\<close> with \<^verbatim>\<open>O_CREATE|O_RDWR\<close>: the content of the file, which is created when missing.\<close>

definition OpenFile :: "nat \<Rightarrow> fpath \<Rightarrow> fs \<Rightarrow> file_error + (string \<times> fs)" where
  "OpenFile mode p fs =
     (case node fs p of
        Some Dir \<Rightarrow> Inl IsDir
      | Some (Reg m d) \<Rightarrow> Inr (d, fs)
      | None \<Rightarrow> if node fs (butlast p) = Some Dir then Inr ('''', put p (Reg mode '''') fs)
                else Inl (missing_error fs p))"

text \<open>New content for an open file, which keeps its mode.\<close>

definition write_file :: "fpath \<Rightarrow> string \<Rightarrow> fs \<Rightarrow> fs" where
  "write_file p d fs = (case node fs p of Some (Reg m _) \<Rightarrow> put p (Reg m d) fs | _ \<Rightarrow> fs)"

definition RemoveAll :: "fpath \<Rightarrow> fs \<Rightarrow> fs" where
  "RemoveAll p fs = filter (\<lambda>(q, n). \<not> prefix p q) fs"

definition Rename :: "fpath \<Rightarrow> fpath \<Rightarrow> fs \<Rightarrow> file_error + fs" where
  "Rename a b fs =
     (case node fs a of
        None \<Rightarrow> Inl (missing_error fs a)
      | Some n \<Rightarrow>
          if node fs b = Some Dir then Inl Exist
          else if node fs (butlast b) \<noteq> Some Dir then Inl (missing_error fs b)
          else if prefix a b then Inl Invalid
          else if n = Dir \<and> node fs b \<noteq> None then Inl NotDir
          else Inr (map (\<lambda>(q, m). if prefix a q then (b @ drop (length a) q, m) else (q, m))
                     (RemoveAll b fs)))"

text \<open>\<^verbatim>\<open>filepath.WalkDir\<close>: what lies at and below a directory, in the order of the elements of the paths.\<close>

definition walk :: "fs \<Rightarrow> fpath \<Rightarrow> (fpath \<times> fnode) list" where
  "walk fs root = filter (\<lambda>(q, n). prefix root q) (sort_key fst fs)"

section \<open>Joining and relating paths\<close>

text \<open>
  \<^verbatim>\<open>filepath.Join\<close> of a directory of the store and a relative path: the result is cleaned, so a
  ``..'' removes an element of the directory.
\<close>

definition Join :: "fpath \<Rightarrow> string \<Rightarrow> fpath" where
  "Join dir s = rev (foldl (clean_step True) (rev dir) (split_on (CHR ''/'') s))"

text \<open>The elements of \<^verbatim>\<open>filepath.Rel\<close>; none stands for ``.''.\<close>

fun Rel :: "fpath \<Rightarrow> fpath \<Rightarrow> string list" where
  "Rel (b # bs) (t # ts) = (if b = t then Rel bs ts else replicate (Suc (length bs)) ''..'' @ t # ts)"
| "Rel bs ts = replicate (length bs) ''..'' @ ts"

end
