(* ===== verification/SHA256.thy ===== *)
theory SHA256
  imports Prelude "HOL-Library.Word"
begin

text \<open>
  \<^verbatim>\<open>crypto/sha256\<close> and \<^verbatim>\<open>encoding/hex\<close> as the code uses them: the digest of a whole byte string, in
  lower-case hexadecimal (FIPS 180-4, on 32-bit words).
\<close>

unbundle bit_operations_syntax

type_synonym word32 = "32 word"

section \<open>The compression function\<close>

text \<open>
  The constants are computed, not listed: the round constants are the first 32 bits of the fractional
  parts of the cube roots of the first 64 primes, and the initial hash value those of the square
  roots of the first 8.  \<open>root_bits k n b r\<close> refines the root \<open>r\<close> of \<open>n\<close> by its \<open>b\<close> lower bits.
\<close>

fun root_bits :: "nat \<Rightarrow> nat \<Rightarrow> nat \<Rightarrow> nat \<Rightarrow> nat" where
  "root_bits k n 0 r = r"
| "root_bits k n (Suc b) r = root_bits k n b (if (r + 2 ^ b) ^ k \<le> n then r + 2 ^ b else r)"

definition small_primes :: "nat list" where
  "small_primes = filter (\<lambda>p. \<forall>d\<in>set [2..<p]. p mod d \<noteq> 0) [2..<312]"

definition round_constants :: "word32 list" where
  "round_constants = map (\<lambda>p. of_nat (root_bits 3 (p * 2 ^ 96) 35 0)) small_primes"

definition initial_hash :: "word32 list" where
  "initial_hash = map (\<lambda>p. of_nat (root_bits 2 (p * 2 ^ 64) 35 0)) (take 8 small_primes)"

definition sigma0 :: "word32 \<Rightarrow> word32" where
  "sigma0 x = word_rotr 7 x XOR word_rotr 18 x XOR drop_bit 3 x"

definition sigma1 :: "word32 \<Rightarrow> word32" where
  "sigma1 x = word_rotr 17 x XOR word_rotr 19 x XOR drop_bit 10 x"

definition Sigma0 :: "word32 \<Rightarrow> word32" where
  "Sigma0 x = word_rotr 2 x XOR word_rotr 13 x XOR word_rotr 22 x"

definition Sigma1 :: "word32 \<Rightarrow> word32" where
  "Sigma1 x = word_rotr 6 x XOR word_rotr 11 x XOR word_rotr 25 x"

definition choose_bits :: "word32 \<Rightarrow> word32 \<Rightarrow> word32 \<Rightarrow> word32" where
  "choose_bits x y z = (x AND y) XOR (NOT x AND z)"

definition majority_bits :: "word32 \<Rightarrow> word32 \<Rightarrow> word32 \<Rightarrow> word32" where
  "majority_bits x y z = (x AND y) XOR (x AND z) XOR (y AND z)"

text \<open>The message schedule: \<open>n\<close> more words, each from four of the ones before it.\<close>

fun schedule_words :: "nat \<Rightarrow> word32 list \<Rightarrow> word32 list" where
  "schedule_words 0 ws = ws"
| "schedule_words (Suc n) ws =
     (let t = length ws
      in schedule_words n (ws @
           [sigma1 (ws ! (t - 2)) + ws ! (t - 7) + sigma0 (ws ! (t - 15)) + ws ! (t - 16)]))"

definition compress_round :: "word32 list \<Rightarrow> word32 \<times> word32 \<Rightarrow> word32 list" where
  "compress_round st kw =
     (let a = st ! 0; b = st ! 1; c = st ! 2; d = st ! 3;
          e = st ! 4; f = st ! 5; g = st ! 6; h = st ! 7;
          t1 = h + Sigma1 e + choose_bits e f g + fst kw + snd kw;
          t2 = Sigma0 a + majority_bits a b c
      in [t1 + t2, a, b, c, d + t1, e, f, g])"

definition compress_block :: "word32 list \<Rightarrow> word32 list \<Rightarrow> word32 list" where
  "compress_block st block =
     map2 (+) st (foldl compress_round st (zip round_constants (schedule_words 48 block)))"

section \<open>Padding and digest\<close>

text \<open>The length in bits, as a 64-bit word with the most significant byte first.\<close>

definition bit_length :: "string \<Rightarrow> string" where
  "bit_length m =
     (let n = 8 * of_nat (length m) :: 64 word
      in map (\<lambda>i. char_of (uint (drop_bit i n AND 255))) [56, 48, 40, 32, 24, 16, 8, 0])"

definition pad_message :: "string \<Rightarrow> string" where
  "pad_message m =
     m @ CHR 0x80 # replicate ((119 - length m mod 64) mod 64) (CHR 0x00) @ bit_length m"

definition word_of_bytes :: "string \<Rightarrow> word32" where
  "word_of_bytes bs = foldl (\<lambda>w c. push_bit 8 w OR word_of_int (of_char c)) 0 bs"

function chunks_of :: "nat \<Rightarrow> 'a list \<Rightarrow> 'a list list" where
  "chunks_of n xs = (if n = 0 \<or> xs = [] then [] else take n xs # chunks_of n (drop n xs))"
  by pat_completeness auto
termination
  by (relation "measure (\<lambda>(n, xs). length xs)") (auto intro!: diff_less)

declare chunks_of.simps [simp del]

definition sha256 :: "string \<Rightarrow> word32 list" where
  "sha256 m = foldl compress_block initial_hash
     (map (\<lambda>b. map word_of_bytes (chunks_of 4 b)) (chunks_of 64 (pad_message m)))"

definition hex_digit :: "word32 \<Rightarrow> char" where
  "hex_digit w = ''0123456789abcdef'' ! unat w"

definition hex_word :: "word32 \<Rightarrow> string" where
  "hex_word w = map (\<lambda>i. hex_digit (drop_bit i w AND 15)) [28, 24, 20, 16, 12, 8, 4, 0]"

definition SHA256 :: "string \<Rightarrow> string" where
  "SHA256 m = concat (map hex_word (sha256 m))"

section \<open>The shape of a digest\<close>

lemma hex_digit_cases:
  assumes "w < 16"
  shows "hex_digit w \<in> set ''0123456789abcdef''"
proof -
  have "unat w < length ''0123456789abcdef''" using assms by (simp add: word_less_nat_alt)
  then show ?thesis unfolding hex_digit_def by (rule nth_mem)
qed

lemma compress_block_length: "length (compress_block st b) = length (foldl compress_round st xs)"
  if "length st = 8" for xs
proof -
  have r: "length (foldl compress_round st ys) = 8" if "length st = 8" for st and ys
    using that by (induction ys arbitrary: st) (simp_all add: compress_round_def Let_def)
  with that show ?thesis by (simp add: compress_block_def)
qed

lemma initial_hash_length: "length initial_hash = 8"
proof -
  let ?P = "\<lambda>p. \<forall>d\<in>set [2..<p]. p mod d \<noteq> (0::nat)"
  have "[2..<312] = [2..<20] @ [20..<312::nat]"
    using upt_add_eq_append [of 2 20 292] by simp
  then have "small_primes = filter ?P [2..<20] @ filter ?P [20..<312]"
    unfolding small_primes_def by (simp only: filter_append)
  moreover have "length (filter ?P [2..<20]) = 8" by code_simp
  moreover have "8 \<le> length xs" if "xs = ys @ zs" "length ys = 8" for xs ys zs :: "nat list"
    using that by simp
  ultimately have "8 \<le> length small_primes" by blast
  then show ?thesis by (simp add: initial_hash_def)
qed

lemma sha256_length: "length (sha256 m) = 8"
proof -
  have "length (foldl compress_block st bs) = 8" if "length st = 8" for st bs
    using that compress_block_length [where xs = "[]"] by (induction bs arbitrary: st) simp_all
  then show ?thesis by (simp add: sha256_def initial_hash_length)
qed

lemma hex_word_chars: "set (hex_word w) \<subseteq> set ''0123456789abcdef''"
proof -
  have "x AND 15 < 16" for x :: word32
    using word_and_le1 [of x 15] by (rule le_less_trans) simp
  then have "hex_digit (x AND 15) \<in> set ''0123456789abcdef''" for x
    by (rule hex_digit_cases)
  then show ?thesis unfolding hex_word_def by (simp only: set_map) blast
qed

lemma SHA256_length [simp]: "length (SHA256 m) = 64"
proof -
  have "length (concat (map hex_word ws)) = 8 * length ws" for ws
    by (induction ws) (simp_all add: hex_word_def)
  then show ?thesis by (simp add: SHA256_def sha256_length)
qed

lemma SHA256_chars: "set (SHA256 m) \<subseteq> set ''0123456789abcdef''"
  unfolding SHA256_def using hex_word_chars by fastforce

end
