(* ===== verification/FileStore.thy ===== *)
theory FileStore
  imports FileTree SHA256
begin

text \<open>
  \<^verbatim>\<open>internal/filestore/filestore.go\<close>: logs, outputs, inputs, checkpoints, build sources and images of
  jobs and builds as files below one directory. An operation returns Go's results and the new
  tree. Files written under a temporary name and renamed appear at once under their name: the
  temporary file never outlives the call.
\<close>

section \<open>Configuration and names\<close>

record file_config =
  maxLogBytes :: int
  maxOutputBytes :: int
  maxInputBytes :: int

text \<open>\<^verbatim>\<open>New\<close> creates the two directories.\<close>

definition new_store :: "fs \<Rightarrow> file_error + fs" where
  "new_store fs =
     (case MkdirAll [''jobs''] fs of Inl e \<Rightarrow> Inl e | Inr fs \<Rightarrow> MkdirAll [''builds''] fs)"

definition safeSegment :: "string \<Rightarrow> bool" where
  "safeSegment v \<longleftrightarrow> v \<noteq> '''' \<and> v \<noteq> ''.'' \<and> v \<noteq> ''..'' \<and> \<not> ContainsAny v [CHR ''/'', CHR 0x5C]"

definition slashed :: "string \<Rightarrow> string" where
  "slashed v = map (\<lambda>c. if c = CHR 0x5C then CHR ''/'' else c) v"

definition safeRelativePath :: "string \<Rightarrow> file_error + string" where
  "safeRelativePath v =
     (let v = slashed v; clean = path_clean v
      in if v = '''' \<or> path_is_abs clean \<or> clean = ''.'' \<or> HasPrefix clean ''../''
         then Inl (ErrText ''invalid relative path'') else Inr clean)"

definition within :: "fpath \<Rightarrow> fpath \<Rightarrow> bool" where
  "within root p = (case Rel root p of [] \<Rightarrow> True | x # xs \<Rightarrow> x \<noteq> ''..'')"

definition JobDir :: "string \<Rightarrow> file_error + fpath" where
  "JobDir jobID = (if safeSegment jobID then Inr [''jobs'', jobID] else Inl (ErrText ''invalid job ID''))"

definition dataDir :: "string \<Rightarrow> string \<Rightarrow> file_error + fpath" where
  "dataDir jobID attemptID =
     (case JobDir jobID of
        Inl e \<Rightarrow> Inl e
      | Inr dir \<Rightarrow>
          if attemptID = '''' then Inr dir
          else if \<not> safeSegment attemptID then Inl (ErrText ''invalid attempt ID'')
          else Inr (dir @ [''attempts'', attemptID]))"

definition validLogStream :: "string \<Rightarrow> bool" where
  "validLogStream s \<longleftrightarrow> s = ''stdout'' \<or> s = ''stderr'' \<or> s = ''.order''"

definition log_file :: "fpath \<Rightarrow> string \<Rightarrow> fpath" where
  "log_file dir stream = Join (dir @ [''logs'']) (stream @ ''.log'')"

text \<open>A missing directory holds nothing.\<close>

fun node_size :: "fnode \<Rightarrow> int" where
  "node_size Dir = 0"
| "node_size (Reg m d) = int (length d)"

definition directorySize :: "fs \<Rightarrow> fpath \<Rightarrow> file_error + int" where
  "directorySize fs root =
     (if node fs root = None \<and> blocked fs root then Inl NotDir
      else Inr (sum_list (map (\<lambda>(p, n). node_size n) (walk fs root))))"

section \<open>Appending to a file\<close>

text \<open>
  The end of every append: what the reader delivers goes behind the \<open>offset\<close> bytes of the file, at most
  \<open>remaining\<close> of it; one byte more is read to notice that there is more, and cut off again. Go's
  results are the next offset and the error.
\<close>

definition copy_to :: "fpath \<Rightarrow> string \<Rightarrow> int \<Rightarrow> int \<Rightarrow> reader \<Rightarrow> fs \<Rightarrow> (int \<times> file_error option) \<times> fs" where
  "copy_to p content offset remaining source fs =
     (let r = LimitReader source (remaining + 1); written = int (length (rd_data r));
          fs' = write_file p (content @ rd_data r) fs
      in if rd_fails r then ((offset + written, Some ReadFailed), fs')
         else if written > remaining then
           ((offset + remaining, Some ErrLimitExceeded),
            write_file p (take (nat (offset + remaining)) (content @ rd_data r)) fs')
         else ((offset + written, None), fs'))"

text \<open>The part the appends to logs, outputs and checkpoints share, from the creation of the directory on.
  \<open>used\<close> measures what counts against the limit.\<close>

definition append_file ::
  "fpath \<Rightarrow> (fs \<Rightarrow> file_error + int) \<Rightarrow> int \<Rightarrow> int \<Rightarrow> int \<Rightarrow> reader \<Rightarrow> fs \<Rightarrow>
   (int \<times> file_error option) \<times> fs" where
  "append_file p used limit early offset source fs =
     (case MkdirAll (butlast p) fs of
        Inl e \<Rightarrow> ((early, Some e), fs)
      | Inr fs \<Rightarrow>
          (case OpenFile 416 p fs of
             Inl e \<Rightarrow> ((early, Some e), fs)
           | Inr (content, fs) \<Rightarrow>
               if int (length content) \<noteq> offset then ((int (length content), Some ErrOffsetMismatch), fs)
               else (case used fs of
                  Inl e \<Rightarrow> ((offset, Some e), fs)
                | Inr u \<Rightarrow>
                    if limit - u \<le> 0 then ((offset, Some ErrLimitExceeded), fs)
                    else copy_to p content offset (limit - u) source fs)))"

definition AppendBuildLog ::
  "file_config \<Rightarrow> string \<Rightarrow> int \<Rightarrow> reader \<Rightarrow> fs \<Rightarrow> (int \<times> file_error option) \<times> fs" where
  "AppendBuildLog cfg buildID offset source fs =
     (if \<not> safeSegment buildID then ((offset, Some (ErrText ''invalid build ID'')), fs)
      else let p = [''builds'', buildID, ''logs'', ''build.log'']
        in append_file p (\<lambda>fs. case node fs p of Some n \<Rightarrow> Inr (node_size n) | None \<Rightarrow> Inr 0)
             (maxLogBytes cfg) offset offset source fs)"

definition appendLog ::
  "file_config \<Rightarrow> string \<Rightarrow> string \<Rightarrow> string \<Rightarrow> int \<Rightarrow> reader \<Rightarrow> fs \<Rightarrow> (int \<times> file_error option) \<times> fs" where
  "appendLog cfg jobID attemptID stream offset source fs =
     (if \<not> validLogStream stream then ((0, Some (ErrText ''invalid log stream'')), fs)
      else (case dataDir jobID attemptID of
        Inl e \<Rightarrow> ((0, Some e), fs)
      | Inr dir \<Rightarrow>
          append_file (log_file dir stream) (\<lambda>fs. directorySize fs (dir @ [''logs'']))
            (maxLogBytes cfg) 0 offset source fs))"

definition AppendLog ::
  "file_config \<Rightarrow> string \<Rightarrow> string \<Rightarrow> int \<Rightarrow> reader \<Rightarrow> fs \<Rightarrow> (int \<times> file_error option) \<times> fs" where
  "AppendLog cfg jobID stream offset source fs = appendLog cfg jobID '''' stream offset source fs"

definition AppendAttemptLog ::
  "file_config \<Rightarrow> string \<Rightarrow> string \<Rightarrow> string \<Rightarrow> int \<Rightarrow> reader \<Rightarrow> fs \<Rightarrow> (int \<times> file_error option) \<times> fs" where
  "AppendAttemptLog cfg jobID attemptID stream offset source fs =
     appendLog cfg jobID attemptID stream offset source fs"

definition appendOutput ::
  "file_config \<Rightarrow> string \<Rightarrow> string \<Rightarrow> string \<Rightarrow> int \<Rightarrow> reader \<Rightarrow> fs \<Rightarrow> (int \<times> file_error option) \<times> fs" where
  "appendOutput cfg jobID attemptID relativePath offset source fs =
     (case safeRelativePath relativePath of
        Inl e \<Rightarrow> ((0, Some e), fs)
      | Inr clean \<Rightarrow>
          (case dataDir jobID attemptID of
             Inl e \<Rightarrow> ((0, Some e), fs)
           | Inr dir \<Rightarrow>
               let outputRoot = dir @ [''output'']; p = Join outputRoot clean
               in if \<not> within outputRoot p then ((0, Some (ErrText ''output path escapes job directory'')), fs)
                  else append_file p (\<lambda>fs. directorySize fs outputRoot)
                         (maxOutputBytes cfg) 0 offset source fs))"

definition AppendOutput ::
  "file_config \<Rightarrow> string \<Rightarrow> string \<Rightarrow> int \<Rightarrow> reader \<Rightarrow> fs \<Rightarrow> (int \<times> file_error option) \<times> fs" where
  "AppendOutput cfg jobID p offset source fs = appendOutput cfg jobID '''' p offset source fs"

definition AppendAttemptOutput ::
  "file_config \<Rightarrow> string \<Rightarrow> string \<Rightarrow> string \<Rightarrow> int \<Rightarrow> reader \<Rightarrow> fs \<Rightarrow> (int \<times> file_error option) \<times> fs" where
  "AppendAttemptOutput cfg jobID attemptID p offset source fs =
     appendOutput cfg jobID attemptID p offset source fs"

text \<open>What counts against the output limit of a job when a checkpoint grows.\<close>

definition checkpoint_used :: "fpath \<Rightarrow> fs \<Rightarrow> file_error + int" where
  "checkpoint_used jobDir fs =
     (case directorySize fs (jobDir @ [''output'']) of
        Inl e \<Rightarrow> Inl e
      | Inr a \<Rightarrow>
          (case directorySize fs (jobDir @ [''checkpoints'']) of
             Inl e \<Rightarrow> Inl e
           | Inr b \<Rightarrow>
               (case directorySize fs (jobDir @ [''checkpoint-staging'']) of
                  Inl e \<Rightarrow> Inl e | Inr c \<Rightarrow> Inr (a + b + c))))"

definition AppendCheckpoint ::
  "file_config \<Rightarrow> string \<Rightarrow> string \<Rightarrow> string \<Rightarrow> int \<Rightarrow> reader \<Rightarrow> fs \<Rightarrow> (int \<times> file_error option) \<times> fs" where
  "AppendCheckpoint cfg jobID syncID relativePath offset source fs =
     (if \<not> safeSegment syncID then ((0, Some (ErrText ''invalid checkpoint sync ID'')), fs)
      else (case safeRelativePath relativePath of
        Inl e \<Rightarrow> ((0, Some e), fs)
      | Inr clean \<Rightarrow>
          (case JobDir jobID of
             Inl e \<Rightarrow> ((0, Some e), fs)
           | Inr jobDir \<Rightarrow>
               let root = jobDir @ [''checkpoint-staging'', syncID]; p = Join root clean
               in if \<not> within root p then ((0, Some (ErrText ''checkpoint path escapes staging directory'')), fs)
                  else append_file p (checkpoint_used jobDir) (maxOutputBytes cfg) 0 offset source fs)))"

section \<open>Reading logs\<close>

text \<open>A log that does not exist yet is empty. The results are the bytes, the next offset and the error.\<close>

definition read_from :: "fs \<Rightarrow> fpath \<Rightarrow> int \<Rightarrow> (string \<Rightarrow> string) \<Rightarrow> string \<times> int \<times> file_error option" where
  "read_from fs p offset part =
     (case Open fs p of
        Inl e \<Rightarrow> ('''', offset, if e = NotExist then None else Some e)
      | Inr content \<Rightarrow>
          if offset < 0 then ('''', offset, Some Invalid)
          else let out = part (drop (nat offset) content) in (out, offset + int (length out), None))"

definition ReadBuildLog :: "fs \<Rightarrow> string \<Rightarrow> int \<Rightarrow> string \<times> int \<times> file_error option" where
  "ReadBuildLog fs buildID offset =
     (if \<not> safeSegment buildID \<or> offset < 0
      then ('''', offset, Some (ErrText ''invalid build log request''))
      else read_from fs [''builds'', buildID, ''logs'', ''build.log''] offset (\<lambda>d. d))"

definition ReadBuildLogChunk :: "fs \<Rightarrow> string \<Rightarrow> int \<Rightarrow> int \<Rightarrow> string \<times> int \<times> file_error option" where
  "ReadBuildLogChunk fs buildID offset limit =
     (if \<not> safeSegment buildID \<or> offset < 0 \<or> limit \<le> 0
      then ('''', offset, Some (ErrText ''invalid build log request''))
      else read_from fs [''builds'', buildID, ''logs'', ''build.log''] offset (take (nat limit)))"

definition readLog :: "fs \<Rightarrow> string \<Rightarrow> string \<Rightarrow> string \<Rightarrow> int \<Rightarrow> string \<times> int \<times> file_error option" where
  "readLog fs jobID attemptID stream offset =
     (case dataDir jobID attemptID of
        Inl e \<Rightarrow> ('''', offset, Some e)
      | Inr dir \<Rightarrow> read_from fs (log_file dir stream) offset (\<lambda>d. d))"

definition ReadLog :: "fs \<Rightarrow> string \<Rightarrow> string \<Rightarrow> int \<Rightarrow> string \<times> int \<times> file_error option" where
  "ReadLog fs jobID stream offset = readLog fs jobID '''' stream offset"

definition ReadAttemptLog :: "fs \<Rightarrow> string \<Rightarrow> string \<Rightarrow> string \<Rightarrow> int \<Rightarrow> string \<times> int \<times> file_error option" where
  "ReadAttemptLog fs jobID attemptID stream offset = readLog fs jobID attemptID stream offset"

definition readLogChunk ::
  "fs \<Rightarrow> string \<Rightarrow> string \<Rightarrow> string \<Rightarrow> int \<Rightarrow> int \<Rightarrow> string \<times> int \<times> file_error option" where
  "readLogChunk fs jobID attemptID stream offset limit =
     (if limit \<le> 0 then ('''', offset, Some (ErrText ''log chunk limit must be positive''))
      else (case dataDir jobID attemptID of
        Inl e \<Rightarrow> ('''', offset, Some e)
      | Inr dir \<Rightarrow>
          if \<not> validLogStream stream then ('''', offset, Some (ErrText ''invalid log stream''))
          else read_from fs (log_file dir stream) offset (take (nat limit))))"

definition ReadLogChunk :: "fs \<Rightarrow> string \<Rightarrow> string \<Rightarrow> int \<Rightarrow> int \<Rightarrow> string \<times> int \<times> file_error option" where
  "ReadLogChunk fs jobID stream offset limit = readLogChunk fs jobID '''' stream offset limit"

definition ReadAttemptLogChunk ::
  "fs \<Rightarrow> string \<Rightarrow> string \<Rightarrow> string \<Rightarrow> int \<Rightarrow> int \<Rightarrow> string \<times> int \<times> file_error option" where
  "ReadAttemptLogChunk fs jobID attemptID stream offset limit =
     readLogChunk fs jobID attemptID stream offset limit"

text \<open>A directory has a size of its own, which the file system decides; the paths of logs are never directories.\<close>

definition logSize :: "fs \<Rightarrow> string \<Rightarrow> string \<Rightarrow> string \<Rightarrow> int \<times> file_error option" where
  "logSize fs jobID attemptID stream =
     (if \<not> validLogStream stream then (0, Some (ErrText ''invalid log stream''))
      else (case dataDir jobID attemptID of
        Inl e \<Rightarrow> (0, Some e)
      | Inr dir \<Rightarrow>
          (case Lstat fs (log_file dir stream) of
             Inl e \<Rightarrow> (0, if e = NotExist then None else Some e)
           | Inr n \<Rightarrow> (node_size n, None))))"

definition LogSize :: "fs \<Rightarrow> string \<Rightarrow> string \<Rightarrow> int \<times> file_error option" where
  "LogSize fs jobID stream = logSize fs jobID '''' stream"

definition AttemptLogSize :: "fs \<Rightarrow> string \<Rightarrow> string \<Rightarrow> string \<Rightarrow> int \<times> file_error option" where
  "AttemptLogSize fs jobID attemptID stream = logSize fs jobID attemptID stream"

definition AttemptLogExists :: "fs \<Rightarrow> string \<Rightarrow> string \<Rightarrow> string \<Rightarrow> bool \<times> file_error option" where
  "AttemptLogExists fs jobID attemptID stream =
     (if \<not> validLogStream stream then (False, Some (ErrText ''invalid log stream''))
      else (case dataDir jobID attemptID of
        Inl e \<Rightarrow> (False, Some e)
      | Inr dir \<Rightarrow>
          (case Lstat fs (log_file dir stream) of
             Inl e \<Rightarrow> (False, if e = NotExist then None else Some e)
           | Inr n \<Rightarrow> (is_reg (Some n), None))))"

end
