(* ===== verification/FileObjects.thy ===== *)
theory FileObjects
  imports FileStore
begin

text \<open>
  The second half of \<^verbatim>\<open>internal/filestore/filestore.go\<close>: objects that are written once (inputs, build
  sources, images), the expansion of uploaded archives, the promotion of checkpoints, downloads and
  deletions.
\<close>

section \<open>Inputs of jobs\<close>

record InputMetadata =
  im_Path :: string
  im_Size :: int
  im_SHA256 :: string

text \<open>What a reader delivers within a limit, or the reason the upload fails.\<close>

definition read_limited :: "reader \<Rightarrow> int \<Rightarrow> file_error + string" where
  "read_limited source limit =
     (let r = LimitReader source (limit + 1)
      in if rd_fails r then Inl ReadFailed
         else if int (length (rd_data r)) > limit then Inl ErrLimitExceeded
         else Inr (rd_data r))"

definition StoreInput ::
  "file_config \<Rightarrow> string \<Rightarrow> string \<Rightarrow> reader \<Rightarrow> fs \<Rightarrow> (file_error + InputMetadata) \<times> fs" where
  "StoreInput cfg jobID relativePath source fs =
     (case safeRelativePath relativePath of
        Inl e \<Rightarrow> (Inl e, fs)
      | Inr clean \<Rightarrow>
          (case JobDir jobID of
             Inl e \<Rightarrow> (Inl e, fs)
           | Inr jobDir \<Rightarrow>
               let root = jobDir @ [''inputs'']; destination = Join root clean
               in if \<not> within root destination then (Inl (ErrText ''input path escapes job directory''), fs)
                  else (case Lstat fs destination of
                    Inr n \<Rightarrow> (Inl (ErrText ''duplicate input path''), fs)
                  | Inl e \<Rightarrow>
                      if e \<noteq> NotExist then (Inl e, fs)
                      else (case directorySize fs root of
                        Inl e \<Rightarrow> (Inl e, fs)
                      | Inr used \<Rightarrow>
                          if maxInputBytes cfg - used < 0 then (Inl ErrLimitExceeded, fs)
                          else (case MkdirAll (butlast destination) fs of
                            Inl e \<Rightarrow> (Inl e, fs)
                          | Inr fs \<Rightarrow>
                              (case read_limited source (maxInputBytes cfg - used) of
                                 Inl e \<Rightarrow> (Inl e, fs)
                               | Inr data \<Rightarrow>
                                   (Inr \<lparr>im_Path = clean, im_Size = int (length data), im_SHA256 = SHA256 data\<rparr>,
                                    put destination (Reg 288 data) fs)))))))"

definition OpenInput :: "fs \<Rightarrow> string \<Rightarrow> string \<Rightarrow> file_error + string" where
  "OpenInput fs jobID relativePath =
     (case safeRelativePath relativePath of
        Inl e \<Rightarrow> Inl e
      | Inr clean \<Rightarrow>
          (case JobDir jobID of
             Inl e \<Rightarrow> Inl e
           | Inr jobDir \<Rightarrow>
               let root = jobDir @ [''inputs'']; p = Join root clean
               in if \<not> within root p then Inl (ErrText ''input path escapes job directory'')
                  else (case Lstat fs p of
                    Inl e \<Rightarrow> Inl e
                  | Inr Dir \<Rightarrow> Inl (ErrText ''input is not a regular file'')
                  | Inr (Reg m d) \<Rightarrow> Inr d)))"

definition OpenAttemptOutput :: "fs \<Rightarrow> string \<Rightarrow> string \<Rightarrow> string \<Rightarrow> file_error + string" where
  "OpenAttemptOutput fs jobID attemptID relativePath =
     (case safeRelativePath relativePath of
        Inl e \<Rightarrow> Inl e
      | Inr clean \<Rightarrow>
          (case dataDir jobID attemptID of
             Inl e \<Rightarrow> Inl e
           | Inr dir \<Rightarrow>
               let root = dir @ [''output'']; p = Join root clean
               in if \<not> within root p then Inl (ErrText ''output path escapes job directory'')
                  else (case Lstat fs p of
                    Inl e \<Rightarrow> Inl e
                  | Inr Dir \<Rightarrow> Inl (ErrText ''output is not a regular file'')
                  | Inr (Reg m d) \<Rightarrow> Inr d)))"

section \<open>Sources and images of builds\<close>

record BuildSourceMetadata =
  bsm_Filename :: string
  bsm_Size :: int
  bsm_SHA256 :: string

record BuildArtifactMetadata =
  bam_Size :: int
  bam_SHA256 :: string
  bam_Created :: bool

definition artifact_file :: "string \<Rightarrow> fpath" where
  "artifact_file buildID = [''builds'', buildID, ''artifact'', ''image.tar'']"

definition source_file :: "string \<Rightarrow> fpath" where
  "source_file buildID = [''builds'', buildID, ''source'', ''source.archive'']"

definition StoreBuildArtifact ::
  "string \<Rightarrow> reader \<Rightarrow> int \<Rightarrow> fs \<Rightarrow> (file_error + BuildArtifactMetadata) \<times> fs" where
  "StoreBuildArtifact buildID source limit fs =
     (if \<not> safeSegment buildID \<or> limit \<le> 0 then (Inl (ErrText ''invalid build artifact request''), fs)
      else let destination = artifact_file buildID in
        (case Lstat fs destination of
           Inr Dir \<Rightarrow> (Inl (ErrText ''build artifact is not a regular file''), fs)
         | Inr (Reg m d) \<Rightarrow>
             (Inr \<lparr>bam_Size = int (length d), bam_SHA256 = SHA256 d, bam_Created = False\<rparr>, fs)
         | Inl e \<Rightarrow>
             if e \<noteq> NotExist then (Inl e, fs)
             else (case MkdirAll (butlast destination) fs of
               Inl e \<Rightarrow> (Inl e, fs)
             | Inr fs \<Rightarrow>
                 (case read_limited source limit of
                    Inl e \<Rightarrow> (Inl e, fs)
                  | Inr data \<Rightarrow>
                      (Inr \<lparr>bam_Size = int (length data), bam_SHA256 = SHA256 data, bam_Created = True\<rparr>,
                       put destination (Reg 288 data) fs)))))"

definition OpenBuildArtifact :: "fs \<Rightarrow> string \<Rightarrow> file_error + string" where
  "OpenBuildArtifact fs buildID =
     (if \<not> safeSegment buildID then Inl (ErrText ''invalid build ID'')
      else (case Lstat fs (artifact_file buildID) of
        Inl e \<Rightarrow> Inl e
      | Inr Dir \<Rightarrow> Inl (ErrText ''build artifact is not a regular file'')
      | Inr (Reg m d) \<Rightarrow> Inr d))"

definition DeleteBuildArtifact :: "string \<Rightarrow> fs \<Rightarrow> (file_error + unit) \<times> fs" where
  "DeleteBuildArtifact buildID fs =
     (if \<not> safeSegment buildID then (Inl (ErrText ''invalid build ID''), fs)
      else (Inr (), RemoveAll [''builds'', buildID, ''artifact''] fs))"

definition StoreBuildSource ::
  "file_config \<Rightarrow> string \<Rightarrow> string \<Rightarrow> reader \<Rightarrow> fs \<Rightarrow> (file_error + BuildSourceMetadata) \<times> fs" where
  "StoreBuildSource cfg buildID filename source fs =
     (if \<not> safeSegment buildID then (Inl (ErrText ''invalid build ID''), fs)
      else let filename = path_base (TrimSpace filename); destination = source_file buildID in
        if filename = '''' \<or> filename = ''.'' \<or> 255 < length filename
        then (Inl (ErrText ''invalid source filename''), fs)
        else (case Lstat fs destination of
           Inr n \<Rightarrow> (Inl (ErrText ''build source is immutable''), fs)
         | Inl e \<Rightarrow>
             if e \<noteq> NotExist then (Inl e, fs)
             else (case MkdirAll (butlast destination) fs of
               Inl e \<Rightarrow> (Inl e, fs)
             | Inr fs \<Rightarrow>
                 (case read_limited source (maxInputBytes cfg) of
                    Inl e \<Rightarrow> (Inl e, fs)
                  | Inr data \<Rightarrow>
                      (Inr \<lparr>bsm_Filename = filename, bsm_Size = int (length data), bsm_SHA256 = SHA256 data\<rparr>,
                       put destination (Reg 288 data) fs)))))"

definition OpenBuildSource :: "fs \<Rightarrow> string \<Rightarrow> file_error + string" where
  "OpenBuildSource fs buildID =
     (if \<not> safeSegment buildID then Inl (ErrText ''invalid build ID'')
      else (case Lstat fs (source_file buildID) of
        Inl e \<Rightarrow> Inl e
      | Inr Dir \<Rightarrow> Inl (ErrText ''build source is not a regular file'')
      | Inr (Reg m d) \<Rightarrow> Inr d))"

definition DeleteBuild :: "string \<Rightarrow> fs \<Rightarrow> (file_error + unit) \<times> fs" where
  "DeleteBuild buildID fs =
     (if \<not> safeSegment buildID then (Inl (ErrText ''invalid build ID''), fs)
      else (Inr (), RemoveAll [''builds'', buildID] fs))"

section \<open>Expanding an archive\<close>

text \<open>
  The formats ZIP, gzip and tar are decoded by the standard library; the entries it finds in the
  bytes of the archive are a parameter. An entry of a ZIP may fail to open; the sequence of tar headers
  may end in an error.
\<close>

datatype entry_kind = RegularEntry | DirectoryEntry | OtherEntry

record archive_entry =
  ae_Name :: string
  ae_Kind :: entry_kind
  ae_Executable :: bool
  ae_Size :: int
  ae_Open :: "file_error + reader"

definition maxBuildSourceEntries :: nat where
  "maxBuildSourceEntries = 10000"

definition writeBuildSourceFile ::
  "fpath \<Rightarrow> fpath \<Rightarrow> bool \<Rightarrow> reader \<Rightarrow> int \<Rightarrow> int \<Rightarrow> fs \<Rightarrow> (int \<times> file_error option) \<times> fs" where
  "writeBuildSourceFile root target executable source expanded limit fs =
     (case MkdirAll (butlast target) fs of
        Inl e \<Rightarrow> ((expanded, Some e), fs)
      | Inr fs \<Rightarrow>
          (case Lstat fs target of
             Inr n \<Rightarrow> ((expanded, Some (ErrText ''project archive contains duplicate paths'')), fs)
           | Inl e \<Rightarrow>
               if e \<noteq> NotExist then ((expanded, Some e), fs)
               else let r = LimitReader source (limit - expanded + 1);
                        fs = put target (Reg (if executable then 488 else 416) (rd_data r)) fs;
                        expanded = expanded + int (length (rd_data r))
                 in if rd_fails r then ((expanded, Some ReadFailed), fs)
                    else if expanded > limit then ((expanded, Some ErrLimitExceeded), fs)
                    else if \<not> within root target
                      then ((expanded, Some (ErrText ''project archive path escapes its workspace'')), fs)
                    else ((expanded, None), fs)))"

definition root_entry :: "string \<Rightarrow> bool" where
  "root_entry name \<longleftrightarrow> name = ''.'' \<or> name = ''./''"

definition entry_target :: "fpath \<Rightarrow> string \<Rightarrow> file_error + fpath" where
  "entry_target destination name =
     (case safeRelativePath name of
        Inl e \<Rightarrow> Inl (ErrText ''unsafe project archive path'')
      | Inr clean \<Rightarrow>
          let target = Join destination clean
          in if within destination target then Inr target
             else Inl (ErrText ''project archive path escapes its workspace''))"

text \<open>The loops return the error that ended them.\<close>

fun zip_loop :: "fpath \<Rightarrow> int \<Rightarrow> archive_entry list \<Rightarrow> int \<Rightarrow> fs \<Rightarrow> file_error option \<times> fs" where
  "zip_loop destination limit [] expanded fs = (None, fs)"
| "zip_loop destination limit (entry # rest) expanded fs =
     (if root_entry (ae_Name entry) then zip_loop destination limit rest expanded fs
      else (case safeRelativePath (ae_Name entry) of
        Inl e \<Rightarrow> (Some (ErrText ''unsafe project archive path''), fs)
      | Inr clean \<Rightarrow>
          if ae_Kind entry = OtherEntry
          then (Some (ErrText ''project archive entry is not a regular file or directory''), fs)
          else (case entry_target destination (ae_Name entry) of
            Inl e \<Rightarrow> (Some e, fs)
          | Inr target \<Rightarrow>
              if ae_Kind entry = DirectoryEntry then
                (case MkdirAll target fs of
                   Inl e \<Rightarrow> (Some e, fs)
                 | Inr fs \<Rightarrow> zip_loop destination limit rest expanded fs)
              else (case ae_Open entry of
                Inl e \<Rightarrow> (Some e, fs)
              | Inr source \<Rightarrow>
                  (case writeBuildSourceFile destination target (ae_Executable entry) source expanded limit fs of
                     ((expanded, Some e), fs) \<Rightarrow> (Some e, fs)
                   | ((expanded, None), fs) \<Rightarrow> zip_loop destination limit rest expanded fs)))))"

definition extractBuildZip ::
  "(string \<Rightarrow> archive_entry list option) \<Rightarrow> file_config \<Rightarrow> fpath \<Rightarrow> fpath \<Rightarrow> fs \<Rightarrow> file_error option \<times> fs" where
  "extractBuildZip unzip cfg sourcePath destination fs =
     (case Open fs sourcePath of
        Inl e \<Rightarrow> (Some e, fs)
      | Inr content \<Rightarrow>
          (case unzip content of
             None \<Rightarrow> (Some (ErrText ''invalid ZIP project archive''), fs)
           | Some entries \<Rightarrow>
               if length entries = 0 \<or> length entries > maxBuildSourceEntries
               then (Some (ErrText ''project archive must contain between 1 and 10000 entries''), fs)
               else zip_loop destination (maxInputBytes cfg) entries 0 fs))"

text \<open>What the tar reader delivers next: a header with its content, or an error.\<close>

datatype tar_item = TarHeader archive_entry | TarBroken

fun tar_loop ::
  "fpath \<Rightarrow> int \<Rightarrow> tar_item list \<Rightarrow> nat \<Rightarrow> int \<Rightarrow> fs \<Rightarrow> file_error option \<times> fs" where
  "tar_loop destination limit [] entries expanded fs =
     (if entries = 0 then Some (ErrText ''project archive is empty'') else None, fs)"
| "tar_loop destination limit (TarBroken # rest) entries expanded fs =
     (Some (ErrText ''invalid tar project archive''), fs)"
| "tar_loop destination limit (TarHeader entry # rest) entries expanded fs =
     (if root_entry (ae_Name entry) then tar_loop destination limit rest entries expanded fs
      else if Suc entries > maxBuildSourceEntries
        then (Some (ErrText ''project archive contains more than 10000 entries''), fs)
      else (case entry_target destination (ae_Name entry) of
        Inl e \<Rightarrow> (Some e, fs)
      | Inr target \<Rightarrow>
          (case ae_Kind entry of
             DirectoryEntry \<Rightarrow>
               (case MkdirAll target fs of
                  Inl e \<Rightarrow> (Some e, fs)
                | Inr fs \<Rightarrow> tar_loop destination limit rest (Suc entries) expanded fs)
           | RegularEntry \<Rightarrow>
               (case ae_Open entry of
                  Inl e \<Rightarrow> (Some e, fs)
                | Inr source \<Rightarrow>
                    (case writeBuildSourceFile destination target (ae_Executable entry)
                            (LimitReader source (ae_Size entry)) expanded limit fs of
                       ((expanded, Some e), fs) \<Rightarrow> (Some e, fs)
                     | ((expanded, None), fs) \<Rightarrow> tar_loop destination limit rest (Suc entries) expanded fs))
           | OtherEntry \<Rightarrow>
               (Some (ErrText ''project archive entry is not a regular file or directory''), fs))))"

definition extractBuildTarGzip ::
  "(string \<Rightarrow> tar_item list option) \<Rightarrow> file_config \<Rightarrow> fpath \<Rightarrow> fpath \<Rightarrow> fs \<Rightarrow> file_error option \<times> fs" where
  "extractBuildTarGzip untar cfg sourcePath destination fs =
     (case Open fs sourcePath of
        Inl e \<Rightarrow> (Some e, fs)
      | Inr content \<Rightarrow>
          (case untar content of
             None \<Rightarrow> (Some (ErrText ''invalid gzip project archive''), fs)
           | Some items \<Rightarrow> tar_loop destination (maxInputBytes cfg) items 0 0 fs))"

definition children :: "fs \<Rightarrow> fpath \<Rightarrow> (fpath \<times> fnode) list" where
  "children fs p = filter (\<lambda>(q, n). length q = Suc (length p)) (walk fs p)"

definition singleProjectRoot :: "fs \<Rightarrow> fpath \<Rightarrow> file_error + fpath" where
  "singleProjectRoot fs workspace =
     (if node fs workspace \<noteq> Some Dir then Inl (missing_error fs workspace)
      else (case children fs workspace of
        [] \<Rightarrow> Inl (ErrText ''project archive is empty'')
      | [(q, Dir)] \<Rightarrow> Inr q
      | _ \<Rightarrow> Inr workspace))"

definition HasSuffix :: "string \<Rightarrow> string \<Rightarrow> bool" where
  "HasSuffix s t \<longleftrightarrow> HasPrefix (rev s) (rev t)"

text \<open>
  \<^verbatim>\<open>strings.ToLower\<close> as far as the suffixes ``.zip'', ``.tar.gz'' and ``.tgz'' can tell: ASCII letters, and
  U+0130, the only other character that becomes one of their letters.
\<close>

definition lower_char :: "char \<Rightarrow> char" where
  "lower_char c = (if CHR ''A'' \<le> c \<and> c \<le> CHR ''Z'' then char_of ((of_char c :: nat) + 32) else c)"

fun to_lower :: "string \<Rightarrow> string" where
  "to_lower [] = []"
| "to_lower [c] = [lower_char c]"
| "to_lower (c # d # cs) =
     (if c = CHR 0xC4 \<and> d = CHR 0xB0 then CHR ''i'' # to_lower cs else lower_char c # to_lower (d # cs))"

text \<open>
  \<open>tmp\<close> is the name \<^verbatim>\<open>os.MkdirTemp\<close> finds free. The results are the project directory, or the error
  after the workspace was removed again; the caller removes it when the analysis ends.
\<close>

definition PrepareBuildSource ::
  "(string \<Rightarrow> archive_entry list option) \<Rightarrow> (string \<Rightarrow> tar_item list option) \<Rightarrow> file_config \<Rightarrow>
   string \<Rightarrow> string \<Rightarrow> string \<Rightarrow> fs \<Rightarrow> (file_error + fpath) \<times> fs" where
  "PrepareBuildSource unzip untar cfg buildID filename tmp fs =
     (if \<not> safeSegment buildID then (Inl (ErrText ''invalid build ID''), fs)
      else let buildDir = [''builds'', buildID]; workspace = buildDir @ [tmp]; sourcePath = source_file buildID;
               lowerName = to_lower filename
        in if node fs buildDir \<noteq> Some Dir then (Inl (missing_error fs workspace), fs)
           else let fs = put workspace Dir fs;
               result = (if HasSuffix lowerName ''.zip'' then extractBuildZip unzip cfg sourcePath workspace fs
                         else if HasSuffix lowerName ''.tar.gz'' \<or> HasSuffix lowerName ''.tgz''
                           then extractBuildTarGzip untar cfg sourcePath workspace fs
                         else (Some (ErrText ''unsupported source archive''), fs))
             in (case result of
                   (Some e, fs) \<Rightarrow> (Inl e, RemoveAll workspace fs)
                 | (None, fs) \<Rightarrow>
                     (case singleProjectRoot fs workspace of
                        Inl e \<Rightarrow> (Inl e, RemoveAll workspace fs)
                      | Inr project \<Rightarrow> (Inr project, fs))))"

section \<open>Promoting checkpoints\<close>

definition staging_dir :: "fpath \<Rightarrow> string \<Rightarrow> fpath" where
  "staging_dir jobDir syncID = jobDir @ [''checkpoint-staging'', syncID]"

definition checkpoint_dir :: "fpath \<Rightarrow> string \<Rightarrow> fpath" where
  "checkpoint_dir jobDir syncID = jobDir @ [''checkpoints'', syncID]"

text \<open>The first loop: every file of the manifest is staged in full.\<close>

definition file_staged :: "fs \<Rightarrow> fpath \<Rightarrow> string \<times> int \<Rightarrow> bool" where
  "file_staged fs staging file =
     (case safeRelativePath (fst file) of
        Inl e \<Rightarrow> False
      | Inr clean \<Rightarrow>
          (case Lstat fs (Join staging clean) of
             Inr (Reg m d) \<Rightarrow> int (length d) = snd file
           | _ \<Rightarrow> False))"

text \<open>The walk: every staged file is in the manifest with its size. The files it saw are counted.\<close>

definition relative_name :: "fpath \<Rightarrow> fpath \<Rightarrow> string" where
  "relative_name root p = join_with (CHR ''/'') (drop (length root) p)"

definition staged_files :: "fs \<Rightarrow> fpath \<Rightarrow> (string \<times> string) list" where
  "staged_files fs root =
     List.map_filter (\<lambda>(p, n). case n of Dir \<Rightarrow> None | Reg m d \<Rightarrow> Some (relative_name root p, d)) (walk fs root)"

definition ConfirmCheckpoint ::
  "string \<Rightarrow> string \<Rightarrow> int gomap \<Rightarrow> fs \<Rightarrow> (file_error + unit) \<times> fs" where
  "ConfirmCheckpoint jobID syncID files fs =
     (if \<not> safeSegment syncID then (Inl (ErrText ''invalid checkpoint sync ID''), fs)
      else (case JobDir jobID of
        Inl e \<Rightarrow> (Inl e, fs)
      | Inr jobDir \<Rightarrow>
          let staging = staging_dir jobDir syncID; destination = checkpoint_dir jobDir syncID in
          if is_ok (Lstat fs destination) then (Inr (), fs)
          else (case (if files = [] then MkdirAll staging fs else Inr fs) of
            Inl e \<Rightarrow> (Inl e, fs)
          | Inr fs \<Rightarrow>
              if \<not> list_all (file_staged fs staging) files
              then (Inl (ErrText ''checkpoint file is not durably staged''), fs)
              else (case Lstat fs staging of
                Inl e \<Rightarrow> (Inl e, fs)
              | Inr _ \<Rightarrow>
                  let staged = staged_files fs staging in
                  if \<not> list_all (\<lambda>(name, d). map_of files name = Some (int (length d))) staged
                     \<or> length staged \<noteq> length files
                  then (Inl (ErrText ''checkpoint staging does not match its manifest''), fs)
                  else (case MkdirAll (butlast destination) fs of
                    Inl e \<Rightarrow> (Inl e, fs)
                  | Inr fs \<Rightarrow>
                      (case Rename staging destination fs of
                         Inl e \<Rightarrow> (Inl e, fs) | Inr fs \<Rightarrow> (Inr (), fs)))))))"

section \<open>Metadata, downloads and deletion\<close>

text \<open>\<open>encoded\<close> is the JSON of the value. No operation makes a directory named \<^verbatim>\<open>job.json\<close> there.\<close>

definition writeMetadata :: "string \<Rightarrow> string \<Rightarrow> string \<Rightarrow> fs \<Rightarrow> (file_error + unit) \<times> fs" where
  "writeMetadata jobID attemptID encoded fs =
     (case dataDir jobID attemptID of
        Inl e \<Rightarrow> (Inl e, fs)
      | Inr dir \<Rightarrow>
          let metadataDir = dir @ [''metadata'']; p = metadataDir @ [''job.json''] in
          (case MkdirAll metadataDir fs of
             Inl e \<Rightarrow> (Inl e, fs)
           | Inr fs \<Rightarrow>
               if node fs p = Some Dir then (Inl Exist, fs)
               else (Inr (), put p (Reg 384 encoded) fs)))"

definition WriteMetadata :: "string \<Rightarrow> string \<Rightarrow> fs \<Rightarrow> (file_error + unit) \<times> fs" where
  "WriteMetadata jobID encoded fs = writeMetadata jobID '''' encoded fs"

definition WriteAttemptMetadata :: "string \<Rightarrow> string \<Rightarrow> string \<Rightarrow> fs \<Rightarrow> (file_error + unit) \<times> fs" where
  "WriteAttemptMetadata jobID attemptID encoded fs = writeMetadata jobID attemptID encoded fs"

text \<open>
  The entries of the ZIP a download consists of, in order: names and contents. The order records of the
  combined log are left out everywhere, staged checkpoints in the archive of a whole job.
\<close>

definition archived :: "fpath \<times> fnode \<Rightarrow> bool" where
  "archived e \<longleftrightarrow> is_reg (Some (snd e)) \<and> (fst e = [] \<or> last (fst e) \<noteq> ''.order.log'')"

definition archive_entries :: "fs \<Rightarrow> fpath \<Rightarrow> string \<Rightarrow> (string \<times> string) list" where
  "archive_entries fs root pre =
     List.map_filter (\<lambda>(p, n). case n of
         Dir \<Rightarrow> None
       | Reg m d \<Rightarrow> if archived (p, n) then Some (pre @ relative_name root p, d) else None) (walk fs root)"

definition Archive :: "fs \<Rightarrow> string \<Rightarrow> file_error + (string \<times> string) list" where
  "Archive fs jobID =
     (case JobDir jobID of
        Inl e \<Rightarrow> Inl e
      | Inr dir \<Rightarrow>
          (case Lstat fs dir of
             Inl e \<Rightarrow> Inl e
           | Inr _ \<Rightarrow> Inr (archive_entries
               (filter (\<lambda>(p, n). \<not> List.member (butlast (drop (length dir) p)) ''checkpoint-staging'') fs) dir '''')))"

definition appendDirectoryToZip :: "fs \<Rightarrow> fpath \<Rightarrow> string \<Rightarrow> file_error + (string \<times> string) list" where
  "appendDirectoryToZip fs root pre =
     (case Lstat fs root of
        Inl e \<Rightarrow> if e = NotExist then Inr [] else Inl e
      | Inr _ \<Rightarrow> Inr (archive_entries fs root (if pre = '''' then '''' else pre @ ''/'')))"

definition ArchiveAttempt :: "fs \<Rightarrow> string \<Rightarrow> string \<Rightarrow> file_error + (string \<times> string) list" where
  "ArchiveAttempt fs jobID attemptID =
     (case JobDir jobID of
        Inl e \<Rightarrow> Inl e
      | Inr jobDir \<Rightarrow>
          (case dataDir jobID attemptID of
             Inl e \<Rightarrow> Inl e
           | Inr attemptDir \<Rightarrow>
               (case appendDirectoryToZip fs attemptDir '''' of
                  Inl e \<Rightarrow> Inl e
                | Inr a \<Rightarrow>
                    (case appendDirectoryToZip fs (jobDir @ [''inputs'']) ''inputs'' of
                       Inl e \<Rightarrow> Inl e | Inr b \<Rightarrow> Inr (a @ b)))))"

definition archiveDirectory :: "fs \<Rightarrow> fpath \<Rightarrow> file_error + (string \<times> string) list" where
  "archiveDirectory fs dir =
     (case Lstat fs dir of Inl e \<Rightarrow> Inl e | Inr _ \<Rightarrow> Inr (archive_entries fs dir ''''))"

definition ArchiveCheckpoint :: "fs \<Rightarrow> string \<Rightarrow> string \<Rightarrow> file_error + (string \<times> string) list" where
  "ArchiveCheckpoint fs jobID syncID =
     (if \<not> safeSegment syncID then Inl (ErrText ''invalid checkpoint sync ID'')
      else (case JobDir jobID of
        Inl e \<Rightarrow> Inl e | Inr dir \<Rightarrow> archiveDirectory fs (checkpoint_dir dir syncID)))"

text \<open>Data from before attempts had directories of their own moves into the first attempt.\<close>

fun promote_dirs :: "fpath \<Rightarrow> fpath \<Rightarrow> string list \<Rightarrow> fs \<Rightarrow> (file_error + unit) \<times> fs" where
  "promote_dirs jobDir attemptDir [] fs = (Inr (), fs)"
| "promote_dirs jobDir attemptDir (name # names) fs =
     (case Lstat fs (jobDir @ [name]) of
        Inl e \<Rightarrow> if e = NotExist then promote_dirs jobDir attemptDir names fs else (Inl e, fs)
      | Inr _ \<Rightarrow>
          (case Lstat fs (attemptDir @ [name]) of
             Inr _ \<Rightarrow> promote_dirs jobDir attemptDir names fs
           | Inl e \<Rightarrow>
               if e \<noteq> NotExist then (Inl e, fs)
               else (case Rename (jobDir @ [name]) (attemptDir @ [name]) fs of
                 Inl e \<Rightarrow> (Inl e, fs)
               | Inr fs \<Rightarrow> promote_dirs jobDir attemptDir names fs)))"

definition PromoteLegacyAttempt :: "string \<Rightarrow> string \<Rightarrow> fs \<Rightarrow> (file_error + unit) \<times> fs" where
  "PromoteLegacyAttempt jobID attemptID fs =
     (case JobDir jobID of
        Inl e \<Rightarrow> (Inl e, fs)
      | Inr jobDir \<Rightarrow>
          (case dataDir jobID attemptID of
             Inl e \<Rightarrow> (Inl e, fs)
           | Inr attemptDir \<Rightarrow>
               (case MkdirAll attemptDir fs of
                  Inl e \<Rightarrow> (Inl e, fs)
                | Inr fs \<Rightarrow> promote_dirs jobDir attemptDir [''logs'', ''output'', ''metadata''] fs)))"

definition DeleteJob :: "string \<Rightarrow> fs \<Rightarrow> (file_error + unit) \<times> fs" where
  "DeleteJob jobID fs =
     (case JobDir jobID of Inl e \<Rightarrow> (Inl e, fs) | Inr dir \<Rightarrow> (Inr (), RemoveAll dir fs))"

end
