(* ===== verification/FileFacts.thy ===== *)
theory FileFacts
  imports FileObjects
begin

text \<open>
  Lemmas on trees and on the operations of the file store: well-formed trees, what each operation leaves
  alone, sizes of directories, and appends.
\<close>

section \<open>Well-formed trees\<close>

text \<open>Paths are distinct, and what is above a node is a directory. The store's two directories exist.\<close>

definition fs_ok :: "fs \<Rightarrow> bool" where
  "fs_ok fs \<longleftrightarrow> distinct (map fst fs) \<and> node fs [] = Some Dir \<and>
     (\<forall>p. p \<noteq> [] \<longrightarrow> node fs p \<noteq> None \<longrightarrow> node fs (butlast p) = Some Dir)"

definition store_ok :: "fs \<Rightarrow> bool" where
  "store_ok fs \<longleftrightarrow> fs_ok fs \<and> node fs [''jobs''] = Some Dir \<and> node fs [''builds''] = Some Dir"

lemma butlast_prefix: "prefix (butlast q) q"
  by (cases q rule: rev_cases) auto

lemma is_reg_iff: "is_reg x \<longleftrightarrow> (\<exists>m d. x = Some (Reg m d))"
  by (cases x rule: is_reg.cases) auto

lemma parent_dir: "fs_ok fs \<Longrightarrow> node fs p \<noteq> None \<Longrightarrow> p \<noteq> [] \<Longrightarrow> node fs (butlast p) = Some Dir"
  unfolding fs_ok_def by blast

lemma ancestor_dir:
  assumes "fs_ok fs" "node fs p \<noteq> None" "strict_prefix q p"
  shows "node fs q = Some Dir"
proof -
  from assms(3) obtain x xs where "p = q @ x # xs"
    by (metis neq_Nil_conv prefixE strict_prefix_def self_append_conv)
  with assms(2) have "node fs (q @ x # xs) \<noteq> None" by simp
  then show ?thesis
  proof (induction xs arbitrary: x rule: rev_induct)
    case Nil
    then show ?case using parent_dir [OF assms(1), of "q @ [x]"] by simp
  next
    case (snoc y ys)
    have "butlast (q @ x # ys @ [y]) = q @ x # ys" by (simp add: butlast_append)
    with parent_dir [OF assms(1) snoc.prems] have "node fs (q @ x # ys) = Some Dir" by simp
    then show ?case using snoc.IH [of x] by simp
  qed
qed

lemma nothing_below:
  "fs_ok fs \<Longrightarrow> node fs q = None \<Longrightarrow> prefix q p \<Longrightarrow> node fs p = None"
  using ancestor_dir by (metis option.distinct(1) strict_prefix_def)

lemma distinct_put: "distinct (map fst fs) \<Longrightarrow> distinct (map fst (put p n fs))"
  unfolding put_def by (rule distinct_update)

lemma put_ok:
  assumes "fs_ok fs" "p = [] \<Longrightarrow> n = Dir" "p \<noteq> [] \<Longrightarrow> node fs (butlast p) = Some Dir"
    and "\<And>m d. n = Reg m d \<Longrightarrow> node fs p = None \<or> is_reg (node fs p)"
  shows "fs_ok (put p n fs)"
proof -
  have "node (put p n fs) (butlast q) = Some Dir" if "q \<noteq> []" "node (put p n fs) q \<noteq> None" for q
  proof (cases "butlast q = p")
    case True
    have "n = Dir"
    proof (rule ccontr)
      assume "n \<noteq> Dir"
      then obtain m d where n: "n = Reg m d" by (cases n) auto
      from that True have "q \<noteq> p" by (metis append_butlast_last_id length_append_singleton n_not_Suc_n)
      with that(2) have "node fs q \<noteq> None" by simp
      with parent_dir [OF assms(1) _ that(1)] True have "node fs p = Some Dir" by simp
      with assms(4) [OF n] show False by simp
    qed
    with True show ?thesis by simp
  next
    case False
    with that assms(3) parent_dir [OF assms(1), of q] show ?thesis by (auto split: if_splits)
  qed
  then show ?thesis
    using assms(1,2) by (auto simp: fs_ok_def distinct_put)
qed

lemma write_file_node [simp]:
  "node (write_file p d fs) q =
     (case node fs p of Some (Reg m _) \<Rightarrow> if q = p then Some (Reg m d) else node fs q | _ \<Rightarrow> node fs q)"
  by (simp add: write_file_def split: option.split fnode.split)

lemma write_file_ok: "fs_ok fs \<Longrightarrow> fs_ok (write_file p d fs)"
proof (cases "node fs p")
  case (Some n)
  assume ok: "fs_ok fs"
  show ?thesis
  proof (cases n)
    case (Reg m e)
    have "p \<noteq> []" using ok Some Reg by (auto simp: fs_ok_def)
    with ok Some Reg parent_dir [OF ok, of p] show ?thesis by (auto simp: write_file_def intro!: put_ok)
  qed (use ok Some in \<open>simp add: write_file_def\<close>)
qed (simp add: write_file_def)

section \<open>Creating directories\<close>

lemma mkdir_missing_node:
  "node (mkdir_missing fs q) p = (if p = q \<and> node fs q = None then Some Dir else node fs p)"
  by (simp add: mkdir_missing_def)

lemma mkdirs_node:
  "node (foldl mkdir_missing fs qs) p = (if p \<in> set qs \<and> node fs p = None then Some Dir else node fs p)"
  by (induction qs arbitrary: fs) (auto simp: mkdir_missing_node)

lemma set_ancestors_self: "q \<in> set (ancestors p @ [p]) \<longleftrightarrow> prefix q p"
  using set_ancestors [of q p] by (auto simp: strict_prefix_def)

lemma MkdirAll_node:
  assumes "MkdirAll p fs = Inr fs'"
  shows "node fs' q = (if prefix q p \<and> node fs q = None then Some Dir else node fs q)"
proof -
  from assms have "fs' = foldl mkdir_missing fs (ancestors p @ [p])"
    by (simp add: MkdirAll_def split: if_splits)
  then show ?thesis using set_ancestors_self [of q p] by (simp only: mkdirs_node)
qed

lemma MkdirAll_dir:
  assumes "MkdirAll p fs = Inr fs'"
  shows "prefix q p \<Longrightarrow> node fs' q = Some Dir"
proof -
  assume q: "prefix q p"
  from assms have "\<not> list_ex (\<lambda>q. is_reg (node fs q)) (ancestors p @ [p])"
    by (simp add: MkdirAll_def split: if_splits)
  then have "\<not> is_reg (node fs q)" using q set_ancestors_self [of q p] by (simp only: list_ex_iff) blast
  with q MkdirAll_node [OF assms, of q] show ?thesis
    by (cases "node fs q" rule: is_reg.cases) auto
qed

lemma distinct_mkdirs:
  "distinct (map fst fs) \<Longrightarrow> distinct (map fst (foldl mkdir_missing fs qs))"
  by (induction qs arbitrary: fs) (auto simp: mkdir_missing_def distinct_put)

lemma MkdirAll_ok:
  assumes "fs_ok fs" "MkdirAll p fs = Inr fs'"
  shows "fs_ok fs'"
proof -
  have "distinct (map fst fs')"
    using assms by (auto simp: MkdirAll_def fs_ok_def split: if_splits intro!: distinct_mkdirs simp del: foldl_append)
  moreover have "node fs' [] = Some Dir" by (rule MkdirAll_dir [OF assms(2)]) simp
  moreover have "node fs' (butlast q) = Some Dir" if "q \<noteq> []" "node fs' q \<noteq> None" for q
  proof (cases "prefix q p")
    case True
    then have "prefix (butlast q) p" by (metis butlast_prefix prefix_order.trans)
    then show ?thesis by (rule MkdirAll_dir [OF assms(2)])
  next
    case False
    then have "node fs q \<noteq> None" using that MkdirAll_node [OF assms(2), of q] by simp
    with that(1) parent_dir [OF assms(1)] have "node fs (butlast q) = Some Dir" by blast
    then show ?thesis using MkdirAll_node [OF assms(2), of "butlast q"] by simp
  qed
  ultimately show ?thesis by (simp add: fs_ok_def)
qed

section \<open>Removing and renaming\<close>

lemma RemoveAll_node [simp]: "node (RemoveAll p fs) q = (if prefix p q then None else node fs q)"
  unfolding node_def RemoveAll_def
  by (induction fs) auto

lemma RemoveAll_ok:
  assumes "fs_ok fs" "p \<noteq> []"
  shows "fs_ok (RemoveAll p fs)"
proof -
  have "distinct (map fst (RemoveAll p fs))"
    using assms(1) unfolding fs_ok_def RemoveAll_def by (metis distinct_map_filter)
  moreover have "\<not> prefix p (butlast q)" if "\<not> prefix p q" for q
    using that by (metis butlast_prefix prefix_order.trans)
  ultimately show ?thesis
    using assms by (auto simp: fs_ok_def split: if_splits)
qed

definition moved :: "fpath \<Rightarrow> fpath \<Rightarrow> fpath \<Rightarrow> fpath" where
  "moved a b q = (if prefix a q then b @ drop (length a) q else q)"

lemma Rename_cases:
  assumes "Rename a b fs = Inr fs'"
  shows "node fs a \<noteq> None" "node fs b \<noteq> Some Dir" "node fs (butlast b) = Some Dir" "\<not> prefix a b"
    "node fs a = Some Dir \<Longrightarrow> node fs b = None"
    "fs' = map (\<lambda>(q, m). (moved a b q, m)) (RemoveAll b fs)"
proof -
  show "node fs a \<noteq> None" "node fs b \<noteq> Some Dir" "node fs (butlast b) = Some Dir" "\<not> prefix a b"
    "node fs a = Some Dir \<Longrightarrow> node fs b = None"
    "fs' = map (\<lambda>(q, m). (moved a b q, m)) (RemoveAll b fs)"
    using assms by (auto simp: Rename_def moved_def split: option.splits if_splits)
qed

lemma moved_inj: "\<not> prefix b p \<Longrightarrow> \<not> prefix b q \<Longrightarrow> moved a b p = moved a b q \<Longrightarrow> p = q"
  by (auto simp: moved_def prefix_def split: if_splits)

lemma in_RemoveAll: "(q, n) \<in> set (RemoveAll b fs) \<longleftrightarrow> (q, n) \<in> set fs \<and> \<not> prefix b q"
  by (auto simp: RemoveAll_def)

lemma node_Some_iff: "distinct (map fst fs) \<Longrightarrow> node fs p = Some n \<longleftrightarrow> (p, n) \<in> set fs"
  unfolding node_def by simp

lemma Rename_distinct:
  assumes "fs_ok fs" "Rename a b fs = Inr fs'"
  shows "distinct (map fst fs')"
proof -
  have "distinct (map fst (RemoveAll b fs))"
    using assms(1) unfolding fs_ok_def RemoveAll_def by (metis distinct_map_filter)
  moreover have "map fst fs' = map (moved a b) (map fst (RemoveAll b fs))"
    unfolding Rename_cases(6) [OF assms(2)] by auto
  moreover have "inj_on (moved a b) (set (map fst (RemoveAll b fs)))"
    by (rule inj_onI) (auto simp: in_RemoveAll dest: moved_inj)
  ultimately show ?thesis by (metis distinct_map)
qed

lemma Rename_node:
  assumes "fs_ok fs" "Rename a b fs = Inr fs'"
  shows "node fs' q = (if prefix b q then node fs (a @ drop (length b) q)
                       else if prefix a q then None else node fs q)"
proof -
  note r = Rename_cases [OF assms(2)]
  have d: "distinct (map fst fs)" using assms(1) by (simp add: fs_ok_def)
  have ba: "\<not> prefix b (a @ r)" for r
  proof
    assume b: "prefix b (a @ r)"
    then have "prefix b a" using r(4) by (metis prefix_same_cases append_prefixD prefixI)
    then have "strict_prefix b a" using r(4) by (auto simp: strict_prefix_def)
    with ancestor_dir [OF assms(1) r(1)] r(2) show False by blast
  qed
  have iff: "(q, n) \<in> set fs' \<longleftrightarrow>
      (if prefix b q then (a @ drop (length b) q, n) \<in> set fs
       else \<not> prefix a q \<and> (q, n) \<in> set fs)" for n
  proof -
    have "(q, n) \<in> set fs' \<longleftrightarrow> (\<exists>p. (p, n) \<in> set fs \<and> \<not> prefix b p \<and> q = moved a b p)"
      unfolding r(6) by (force simp: in_RemoveAll)
    also have "\<dots> \<longleftrightarrow> (if prefix b q then (a @ drop (length b) q, n) \<in> set fs
       else \<not> prefix a q \<and> (q, n) \<in> set fs)"
    proof (cases "prefix b q")
      case True
      then obtain s where q: "q = b @ s" by (auto simp: prefix_def)
      have "moved a b p = b @ s \<and> \<not> prefix b p \<longleftrightarrow> p = a @ s" for p
      proof (cases "prefix a p")
        case True
        then obtain t where "p = a @ t" by (auto simp: prefix_def)
        then show ?thesis using ba by (simp add: moved_def)
      next
        case False
        then have "p \<noteq> a @ s" by auto
        with False show ?thesis by (auto simp: moved_def)
      qed
      then have "(\<exists>p. (p, n) \<in> set fs \<and> \<not> prefix b p \<and> b @ s = moved a b p) \<longleftrightarrow> (a @ s, n) \<in> set fs"
        by metis
      with q True show ?thesis by simp
    next
      case False
      have "moved a b p = q \<and> \<not> prefix b p \<longleftrightarrow> p = q \<and> \<not> prefix a q" for p
        using False by (auto simp: moved_def)
      then have "(\<exists>p. (p, n) \<in> set fs \<and> \<not> prefix b p \<and> q = moved a b p) \<longleftrightarrow> \<not> prefix a q \<and> (q, n) \<in> set fs"
        by metis
      with False show ?thesis by simp
    qed
    finally show ?thesis .
  qed
  have "node fs' q = Some n \<longleftrightarrow> (if prefix b q then node fs (a @ drop (length b) q)
       else if prefix a q then None else node fs q) = Some n" for n
    using iff [of n] node_Some_iff [OF Rename_distinct [OF assms]] node_Some_iff [OF d] by auto
  then show ?thesis by (metis option.exhaust_sel)
qed

lemma Rename_ok:
  assumes "fs_ok fs" "Rename a b fs = Inr fs'" "a \<noteq> []"
  shows "fs_ok fs'"
proof -
  note r = Rename_cases [OF assms(2)] and nd = Rename_node [OF assms(1,2)]
  have b: "b \<noteq> []" using r(2) assms(1) by (auto simp: fs_ok_def)
  have "node fs' [] = Some Dir" using nd [of "[]"] b assms(1,3) by (simp add: fs_ok_def)
  moreover have "node fs' (butlast q) = Some Dir" if q: "q \<noteq> []" "node fs' q \<noteq> None" for q
  proof (cases "prefix b q")
    case True
    then obtain s where s: "q = b @ s" by (auto simp: prefix_def)
    show ?thesis
    proof (cases "s = []")
      case True
      have "\<not> prefix b (butlast b)" using b by (metis append_butlast_last_id prefix_snoc
            prefix_order.antisym butlast_prefix not_Cons_self2 self_append_conv)
      moreover have "\<not> prefix a (butlast b)" using r(4) by (meson butlast_prefix prefix_order.trans)
      ultimately show ?thesis using nd [of "butlast b"] s True r(3) by simp
    next
      case False
      with s q nd [of q] have "node fs (a @ s) \<noteq> None" by simp
      with parent_dir [OF assms(1), of "a @ s"] False have "node fs (a @ butlast s) = Some Dir"
        by (simp add: butlast_append)
      with False s nd [of "butlast q"] show ?thesis by (simp add: butlast_append)
    qed
  next
    case False
    then have na: "\<not> prefix a q" "node fs q \<noteq> None" using q nd [of q] by (auto split: if_splits)
    then have "\<not> prefix a (butlast q)" "\<not> prefix b (butlast q)"
      using False by (meson butlast_prefix prefix_order.trans)+
    with nd [of "butlast q"] parent_dir [OF assms(1) na(2) q(1)] show ?thesis by simp
  qed
  ultimately show ?thesis using Rename_distinct [OF assms(1,2)] by (simp add: fs_ok_def)
qed

section \<open>Sizes\<close>

definition total_size :: "fs \<Rightarrow> fpath \<Rightarrow> int" where
  "total_size fs root = sum_list (map (\<lambda>(p, n). if prefix root p then node_size n else 0) fs)"

lemma sum_list_filter_if:
  fixes g :: "'a \<Rightarrow> int"
  shows "sum_list (map g (filter P xs)) = sum_list (map (\<lambda>x. if P x then g x else 0) xs)"
  by (induction xs) auto

lemma sum_list_mset_eq:
  fixes g :: "'a \<Rightarrow> int"
  shows "mset xs = mset ys \<Longrightarrow> sum_list (map g xs) = sum_list (map g ys)"
  by (metis mset_map sum_mset_sum_list)

lemma directorySize_total:
  "directorySize fs root = (if node fs root = None \<and> blocked fs root then Inl NotDir else Inr (total_size fs root))"
proof -
  have "sum_list (map (\<lambda>(p, n). node_size n) (walk fs root)) = total_size fs root"
  proof -
    have "sum_list (map (\<lambda>(p, n). node_size n) (walk fs root)) =
        sum_list (map (\<lambda>x. if (case x of (q, n) \<Rightarrow> prefix root q) then case x of (p, n) \<Rightarrow> node_size n else 0)
          (sort_key fst fs))"
      unfolding walk_def by (rule sum_list_filter_if)
    also have "\<dots> = sum_list (map (\<lambda>x. if (case x of (q, n) \<Rightarrow> prefix root q) then case x of (p, n) \<Rightarrow> node_size n else 0) fs)"
      by (rule sum_list_mset_eq) simp
    also have "\<dots> = total_size fs root"
      unfolding total_size_def by (rule arg_cong [of _ _ "\<lambda>f. sum_list (map f fs)"]) auto
    finally show ?thesis .
  qed
  then show ?thesis by (simp add: directorySize_def)
qed

lemma node_size_nonneg: "0 \<le> node_size n"
  by (cases n) auto

definition opt_size :: "fnode option \<Rightarrow> int" where
  "opt_size x = (case x of None \<Rightarrow> 0 | Some n \<Rightarrow> node_size n)"

lemma opt_size_simps [simp]: "opt_size None = 0" "opt_size (Some n) = node_size n"
  by (simp_all add: opt_size_def)

lemma total_put:
  "distinct (map fst fs) \<Longrightarrow>
   total_size (put p n fs) root =
     total_size fs root + (if prefix root p then node_size n - opt_size (node fs p) else 0)"
proof (induction fs)
  case Nil
  then show ?case by (simp add: total_size_def put_def node_def)
next
  case (Cons e fs)
  obtain q m where e: "e = (q, m)" by fastforce
  have t: "total_size ((q, m) # fs) root = (if prefix root q then node_size m else 0) + total_size fs root" for q m fs
    by (simp add: total_size_def)
  show ?case
  proof (cases "p = q")
    case True
    then show ?thesis using e by (simp add: t put_def node_def)
  next
    case False
    then have "put p n ((q, m) # fs) = (q, m) # put p n fs" "node ((q, m) # fs) p = node fs p"
      by (simp_all add: put_def node_def)
    with Cons e show ?thesis by (simp add: t)
  qed
qed

section \<open>Appends\<close>

definition file_content :: "fs \<Rightarrow> fpath \<Rightarrow> string" where
  "file_content fs p = (case node fs p of Some (Reg m d) \<Rightarrow> d | _ \<Rightarrow> '''')"

lemma file_content_Reg [simp]: "node fs p = Some (Reg m d) \<Longrightarrow> file_content fs p = d"
  by (simp add: file_content_def)

text \<open>What an operation on \<open>p\<close> may do elsewhere: make missing directories above \<open>p\<close>.\<close>

definition only_touches :: "fpath \<Rightarrow> fs \<Rightarrow> fs \<Rightarrow> bool" where
  "only_touches p fs fs' \<longleftrightarrow>
     (\<forall>q. q \<noteq> p \<longrightarrow> node fs' q = node fs q \<or> node fs q = None \<and> node fs' q = Some Dir \<and> prefix q p)"

lemma only_touches_refl [simp]: "only_touches p fs fs"
  by (simp add: only_touches_def)

lemma only_touches_trans:
  "only_touches p fs fs' \<Longrightarrow> only_touches p fs' fs'' \<Longrightarrow> only_touches p fs fs''"
  unfolding only_touches_def by (metis option.distinct(1))

lemma only_touches_put [simp]: "only_touches p fs (put p n fs)"
  by (simp add: only_touches_def)

lemma only_touches_write [simp]: "only_touches p fs (write_file p d fs)"
  by (auto simp: only_touches_def split: option.split fnode.split)

lemma only_touches_mkdir: "MkdirAll (butlast p) fs = Inr fs' \<Longrightarrow> only_touches p fs fs'"
  unfolding only_touches_def using MkdirAll_node butlast_prefix
  by (metis prefix_order.trans)

lemma OpenFile_facts:
  assumes "fs_ok fs" "OpenFile mode p fs = Inr (content, fs')"
  shows "fs_ok fs'" "only_touches p fs fs'" "content = file_content fs p"
    "\<exists>m. node fs' p = Some (Reg m content)" "total_size fs' root = total_size fs root"
proof -
  have p: "p \<noteq> []" using assms by (auto simp: OpenFile_def fs_ok_def split: option.splits fnode.splits)
  have d: "distinct (map fst fs)" using assms(1) by (simp add: fs_ok_def)
  show "fs_ok fs'" "only_touches p fs fs'" "content = file_content fs p"
    "\<exists>m. node fs' p = Some (Reg m content)" "total_size fs' root = total_size fs root"
    using assms p by (auto simp: OpenFile_def file_content_def total_put [OF d]
        split: option.splits fnode.splits if_splits intro!: put_ok)
qed

lemma total_write:
  assumes "fs_ok fs" "node fs p = Some (Reg m d)"
  shows "total_size (write_file p e fs) root =
    total_size fs root + (if prefix root p then int (length e) - int (length d) else 0)"
  using assms total_put [of fs p "Reg m e" root] by (simp add: write_file_def fs_ok_def)

text \<open>The result of a copy of \<open>source\<close> behind \<open>content\<close>, with room for \<open>remaining\<close> bytes.\<close>

definition copied :: "nat \<Rightarrow> string \<Rightarrow> int \<Rightarrow> reader \<Rightarrow> int \<Rightarrow> file_error option \<Rightarrow> fnode option \<Rightarrow> bool" where
  "copied m content remaining source n err result \<longleftrightarrow>
     (\<exists>k. result = Some (Reg m (content @ take k (rd_data source))) \<and>
          n = int (length (content @ take k (rd_data source))) \<and>
          n \<le> int (length content) + remaining \<and>
          (err = None \<longrightarrow> take k (rd_data source) = rd_data source \<and> \<not> rd_fails source)) \<and>
     err \<in> {None, Some ReadFailed, Some ErrLimitExceeded} \<and>
     (int (length (rd_data source)) \<le> remaining \<longrightarrow> \<not> rd_fails source \<longrightarrow> err = None)"

lemma copy_to_facts:
  assumes "fs_ok fs" "node fs p = Some (Reg m content)" "offset = int (length content)" "0 < remaining"
    and "copy_to p content offset remaining source fs = ((n, err), fs')"
  shows "fs_ok fs' \<and> only_touches p fs fs' \<and> copied m content remaining source n err (node fs' p)"
proof -
  let ?r = "LimitReader source (remaining + 1)"
  obtain k where k: "rd_data ?r = take k (rd_data source)" using LimitReader_prefix by blast
  have len: "int (length (rd_data ?r)) \<le> remaining + 1" by (rule LimitReader_length) (use assms(4) in simp)
  note e = assms(5) [unfolded copy_to_def Let_def]
  have w: "fs_ok (write_file p x (write_file p y fs))" "only_touches p fs (write_file p x (write_file p y fs))"
    "fs_ok (write_file p y fs)" for x y
    using assms(1) by (auto intro: write_file_ok only_touches_trans [of p fs "write_file p y fs"])
  consider (bad) "rd_fails ?r" "err = Some ReadFailed" "n = offset + int (length (rd_data ?r))"
      "fs' = write_file p (content @ rd_data ?r) fs"
    | (full) "\<not> rd_fails ?r" "int (length (rd_data ?r)) > remaining" "err = Some ErrLimitExceeded"
      "n = offset + remaining"
      "fs' = write_file p (take (nat (offset + remaining)) (content @ rd_data ?r)) (write_file p (content @ rd_data ?r) fs)"
    | (ok) "\<not> rd_fails ?r" "int (length (rd_data ?r)) \<le> remaining" "err = None"
      "n = offset + int (length (rd_data ?r))" "fs' = write_file p (content @ rd_data ?r) fs"
    using e by (auto split: if_splits)
  then show ?thesis
  proof cases
    case bad
    have "int (length (rd_data ?r)) < remaining + 1" by (rule LimitReader_fails [OF bad(1)])
    moreover have "rd_fails source" using bad(1) by (auto simp: LimitReader_def split: if_splits)
    ultimately have "copied m content remaining source n err (node fs' p)"
      using bad assms(2,3) k unfolding copied_def by (auto intro!: exI [of _ k])
    with bad w show ?thesis by simp
  next
    case full
    then have l: "length (take k (rd_data source)) = nat (remaining + 1)" using len k by simp
    have t: "take (nat (offset + remaining)) (content @ rd_data ?r) = content @ take (nat remaining) (rd_data source)"
    proof -
      have "take (nat remaining) (take k (rd_data source)) = take (nat remaining) (rd_data source)"
        using l by (auto simp: min_def split: if_splits)
      with assms(3,4) k show ?thesis by (simp add: nat_add_distrib)
    qed
    have "remaining < int (length (rd_data source))" using l by (simp add: min_def split: if_splits)
    then have "copied m content remaining source n err (node fs' p)"
      using full assms(2-4) t unfolding copied_def by (auto intro!: exI [of _ "nat remaining"])
    with full w show ?thesis by simp
  next
    case ok
    have "?r = source" using ok(2) by (auto simp: LimitReader_def split: if_splits)
    then have "copied m content remaining source n err (node fs' p)"
      using ok assms(2,3) unfolding copied_def by (auto intro!: exI [of _ "length (rd_data source)"])
    with ok w show ?thesis by simp
  qed
qed

text \<open>
  An append either leaves the content of the file as it is, or extends it by a prefix of what the reader
  delivers; without an error by all of it. It answers the new size. It never takes a directory that
  contains the file above the larger of its limit and its size before.
\<close>

definition appended :: "fpath \<Rightarrow> int \<Rightarrow> int \<Rightarrow> reader \<Rightarrow> fs \<Rightarrow> int \<Rightarrow> file_error option \<Rightarrow> fs \<Rightarrow> bool" where
  "appended p early offset source fs n err fs' \<longleftrightarrow>
     fs_ok fs' \<and> only_touches p fs fs' \<and>
     (\<exists>k. file_content fs' p = file_content fs p @ take k (rd_data source) \<and>
          (err = None \<longrightarrow> take k (rd_data source) = rd_data source \<and> \<not> rd_fails source)) \<and>
     (node fs p \<noteq> None \<longrightarrow> is_reg (node fs p) \<longrightarrow> is_reg (node fs' p)) \<and>
     (err \<in> {None, Some ErrOffsetMismatch, Some ErrLimitExceeded, Some ReadFailed} \<longrightarrow>
        is_reg (node fs' p) \<and> n = int (length (file_content fs' p))) \<and>
     (err = Some ErrOffsetMismatch \<longrightarrow> file_content fs' p = file_content fs p) \<and>
     (node fs p \<noteq> None \<longrightarrow> \<not> is_reg (node fs p) \<longrightarrow> node fs' p = node fs p) \<and>
     (offset = int (length (file_content fs p)) \<longrightarrow> err \<noteq> Some ErrOffsetMismatch) \<and>
     (err = None \<longrightarrow> offset = int (length (file_content fs p))) \<and>
     (offset \<noteq> int (length (file_content fs p)) \<longrightarrow> file_content fs' p = file_content fs p)"

lemma append_file_facts:
  assumes "fs_ok fs" "append_file p used limit early offset source fs = ((n, err), fs')"
    and used: "\<And>fs e. used fs = Inl e \<Longrightarrow> e = NotDir"
  shows "appended p early offset source fs n err fs'"
proof -
  note e = assms(2) [unfolded append_file_def]
  consider (mk) x where "MkdirAll (butlast p) fs = Inl x" | fs1 where "MkdirAll (butlast p) fs = Inr fs1"
    by (cases "MkdirAll (butlast p) fs") auto
  then show ?thesis
  proof cases
    case mk
    then have "fs' = fs" "err = Some x" "x = NotDir" using e by (auto simp: MkdirAll_def split: if_splits)
    with assms(1) show ?thesis by (auto simp: appended_def intro: exI [of _ 0])
  next
    case (2 fs1)
    have ok1: "fs_ok fs1" by (rule MkdirAll_ok [OF assms(1) 2])
    have t1: "only_touches p fs fs1" by (rule only_touches_mkdir [OF 2])
    have p1: "node fs1 p = node fs p \<or> p = []"
    proof -
      have "\<not> prefix p (butlast p)" if "p \<noteq> []"
        using that by (metis butlast_prefix length_butlast prefix_length_le diff_less length_greater_0_conv
            less_numeral_extra(1) not_less)
      then show ?thesis using MkdirAll_node [OF 2, of p] by auto
    qed
    have p1: "node fs1 p = node fs p"
      using p1 assms(1) ok1 by (auto simp: fs_ok_def)
    have c1: "file_content fs1 p = file_content fs p" by (simp add: file_content_def p1)
    show ?thesis
    proof (cases "OpenFile 416 p fs1")
      case (Inl x)
      then have f: "fs' = fs1" "err = Some x" using e 2 by auto
      have "x \<in> {IsDir, NotDir, NotExist}"
        using Inl by (auto simp: OpenFile_def missing_error_def split: option.splits fnode.splits if_splits)
      with f ok1 t1 p1 c1 show ?thesis by (auto simp: appended_def intro: exI [of _ 0])
    next
      case (Inr r)
      obtain content fs2 where r: "OpenFile 416 p fs1 = Inr (content, fs2)" using Inr by (cases r) auto
      note o2 = OpenFile_facts [OF ok1 r]
      then obtain m where m: "node fs2 p = Some (Reg m content)" by blast
      have t2: "only_touches p fs fs2" using t1 o2(2) by (rule only_touches_trans)
      have d: "content = file_content fs p" using o2(3) c1 by simp
      have reg: "node fs p = None \<or> is_reg (node fs p)"
        using r p1 by (auto simp: OpenFile_def split: option.splits fnode.splits if_splits)
      consider (mis) "int (length content) \<noteq> offset" "n = int (length content)" "err = Some ErrOffsetMismatch" "fs' = fs2"
        | (use) x where "int (length content) = offset" "used fs2 = Inl x" "err = Some x" "fs' = fs2"
        | (full) u where "int (length content) = offset" "used fs2 = Inr u" "n = offset" "err = Some ErrLimitExceeded" "fs' = fs2"
        | (copy) u where "int (length content) = offset" "used fs2 = Inr u" "0 < limit - u"
            "copy_to p content offset (limit - u) source fs2 = ((n, err), fs')"
        using e 2 r by (auto split: if_splits sum.splits)
      then show ?thesis
      proof cases
        case mis
        with o2 t2 m d reg show ?thesis by (auto simp: appended_def intro: exI [of _ 0])
      next
        case use
        with used [OF use(2)] o2 t2 m d reg show ?thesis by (auto simp: appended_def intro: exI [of _ 0])
      next
        case full
        with o2 t2 m d reg show ?thesis by (auto simp: appended_def intro: exI [of _ 0])
      next
        case copy
        from copy_to_facts [OF o2(1) m copy(1) [symmetric] copy(3,4)]
        have f: "fs_ok fs'" "only_touches p fs2 fs'" "copied m content (limit - u) source n err (node fs' p)" by auto
        from f(3) obtain k where "node fs' p = Some (Reg m (content @ take k (rd_data source)))"
          "n = int (length (content @ take k (rd_data source)))"
          "err = None \<longrightarrow> take k (rd_data source) = rd_data source \<and> \<not> rd_fails source"
          "err \<in> {None, Some ReadFailed, Some ErrLimitExceeded}"
          unfolding copied_def by blast
        with f(1) only_touches_trans [OF t2 f(2)] d reg copy(1) show ?thesis
          by (auto simp: appended_def intro!: exI [of _ k])
      qed
    qed
  qed
qed

lemma total_mkdirs: "distinct (map fst fs) \<Longrightarrow> total_size (foldl mkdir_missing fs qs) root = total_size fs root"
  by (induction qs arbitrary: fs) (simp_all add: mkdir_missing_def total_put distinct_put)

lemma total_MkdirAll: "fs_ok fs \<Longrightarrow> MkdirAll p fs = Inr fs' \<Longrightarrow> total_size fs' root = total_size fs root"
  unfolding fs_ok_def MkdirAll_def by (auto simp only: total_mkdirs split: if_splits)

lemma copy_to_total:
  assumes "fs_ok fs" "node fs p = Some (Reg m content)" "offset = int (length content)" "0 < remaining"
    and "copy_to p content offset remaining source fs = ((n, err), fs')"
  shows "total_size fs' root = total_size fs root + (if prefix root p then n - offset else 0)"
proof -
  let ?d = "rd_data (LimitReader source (remaining + 1))"
  have w: "total_size (write_file p x fs) root = total_size fs root + (if prefix root p then int (length x) - offset else 0)"
    "node (write_file p x fs) p = Some (Reg m x)" "fs_ok (write_file p x fs)" for x
    using total_write [OF assms(1,2)] assms(1-3) by (auto intro: write_file_ok)
  have w2: "total_size (write_file p y (write_file p x fs)) root =
      total_size fs root + (if prefix root p then int (length y) - offset else 0)" for x y
    using total_write [OF w(3) w(2)] w(1) by simp
  have "length (take (nat (offset + remaining)) (content @ ?d)) = nat (offset + remaining)"
    if "int (length ?d) > remaining" using that assms(3,4) by (simp add: min_def)
  with assms(5) w w2 assms(3,4) show ?thesis
    by (auto simp: copy_to_def Let_def split: if_splits)
qed

lemma append_file_quota:
  assumes "fs_ok fs" "append_file p used limit early offset source fs = ((n, err), fs')" "prefix root p"
    and used: "\<And>fs1 u. (\<And>r. total_size fs1 r = total_size fs r) \<Longrightarrow> used fs1 = Inr u \<Longrightarrow>
      other + total_size fs root \<le> u"
  shows "other + total_size fs' root \<le> max limit (other + total_size fs root)"
proof -
  note e = assms(2) [unfolded append_file_def]
  show ?thesis
  proof (cases "MkdirAll (butlast p) fs")
    case (Inr fs1)
    have ok1: "fs_ok fs1" by (rule MkdirAll_ok [OF assms(1) Inr])
    have t1: "total_size fs1 r = total_size fs r" for r by (rule total_MkdirAll [OF assms(1) Inr])
    show ?thesis
    proof (cases "OpenFile 416 p fs1")
      case (Inr r)
      obtain content fs2 where r: "OpenFile 416 p fs1 = Inr (content, fs2)" using Inr by (cases r) auto
      note o2 = OpenFile_facts [OF ok1 r]
      then obtain m where m: "node fs2 p = Some (Reg m content)" by blast
      have t2: "total_size fs2 r = total_size fs r" for r using o2(5) t1 by simp
      show ?thesis
      proof (cases "fs' = fs2")
        case False
        with e \<open>MkdirAll (butlast p) fs = Inr fs1\<close> r obtain u where c: "offset = int (length content)"
          "used fs2 = Inr u" "0 < limit - u" "copy_to p content offset (limit - u) source fs2 = ((n, err), fs')"
          by (auto split: if_splits sum.splits)
        have "n \<le> offset + (limit - u)"
          using copy_to_facts [OF o2(1) m c(1,3,4)] c(1) by (auto simp: copied_def)
        with copy_to_total [OF o2(1) m c(1,3,4), of root] assms(3) used [OF t2 c(2)] t2 [of root]
        show ?thesis by simp
      qed (simp add: t2)
    qed (use e Inr t1 in auto)
  qed (use e in auto)
qed

lemma append_file_other:
  assumes "fs_ok fs" "append_file p used limit early offset source fs = ((n, err), fs')" "\<not> prefix root p"
  shows "total_size fs' root = total_size fs root"
proof -
  note e = assms(2) [unfolded append_file_def]
  show ?thesis
  proof (cases "MkdirAll (butlast p) fs")
    case (Inr fs1)
    note mk = this
    have ok1: "fs_ok fs1" by (rule MkdirAll_ok [OF assms(1) Inr])
    have t1: "total_size fs1 root = total_size fs root" by (rule total_MkdirAll [OF assms(1) Inr])
    show ?thesis
    proof (cases "OpenFile 416 p fs1")
      case (Inr r)
      obtain content fs2 where r: "OpenFile 416 p fs1 = Inr (content, fs2)" using Inr by (cases r) auto
      note o2 = OpenFile_facts [OF ok1 r]
      then obtain m where m: "node fs2 p = Some (Reg m content)" by blast
      have t2: "total_size fs2 root = total_size fs root" using o2(5) t1 by simp
      show ?thesis
      proof (cases "fs' = fs2")
        case False
        with e mk r obtain u where c: "offset = int (length content)"
          "used fs2 = Inr u" "0 < limit - u" "copy_to p content offset (limit - u) source fs2 = ((n, err), fs')"
          by (auto split: if_splits sum.splits)
        from copy_to_total [OF o2(1) m c(1,3,4), of root] assms(3) t2 show ?thesis by simp
      qed (simp add: t2)
    qed (use e mk t1 in auto)
  qed (use e in auto)
qed

section \<open>Where the operations write\<close>

text \<open>A well-formed tree after the operation, unchanged outside the directory \<open>D\<close>.\<close>

definition frame :: "fpath \<Rightarrow> fs \<Rightarrow> fs \<Rightarrow> bool" where
  "frame D fs fs' \<longleftrightarrow> fs_ok fs' \<and> (\<forall>q. \<not> prefix D q \<longrightarrow> node fs' q = node fs q)"

lemma frame_refl: "fs_ok fs \<Longrightarrow> frame D fs fs"
  by (simp add: frame_def)

lemma frame_trans: "frame D fs fs' \<Longrightarrow> frame D fs' fs'' \<Longrightarrow> frame D fs fs''"
  by (simp add: frame_def)

lemma frame_smaller: "frame D fs fs' \<Longrightarrow> prefix E D \<Longrightarrow> frame E fs fs'"
  unfolding frame_def by (meson prefix_order.trans)

lemma below_parent: "prefix q p \<Longrightarrow> prefix D p \<Longrightarrow> \<not> prefix D q \<Longrightarrow> prefix q (butlast D)"
  by (metis prefix_same_cases prefix_order.le_less prefix_snoc append_butlast_last_id prefix_bot.extremum
      prefix_order.order_refl)

lemma frame_touches:
  assumes "only_touches p fs fs'" "fs_ok fs'" "fs_ok fs" "prefix D p" "node fs (butlast D) = Some Dir"
  shows "frame D fs fs'"
proof -
  have "node fs' q = node fs q" if "\<not> prefix D q" for q
  proof (cases "q = p")
    case False
    with assms(1) have "node fs' q = node fs q \<or> node fs q = None \<and> prefix q p"
      unfolding only_touches_def by blast
    moreover have "node fs q \<noteq> None" if "prefix q p"
    proof -
      have "prefix q (butlast D)" by (rule below_parent [OF that assms(4) \<open>\<not> prefix D q\<close>])
      then show ?thesis using nothing_below [OF assms(3)] assms(5) by fastforce
    qed
    ultimately show ?thesis by blast
  qed (use that assms(4) in simp)
  with assms(2) show ?thesis by (simp add: frame_def)
qed

lemma frame_mkdir:
  assumes "MkdirAll p fs = Inr fs'" "fs_ok fs" "prefix D p" "node fs (butlast D) = Some Dir"
  shows "frame D fs fs'"
proof -
  have "node fs q \<noteq> None" if "prefix q p" "\<not> prefix D q" for q
    using below_parent [OF that(1) assms(3) that(2)] nothing_below [OF assms(2)] assms(4) by fastforce
  then have "node fs' q = node fs q" if "\<not> prefix D q" for q
    using that MkdirAll_node [OF assms(1), of q] by (metis (full_types))
  with MkdirAll_ok [OF assms(2,1)] show ?thesis by (simp add: frame_def)
qed

lemma frame_remove: "fs_ok fs \<Longrightarrow> prefix D p \<Longrightarrow> p \<noteq> [] \<Longrightarrow> frame D fs (RemoveAll p fs)"
  using RemoveAll_ok by (auto simp: frame_def)

lemma frame_rename:
  assumes "fs_ok fs" "Rename a b fs = Inr fs'" "prefix D a" "prefix D b" "a \<noteq> []"
  shows "frame D fs fs'"
  using Rename_node [OF assms(1,2)] Rename_ok [OF assms(1,2,5)] assms(3,4)
  unfolding frame_def by (meson prefix_order.trans)

lemma append_frame:
  assumes "fs_ok fs" "append_file p used limit early offset source fs = (r, fs')"
    and "\<And>fs e. used fs = Inl e \<Longrightarrow> e = NotDir"
    and "prefix D p" "node fs (butlast D) = Some Dir"
  shows "frame D fs fs'"
proof -
  obtain n err where r: "r = (n, err)" by fastforce
  have "appended p early offset source fs n err fs'"
    by (rule append_file_facts [OF assms(1) _ assms(3), where used = used]) (use assms(2) r in auto)
  then have "fs_ok fs'" "only_touches p fs fs'" unfolding appended_def by blast+
  with assms show ?thesis by (intro frame_touches)
qed

lemma Rel_prefix: "Rel root p = [] \<or> hd (Rel root p) \<noteq> ''..'' \<Longrightarrow> prefix root p"
proof (induction root arbitrary: p)
  case (Cons a root)
  then show ?case by (cases p; cases root) (auto split: if_splits)
qed (cases p; auto)

lemma within_prefix: "within root p \<Longrightarrow> prefix root p"
  using Rel_prefix [of root p] by (auto simp: within_def split: list.splits)

lemma directorySize_error: "directorySize fs root = Inl e \<Longrightarrow> e = NotDir"
  by (simp add: directorySize_def split: if_splits)

lemma directorySize_Inr: "directorySize fs root = Inr u \<Longrightarrow> total_size fs root = u"
  by (simp add: directorySize_total split: if_splits)

lemma JobDir_Inr: "JobDir j = Inr d \<longleftrightarrow> safeSegment j \<and> d = [''jobs'', j]"
  by (auto simp: JobDir_def)

lemma dataDir_prefix: "dataDir j a = Inr d \<Longrightarrow> safeSegment j \<and> prefix [''jobs'', j] d"
  by (auto simp: dataDir_def JobDir_def split: if_splits)

lemma log_file_valid: "validLogStream s \<Longrightarrow> log_file d s = d @ [''logs'', s @ ''.log'']"
  unfolding validLogStream_def log_file_def
  by (elim disjE) (simp_all add: Join_def clean_step_def)

text \<open>
  What \<^verbatim>\<open>safeRelativePath\<close> accepts: ``..'', which \<^verbatim>\<open>within\<close> catches, or a path of ordinary elements, which
  \<^verbatim>\<open>Join\<close> appends to the directory.
\<close>

lemma foldl_ordinary: "list_all ordinary_element us \<Longrightarrow> foldl (clean_step True) st us = rev us @ st"
  by (induction us arbitrary: st) (auto simp: clean_step_def ordinary_element_def)

lemma Join_ordinary:
  assumes "us \<noteq> []" "list_all ordinary_element us"
  shows "Join root (join_with (CHR ''/'') us) = root @ us" "split_on (CHR ''/'') (join_with (CHR ''/'') us) = us"
proof -
  show s: "split_on (CHR ''/'') (join_with (CHR ''/'') us) = us"
    using assms by (intro split_join) (auto simp: list_all_iff ordinary_element_def)
  show "Join root (join_with (CHR ''/'') us) = root @ us"
    unfolding Join_def s foldl_ordinary [OF assms(2)] by simp
qed

lemma safeRelativePath_elements:
  assumes "safeRelativePath v = Inr clean"
  shows "clean = ''..'' \<or> (\<exists>us. us \<noteq> [] \<and> list_all ordinary_element us \<and> clean = join_with (CHR ''/'') us)"
proof -
  let ?s = "slashed v"
  have c: "clean = path_clean ?s" "\<not> path_is_abs clean" "clean \<noteq> ''.''" "\<not> HasPrefix clean ''../''"
    using assms by (auto simp: safeRelativePath_def Let_def split: if_splits)
  obtain us k where es: "clean_elements ?s = replicate k ''..'' @ us" and us: "list_all ordinary_element us"
    using clean_elements_shape by blast
  have rel: "\<not> path_is_abs ?s"
    using c by (auto simp: path_clean_def path_is_abs_def HasPrefix_def Let_def split: if_splits)
  then have j: "clean = join_with (CHR ''/'') (replicate k ''..'' @ us)" and ne: "clean \<noteq> ''''"
    using c es by (auto simp: path_clean_def Let_def split: if_splits)
  show ?thesis
  proof (cases k)
    case 0
    with j ne us show ?thesis by (intro disjI2 exI [of _ us]) auto
  next
    case (Suc n)
    with j have "clean = join_with (CHR ''/'') (''..'' # (replicate n ''..'' @ us))" by simp
    with join_with_prefix_parent [of "replicate n ''..'' @ us"] c(4) show ?thesis by auto
  qed
qed

lemma in_staged_files:
  "(name, d) \<in> set (staged_files fs root) \<longleftrightarrow>
     (\<exists>p m. (p, Reg m d) \<in> set fs \<and> prefix root p \<and> name = relative_name root p)"
proof -
  have "(name, d) \<in> set (staged_files fs root) \<longleftrightarrow>
      (\<exists>x\<in>set (walk fs root). (case x of (p, n) \<Rightarrow> case n of Dir \<Rightarrow> None | Reg m d \<Rightarrow> Some (relative_name root p, d)) = Some (name, d))"
    unfolding staged_files_def List.map_filter_def by force
  also have "\<dots> \<longleftrightarrow> (\<exists>p m. (p, Reg m d) \<in> set fs \<and> prefix root p \<and> name = relative_name root p)"
    by (force simp: walk_def split: fnode.split_asm)
  finally show ?thesis .
qed

end
