(* ===== verification/FileSteps.thy ===== *)
theory FileSteps
  imports FileFacts Systems
begin

text \<open>
  The file store as a transition system: every operation with any arguments, labelled with the directory
  of the job or build it is for. Each keeps the tree well formed and changes nothing outside that
  directory.
\<close>

section \<open>Appends\<close>

lemma appendLog_frame:
  assumes "store_ok fs" "appendLog cfg j a s offset source fs = (r, fs')"
  shows "frame [''jobs'', j] fs fs'"
proof -
  have ok: "fs_ok fs" "node fs (butlast [''jobs'', j]) = Some Dir" using assms(1) by (simp_all add: store_ok_def)
  show ?thesis
  proof (cases "validLogStream s \<and> (\<exists>d. dataDir j a = Inr d)")
    case True
    then obtain d where d: "dataDir j a = Inr d" "validLogStream s" by blast
    have "append_file (log_file d s) (\<lambda>fs. directorySize fs (d @ [''logs''])) (maxLogBytes cfg) 0 offset source fs = (r, fs')"
      using assms(2) d by (simp add: appendLog_def)
    then show ?thesis
      using dataDir_prefix [OF d(1)] d(2) ok
      by (intro append_frame) (auto simp: log_file_valid dest: directorySize_error)
  qed (use assms(2) ok in \<open>auto simp: appendLog_def intro: frame_refl split: sum.splits if_splits\<close>)
qed

lemma appendOutput_frame:
  assumes "store_ok fs" "appendOutput cfg j a p offset source fs = (r, fs')"
  shows "frame [''jobs'', j] fs fs'"
proof -
  have ok: "fs_ok fs" "node fs (butlast [''jobs'', j]) = Some Dir" using assms(1) by (simp_all add: store_ok_def)
  show ?thesis
  proof (cases "\<exists>clean d. safeRelativePath p = Inr clean \<and> dataDir j a = Inr d \<and>
      within (d @ [''output'']) (Join (d @ [''output'']) clean)")
    case True
    then obtain clean d where d: "safeRelativePath p = Inr clean" "dataDir j a = Inr d"
      "within (d @ [''output'']) (Join (d @ [''output'']) clean)" by blast
    have "append_file (Join (d @ [''output'']) clean) (\<lambda>fs. directorySize fs (d @ [''output'']))
        (maxOutputBytes cfg) 0 offset source fs = (r, fs')"
      using assms(2) d by (simp add: appendOutput_def Let_def)
    moreover have "prefix [''jobs'', j] (Join (d @ [''output'']) clean)"
      using within_prefix [OF d(3)] dataDir_prefix [OF d(2)] by (meson append_prefixD prefix_order.trans)
    ultimately show ?thesis using ok by (intro append_frame) (auto dest: directorySize_error)
  qed (use assms(2) ok in \<open>auto simp: appendOutput_def Let_def intro: frame_refl split: sum.splits if_splits\<close>)
qed

lemma checkpoint_used_error: "checkpoint_used d fs = Inl e \<Longrightarrow> e = NotDir"
  by (auto simp: checkpoint_used_def dest: directorySize_error split: sum.splits)

lemma AppendCheckpoint_frame:
  assumes "store_ok fs" "AppendCheckpoint cfg j c p offset source fs = (r, fs')"
  shows "frame [''jobs'', j] fs fs'"
proof -
  have ok: "fs_ok fs" "node fs (butlast [''jobs'', j]) = Some Dir" using assms(1) by (simp_all add: store_ok_def)
  let ?root = "[''jobs'', j, ''checkpoint-staging'', c]"
  show ?thesis
  proof (cases "\<exists>clean. safeSegment c \<and> safeRelativePath p = Inr clean \<and> safeSegment j \<and> within ?root (Join ?root clean)")
    case True
    then obtain clean where d: "safeSegment c" "safeRelativePath p = Inr clean" "safeSegment j"
      "within ?root (Join ?root clean)" by blast
    have "append_file (Join ?root clean) (checkpoint_used [''jobs'', j]) (maxOutputBytes cfg) 0 offset source fs = (r, fs')"
      using assms(2) d by (simp add: AppendCheckpoint_def JobDir_def Let_def)
    moreover have "prefix [''jobs'', j] (Join ?root clean)"
      using within_prefix [OF d(4)] by (auto simp: prefix_def)
    ultimately show ?thesis using ok by (intro append_frame) (auto dest: checkpoint_used_error)
  qed (use assms(2) ok in \<open>auto simp: AppendCheckpoint_def JobDir_def Let_def intro: frame_refl split: sum.splits if_splits\<close>)
qed

lemma AppendBuildLog_frame:
  assumes "store_ok fs" "AppendBuildLog cfg b offset source fs = (r, fs')"
  shows "frame [''builds'', b] fs fs'"
proof -
  have ok: "fs_ok fs" "node fs (butlast [''builds'', b]) = Some Dir" using assms(1) by (simp_all add: store_ok_def)
  show ?thesis
  proof (cases "safeSegment b")
    case True
    then have "append_file [''builds'', b, ''logs'', ''build.log'']
        (\<lambda>fs. case node fs [''builds'', b, ''logs'', ''build.log''] of Some n \<Rightarrow> Inr (node_size n) | None \<Rightarrow> Inr 0)
        (maxLogBytes cfg) offset offset source fs = (r, fs')"
      using assms(2) by (simp add: AppendBuildLog_def Let_def)
    then show ?thesis using ok by (intro append_frame) (auto split: option.splits)
  qed (use assms(2) ok in \<open>auto simp: AppendBuildLog_def intro: frame_refl\<close>)
qed

section \<open>Objects\<close>

text \<open>A new file below a directory of its own making.\<close>

lemma frame_new_file:
  assumes "fs_ok fs" "MkdirAll (butlast p) fs = Inr fs1" "node fs p = None" "prefix D p" "p \<noteq> []"
    and "node fs (butlast D) = Some Dir"
  shows "frame D fs fs1" "frame D fs (put p (Reg m d) fs1)"
proof -
  have ok: "fs_ok fs1" by (rule MkdirAll_ok [OF assms(1,2)])
  have t: "only_touches p fs fs1" by (rule only_touches_mkdir [OF assms(2)])
  have "\<not> prefix p (butlast p)"
    using assms(5) by (metis length_butlast prefix_length_le diff_less length_greater_0_conv less_numeral_extra(1) not_less)
  then have n: "node fs1 p = None" using MkdirAll_node [OF assms(2), of p] assms(3) by simp
  have "node fs1 (butlast p) = Some Dir" by (rule MkdirAll_dir [OF assms(2)]) simp
  then have ok2: "fs_ok (put p (Reg m d) fs1)" using ok n assms(5) by (intro put_ok) auto
  show "frame D fs fs1" by (rule frame_touches [OF t ok assms(1,4,6)])
  show "frame D fs (put p (Reg m d) fs1)"
    by (rule frame_touches [OF only_touches_trans [OF t only_touches_put] ok2 assms(1,4,6)])
qed

lemma Lstat_Inl: "Lstat fs p = Inl e \<Longrightarrow> node fs p = None"
  by (simp add: Lstat_def split: option.splits)

lemma Lstat_Inr: "Lstat fs p = Inr n \<longleftrightarrow> node fs p = Some n"
  by (simp add: Lstat_def split: option.splits)

lemma StoreInput_frame:
  assumes "store_ok fs" "StoreInput cfg j p source fs = (r, fs')"
  shows "frame [''jobs'', j] fs fs'"
proof -
  have ok: "fs_ok fs" "node fs (butlast [''jobs'', j]) = Some Dir" using assms(1) by (simp_all add: store_ok_def)
  let ?root = "[''jobs'', j, ''inputs'']"
  show ?thesis
  proof (cases "fs' = fs")
    case True
    with ok show ?thesis by (simp add: frame_refl)
  next
    case False
    with assms(2) obtain clean fs1 where d: "within ?root (Join ?root clean)" "node fs (Join ?root clean) = None"
      "MkdirAll (butlast (Join ?root clean)) fs = Inr fs1"
      and f: "fs' = fs1 \<or> (\<exists>d. fs' = put (Join ?root clean) (Reg 288 d) fs1)"
      by (auto simp: StoreInput_def JobDir_def Let_def dest!: Lstat_Inl split: sum.splits if_splits) blast
    have p: "prefix [''jobs'', j] (Join ?root clean)" "Join ?root clean \<noteq> []"
      using within_prefix [OF d(1)] by (auto simp: prefix_def)
    from frame_new_file [OF ok(1) d(3,2) p ok(2)] f show ?thesis by blast
  qed
qed

lemma StoreBuildArtifact_frame:
  assumes "store_ok fs" "StoreBuildArtifact b source limit fs = (r, fs')"
  shows "frame [''builds'', b] fs fs'"
proof -
  have ok: "fs_ok fs" "node fs (butlast [''builds'', b]) = Some Dir" using assms(1) by (simp_all add: store_ok_def)
  have p: "prefix [''builds'', b] (artifact_file b)" "artifact_file b \<noteq> []" by (simp_all add: artifact_file_def)
  show ?thesis
  proof (cases "fs' = fs")
    case False
    with assms(2) obtain fs1 where d: "node fs (artifact_file b) = None"
      "MkdirAll (butlast (artifact_file b)) fs = Inr fs1"
      and f: "fs' = fs1 \<or> (\<exists>d. fs' = put (artifact_file b) (Reg 288 d) fs1)"
      by (auto simp: StoreBuildArtifact_def Let_def dest!: Lstat_Inl split: sum.splits if_splits fnode.splits)
    from frame_new_file [OF ok(1) d(2,1) p ok(2)] f show ?thesis by blast
  qed (simp add: ok frame_refl)
qed

lemma StoreBuildSource_frame:
  assumes "store_ok fs" "StoreBuildSource cfg b name source fs = (r, fs')"
  shows "frame [''builds'', b] fs fs'"
proof -
  have ok: "fs_ok fs" "node fs (butlast [''builds'', b]) = Some Dir" using assms(1) by (simp_all add: store_ok_def)
  have p: "prefix [''builds'', b] (source_file b)" "source_file b \<noteq> []" by (simp_all add: source_file_def)
  show ?thesis
  proof (cases "fs' = fs")
    case False
    with assms(2) obtain fs1 where d: "node fs (source_file b) = None"
      "MkdirAll (butlast (source_file b)) fs = Inr fs1"
      and f: "fs' = fs1 \<or> (\<exists>d. fs' = put (source_file b) (Reg 288 d) fs1)"
      by (auto simp: StoreBuildSource_def Let_def dest!: Lstat_Inl split: sum.splits if_splits)
    from frame_new_file [OF ok(1) d(2,1) p ok(2)] f show ?thesis by blast
  qed (simp add: ok frame_refl)
qed

section \<open>Archives\<close>

text \<open>Whatever entries an archive has, its expansion stays in the workspace and within the limit.\<close>

definition expansion :: "fpath \<Rightarrow> int \<Rightarrow> int \<Rightarrow> fs \<Rightarrow> int \<Rightarrow> file_error option \<Rightarrow> fs \<Rightarrow> bool" where
  "expansion D limit expanded fs expanded' err fs' \<longleftrightarrow>
     frame D fs fs' \<and> total_size fs' D = total_size fs D + (expanded' - expanded) \<and>
     expanded \<le> expanded' \<and> (expanded \<le> limit \<longrightarrow> expanded' \<le> limit + 1) \<and>
     (err = None \<longrightarrow> expanded \<le> limit \<longrightarrow> expanded' \<le> limit)"

lemma expansion_refl: "fs_ok fs \<Longrightarrow> expansion D limit e fs e err fs"
  by (simp add: expansion_def frame_refl)

lemma expansion_trans:
  "expansion D limit e fs e' None fs' \<Longrightarrow> expansion D limit e' fs' e'' err fs'' \<Longrightarrow> expansion D limit e fs e'' err fs''"
  unfolding expansion_def by (auto intro: frame_trans)

lemma expansion_mkdir:
  assumes "fs_ok fs" "MkdirAll p fs = Inr fs'" "prefix D p" "node fs (butlast D) = Some Dir"
  shows "expansion D limit e fs e err fs'"
  using frame_mkdir [OF assms(2,1,3,4)] total_MkdirAll [OF assms(1,2)] by (simp add: expansion_def)

lemma writeBuildSourceFile_expansion:
  assumes "fs_ok fs" "node fs (butlast D) = Some Dir" "prefix D target" "target \<noteq> []"
    and "writeBuildSourceFile D target x source e limit fs = ((e', err), fs')"
  shows "expansion D limit e fs e' err fs'"
proof (cases "MkdirAll (butlast target) fs")
  case (Inl y)
  with assms show ?thesis by (simp add: writeBuildSourceFile_def expansion_refl)
next
  case (Inr fs1)
  note w = assms(5) [unfolded writeBuildSourceFile_def Let_def]
  let ?d = "rd_data (LimitReader source (limit - e + 1))"
  have ok1: "fs_ok fs1" by (rule MkdirAll_ok [OF assms(1) Inr])
  have f1: "frame D fs fs1"
    by (rule frame_touches [OF only_touches_mkdir [OF Inr] ok1 assms(1,3,2)])
  show ?thesis
  proof (cases "node fs1 target")
    case (Some n)
    then have "fs' = fs1" "e' = e" using w Inr by (auto simp: Lstat_def)
    with f1 total_MkdirAll [OF assms(1) Inr] show ?thesis by (simp add: expansion_def)
  next
    case None
    have n: "node fs target = None"
      using None MkdirAll_node [OF Inr, of target] by (auto split: if_splits)
    show ?thesis
    proof (cases "Lstat fs1 target = Inl NotExist")
      case True
      then obtain m where fs': "fs' = put target (Reg m ?d) fs1" and e': "e' = e + int (length ?d)"
        and ok: "err = None \<Longrightarrow> e' \<le> limit"
        using w Inr by (auto split: if_splits)
      have "frame D fs fs'" using frame_new_file(2) [OF assms(1) Inr n assms(3,4,2)] fs' by simp
      moreover have "total_size fs' D = total_size fs D + (e' - e)"
        using total_put [of fs1 target "Reg m ?d" D] ok1 None assms(3) total_MkdirAll [OF assms(1) Inr] fs' e'
        by (simp add: fs_ok_def)
      moreover have "e' \<le> limit + 1" if "e \<le> limit"
        using LimitReader_length [of "limit - e + 1" source] that e' by simp
      ultimately show ?thesis using e' ok by (simp add: expansion_def)
    next
      case False
      then have "fs' = fs1" "e' = e" using w Inr None by (auto simp: Lstat_def split: if_splits)
      with f1 total_MkdirAll [OF assms(1) Inr] show ?thesis by (simp add: expansion_def)
    qed
  qed
qed

lemma entry_target_prefix: "entry_target D name = Inr t \<Longrightarrow> prefix D t"
  by (auto simp: entry_target_def Let_def dest: within_prefix split: sum.splits if_splits)

lemma entry_target_ne: "entry_target D name = Inr t \<Longrightarrow> D \<noteq> [] \<Longrightarrow> t \<noteq> []"
  using entry_target_prefix by fastforce
definition workspace_ok :: "fpath \<Rightarrow> fs \<Rightarrow> bool" where
  "workspace_ok D fs \<longleftrightarrow> fs_ok fs \<and> D \<noteq> [] \<and> node fs (butlast D) = Some Dir"

lemma not_prefix_butlast: "p \<noteq> [] \<Longrightarrow> \<not> prefix p (butlast p)"
  by (metis length_butlast prefix_length_le diff_less length_greater_0_conv less_numeral_extra(1) not_less)

lemma workspace_expansion: "workspace_ok D fs \<Longrightarrow> expansion D limit e fs e' err fs' \<Longrightarrow> workspace_ok D fs'"
  using not_prefix_butlast [of D] by (simp add: workspace_ok_def expansion_def frame_def)

lemma zip_loop_expansion:
  "zip_loop D limit es e fs = (err, fs') \<Longrightarrow> workspace_ok D fs \<Longrightarrow> \<exists>e'. expansion D limit e fs e' err fs'"
proof (induction es arbitrary: e fs)
  case Nil
  then show ?case by (auto simp: workspace_ok_def intro: expansion_refl)
next
  case (Cons a es)
  have ok: "fs_ok fs" "D \<noteq> []" "node fs (butlast D) = Some Dir" using Cons.prems(2) by (simp_all add: workspace_ok_def)
  have stop: "fs' = fs \<Longrightarrow> \<exists>e'. expansion D limit e fs e' err fs'" using ok(1) by (auto intro: expansion_refl)
  consider (skip) "root_entry (ae_Name a)" | (fails) "fs' = fs"
    | (go) t where "\<not> root_entry (ae_Name a)" "entry_target D (ae_Name a) = Inr t" "fs' \<noteq> fs" by (use Cons.prems(1) in
        \<open>auto simp: entry_target_def Let_def split: sum.splits if_splits\<close>)
  then show ?case
  proof cases
    case skip
    with Cons show ?thesis by simp
  next
    case fails
    then show ?thesis by (rule stop)
  next
    case (go t)
    note t = entry_target_prefix [OF go(2)] entry_target_ne [OF go(2) ok(2)]
    show ?thesis
    proof (cases "ae_Kind a = DirectoryEntry")
      case True
      with go Cons.prems(1) obtain fs1 where m: "MkdirAll t fs = Inr fs1" "zip_loop D limit es e fs1 = (err, fs')"
        by (auto split: sum.splits if_splits)
      have x: "expansion D limit e fs e None fs1" by (rule expansion_mkdir [OF ok(1) m(1) t(1) ok(3)])
      from Cons.IH [OF m(2) workspace_expansion [OF Cons.prems(2) x]] obtain e'
        where "expansion D limit e fs1 e' err fs'" by blast
      with expansion_trans [OF x] show ?thesis by blast
    next
      case False
      with go Cons.prems(1) obtain source where s: "ae_Open a = Inr source"
        by (auto split: sum.splits if_splits)
      obtain e1 err1 fs1 where w: "writeBuildSourceFile D t (ae_Executable a) source e limit fs = ((e1, err1), fs1)"
        by (metis surj_pair)
      have x: "expansion D limit e fs e1 err1 fs1" by (rule writeBuildSourceFile_expansion [OF ok(1,3) t w])
      show ?thesis
      proof (cases err1)
        case None
        with False go Cons.prems(1) s w have "zip_loop D limit es e1 fs1 = (err, fs')"
          by (auto split: sum.splits if_splits)
        from Cons.IH [OF this workspace_expansion [OF Cons.prems(2) x]] obtain e'
          where "expansion D limit e1 fs1 e' err fs'" by blast
        with expansion_trans x None show ?thesis by blast
      next
        case (Some y)
        with False go Cons.prems(1) s w have "err = Some y" "fs' = fs1"
          by (auto split: sum.splits if_splits)
        with x Some show ?thesis by blast
      qed
    qed
  qed
qed

lemma tar_loop_expansion:
  "tar_loop D limit es n e fs = (err, fs') \<Longrightarrow> workspace_ok D fs \<Longrightarrow> \<exists>e'. expansion D limit e fs e' err fs'"
proof (induction es arbitrary: n e fs)
  case Nil
  then show ?case by (auto simp: workspace_ok_def intro: expansion_refl)
next
  case (Cons i es)
  have ok: "fs_ok fs" "D \<noteq> []" "node fs (butlast D) = Some Dir" using Cons.prems(2) by (simp_all add: workspace_ok_def)
  have stop: "fs' = fs \<Longrightarrow> \<exists>e'. expansion D limit e fs e' err fs'" using ok(1) by (auto intro: expansion_refl)
  show ?case
  proof (cases i)
    case TarBroken
    with Cons.prems stop show ?thesis by simp
  next
    case (TarHeader a)
    consider (skip) "root_entry (ae_Name a)" | (fails) "fs' = fs"
      | (go) t where "\<not> root_entry (ae_Name a)" "Suc n \<le> maxBuildSourceEntries"
          "entry_target D (ae_Name a) = Inr t" "fs' \<noteq> fs"
      using Cons.prems(1) TarHeader by (auto split: sum.splits if_splits)
    then show ?thesis
    proof cases
      case skip
      with Cons TarHeader show ?thesis by simp
    next
      case fails
      then show ?thesis by (rule stop)
    next
      case (go t)
      note t = entry_target_prefix [OF go(3)] entry_target_ne [OF go(3) ok(2)]
      show ?thesis
      proof (cases "ae_Kind a")
        case DirectoryEntry
        with go Cons.prems(1) TarHeader obtain fs1 where m: "MkdirAll t fs = Inr fs1"
          "tar_loop D limit es (Suc n) e fs1 = (err, fs')"
          by (auto split: sum.splits if_splits)
        have x: "expansion D limit e fs e None fs1" by (rule expansion_mkdir [OF ok(1) m(1) t(1) ok(3)])
        from Cons.IH [OF m(2) workspace_expansion [OF Cons.prems(2) x]] obtain e'
          where "expansion D limit e fs1 e' err fs'" by blast
        with expansion_trans [OF x] show ?thesis by blast
      next
        case RegularEntry
        with go Cons.prems(1) TarHeader obtain source where s: "ae_Open a = Inr source"
          by (auto split: sum.splits if_splits)
        obtain e1 err1 fs1 where w: "writeBuildSourceFile D t (ae_Executable a) (LimitReader source (ae_Size a)) e limit fs = ((e1, err1), fs1)"
          by (metis surj_pair)
        have x: "expansion D limit e fs e1 err1 fs1" by (rule writeBuildSourceFile_expansion [OF ok(1,3) t w])
        show ?thesis
        proof (cases err1)
          case None
          with RegularEntry TarHeader go Cons.prems(1) s w have "tar_loop D limit es (Suc n) e1 fs1 = (err, fs')"
            by (auto split: sum.splits if_splits)
          from Cons.IH [OF this workspace_expansion [OF Cons.prems(2) x]] obtain e'
            where "expansion D limit e1 fs1 e' err fs'" by blast
          with expansion_trans x None show ?thesis by blast
        next
          case (Some y)
          with RegularEntry TarHeader go Cons.prems(1) s w have "err = Some y" "fs' = fs1"
            by (auto split: sum.splits if_splits)
          with x Some show ?thesis by blast
        qed
      next
        case OtherEntry
        with go Cons.prems(1) TarHeader show ?thesis by simp
      qed
    qed
  qed
qed

lemma extract_expansion:
  assumes "workspace_ok D fs"
  shows "extractBuildZip unzip cfg p D fs = (err, fs') \<Longrightarrow> \<exists>e'. expansion D (maxInputBytes cfg) 0 fs e' err fs'"
    and "extractBuildTarGzip untar cfg p D fs = (err, fs') \<Longrightarrow> \<exists>e'. expansion D (maxInputBytes cfg) 0 fs e' err fs'"
proof -
  have ok: "fs_ok fs" using assms by (simp add: workspace_ok_def)
  show "extractBuildZip unzip cfg p D fs = (err, fs') \<Longrightarrow> \<exists>e'. expansion D (maxInputBytes cfg) 0 fs e' err fs'"
    using zip_loop_expansion [OF _ assms] expansion_refl [OF ok]
    by (fastforce simp: extractBuildZip_def split: sum.splits option.splits if_splits)
  show "extractBuildTarGzip untar cfg p D fs = (err, fs') \<Longrightarrow> \<exists>e'. expansion D (maxInputBytes cfg) 0 fs e' err fs'"
    using tar_loop_expansion [OF _ assms] expansion_refl [OF ok]
    by (fastforce simp: extractBuildTarGzip_def split: sum.splits option.splits if_splits)
qed

lemma total_nothing:
  assumes "fs_ok fs" "node fs D = None"
  shows "total_size fs D = 0"
proof -
  have "distinct (map fst fs)" using assms(1) by (simp add: fs_ok_def)
  then have "node fs p = Some n" if "(p, n) \<in> set fs" for p n using that node_Some_iff by blast
  then have "\<forall>x\<in>set fs. (case x of (p, n) \<Rightarrow> if prefix D p then node_size n else 0) = 0"
    using nothing_below [OF assms] by fastforce
  then show ?thesis unfolding total_size_def by (induction fs) auto
qed

lemma in_walk: "(p, n) \<in> set (walk fs root) \<longleftrightarrow> (p, n) \<in> set fs \<and> prefix root p"
  by (auto simp: walk_def)

lemma singleProjectRoot_facts:
  assumes "fs_ok fs" "singleProjectRoot fs W = Inr q"
  shows "prefix W q \<and> node fs q = Some Dir"
proof -
  have d: "distinct (map fst fs)" using assms(1) by (simp add: fs_ok_def)
  have W: "node fs W = Some Dir" using assms(2) by (auto simp: singleProjectRoot_def split: if_splits)
  have "q = W \<or> (q, Dir) \<in> set (children fs W)"
    using assms(2) by (auto simp: singleProjectRoot_def split: if_splits list.splits prod.splits fnode.splits)
  moreover have "(q, Dir) \<in> set (children fs W) \<Longrightarrow> prefix W q \<and> node fs q = Some Dir"
    using node_Some_iff [OF d] by (auto simp: children_def in_walk)
  ultimately show ?thesis using W by auto
qed

lemma PrepareBuildSource_facts:
  assumes "store_ok fs" "node fs [''builds'', b, tmp] = None"
    and "PrepareBuildSource unzip untar cfg b name tmp fs = (r, fs')"
  shows "frame [''builds'', b, tmp] fs fs'"
    and "r = Inl e \<Longrightarrow> node fs' q = node fs q"
    and "r = Inr project \<Longrightarrow> 0 \<le> maxInputBytes cfg \<Longrightarrow>
      prefix [''builds'', b, tmp] project \<and> node fs' project = Some Dir \<and>
      total_size fs' [''builds'', b, tmp] \<le> maxInputBytes cfg"
proof -
  let ?W = "[''builds'', b, tmp]"
  have ok: "fs_ok fs" using assms(1) by (simp add: store_ok_def)
  note p = assms(3) [unfolded PrepareBuildSource_def Let_def append.simps]
  have main: "frame ?W fs fs' \<and> (r = Inl e \<longrightarrow> node fs' q = node fs q) \<and>
    (r = Inr project \<longrightarrow> 0 \<le> maxInputBytes cfg \<longrightarrow>
      prefix ?W project \<and> node fs' project = Some Dir \<and> total_size fs' ?W \<le> maxInputBytes cfg)"
  proof (cases "safeSegment b \<and> node fs [''builds'', b] = Some Dir")
    case False
    then have "fs' = fs" "\<exists>e. r = Inl e" using p by (auto split: if_splits)
    with ok show ?thesis by (auto simp: frame_refl)
  next
    case True
    let ?fs1 = "put ?W Dir fs"
    have ok1: "fs_ok ?fs1" using ok True by (intro put_ok) auto
    have w1: "workspace_ok ?W ?fs1" using ok1 True by (simp add: workspace_ok_def)
    have f1: "frame ?W fs ?fs1" using ok1 by (auto simp: frame_def)
    have t1: "total_size ?fs1 ?W = 0"
      using total_put [of fs ?W Dir ?W] total_nothing [OF ok assms(2)] ok assms(2) by (simp add: fs_ok_def)
    obtain err fs2 where res: "(if HasSuffix (to_lower name) ''.zip'' then extractBuildZip unzip cfg (source_file b) ?W ?fs1
        else if HasSuffix (to_lower name) ''.tar.gz'' \<or> HasSuffix (to_lower name) ''.tgz''
          then extractBuildTarGzip untar cfg (source_file b) ?W ?fs1
        else (Some (ErrText ''unsupported source archive''), ?fs1)) = (err, fs2)" by fastforce
    then obtain e' where x: "expansion ?W (maxInputBytes cfg) 0 ?fs1 e' err fs2"
      using extract_expansion [OF w1] expansion_refl [OF ok1] by (metis prod.inject)
    then have f2: "frame ?W fs fs2" using f1 by (auto simp: expansion_def intro: frame_trans)
    then have ok2: "fs_ok fs2" by (simp add: frame_def)
    have p': "(case (err, fs2) of (Some e, fs) \<Rightarrow> (Inl e, RemoveAll ?W fs)
        | (None, fs) \<Rightarrow> (case singleProjectRoot fs ?W of
            Inl e \<Rightarrow> (Inl e, RemoveAll ?W fs) | Inr project \<Rightarrow> (Inr project, fs))) = (r, fs')"
      using p True unfolding res by simp
    have undo: "frame ?W fs (RemoveAll ?W fs2) \<and> node (RemoveAll ?W fs2) q = node fs q" for q
      using f2 frame_remove [OF ok2, of ?W ?W] nothing_below [OF ok assms(2), of q]
      by (auto simp: frame_def)
    show ?thesis
    proof (cases "err = None \<and> is_ok (singleProjectRoot fs2 ?W)")
      case False
      then have "fs' = RemoveAll ?W fs2" "\<exists>e. r = Inl e"
        using p' by (auto split: option.splits sum.splits) metis
      with undo show ?thesis by auto
    next
      case t: True
      then obtain pr where s: "singleProjectRoot fs2 ?W = Inr pr" by (auto simp: is_ok_iff)
      then have r: "r = Inr pr" "fs' = fs2" using p' t by (auto split: option.splits sum.splits)
      have "total_size fs2 ?W \<le> maxInputBytes cfg" if "0 \<le> maxInputBytes cfg"
        using x t1 t that by (auto simp: expansion_def)
      with r f2 singleProjectRoot_facts [OF ok2 s] show ?thesis by auto
    qed
  qed
  from main show "frame ?W fs fs'" by blast
  from main show "r = Inl e \<Longrightarrow> node fs' q = node fs q" by blast
  from main show "r = Inr project \<Longrightarrow> 0 \<le> maxInputBytes cfg \<Longrightarrow>
      prefix ?W project \<and> node fs' project = Some Dir \<and> total_size fs' ?W \<le> maxInputBytes cfg" by blast
qed

section \<open>Checkpoints, metadata and promotion\<close>

text \<open>A confirmation makes directories, and on success found the checkpoint promoted or moves what was staged.\<close>

lemma ConfirmCheckpoint_cases:
  assumes "ConfirmCheckpoint j c files fs = (r, fs')"
  obtains fs1 fs2 where
    "fs1 = fs \<or> safeSegment j \<and> MkdirAll (staging_dir [''jobs'', j] c) fs = Inr fs1"
    "fs2 = fs1 \<or> safeSegment j \<and> MkdirAll (butlast (checkpoint_dir [''jobs'', j] c)) fs1 = Inr fs2"
    "fs' = fs2 \<or> Rename (staging_dir [''jobs'', j] c) (checkpoint_dir [''jobs'', j] c) fs2 = Inr fs'"
    "node fs (checkpoint_dir [''jobs'', j] c) \<noteq> None \<Longrightarrow> fs' = fs"
    "r = Inr () \<Longrightarrow> fs' = fs \<and> node fs (checkpoint_dir [''jobs'', j] c) \<noteq> None \<or>
      Rename (staging_dir [''jobs'', j] c) (checkpoint_dir [''jobs'', j] c) fs2 = Inr fs' \<and>
      list_all (file_staged fs1 (staging_dir [''jobs'', j] c)) files \<and>
      list_all (\<lambda>(name, d). map_of files name = Some (int (length d)))
        (staged_files fs1 (staging_dir [''jobs'', j] c))"
proof -
  let ?S = "(staging_dir [''jobs'', j] c)" and ?C = "(checkpoint_dir [''jobs'', j] c)"
  note finish = that
  note p = assms [unfolded ConfirmCheckpoint_def JobDir_def Let_def]
  have quit: thesis if "fs' = fs" "r = Inr () \<Longrightarrow> node fs ?C \<noteq> None"
    using that(2) by (intro finish [of fs fs]) (use \<open>fs' = fs\<close> in auto)
  show thesis
  proof (cases "safeSegment c \<and> safeSegment j \<and> node fs ?C = None")
    case False
    show thesis
      by (rule quit) (use p False in \<open>auto simp: Lstat_def is_ok_def split: if_splits option.splits\<close>)
  next
    case ok: True
    show thesis
    proof (cases "if files = [] then MkdirAll ?S fs else Inr fs")
      case (Inl e)
      show thesis by (rule quit) (use p ok Inl in \<open>auto simp: Lstat_def split: if_splits\<close>)
    next
      case (Inr fs1)
      have one: "fs1 = fs \<or> safeSegment j \<and> MkdirAll ?S fs = Inr fs1" using Inr ok by (auto split: if_splits)
      have q: "(if \<not> list_all (file_staged fs1 ?S) files
              then (Inl (ErrText ''checkpoint file is not durably staged''), fs1)
              else (case Lstat fs1 ?S of
                Inl e \<Rightarrow> (Inl e, fs1)
              | Inr _ \<Rightarrow>
                  if \<not> list_all (\<lambda>(name, d). map_of files name = Some (int (length d))) (staged_files fs1 ?S)
                     \<or> length (staged_files fs1 ?S) \<noteq> length files
                  then (Inl (ErrText ''checkpoint staging does not match its manifest''), fs1)
                  else (case MkdirAll (butlast (checkpoint_dir [''jobs'', j] c)) fs1 of
                    Inl e \<Rightarrow> (Inl e, fs1)
                  | Inr fs \<Rightarrow>
                      (case Rename ?S ?C fs of
                         Inl e \<Rightarrow> (Inl e, fs) | Inr fs \<Rightarrow> (Inr (), fs))))) = (r, fs')"
        using p ok Inr by (simp add: Lstat_def [of fs])
      show thesis
      proof (cases "MkdirAll (butlast (checkpoint_dir [''jobs'', j] c)) fs1")
        case (Inl e)
        show thesis by (rule that [OF one, of fs1]) (use q Inl ok in \<open>auto split: if_splits sum.splits\<close>)
      next
        case (Inr fs2)
        show thesis
          by (cases "fs' = fs2 \<or> r = Inr ()"; rule that [OF one, of "if fs' = fs2 \<or> r = Inr () then fs2 else fs1"])
            (use q Inr ok in \<open>auto split: if_splits sum.splits\<close>)
      qed
    qed
  qed
qed

lemma frame_step: "frame D fs fs1 \<Longrightarrow> D \<noteq> [] \<Longrightarrow> node fs (butlast D) = Some Dir \<Longrightarrow> node fs1 (butlast D) = Some Dir"
  using not_prefix_butlast [of D] by (simp add: frame_def)

lemma ConfirmCheckpoint_frame:
  assumes "store_ok fs" "ConfirmCheckpoint j c files fs = (r, fs')"
  shows "frame [''jobs'', j] fs fs'"
proof -
  let ?D = "[''jobs'', j]"
  have ok: "fs_ok fs" "node fs (butlast ?D) = Some Dir" using assms(1) by (simp_all add: store_ok_def)
  have mk: "frame ?D fs fs1" if "frame ?D fs fs0" "fs1 = fs0 \<or> safeSegment j \<and> MkdirAll p fs0 = Inr fs1" "prefix ?D p" for fs0 fs1 p
    using that frame_mkdir [OF _ _ that(3)] frame_step [OF that(1) _ ok(2)] frame_trans [OF that(1)]
    by (auto simp: frame_def)
  from ConfirmCheckpoint_cases [OF assms(2)] obtain fs1 fs2 where c:
    "fs1 = fs \<or> safeSegment j \<and> MkdirAll (staging_dir ?D c) fs = Inr fs1"
    "fs2 = fs1 \<or> safeSegment j \<and> MkdirAll (butlast (checkpoint_dir ?D c)) fs1 = Inr fs2"
    "fs' = fs2 \<or> Rename (staging_dir ?D c) (checkpoint_dir ?D c) fs2 = Inr fs'" by metis
  have "frame ?D fs fs1" by (rule mk [OF frame_refl [OF ok(1)] c(1)]) (simp add: staging_dir_def)
  then have f2: "frame ?D fs fs2" by (rule mk [OF _ c(2)]) (simp add: checkpoint_dir_def butlast_append)
  then have "fs_ok fs2" by (simp add: frame_def)
  from c(3) show ?thesis
  proof
    assume "Rename (staging_dir ?D c) (checkpoint_dir ?D c) fs2 = Inr fs'"
    from frame_rename [OF \<open>fs_ok fs2\<close> this, of ?D] frame_trans [OF f2]
    show ?thesis by (simp add: staging_dir_def checkpoint_dir_def)
  qed (use f2 in simp)
qed

lemma writeMetadata_frame:
  assumes "store_ok fs" "writeMetadata j a encoded fs = (r, fs')"
  shows "frame [''jobs'', j] fs fs'"
proof -
  let ?D = "[''jobs'', j]"
  have ok: "fs_ok fs" "node fs (butlast ?D) = Some Dir" using assms(1) by (simp_all add: store_ok_def)
  show ?thesis
  proof (cases "\<exists>d fs1. dataDir j a = Inr d \<and> MkdirAll (d @ [''metadata'']) fs = Inr fs1")
    case True
    then obtain d fs1 where d: "dataDir j a = Inr d" "MkdirAll (d @ [''metadata'']) fs = Inr fs1" by blast
    let ?p = "d @ [''metadata'', ''job.json'']"
    have f1: "frame ?D fs fs1"
      using frame_mkdir [OF d(2) ok(1), of ?D] dataDir_prefix [OF d(1)] ok(2) by (auto simp: prefix_def)
    then have ok1: "fs_ok fs1" by (simp add: frame_def)
    have "frame ?D fs1 (put ?p (Reg 384 encoded) fs1)" if "node fs1 ?p \<noteq> Some Dir"
    proof (rule frame_touches [OF only_touches_put _ ok1])
      have "node fs1 (butlast ?p) = Some Dir"
        using MkdirAll_dir [OF d(2), of "d @ [''metadata'']"] by (simp add: butlast_append)
      moreover have "node fs1 ?p = None \<or> is_reg (node fs1 ?p)"
        using that by (cases "node fs1 ?p" rule: is_reg.cases) auto
      ultimately show "fs_ok (put ?p (Reg 384 encoded) fs1)" using ok1 by (intro put_ok) auto
      show "prefix ?D ?p" using dataDir_prefix [OF d(1)] by (auto simp: prefix_def)
      show "node fs1 (butlast ?D) = Some Dir" using frame_step [OF f1 _ ok(2)] by simp
    qed
    with f1 frame_trans [OF f1] assms(2) d show ?thesis
      by (auto simp: writeMetadata_def Let_def split: if_splits)
  qed (use assms(2) ok in \<open>auto simp: writeMetadata_def Let_def intro: frame_refl split: sum.splits\<close>)
qed

lemma promote_dirs_frame:
  "promote_dirs J A names fs = (r, fs') \<Longrightarrow> fs_ok fs \<Longrightarrow> prefix D J \<Longrightarrow> prefix D A \<Longrightarrow> frame D fs fs'"
proof (induction J A names fs rule: promote_dirs.induct)
  case (2 J A name names fs)
  have quit: "frame D fs fs'" if "fs' = fs" using that "2.prems"(2) by (simp add: frame_refl)
  show ?case
  proof (cases "Lstat fs (J @ [name])")
    case (Inl e)
    with quit "2.IH"(1) [OF Inl] "2.prems" show ?thesis by (auto split: if_splits)
  next
    case J: (Inr n)
    show ?thesis
    proof (cases "Lstat fs (A @ [name])")
      case (Inr m)
      with "2.IH"(3) [OF J Inr] J "2.prems" show ?thesis by simp
    next
      case A: (Inl e)
      show ?thesis
      proof (cases "e = NotExist \<and> is_ok (Rename (J @ [name]) (A @ [name]) fs)")
        case True
        then obtain fs1 where r: "Rename (J @ [name]) (A @ [name]) fs = Inr fs1" by (auto simp: is_ok_iff)
        have f: "frame D fs fs1" using frame_rename [OF "2.prems"(2) r] "2.prems"(3,4) by (simp add: prefix_prefix)
        have "promote_dirs J A names fs1 = (r, fs')" using "2.prems"(1) J A True r by simp
        with "2.IH"(2) [OF J A _ r] True f "2.prems"(3,4) show ?thesis
          by (auto simp: frame_def)
      next
        case False
        with quit "2.prems"(1) J A show ?thesis by (auto split: sum.splits if_splits)
      qed
    qed
  qed
qed (simp add: frame_refl)

lemma PromoteLegacyAttempt_frame:
  assumes "store_ok fs" "PromoteLegacyAttempt j a fs = (r, fs')"
  shows "frame [''jobs'', j] fs fs'"
proof -
  let ?D = "[''jobs'', j]"
  have ok: "fs_ok fs" "node fs (butlast ?D) = Some Dir" using assms(1) by (simp_all add: store_ok_def)
  show ?thesis
  proof (cases "\<exists>d fs1. dataDir j a = Inr d \<and> MkdirAll d fs = Inr fs1")
    case True
    then obtain d fs1 where d: "dataDir j a = Inr d" "MkdirAll d fs = Inr fs1" by blast
    have f: "frame ?D fs fs1"
      using frame_mkdir [OF d(2) ok(1), of ?D] dataDir_prefix [OF d(1)] ok(2) by simp
    have "promote_dirs ?D d [''logs'', ''output'', ''metadata''] fs1 = (r, fs')"
      using assms(2) d dataDir_prefix [OF d(1)] by (simp add: PromoteLegacyAttempt_def JobDir_def)
    from promote_dirs_frame [OF this] f dataDir_prefix [OF d(1)] show ?thesis
      by (auto simp: frame_def intro: frame_trans)
  qed (use assms(2) ok in \<open>auto simp: PromoteLegacyAttempt_def JobDir_def intro: frame_refl split: sum.splits if_splits\<close>)
qed

section \<open>The transition system\<close>

text \<open>One call on behalf of a job or a build, whose directory labels the step.\<close>

inductive file_step :: "file_config \<Rightarrow> fpath \<Rightarrow> fs \<Rightarrow> fs \<Rightarrow> bool" for cfg where
  append_log: "file_step cfg [''jobs'', j] fs (snd (appendLog cfg j a s offset source fs))"
| append_output: "file_step cfg [''jobs'', j] fs (snd (appendOutput cfg j a p offset source fs))"
| append_checkpoint: "file_step cfg [''jobs'', j] fs (snd (AppendCheckpoint cfg j c p offset source fs))"
| store_input: "file_step cfg [''jobs'', j] fs (snd (StoreInput cfg j p source fs))"
| confirm: "file_step cfg [''jobs'', j] fs (snd (ConfirmCheckpoint j c files fs))"
| metadata: "file_step cfg [''jobs'', j] fs (snd (writeMetadata j a encoded fs))"
| promote: "file_step cfg [''jobs'', j] fs (snd (PromoteLegacyAttempt j a fs))"
| delete_job: "file_step cfg [''jobs'', j] fs (snd (DeleteJob j fs))"
| append_build_log: "file_step cfg [''builds'', b] fs (snd (AppendBuildLog cfg b offset source fs))"
| store_artifact: "file_step cfg [''builds'', b] fs (snd (StoreBuildArtifact b source limit fs))"
| delete_artifact: "file_step cfg [''builds'', b] fs (snd (DeleteBuildArtifact b fs))"
| store_source: "file_step cfg [''builds'', b] fs (snd (StoreBuildSource cfg b name source fs))"
| prepare: "node fs [''builds'', b, ''.analysis-'' @ x] = None \<Longrightarrow>
    file_step cfg [''builds'', b] fs (snd (PrepareBuildSource unzip untar cfg b name (''.analysis-'' @ x) fs))"
| cleanup: "file_step cfg [''builds'', b] fs (RemoveAll [''builds'', b, ''.analysis-'' @ x] fs)"
| delete_build: "file_step cfg [''builds'', b] fs (snd (DeleteBuild b fs))"

lemma file_step_owner: "file_step cfg D fs fs' \<Longrightarrow> \<exists>k i. D = [k, i] \<and> (k = ''jobs'' \<or> k = ''builds'')"
  by (induction rule: file_step.induct) auto

lemma DeleteJob_frame: "fs_ok fs \<Longrightarrow> frame [''jobs'', j] fs (snd (DeleteJob j fs))"
  by (auto simp: DeleteJob_def JobDir_def intro: frame_refl frame_remove)

lemma file_step_frame:
  assumes "file_step cfg D fs fs'" "store_ok fs"
  shows "frame D fs fs'"
proof -
  have ok: "fs_ok fs" using assms(2) by (simp add: store_ok_def)
  from assms(1) show ?thesis
  proof cases
    case (append_log j a s offset source)
    with appendLog_frame [OF assms(2) surjective_pairing] show ?thesis by simp
  next
    case (append_output j a p offset source)
    with appendOutput_frame [OF assms(2) surjective_pairing] show ?thesis by simp
  next
    case (append_checkpoint j c p offset source)
    with AppendCheckpoint_frame [OF assms(2) surjective_pairing] show ?thesis by simp
  next
    case (store_input j p source)
    with StoreInput_frame [OF assms(2) surjective_pairing] show ?thesis by simp
  next
    case (confirm j c files)
    with ConfirmCheckpoint_frame [OF assms(2) surjective_pairing] show ?thesis by simp
  next
    case (metadata j a encoded)
    with writeMetadata_frame [OF assms(2) surjective_pairing] show ?thesis by simp
  next
    case (promote j a)
    with PromoteLegacyAttempt_frame [OF assms(2) surjective_pairing] show ?thesis by simp
  next
    case (delete_job j)
    with DeleteJob_frame [OF ok] show ?thesis by simp
  next
    case (append_build_log b offset source)
    with AppendBuildLog_frame [OF assms(2) surjective_pairing] show ?thesis by simp
  next
    case (store_artifact b source limit)
    with StoreBuildArtifact_frame [OF assms(2) surjective_pairing] show ?thesis by simp
  next
    case (delete_artifact b)
    then show ?thesis using ok by (auto simp: DeleteBuildArtifact_def intro: frame_refl frame_remove)
  next
    case (store_source b name source)
    with StoreBuildSource_frame [OF assms(2) surjective_pairing] show ?thesis by simp
  next
    case (prepare b x unzip untar name)
    from frame_smaller [OF PrepareBuildSource_facts(1) [OF assms(2) prepare(3) surjective_pairing], of "[''builds'', b]"]
    show ?thesis unfolding prepare(1,2) by simp
  next
    case (cleanup b x)
    with ok show ?thesis by (auto intro: frame_remove)
  next
    case (delete_build b)
    then show ?thesis using ok by (auto simp: DeleteBuild_def intro: frame_refl frame_remove)
  qed
qed

lemma frame_store_ok: "frame [k, i] fs fs' \<Longrightarrow> store_ok fs \<Longrightarrow> store_ok fs'"
  by (auto simp: frame_def store_ok_def)

lemma file_step_ok: "file_step cfg D fs fs' \<Longrightarrow> store_ok fs \<Longrightarrow> store_ok fs'"
  using file_step_frame frame_store_ok file_step_owner by metis

text \<open>Any call, on behalf of whatever job or build.\<close>

definition file_step_any :: "file_config \<Rightarrow> fs \<Rightarrow> fs \<Rightarrow> bool" where
  "file_step_any cfg fs fs' \<longleftrightarrow> (\<exists>D. file_step cfg D fs fs')"

interpretation files: invariant_system "file_step_any cfg" store_ok for cfg
  by unfold_locales (auto simp: file_step_any_def dest: file_step_ok)

lemma new_store_ok:
  assumes "fs_ok fs" "new_store fs = Inr fs'"
  shows "store_ok fs'"
proof -
  from assms(2) obtain fs1 where m: "MkdirAll [''jobs''] fs = Inr fs1" "MkdirAll [''builds''] fs1 = Inr fs'"
    by (auto simp: new_store_def split: sum.splits)
  have ok1: "fs_ok fs1" by (rule MkdirAll_ok [OF assms(1) m(1)])
  have "node fs1 [''jobs''] = Some Dir" by (rule MkdirAll_dir [OF m(1)]) simp
  then have "node fs' [''jobs''] = Some Dir" using MkdirAll_node [OF m(2), of "[''jobs'']"] by simp
  moreover have "node fs' [''builds''] = Some Dir" by (rule MkdirAll_dir [OF m(2)]) simp
  ultimately show ?thesis using MkdirAll_ok [OF ok1 m(2)] by (simp add: store_ok_def)
qed

lemma prepare_keeps:
  assumes "store_ok fs" "node fs [''builds'', b, tmp] = None" "\<not> prefix [''builds'', b, tmp] q"
  shows "node (snd (PrepareBuildSource unzip untar cfg b name tmp fs)) q = node fs q"
  using PrepareBuildSource_facts(1) [OF assms(1,2) surjective_pairing] assms(3) by (simp add: frame_def)

end
