(* ===== verification/FileProperties.thy ===== *)
theory FileProperties
  imports FileSteps Validate
begin

text \<open>
  What the file store guarantees: jobs and builds cannot reach each other's files, uploads stay within
  their limits, promoted checkpoints are exactly their manifest and never change, images and sources
  are written once, and the expansion of an archive is confined.
\<close>

section \<open>A store with files\<close>

definition sample_config :: file_config where
  "sample_config = \<lparr>maxLogBytes = 10, maxOutputBytes = 10, maxInputBytes = 10\<rparr>"

definition empty_fs :: fs where
  "empty_fs = [([], Dir), ([''jobs''], Dir), ([''builds''], Dir)]"

definition bytes_of :: "string \<Rightarrow> reader" where
  "bytes_of d = \<lparr>rd_data = d, rd_fails = False\<rparr>"

lemma empty_fs_ok: "store_ok empty_fs"
proof -
  have "node empty_fs (butlast p) = Some Dir" if "p \<noteq> []" "node empty_fs p \<noteq> None" for p
    using that by (auto simp: empty_fs_def node_def split: if_splits)
  moreover have "distinct (map fst empty_fs)" by (simp add: empty_fs_def)
  ultimately show ?thesis by (simp add: store_ok_def fs_ok_def empty_fs_def node_def)
qed

text \<open>A job with a log, and with a file staged for a checkpoint.\<close>

definition logged_fs :: fs where
  "logged_fs = snd (AppendLog sample_config ''j1'' ''stdout'' 0 (bytes_of ''hello'') empty_fs)"

definition staged_fs :: fs where
  "staged_fs = snd (AppendCheckpoint sample_config ''j1'' ''c1'' ''a/w'' 0 (bytes_of ''xyz'') logged_fs)"

lemma staged_fs_ok: "store_ok logged_fs" "store_ok staged_fs"
proof -
  show l: "store_ok logged_fs"
    unfolding logged_fs_def AppendLog_def by (rule file_step_ok [OF file_step.append_log empty_fs_ok])
  show "store_ok staged_fs"
    unfolding staged_fs_def by (rule file_step_ok [OF file_step.append_checkpoint l])
qed

section \<open>Isolation\<close>

definition step_elsewhere :: "file_config \<Rightarrow> fpath \<Rightarrow> fs \<Rightarrow> fs \<Rightarrow> bool" where
  "step_elsewhere cfg D fs fs' \<longleftrightarrow> (\<exists>E. E \<noteq> D \<and> file_step cfg E fs fs')"

lemma elsewhere_keeps:
  assumes "step_elsewhere cfg [k, i] fs fs'" "store_ok fs" "prefix [k, i] p"
  shows "node fs' p = node fs p"
proof -
  from assms(1) obtain E where e: "E \<noteq> [k, i]" "file_step cfg E fs fs'" by (auto simp: step_elsewhere_def)
  from file_step_owner [OF e(2)] obtain k' i' where "E = [k', i']" by blast
  with e(1) assms(3) have "\<not> prefix E p" by (auto simp: prefix_def)
  with file_step_frame [OF e(2) assms(2)] show ?thesis by (simp add: frame_def)
qed

text \<open>C16: Whatever calls are made on behalf of other jobs and of builds, in any number and with any
  arguments (identifiers, relative paths with dots, backslashes or slashes, archive entries), every file and
  directory of a job stays as it is.\<close>

theorem jobs_are_isolated:
  assumes "(step_elsewhere cfg [''jobs'', j])\<^sup>*\<^sup>* fs fs'" "store_ok fs" "prefix [''jobs'', j] p"
  shows "node fs' p = node fs p"
proof -
  from assms(1) have "node fs' p = node fs p \<and> store_ok fs'"
  proof (induction rule: rtranclp_induct)
    case (step a b)
    then show ?case using elsewhere_keeps [OF step.hyps(2) _ assms(3)] file_step_ok
      by (auto simp: step_elsewhere_def)
  qed (simp add: assms(2))
  then show ?thesis by blast
qed

theorem jobs_are_isolated_witness:
  "file_content (snd (appendOutput sample_config ''j2'' '''' ''x/../../../j1/logs/stdout.log'' 0 (bytes_of ''evil'') logged_fs))
     [''jobs'', ''j1'', ''logs'', ''stdout.log''] = ''hello''"
proof -
  let ?fs = "snd (appendOutput sample_config ''j2'' '''' ''x/../../../j1/logs/stdout.log'' 0 (bytes_of ''evil'') logged_fs)"
  have "step_elsewhere sample_config [''jobs'', ''j1''] logged_fs ?fs"
    unfolding step_elsewhere_def
    by (rule exI [of _ "[''jobs'', ''j2'']"], rule conjI, simp, rule file_step.append_output)
  then have "(step_elsewhere sample_config [''jobs'', ''j1''])\<^sup>*\<^sup>* logged_fs ?fs" by simp
  from jobs_are_isolated [OF this staged_fs_ok(1), of "[''jobs'', ''j1'', ''logs'', ''stdout.log'']"]
  have "file_content ?fs [''jobs'', ''j1'', ''logs'', ''stdout.log''] =
      file_content logged_fs [''jobs'', ''j1'', ''logs'', ''stdout.log'']" by (simp add: file_content_def)
  also have "\<dots> = ''hello''" by code_simp
  finally show ?thesis .
qed

section \<open>Limits\<close>

lemma append_snd:
  fixes f :: "('a \<times> 'b) \<times> 'c"
  obtains n err where "f = ((n, err), snd f)"
  by (metis prod.collapse)








section \<open>Checkpoints\<close>

text \<open>Where a name of a manifest is stored below the directory of a checkpoint.\<close>

definition manifest_path :: "string \<Rightarrow> fpath" where
  "manifest_path name = split_on (CHR ''/'') (path_clean (slashed name))"

lemma staged_path:
  assumes "file_staged fs S (name, sz)" "fs_ok fs" "node fs S \<noteq> None" "S \<noteq> []" "last S \<noteq> ''..''"
  shows "\<exists>m d. node fs (S @ manifest_path name) = Some (Reg m d) \<and> int (length d) = sz"
proof -
  obtain clean m d where c: "safeRelativePath name = Inr clean" "node fs (Join S clean) = Some (Reg m d)"
    "int (length d) = sz"
    using assms(1) by (auto simp: file_staged_def Lstat_Inr split: sum.splits fnode.splits)
  have p: "clean = path_clean (slashed name)"
    using c(1) by (auto simp: safeRelativePath_def Let_def split: if_splits)
  from safeRelativePath_elements [OF c(1)] show ?thesis
  proof
    assume "clean = ''..''"
    moreover obtain x xs where "S = xs @ [x]" using assms(4) by (metis rev_exhaust)
    ultimately have "Join S clean = butlast S" using assms(5) by (simp add: Join_def clean_step_def)
    with c(2) parent_dir [OF assms(2-4)] show ?thesis by simp
  next
    assume "\<exists>us. us \<noteq> [] \<and> list_all ordinary_element us \<and> clean = join_with (CHR ''/'') us"
    then obtain us where us: "us \<noteq> []" "list_all ordinary_element us" "clean = join_with (CHR ''/'') us" by blast
    with c p Join_ordinary [OF us(1,2)] show ?thesis by (auto simp: manifest_path_def)
  qed
qed

text \<open>C18: A checkpoint is promoted as a whole and exactly as its manifest says: when a confirmation succeeds for
  a checkpoint that was not there, each file of the manifest is in the checkpoint's directory with its
  size, nothing else is, and the staging directory is gone.\<close>

theorem confirmed_checkpoint_is_exact:
  assumes "store_ok fs" "node fs [''jobs'', j, ''checkpoints'', c] = None"
    and "ConfirmCheckpoint j c files fs = (Inr (), fs')"
  shows "(\<forall>(name, sz)\<in>set files. \<exists>m d.
        node fs' ([''jobs'', j, ''checkpoints'', c] @ manifest_path name) = Some (Reg m d) \<and> int (length d) = sz) \<and>
    (\<forall>q m d. node fs' ([''jobs'', j, ''checkpoints'', c] @ q) = Some (Reg m d) \<longrightarrow>
        map_of files (join_with (CHR ''/'') q) = Some (int (length d))) \<and>
    node fs' [''jobs'', j, ''checkpoint-staging'', c] = None"
proof -
  let ?S = "staging_dir [''jobs'', j] c" and ?C = "checkpoint_dir [''jobs'', j] c"
  have S: "?S = [''jobs'', j, ''checkpoint-staging'', c]" and C: "?C = [''jobs'', j, ''checkpoints'', c]"
    by (simp_all add: staging_dir_def checkpoint_dir_def)
  have c: "safeSegment c" using assms(3) by (simp add: ConfirmCheckpoint_def split: if_splits)
  from ConfirmCheckpoint_cases [OF assms(3)] assms(2) obtain fs1 fs2 where f:
    "fs1 = fs \<or> MkdirAll ?S fs = Inr fs1" "fs2 = fs1 \<or> MkdirAll (butlast ?C) fs1 = Inr fs2"
    "Rename ?S ?C fs2 = Inr fs'" "list_all (file_staged fs1 ?S) files"
    "list_all (\<lambda>(name, d). map_of files name = Some (int (length d))) (staged_files fs1 ?S)"
    unfolding C by (metis (no_types, lifting))
  have ok1: "fs_ok fs1" using assms(1) f(1) MkdirAll_ok by (auto simp: store_ok_def)
  have ok2: "fs_ok fs2" using ok1 f(2) MkdirAll_ok by auto
  have nS: "node fs2 (?S @ q) = node fs1 (?S @ q)" for q
    using f(2) MkdirAll_node [of "butlast ?C" fs1 fs2 "?S @ q"] by (auto simp: S C)
  have sub: "node fs' (?C @ q) = node fs1 (?S @ q)" for q
    using Rename_node [OF ok2 f(3), of "?C @ q"] nS by simp
  have exS: "node fs1 ?S \<noteq> None" using Rename_cases(1) [OF f(3)] nS [of "[]"] by simp
  have "\<exists>m d. node fs' (?C @ manifest_path name) = Some (Reg m d) \<and> int (length d) = sz"
    if "(name, sz) \<in> set files" for name sz
    using staged_path [OF _ ok1 exS, of name sz] f(4) that c sub
    by (auto simp: list_all_iff S safeSegment_def)
  moreover have "map_of files (join_with (CHR ''/'') q) = Some (int (length d))"
    if "node fs' (?C @ q) = Some (Reg m d)" for q m d
  proof -
    have "(?S @ q, Reg m d) \<in> set fs1"
      using that sub node_Some_iff [of fs1] ok1 by (simp add: fs_ok_def)
    then have "(join_with (CHR ''/'') q, d) \<in> set (staged_files fs1 ?S)"
      by (auto simp: in_staged_files relative_name_def intro!: exI [of _ "?S @ q"])
    with f(5) show ?thesis by (auto simp: list_all_iff)
  qed
  moreover have "node fs' ?S = None" using Rename_node [OF ok2 f(3), of ?S] by (simp add: S C)
  ultimately show ?thesis unfolding S C by blast
qed

definition confirmed_fs :: fs where
  "confirmed_fs = snd (ConfirmCheckpoint ''j1'' ''c1'' [(''a/w'', 3)] staged_fs)"

lemma confirmed_values:
  "fst (ConfirmCheckpoint ''j1'' ''c1'' [(''a/w'', 3)] staged_fs) = Inr ()"
  "node staged_fs [''jobs'', ''j1'', ''checkpoints'', ''c1''] = None"
  by code_simp+

lemma confirmed_fs_ok: "store_ok confirmed_fs"
  unfolding confirmed_fs_def by (rule file_step_ok [OF file_step.confirm staged_fs_ok(2)])

theorem confirmed_checkpoint_is_exact_witness:
  "\<exists>m d. node confirmed_fs [''jobs'', ''j1'', ''checkpoints'', ''c1'', ''a'', ''w''] = Some (Reg m d) \<and> length d = 3"
proof -
  have c: "ConfirmCheckpoint ''j1'' ''c1'' [(''a/w'', 3)] staged_fs = (Inr (), confirmed_fs)"
    unfolding confirmed_fs_def by (metis confirmed_values(1) prod.collapse)
  have p: "manifest_path ''a/w'' = [''a'', ''w'']" by code_simp
  from confirmed_checkpoint_is_exact [OF staged_fs_ok(2) confirmed_values(2) c] p show ?thesis by auto
qed

lemma touches_keeps:
  "only_touches p fs fs' \<Longrightarrow> \<not> prefix C p \<Longrightarrow> prefix C q \<Longrightarrow> node fs' q = node fs q"
  unfolding only_touches_def by (metis prefix_order.trans)

lemma append_touches:
  assumes "fs_ok fs" "\<And>fs e. used fs = Inl e \<Longrightarrow> e = NotDir"
  shows "only_touches p fs (snd (append_file p used limit early offset source fs))"
proof -
  obtain n err where f: "append_file p used limit early offset source fs =
      ((n, err), snd (append_file p used limit early offset source fs))" by (rule append_snd)
  have "appended p early offset source fs n err (snd (append_file p used limit early offset source fs))"
    by (rule append_file_facts [OF assms(1) f assms(2)])
  then show ?thesis unfolding appended_def by blast
qed

lemma dataDir_cases:
  "dataDir j a = Inr d \<Longrightarrow> d = [''jobs'', j] \<or> d = [''jobs'', j, ''attempts'', a]"
  by (auto simp: dataDir_def JobDir_def split: if_splits)

lemma promote_dirs_keeps:
  "promote_dirs J A names fs = (r, fs') \<Longrightarrow> fs_ok fs \<Longrightarrow>
   (\<And>name. name \<in> set names \<Longrightarrow> \<not> prefix (J @ [name]) q \<and> \<not> prefix (A @ [name]) q) \<Longrightarrow> node fs' q = node fs q"
proof (induction J A names fs rule: promote_dirs.induct)
  case (2 J A name names fs)
  show ?case
  proof (cases "Lstat fs (J @ [name])")
    case (Inl e)
    with "2.IH"(1) [OF Inl] "2.prems" show ?thesis by (auto split: if_splits)
  next
    case J: (Inr n)
    show ?thesis
    proof (cases "Lstat fs (A @ [name])")
      case (Inr m)
      with "2.IH"(3) [OF J Inr] J "2.prems" show ?thesis by simp
    next
      case A: (Inl e)
      show ?thesis
      proof (cases "e = NotExist \<and> is_ok (Rename (J @ [name]) (A @ [name]) fs)")
        case True
        then obtain fs1 where r: "Rename (J @ [name]) (A @ [name]) fs = Inr fs1" by (auto simp: is_ok_iff)
        have "node fs1 q = node fs q" using Rename_node [OF "2.prems"(2) r, of q] "2.prems"(3) by simp
        moreover have "promote_dirs J A names fs1 = (r, fs')" using "2.prems"(1) J A True r by simp
        moreover have "fs_ok fs1" using Rename_ok [OF "2.prems"(2) r] by simp
        ultimately show ?thesis using "2.IH"(2) [OF J A _ r] True "2.prems"(3) by simp
      next
        case False
        with "2.prems"(1) J A show ?thesis by (auto split: sum.splits if_splits)
      qed
    qed
  qed
qed simp

lemma confirm_keeps:
  assumes "fs_ok fs" "ConfirmCheckpoint j c' files fs = (r, fs')" "node fs [''jobs'', j, ''checkpoints'', c] \<noteq> None"
    and "prefix [''jobs'', j, ''checkpoints'', c] q"
  shows "node fs' q = node fs q"
proof -
  let ?D = "[''jobs'', j]"
  from ConfirmCheckpoint_cases [OF assms(2)] obtain fs1 fs2 where f:
    "fs1 = fs \<or> MkdirAll (staging_dir ?D c') fs = Inr fs1"
    "fs2 = fs1 \<or> MkdirAll (butlast (checkpoint_dir ?D c')) fs1 = Inr fs2"
    "fs' = fs2 \<or> Rename (staging_dir ?D c') (checkpoint_dir ?D c') fs2 = Inr fs'"
    "node fs (checkpoint_dir ?D c') \<noteq> None \<Longrightarrow> fs' = fs" by metis
  obtain q' where q: "q = [''jobs'', j, ''checkpoints'', c] @ q'" using assms(4) by (auto simp: prefix_def)
  have one: "node fs1 q = node fs q" using f(1) MkdirAll_node [of "staging_dir ?D c'" fs fs1 q]
    by (auto simp: q staging_dir_def)
  have two: "node fs2 q = node fs1 q" using f(2) MkdirAll_node [of "butlast (checkpoint_dir ?D c')" fs1 fs2 q]
    by (auto simp: q checkpoint_dir_def)
  have "fs_ok fs2" using assms(1) f(1,2) MkdirAll_ok by metis
  show ?thesis
  proof (cases "c' = c")
    case True
    with f(4) assms(3) show ?thesis by (simp add: checkpoint_dir_def)
  next
    case False
    with f(3) Rename_node [OF \<open>fs_ok fs2\<close>, of "staging_dir ?D c'" "checkpoint_dir ?D c'" fs' q] one two
    show ?thesis by (auto simp: q checkpoint_dir_def staging_dir_def)
  qed
qed

lemma file_step_keeps_checkpoint:
  assumes "file_step_any cfg fs fs'" "store_ok fs" "fs' \<noteq> snd (DeleteJob j fs)"
    and "node fs [''jobs'', j, ''checkpoints'', c] \<noteq> None"
  shows "prefix [''jobs'', j, ''checkpoints'', c] q \<Longrightarrow> node fs' q = node fs q"
proof -
  let ?C = "[''jobs'', j, ''checkpoints'', c]"
  assume q: "prefix ?C q"
  have ok: "fs_ok fs" using assms(2) by (simp add: store_ok_def)
  from assms(1) obtain D where s: "file_step cfg D fs fs'" by (auto simp: file_step_any_def)
  have keep: "node fs' q = node fs q" if "only_touches p fs fs'" "\<not> prefix ?C p" for p
    by (rule touches_keeps [OF that q])
  show "node fs' q = node fs q"
  proof (cases "D = [''jobs'', j]")
    case False
    then have "step_elsewhere cfg [''jobs'', j] fs fs'" using s by (auto simp: step_elsewhere_def)
    from elsewhere_keeps [OF this assms(2)] q show ?thesis by (auto simp: prefix_def)
  next
    case True
    from s show ?thesis
    proof cases
      case (append_log j' a s offset source)
      show ?thesis
      proof (cases "validLogStream s \<and> is_ok (dataDir j' a)")
        case ok2: True
        then obtain d where d: "dataDir j' a = Inr d" "validLogStream s" by (auto simp: is_ok_iff)
        have "only_touches (log_file d s) fs fs'"
          using append_touches [OF ok, of "\<lambda>fs. directorySize fs (d @ [''logs''])" "log_file d s"] d append_log(2)
          by (simp add: appendLog_def directorySize_error)
        then show ?thesis using dataDir_cases [OF d(1)] d(2) by (intro keep) (auto simp: log_file_valid prefix_def)
      qed (use append_log(2) in \<open>auto simp: appendLog_def is_ok_def split: sum.splits\<close>)
    next
      case (append_output j' a p offset source)
      show ?thesis
      proof (cases "\<exists>clean d. safeRelativePath p = Inr clean \<and> dataDir j' a = Inr d \<and>
          within (d @ [''output'']) (Join (d @ [''output'']) clean)")
        case ok2: True
        then obtain clean d where d: "safeRelativePath p = Inr clean" "dataDir j' a = Inr d"
          "within (d @ [''output'']) (Join (d @ [''output'']) clean)" by blast
        have "only_touches (Join (d @ [''output'']) clean) fs fs'"
          using append_touches [OF ok, of "\<lambda>fs. directorySize fs (d @ [''output''])" "Join (d @ [''output'']) clean"]
            d append_output(2) by (simp add: appendOutput_def Let_def directorySize_error)
        then show ?thesis
          using dataDir_cases [OF d(2)] within_prefix [OF d(3)] by (intro keep) (auto simp: prefix_def)
      qed (use append_output(2) in \<open>auto simp: appendOutput_def Let_def split: sum.splits if_splits\<close>)
    next
      case (append_checkpoint j' c' p offset source)
      let ?root = "[''jobs'', j', ''checkpoint-staging'', c']"
      show ?thesis
      proof (cases "\<exists>clean. safeSegment c' \<and> safeRelativePath p = Inr clean \<and> safeSegment j' \<and> within ?root (Join ?root clean)")
        case ok2: True
        then obtain clean where d: "safeSegment c'" "safeRelativePath p = Inr clean" "safeSegment j'"
          "within ?root (Join ?root clean)" by blast
        have "only_touches (Join ?root clean) fs fs'"
          using append_touches [OF ok, of "checkpoint_used [''jobs'', j']" "Join ?root clean"]
            d append_checkpoint(2) by (simp add: AppendCheckpoint_def JobDir_def Let_def checkpoint_used_error)
        then show ?thesis using within_prefix [OF d(4)] by (intro keep) (auto simp: prefix_def)
      qed (use append_checkpoint(2) in \<open>auto simp: AppendCheckpoint_def JobDir_def Let_def split: sum.splits if_splits\<close>)
    next
      case (store_input j' p source)
      let ?root = "[''jobs'', j', ''inputs'']"
      show ?thesis
      proof (cases "fs' = fs")
        case False
        obtain r where r: "StoreInput cfg j' p source fs = (r, fs')" using store_input(2) by (metis prod.collapse)
        with False obtain clean fs1 where d: "within ?root (Join ?root clean)"
          "MkdirAll (butlast (Join ?root clean)) fs = Inr fs1"
          and f: "fs' = fs1 \<or> (\<exists>d. fs' = put (Join ?root clean) (Reg 288 d) fs1)"
          by (auto simp: StoreInput_def JobDir_def Let_def split: sum.splits if_splits) blast
        have "only_touches (Join ?root clean) fs fs'"
          using only_touches_mkdir [OF d(2)] f only_touches_trans only_touches_put by blast
        then show ?thesis using within_prefix [OF d(1)] by (intro keep) (auto simp: prefix_def)
      qed simp
    next
      case (confirm j' c' files)
      then have "j' = j" using True by simp
      with confirm_keeps [OF ok surjective_pairing assms(4) q, of c' files] confirm(2) show ?thesis by simp
    next
      case (metadata j' a encoded)
      show ?thesis
      proof (cases "fs' = fs")
        case False
        obtain r where r: "writeMetadata j' a encoded fs = (r, fs')" using metadata(2) by (metis prod.collapse)
        with False obtain d fs1 where d: "dataDir j' a = Inr d" "MkdirAll (d @ [''metadata'']) fs = Inr fs1"
          "fs' = fs1 \<or> fs' = put (d @ [''metadata'', ''job.json'']) (Reg 384 encoded) fs1"
          by (auto simp: writeMetadata_def Let_def split: sum.splits if_splits)
        have "MkdirAll (butlast (d @ [''metadata'', ''job.json''])) fs = Inr fs1" using d(2) by (simp add: butlast_append)
        from only_touches_mkdir [OF this] d(3)
        have "only_touches (d @ [''metadata'', ''job.json'']) fs fs'"
          using only_touches_trans only_touches_put by blast
        then show ?thesis using dataDir_cases [OF d(1)] by (intro keep) (auto simp: prefix_def)
      qed simp
    next
      case (promote j' a)
      show ?thesis
      proof (cases "fs' = fs")
        case False
        obtain r where r: "PromoteLegacyAttempt j' a fs = (r, fs')" using promote(2) by (metis prod.collapse)
        with False obtain d fs1 where d: "dataDir j' a = Inr d" "MkdirAll d fs = Inr fs1"
          "promote_dirs [''jobs'', j'] d [''logs'', ''output'', ''metadata''] fs1 = (r, fs')"
          by (auto simp: PromoteLegacyAttempt_def JobDir_def simp del: promote_dirs.simps split: sum.splits if_splits)
        have "node fs1 q = node fs q" using MkdirAll_node [OF d(2), of q] dataDir_cases [OF d(1)] q
          by (auto simp: prefix_def)
        moreover have "node fs' q = node fs1 q"
          by (rule promote_dirs_keeps [OF d(3) MkdirAll_ok [OF ok d(2)]])
            (use dataDir_cases [OF d(1)] q in \<open>auto simp: prefix_def\<close>)
        ultimately show ?thesis by simp
      qed simp
    next
      case (delete_job j')
      with True assms(3) show ?thesis by simp
    qed (use True in simp_all)
  qed
qed

text \<open>A promoted checkpoint never changes: no sequence of calls, except the deletion of its job, alters a
  file of it, removes one or adds one. In particular a repeated or later confirmation and uploads that name the
  same checkpoint again do not touch it.\<close>

theorem checkpoints_are_immutable:
  assumes "(\<lambda>a b. file_step_any cfg a b \<and> b \<noteq> snd (DeleteJob j a))\<^sup>*\<^sup>* fs fs'" "store_ok fs"
    and "node fs [''jobs'', j, ''checkpoints'', c] \<noteq> None" "prefix [''jobs'', j, ''checkpoints'', c] q"
  shows "node fs' q = node fs q"
proof -
  from assms(1) have "store_ok fs' \<and> node fs' [''jobs'', j, ''checkpoints'', c] = node fs [''jobs'', j, ''checkpoints'', c] \<and>
      node fs' q = node fs q"
  proof (induction rule: rtranclp_induct)
    case (step a b)
    then have "file_step_any cfg a b" "b \<noteq> snd (DeleteJob j a)" "store_ok a"
      "node a [''jobs'', j, ''checkpoints'', c] \<noteq> None" using assms(3) by auto
    from file_step_keeps_checkpoint [OF this(1,3,2,4)] files.step_inv [OF this(3,1)] step.IH assms(4)
    show ?case by auto
  qed (simp add: assms(2))
  then show ?thesis by blast
qed

definition late_fs :: fs where
  "late_fs = snd (AppendCheckpoint sample_config ''j1'' ''c1'' ''a/w'' 0 (bytes_of ''late'') confirmed_fs)"

theorem checkpoints_are_immutable_witness:
  "file_content late_fs [''jobs'', ''j1'', ''checkpoints'', ''c1'', ''a'', ''w''] = ''xyz''"
proof -
  let ?q = "[''jobs'', ''j1'', ''checkpoints'', ''c1'', ''a'', ''w'']"
  have "file_step_any sample_config confirmed_fs late_fs"
    unfolding file_step_any_def late_fs_def by (rule exI, rule file_step.append_checkpoint)
  moreover have "late_fs \<noteq> snd (DeleteJob ''j1'' confirmed_fs)"
  proof -
    have "node late_fs [''jobs'', ''j1''] \<noteq> node (snd (DeleteJob ''j1'' confirmed_fs)) [''jobs'', ''j1'']" by code_simp
    then show ?thesis by metis
  qed
  ultimately have s: "(\<lambda>a b. file_step_any sample_config a b \<and> b \<noteq> snd (DeleteJob ''j1'' a))\<^sup>*\<^sup>* confirmed_fs late_fs"
    by (intro r_into_rtranclp) simp
  have n: "node confirmed_fs [''jobs'', ''j1'', ''checkpoints'', ''c1''] \<noteq> None" by code_simp
  from checkpoints_are_immutable [OF s confirmed_fs_ok n, of ?q]
  have "file_content late_fs ?q = file_content confirmed_fs ?q" by (simp add: file_content_def)
  also have "\<dots> = ''xyz''" by code_simp
  finally show ?thesis .
qed

section \<open>Images and sources\<close>

lemma SHA256_lowercase: "lowercaseSHA256 (SHA256 d)"
  using SHA256_chars [of d]
  by (simp add: lowercaseSHA256_def list_all_iff lower_hex_def List.member_iff subset_eq)

text \<open>The image of a build is written once. A publication that succeeds leaves a regular file whose size and
  digest it reports, the digest in the form the validation of managed images asks for; it is a new file with
  everything the upload delivered, within the limit, exactly when there was none. Every later publication, of
  whatever content, changes nothing and reports the same size and digest.\<close>

theorem images_are_written_once:
  assumes "StoreBuildArtifact b source limit fs = (Inr meta, fs')"
  shows "\<exists>m d. node fs' (artifact_file b) = Some (Reg m d) \<and> bam_Size meta = int (length d) \<and>
      bam_SHA256 meta = SHA256 d \<and> lowercaseSHA256 (bam_SHA256 meta) \<and>
      (bam_Created meta \<longleftrightarrow> node fs (artifact_file b) = None) \<and>
      (bam_Created meta \<longrightarrow> d = rd_data source \<and> \<not> rd_fails source \<and> int (length d) \<le> limit) \<and>
      (\<forall>source' limit'. 0 < limit' \<longrightarrow>
         StoreBuildArtifact b source' limit' fs' = (Inr (meta\<lparr>bam_Created := False\<rparr>), fs'))"
proof -
  have b: "safeSegment b" "0 < limit" using assms by (auto simp: StoreBuildArtifact_def split: if_splits)
  have again: "\<forall>source' limit'. 0 < limit' \<longrightarrow> StoreBuildArtifact b source' limit' fs' =
      (Inr \<lparr>bam_Size = int (length d), bam_SHA256 = SHA256 d, bam_Created = False\<rparr>, fs')"
    if "node fs' (artifact_file b) = Some (Reg m d)" for m d
    using that b by (simp add: StoreBuildArtifact_def Lstat_def)
  show ?thesis
  proof (cases "node fs (artifact_file b)")
    case None
    then obtain data fs1 where d: "read_limited source limit = Inr data"
      "meta = \<lparr>bam_Size = int (length data), bam_SHA256 = SHA256 data, bam_Created = True\<rparr>"
      "fs' = put (artifact_file b) (Reg 288 data) fs1"
      using assms b by (auto simp: StoreBuildArtifact_def Let_def Lstat_def split: sum.splits if_splits)
    have r: "data = rd_data source" "\<not> rd_fails source" "int (length data) \<le> limit"
      using d(1) by (auto simp: read_limited_def Let_def LimitReader_def split: if_splits)
    have n: "node fs' (artifact_file b) = Some (Reg 288 data)" using d(3) by simp
    show ?thesis using n d(2) r None again [OF n] SHA256_lowercase by (intro exI [of _ 288] exI [of _ data]) simp
  next
    case (Some n)
    then obtain m d where "n = Reg m d" "fs' = fs"
      "meta = \<lparr>bam_Size = int (length d), bam_SHA256 = SHA256 d, bam_Created = False\<rparr>"
      using assms b by (auto simp: StoreBuildArtifact_def Let_def Lstat_def split: fnode.splits)
    with Some again [of m d] SHA256_lowercase show ?thesis by (intro exI [of _ m] exI [of _ d]) simp
  qed
qed

lemma sample_publication:
  "StoreBuildArtifact ''b1'' (bytes_of ''img'') 5 empty_fs =
    (Inr \<lparr>bam_Size = 3, bam_SHA256 = SHA256 ''img'', bam_Created = True\<rparr>,
     put (artifact_file ''b1'') (Reg 288 ''img'') (foldl mkdir_missing empty_fs
       (ancestors (butlast (artifact_file ''b1'')) @ [butlast (artifact_file ''b1'')])))"
proof -
  have "MkdirAll (butlast (artifact_file ''b1'')) empty_fs = Inr (foldl mkdir_missing empty_fs
       (ancestors (butlast (artifact_file ''b1'')) @ [butlast (artifact_file ''b1'')]))" by code_simp
  moreover have "Lstat empty_fs (artifact_file ''b1'') = Inl NotExist" "safeSegment ''b1''" by code_simp+
  ultimately show ?thesis
    by (simp add: StoreBuildArtifact_def Let_def read_limited_def LimitReader_def bytes_of_def)
qed

theorem images_are_written_once_witness:
  "\<exists>fs'. StoreBuildArtifact ''b1'' (bytes_of ''img'') 5 empty_fs =
       (Inr \<lparr>bam_Size = 3, bam_SHA256 = SHA256 ''img'', bam_Created = True\<rparr>, fs') \<and>
     StoreBuildArtifact ''b1'' (bytes_of ''other'') 9 fs' =
       (Inr \<lparr>bam_Size = 3, bam_SHA256 = SHA256 ''img'', bam_Created = False\<rparr>, fs')"
proof -
  from images_are_written_once [OF sample_publication] sample_publication show ?thesis
    by (metis (no_types, lifting) BuildArtifactMetadata.update_convs(3) zero_less_numeral)
qed

section \<open>Archives\<close>

text \<open>C19: The expansion of an uploaded archive is confined: whatever entries the ZIP or tar holds, the tree outside
  the fresh workspace is as before; when it fails (a path that leaves the workspace, a duplicate, a
  link, too much data, too many entries) the whole tree is as before; when it succeeds the project
  is a directory of the workspace, which holds no more bytes than the limit for inputs.\<close>

theorem expansion_is_confined:
  assumes "store_ok fs" "node fs [''builds'', b, tmp] = None" "0 \<le> maxInputBytes cfg"
    and "PrepareBuildSource unzip untar cfg b name tmp fs = (r, fs')"
  shows "(\<forall>q. \<not> prefix [''builds'', b, tmp] q \<longrightarrow> node fs' q = node fs q) \<and>
    (\<forall>e q. r = Inl e \<longrightarrow> node fs' q = node fs q) \<and>
    (\<forall>project. r = Inr project \<longrightarrow> prefix [''builds'', b, tmp] project \<and> node fs' project = Some Dir \<and>
       total_size fs' [''builds'', b, tmp] \<le> maxInputBytes cfg)"
  using PrepareBuildSource_facts [OF assms(1,2,4)] assms(3) unfolding frame_def by blast

text \<open>A build with an archive that holds an entry which climbs out of the workspace.\<close>

definition source_fs :: fs where
  "source_fs = put (source_file ''b1'') (Reg 288 ''PK'')
     (foldl mkdir_missing empty_fs [[''builds'', ''b1''], [''builds'', ''b1'', ''source'']])"

definition plain_entry :: "string \<Rightarrow> string \<Rightarrow> archive_entry" where
  "plain_entry name d = \<lparr>ae_Name = name, ae_Kind = RegularEntry, ae_Executable = False, ae_Size = int (length d),
     ae_Open = Inr (bytes_of d)\<rparr>"

lemma source_fs_ok: "store_ok source_fs"
proof -
  let ?fs1 = "put [''builds'', ''b1''] Dir empty_fs"
  let ?fs2 = "put [''builds'', ''b1'', ''source''] Dir ?fs1"
  have e: "fs_ok empty_fs" "node empty_fs [''jobs''] = Some Dir" "node empty_fs [''builds''] = Some Dir"
    using empty_fs_ok by (simp_all add: store_ok_def)
  have n: "node empty_fs [''builds'', ''b1''] = None" "node empty_fs [''builds'', ''b1'', ''source''] = None"
    "node empty_fs (source_file ''b1'') = None" by code_simp+
  have 1: "fs_ok ?fs1" using e by (intro put_ok) auto
  have 2: "fs_ok ?fs2" by (rule put_ok [OF 1]) auto
  have "fs_ok (put (source_file ''b1'') (Reg 288 ''PK'') ?fs2)"
    by (rule put_ok [OF 2]) (use n in \<open>auto simp: source_file_def\<close>)
  with e n show ?thesis by (simp add: source_fs_def store_ok_def mkdir_missing_def source_file_def)
qed

theorem expansion_is_confined_witness:
  "PrepareBuildSource (\<lambda>_. Some [plain_entry ''a.txt'' ''hi'', plain_entry ''x/../../../j'' ''evil'']) (\<lambda>_. None)
     sample_config ''b1'' ''P.ZIP'' ''.analysis-1'' source_fs =
   (Inl (ErrText ''unsafe project archive path''), snd (PrepareBuildSource
     (\<lambda>_. Some [plain_entry ''a.txt'' ''hi'', plain_entry ''x/../../../j'' ''evil'']) (\<lambda>_. None)
     sample_config ''b1'' ''P.ZIP'' ''.analysis-1'' source_fs)) \<and>
   node (snd (PrepareBuildSource
     (\<lambda>_. Some [plain_entry ''a.txt'' ''hi'', plain_entry ''x/../../../j'' ''evil'']) (\<lambda>_. None)
     sample_config ''b1'' ''P.ZIP'' ''.analysis-1'' source_fs)) [''builds'', ''b1'', ''.analysis-1'', ''a.txt''] = None"
proof -
  let ?p = "PrepareBuildSource (\<lambda>_. Some [plain_entry ''a.txt'' ''hi'', plain_entry ''x/../../../j'' ''evil'']) (\<lambda>_. None)
     sample_config ''b1'' ''P.ZIP'' ''.analysis-1'' source_fs"
  have p: "?p = (Inl (ErrText ''unsafe project archive path''), snd ?p)"
  proof -
    have "fst ?p = Inl (ErrText ''unsafe project archive path'')" by code_simp
    then show ?thesis by (metis prod.collapse)
  qed
  have "node source_fs [''builds'', ''b1'', ''.analysis-1''] = None" "0 \<le> maxInputBytes sample_config"
    "node source_fs [''builds'', ''b1'', ''.analysis-1'', ''a.txt''] = None" by code_simp+
  with expansion_is_confined [OF source_fs_ok this(1,2) p] p show ?thesis by metis
qed

end
