(* ===== verification/Http.thy ===== *)
theory Http
  imports AgentStore Scheduler FileTree
begin

text \<open>
  What the HTTP handlers of \<^verbatim>\<open>internal/httpapi\<close> share: \<^verbatim>\<open>strconv.ParseInt\<close> and \<^verbatim>\<open>FormatInt\<close> for the
  offsets in URLs and headers, \<^verbatim>\<open>http.MaxBytesReader\<close>, and the answers. An answer is its status, the
  problem code of an error document and the field \<^verbatim>\<open>next_offset\<close>, which decodes as 0 where it is absent.
\<close>

section \<open>Numbers\<close>

datatype num_error = ErrSyntax | ErrRange

definition digit_of :: "char \<Rightarrow> int option" where
  "digit_of c = (if ascii_digit c then Some (int (of_char c) - 48) else None)"

text \<open>\<^verbatim>\<open>ParseUint(s, 10, 64)\<close> after the empty string: an overflow ends the scan before a later bad byte does.\<close>

fun parse_uint :: "int \<Rightarrow> string \<Rightarrow> int \<times> num_error option" where
  "parse_uint n [] = (n, None)"
| "parse_uint n (c # cs) =
     (case digit_of c of
        None \<Rightarrow> (0, Some ErrSyntax)
      | Some d \<Rightarrow>
          if n * 10 + d > 18446744073709551615 then (18446744073709551615, Some ErrRange)
          else parse_uint (n * 10 + d) cs)"

definition signed_part :: "string \<Rightarrow> bool \<times> string" where
  "signed_part s =
     (case s of
        [] \<Rightarrow> (False, [])
      | c # cs \<Rightarrow> if c = CHR ''+'' then (False, cs) else if c = CHR ''-'' then (True, cs) else (False, s))"

definition ParseInt :: "string \<Rightarrow> int \<times> num_error option" where
  "ParseInt s =
     (let (neg, digits) = signed_part s
      in if digits = [] then (0, Some ErrSyntax)
         else (case parse_uint 0 digits of
            (n, Some ErrSyntax) \<Rightarrow> (0, Some ErrSyntax)
          | (n, e) \<Rightarrow>
              if \<not> neg \<and> n \<ge> 9223372036854775808 then (9223372036854775807, Some ErrRange)
              else if neg \<and> n > 9223372036854775808 then (- 9223372036854775808, Some ErrRange)
              else (if neg then - n else n, None)))"

definition FormatInt :: "int \<Rightarrow> string" where
  "FormatInt i = Itoa i"

lemma digit_of_decimal: "n < 10 \<Longrightarrow> digit_of (decimal_digit n) = Some (int n)"
  by (simp add: digit_of_def decimal_digit_def ascii_digit_def)

lemma parse_uint_append:
  "parse_uint n s = (m, None) \<Longrightarrow> parse_uint n (s @ t) = parse_uint m t"
  by (induction s arbitrary: n) (auto split: option.splits if_splits)

lemma itoa_nat_not_Nil [simp]: "itoa_nat n \<noteq> []"
  by (subst itoa_nat.simps) simp

lemma parse_itoa_nat: "int n \<le> 18446744073709551615 \<Longrightarrow> parse_uint 0 (itoa_nat n) = (int n, None)"
proof (induction n rule: itoa_nat.induct)
  case (1 n)
  show ?case
  proof (cases "n < 10")
    case True
    then show ?thesis by (subst itoa_nat.simps) (simp add: digit_of_decimal)
  next
    case False
    then have "parse_uint 0 (itoa_nat (n div 10)) = (int (n div 10), None)" using 1 by simp
    then have "parse_uint 0 (itoa_nat (n div 10) @ [decimal_digit (n mod 10)]) =
        parse_uint (int (n div 10)) [decimal_digit (n mod 10)]" by (rule parse_uint_append)
    moreover have "int (n div 10) * 10 + int (n mod 10) = int n"
      by (metis div_mult_mod_eq of_nat_add of_nat_mult of_nat_numeral)
    ultimately show ?thesis using False 1(2)
      by (subst itoa_nat.simps) (simp add: digit_of_decimal)
  qed
qed

lemma itoa_nat_head: "\<exists>d ds. itoa_nat n = decimal_digit d # ds \<and> d < 10"
proof (induction n rule: itoa_nat.induct)
  case (1 n)
  then show ?case by (subst itoa_nat.simps) (cases "n < 10", fastforce+)
qed

lemma signed_itoa_nat: "signed_part (itoa_nat n) = (False, itoa_nat n)"
proof -
  obtain d ds where d: "itoa_nat n = decimal_digit d # ds" "d < 10" using itoa_nat_head by metis
  have "digit_of (decimal_digit d) \<noteq> digit_of (CHR ''+'')" "digit_of (decimal_digit d) \<noteq> digit_of (CHR ''-'')"
    unfolding digit_of_decimal [OF d(2)] by (simp_all add: digit_of_def ascii_digit_def)
  then have "decimal_digit d \<noteq> CHR ''+''" "decimal_digit d \<noteq> CHR ''-''" by metis+
  then show ?thesis unfolding signed_part_def d(1) by simp
qed

lemma ParseInt_FormatInt: "in_i64 i \<Longrightarrow> ParseInt (FormatInt i) = (i, None)"
  by (auto simp: ParseInt_def FormatInt_def Itoa_def in_i64_def signed_itoa_nat parse_itoa_nat)
    (simp_all add: signed_part_def parse_itoa_nat)

section \<open>Requests and answers\<close>

text \<open>The error of a body that is too long comes after its first \<open>n\<close> bytes.\<close>

definition MaxBytesReader :: "reader \<Rightarrow> int \<Rightarrow> reader" where
  "MaxBytesReader r n =
     (if int (length (rd_data r)) > n then \<lparr>rd_data = take (nat n) (rd_data r), rd_fails = True\<rparr> else r)"

record reply =
  rep_status :: nat
  rep_code :: string
  rep_next :: int

definition writeProblem :: "nat \<Rightarrow> string \<Rightarrow> reply" where
  "writeProblem status code = \<lparr>rep_status = status, rep_code = code, rep_next = 0\<rparr>"

definition next_offset :: "nat \<Rightarrow> int \<Rightarrow> reply" where
  "next_offset status n = \<lparr>rep_status = status, rep_code = '''', rep_next = n\<rparr>"

definition no_content :: reply where
  "no_content = \<lparr>rep_status = 204, rep_code = '''', rep_next = 0\<rparr>"

definition writeStoreError :: "store_error \<Rightarrow> reply" where
  "writeStoreError e =
     (case e of
        ErrNotFound \<Rightarrow> writeProblem 404 ''not_found''
      | ErrConflict \<Rightarrow> writeProblem 409 ''conflict''
      | _ \<Rightarrow> writeProblem 500 ''database_error'')"

lemmas reply_simps = writeProblem_def next_offset_def no_content_def

definition succeeded :: "reply \<Rightarrow> bool" where
  "succeeded r \<longleftrightarrow> 200 \<le> rep_status r \<and> rep_status r < 300"

lemma succeeded_problem [simp]: "status < 200 \<or> 300 \<le> status \<Longrightarrow> \<not> succeeded (writeProblem status code)"
  by (auto simp: succeeded_def writeProblem_def)

lemma succeeded_store_error [simp]: "\<not> succeeded (writeStoreError e)"
  by (simp add: writeStoreError_def split: store_error.splits)

lemma succeeded_next [simp]: "succeeded (next_offset status n) \<longleftrightarrow> 200 \<le> status \<and> status < 300"
  by (simp add: succeeded_def next_offset_def)

end
