(* ===== verification/UploadApi.thy ===== *)
theory UploadApi
  imports Http FileObjects
begin

text \<open>
  The handlers of \<^verbatim>\<open>internal/httpapi/api.go\<close> that receive the logs, outputs and checkpoints of a running
  job. The agent is the node \<open>nodeID\<close> its credential authenticated; \<open>offset\<close> is the text of the query
  parameter. The server is its database, the tree of its file store, and the rows of
  \<^verbatim>\<open>job_observation_updates\<close>.
\<close>

record server =
  srv_db :: db
  srv_files :: fs
  srv_observations :: "(string \<times> string \<times> string \<times> int) list"

section \<open>Logs and outputs\<close>

definition putLog ::
  "file_config \<Rightarrow> string \<Rightarrow> string \<Rightarrow> string \<Rightarrow> string \<Rightarrow> string \<Rightarrow> reader \<Rightarrow> gotime \<Rightarrow> server \<Rightarrow> reply \<times> server" where
  "putLog cfg nodeID jobID stream attemptID offset body now s =
     (case Job jobID (srv_db s) of
        Inl e \<Rightarrow> (writeStoreError e, s)
      | Inr job \<Rightarrow>
          if job_AssignedNodeID job \<noteq> nodeID then (writeProblem 403 ''forbidden'', s)
          else if attemptID = '''' \<or> attemptID \<noteq> job_AttemptID job then (writeProblem 409 ''stale_attempt'', s)
          else (case AppendAttemptLog cfg (job_ID job) attemptID stream (fst (ParseInt offset))
                       (MaxBytesReader body 4194304) (srv_files s) of
                  ((n, None), fs) \<Rightarrow> (next_offset 200 n, s\<lparr>srv_files := fs\<rparr>)
                | ((n, Some e), fs) \<Rightarrow>
                    let s = s\<lparr>srv_files := fs\<rparr> in
                    if e = ErrOffsetMismatch then (next_offset 409 n, s)
                    else if e = ErrLimitExceeded then
                      (next_offset 413 n,
                       s\<lparr>srv_db := snd (AppendServerEvent (job_ID job) ''log_limit_exceeded'' [] now (srv_db s))\<rparr>)
                    else (writeProblem 500 ''log_write_failed'', s)))"

definition putOutput ::
  "file_config \<Rightarrow> string \<Rightarrow> string \<Rightarrow> string \<Rightarrow> string \<Rightarrow> string \<Rightarrow> reader \<Rightarrow> server \<Rightarrow> reply \<times> server" where
  "putOutput cfg nodeID jobID path attemptID offset body s =
     (case Job jobID (srv_db s) of
        Inl e \<Rightarrow> (writeStoreError e, s)
      | Inr job \<Rightarrow>
          if job_AssignedNodeID job \<noteq> nodeID then (writeProblem 403 ''forbidden'', s)
          else if attemptID = '''' \<or> attemptID \<noteq> job_AttemptID job then (writeProblem 409 ''stale_attempt'', s)
          else (case AppendAttemptOutput cfg (job_ID job) attemptID path (fst (ParseInt offset))
                       (MaxBytesReader body 8388608) (srv_files s) of
                  ((n, None), fs) \<Rightarrow> (next_offset 200 n, s\<lparr>srv_files := fs\<rparr>)
                | ((n, Some e), fs) \<Rightarrow>
                    (if e = ErrOffsetMismatch then next_offset 409 n
                     else if e = ErrLimitExceeded then writeProblem 413 ''output_limit_exceeded''
                     else writeProblem 422 ''invalid_output'', s\<lparr>srv_files := fs\<rparr>)))"

section \<open>Checkpoints\<close>

definition checkpointForAgent :: "string \<Rightarrow> string \<Rightarrow> db \<Rightarrow> reply + (CheckpointSync \<times> Job)" where
  "checkpointForAgent nodeID syncID d =
     (case CheckpointSync_by_id syncID d of
        Inl e \<Rightarrow> Inl (writeStoreError e)
      | Inr item \<Rightarrow>
          (case Job (sync_JobID item) d of
             Inl e \<Rightarrow> Inl (writeStoreError e)
           | Inr job \<Rightarrow>
               if job_AssignedNodeID job \<noteq> nodeID \<or> job_AttemptID job \<noteq> sync_AttemptID item
               then Inl (writeProblem 403 ''forbidden'') else Inr (item, job)))"

definition putCheckpoint ::
  "file_config \<Rightarrow> string \<Rightarrow> string \<Rightarrow> string \<Rightarrow> string \<Rightarrow> reader \<Rightarrow> server \<Rightarrow> reply \<times> server" where
  "putCheckpoint cfg nodeID syncID path offset body s =
     (case checkpointForAgent nodeID syncID (srv_db s) of
        Inl answer \<Rightarrow> (answer, s)
      | Inr (item, job) \<Rightarrow>
          if sync_ConfirmedAt item \<noteq> None then (writeProblem 409 ''checkpoint_confirmed'', s)
          else (case AppendCheckpoint cfg (job_ID job) (sync_ID item) path (fst (ParseInt offset))
                       (MaxBytesReader body 8388608) (srv_files s) of
                  ((n, None), fs) \<Rightarrow> (next_offset 200 n, s\<lparr>srv_files := fs\<rparr>)
                | ((n, Some e), fs) \<Rightarrow>
                    (if e = ErrOffsetMismatch then next_offset 409 n
                     else if e = ErrLimitExceeded then next_offset 413 n
                     else writeProblem 422 ''invalid_checkpoint'', s\<lparr>srv_files := fs\<rparr>)))"

text \<open>The loop over the files of the request: the manifest as a map, or what is wrong with it.\<close>

fun manifest_of :: "int gomap \<Rightarrow> CheckpointFile list \<Rightarrow> int gomap option" where
  "manifest_of m [] = Some m"
| "manifest_of m (f # fs) =
     (if ckfile_Path f = '''' \<or> ckfile_Size f < 0 then None
      else if map_of m (ckfile_Path f) \<noteq> None then None
      else manifest_of (m @ [(ckfile_Path f, ckfile_Size f)]) fs)"

definition confirmed_payload :: "CheckpointSync \<Rightarrow> CheckpointFile list \<Rightarrow> json gomap" where
  "confirmed_payload item files =
     [(''sync_id'', JStr (sync_ID item)), (''file_count'', JNum (FormatInt (int (length files)))),
      (''label'', JStr (sync_Label item)),
      (''step'', case sync_Step item of None \<Rightarrow> JNull | Some k \<Rightarrow> JNum (FormatInt k))]"

text \<open>\<open>files\<close> is what decoding the body gives, none when it is not the JSON asked for.\<close>

definition completeCheckpoint ::
  "string \<Rightarrow> string \<Rightarrow> CheckpointFile list option \<Rightarrow> gotime \<Rightarrow> server \<Rightarrow> reply \<times> server" where
  "completeCheckpoint nodeID syncID files now s =
     (case checkpointForAgent nodeID syncID (srv_db s) of
        Inl answer \<Rightarrow> (answer, s)
      | Inr (item, job) \<Rightarrow>
          (case files of
             None \<Rightarrow> (writeProblem 400 ''invalid_json'', s)
           | Some fs \<Rightarrow>
               (case manifest_of [] fs of
                  None \<Rightarrow> (writeProblem 422 ''invalid_checkpoint_manifest'', s)
                | Some manifest \<Rightarrow>
                    if sync_ConfirmedAt item \<noteq> None then (no_content, s)
                    else (case ConfirmCheckpoint (job_ID job) (sync_ID item) manifest (srv_files s) of
                            (Inl e, tree) \<Rightarrow> (writeProblem 409 ''checkpoint_incomplete'', s\<lparr>srv_files := tree\<rparr>)
                          | (Inr _, tree) \<Rightarrow>
                              let s = s\<lparr>srv_files := tree\<rparr> in
                              (case ConfirmCheckpointSync (sync_ID item) fs now (srv_db s) of
                                 (Inl e, d) \<Rightarrow> (writeStoreError e, s\<lparr>srv_db := d\<rparr>)
                               | (Inr _, d) \<Rightarrow>
                                   let observed = (case sync_ObservedAt item of
                                         None \<Rightarrow> sync_RequestedAt item | Some t \<Rightarrow> t)
                                   in (no_content, s\<lparr>
                                     srv_db := snd (AppendServerEvent (job_ID job) ''checkpoint_confirmed''
                                       (confirmed_payload item fs) now d),
                                     srv_observations := srv_observations s @
                                       [(job_ID job, sync_AttemptID item, ''checkpoint'', observed div 1000000)]\<rparr>))))))"

end
