(* ===== verification/AgentUpload.thy ===== *)
theory AgentUpload
  imports UploadApi Redactor
begin

text \<open>
  The uploads of \<^verbatim>\<open>internal/agent/agent.go\<close> (logs, outputs and checkpoints of a container) and the part of
  \<^verbatim>\<open>internal/dockerengine/client.go\<close> that reads the log stream of a container.

  The other side of the network is a parameter: \<open>send\<close> is what a server of any kind does with a request.
  Every request can be lost before it reaches the server or its answer can be lost on the way back, and
  between two requests of the agent the server may do other things. This is the plan of the
  network; a plan that is used up stands for a quiet and reliable network.
\<close>

section \<open>Requests over an unreliable network\<close>

datatype delivery = Delivered | LostRequest | LostResponse

type_synonym 's call = "('s \<Rightarrow> 's) \<times> delivery"

record 's net =
  net_world :: 's
  net_plan :: "'s call list"
  net_sent :: nat

definition next_call :: "'s net \<Rightarrow> 's call" where
  "next_call net = (case net_plan net of [] \<Rightarrow> (id, Delivered) | c # _ \<Rightarrow> c)"

text \<open>\<^verbatim>\<open>http.Client.Do\<close>: none when no answer comes back.\<close>

definition http_do :: "('s \<Rightarrow> 'r \<times> 's) \<Rightarrow> 's net \<Rightarrow> 'r option \<times> 's net" where
  "http_do request net =
     (let (other, delivery) = next_call net; w = other (net_world net);
          net = net\<lparr>net_plan := tl (net_plan net), net_sent := Suc (net_sent net)\<rparr>
      in case delivery of
           LostRequest \<Rightarrow> (None, net\<lparr>net_world := w\<rparr>)
         | LostResponse \<Rightarrow> (None, net\<lparr>net_world := snd (request w)\<rparr>)
         | Delivered \<Rightarrow> (Some (fst (request w)), net\<lparr>net_world := snd (request w)\<rparr>))"

text \<open>The next offset the server names and whether the upload went without error.\<close>

definition uploadBinary :: "('s \<Rightarrow> reply \<times> 's) \<Rightarrow> 's net \<Rightarrow> (int \<times> bool) \<times> 's net" where
  "uploadBinary request net =
     (case http_do request net of
        (None, net) \<Rightarrow> ((0, False), net)
      | (Some r, net) \<Rightarrow> ((rep_next r, succeeded r), net))"

text \<open>The reads of a file through a buffer of \<open>n\<close> bytes.\<close>

function chunks_of :: "nat \<Rightarrow> 'a list \<Rightarrow> 'a list list" where
  "chunks_of n xs = (if xs = [] \<or> n = 0 then [] else take n xs # chunks_of n (drop n xs))"
  by pat_completeness auto
termination
  by (relation "measure (\<lambda>(n, xs). length xs)") auto

declare chunks_of.simps [simp del]

text \<open>The upload loop of logs and outputs: it stops at the first error. The offset is that of the last answer.\<close>

fun send_chunks ::
  "(int \<Rightarrow> string \<Rightarrow> 's \<Rightarrow> reply \<times> 's) \<Rightarrow> int \<Rightarrow> string list \<Rightarrow> 's net \<Rightarrow> (int \<times> bool) \<times> 's net" where
  "send_chunks send offset [] net = ((offset, True), net)"
| "send_chunks send offset (c # cs) net =
     (case uploadBinary (send offset c) net of
        ((n, True), net) \<Rightarrow> send_chunks send n cs net
      | ((n, False), net) \<Rightarrow> ((offset, False), net))"

section \<open>Logs\<close>

text \<open>
  The local log files by stream and the part of the assignment record that tracks their upload. The record
  is saved to disk after every answer.
\<close>

record log_agent =
  la_local :: "string \<Rightarrow> string"
  la_StdoutOffset :: int
  la_StderrOffset :: int
  la_LogOrderOffset :: int
  la_LogSequence :: int

definition log_offset :: "log_agent \<Rightarrow> string \<Rightarrow> int" where
  "log_offset ag stream =
     (if stream = ''stderr'' then la_StderrOffset ag
      else if stream = ''.order'' then la_LogOrderOffset ag else la_StdoutOffset ag)"

definition set_log_offset :: "string \<Rightarrow> int \<Rightarrow> log_agent \<Rightarrow> log_agent" where
  "set_log_offset stream n ag =
     (if stream = ''stdout'' then ag\<lparr>la_StdoutOffset := n\<rparr>
      else if stream = ''stderr'' then ag\<lparr>la_StderrOffset := n\<rparr>
      else ag\<lparr>la_LogOrderOffset := n\<rparr>)"

definition syncLog ::
  "(string \<Rightarrow> int \<Rightarrow> string \<Rightarrow> 's \<Rightarrow> reply \<times> 's) \<Rightarrow> string \<Rightarrow> log_agent \<Rightarrow> 's net \<Rightarrow> bool \<times> log_agent \<times> 's net" where
  "syncLog send stream ag net =
     (case send_chunks (send stream) (log_offset ag stream)
             (chunks_of 262144 (drop (nat (log_offset ag stream)) (la_local ag stream))) net of
        ((n, ok), net) \<Rightarrow> (ok, set_log_offset stream n ag, net))"

definition order_line :: "int \<Rightarrow> string \<Rightarrow> int \<Rightarrow> int \<Rightarrow> string" where
  "order_line sequence stream start n =
     ''{'' @ [CHR 0x22] @ ''sequence'' @ [CHR 0x22, CHR '':''] @ FormatInt sequence @
     '','' @ [CHR 0x22] @ ''stream'' @ [CHR 0x22, CHR '':'', CHR 0x22] @ stream @ [CHR 0x22] @
     '','' @ [CHR 0x22] @ ''start_offset'' @ [CHR 0x22, CHR '':''] @ FormatInt start @
     '','' @ [CHR 0x22] @ ''next_offset'' @ [CHR 0x22, CHR '':''] @ FormatInt n @ ''}'' @ [CHR 0x0A]"

definition append_local :: "string \<Rightarrow> string \<Rightarrow> log_agent \<Rightarrow> log_agent" where
  "append_local stream data ag = ag\<lparr>la_local := (la_local ag)(stream := la_local ag stream @ data)\<rparr>"

text \<open>The local disk takes the data; the two uploads may fail.\<close>

definition appendOrderedLog ::
  "(string \<Rightarrow> int \<Rightarrow> string \<Rightarrow> 's \<Rightarrow> reply \<times> 's) \<Rightarrow> string \<Rightarrow> string \<Rightarrow> log_agent \<Rightarrow> 's net \<Rightarrow>
   bool \<times> log_agent \<times> 's net" where
  "appendOrderedLog send stream data ag net =
     (let start = int (length (la_local ag stream));
          ag = append_local stream data ag;
          ag = ag\<lparr>la_LogSequence := i64 (la_LogSequence ag + 1)\<rparr>;
          ag = append_local ''.order''
                 (order_line (la_LogSequence ag) stream start (start + int (length data))) ag
      in case syncLog send stream ag net of
           (True, ag, net) \<Rightarrow> syncLog send ''.order'' ag net
         | (False, ag, net) \<Rightarrow> (False, ag, net))"

section \<open>The log stream of a container\<close>

text \<open>
  \<^verbatim>\<open>Client.Logs\<close>: frames of an 8-byte header (the stream in the first byte, the size in the last four)
  and a payload. An error of the callback ends it. \<open>fails\<close>: the connection breaks after \<open>data\<close>.
\<close>

definition big_endian :: "string \<Rightarrow> nat" where
  "big_endian bs = foldl (\<lambda>n b. n * 256 + of_char b) 0 bs"

function docker_logs ::
  "(string \<Rightarrow> string \<Rightarrow> 'a \<Rightarrow> bool \<times> 'a) \<Rightarrow> bool \<Rightarrow> string \<Rightarrow> 'a \<Rightarrow> bool \<times> 'a" where
  "docker_logs callback fails data st =
     (if length data < 8 then (\<not> fails, st)
      else let header = take 8 data; rest = drop 8 data; size = big_endian (drop 4 header) in
        if size > 16777216 then (False, st)
        else if length rest < size then (False, st)
        else (case callback (if header ! 0 = CHR 0x02 then ''stderr'' else ''stdout'') (take size rest) st of
           (True, st) \<Rightarrow> docker_logs callback fails (drop size rest) st
         | (False, st) \<Rightarrow> (False, st)))"
  by pat_completeness auto
termination
  by (relation "measure (\<lambda>(callback, fails, data, st). length data)") auto

declare docker_logs.simps [simp del]

text \<open>The frames of a log stream up to the first one that is broken.\<close>

function log_frames :: "string \<Rightarrow> (string \<times> string) list" where
  "log_frames data =
     (if length data < 8 then []
      else let header = take 8 data; rest = drop 8 data; size = big_endian (drop 4 header) in
        if size > 16777216 \<or> length rest < size then []
        else (if header ! 0 = CHR 0x02 then ''stderr'' else ''stdout'', take size rest) #
          log_frames (drop size rest))"
  by pat_completeness auto
termination
  by (relation "measure length") auto

declare log_frames.simps [simp del]

definition payloads :: "string \<Rightarrow> (string \<times> string) list \<Rightarrow> string list" where
  "payloads stream frames = map snd (filter (\<lambda>f. fst f = stream) frames)"

record log_stream =
  ls_stdout :: redactor
  ls_stderr :: redactor
  ls_agent :: log_agent

definition stream_redactor :: "string \<Rightarrow> log_stream \<Rightarrow> redactor" where
  "stream_redactor stream ls = (if stream = ''stderr'' then ls_stderr ls else ls_stdout ls)"

definition set_redactor :: "string \<Rightarrow> redactor \<Rightarrow> log_stream \<Rightarrow> log_stream" where
  "set_redactor stream r ls =
     (if stream = ''stderr'' then ls\<lparr>ls_stderr := r\<rparr> else ls\<lparr>ls_stdout := r\<rparr>)"

definition log_frame ::
  "(string \<Rightarrow> int \<Rightarrow> string \<Rightarrow> 's \<Rightarrow> reply \<times> 's) \<Rightarrow> string \<Rightarrow> string \<Rightarrow> log_stream \<times> 's net \<Rightarrow>
   bool \<times> log_stream \<times> 's net" where
  "log_frame send stream payload s =
     (case s of (ls, net) \<Rightarrow>
        (case Push (stream_redactor stream ls) payload of
           (safe, r) \<Rightarrow>
             let ls = set_redactor stream r ls in
             if safe = '''' then (True, ls, net)
             else (case appendOrderedLog send stream safe (ls_agent ls) net of
                (ok, ag, net) \<Rightarrow> (ok, ls\<lparr>ls_agent := ag\<rparr>, net))))"

definition log_tail ::
  "(string \<Rightarrow> int \<Rightarrow> string \<Rightarrow> 's \<Rightarrow> reply \<times> 's) \<Rightarrow> string \<Rightarrow> log_stream \<times> 's net \<Rightarrow> log_stream \<times> 's net" where
  "log_tail send stream s =
     (case s of (ls, net) \<Rightarrow>
        (case Flush (stream_redactor stream ls) of
           (tail, r) \<Rightarrow>
             let ls = set_redactor stream r ls;
                 (ag, net) = (if tail = '''' then (ls_agent ls, net)
                   else snd (appendOrderedLog send stream tail (ls_agent ls) net));
                 (ag, net) = snd (syncLog send stream ag net)
             in (ls\<lparr>ls_agent := ag\<rparr>, net)))"

definition streamLogs ::
  "(string \<Rightarrow> int \<Rightarrow> string \<Rightarrow> 's \<Rightarrow> reply \<times> 's) \<Rightarrow> string list \<Rightarrow> string \<Rightarrow> bool \<Rightarrow> log_agent \<Rightarrow> 's net \<Rightarrow>
   log_stream \<times> 's net" where
  "streamLogs send secrets data fails ag net =
     (let ls = \<lparr>ls_stdout = newRedactor secrets, ls_stderr = newRedactor secrets, ls_agent = ag\<rparr>
      in log_tail send ''stderr'' (log_tail send ''stdout''
           (snd (docker_logs (log_frame send) fails data (ls, net)))))"

section \<open>Outputs\<close>

text \<open>
  The regular files below the output directory in the order of the walk, with their relative names.
  The walk ends at the first error, with the outputs uploaded so far.
\<close>

fun uploadOutputs ::
  "(string \<Rightarrow> int \<Rightarrow> string \<Rightarrow> 's \<Rightarrow> reply \<times> 's) \<Rightarrow> (string \<times> string) list \<Rightarrow> 's net \<Rightarrow>
   bool \<times> OutputFile list \<times> 's net" where
  "uploadOutputs send [] net = (True, [], net)"
| "uploadOutputs send ((name, content) # files) net =
     (case send_chunks (send name) 0 (chunks_of 1048576 content) net of
        ((n, False), net) \<Rightarrow> (False, [], net)
      | ((n, True), net) \<Rightarrow>
          (case uploadOutputs send files net of
             (ok, outputs, net) \<Rightarrow>
               (ok, \<lparr>output_Path = name, output_Size = int (length content), output_SHA256 = SHA256 content\<rparr> # outputs, net)))"

section \<open>Checkpoints\<close>

text \<open>At most five attempts at one chunk; an answer with a larger offset counts as progress, error or not.\<close>

fun try_upload :: "nat \<Rightarrow> int \<Rightarrow> ('s \<Rightarrow> reply \<times> 's) \<Rightarrow> 's net \<Rightarrow> int option \<times> 's net" where
  "try_upload 0 offset request net = (None, net)"
| "try_upload (Suc k) offset request net =
     (case uploadBinary request net of
        ((n, ok), net) \<Rightarrow> if ok \<or> n > offset then (Some n, net) else try_upload k offset request net)"

text \<open>
  A file as the loop finds it: its size at the first look, what its reads return, and whether size and
  modification time are the same at the end.
\<close>

record local_file =
  lf_name :: string
  lf_size :: int
  lf_data :: string
  lf_unchanged :: bool

function upload_file ::
  "(int \<Rightarrow> string \<Rightarrow> 's \<Rightarrow> reply \<times> 's) \<Rightarrow> int \<Rightarrow> string \<Rightarrow> int \<Rightarrow> 's net \<Rightarrow> bool \<times> 's net" where
  "upload_file send sz data offset net =
     (if \<not> offset < sz then (True, net)
      else let want = min 1048576 (sz - offset);
               chunk = take (nat want) (drop (nat offset) data)
        in if int (length chunk) < want then (False, net)
           else (case try_upload 5 offset (send offset chunk) net of
              (None, net) \<Rightarrow> (False, net)
            | (Some n, net) \<Rightarrow>
                if n \<le> offset \<or> n > sz then (False, net)
                else upload_file send sz data n net))"
  by pat_completeness auto
termination
  by (relation "measure (\<lambda>(send, sz, data, offset, net). nat (sz - offset))") auto

declare upload_file.simps [simp del]

fun uploadCheckpoint ::
  "(string \<Rightarrow> int \<Rightarrow> string \<Rightarrow> 's \<Rightarrow> reply \<times> 's) \<Rightarrow> local_file list \<Rightarrow> CheckpointFile list \<Rightarrow> 's net \<Rightarrow>
   CheckpointFile list option \<times> 's net" where
  "uploadCheckpoint send [] manifest net = (Some manifest, net)"
| "uploadCheckpoint send (f # fs) manifest net =
     (case upload_file (send (lf_name f)) (lf_size f) (lf_data f) 0 net of
        (False, net) \<Rightarrow> (None, net)
      | (True, net) \<Rightarrow>
          if \<not> lf_unchanged f then (None, net)
          else uploadCheckpoint send fs
                 (manifest @ [\<lparr>ckfile_Path = lf_name f, ckfile_Size = lf_size f\<rparr>]) net)"

text \<open>\<^verbatim>\<open>startCheckpointSync\<close> from the upload on: four attempts to have the checkpoint confirmed.\<close>

fun try_complete :: "nat \<Rightarrow> ('s \<Rightarrow> reply \<times> 's) \<Rightarrow> 's net \<Rightarrow> bool \<times> 's net" where
  "try_complete 0 request net = (False, net)"
| "try_complete (Suc k) request net =
     (case http_do request net of
        (None, net) \<Rightarrow> try_complete k request net
      | (Some r, net) \<Rightarrow> if succeeded r then (True, net) else try_complete k request net)"

definition checkpoint_sync ::
  "(string \<Rightarrow> int \<Rightarrow> string \<Rightarrow> 's \<Rightarrow> reply \<times> 's) \<Rightarrow> (CheckpointFile list \<Rightarrow> 's \<Rightarrow> reply \<times> 's) \<Rightarrow>
   local_file list \<Rightarrow> 's net \<Rightarrow> bool \<times> 's net" where
  "checkpoint_sync send complete files net =
     (case uploadCheckpoint send files [] net of
        (None, net) \<Rightarrow> (False, net)
      | (Some manifest, net) \<Rightarrow> try_complete 4 (complete manifest) net)"

end
