(* ===== verification/AgentInputs.thy ===== *)
theory AgentInputs
  imports AgentUpload
begin

text \<open>
  What an agent fetches before it starts a container: the inputs of the job
  (\<^verbatim>\<open>internal/agent/inputs.go\<close>) and a managed image (\<^verbatim>\<open>internal/agent/managed_artifact.go\<close>), and the handler that
  serves the inputs (\<^verbatim>\<open>getInput\<close> of \<^verbatim>\<open>internal/httpapi/job_inputs.go\<close>). The host's file system is a tree as that of the
  file store; a temporary file that is renamed appears at once under its name.
\<close>

section \<open>Downloads\<close>

text \<open>
  An answer to a \<^verbatim>\<open>GET\<close>: status, the two headers of the content, \<^verbatim>\<open>ContentLength\<close> (-1 when it is not given)
  and the body. A request changes nothing on the server.
\<close>

record download =
  dl_status :: nat
  dl_sha256 :: string
  dl_oci_digest :: string
  dl_length :: int
  dl_body :: reader

definition http_get :: "('s \<Rightarrow> 'r) \<Rightarrow> 's net \<Rightarrow> 'r option \<times> 's net" where
  "http_get request net =
     (let (other, delivery) = next_call net; w = other (net_world net);
          net = net\<lparr>net_plan := tl (net_plan net), net_sent := Suc (net_sent net), net_world := w\<rparr>
      in (if delivery = Delivered then Some (request w) else None, net))"

section \<open>The handler\<close>

text \<open>
  A body with a declared length: \<^verbatim>\<open>net/http\<close> sends no more than that, and a client that gets less reads
  \<^verbatim>\<open>io.ErrUnexpectedEOF\<close> behind it.
\<close>

definition declared_body :: "int \<Rightarrow> string \<Rightarrow> reader" where
  "declared_body n data =
     \<lparr>rd_data = take (nat n) data, rd_fails = (int (length data) < n)\<rparr>"

definition problem_download :: "reply \<Rightarrow> download" where
  "problem_download r = \<lparr>dl_status = rep_status r, dl_sha256 = '''', dl_oci_digest = '''', dl_length = -1,
     dl_body = \<lparr>rd_data = '''', rd_fails = False\<rparr>\<rparr>"

definition getInput :: "string \<Rightarrow> string \<Rightarrow> string \<Rightarrow> server \<Rightarrow> download" where
  "getInput nodeID jobID path s =
     (case Job jobID (srv_db s) of
        Inl e \<Rightarrow> problem_download (writeStoreError e)
      | Inr job \<Rightarrow>
          if job_AssignedNodeID job \<noteq> nodeID then problem_download (writeProblem 403 ''forbidden'')
          else let path = slashed path in
            (case find (\<lambda>f. input_Path f = path) (spec_Inputs (job_Spec job)) of
               None \<Rightarrow> problem_download (writeProblem 404 ''input_not_found'')
             | Some expected \<Rightarrow>
                 (case OpenInput (srv_files s) (job_ID job) path of
                    Inl e \<Rightarrow> problem_download (if e = NotExist then writeProblem 404 ''input_not_found''
                       else writeProblem 422 ''invalid_job_input'')
                  | Inr data \<Rightarrow> \<lparr>dl_status = 200, dl_sha256 = input_SHA256 expected, dl_oci_digest = '''',
                      dl_length = input_Size expected, dl_body = declared_body (input_Size expected) data\<rparr>)))"

section \<open>Inputs\<close>

text \<open>\<^verbatim>\<open>workspaceChild\<close> on absolute clean paths.\<close>

definition workspaceChild :: "fpath \<Rightarrow> fpath \<Rightarrow> bool" where
  "workspaceChild workspace candidate =
     (case Rel workspace candidate of [] \<Rightarrow> False | x # xs \<Rightarrow> x \<noteq> ''..'')"

text \<open>A path that is missing below a regular file is not \<^verbatim>\<open>os.ErrNotExist\<close>; the walk then fails.\<close>

definition removeMaterializedInputs :: "fpath \<Rightarrow> fs \<Rightarrow> file_error + fs" where
  "removeMaterializedInputs root fs =
     (case Lstat fs root of
        Inl e \<Rightarrow> if e = NotExist then Inr fs else Inl e
      | Inr n \<Rightarrow> Inr (RemoveAll root fs))"

definition materializedPath :: "fpath \<Rightarrow> string \<Rightarrow> file_error + fpath" where
  "materializedPath root relative =
     (let normalized = slashed relative; clean = path_clean normalized
      in if normalized = '''' \<or> path_is_abs clean \<or> clean = ''.'' \<or> HasPrefix clean ''../''
         then Inl (ErrText ''invalid input path'')
         else let destination = Join root clean
           in if (case Rel root destination of [] \<Rightarrow> False | x # xs \<Rightarrow> x = ''..'')
              then Inl (ErrText ''input path escapes the input directory'') else Inr destination)"

definition downloadInput :: "download option \<Rightarrow> fpath \<Rightarrow> InputFile \<Rightarrow> fs \<Rightarrow> file_error option \<times> fs" where
  "downloadInput answer destination expected fs =
     (case answer of
        None \<Rightarrow> (Some (ErrText ''no answer''), fs)
      | Some r \<Rightarrow>
          if dl_status r \<noteq> 200 then (Some (ErrText ''API error''), fs)
          else if dl_sha256 r = '''' \<or> dl_sha256 r \<noteq> input_SHA256 expected
            then (Some (ErrText ''server digest does not match the assignment manifest''), fs)
          else if dl_length r \<noteq> input_Size expected
            then (Some (ErrText ''server size does not match the assignment manifest''), fs)
          else if node fs (butlast destination) \<noteq> Some Dir
            then (Some (missing_error fs destination), fs)
          else let body = LimitReader (dl_body r) (input_Size expected + 1) in
            if rd_fails body then (Some ReadFailed, fs)
            else if int (length (rd_data body)) \<noteq> input_Size expected
              then (Some (ErrText ''size mismatch''), fs)
            else if SHA256 (rd_data body) \<noteq> input_SHA256 expected
              then (Some (ErrText ''SHA-256 mismatch''), fs)
            else if node fs destination = Some Dir then (Some Exist, fs)
            else (None, put destination (Reg 292 (rd_data body)) fs))"

fun materialize_files ::
  "(string \<Rightarrow> 's \<Rightarrow> download) \<Rightarrow> fpath \<Rightarrow> InputFile list \<Rightarrow> fs \<Rightarrow> 's net \<Rightarrow> file_error option \<times> fs \<times> 's net" where
  "materialize_files fetch root [] fs net = (None, fs, net)"
| "materialize_files fetch root (item # items) fs net =
     (case materializedPath root (input_Path item) of
        Inl e \<Rightarrow> (Some e, fs, net)
      | Inr destination \<Rightarrow>
          (case MkdirAll (butlast destination) fs of
             Inl e \<Rightarrow> (Some e, fs, net)
           | Inr fs \<Rightarrow>
               (case http_get (fetch (input_Path item)) net of
                  (answer, net) \<Rightarrow>
                    (case downloadInput answer destination item fs of
                       (Some e, fs) \<Rightarrow> (Some e, fs, net)
                     | (None, fs) \<Rightarrow> materialize_files fetch root items fs net))))"

text \<open>The deferred clean-up; its own error is ignored.\<close>

definition clean_up_inputs :: "fpath \<Rightarrow> fs \<Rightarrow> fs" where
  "clean_up_inputs root fs = (case removeMaterializedInputs root fs of Inl e \<Rightarrow> fs | Inr fs' \<Rightarrow> fs')"

definition materializeInputs ::
  "fpath \<Rightarrow> (string \<Rightarrow> 's \<Rightarrow> download) \<Rightarrow> InputFile list \<Rightarrow> fpath \<Rightarrow> fs \<Rightarrow> 's net \<Rightarrow>
   file_error option \<times> fs \<times> 's net" where
  "materializeInputs workspace fetch manifest root fs net =
     (if \<not> workspaceChild workspace root
      then (Some (ErrText ''input directory escapes the configured workspace''), fs, net)
      else (case removeMaterializedInputs root fs of
        Inl e \<Rightarrow> (Some e, fs, net)
      | Inr fs \<Rightarrow>
          (case MkdirAll root fs of
             Inl e \<Rightarrow> (Some e, fs, net)
           | Inr fs \<Rightarrow>
               (case materialize_files fetch root manifest fs net of
                  (Some e, fs, net) \<Rightarrow> (Some e, clean_up_inputs root fs, net)
                | (None, fs, net) \<Rightarrow> (None, fs, net)))))"

section \<open>Managed images\<close>

text \<open>
  The archive that goes to Docker, and Docker's answers: whether the archive was loaded, and the digest of
  an image (empty when it is missing).
\<close>

definition verified_archive :: "ManagedArtifact \<Rightarrow> download option \<Rightarrow> string option" where
  "verified_archive artifact answer =
     (case answer of
        None \<Rightarrow> None
      | Some r \<Rightarrow>
          if dl_status r \<noteq> 200 then None
          else if dl_sha256 r \<noteq> art_SHA256 artifact \<or> dl_oci_digest r \<noteq> art_Digest artifact then None
          else let body = LimitReader (dl_body r) (art_Size artifact + 1) in
            if rd_fails body then None
            else if int (length (rd_data body)) \<noteq> art_Size artifact then None
            else if SHA256 (rd_data body) \<noteq> art_SHA256 artifact then None
            else Some (rd_data body))"

definition loadManagedArtifact ::
  "ManagedArtifact option \<Rightarrow> ('s \<Rightarrow> download) \<Rightarrow> (string \<Rightarrow> bool) \<Rightarrow> (string \<Rightarrow> string) \<Rightarrow> 's net \<Rightarrow>
   (string \<times> string) option \<times> string option \<times> 's net" where
  "loadManagedArtifact managed fetch load imageDigest net =
     (case managed of
        None \<Rightarrow> (None, None, net)
      | Some artifact \<Rightarrow>
          (case http_get fetch net of
             (answer, net) \<Rightarrow>
               (case verified_archive artifact answer of
                  None \<Rightarrow> (None, None, net)
                | Some archive \<Rightarrow>
                    (if load archive \<and> imageDigest (art_RuntimeImage artifact) \<noteq> ''''
                     then Some (art_RuntimeImage artifact, art_Digest artifact) else None,
                     Some archive, net))))"

end
