(* ===== verification/AgentRun.thy ===== *)
theory AgentRun
  imports AgentInputs
begin

text \<open>
  The execution of one assignment on a node: \<^verbatim>\<open>startAssignment\<close>, \<^verbatim>\<open>execute\<close>, \<^verbatim>\<open>stop\<close>, \<^verbatim>\<open>reconcile\<close> and what they
  call in \<^verbatim>\<open>internal/agent/agent.go\<close>, with the request of \<^verbatim>\<open>internal/dockerengine/client.go\<close> that creates the
  container. The state is the part of the agent that concerns the job.

  \<^verbatim>\<open>execute\<close> runs in its own goroutine. The one thing another goroutine does to its record is
  \<^verbatim>\<open>stop\<close>; \<open>h_stops\<close> says before which looks at the record a stop arrives. Docker, the container and the
  texts of errors are given by \<open>container_host\<close>; the server by \<open>agent_api\<close>. Telemetry is left out: it touches
  neither the record nor the outcome.
\<close>

section \<open>Docker\<close>

record CreateOptions =
  co_Name :: string
  co_JobID :: string
  co_AttemptID :: string
  co_Image :: string
  co_Command :: "string list"
  co_WorkingDirectory :: string
  co_Environment :: "string list"
  co_Binds :: "string list"
  co_CPUMillis :: int
  co_CPUSet :: string
  co_MemoryBytes :: int
  co_GPUUUIDs :: "string list"

record deviceRequest =
  dr_Driver :: string
  dr_DeviceIDs :: "string list"
  dr_Capabilities :: "string list list"

record hostConfig =
  hc_Binds :: "string list"
  hc_Memory :: int
  hc_NanoCPUs :: int
  hc_CpusetCpus :: string
  hc_PidsLimit :: int
  hc_CapDrop :: "string list"
  hc_SecurityOpt :: "string list"
  hc_DeviceRequests :: "deviceRequest list"

record createContainerRequest =
  cc_Image :: string
  cc_Cmd :: "string list"
  cc_Env :: "string list"
  cc_WorkingDir :: string
  cc_Labels :: "string gomap"
  cc_HostConfig :: hostConfig

definition createRequest :: "CreateOptions \<Rightarrow> createContainerRequest" where
  "createRequest o' = \<lparr>cc_Image = co_Image o', cc_Cmd = co_Command o', cc_Env = co_Environment o',
     cc_WorkingDir = co_WorkingDirectory o',
     cc_Labels = [(''jobdock.managed'', ''true''), (''jobdock.job_id'', co_JobID o'),
       (''jobdock.attempt_id'', co_AttemptID o')],
     cc_HostConfig = \<lparr>hc_Binds = co_Binds o', hc_Memory = co_MemoryBytes o',
       hc_NanoCPUs = i64 (co_CPUMillis o' * 1000000), hc_CpusetCpus = co_CPUSet o', hc_PidsLimit = 1024,
       hc_CapDrop = [''ALL''], hc_SecurityOpt = [''no-new-privileges''],
       hc_DeviceRequests = (if co_GPUUUIDs o' = [] then []
         else [\<lparr>dr_Driver = ''nvidia'', dr_DeviceIDs = co_GPUUUIDs o', dr_Capabilities = [[''gpu'']]\<rparr>])\<rparr>\<rparr>"

text \<open>What the agent asks Docker to do, in order.\<close>

datatype docker_call =
    PullImage string | LoadImage string | CreateContainer createContainerRequest
  | StartContainer string | StopContainer string | RemoveContainer string

text \<open>
  How Docker and the container behave in one execution: the pull, the digest of an image, the load of an
  archive, the container's ID when it is created, its start, its log stream and whether reading it ends
  with an error, its exit code when the wait succeeds, the files it leaves in its output directory, and the
  text of any error.
\<close>

record container_host =
  dk_pull :: bool
  dk_digest :: "string \<Rightarrow> string"
  dk_load :: "string \<Rightarrow> bool"
  dk_create :: "string option"
  dk_start :: bool
  dk_logs :: "string \<times> bool"
  dk_wait :: "int option"
  dk_outputs :: "(string \<times> string) list"
  dk_error :: string

section \<open>The record of an assignment\<close>

record runtimeAssignment =
  rt_Assignment :: Assignment
  rt_ContainerID :: string
  rt_Sequence :: int
  rt_Completed :: bool
  rt_StopRequested :: bool
  rt_Logs :: log_agent

text \<open>
  The record, whether \<^verbatim>\<open>a.running\<close> has it, the state file, the file system of the host, the calls to Docker,
  the network, the stops to come, and which writes of the state file succeed (all that are not listed do).
\<close>

record 's host =
  h_record :: runtimeAssignment
  h_running :: bool
  h_saved :: "runtimeAssignment option"
  h_disk :: fs
  h_docker :: "docker_call list"
  h_net :: "'s net"
  h_stops :: "bool list"
  h_saves :: "bool list"

text \<open>The server's handlers for the events, the acceptance, logs, outputs, inputs and the image of the job.\<close>

record 's agent_api =
  api_event :: "agent_report \<Rightarrow> 's \<Rightarrow> reply \<times> 's"
  api_accept :: "string \<Rightarrow> 's \<Rightarrow> reply \<times> 's"
  api_log :: "string \<Rightarrow> int \<Rightarrow> string \<Rightarrow> 's \<Rightarrow> reply \<times> 's"
  api_output :: "string \<Rightarrow> int \<Rightarrow> string \<Rightarrow> 's \<Rightarrow> reply \<times> 's"
  api_input :: "string \<Rightarrow> 's \<Rightarrow> download"
  api_artifact :: "'s \<Rightarrow> download"

definition docker :: "docker_call \<Rightarrow> 's host \<Rightarrow> 's host" where
  "docker call h = h\<lparr>h_docker := h_docker h @ [call]\<rparr>"

definition save :: "'s host \<Rightarrow> bool \<times> 's host" where
  "save h =
     (let ok = (case h_saves h of [] \<Rightarrow> True | b # bs \<Rightarrow> b); h = h\<lparr>h_saves := tl (h_saves h)\<rparr>
      in (ok, if ok then h\<lparr>h_saved := Some (h_record h)\<rparr> else h))"

definition set_completed :: "'s host \<Rightarrow> 's host" where
  "set_completed h = h\<lparr>h_record := (h_record h)\<lparr>rt_Completed := True\<rparr>\<rparr>"

definition set_stop_requested :: "'s host \<Rightarrow> 's host" where
  "set_stop_requested h = h\<lparr>h_record := (h_record h)\<lparr>rt_StopRequested := True\<rparr>\<rparr>"

definition removeRunning :: "'s host \<Rightarrow> 's host" where
  "removeRunning h = h\<lparr>h_running := False\<rparr>"

section \<open>Events\<close>

text \<open>Five attempts with one sequence number, which is used up when one of them is answered with success.\<close>

definition sendEvent ::
  "'s agent_api \<Rightarrow> string \<Rightarrow> JobStatus \<Rightarrow> int option \<Rightarrow> string \<Rightarrow> string \<Rightarrow> json gomap \<Rightarrow> OutputFile list \<Rightarrow>
   's host \<Rightarrow> bool \<times> 's host" where
  "sendEvent api eventType status exitCode reason imageDigest payload outputs h =
     (let sequence = i64 (rt_Sequence (h_record h) + 1);
          body = \<lparr>ag_attemptID = asg_AttemptID (rt_Assignment (h_record h)), ag_sequence = sequence,
            ag_type = eventType, ag_report = \<lparr>rp_status = status, rp_exitCode = exitCode,
              rp_imageDigest = imageDigest, rp_reason = reason\<rparr>,
            ag_payload = payload, ag_outputs = outputs\<rparr>
      in case try_complete 5 (api_event api body) (h_net h) of
           (False, net) \<Rightarrow> (False, h\<lparr>h_net := net\<rparr>)
         | (True, net) \<Rightarrow>
             (True, snd (save (h\<lparr>h_net := net, h_record := (h_record h)\<lparr>rt_Sequence := sequence\<rparr>\<rparr>))))"

definition outputs_payload :: "OutputFile list \<Rightarrow> json gomap" where
  "outputs_payload outputs = [(''outputs'', JArr (map (\<lambda>o'. JObj [(''path'', JStr (output_Path o')),
     (''size'', JNum (FormatInt (output_Size o'))), (''sha256'', JStr (output_SHA256 o'))]) outputs))]"

definition fail :: "'s agent_api \<Rightarrow> string \<Rightarrow> string \<Rightarrow> 's host \<Rightarrow> 's host" where
  "fail api eventType err h =
     (case sendEvent api eventType JobFailed None err '''' [] [] h of
        (ok, h) \<Rightarrow>
          let h = (if ok then snd (save (set_completed h)) else h);
              h = (if rt_ContainerID (h_record h) \<noteq> '''' then docker (RemoveContainer (rt_ContainerID (h_record h))) h
                   else h)
          in removeRunning h)"

definition completePreStartCancellation :: "'s agent_api \<Rightarrow> 's host \<Rightarrow> 's host" where
  "completePreStartCancellation api h =
     (if rt_Completed (h_record h) then h
      else case sendEvent api ''cancelled'' JobCancelled None ''job was stopped before the container started''
             '''' (outputs_payload []) [] (set_stop_requested h) of
             (False, h) \<Rightarrow> h
           | (True, h) \<Rightarrow> removeRunning (snd (save (set_completed h))))"

section \<open>Stopping\<close>

text \<open>
  \<^verbatim>\<open>stop\<close> finds the record among the running ones or in its state file. The cancellation of the context of a
  running execution makes Docker's calls and the downloads fail, which \<open>container_host\<close> and the network cover.
\<close>

definition stop :: "'s agent_api \<Rightarrow> 's host \<Rightarrow> 's host" where
  "stop api h =
     (case (if h_running h then Some (h_record h) else h_saved h) of
        None \<Rightarrow> h
      | Some record \<Rightarrow>
          if rt_Completed record then h
          else let h = snd (save (set_stop_requested (h\<lparr>h_record := record\<rparr>))) in
            if rt_ContainerID record = '''' then
              (if h_running h then h else completePreStartCancellation api h)
            else docker (StopContainer (rt_ContainerID record)) h)"

text \<open>A look of \<^verbatim>\<open>execute\<close> at \<^verbatim>\<open>StopRequested\<close>.\<close>

definition stopRequested :: "'s agent_api \<Rightarrow> 's host \<Rightarrow> bool \<times> 's host" where
  "stopRequested api h =
     (let arrives = (case h_stops h of [] \<Rightarrow> False | s # ss \<Rightarrow> s);
          h = h\<lparr>h_stops := tl (h_stops h)\<rparr>;
          h = (if arrives then stop api h else h)
      in (rt_StopRequested (h_record h), h))"

definition cancel_or_fail :: "'s agent_api \<Rightarrow> string \<Rightarrow> string \<Rightarrow> 's host \<Rightarrow> 's host" where
  "cancel_or_fail api eventType err h =
     (case stopRequested api h of
        (True, h) \<Rightarrow> completePreStartCancellation api h
      | (False, h) \<Rightarrow> fail api eventType err h)"

definition cancel_or_return :: "'s agent_api \<Rightarrow> 's host \<Rightarrow> 's host" where
  "cancel_or_return api h =
     (case stopRequested api h of
        (True, h) \<Rightarrow> completePreStartCancellation api h
      | (False, h) \<Rightarrow> h)"

section \<open>The workspace\<close>

record agent_config =
  cfg_WorkspaceDir :: fpath
  cfg_ServerURL :: string

definition path_text :: "fpath \<Rightarrow> string" where
  "path_text p = CHR ''/'' # join_with (CHR ''/'') p"

definition job_dir :: "agent_config \<Rightarrow> Assignment \<Rightarrow> fpath" where
  "job_dir cfg a = Join (Join (cfg_WorkspaceDir cfg) (asg_JobID a)) (asg_AttemptID a)"

fun make_dirs :: "fpath list \<Rightarrow> fs \<Rightarrow> bool \<times> fs" where
  "make_dirs [] fs = (True, fs)"
| "make_dirs (d # ds) fs = (case MkdirAll d fs of Inl e \<Rightarrow> (False, fs) | Inr fs \<Rightarrow> make_dirs ds fs)"

text \<open>The rename of a file replaces a file, and with the fallback of \<^verbatim>\<open>os.Remove\<close> an empty directory.\<close>

definition writeReadOnlyFile :: "fpath \<Rightarrow> string \<Rightarrow> fs \<Rightarrow> file_error + fs" where
  "writeReadOnlyFile p data fs =
     (if node fs (butlast p) \<noteq> Some Dir then Inl (missing_error fs p)
      else if node fs p = Some Dir \<and> list_ex (\<lambda>(q, n). strict_prefix p q) fs then Inl Exist
      else Inr (put p (Reg 292 data) fs))"

fun remove_dotdot :: "string \<Rightarrow> string" where
  "remove_dotdot (a # b # cs) =
     (if a = CHR ''.'' \<and> b = CHR ''.'' then remove_dotdot cs else a # remove_dotdot (b # cs))"
| "remove_dotdot cs = cs"

definition safeFilename :: "string \<Rightarrow> string" where
  "safeFilename value =
     (let value = remove_dotdot (path_base value)
      in if value = '''' \<or> value = ''.'' then ''secret'' else value)"

text \<open>The loop over the secrets: environment, binds and files, or the event of the failure.\<close>

fun place_secrets ::
  "string \<Rightarrow> string gomap \<Rightarrow> fpath \<Rightarrow> SecretRef list \<Rightarrow> string list \<Rightarrow> string list \<Rightarrow> fs \<Rightarrow>
   ((string \<times> string) + (string list \<times> string list)) \<times> fs" where
  "place_secrets err secrets dir [] environment binds fs = (Inr (environment, binds), fs)"
| "place_secrets err secrets dir (ref # refs) environment binds fs =
     (case map_of secrets (ref_Name ref) of
        None \<Rightarrow> (Inl (''secret_missing'', ''secret '' @ ref_Name ref @ '' is absent''), fs)
      | Some value \<Rightarrow>
          if ref_Mode ref = ''env'' then
            place_secrets err secrets dir refs (environment @ [ref_Target ref @ ''='' @ value]) binds fs
          else let target = safeFilename (ref_Target ref); path = Join dir target in
            (case writeReadOnlyFile path value fs of
               Inl e \<Rightarrow> (Inl (''secret_write_failed'', err), fs)
             | Inr fs \<Rightarrow> place_secrets err secrets dir refs environment
                 (binds @ [path_text path @ '':/run/secrets/jobdock/'' @ target @ '':ro'']) fs))"

definition job_environment :: "agent_config \<Rightarrow> Assignment \<Rightarrow> string list" where
  "job_environment cfg a = map (\<lambda>(k, v). k @ ''='' @ v) (spec_Environment (asg_Spec a)) @
     [''JOBDOCK_JOB_ID='' @ asg_JobID a, ''JOBDOCK_ATTEMPT_ID='' @ asg_AttemptID a,
      ''JOBDOCK_API_URL='' @ cfg_ServerURL cfg, ''JOBDOCK_INPUT_DIR=/jobdock/input'',
      ''JOBDOCK_OUTPUT_DIR=/jobdock/output'', ''JOBDOCK_JOB_TOKEN_FILE=/run/secrets/jobdock/token'']"

definition prepare_workspace ::
  "agent_config \<Rightarrow> string \<Rightarrow> Assignment \<Rightarrow> fs \<Rightarrow> ((string \<times> string) + (string list \<times> string list)) \<times> fs" where
  "prepare_workspace cfg err a fs =
     (let jobDir = job_dir cfg a; outputDir = jobDir @ [''output'']; inputDir = jobDir @ [''input''];
          secretsDir = jobDir @ [''secrets'']; tokenFile = secretsDir @ [''job-token''] in
      case make_dirs [jobDir, jobDir @ [''logs''], secretsDir, outputDir] fs of
        (False, fs) \<Rightarrow> (Inl (''workspace_create_failed'', err), fs)
      | (True, fs) \<Rightarrow>
          (case writeReadOnlyFile tokenFile (asg_JobToken a) fs of
             Inl e \<Rightarrow> (Inl (''token_write_failed'', err), fs)
           | Inr fs \<Rightarrow>
               place_secrets err (asg_Secrets a) secretsDir (spec_SecretRefs (asg_Spec a))
                 (job_environment cfg a)
                 [path_text outputDir @ '':/jobdock/output'', path_text inputDir @ '':/jobdock/input:ro'',
                  path_text tokenFile @ '':/run/secrets/jobdock/token:ro''] fs))"

section \<open>Execution\<close>

text \<open>The image of the job: its name and digest when it is there.\<close>

definition fetch_image :: "'s agent_api \<Rightarrow> container_host \<Rightarrow> 's host \<Rightarrow> (string \<times> string) option \<times> 's host" where
  "fetch_image api dk h =
     (let a = rt_Assignment (h_record h); image = spec_Image (asg_Spec a) in
      if ParseManagedArtifactReference image = NotManaged then
        (if dk_pull dk then Some (image, dk_digest dk image) else None, docker (PullImage image) h)
      else case loadManagedArtifact (asg_ManagedArtifact a) (api_artifact api) (dk_load dk) (dk_digest dk) (h_net h) of
        (loaded, archive, net) \<Rightarrow>
          let h = h\<lparr>h_net := net\<rparr>
          in (loaded, case archive of None \<Rightarrow> h | Some data \<Rightarrow> docker (LoadImage data) h))"

definition create_options :: "Assignment \<Rightarrow> string \<Rightarrow> string list \<Rightarrow> string list \<Rightarrow> CreateOptions" where
  "create_options a runtimeImage environment binds =
     \<lparr>co_Name = ''jobdock-'' @ take 12 (filter (\<lambda>c. c \<noteq> CHR ''-'') (asg_JobID a)), co_JobID = asg_JobID a,
      co_AttemptID = asg_AttemptID a, co_Image = runtimeImage, co_Command = spec_Command (asg_Spec a),
      co_WorkingDirectory = spec_WorkingDirectory (asg_Spec a), co_Environment = environment, co_Binds = binds,
      co_CPUMillis = res_CPUMillis (spec_Resources (asg_Spec a)), co_CPUSet = asg_CPUSet a,
      co_MemoryBytes = res_MemoryBytes (spec_Resources (asg_Spec a)), co_GPUUUIDs = asg_GPUUUIDs a\<rparr>"

text \<open>From the created container to its start.\<close>

definition accept_and_start ::
  "'s agent_api \<Rightarrow> container_host \<Rightarrow> string \<Rightarrow> 's host \<Rightarrow> bool \<times> 's host" where
  "accept_and_start api dk containerID h =
     (let h = h\<lparr>h_record := (h_record h)\<lparr>rt_ContainerID := containerID\<rparr>\<rparr>;
          stopped = rt_StopRequested (h_record h) in
      case save h of
        (False, h) \<Rightarrow> (False, fail api ''assignment_persist_failed'' (dk_error dk) h)
      | (True, h) \<Rightarrow>
          if stopped then (False, completePreStartCancellation api (docker (RemoveContainer containerID) h))
          else (case http_do (api_accept api containerID) (h_net h) of
            (answer, net) \<Rightarrow>
              let h = h\<lparr>h_net := net\<rparr> in
              if answer = None \<or> \<not> succeeded (the answer)
              then (False, fail api ''assignment_accept_failed'' (dk_error dk) h)
              else let h = docker (StartContainer containerID) h in
                if dk_start dk then (True, h)
                else (False, fail api ''container_start_failed'' (dk_error dk) h)))"

definition create_container ::
  "'s agent_api \<Rightarrow> container_host \<Rightarrow> string \<Rightarrow> string list \<Rightarrow> string list \<Rightarrow> 's host \<Rightarrow> bool \<times> 's host" where
  "create_container api dk runtimeImage environment binds h =
     (let options = create_options (rt_Assignment (h_record h)) runtimeImage environment binds;
          h = docker (CreateContainer (createRequest options)) h in
      case dk_create dk of
        None \<Rightarrow> (False, cancel_or_fail api ''container_create_failed'' (dk_error dk) h)
      | Some containerID \<Rightarrow>
          accept_and_start api dk containerID (snd (stopRequested api h)))"

text \<open>The part of \<^verbatim>\<open>execute\<close> for a record without a container; whether it goes on.\<close>

definition start_container ::
  "agent_config \<Rightarrow> 's agent_api \<Rightarrow> container_host \<Rightarrow> string list \<Rightarrow> string list \<Rightarrow> 's host \<Rightarrow> bool \<times> 's host" where
  "start_container cfg api dk environment binds h =
     (let a = rt_Assignment (h_record h) in
      case materializeInputs (cfg_WorkspaceDir cfg) (api_input api) (spec_Inputs (asg_Spec a))
             (job_dir cfg a @ [''input'']) (h_disk h) (h_net h) of
        (failed, disk, net) \<Rightarrow>
          let h = h\<lparr>h_disk := disk, h_net := net\<rparr> in
          if failed \<noteq> None then (False, cancel_or_fail api ''input_materialization_failed'' (dk_error dk) h)
          else case sendEvent api ''image_pull_started'' JobPullingImage None '''' '''' [] [] h of
            (False, h) \<Rightarrow> (False, cancel_or_return api h)
          | (True, h) \<Rightarrow>
              (case fetch_image api dk h of
                 (None, h) \<Rightarrow> (False, cancel_or_fail api ''image_pull_failed'' (dk_error dk) h)
               | (Some (runtimeImage, digest), h) \<Rightarrow>
                   (case stopRequested api h of
                      (True, h) \<Rightarrow> (False, completePreStartCancellation api h)
                    | (False, h) \<Rightarrow>
                        (case sendEvent api ''image_pull_finished'' JobStarting None '''' digest [] [] h of
                           (False, h) \<Rightarrow> (False, cancel_or_return api h)
                         | (True, h) \<Rightarrow>
                             (case stopRequested api h of
                                (True, h) \<Rightarrow> (False, completePreStartCancellation api h)
                              | (False, h) \<Rightarrow> create_container api dk runtimeImage environment binds h)))))"

text \<open>The status, event and reason of the end.\<close>

definition outcome :: "bool \<Rightarrow> int \<Rightarrow> JobStatus \<times> string \<times> string" where
  "outcome stopped exitCode =
     (if stopped then (JobCancelled, ''cancelled'', ''job was stopped by request'')
      else if exitCode \<noteq> 0 then (JobFailed, ''failed'', ''container exited with code '' @ FormatInt exitCode)
      else (JobSucceeded, ''completed'', ''''))"

text \<open>The end of \<^verbatim>\<open>execute\<close>: the result of the last event is not looked at.\<close>

definition publish_outcome :: "'s agent_api \<Rightarrow> int \<Rightarrow> OutputFile list \<Rightarrow> 's host \<Rightarrow> 's host" where
  "publish_outcome api exitCode outputs h =
     (case stopRequested api h of
        (stopped, h) \<Rightarrow>
          (case outcome stopped exitCode of
             (status, eventType, reason) \<Rightarrow>
               let h = snd (sendEvent api eventType status (Some exitCode) reason '''' (outputs_payload outputs) outputs h);
                   h = snd (save (set_completed h))
               in removeRunning (docker (RemoveContainer (rt_ContainerID (h_record h))) h)))"

text \<open>The part with the container; whether the inputs were removed.\<close>

definition run_container ::
  "agent_config \<Rightarrow> 's agent_api \<Rightarrow> container_host \<Rightarrow> 's host \<Rightarrow> bool \<times> 's host" where
  "run_container cfg api dk h =
     (case sendEvent api ''container_started'' JobRunning None '''' '''' [] [] h of
        (False, h) \<Rightarrow> (False, h)
      | (True, h) \<Rightarrow>
          (case streamLogs (api_log api) (map snd (asg_Secrets (rt_Assignment (h_record h)))) (fst (dk_logs dk))
                  (snd (dk_logs dk)) (rt_Logs (h_record h)) (h_net h) of
             (ls, net) \<Rightarrow>
               let h = h\<lparr>h_net := net, h_record := (h_record h)\<lparr>rt_Logs := ls_agent ls\<rparr>\<rparr> in
               (case dk_wait dk of
                  None \<Rightarrow> (False, fail api ''container_wait_failed'' (dk_error dk) h)
                | Some exitCode \<Rightarrow>
                    (case uploadOutputs (api_output api) (dk_outputs dk) (h_net h) of
                       (ok, outputs, net) \<Rightarrow>
                         let h = h\<lparr>h_net := net\<rparr>;
                             h = (if ok then h else snd (sendEvent api ''output_upload_warning'' (JobStatusOther '''')
                               None (dk_error dk) '''' [] [] h)) in
                         (case removeMaterializedInputs
                                 (job_dir cfg (rt_Assignment (h_record h)) @ [''input'']) (h_disk h) of
                            Inl e \<Rightarrow> (False, fail api ''input_cleanup_failed'' (dk_error dk) h)
                          | Inr disk \<Rightarrow> (True, publish_outcome api exitCode outputs (h\<lparr>h_disk := disk\<rparr>)))))))"

definition execute_body ::
  "agent_config \<Rightarrow> 's agent_api \<Rightarrow> container_host \<Rightarrow> 's host \<Rightarrow> bool \<times> 's host" where
  "execute_body cfg api dk h =
     (case prepare_workspace cfg (dk_error dk) (rt_Assignment (h_record h)) (h_disk h) of
        (Inl (eventType, reason), disk) \<Rightarrow> (False, fail api eventType reason (h\<lparr>h_disk := disk\<rparr>))
      | (Inr (environment, binds), disk) \<Rightarrow>
          let h = h\<lparr>h_disk := disk\<rparr> in
          if rt_ContainerID (h_record h) \<noteq> '''' then run_container cfg api dk h
          else (case start_container cfg api dk environment binds h of
                  (False, h) \<Rightarrow> (False, h)
                | (True, h) \<Rightarrow> run_container cfg api dk h))"

definition execute :: "agent_config \<Rightarrow> 's agent_api \<Rightarrow> container_host \<Rightarrow> 's host \<Rightarrow> 's host" where
  "execute cfg api dk h =
     (let inputDir = job_dir cfg (rt_Assignment (h_record h)) @ [''input''] in
      if \<not> workspaceChild (cfg_WorkspaceDir cfg) inputDir
      then fail api ''input_workspace_invalid'' ''input workspace escapes the configured job workspace'' h
      else case execute_body cfg api dk h of
        (cleaned, h) \<Rightarrow> if cleaned then h else h\<lparr>h_disk := clean_up_inputs inputDir (h_disk h)\<rparr>)"

section \<open>Starting and resuming\<close>

definition startAssignment ::
  "agent_config \<Rightarrow> 's agent_api \<Rightarrow> container_host \<Rightarrow> Assignment \<Rightarrow> log_agent \<Rightarrow> 's host \<Rightarrow> 's host" where
  "startAssignment cfg api dk a logs h =
     (if h_running h then h
      else let record = \<lparr>rt_Assignment = a, rt_ContainerID = '''', rt_Sequence = asg_EventSequence a,
                 rt_Completed = False, rt_StopRequested = False, rt_Logs = logs\<rparr> in
        case save (h\<lparr>h_record := record, h_running := True\<rparr>) of
          (False, h) \<Rightarrow> removeRunning h
        | (True, h) \<Rightarrow> execute cfg api dk h)"

text \<open>
  \<^verbatim>\<open>reconcile\<close> for one state file; \<open>container\<close> is the ID of the container Docker reports for the job.
\<close>

definition reconcile ::
  "agent_config \<Rightarrow> 's agent_api \<Rightarrow> container_host \<Rightarrow> string option \<Rightarrow> 's host \<Rightarrow> 's host" where
  "reconcile cfg api dk container h =
     (case (h_saved h, container) of
        (Some record, Some containerID) \<Rightarrow>
          if rt_Completed record then h
          else execute cfg api dk
            (h\<lparr>h_record := record\<lparr>rt_ContainerID := containerID\<rparr>, h_running := True\<rparr>)
      | _ \<Rightarrow> h)"

end
