(* ===== verification/UploadService.thy ===== *)
theory UploadService
  imports AgentUpload
begin

text \<open>
  The contract between the uploads of the agent and the server that stores them, as a locale, and what
  the agent's loops achieve under it, whatever the network does.

  A store of named byte strings, extended by appends at an offset: a request at another offset changes
  nothing, a success means the whole chunk was appended at the offset, and any other answer may leave a
  part of it. \<open>room\<close> is what the store promises to take; a request at a wrong offset is answered with
  the right one.
\<close>

definition undisturbing :: "('s \<Rightarrow> bool) \<Rightarrow> ('s \<Rightarrow> string \<Rightarrow> string) \<Rightarrow> ('s \<Rightarrow> 's) \<Rightarrow> bool" where
  "undisturbing good stored other \<longleftrightarrow>
     (\<forall>w. good w \<longrightarrow> good (other w) \<and> stored (other w) = stored w)"

definition undisturbed :: "('s \<Rightarrow> bool) \<Rightarrow> ('s \<Rightarrow> string \<Rightarrow> string) \<Rightarrow> 's net \<Rightarrow> bool" where
  "undisturbed good stored net \<longleftrightarrow> (\<forall>c\<in>set (net_plan net). undisturbing good stored (fst c))"

lemma next_call_in: "c = next_call net \<Longrightarrow> c = (id, Delivered) \<or> c \<in> set (net_plan net)"
  by (auto simp: next_call_def split: list.splits)

lemma tl_in: "c \<in> set (tl xs) \<Longrightarrow> c \<in> set xs"
  by (cases xs) auto

lemma concat_chunks_of [simp]: "0 < n \<Longrightarrow> concat (chunks_of n xs) = xs"
  by (induction n xs rule: chunks_of.induct) (subst chunks_of.simps, auto)

lemma chunks_of_length: "c \<in> set (chunks_of n xs) \<Longrightarrow> length c \<le> n \<and> c \<noteq> []"
proof (induction n xs rule: chunks_of.induct)
  case (1 n xs)
  then show ?case by (subst (asm) (2) chunks_of.simps) (auto split: if_splits)
qed

lemma in_i64_length: "0 \<le> i \<Longrightarrow> i \<le> int n \<Longrightarrow> in_i64 (int n) \<Longrightarrow> in_i64 i"
  by (simp add: in_i64_def)

text \<open>
  Where the logs of an agent and those on the server stand: on every stream the server has a prefix of the
  local log, and the offset of the record is not beyond it.
\<close>

definition behind ::
  "('s \<Rightarrow> bool) \<Rightarrow> ('s \<Rightarrow> string \<Rightarrow> string) \<Rightarrow> log_agent \<Rightarrow> 's net \<Rightarrow> bool" where
  "behind good stored ag net \<longleftrightarrow> good (net_world net) \<and> undisturbed good stored net \<and>
     (\<forall>t\<in>{''stdout'', ''stderr'', ''.order''}. prefix (stored (net_world net) t) (la_local ag t) \<and>
        0 \<le> log_offset ag t \<and> log_offset ag t \<le> int (length (stored (net_world net) t)))"

text \<open>What has been handed to the redactors is in the local files, after what was there, or still pending.\<close>

definition captured :: "string list \<Rightarrow> log_agent \<Rightarrow> (string \<times> string) list \<Rightarrow> log_stream \<Rightarrow> bool" where
  "captured secrets ag0 frames ls \<longleftrightarrow> (\<forall>t\<in>{''stdout'', ''stderr''}.
     la_local (ls_agent ls) t = la_local ag0 t @ fst (push_all (newRedactor secrets) (payloads t frames)) \<and>
     stream_redactor t ls = snd (push_all (newRedactor secrets) (payloads t frames)))"

locale append_service =
  fixes send :: "string \<Rightarrow> int \<Rightarrow> string \<Rightarrow> 's \<Rightarrow> reply \<times> 's"
    and stored :: "'s \<Rightarrow> string \<Rightarrow> string"
    and good :: "'s \<Rightarrow> bool"
    and names :: "string set"
  assumes send_good: "good w \<Longrightarrow> t \<in> names \<Longrightarrow> good (snd (send t off c w))"
    and send_other: "good w \<Longrightarrow> t \<in> names \<Longrightarrow> u \<in> names \<Longrightarrow> u \<noteq> t \<Longrightarrow> stored (snd (send t off c w)) u = stored w u"
    and send_extends: "good w \<Longrightarrow> t \<in> names \<Longrightarrow> in_i64 off \<Longrightarrow>
      \<exists>k. stored (snd (send t off c w)) t = stored w t @ take k c \<and>
          (off \<noteq> int (length (stored w t)) \<longrightarrow> k = 0)"
    and send_accepts: "good w \<Longrightarrow> t \<in> names \<Longrightarrow> in_i64 off \<Longrightarrow> succeeded (fst (send t off c w)) \<Longrightarrow>
      off = int (length (stored w t)) \<and> stored (snd (send t off c w)) t = stored w t @ c \<and>
      rep_next (fst (send t off c w)) = int (length (stored w t)) + int (length c)"
    and send_next: "good w \<Longrightarrow> t \<in> names \<Longrightarrow> in_i64 off \<Longrightarrow> rep_next (fst (send t off c w)) = 0 \<or>
      rep_next (fst (send t off c w)) = int (length (stored (snd (send t off c w)) t))"
    and stored_i64: "good w \<Longrightarrow> t \<in> names \<Longrightarrow> in_i64 (int (length (stored w t)))"
begin

text \<open>One request of the agent, with what the network and the rest of the server add.\<close>

lemma upload_cases:
  assumes "good (net_world net)" "undisturbed good stored net" "t \<in> names" "in_i64 off"
    and "uploadBinary (send t off c) net = ((n, ok), net')"
  shows "good (net_world net')" "undisturbed good stored net'"
    and "\<And>u. u \<in> names \<Longrightarrow> u \<noteq> t \<Longrightarrow> stored (net_world net') u = stored (net_world net) u"
    and "\<exists>k. stored (net_world net') t = stored (net_world net) t @ take k c \<and>
         (off \<noteq> int (length (stored (net_world net) t)) \<longrightarrow> k = 0)"
    and "ok \<Longrightarrow> off = int (length (stored (net_world net) t)) \<and> n = off + int (length c) \<and>
         stored (net_world net') t = stored (net_world net) t @ c"
    and "n = 0 \<or> n = int (length (stored (net_world net') t))"
    and "net_plan net' = tl (net_plan net)" "net_sent net' = Suc (net_sent net)"
proof -
  obtain e d where c: "next_call net = (e, d)" by (cases "next_call net") auto
  let ?w = "e (net_world net)"
  have e: "good ?w \<and> stored ?w = stored (net_world net)"
    using next_call_in [OF c [symmetric]] assms(1,2)
    by (auto simp: undisturbed_def undisturbing_def)
  have w: "net_world net' = (if d = LostRequest then ?w else snd (send t off c ?w))"
    "net_plan net' = tl (net_plan net)"
    "ok \<longleftrightarrow> d = Delivered \<and> succeeded (fst (send t off c ?w))"
    "n = 0 \<or> d = Delivered \<and> n = rep_next (fst (send t off c ?w))"
    "ok \<Longrightarrow> n = rep_next (fst (send t off c ?w))" "net_sent net' = Suc (net_sent net)"
    using assms(5) c by (auto simp: uploadBinary_def http_do_def Let_def split: delivery.splits)
  show "good (net_world net')" using e w(1) send_good assms(3) by simp
  show "undisturbed good stored net'" using assms(2) w(2) by (auto simp: undisturbed_def dest: tl_in)
  show "stored (net_world net') u = stored (net_world net) u" if "u \<in> names" "u \<noteq> t" for u
    using e w(1) send_other [of ?w t u off c] assms(3) that by simp
  show "\<exists>k. stored (net_world net') t = stored (net_world net) t @ take k c \<and>
      (off \<noteq> int (length (stored (net_world net) t)) \<longrightarrow> k = 0)"
    using e w(1) send_extends [of ?w t off c] assms(3,4) by (auto intro: exI [of _ 0])
  show "off = int (length (stored (net_world net) t)) \<and> n = off + int (length c) \<and>
      stored (net_world net') t = stored (net_world net) t @ c" if ok
  proof -
    have "succeeded (fst (send t off c ?w))" "d = Delivered" using w(3) that by auto
    with send_accepts [of ?w t off c] e assms(3,4) w(1) w(5) [OF that] show ?thesis by auto
  qed
  show "n = 0 \<or> n = int (length (stored (net_world net') t))"
    using w(1,4) send_next [of ?w t off c] e assms(3,4) by auto
  show "net_sent net' = Suc (net_sent net)" by (rule w(6))
  show "net_plan net' = tl (net_plan net)" by (rule w(2))
qed

text \<open>What is stored stays a prefix of what the agent has, and the agent's offset stays behind it.\<close>

lemma send_chunks_prefix:
  assumes "send_chunks (send t) off cs net = ((n, ok), net')"
    and "good (net_world net)" "undisturbed good stored net" "t \<in> names"
    and "prefix (stored (net_world net) t) full" "0 \<le> off" "off \<le> int (length (stored (net_world net) t))"
    and "concat cs = drop (nat off) full"
  shows "good (net_world net') \<and> undisturbed good stored net' \<and>
    (\<forall>u\<in>names. u \<noteq> t \<longrightarrow> stored (net_world net') u = stored (net_world net) u) \<and>
    prefix (stored (net_world net') t) full \<and> off \<le> n \<and> n \<le> int (length (stored (net_world net') t)) \<and>
    (ok \<longrightarrow> stored (net_world net') t = full \<and> n = int (length full))"
  using assms
proof (induction cs arbitrary: off net)
  case Nil
  then have e: "n = off" "net' = net" ok by auto
  from Nil.prems(8) have "int (length full) \<le> off" using Nil.prems(6) by simp
  moreover have "length (stored (net_world net) t) \<le> length full" using Nil.prems(5) by (rule prefix_length_le)
  ultimately have "length (stored (net_world net) t) = length full" "off = int (length full)"
    using Nil.prems(7) by simp_all
  then have "stored (net_world net) t = full" using Nil.prems(5) by (auto simp: prefix_def)
  then show ?case using e Nil.prems \<open>off = int (length full)\<close> by simp
next
  case (Cons c cs)
  obtain m b net1 where u: "uploadBinary (send t off c) net = ((m, b), net1)" by (metis surj_pair)
  have i: "in_i64 off" using Cons.prems stored_i64 in_i64_length by blast
  note f = upload_cases [OF Cons.prems(2,3,4) i u]
  obtain k where k: "stored (net_world net1) t = stored (net_world net) t @ take k c"
    "off \<noteq> int (length (stored (net_world net) t)) \<longrightarrow> k = 0" using f(4) by blast
  have p1: "prefix (stored (net_world net1) t) full"
  proof (cases "off = int (length (stored (net_world net) t))")
    case True
    then have "full = stored (net_world net) t @ c @ concat cs"
      using Cons.prems(5,8) by (auto simp: prefix_def)
    then have "full = (stored (net_world net) t @ take k c) @ drop k c @ concat cs" by simp
    then show ?thesis using k(1) by (metis prefixI)
  qed (use k Cons.prems(5) in simp)
  show ?case
  proof (cases b)
    case False
    with Cons.prems(1) u have "n = off" "\<not> ok" "net' = net1" by auto
    with f p1 k(1) Cons.prems(7) show ?thesis by auto
  next
    case True
    have a: "off = int (length (stored (net_world net) t))" "m = off + int (length c)"
      "stored (net_world net1) t = stored (net_world net) t @ c" using f(5) [OF True] by auto
    have "full = stored (net_world net) t @ c @ concat cs"
      using Cons.prems(5,8) a(1) by (auto simp: prefix_def)
    then have r: "concat cs = drop (nat m) full" using a(1,2) by (simp add: nat_add_distrib)
    from Cons.prems(1) u True have s: "send_chunks (send t) m cs net1 = ((n, ok), net')" by simp
    have "m \<le> int (length (stored (net_world net1) t))" "0 \<le> m" using a by simp_all
    from Cons.IH [OF s f(1,2) Cons.prems(4) p1 this(2,1) r] f(3) a(2)
    show ?thesis by auto
  qed
qed

lemma set_log_offset_simps:
  "t \<in> {''stdout'', ''stderr'', ''.order''} \<Longrightarrow> u \<in> {''stdout'', ''stderr'', ''.order''} \<Longrightarrow>
     log_offset (set_log_offset t n ag) u = (if u = t then n else log_offset ag u)"
  "la_local (set_log_offset t n ag) = la_local ag"
  by (auto simp: log_offset_def set_log_offset_def)

lemma syncLog_behind:
  assumes "syncLog send t ag net = (ok, ag', net')" "behind good stored ag net"
    and "t \<in> {''stdout'', ''stderr'', ''.order''}" "{''stdout'', ''stderr'', ''.order''} \<subseteq> names"
  shows "behind good stored ag' net'" "la_local ag' = la_local ag"
    and "log_offset ag t \<le> log_offset ag' t"
    and "ok \<Longrightarrow> stored (net_world net') t = la_local ag t \<and> log_offset ag' t = int (length (la_local ag t))"
    and "u \<in> {''stdout'', ''stderr'', ''.order''} \<Longrightarrow> u \<noteq> t \<Longrightarrow>
      stored (net_world net') u = stored (net_world net) u \<and> log_offset ag' u = log_offset ag u"
proof -
  let ?cs = "chunks_of 262144 (drop (nat (log_offset ag t)) (la_local ag t))"
  obtain n b net1 where s: "send_chunks (send t) (log_offset ag t) ?cs net = ((n, b), net1)" by (metis surj_pair)
  with assms(1) have r: "ok = b" "ag' = set_log_offset t n ag" "net' = net1" by (auto simp: syncLog_def)
  have "good (net_world net)" "undisturbed good stored net" "t \<in> names"
    "prefix (stored (net_world net) t) (la_local ag t)" "0 \<le> log_offset ag t"
    "log_offset ag t \<le> int (length (stored (net_world net) t))"
    using assms(2-4) by (auto simp: behind_def)
  from send_chunks_prefix [OF s this] have f: "good (net_world net') \<and> undisturbed good stored net' \<and>
      (\<forall>u\<in>names. u \<noteq> t \<longrightarrow> stored (net_world net') u = stored (net_world net) u) \<and>
      prefix (stored (net_world net') t) (la_local ag t) \<and> log_offset ag t \<le> n \<and>
      n \<le> int (length (stored (net_world net') t)) \<and>
      (ok \<longrightarrow> stored (net_world net') t = la_local ag t \<and> n = int (length (la_local ag t)))"
    unfolding r by simp
  note off = set_log_offset_simps(1) [OF assms(3), of _ n ag, folded r(2)]
  show "la_local ag' = la_local ag" unfolding r by (rule set_log_offset_simps(2))
  show "log_offset ag t \<le> log_offset ag' t" using off [OF assms(3)] f by simp
  show "stored (net_world net') t = la_local ag t \<and> log_offset ag' t = int (length (la_local ag t))" if ok
    using off [OF assms(3)] f that by simp
  show o: "stored (net_world net') u = stored (net_world net) u \<and> log_offset ag' u = log_offset ag u"
    if "u \<in> {''stdout'', ''stderr'', ''.order''}" "u \<noteq> t" for u
    using off [OF that(1)] f that assms(4) by auto
  have "prefix (stored (net_world net') u) (la_local ag' u) \<and> 0 \<le> log_offset ag' u \<and>
      log_offset ag' u \<le> int (length (stored (net_world net') u))"
    if "u \<in> {''stdout'', ''stderr'', ''.order''}" for u
  proof (cases "u = t")
    case True
    with f off [OF assms(3)] \<open>0 \<le> log_offset ag t\<close> \<open>la_local ag' = la_local ag\<close> show ?thesis by simp
  next
    case False
    with o [OF that False] assms(2) that \<open>la_local ag' = la_local ag\<close> show ?thesis by (auto simp: behind_def)
  qed
  with f show "behind good stored ag' net'" by (auto simp: behind_def)
qed

lemma append_local_simps:
  "la_local (append_local t d ag) u = (if u = t then la_local ag t @ d else la_local ag u)"
  "log_offset (append_local t d ag) u = log_offset ag u"
  "log_offset (ag\<lparr>la_LogSequence := k\<rparr>) u = log_offset ag u"
  by (simp_all add: append_local_def log_offset_def)

lemma behind_grows:
  assumes "behind good stored ag net" "\<And>t. prefix (la_local ag t) (la_local ag' t)"
    "\<And>t. log_offset ag' t = log_offset ag t"
  shows "behind good stored ag' net"
  using assms unfolding behind_def by (auto intro: prefix_order.trans)

lemma appendOrderedLog_behind:
  assumes "appendOrderedLog send t data ag net = (ok, ag', net')" "behind good stored ag net"
    and "t \<in> {''stdout'', ''stderr''}" "{''stdout'', ''stderr'', ''.order''} \<subseteq> names"
  shows "behind good stored ag' net'" "\<And>u. prefix (la_local ag u) (la_local ag' u)"
    and "la_local ag' t = la_local ag t @ data"
    and "\<And>u. u \<noteq> t \<Longrightarrow> u \<noteq> ''.order'' \<Longrightarrow> la_local ag' u = la_local ag u"
proof -
  define ag1 where "ag1 = append_local ''.order''
    (order_line (i64 (la_LogSequence ag + 1)) t (int (length (la_local ag t)))
       (int (length (la_local ag t)) + int (length data)))
    ((append_local t data ag)\<lparr>la_LogSequence := i64 (la_LogSequence ag + 1)\<rparr>)"
  have l1: "la_local ag1 u = (if u = t then la_local ag t @ data
      else if u = ''.order'' then la_local ag1 ''.order'' else la_local ag u)"
    "prefix (la_local ag u) (la_local ag1 u)" "log_offset ag1 u = log_offset ag u" for u
    using assms(3) unfolding ag1_def by (auto simp: append_local_simps append_local_def log_offset_def)
  have b1: "behind good stored ag1 net" using assms(2) l1(2,3) by (rule behind_grows)
  obtain b ag2 net2 where s: "syncLog send t ag1 net = (b, ag2, net2)" by (metis surj_pair)
  have t: "t \<in> {''stdout'', ''stderr'', ''.order''}" using assms(3) by auto
  note f = syncLog_behind(1,2) [OF s b1 t assms(4)]
  have e: "(if b then syncLog send ''.order'' ag2 net2 else (False, ag2, net2)) = (ok, ag', net')"
    using assms(1) s unfolding appendOrderedLog_def Let_def ag1_def by (auto simp: append_local_def split: if_splits)
  have r: "behind good stored ag' net' \<and> la_local ag' = la_local ag1"
  proof (cases b)
    case True
    with e have "syncLog send ''.order'' ag2 net2 = (ok, ag', net')" by simp
    from syncLog_behind(1,2) [OF this f(1) _ assms(4)] f(2) show ?thesis by simp
  qed (use e f in auto)
  show "behind good stored ag' net'" using r by simp
  show "prefix (la_local ag u) (la_local ag' u)" for u using r l1(2) by simp
  show "la_local ag' t = la_local ag t @ data" using r l1(1) [of t] by simp
  show "la_local ag' u = la_local ag u" if "u \<noteq> t" "u \<noteq> ''.order''" for u
    using r l1(1) [of u] that by simp
qed

text \<open>A whole log stream: what has been handed to the redactors is in the local files or still pending.\<close>

lemma docker_logs_frames:
  assumes "docker_logs cb fails data st = (ok, st')" "P [] st"
    and "\<And>frames t p st b st1. P frames st \<Longrightarrow> t \<in> {''stdout'', ''stderr''} \<Longrightarrow> cb t p st = (b, st1) \<Longrightarrow>
      P (frames @ [(t, p)]) st1"
  shows "\<exists>k. P (take k (log_frames data)) st'"
proof -
  have "\<exists>k. P (before @ take k (log_frames data)) st'"
    if "docker_logs cb fails data st = (ok, st')" "P before st" for before
    using that
  proof (induction data arbitrary: st before rule: length_induct)
    case (1 data)
    let ?n = "big_endian (drop 4 (take 8 data))"
    let ?t = "if take 8 data ! 0 = CHR 0x02 then ''stderr'' else ''stdout''"
    let ?p = "take ?n (drop 8 data)"
    show ?case
    proof (cases "length data < 8 \<or> ?n > 16777216 \<or> length (drop 8 data) < ?n")
      case True
      with 1(2) have "st' = st" by (subst (asm) docker_logs.simps) (auto simp: Let_def split: if_splits)
      with 1(3) show ?thesis by (auto intro: exI [of _ 0])
    next
      case good: False
      obtain b st1 where c: "cb ?t ?p st = (b, st1)" by (metis surj_pair)
      have fr: "log_frames data = (?t, ?p) # log_frames (drop ?n (drop 8 data))"
        using good by (subst log_frames.simps) (simp add: Let_def)
      have P1: "P (before @ [(?t, ?p)]) st1" by (rule assms(3) [OF 1(3) _ c]) simp
      show ?thesis
      proof (cases b)
        case True
        then have d: "docker_logs cb fails (drop ?n (drop 8 data)) st1 = (ok, st')"
          using 1(2) c good by (subst (asm) docker_logs.simps) (simp add: Let_def)
        obtain k where "P ((before @ [(?t, ?p)]) @ take k (log_frames (drop ?n (drop 8 data)))) st'"
        proof -
          have "8 \<le> length data" using good by simp
          then have "length (drop ?n (drop 8 data)) < length data" by simp
          from 1(1) [rule_format, OF this d P1] show thesis using that by blast
        qed
        then have "P (before @ take (Suc k) (log_frames data)) st'" by (simp add: fr)
        then show ?thesis by blast
      next
        case False
        with 1(2) c good have "st' = st1"
          by (subst (asm) docker_logs.simps) (auto simp: Let_def split: if_splits)
        with P1 have "P (before @ take 1 (log_frames data)) st'" by (simp add: fr)
        then show ?thesis by blast
      qed
    qed
  qed
  from this [of "[]"] assms(1,2) show ?thesis by simp
qed

lemma push_all_snoc:
  "push_all r (cs @ [c]) =
     (case push_all r cs of (out, r) \<Rightarrow> case Push r c of (out2, r) \<Rightarrow> (out @ out2, r))"
  by (induction cs arbitrary: r) (auto split: prod.splits)

lemma set_redactor_simps:
  "t \<in> {''stdout'', ''stderr''} \<Longrightarrow> u \<in> {''stdout'', ''stderr''} \<Longrightarrow>
     stream_redactor u (set_redactor t r ls) = (if u = t then r else stream_redactor u ls)"
  "ls_agent (set_redactor t r ls) = ls_agent ls"
  "stream_redactor u (ls\<lparr>ls_agent := ag\<rparr>) = stream_redactor u ls"
  by (auto simp: stream_redactor_def set_redactor_def)

lemma payloads_snoc:
  "payloads u (frames @ [(t, p)]) = payloads u frames @ (if u = t then [p] else [])"
  by (simp add: payloads_def)

lemma log_frame_captured:
  assumes "log_frame send t p (ls, net) = (b, ls', net')" "t \<in> {''stdout'', ''stderr''}"
    and "captured secrets ag0 frames ls" "behind good stored (ls_agent ls) net"
    and "{''stdout'', ''stderr'', ''.order''} \<subseteq> names"
  shows "captured secrets ag0 (frames @ [(t, p)]) ls' \<and> behind good stored (ls_agent ls') net'"
proof -
  obtain safe r where P: "Push (stream_redactor t ls) p = (safe, r)" by (metis surj_pair)
  have pa: "push_all (newRedactor secrets) (payloads t frames @ [p]) =
      (fst (push_all (newRedactor secrets) (payloads t frames)) @ safe, r)"
    using assms(2,3) P by (auto simp: push_all_snoc captured_def split: prod.splits)
  show ?thesis
  proof (cases "safe = []")
    case True
    with assms(1) P have "ls' = set_redactor t r ls" "net' = net" by (auto simp: log_frame_def)
    then show ?thesis
      using assms(2,3,4) pa True by (auto simp: captured_def set_redactor_simps payloads_snoc)
  next
    case False
    obtain ok ag net1 where a: "appendOrderedLog send t safe (ls_agent ls) net = (ok, ag, net1)" by (metis surj_pair)
    note f = appendOrderedLog_behind [OF a assms(4,2,5)]
    have e: "ls' = (set_redactor t r ls)\<lparr>ls_agent := ag\<rparr>" "net' = net1"
      using assms(1) P False a by (auto simp: log_frame_def set_redactor_simps)
    have "la_local ag u = (if u = t then la_local (ls_agent ls) t @ safe else la_local (ls_agent ls) u)"
      if "u \<in> {''stdout'', ''stderr''}" for u using f(3) f(4) [of u] that by auto
    then show ?thesis
      using f(1) assms(2,3) pa unfolding e captured_def
      by (auto simp: set_redactor_simps payloads_snoc)
  qed
qed

lemma log_tail_behind:
  assumes "log_tail send t (ls, net) = (ls', net')" "t \<in> {''stdout'', ''stderr''}"
    and "behind good stored (ls_agent ls) net" "{''stdout'', ''stderr'', ''.order''} \<subseteq> names"
  shows "behind good stored (ls_agent ls') net'"
    and "la_local (ls_agent ls') t = la_local (ls_agent ls) t @ fst (Flush (stream_redactor t ls))"
    and "u \<in> {''stdout'', ''stderr''} \<Longrightarrow> u \<noteq> t \<Longrightarrow> la_local (ls_agent ls') u = la_local (ls_agent ls) u \<and>
      stream_redactor u ls' = stream_redactor u ls"
proof -
  obtain tail r where F: "Flush (stream_redactor t ls) = (tail, r)" by (metis surj_pair)
  obtain ag1 net1 where a: "(if tail = [] then (ls_agent ls, net)
      else snd (appendOrderedLog send t tail (ls_agent ls) net)) = (ag1, net1)" by (metis surj_pair)
  obtain b ag2 net2 where s: "syncLog send t ag1 net1 = (b, ag2, net2)" by (metis surj_pair)
  have e: "ls' = (set_redactor t r ls)\<lparr>ls_agent := ag2\<rparr>" "net' = net2"
    using assms(1) F a s unfolding log_tail_def prod.case F Let_def set_redactor_simps a by (simp_all add: s)
  have c: "behind good stored ag1 net1 \<and> la_local ag1 t = la_local (ls_agent ls) t @ tail \<and>
      (\<forall>u. u \<noteq> t \<longrightarrow> u \<noteq> ''.order'' \<longrightarrow> la_local ag1 u = la_local (ls_agent ls) u)"
  proof (cases "tail = []")
    case True
    with a assms(3) show ?thesis by auto
  next
    case False
    obtain ok ag net1' where x: "appendOrderedLog send t tail (ls_agent ls) net = (ok, ag, net1')" by (metis surj_pair)
    with a False have "ag = ag1" "net1' = net1" by auto
    with appendOrderedLog_behind [OF x assms(3,2,4)] show ?thesis by auto
  qed
  have t: "t \<in> {''stdout'', ''stderr'', ''.order''}" using assms(2) by auto
  note g = syncLog_behind [OF s conjunct1 [OF c] t assms(4)]
  show "behind good stored (ls_agent ls') net'" using g(1) by (simp add: e)
  show "la_local (ls_agent ls') t = la_local (ls_agent ls) t @ fst (Flush (stream_redactor t ls))"
    using g(2) c F by (simp add: e)
  show "la_local (ls_agent ls') u = la_local (ls_agent ls) u \<and> stream_redactor u ls' = stream_redactor u ls"
    if "u \<in> {''stdout'', ''stderr''}" "u \<noteq> t"
  proof -
    have "u \<noteq> ''.order''" using that(1) by auto
    then have "la_local ag1 u = la_local (ls_agent ls) u" using c that(2) by blast
    moreover have "stream_redactor u (set_redactor t r ls) = stream_redactor u ls"
      using set_redactor_simps(1) [OF assms(2) that(1)] that(2) by simp
    ultimately show ?thesis unfolding e(1) by (simp add: g(2) set_redactor_simps(3))
  qed
qed

lemma streamLogs_facts:
  assumes "streamLogs send secrets data fails ag net = (ls, net')" "behind good stored ag net"
    and "{''stdout'', ''stderr'', ''.order''} \<subseteq> names"
  shows "behind good stored (ls_agent ls) net'"
    and "\<exists>k. \<forall>t\<in>{''stdout'', ''stderr''}. la_local (ls_agent ls) t =
      la_local ag t @ redact_stream secrets (payloads t (take k (log_frames data)))"
proof -
  let ?ls = "\<lparr>ls_stdout = newRedactor secrets, ls_stderr = newRedactor secrets, ls_agent = ag\<rparr>"
  obtain ok ls1 net1 where d: "docker_logs (log_frame send) fails data (?ls, net) = (ok, ls1, net1)" by (metis surj_pair)
  obtain ls2 net2 where o: "log_tail send ''stdout'' (ls1, net1) = (ls2, net2)" by (metis surj_pair)
  have e: "log_tail send ''stderr'' (ls2, net2) = (ls, net')"
    using assms(1) d o by (simp add: streamLogs_def)
  let ?P = "\<lambda>frames (ls, net). captured secrets ag frames ls \<and> behind good stored (ls_agent ls) net"
  have P0: "?P [] (?ls, net)"
    using assms(2) by (auto simp: captured_def payloads_def stream_redactor_def)
  have "\<exists>k. ?P (take k (log_frames data)) (ls1, net1)"
  proof (rule docker_logs_frames [OF d, of ?P, OF P0])
    fix frames t p st b st1
    assume a: "?P frames st" "t \<in> {''stdout'', ''stderr''}" "log_frame send t p st = (b, st1)"
    obtain l n l1 n1 where s: "st = (l, n)" "st1 = (l1, n1)" by (cases st, cases st1) auto
    show "?P (frames @ [(t, p)]) st1"
      using log_frame_captured [OF a(3) [unfolded s] a(2) _ _ assms(3), of secrets ag frames] a(1) s by simp
  qed
  then obtain k where k: "captured secrets ag (take k (log_frames data)) ls1" "behind good stored (ls_agent ls1) net1"
    by auto
  note x = log_tail_behind [OF o _ k(2) assms(3)]
  have b2: "behind good stored (ls_agent ls2) net2" by (rule x(1)) simp
  note y = log_tail_behind [OF e _ b2 assms(3)]
  show "behind good stored (ls_agent ls) net'" by (rule y(1)) simp
  have R: "redact_stream secrets cs = fst (push_all (newRedactor secrets) cs) @
      fst (Flush (snd (push_all (newRedactor secrets) cs)))" for cs
    by (simp add: redact_stream_def split: prod.splits)
  have "la_local (ls_agent ls) t =
      la_local ag t @ redact_stream secrets (payloads t (take k (log_frames data)))"
    if "t \<in> {''stdout'', ''stderr''}" for t
  proof (cases "t = ''stdout''")
    case True
    with y(3) [of "''stdout''"] x(2) k(1) show ?thesis by (simp add: captured_def R)
  next
    case False
    with that y(2) x(3) [of "''stderr''"] k(1) show ?thesis by (simp add: captured_def R)
  qed
  then show "\<exists>k. \<forall>t\<in>{''stdout'', ''stderr''}. la_local (ls_agent ls) t =
      la_local ag t @ redact_stream secrets (payloads t (take k (log_frames data)))" by blast
qed

end

end
