(* ===== verification/CheckpointService.thy ===== *)
theory CheckpointService
  imports UploadService
begin

text \<open>
  The upload of a checkpoint under the contract of \<open>append_service\<close>. What it stores is right whenever it
  reports success; it ends after a bounded number of requests; and when the server has room and the
  network never loses too many requests in a row, it succeeds.
\<close>

lemma prefix_whole: "prefix xs ys \<Longrightarrow> length ys \<le> length xs \<Longrightarrow> xs = ys"
  by (auto simp: prefix_def)

lemma upload_file_end: "\<not> off < sz \<Longrightarrow> upload_file send sz data off net = (True, net)"
  by (subst upload_file.simps) simp

lemma upload_file_short:
  assumes "off < sz"
    and "int (length (take (nat (min 1048576 (sz - off))) (drop (nat off) data))) < min 1048576 (sz - off)"
  shows "upload_file send sz data off net = (False, net)"
  using assms(1) by (subst upload_file.simps) (simp only: Let_def if_P [OF assms(2)] if_not_P not_not not_True_eq_False if_False)

lemma upload_file_step:
  assumes "off < sz" "chunk = take (nat (min 1048576 (sz - off))) (drop (nat off) data)"
    and "\<not> int (length chunk) < min 1048576 (sz - off)"
  shows "upload_file send sz data off net =
    (case try_upload 5 off (send off chunk) net of
       (None, net) \<Rightarrow> (False, net)
     | (Some n, net) \<Rightarrow> if n \<le> off \<or> n > sz then (False, net) else upload_file send sz data n net)"
  using assms(1)
  by (subst upload_file.simps)
    (simp only: Let_def if_not_P [OF assms(3) [unfolded assms(2)]] assms(2) not_True_eq_False if_False)

section \<open>Safety and the number of requests\<close>

context append_service begin

lemma try_upload_prefix:
  assumes "try_upload k off (send t off c) net = (r, net')"
    and "good (net_world net)" "undisturbed good stored net" "t \<in> names"
    and "prefix (stored (net_world net) t) full" "0 \<le> off" "off \<le> int (length (stored (net_world net) t))"
    and "prefix c (drop (nat off) full)"
  shows "good (net_world net') \<and> undisturbed good stored net' \<and>
    (\<forall>u\<in>names. u \<noteq> t \<longrightarrow> stored (net_world net') u = stored (net_world net) u) \<and>
    prefix (stored (net_world net') t) full \<and>
    length (stored (net_world net) t) \<le> length (stored (net_world net') t) \<and>
    (\<forall>n. r = Some n \<longrightarrow> n \<le> int (length (stored (net_world net') t))) \<and>
    net_sent net' \<le> net_sent net + k"
  using assms
proof (induction k arbitrary: net)
  case (Suc k)
  obtain m b net1 where u: "uploadBinary (send t off c) net = ((m, b), net1)" by (metis surj_pair)
  have i: "in_i64 off" using Suc.prems stored_i64 in_i64_length by blast
  note f = upload_cases [OF Suc.prems(2,3,4) i u]
  obtain j where j: "stored (net_world net1) t = stored (net_world net) t @ take j c"
    "off \<noteq> int (length (stored (net_world net) t)) \<longrightarrow> j = 0" using f(4) by blast
  have p1: "prefix (stored (net_world net1) t) full"
  proof (cases "off = int (length (stored (net_world net) t))")
    case True
    from Suc.prems(5) obtain rest where "full = stored (net_world net) t @ rest" by (auto simp: prefix_def)
    moreover have "prefix (take j c) c" by (rule take_is_prefix)
    ultimately show ?thesis using Suc.prems(8) True j(1)
      by (auto intro: prefix_order.trans)
  qed (use j Suc.prems(5) in simp)
  have o: "\<forall>u\<in>names. u \<noteq> t \<longrightarrow> stored (net_world net1) u = stored (net_world net) u" using f(3) by blast
  show ?case
  proof (cases "b \<or> m > off")
    case True
    with Suc.prems(1) u have r: "r = Some m" "net' = net1" by auto
    have "m \<le> int (length (stored (net_world net1) t))" using f(6) Suc.prems(6,7) j(1) by auto
    with r f p1 j(1) o show ?thesis by auto
  next
    case False
    with Suc.prems(1) u have s: "try_upload k off (send t off c) net1 = (r, net')" by simp
    have "off \<le> int (length (stored (net_world net1) t))" using Suc.prems(7) j(1) by simp
    from Suc.IH [OF s f(1,2) Suc.prems(4) p1 Suc.prems(6) this Suc.prems(8)] o j(1) f(8)
    show ?thesis by auto
  qed
qed auto

text \<open>A file that was uploaded is stored as it was read; a request more needs a byte of progress every five.\<close>

lemma upload_file_prefix:
  assumes "upload_file (send t) sz data off net = (ok, net')"
    and "good (net_world net)" "undisturbed good stored net" "t \<in> names"
    and "prefix (stored (net_world net) t) (take (nat sz) data)" "0 \<le> off"
    and "off \<le> int (length (stored (net_world net) t))"
  shows "good (net_world net') \<and> undisturbed good stored net' \<and>
    (\<forall>u\<in>names. u \<noteq> t \<longrightarrow> stored (net_world net') u = stored (net_world net) u) \<and>
    prefix (stored (net_world net') t) (take (nat sz) data) \<and>
    (ok \<longrightarrow> stored (net_world net') t = take (nat sz) data \<and> (0 \<le> sz \<longrightarrow> int (length (take (nat sz) data)) = sz)) \<and>
    int (net_sent net') \<le> int (net_sent net) + 5 * max 0 (sz - off)"
  using assms
proof (induction "nat (sz - off)" arbitrary: off net rule: less_induct)
  case less
  show ?case
  proof (cases "off < sz")
    case False
    with less.prems(1) have e: "ok" "net' = net" by (auto simp: upload_file.simps)
    have "length (take (nat sz) data) \<le> length (stored (net_world net) t)" using False less.prems(7) by simp
    with less.prems(5) have "stored (net_world net) t = take (nat sz) data" by (rule prefix_whole)
    moreover have "int (length (take (nat sz) data)) = sz" if "0 \<le> sz"
      using calculation less.prems(7) False that by auto
    ultimately show ?thesis using e less.prems by simp
  next
    case True
    define chunk where "chunk = take (nat (min 1048576 (sz - off))) (drop (nat off) data)"
    show ?thesis
    proof (cases "int (length chunk) < min 1048576 (sz - off)")
      case short: True
      have "upload_file (send t) sz data off net = (False, net)"
        by (rule upload_file_short [OF True short [unfolded chunk_def]])
      with less.prems(1) have "\<not> ok" "net' = net" by simp_all
      then show ?thesis using less.prems True by simp
    next
      case False
      obtain r net1 where y: "try_upload 5 off (send t off chunk) net = (r, net1)" by (metis surj_pair)
      have pc: "prefix chunk (drop (nat off) (take (nat sz) data))"
      proof -
        have "drop (nat off) (take (nat sz) data) = take (nat (sz - off)) (drop (nat off) data)"
          using less.prems(6) True by (simp add: drop_take nat_diff_distrib)
        moreover have "chunk = take (nat (min 1048576 (sz - off))) (take (nat (sz - off)) (drop (nat off) data))"
          unfolding chunk_def by (simp add: min_def)
        ultimately show ?thesis by (metis take_is_prefix)
      qed
      note f = try_upload_prefix [OF y less.prems(2-7) pc]
      have e: "(ok, net') = (case (r, net1) of (None, net) \<Rightarrow> (False, net)
          | (Some n, net) \<Rightarrow> if n \<le> off \<or> n > sz then (False, net) else upload_file (send t) sz data n net)"
        using less.prems(1) unfolding upload_file_step [OF True chunk_def False] y by simp
      show ?thesis
      proof (cases "\<exists>n. r = Some n \<and> off < n \<and> n \<le> sz")
        case False
        then have "\<not> ok" "net' = net1" using e by (auto split: option.splits if_splits)
        with f less.prems(5) True show ?thesis by auto
      next
        case go: True
        then obtain n where n: "r = Some n" "off < n" "n \<le> sz" by blast
        with e have u: "upload_file (send t) sz data n net1 = (ok, net')" by simp
        have "nat (sz - n) < nat (sz - off)" using n by simp
        from less.hyps [OF this u] f n less.prems(4,6) have
          "good (net_world net') \<and> undisturbed good stored net' \<and>
            (\<forall>u\<in>names. u \<noteq> t \<longrightarrow> stored (net_world net') u = stored (net_world net1) u) \<and>
            prefix (stored (net_world net') t) (take (nat sz) data) \<and>
            (ok \<longrightarrow> stored (net_world net') t = take (nat sz) data \<and>
              (0 \<le> sz \<longrightarrow> int (length (take (nat sz) data)) = sz)) \<and>
            int (net_sent net') \<le> int (net_sent net1) + 5 * max 0 (sz - n)" by auto
        with f n True show ?thesis by auto
      qed
    qed
  qed
qed

end

text \<open>The entry of a file in the manifest, and the bytes of it that were uploaded.\<close>

definition manifest_entry :: "local_file \<Rightarrow> CheckpointFile" where
  "manifest_entry f = \<lparr>ckfile_Path = lf_name f, ckfile_Size = lf_size f\<rparr>"

definition lf_bytes :: "local_file \<Rightarrow> string" where
  "lf_bytes f = take (nat (lf_size f)) (lf_data f)"

context append_service begin

lemma uploadCheckpoint_prefix:
  assumes "uploadCheckpoint send files manifest net = (r, net')"
    and "good (net_world net)" "undisturbed good stored net"
    and "lf_name ` set files \<subseteq> names" "distinct (map lf_name files)"
    and "\<forall>f\<in>set files. prefix (stored (net_world net) (lf_name f)) (lf_bytes f) \<and> 0 \<le> lf_size f"
  shows "good (net_world net') \<and> undisturbed good stored net' \<and>
    (\<forall>u\<in>names. u \<notin> lf_name ` set files \<longrightarrow> stored (net_world net') u = stored (net_world net) u) \<and>
    (\<forall>m. r = Some m \<longrightarrow> m = manifest @ map manifest_entry files \<and>
       (\<forall>f\<in>set files. stored (net_world net') (lf_name f) = lf_bytes f \<and> int (length (lf_bytes f)) = lf_size f)) \<and>
    int (net_sent net') \<le> int (net_sent net) + 5 * (\<Sum>f\<leftarrow>files. lf_size f)"
  using assms
proof (induction files arbitrary: manifest net)
  case (Cons f files)
  obtain ok net1 where u: "upload_file (send (lf_name f)) (lf_size f) (lf_data f) 0 net = (ok, net1)" by (metis surj_pair)
  have "lf_name f \<in> names" "prefix (stored (net_world net) (lf_name f)) (take (nat (lf_size f)) (lf_data f))"
    using Cons.prems by (auto simp: lf_bytes_def)
  note g = upload_file_prefix [OF u Cons.prems(2,3) this order.refl of_nat_0_le_iff]
  have o: "\<forall>u\<in>names. u \<noteq> lf_name f \<longrightarrow> stored (net_world net1) u = stored (net_world net) u" using g by blast
  have s0: "0 \<le> lf_size f" "0 \<le> (\<Sum>f\<leftarrow>files. lf_size f)" using Cons.prems(6) by (auto intro!: sum_list_nonneg)
  show ?case
  proof (cases "ok \<and> lf_unchanged f")
    case False
    with Cons.prems(1) u have "r = None" "net' = net1" by (auto split: bool.splits if_splits)
    with g o s0 show ?thesis by auto
  next
    case True
    with Cons.prems(1) u have c: "uploadCheckpoint send files (manifest @ [manifest_entry f]) net1 = (r, net')"
      by (simp add: manifest_entry_def)
    have d: "lf_name f \<notin> lf_name ` set files" "distinct (map lf_name files)" "lf_name ` set files \<subseteq> names"
      using Cons.prems(4,5) by auto
    have "\<forall>h\<in>set files. prefix (stored (net_world net1) (lf_name h)) (lf_bytes h) \<and> 0 \<le> lf_size h"
    proof
      fix h assume h: "h \<in> set files"
      then have "lf_name h \<in> lf_name ` set files" by simp
      with d(1,3) have "lf_name h \<in> names" "lf_name h \<noteq> lf_name f" by (blast, metis)
      with o h Cons.prems(6) show "prefix (stored (net_world net1) (lf_name h)) (lf_bytes h) \<and> 0 \<le> lf_size h" by auto
    qed
    from Cons.IH [OF c conjunct1 [OF g] conjunct1 [OF conjunct2 [OF g]] d(3,2) this] g o d True s0
      \<open>lf_name f \<in> names\<close>
    show ?thesis by (auto simp: lf_bytes_def)
  qed
qed auto

end

section \<open>When uploads succeed\<close>

text \<open>A server that promises room for \<open>n\<close> more bytes takes them when they come at the right offset.\<close>

locale roomy_service = append_service +
  fixes room :: "'a \<Rightarrow> nat \<Rightarrow> bool"
  assumes room_accepts: "good w \<Longrightarrow> t \<in> names \<Longrightarrow> room w n \<Longrightarrow> off = int (length (stored w t)) \<Longrightarrow>
      c \<noteq> [] \<Longrightarrow> length c \<le> n \<Longrightarrow> length c \<le> 1048576 \<Longrightarrow>
      succeeded (fst (send t off c w)) \<and> room (snd (send t off c w)) (n - length c)"
    and room_refuses: "good w \<Longrightarrow> t \<in> names \<Longrightarrow> room w n \<Longrightarrow> in_i64 off \<Longrightarrow> off \<noteq> int (length (stored w t)) \<Longrightarrow>
      rep_next (fst (send t off c w)) = int (length (stored w t)) \<and> room (snd (send t off c w)) n"

text \<open>No more than \<open>m\<close> requests or answers are lost one after the other, \<open>k\<close> more before the next delivery.\<close>

fun patient :: "nat \<Rightarrow> nat \<Rightarrow> 's call list \<Rightarrow> bool" where
  "patient m k [] = True"
| "patient m k ((e, d) # cs) = (if d = Delivered then patient m m cs else 0 < k \<and> patient m (k - 1) cs)"

definition keeps_room :: "('s \<Rightarrow> nat \<Rightarrow> bool) \<Rightarrow> 's net \<Rightarrow> bool" where
  "keeps_room room net \<longleftrightarrow> (\<forall>c\<in>set (net_plan net). \<forall>w n. room w n \<longrightarrow> room (fst c w) n)"

lemma patient_tl: "patient m k cs \<Longrightarrow> (case cs of [] \<Rightarrow> True | (e, d) # _ \<Rightarrow> d = Delivered \<or> 0 < k)"
  by (cases cs) (auto split: if_splits)

context roomy_service begin

lemma try_upload_succeeds:
  assumes "good (net_world net)" "undisturbed good stored net" "keeps_room room net" "t \<in> names"
    and "c \<noteq> []" "length c \<le> 1048576" "patient m k (net_plan net)" "k < attempts"
    and "stored (net_world net) t = before \<and> room (net_world net) (n + length c) \<or>
         stored (net_world net) t = before @ c \<and> room (net_world net) n"
  shows "\<exists>net'. try_upload attempts (int (length before)) (send t (int (length before)) c) net =
      (Some (int (length before) + int (length c)), net') \<and>
    good (net_world net') \<and> undisturbed good stored net' \<and> keeps_room room net' \<and>
    (\<forall>u\<in>names. u \<noteq> t \<longrightarrow> stored (net_world net') u = stored (net_world net) u) \<and>
    stored (net_world net') t = before @ c \<and> room (net_world net') n \<and> patient m m (net_plan net')"
  using assms
proof (induction attempts arbitrary: net k)
  case (Suc a)
  let ?off = "int (length before)"
  obtain e d where call: "next_call net = (e, d)" by (cases "next_call net") auto
  let ?w = "e (net_world net)"
  let ?s = "send t ?off c ?w"
  have e: "good ?w \<and> stored ?w = stored (net_world net)" "room (net_world net) j \<Longrightarrow> room ?w j" for j
    using next_call_in [OF call [symmetric]] Suc.prems(1-3)
    by (auto simp: undisturbed_def undisturbing_def keeps_room_def)
  have i: "in_i64 ?off"
    using stored_i64 [of ?w t] e(1) Suc.prems(4,9) by (auto simp: in_i64_def)
  let ?net = "\<lambda>w. net\<lparr>net_plan := tl (net_plan net), net_sent := Suc (net_sent net), net_world := w\<rparr>"
  have un: "undisturbed good stored (?net w)" "keeps_room room (?net w)" for w
    using Suc.prems(2,3) by (auto simp: undisturbed_def keeps_room_def dest: tl_in)
  have pl: "d = Delivered \<and> patient m m (tl (net_plan net)) \<or> d \<noteq> Delivered \<and> 0 < k \<and> patient m (k - 1) (tl (net_plan net))"
    using Suc.prems(7) call by (cases "net_plan net") (auto simp: next_call_def split: if_splits)
  have sent: "good (snd ?s) \<and> (\<forall>u\<in>names. u \<noteq> t \<longrightarrow> stored (snd ?s) u = stored (net_world net) u) \<and>
      stored (snd ?s) t = before @ c \<and> room (snd ?s) n \<and>
      (succeeded (fst ?s) \<or> rep_next (fst ?s) > ?off) \<and> rep_next (fst ?s) = ?off + int (length c)"
  proof -
    have gd: "good ?w" using e(1) by blast
    have common: "good (snd ?s)" "\<forall>u\<in>names. u \<noteq> t \<longrightarrow> stored (snd ?s) u = stored (net_world net) u"
      using send_good [OF gd Suc.prems(4)] send_other [OF gd Suc.prems(4)] e(1) by simp_all
    show ?thesis
    proof (cases "stored (net_world net) t = before \<and> room (net_world net) (n + length c)")
    case True
    then have "stored ?w t = before" "room ?w (n + length c)" using e by auto
    with room_accepts [OF gd Suc.prems(4), of "n + length c" ?off c] Suc.prems(5,6)
    have a: "succeeded (fst ?s)" "room (snd ?s) n" by simp_all
    from send_accepts [OF gd Suc.prems(4) i a(1)] \<open>stored ?w t = before\<close>
    have "stored (snd ?s) t = before @ c" "rep_next (fst ?s) = ?off + int (length c)" by simp_all
    with common a show ?thesis by blast
  next
    case False
    then have b: "stored ?w t = before @ c" "room ?w n" using e Suc.prems(9) by auto
    then have ne: "?off \<noteq> int (length (stored ?w t))" using Suc.prems(5) by simp
    from room_refuses [OF gd Suc.prems(4) b(2) i ne, of c] b(1) Suc.prems(5)
    have r: "rep_next (fst ?s) = ?off + int (length c)" "?off < rep_next (fst ?s)" "room (snd ?s) n" by simp_all
    have "stored (snd ?s) t = before @ c"
      using send_extends [OF gd Suc.prems(4) i, of c] ne b(1) by auto
    with common r show ?thesis by blast
  qed
  qed
  show ?case
  proof (cases d)
    case Delivered
    then have u: "uploadBinary (send t ?off c) net = ((rep_next (fst ?s), succeeded (fst ?s)), ?net (snd ?s))"
      using call by (simp add: uploadBinary_def http_do_def Let_def)
    then have "try_upload (Suc a) ?off (send t ?off c) net = (Some (?off + int (length c)), ?net (snd ?s))"
      using sent by auto
    with sent un pl Delivered show ?thesis by auto
  next
    case LostRequest
    then have u: "uploadBinary (send t ?off c) net = ((0, False), ?net ?w)"
      using call by (simp add: uploadBinary_def http_do_def Let_def)
    have k: "k - 1 < a" "patient m (k - 1) (net_plan (?net ?w))" using pl LostRequest Suc.prems(8) by auto
    have g: "good (net_world (?net ?w))" using e(1) by simp
    have st: "stored (net_world (?net ?w)) t = before \<and> room (net_world (?net ?w)) (n + length c) \<or>
         stored (net_world (?net ?w)) t = before @ c \<and> room (net_world (?net ?w)) n"
      using e Suc.prems(9) by auto
    from Suc.IH [OF g un Suc.prems(4-6) k(2,1) st] u e(1) show ?thesis by simp
  next
    case LostResponse
    then have u: "uploadBinary (send t ?off c) net = ((0, False), ?net (snd ?s))"
      using call by (simp add: uploadBinary_def http_do_def Let_def)
    have k: "k - 1 < a" "patient m (k - 1) (net_plan (?net (snd ?s)))" using pl LostResponse Suc.prems(8) by auto
    have g: "good (net_world (?net (snd ?s)))" using sent by simp
    have st: "stored (net_world (?net (snd ?s))) t = before \<and> room (net_world (?net (snd ?s))) (n + length c) \<or>
         stored (net_world (?net (snd ?s))) t = before @ c \<and> room (net_world (?net (snd ?s))) n"
      using sent by simp
    from Suc.IH [OF g un Suc.prems(4-6) k(2,1) st] u sent show ?thesis by simp
  qed
qed simp

lemma upload_file_succeeds:
  assumes "good (net_world net)" "undisturbed good stored net" "keeps_room room net" "t \<in> names"
    and "patient m m (net_plan net)" "m < 5" "off \<le> length data"
    and "stored (net_world net) t = take off data" "room (net_world net) (n + (length data - off))"
  shows "\<exists>net'. upload_file (send t) (int (length data)) data (int off) net = (True, net') \<and>
    good (net_world net') \<and> undisturbed good stored net' \<and> keeps_room room net' \<and>
    (\<forall>u\<in>names. u \<noteq> t \<longrightarrow> stored (net_world net') u = stored (net_world net) u) \<and>
    stored (net_world net') t = data \<and> room (net_world net') n \<and> patient m m (net_plan net')"
  using assms
proof (induction "length data - off" arbitrary: off net rule: less_induct)
  case less
  show ?case
  proof (cases "off < length data")
    case False
    with less.prems show ?thesis by (simp add: upload_file_end)
  next
    case True
    define chunk where "chunk = take (nat (min 1048576 (int (length data) - int off))) (drop (nat (int off)) data)"
    have mn: "nat (min 1048576 (int (length data) - int off)) = min 1048576 (length data - off)" using True by simp
    then have ch: "chunk = take (min 1048576 (length data - off)) (drop off data)" by (simp add: chunk_def)
    then have len: "length chunk = min 1048576 (length data - off)" by simp
    have full: "\<not> int (length chunk) < min 1048576 (int (length data) - int off)" using len True by simp
    have c: "chunk \<noteq> []" "length chunk \<le> 1048576" using len True by auto
    have app: "take off data @ chunk = take (off + length chunk) data"
      unfolding len ch by (simp add: take_add)
    have bl: "length (take off data) = off" using True by simp
    have rm: "room (net_world net) ((n + (length data - (off + length chunk))) + length chunk)"
    proof -
      have "length chunk \<le> length data - off" using len by simp
      then have "(n + (length data - (off + length chunk))) + length chunk = n + (length data - off)" by simp
      then show ?thesis using less.prems(9) by (simp only:)
    qed
    obtain net1 where y: "try_upload 5 (int off) (send t (int off) chunk) net = (Some (int off + int (length chunk)), net1)"
      "good (net_world net1)" "undisturbed good stored net1" "keeps_room room net1"
      "\<forall>u\<in>names. u \<noteq> t \<longrightarrow> stored (net_world net1) u = stored (net_world net) u"
      "stored (net_world net1) t = take (off + length chunk) data"
      "room (net_world net1) (n + (length data - (off + length chunk)))" "patient m m (net_plan net1)"
      using try_upload_succeeds [OF less.prems(1-4) c less.prems(5,6),
          of "take off data" "n + (length data - (off + length chunk))"]
        less.prems(8) rm app bl by auto
    have o: "off + length chunk \<le> length data" "length data - (off + length chunk) < length data - off"
      using len True by auto
    from less.hyps [OF o(2) y(2-4) less.prems(4) y(8) less.prems(6) o(1) y(6,7)]
    obtain net' where z: "upload_file (send t) (int (length data)) data (int (off + length chunk)) net1 = (True, net')"
      "good (net_world net')" "undisturbed good stored net'" "keeps_room room net'"
      "\<forall>u\<in>names. u \<noteq> t \<longrightarrow> stored (net_world net') u = stored (net_world net1) u"
      "stored (net_world net') t = data" "room (net_world net') n" "patient m m (net_plan net')" by blast
    have "int off < int (length data)" using True by simp
    note step = upload_file_step [OF this chunk_def full, of "send t" net]
    have "upload_file (send t) (int (length data)) data (int off) net = (True, net')"
      unfolding step y(1) using z(1) o c(1) by simp
    with z y(5) show ?thesis by auto
  qed
qed

lemma uploadCheckpoint_succeeds:
  assumes "good (net_world net)" "undisturbed good stored net" "keeps_room room net"
    and "patient m m (net_plan net)" "m < 5" "lf_name ` set files \<subseteq> names" "distinct (map lf_name files)"
    and "\<forall>f\<in>set files. stored (net_world net) (lf_name f) = [] \<and> lf_size f = int (length (lf_data f)) \<and> lf_unchanged f"
    and "room (net_world net) (n + (\<Sum>f\<leftarrow>files. length (lf_data f)))"
  shows "\<exists>net'. uploadCheckpoint send files manifest net = (Some (manifest @ map manifest_entry files), net') \<and>
    good (net_world net') \<and> undisturbed good stored net' \<and> patient m m (net_plan net') \<and>
    (\<forall>f\<in>set files. stored (net_world net') (lf_name f) = lf_data f)"
proof -
  have "\<exists>net'. uploadCheckpoint send files manifest net = (Some (manifest @ map manifest_entry files), net') \<and>
      good (net_world net') \<and> undisturbed good stored net' \<and> patient m m (net_plan net') \<and>
      (\<forall>f\<in>set files. stored (net_world net') (lf_name f) = lf_data f) \<and>
      (\<forall>u\<in>names. u \<notin> lf_name ` set files \<longrightarrow> stored (net_world net') u = stored (net_world net) u)"
    using assms
  proof (induction files arbitrary: manifest net)
    case (Cons f files)
    have f: "lf_name f \<in> names" "stored (net_world net) (lf_name f) = take 0 (lf_data f)"
      "lf_size f = int (length (lf_data f))" "lf_unchanged f"
      "room (net_world net) ((n + (\<Sum>f\<leftarrow>files. length (lf_data f))) + (length (lf_data f) - 0))"
      using Cons.prems(6,8,9) by (simp_all add: ac_simps)
    from upload_file_succeeds [OF Cons.prems(1-3) f(1) Cons.prems(4,5) le0 f(2,5)]
    obtain net1 where u: "upload_file (send (lf_name f)) (int (length (lf_data f))) (lf_data f) 0 net = (True, net1)"
      "good (net_world net1)" "undisturbed good stored net1" "keeps_room room net1"
      "\<forall>u\<in>names. u \<noteq> lf_name f \<longrightarrow> stored (net_world net1) u = stored (net_world net) u"
      "stored (net_world net1) (lf_name f) = lf_data f"
      "room (net_world net1) (n + (\<Sum>f\<leftarrow>files. length (lf_data f)))" "patient m m (net_plan net1)" by auto
    have d: "lf_name f \<notin> lf_name ` set files" "distinct (map lf_name files)" "lf_name ` set files \<subseteq> names"
      using Cons.prems(6,7) by auto
    have "\<forall>h\<in>set files. stored (net_world net1) (lf_name h) = [] \<and> lf_size h = int (length (lf_data h)) \<and> lf_unchanged h"
    proof
      fix h assume h: "h \<in> set files"
      then have "lf_name h \<in> lf_name ` set files" by simp
      with d(1,3) have "lf_name h \<in> names" "lf_name h \<noteq> lf_name f" by (blast, metis)
      with u(5) h Cons.prems(8) show "stored (net_world net1) (lf_name h) = [] \<and>
          lf_size h = int (length (lf_data h)) \<and> lf_unchanged h" by auto
    qed
    from Cons.IH [OF u(2-4,8) Cons.prems(5) d(3,2) this u(7), of "manifest @ [manifest_entry f]"]
    obtain net' where z: "uploadCheckpoint send files (manifest @ [manifest_entry f]) net1 =
        (Some ((manifest @ [manifest_entry f]) @ map manifest_entry files), net')"
      "good (net_world net')" "undisturbed good stored net'" "patient m m (net_plan net')"
      "\<forall>f\<in>set files. stored (net_world net') (lf_name f) = lf_data f"
      "\<forall>u\<in>names. u \<notin> lf_name ` set files \<longrightarrow> stored (net_world net') u = stored (net_world net1) u" by blast
    have c: "uploadCheckpoint send (f # files) manifest net =
        (Some (manifest @ map manifest_entry (f # files)), net')"
      using u(1) z(1) f(3,4) by (simp add: manifest_entry_def)
    have "stored (net_world net') (lf_name f) = lf_data f" using z(6) d(1) f(1) u(6) by auto
    with c z u(5) show ?case by (intro exI [of _ net']) auto
  qed auto
  then show ?thesis by blast
qed

text \<open>On a network that loses nothing, a log whose offset is right is uploaded to its end.\<close>

lemma send_chunks_succeeds:
  assumes "good (net_world net)" "undisturbed good stored net" "keeps_room room net" "t \<in> names"
    and "\<forall>c\<in>set (net_plan net). snd c = Delivered"
    and "\<forall>c\<in>set cs. c \<noteq> [] \<and> length c \<le> 1048576" "room (net_world net) (length (concat cs))"
    and "off = int (length (stored (net_world net) t))"
  shows "\<exists>net'. send_chunks (send t) off cs net = ((off + int (length (concat cs)), True), net') \<and>
    stored (net_world net') t = stored (net_world net) t @ concat cs"
  using assms
proof (induction cs arbitrary: off net)
  case (Cons c cs)
  obtain e d where call: "next_call net = (e, d)" by (cases "next_call net") auto
  let ?w = "e (net_world net)"
  let ?net = "net\<lparr>net_plan := tl (net_plan net), net_sent := Suc (net_sent net), net_world := snd (send t off c ?w)\<rparr>"
  have d: "d = Delivered" using next_call_in [OF call [symmetric]] Cons.prems(5) by auto
  have gd: "good ?w" "stored ?w = stored (net_world net)" "room (net_world net) j \<Longrightarrow> room ?w j" for j
    using next_call_in [OF call [symmetric]] Cons.prems(1-3)
    by (auto simp: undisturbed_def undisturbing_def keeps_room_def)
  have i: "in_i64 off" using stored_i64 [OF gd(1) Cons.prems(4)] gd(2) Cons.prems(8) by simp
  have a: "succeeded (fst (send t off c ?w))" "room (snd (send t off c ?w)) (length (concat cs))"
    using room_accepts [OF gd(1) Cons.prems(4) gd(3) [OF Cons.prems(7)], of off c] Cons.prems(6,8) gd(2) by simp_all
  have s: "stored (snd (send t off c ?w)) t = stored (net_world net) t @ c"
    "rep_next (fst (send t off c ?w)) = off + int (length c)"
    using send_accepts [OF gd(1) Cons.prems(4) i a(1)] gd(2) Cons.prems(8) by simp_all
  have u: "uploadBinary (send t off c) net = ((off + int (length c), True), ?net)"
    using call d a(1) s(2) by (simp add: uploadBinary_def http_do_def Let_def)
  have "\<exists>net'. send_chunks (send t) (off + int (length c)) cs ?net =
        ((off + int (length c) + int (length (concat cs)), True), net') \<and>
      stored (net_world net') t = stored (net_world ?net) t @ concat cs"
  proof (rule Cons.IH)
    show "undisturbed good stored ?net" "keeps_room room ?net" "\<forall>c\<in>set (net_plan ?net). snd c = Delivered"
      using Cons.prems(2,3,5) tl_in by (fastforce simp: undisturbed_def keeps_room_def)+
  qed (use Cons.prems(4,6,8) a s send_good [OF gd(1) Cons.prems(4)] in auto)
  with u s show ?case by (auto simp: ac_simps)
qed auto

end

end
