(* ===== verification/FileAppends.thy ===== *)
theory FileAppends
  imports CheckpointService FileFacts
begin

text \<open>
  Handlers that append to a file of the store fulfil the contract of \<open>append_service\<close>: the locale
  \<open>file_appends\<close> holds what a handler must do for that, and the sublocale relation gives it the contract;
  \<open>ready_appends\<close> adds when it takes what it is sent.
\<close>

section \<open>When an append is taken\<close>

text \<open>Nothing but directories lies above the file, and it is not a directory itself.\<close>

definition free_path :: "fs \<Rightarrow> fpath \<Rightarrow> bool" where
  "free_path fs p \<longleftrightarrow> \<not> blocked fs p \<and> node fs p \<noteq> Some Dir"

lemma free_path_iff: "free_path fs p \<longleftrightarrow> (\<forall>q. strict_prefix q p \<longrightarrow> \<not> is_reg (node fs q)) \<and> node fs p \<noteq> Some Dir"
  by (auto simp: free_path_def blocked_def list_ex_iff set_ancestors)

lemma free_path_opens:
  assumes "fs_ok fs" "free_path fs p" "p \<noteq> []"
  obtains fs2 where "\<And>(used::fs \<Rightarrow> file_error + int) limit early offset source. append_file p used limit early offset source fs =
      (if int (length (file_content fs p)) \<noteq> offset
       then ((int (length (file_content fs p)), Some ErrOffsetMismatch), fs2)
       else (case used fs2 of
          Inl e \<Rightarrow> ((offset, Some e), fs2)
        | Inr u \<Rightarrow> if limit - u \<le> 0 then ((offset, Some ErrLimitExceeded), fs2)
            else copy_to p (file_content fs p) offset (limit - u) source fs2))"
    "fs_ok fs2" "\<exists>m. node fs2 p = Some (Reg m (file_content fs p))" "only_touches p fs fs2"
    "\<And>r. total_size fs2 r = total_size fs r" "\<And>q. strict_prefix q p \<Longrightarrow> node fs2 q = Some Dir"
proof -
  have sp: "strict_prefix q p \<longleftrightarrow> prefix q (butlast p)" for q
  proof
    assume "prefix q (butlast p)"
    moreover have "length (butlast p) < length p" using assms(3) by simp
    ultimately show "strict_prefix q p" using butlast_prefix [of p]
      by (metis leD prefix_length_le prefix_order.less_le prefix_order.trans)
  next
    assume "strict_prefix q p"
    then have "q \<in> set (ancestors p)" by (simp add: set_ancestors)
    then show "prefix q (butlast p)" by (auto simp: ancestors_def butlast_conv_take intro: take_is_prefix
        simp: min_def) (metis Suc_pred assms(3) length_greater_0_conv less_Suc_eq_le min_def take_is_prefix take_take)
  qed
  have "\<not> list_ex (\<lambda>q. is_reg (node fs q)) (ancestors (butlast p) @ [butlast p])"
    using assms(2) set_ancestors_self [of _ "butlast p"] sp unfolding free_path_iff list_ex_iff by blast
  then obtain fs1 where mk: "MkdirAll (butlast p) fs = Inr fs1" by (auto simp: MkdirAll_def)
  have ok1: "fs_ok fs1" by (rule MkdirAll_ok [OF assms(1) mk])
  have "\<not> prefix p (butlast p)"
    using assms(3) by (metis length_butlast prefix_length_le diff_less length_greater_0_conv less_numeral_extra(1) not_less)
  then have n1: "node fs1 p = node fs p" using MkdirAll_node [OF mk, of p] by simp
  have dir: "node fs1 (butlast p) = Some Dir" by (rule MkdirAll_dir [OF mk]) simp
  have "\<exists>content fs2. OpenFile 416 p fs1 = Inr (content, fs2)"
    using n1 dir assms(2) by (auto simp: free_path_def OpenFile_def split: option.split fnode.split)
  then obtain content fs2 where o: "OpenFile 416 p fs1 = Inr (content, fs2)" by blast
  note f = OpenFile_facts [OF ok1 o]
  have c: "content = file_content fs p" using f(3) n1 by (simp add: file_content_def)
  have t: "total_size fs2 r = total_size fs r" for r using f(5) total_MkdirAll [OF assms(1) mk] by simp
  have "node fs2 q = Some Dir" if "strict_prefix q p" for q
    using ancestor_dir [OF f(1) _ that] f(4) by auto
  moreover have "append_file p used limit early offset source fs =
      (if int (length (file_content fs p)) \<noteq> offset
       then ((int (length (file_content fs p)), Some ErrOffsetMismatch), fs2)
       else (case used fs2 of
          Inl e \<Rightarrow> ((offset, Some e), fs2)
        | Inr u \<Rightarrow> if limit - u \<le> 0 then ((offset, Some ErrLimitExceeded), fs2)
            else copy_to p (file_content fs p) offset (limit - u) source fs2))"
    for used limit early offset source
    unfolding c [symmetric] append_file_def mk o sum.case prod.case ..
  moreover have "\<exists>m. node fs2 p = Some (Reg m (file_content fs p))" using f(4) c by simp
  ultimately show thesis
    using f(1) t only_touches_trans [OF only_touches_mkdir [OF mk] f(2)] by (intro that [of fs2])
qed

lemma append_file_refuses:
  assumes "fs_ok fs" "free_path fs p" "p \<noteq> []" "offset \<noteq> int (length (file_content fs p))"
  shows "\<exists>fs'. append_file p used limit early offset source fs =
      ((int (length (file_content fs p)), Some ErrOffsetMismatch), fs') \<and>
    (\<forall>r. total_size fs' r = total_size fs r)"
proof -
  obtain fs2 where "\<And>(used::fs \<Rightarrow> file_error + int) limit early offset source. append_file p used limit early offset source fs =
      (if int (length (file_content fs p)) \<noteq> offset
       then ((int (length (file_content fs p)), Some ErrOffsetMismatch), fs2)
       else (case used fs2 of
          Inl e \<Rightarrow> ((offset, Some e), fs2)
        | Inr u \<Rightarrow> if limit - u \<le> 0 then ((offset, Some ErrLimitExceeded), fs2)
            else copy_to p (file_content fs p) offset (limit - u) source fs2))"
    "\<And>r. total_size fs2 r = total_size fs r"
    by (rule free_path_opens [OF assms(1-3)]) blast
  with assms(4) show ?thesis by auto
qed

lemma append_file_accepts:
  assumes "fs_ok fs" "free_path fs p" "p \<noteq> []" "offset = int (length (file_content fs p))" "data \<noteq> []"
    and used: "\<And>fs2. fs_ok fs2 \<Longrightarrow> (\<And>r. total_size fs2 r = total_size fs r) \<Longrightarrow>
      (\<And>q. strict_prefix q p \<Longrightarrow> node fs2 q = Some Dir) \<Longrightarrow> used fs2 = Inr u"
    and "u + int (length data) \<le> limit"
  shows "\<exists>fs'. append_file p used limit early offset \<lparr>rd_data = data, rd_fails = False\<rparr> fs =
      ((offset + int (length data), None), fs') \<and>
    (\<forall>r. total_size fs' r = total_size fs r + (if prefix r p then int (length data) else 0))"
proof -
  let ?src = "\<lparr>rd_data = data, rd_fails = False\<rparr>"
  obtain fs2 where f: "\<And>(used::fs \<Rightarrow> file_error + int) limit early offset source. append_file p used limit early offset source fs =
      (if int (length (file_content fs p)) \<noteq> offset
       then ((int (length (file_content fs p)), Some ErrOffsetMismatch), fs2)
       else (case used fs2 of
          Inl e \<Rightarrow> ((offset, Some e), fs2)
        | Inr u \<Rightarrow> if limit - u \<le> 0 then ((offset, Some ErrLimitExceeded), fs2)
            else copy_to p (file_content fs p) offset (limit - u) source fs2))"
    "fs_ok fs2" "\<exists>m. node fs2 p = Some (Reg m (file_content fs p))"
    "\<And>r. total_size fs2 r = total_size fs r" "\<And>q. strict_prefix q p \<Longrightarrow> node fs2 q = Some Dir"
    by (rule free_path_opens [OF assms(1-3)]) blast
  have u: "used fs2 = Inr u" using f(2,4,5) by (rule used)
  have rem: "0 < limit - u" using assms(5,7) by (cases data) auto
  obtain n err fs' where c: "copy_to p (file_content fs p) offset (limit - u) ?src fs2 = ((n, err), fs')"
    by (metis surj_pair)
  from f(3) obtain m where m: "node fs2 p = Some (Reg m (file_content fs p))" by blast
  note g = copy_to_facts [OF f(2) m assms(4) rem c]
  have e: "err = None" using g assms(7) by (auto simp: copied_def)
  with g have n: "n = offset + int (length data)" using assms(4) by (auto simp: copied_def)
  have "append_file p used limit early offset ?src fs = ((n, err), fs')"
    using f(1) u rem c assms(4) by simp
  moreover have "total_size fs' r = total_size fs r + (if prefix r p then int (length data) else 0)" for r
    using copy_to_total [OF f(2) m assms(4) rem c, of r] f(4) n by simp
  ultimately show ?thesis using e n by blast
qed

lemma content_le_total:
  assumes "prefix root p"
  shows "int (length (file_content fs p)) \<le> total_size fs root"
proof (cases "node fs p")
  case (Some n)
  then have m: "(p, n) \<in> set fs" by (simp add: node_def map_of_SomeD)
  have nn: "0 \<le> (case e of (q, n) \<Rightarrow> if prefix root q then node_size n else 0)" for e
    using node_size_nonneg by (cases e) simp
  have "(case (p, n) of (q, n) \<Rightarrow> if prefix root q then node_size n else 0) \<le>
      sum_list (map (\<lambda>(q, n). if prefix root q then node_size n else 0) fs)"
    by (rule member_le_sum_list) (use m nn in \<open>force, auto\<close>)
  then show ?thesis using Some assms by (cases n) (simp_all add: total_size_def file_content_def)
next
  case None
  have "0 \<le> total_size fs root" unfolding total_size_def
    by (rule sum_list_nonneg) (auto simp: node_size_nonneg)
  with None show ?thesis by (simp add: file_content_def)
qed

lemma free_path_kept:
  assumes "only_touches p fs fs'" "is_reg (node fs' p)" "free_path fs q" "\<not> strict_prefix p q" "\<not> strict_prefix q p"
  shows "free_path fs' q"
  unfolding free_path_iff
proof (intro conjI allI impI)
  fix r assume r: "strict_prefix r q"
  then have "r \<noteq> p" using assms(4) by blast
  with assms(1) have "node fs' r = node fs r \<or> node fs' r = Some Dir" unfolding only_touches_def by blast
  then show "\<not> is_reg (node fs' r)" using assms(3) r by (auto simp: free_path_iff)
next
  show "node fs' q \<noteq> Some Dir"
  proof (cases "q = p")
    case True
    with assms(2) show ?thesis by auto
  next
    case False
    then have "\<not> prefix q p" using assms(5) by (simp add: strict_prefix_def)
    with assms(1,3) False show ?thesis unfolding only_touches_def free_path_iff by metis
  qed
qed

section \<open>Handlers that append\<close>

text \<open>What is stored under a name, the servers the contract speaks of, and how a handler may answer.\<close>

definition stored_at :: "(string \<Rightarrow> fpath) \<Rightarrow> server \<Rightarrow> string \<Rightarrow> string" where
  "stored_at path s t = file_content (srv_files s) (path t)"

definition quota_ok :: "(server \<Rightarrow> bool) \<Rightarrow> fpath \<Rightarrow> int \<Rightarrow> server \<Rightarrow> bool" where
  "quota_ok scope root limit s \<longleftrightarrow> scope s \<and> fs_ok (srv_files s) \<and> limit < 9223372036854775808 \<and>
     total_size (srv_files s) root < 9223372036854775808"

definition turned_down :: "server \<Rightarrow> reply \<times> server \<Rightarrow> bool" where
  "turned_down s result \<longleftrightarrow> srv_files (snd result) = srv_files s \<and> \<not> succeeded (fst result) \<and> rep_next (fst result) = 0"

definition answers :: "int \<Rightarrow> file_error option \<Rightarrow> reply \<Rightarrow> bool" where
  "answers n err r \<longleftrightarrow> (succeeded r \<longleftrightarrow> err = None) \<and>
     (rep_next r = n \<or> rep_next r = 0 \<and> err \<noteq> None \<and> err \<noteq> Some ErrOffsetMismatch) \<and>
     (rep_next r \<noteq> 0 \<longrightarrow> err \<in> {None, Some ErrOffsetMismatch, Some ErrLimitExceeded})"

definition body_of :: "string \<Rightarrow> int \<Rightarrow> reader" where
  "body_of c limit = MaxBytesReader \<lparr>rd_data = c, rd_fails = False\<rparr> limit"

lemma body_of_take: "\<exists>j. take k (rd_data (body_of c limit)) = take j c"
  by (auto simp: body_of_def MaxBytesReader_def intro: exI [of _ k] exI [of _ "min k (nat limit)"])

lemma body_of_small: "int (length c) \<le> limit \<Longrightarrow> body_of c limit = \<lparr>rd_data = c, rd_fails = False\<rparr>"
  by (simp add: body_of_def MaxBytesReader_def)

lemma body_of_whole: "\<not> rd_fails (body_of c limit) \<Longrightarrow> rd_data (body_of c limit) = c"
  by (auto simp: body_of_def MaxBytesReader_def split: if_splits)

locale file_appends =
  fixes send :: "string \<Rightarrow> int \<Rightarrow> string \<Rightarrow> server \<Rightarrow> reply \<times> server"
    and path :: "string \<Rightarrow> fpath"
    and used :: "fs \<Rightarrow> file_error + int"
    and limit :: int
    and body_limit :: int
    and root :: fpath
    and names :: "string set"
    and scope :: "server \<Rightarrow> bool"
  assumes handled: "scope w \<Longrightarrow> t \<in> names \<Longrightarrow> turned_down w (send t off c w) \<or>
      (\<exists>n err. append_file (path t) used limit 0 (fst (ParseInt (FormatInt off))) (body_of c body_limit) (srv_files w) =
          ((n, err), srv_files (snd (send t off c w))) \<and> answers n err (fst (send t off c w)))"
    and scope_kept: "scope w \<Longrightarrow> t \<in> names \<Longrightarrow> scope (snd (send t off c w))"
    and below_root: "t \<in> names \<Longrightarrow> prefix root (path t)"
    and path_inj: "t \<in> names \<Longrightarrow> u \<in> names \<Longrightarrow> path t = path u \<Longrightarrow> t = u"
    and used_error: "used fs = Inl e \<Longrightarrow> e = NotDir"
    and used_total: "used fs = Inr amount \<Longrightarrow> total_size fs root \<le> amount"
begin

lemma handled_cases:
  assumes "fs_ok (srv_files w)" "t \<in> names" "scope w"
  obtains "turned_down w (send t off c w)"
  | n err where "append_file (path t) used limit 0 (fst (ParseInt (FormatInt off))) (body_of c body_limit) (srv_files w) =
        ((n, err), srv_files (snd (send t off c w)))" "answers n err (fst (send t off c w))"
      "appended (path t) 0 (fst (ParseInt (FormatInt off))) (body_of c body_limit) (srv_files w) n err
        (srv_files (snd (send t off c w)))"
proof -
  show thesis
  proof (cases "turned_down w (send t off c w)")
    case False
    with handled [OF assms(3,2), of off c] obtain n err where
      a: "append_file (path t) used limit 0 (fst (ParseInt (FormatInt off))) (body_of c body_limit) (srv_files w) =
        ((n, err), srv_files (snd (send t off c w)))" "answers n err (fst (send t off c w))" by blast
    show thesis by (rule that(2) [OF a append_file_facts [OF assms(1) a(1) used_error]])
  qed (rule that(1))
qed

end

sublocale file_appends \<subseteq> append_service send "stored_at path" "quota_ok scope root limit" names
proof
  fix w t off c
  assume g: "quota_ok scope root limit w" and t: "t \<in> names"
  then have ok: "fs_ok (srv_files w)" and sc: "scope w" by (simp_all add: quota_ok_def)
  show "quota_ok scope root limit (snd (send t off c w))"
  proof (rule handled_cases [OF ok t sc, of off c])
    fix n err
    assume a: "append_file (path t) used limit 0 (fst (ParseInt (FormatInt off))) (body_of c body_limit) (srv_files w) =
        ((n, err), srv_files (snd (send t off c w)))"
      "appended (path t) 0 (fst (ParseInt (FormatInt off))) (body_of c body_limit) (srv_files w) n err
        (srv_files (snd (send t off c w)))"
    have "0 + total_size (srv_files (snd (send t off c w))) root \<le> max limit (0 + total_size (srv_files w) root)"
    proof (rule append_file_quota [OF ok a(1) below_root [OF t]])
      fix fs1 u assume "\<And>r. total_size fs1 r = total_size (srv_files w) r" "used fs1 = Inr u"
      with used_total [of fs1 u] show "0 + total_size (srv_files w) root \<le> u" by simp
    qed
    then have "total_size (srv_files (snd (send t off c w))) root < 9223372036854775808"
      using g unfolding quota_ok_def by linarith
    moreover have "fs_ok (srv_files (snd (send t off c w)))" using a(2) unfolding appended_def by blast
    ultimately show ?thesis using g scope_kept [OF sc t] by (simp add: quota_ok_def)
  qed (use g scope_kept [OF sc t] in \<open>simp add: turned_down_def quota_ok_def\<close>)
  show "stored_at path (snd (send t off c w)) u = stored_at path w u" if u: "u \<in> names" "u \<noteq> t" for u
  proof (rule handled_cases [OF ok t sc, of off c])
    fix n err
    assume "appended (path t) 0 (fst (ParseInt (FormatInt off))) (body_of c body_limit) (srv_files w) n err
        (srv_files (snd (send t off c w)))"
    then have "only_touches (path t) (srv_files w) (srv_files (snd (send t off c w)))" unfolding appended_def by blast
    moreover have "path u \<noteq> path t" using path_inj [OF u(1) t] u(2) by blast
    ultimately have "node (srv_files (snd (send t off c w))) (path u) = node (srv_files w) (path u) \<or>
        node (srv_files w) (path u) = None \<and> node (srv_files (snd (send t off c w))) (path u) = Some Dir"
      unfolding only_touches_def by blast
    then show ?thesis by (auto simp: stored_at_def file_content_def)
  qed (simp add: turned_down_def stored_at_def)
  show "in_i64 (int (length (stored_at path w t)))"
    using content_le_total [OF below_root [OF t], of "srv_files w"] g
    by (simp add: stored_at_def quota_ok_def in_i64_def)
  assume i: "in_i64 off"
  then have o: "fst (ParseInt (FormatInt off)) = off" by (simp add: ParseInt_FormatInt)
  show "\<exists>k. stored_at path (snd (send t off c w)) t = stored_at path w t @ take k c \<and>
      (off \<noteq> int (length (stored_at path w t)) \<longrightarrow> k = 0)"
  proof (rule handled_cases [OF ok t sc, of off c])
    fix n err
    assume "appended (path t) 0 (fst (ParseInt (FormatInt off))) (body_of c body_limit) (srv_files w) n err
        (srv_files (snd (send t off c w)))"
    then show ?thesis using body_of_take [of _ c body_limit] unfolding o appended_def stored_at_def
      by (metis append_Nil2 take_0)
  qed (auto simp: turned_down_def stored_at_def intro: exI [of _ 0])
  show "rep_next (fst (send t off c w)) = 0 \<or>
      rep_next (fst (send t off c w)) = int (length (stored_at path (snd (send t off c w)) t))"
  proof (rule handled_cases [OF ok t sc, of off c])
    fix n err
    assume "answers n err (fst (send t off c w))"
      "appended (path t) 0 (fst (ParseInt (FormatInt off))) (body_of c body_limit) (srv_files w) n err
        (srv_files (snd (send t off c w)))"
    then show ?thesis by (auto simp: answers_def appended_def stored_at_def)
  qed (simp add: turned_down_def)
  assume s: "succeeded (fst (send t off c w))"
  show "off = int (length (stored_at path w t)) \<and>
      stored_at path (snd (send t off c w)) t = stored_at path w t @ c \<and>
      rep_next (fst (send t off c w)) = int (length (stored_at path w t)) + int (length c)"
  proof (rule handled_cases [OF ok t sc, of off c])
    fix n err
    assume a: "answers n err (fst (send t off c w))"
      "appended (path t) 0 (fst (ParseInt (FormatInt off))) (body_of c body_limit) (srv_files w) n err
        (srv_files (snd (send t off c w)))"
    with s have e: "err = None" "rep_next (fst (send t off c w)) = n" by (auto simp: answers_def)
    with a(2) obtain k where k: "file_content (srv_files (snd (send t off c w))) (path t) =
        file_content (srv_files w) (path t) @ take k (rd_data (body_of c body_limit))"
      "take k (rd_data (body_of c body_limit)) = rd_data (body_of c body_limit)" "\<not> rd_fails (body_of c body_limit)"
      "off = int (length (file_content (srv_files w) (path t)))"
      "n = int (length (file_content (srv_files (snd (send t off c w))) (path t)))"
      unfolding appended_def o by blast
    with body_of_whole [OF k(3)] e show ?thesis by (simp add: stored_at_def)
  qed (use s in \<open>simp add: turned_down_def\<close>)
qed

text \<open>
  A handler in a state where it reaches the append takes what fits. \<open>usage\<close> is what \<open>used\<close> measures on a tree
  where nothing is in its way.
\<close>

definition apart :: "(string \<Rightarrow> fpath) \<Rightarrow> string set \<Rightarrow> bool" where
  "apart path names \<longleftrightarrow> (\<forall>t\<in>names. \<forall>u\<in>names. \<not> strict_prefix (path t) (path u))"

definition has_room ::
  "(server \<Rightarrow> bool) \<Rightarrow> (string \<Rightarrow> fpath) \<Rightarrow> string set \<Rightarrow> (fs \<Rightarrow> int) \<Rightarrow> int \<Rightarrow> server \<Rightarrow> nat \<Rightarrow> bool" where
  "has_room ready path names usage limit s n \<longleftrightarrow> ready s \<and> apart path names \<and>
     (\<forall>t\<in>names. free_path (srv_files s) (path t)) \<and> usage (srv_files s) + int n \<le> limit"

locale ready_appends = file_appends +
  fixes ready :: "server \<Rightarrow> bool"
    and usage :: "fs \<Rightarrow> int"
  assumes ready_handled: "scope w \<Longrightarrow> ready w \<Longrightarrow> t \<in> names \<Longrightarrow>
      \<exists>n err. append_file (path t) used limit 0 (fst (ParseInt (FormatInt off))) (body_of c body_limit) (srv_files w) =
          ((n, err), srv_files (snd (send t off c w))) \<and> answers n err (fst (send t off c w))"
    and ready_kept: "ready w \<Longrightarrow> t \<in> names \<Longrightarrow> ready (snd (send t off c w))"
    and path_not_Nil: "t \<in> names \<Longrightarrow> path t \<noteq> []"
    and body_limit_chunk: "1048576 \<le> body_limit"
    and used_usage: "t \<in> names \<Longrightarrow> fs_ok fs \<Longrightarrow> (\<And>q. strict_prefix q (path t) \<Longrightarrow> node fs q = Some Dir) \<Longrightarrow>
      used fs = Inr (usage fs)"
    and usage_grows: "t \<in> names \<Longrightarrow> (\<And>r. total_size fs' r = total_size fs r + (if prefix r (path t) then k else 0)) \<Longrightarrow>
      usage fs' = usage fs + k"
begin

lemma usage_same: "t \<in> names \<Longrightarrow> (\<And>r. total_size fs' r = total_size fs r) \<Longrightarrow> usage fs' = usage fs"
  using usage_grows [of t fs' fs 0] by simp

lemma ready_cases:
  assumes "quota_ok scope root limit w" "ready w" "t \<in> names"
  obtains n err where
    "append_file (path t) used limit 0 (fst (ParseInt (FormatInt off))) (body_of c body_limit) (srv_files w) =
        ((n, err), srv_files (snd (send t off c w)))" "answers n err (fst (send t off c w))"
    "appended (path t) 0 (fst (ParseInt (FormatInt off))) (body_of c body_limit) (srv_files w) n err
        (srv_files (snd (send t off c w)))"
proof -
  have f: "fs_ok (srv_files w)" "scope w" using assms(1) by (simp_all add: quota_ok_def)
  from ready_handled [OF f(2) assms(2,3), of off c] obtain n err where
    a: "append_file (path t) used limit 0 (fst (ParseInt (FormatInt off))) (body_of c body_limit) (srv_files w) =
      ((n, err), srv_files (snd (send t off c w)))" "answers n err (fst (send t off c w))" by blast
  show thesis by (rule that [OF a append_file_facts [OF f(1) a(1) used_error]])
qed

lemma free_paths_kept:
  assumes "apart path names" "\<forall>u\<in>names. free_path fs (path u)" "t \<in> names"
    and "appended (path t) early off src fs n err fs'" "err = None \<or> err = Some ErrOffsetMismatch" "u \<in> names"
  shows "free_path fs' (path u)"
proof (rule free_path_kept)
  show "only_touches (path t) fs fs'" "is_reg (node fs' (path t))" using assms(4,5) unfolding appended_def by blast+
qed (use assms in \<open>auto simp: apart_def\<close>)

end

sublocale ready_appends \<subseteq>
  roomy_service send "stored_at path" "quota_ok scope root limit" names "has_room ready path names usage limit"
proof
  fix w t n off c
  assume g: "quota_ok scope root limit w" and t: "t \<in> names" and h: "has_room ready path names usage limit w n"
  have ok: "fs_ok (srv_files w)" using g by (simp add: quota_ok_def)
  have hr: "ready w" "apart path names" "\<forall>u\<in>names. free_path (srv_files w) (path u)"
    "usage (srv_files w) + int n \<le> limit" using h by (simp_all add: has_room_def)
  have i: "in_i64 (int (length (stored_at path w t)))" by (rule stored_i64 [OF g t])
  obtain m err where a:
    "append_file (path t) used limit 0 (fst (ParseInt (FormatInt off))) (body_of c body_limit) (srv_files w) =
        ((m, err), srv_files (snd (send t off c w)))" "answers m err (fst (send t off c w))"
    "appended (path t) 0 (fst (ParseInt (FormatInt off))) (body_of c body_limit) (srv_files w) m err
        (srv_files (snd (send t off c w)))" by (rule ready_cases [OF g hr(1) t, of off c])
  have fp: "free_path (srv_files w) (path t)" using hr(3) t by blast
  show "succeeded (fst (send t off c w)) \<and> has_room ready path names usage limit (snd (send t off c w)) (n - length c)"
    if o: "off = int (length (stored_at path w t))" and c: "c \<noteq> []" "length c \<le> n" "length c \<le> 1048576"
  proof -
    have p: "fst (ParseInt (FormatInt off)) = off" using i o by (simp add: ParseInt_FormatInt)
    have b: "body_of c body_limit = \<lparr>rd_data = c, rd_fails = False\<rparr>"
      by (rule body_of_small) (use c(3) body_limit_chunk in linarith)
    have u: "used fs2 = Inr (usage (srv_files w))"
      if "fs_ok fs2" "\<And>r. total_size fs2 r = total_size (srv_files w) r"
        "\<And>q. strict_prefix q (path t) \<Longrightarrow> node fs2 q = Some Dir" for fs2
      using used_usage [OF t that(1,3)] usage_same [OF t that(2)] by simp
    have l: "usage (srv_files w) + int (length c) \<le> limit" using hr(4) c(2) by linarith
    have "\<exists>fs'. append_file (path t) used limit 0 off \<lparr>rd_data = c, rd_fails = False\<rparr> (srv_files w) =
        ((off + int (length c), None), fs') \<and>
      (\<forall>r. total_size fs' r = total_size (srv_files w) r + (if prefix r (path t) then int (length c) else 0))"
      by (rule append_file_accepts [OF ok fp path_not_Nil [OF t] o [unfolded stored_at_def] c(1) _ l])
        (rule u)
    then obtain fs' where "append_file (path t) used limit 0 off \<lparr>rd_data = c, rd_fails = False\<rparr> (srv_files w) =
        ((off + int (length c), None), fs')"
      and tot: "\<forall>r. total_size fs' r = total_size (srv_files w) r + (if prefix r (path t) then int (length c) else 0)"
      by blast
    with a(1) [unfolded p b] have "err = None" "srv_files (snd (send t off c w)) = fs'" by simp_all
    with tot have r: "err = None" "\<forall>r. total_size (srv_files (snd (send t off c w))) r =
        total_size (srv_files w) r + (if prefix r (path t) then int (length c) else 0)" by simp_all
    have "usage (srv_files (snd (send t off c w))) = usage (srv_files w) + int (length c)"
      by (rule usage_grows [OF t]) (use r(2) in blast)
    then have "usage (srv_files (snd (send t off c w))) + int (n - length c) \<le> limit" using hr(4) c(2) by linarith
    moreover have "\<forall>u\<in>names. free_path (srv_files (snd (send t off c w))) (path u)"
      using free_paths_kept [OF hr(2,3) t a(3)] r(1) by blast
    ultimately show ?thesis
      using a(2) r(1) hr(2) ready_kept [OF hr(1) t] by (simp add: answers_def has_room_def)
  qed
  show "rep_next (fst (send t off c w)) = int (length (stored_at path w t)) \<and>
      has_room ready path names usage limit (snd (send t off c w)) n"
    if "in_i64 off" "off \<noteq> int (length (stored_at path w t))"
  proof -
    have p: "fst (ParseInt (FormatInt off)) = off" using that(1) by (simp add: ParseInt_FormatInt)
    from append_file_refuses [where used = used and limit = limit and early = 0 and source = "body_of c body_limit",
        OF ok fp path_not_Nil [OF t] that(2) [unfolded stored_at_def]] a(1) [unfolded p]
    have r: "err = Some ErrOffsetMismatch" "m = int (length (stored_at path w t))"
      "\<forall>r. total_size (srv_files (snd (send t off c w))) r = total_size (srv_files w) r"
      by (auto simp: stored_at_def)
    have "usage (srv_files (snd (send t off c w))) = usage (srv_files w)"
      by (rule usage_same [OF t]) (use r(3) in blast)
    moreover have "\<forall>u\<in>names. free_path (srv_files (snd (send t off c w))) (path u)"
      using free_paths_kept [OF hr(2,3) t a(3)] r(1) by blast
    ultimately show ?thesis
      using a(2) r(1,2) hr ready_kept [OF hr(1) t] by (auto simp: answers_def has_room_def)
  qed
qed

end
