(* ===== verification/Uploads.thy ===== *)
theory Uploads
  imports FileAppends FileSteps
begin

text \<open>
  The handlers for logs and for checkpoint files fulfil the contract of the agent's uploads: the
  interpretations of \<open>ready_appends\<close> on the model's own handlers.
\<close>

section \<open>Logs\<close>

definition log_request ::
  "file_config \<Rightarrow> string \<Rightarrow> string \<Rightarrow> string \<Rightarrow> gotime \<Rightarrow> string \<Rightarrow> int \<Rightarrow> string \<Rightarrow> server \<Rightarrow> reply \<times> server" where
  "log_request cfg nodeID jobID attemptID now stream offset chunk s =
     putLog cfg nodeID jobID stream attemptID (FormatInt offset) \<lparr>rd_data = chunk, rd_fails = False\<rparr> now s"

definition log_dir :: "string \<Rightarrow> string \<Rightarrow> fpath" where
  "log_dir jobID attemptID = [''jobs'', jobID, ''attempts'', attemptID, ''logs'']"

definition log_path :: "string \<Rightarrow> string \<Rightarrow> string \<Rightarrow> fpath" where
  "log_path jobID attemptID stream = log_dir jobID attemptID @ [stream @ ''.log'']"

definition log_streams :: "string set" where
  "log_streams = {''stdout'', ''stderr'', ''.order''}"

text \<open>The job runs this attempt on the node.\<close>

definition runs_on :: "string \<Rightarrow> string \<Rightarrow> string \<Rightarrow> db \<Rightarrow> bool" where
  "runs_on nodeID jobID attemptID d \<longleftrightarrow>
     (case Job jobID d of
        Inl e \<Rightarrow> False
      | Inr job \<Rightarrow> job_AssignedNodeID job = nodeID \<and> job_AttemptID job = attemptID)"

definition log_ready :: "string \<Rightarrow> string \<Rightarrow> string \<Rightarrow> server \<Rightarrow> bool" where
  "log_ready nodeID jobID attemptID s \<longleftrightarrow>
     runs_on nodeID jobID attemptID (srv_db s) \<and> safeSegment jobID \<and> safeSegment attemptID"

lemma append_server_event_jobs: "tbl_jobs (snd (append_server_event_loop k i ty p now d)) = tbl_jobs d"
  by (induction k i ty p now d rule: append_server_event_loop.induct)
    (auto simp: push_event_def Let_def split: option.splits)

lemma Job_cong: "tbl_jobs d' = tbl_jobs d \<Longrightarrow> Job i d' = Job i d"
  by (simp add: Job_def job_row_def)

lemma Job_ID: "Job i d = Inr job \<Longrightarrow> job_ID job = i"
  by (auto simp: Job_def job_row_def scanJob_def find_Some_iff split: option.splits)

lemma log_request_cases:
  assumes "t \<in> log_streams"
  shows "turned_down w (log_request cfg n j a now t off c w) \<and> \<not> log_ready n j a w \<or>
    (\<exists>k err. append_file (log_path j a t) (\<lambda>fs. directorySize fs (log_dir j a)) (maxLogBytes cfg) 0
        (fst (ParseInt (FormatInt off))) (body_of c 4194304) (srv_files w) =
        ((k, err), srv_files (snd (log_request cfg n j a now t off c w))) \<and>
      answers k err (fst (log_request cfg n j a now t off c w)))"
    and "tbl_jobs (srv_db (snd (log_request cfg n j a now t off c w))) = tbl_jobs (srv_db w)"
proof -
  let ?p = "fst (ParseInt (FormatInt off))" and ?src = "body_of c 4194304"
  have v: "validLogStream t" using assms by (auto simp: validLogStream_def log_streams_def)

  show "tbl_jobs (srv_db (snd (log_request cfg n j a now t off c w))) = tbl_jobs (srv_db w)"
    by (auto simp: log_request_def putLog_def AppendServerEvent_def append_server_event_jobs Let_def
        split: sum.splits prod.splits option.splits)
  show "turned_down w (log_request cfg n j a now t off c w) \<and> \<not> log_ready n j a w \<or>
    (\<exists>k err. append_file (log_path j a t) (\<lambda>fs. directorySize fs (log_dir j a)) (maxLogBytes cfg) 0
        ?p ?src (srv_files w) = ((k, err), srv_files (snd (log_request cfg n j a now t off c w))) \<and>
      answers k err (fst (log_request cfg n j a now t off c w)))"
  proof (cases "log_ready n j a w")
    case True
    then obtain job where job: "Job j (srv_db w) = Inr job" "job_AssignedNodeID job = n" "job_AttemptID job = a"
      "safeSegment j" "safeSegment a" "a \<noteq> ''''" "job_ID job = j"
      by (auto simp: log_ready_def runs_on_def safeSegment_def split: sum.splits dest: Job_ID)
    then have dd: "dataDir j a = Inr [''jobs'', j, ''attempts'', a]" by (simp add: dataDir_def JobDir_def)
    have lf: "log_file [''jobs'', j, ''attempts'', a] t = log_path j a t"
      using log_file_valid [OF v] by (simp add: log_path_def log_dir_def)
    obtain k err fs' where ap: "append_file (log_path j a t) (\<lambda>fs. directorySize fs (log_dir j a)) (maxLogBytes cfg) 0
        ?p ?src (srv_files w) = ((k, err), fs')" by (metis surj_pair)
    then have "AppendAttemptLog cfg j a t ?p ?src (srv_files w) = ((k, err), fs')"
      using v dd lf by (simp add: AppendAttemptLog_def appendLog_def log_dir_def)
    then have r: "log_request cfg n j a now t off c w =
        (case ((k, err), fs') of
           ((n, None), fs) \<Rightarrow> (next_offset 200 n, w\<lparr>srv_files := fs\<rparr>)
         | ((n, Some e), fs) \<Rightarrow>
             let s = w\<lparr>srv_files := fs\<rparr> in
             if e = ErrOffsetMismatch then (next_offset 409 n, s)
             else if e = ErrLimitExceeded then
               (next_offset 413 n, s\<lparr>srv_db := snd (AppendServerEvent j ''log_limit_exceeded'' [] now (srv_db s))\<rparr>)
             else (writeProblem 500 ''log_write_failed'', s))"
      using job by (auto simp: log_request_def putLog_def body_of_def split: option.split)
    then have "srv_files (snd (log_request cfg n j a now t off c w)) = fs'"
      "answers k err (fst (log_request cfg n j a now t off c w))"
      by (auto simp: answers_def Let_def next_offset_def writeProblem_def succeeded_def split: option.splits)
    with ap show ?thesis by blast
  next
    case False
    have "turned_down w (log_request cfg n j a now t off c w)"
    proof (cases "Job j (srv_db w)")
      case (Inl e)
      then show ?thesis
        by (cases e) (simp_all add: log_request_def putLog_def turned_down_def writeStoreError_def writeProblem_def succeeded_def)
    next
      case (Inr job)
      show ?thesis
      proof (cases "job_AssignedNodeID job = n \<and> a \<noteq> '''' \<and> a = job_AttemptID job")
        case False
        with Inr show ?thesis
          by (auto simp: log_request_def putLog_def turned_down_def writeProblem_def succeeded_def)
      next
        case True
        with Inr False have "\<not> (safeSegment j \<and> safeSegment a)" by (auto simp: log_ready_def runs_on_def)
        then have "\<exists>msg. dataDir j a = Inl (ErrText msg)" using True by (auto simp: dataDir_def JobDir_def)
        then obtain msg where "dataDir j a = Inl (ErrText msg)" by blast
        then have "AppendAttemptLog cfg j a t p src fs = ((0, Some (ErrText msg)), fs)" for p src fs
          using v by (simp add: AppendAttemptLog_def appendLog_def)
        with Inr True Job_ID [OF Inr] show ?thesis
          by (simp add: log_request_def putLog_def turned_down_def writeProblem_def succeeded_def Let_def)
      qed
    qed
    with False show ?thesis by blast
  qed
qed

lemma log_path_below: "prefix (log_dir j a) (log_path j a t)"
  by (simp add: log_path_def)

interpretation logs: ready_appends "log_request cfg n j a now" "log_path j a"
    "\<lambda>fs. directorySize fs (log_dir j a)" "maxLogBytes cfg" 4194304 "log_dir j a" log_streams "\<lambda>s. True"
    "log_ready n j a" "\<lambda>fs. total_size fs (log_dir j a)"
  for cfg n j a now
proof unfold_locales
  fix w t off c
  show "turned_down w (log_request cfg n j a now t off c w) \<or>
      (\<exists>k err. append_file (log_path j a t) (\<lambda>fs. directorySize fs (log_dir j a)) (maxLogBytes cfg) 0
          (fst (ParseInt (FormatInt off))) (body_of c 4194304) (srv_files w) =
          ((k, err), srv_files (snd (log_request cfg n j a now t off c w))) \<and>
        answers k err (fst (log_request cfg n j a now t off c w)))" if "t \<in> log_streams"
    using log_request_cases(1) [OF that] by blast
  show "\<exists>k err. append_file (log_path j a t) (\<lambda>fs. directorySize fs (log_dir j a)) (maxLogBytes cfg) 0
          (fst (ParseInt (FormatInt off))) (body_of c 4194304) (srv_files w) =
          ((k, err), srv_files (snd (log_request cfg n j a now t off c w))) \<and>
        answers k err (fst (log_request cfg n j a now t off c w))" if "log_ready n j a w" "t \<in> log_streams"
    using log_request_cases(1) [OF that(2), of w cfg n j a now off c] that(1) by blast
  show "log_ready n j a (snd (log_request cfg n j a now t off c w))" if "log_ready n j a w" "t \<in> log_streams"
  proof -
    have "Job j (srv_db (snd (log_request cfg n j a now t off c w))) = Job j (srv_db w)"
      by (rule Job_cong) (rule log_request_cases(2) [OF that(2)])
    with that(1) show ?thesis by (simp add: log_ready_def runs_on_def)
  qed
  show "e = NotDir" if "directorySize fs (log_dir j a) = Inl e" for fs e by (rule directorySize_error [OF that])
  show "total_size fs (log_dir j a) \<le> amount" if "directorySize fs (log_dir j a) = Inr amount" for fs amount
    using directorySize_Inr [OF that] by simp
  show "directorySize fs (log_dir j a) = Inr (total_size fs (log_dir j a))"
    if "\<And>q. strict_prefix q (log_path j a t) \<Longrightarrow> node fs q = Some Dir" for fs
  proof -
    have "strict_prefix (log_dir j a) (log_path j a t)" by (simp add: log_path_def strict_prefix_def)
    from that [OF this] show ?thesis by (simp add: directorySize_total)
  qed
  show "total_size fs' (log_dir j a) = total_size fs (log_dir j a) + k"
    if "\<And>r. total_size fs' r = total_size fs r + (if prefix r (log_path j a t) then k else 0)" for fs fs' k
    using that [of "log_dir j a"] by (simp add: log_path_below)
qed (simp_all add: log_path_below, simp_all add: log_path_def)

section \<open>Checkpoints\<close>

definition checkpoint_request ::
  "file_config \<Rightarrow> string \<Rightarrow> string \<Rightarrow> string \<Rightarrow> int \<Rightarrow> string \<Rightarrow> server \<Rightarrow> reply \<times> server" where
  "checkpoint_request cfg nodeID syncID name offset chunk s =
     putCheckpoint cfg nodeID syncID name (FormatInt offset) \<lparr>rd_data = chunk, rd_fails = False\<rparr> s"

definition staging_path :: "string \<Rightarrow> string \<Rightarrow> string \<Rightarrow> fpath" where
  "staging_path jobID syncID name = [''jobs'', jobID, ''checkpoint-staging'', syncID] @ split_on (CHR ''/'') name"

text \<open>A relative name as \<^verbatim>\<open>filepath.Rel\<close> gives it for a file below a directory, without backslashes.\<close>

definition canonical :: "string \<Rightarrow> bool" where
  "canonical name \<longleftrightarrow> safeRelativePath name = Inr name \<and> name \<noteq> ''..''"

definition canonical_names :: "string set \<Rightarrow> string set" where
  "canonical_names N = {name\<in>N. canonical name}"

definition sync_of_job :: "string \<Rightarrow> string \<Rightarrow> server \<Rightarrow> bool" where
  "sync_of_job syncID jobID s \<longleftrightarrow>
     (case CheckpointSync_by_id syncID (srv_db s) of Inl e \<Rightarrow> True | Inr item \<Rightarrow> sync_JobID item = jobID)"

definition checkpoint_ready :: "string \<Rightarrow> string \<Rightarrow> string \<Rightarrow> server \<Rightarrow> bool" where
  "checkpoint_ready nodeID jobID syncID s \<longleftrightarrow> safeSegment jobID \<and> safeSegment syncID \<and>
     (case checkpointForAgent nodeID syncID (srv_db s) of
        Inl answer \<Rightarrow> False | Inr (item, job) \<Rightarrow> sync_ConfirmedAt item = None)"

definition checkpoint_usage :: "string \<Rightarrow> fs \<Rightarrow> int" where
  "checkpoint_usage jobID fs = total_size fs [''jobs'', jobID, ''output''] +
     total_size fs [''jobs'', jobID, ''checkpoints''] + total_size fs [''jobs'', jobID, ''checkpoint-staging'']"

lemma Rel_append: "Rel root (root @ us) = us"
  by (induction root) (cases us, simp_all)

lemma canonical_path:
  assumes "canonical name"
  shows "Join root name = root @ split_on (CHR ''/'') name" "within root (root @ split_on (CHR ''/'') name)"
proof -
  from assms have "safeRelativePath name = Inr name" "name \<noteq> ''..''" by (simp_all add: canonical_def)
  from safeRelativePath_elements [OF this(1)] this(2) obtain us where
    us: "us \<noteq> []" "list_all ordinary_element us" "name = join_with (CHR ''/'') us" by blast
  note j = Join_ordinary [OF us(1,2), folded us(3)]
  show "Join root name = root @ split_on (CHR ''/'') name" using j by simp
  have "hd us \<noteq> ''..''" using us(1,2) by (cases us) (auto simp: ordinary_element_def)
  then show "within root (root @ split_on (CHR ''/'') name)"
    using j(2) by (auto simp: within_def Rel_append split: list.splits)
qed

lemma CheckpointSync_by_id_ID: "CheckpointSync_by_id i d = Inr item \<Longrightarrow> sync_ID item = i"
  by (auto simp: CheckpointSync_by_id_def scanCheckpointObservation_def find_Some_iff split: option.splits)

lemma checkpointForAgent_Inr:
  assumes "checkpointForAgent n c d = Inr (item, job)"
  shows "CheckpointSync_by_id c d = Inr item" "sync_ID item = c" "Job (sync_JobID item) d = Inr job"
    "job_ID job = sync_JobID item"
  using assms by (auto simp: checkpointForAgent_def CheckpointSync_by_id_ID Job_ID split: sum.splits if_splits)

lemma writeStoreError_down: "\<not> succeeded (writeStoreError e) \<and> rep_next (writeStoreError e) = 0"
  by (cases e) (simp_all add: writeStoreError_def writeProblem_def succeeded_def)

lemma checkpointForAgent_Inl:
  "checkpointForAgent n c d = Inl answer \<Longrightarrow> \<not> succeeded answer \<and> rep_next answer = 0"
  using writeStoreError_down
  by (auto simp: checkpointForAgent_def writeProblem_def succeeded_def split: sum.splits if_splits)

lemma putCheckpoint_db [simp]: "srv_db (snd (checkpoint_request cfg n c t off chunk s)) = srv_db s"
  by (auto simp: checkpoint_request_def putCheckpoint_def split: sum.splits prod.splits option.splits)

lemma checkpoint_request_cases:
  assumes "canonical t" "sync_of_job c j w"
  shows "turned_down w (checkpoint_request cfg n c t off chunk w) \<and> \<not> checkpoint_ready n j c w \<or>
    (\<exists>k err. append_file (staging_path j c t) (checkpoint_used [''jobs'', j]) (maxOutputBytes cfg) 0
        (fst (ParseInt (FormatInt off))) (body_of chunk 8388608) (srv_files w) =
        ((k, err), srv_files (snd (checkpoint_request cfg n c t off chunk w))) \<and>
      answers k err (fst (checkpoint_request cfg n c t off chunk w)))"
proof -
  let ?p = "fst (ParseInt (FormatInt off))" and ?src = "body_of chunk 8388608"
  note d = checkpoint_request_def putCheckpoint_def
  show ?thesis
  proof (cases "checkpointForAgent n c (srv_db w)")
    case (Inl answer)
    with checkpointForAgent_Inl [OF Inl] have "turned_down w (checkpoint_request cfg n c t off chunk w)"
      by (simp add: d turned_down_def)
    with Inl show ?thesis by (simp add: checkpoint_ready_def)
  next
    case (Inr x)
    obtain item job where x: "checkpointForAgent n c (srv_db w) = Inr (item, job)" using Inr by (cases x) auto
    note f = checkpointForAgent_Inr [OF x]
    have j: "sync_JobID item = j" using assms(2) f(1) by (simp add: sync_of_job_def)
    show ?thesis
    proof (cases "sync_ConfirmedAt item = None")
      case False
      with x have "turned_down w (checkpoint_request cfg n c t off chunk w)"
        by (simp add: d turned_down_def writeProblem_def succeeded_def)
      with False x show ?thesis by (simp add: checkpoint_ready_def)
    next
      case True
      obtain k err fs' where ap: "AppendCheckpoint cfg j c t ?p ?src (srv_files w) = ((k, err), fs')" by (metis surj_pair)
      have r: "checkpoint_request cfg n c t off chunk w =
          (case ((k, err), fs') of
             ((n, None), fs) \<Rightarrow> (next_offset 200 n, w\<lparr>srv_files := fs\<rparr>)
           | ((n, Some e), fs) \<Rightarrow>
               (if e = ErrOffsetMismatch then next_offset 409 n
                else if e = ErrLimitExceeded then next_offset 413 n
                else writeProblem 422 ''invalid_checkpoint'', w\<lparr>srv_files := fs\<rparr>))"
        using x True f j ap by (simp add: d body_of_def)
      have a: "srv_files (snd (checkpoint_request cfg n c t off chunk w)) = fs'"
        "answers k err (fst (checkpoint_request cfg n c t off chunk w))"
        unfolding r by (auto simp: answers_def next_offset_def writeProblem_def succeeded_def split: option.splits)
      show ?thesis
      proof (cases "safeSegment j \<and> safeSegment c")
        case safe: True
        let ?root = "[''jobs'', j, ''checkpoint-staging'', c]"
        have "AppendCheckpoint cfg j c t ?p ?src (srv_files w) =
            append_file (staging_path j c t) (checkpoint_used [''jobs'', j]) (maxOutputBytes cfg) 0 ?p ?src (srv_files w)"
          using assms(1) safe canonical_path [OF assms(1), of ?root]
          by (simp add: AppendCheckpoint_def canonical_def JobDir_def Let_def staging_path_def)
        with ap a show ?thesis by auto
      next
        case False
        then have "fs' = srv_files w" "err \<noteq> None" "err \<noteq> Some ErrOffsetMismatch" "err \<noteq> Some ErrLimitExceeded"
          using ap assms(1) by (auto simp: AppendCheckpoint_def canonical_def JobDir_def split: if_splits)
        with a r have "turned_down w (checkpoint_request cfg n c t off chunk w)"
          by (auto simp: turned_down_def writeProblem_def succeeded_def split: option.splits)
        with False show ?thesis by (auto simp: checkpoint_ready_def)
      qed
    qed
  qed
qed

lemma total_mono:
  assumes "prefix D E"
  shows "total_size fs E \<le> total_size fs D"
  unfolding total_size_def
proof (rule sum_list_mono)
  fix e assume "e \<in> set fs"
  show "(case e of (p, n) \<Rightarrow> if prefix E p then node_size n else 0) \<le>
      (case e of (p, n) \<Rightarrow> if prefix D p then node_size n else 0)"
    using assms node_size_nonneg by (auto split: prod.splits intro: prefix_order.trans)
qed

lemma total_nonneg: "0 \<le> total_size fs D"
  unfolding total_size_def by (rule sum_list_nonneg) (auto simp: node_size_nonneg)

lemma checkpoint_used_Inr:
  "checkpoint_used [''jobs'', j] fs = Inr u \<Longrightarrow> u = checkpoint_usage j fs"
  by (auto simp: checkpoint_used_def checkpoint_usage_def dest: directorySize_Inr split: sum.splits)

interpretation checkpoints: ready_appends "checkpoint_request cfg n c" "staging_path j c"
    "checkpoint_used [''jobs'', j]" "maxOutputBytes cfg" 8388608 "[''jobs'', j, ''checkpoint-staging'', c]"
    "canonical_names N" "sync_of_job c j" "checkpoint_ready n j c" "checkpoint_usage j"
  for cfg n c j N
proof unfold_locales
  fix w t off chunk
  show "turned_down w (checkpoint_request cfg n c t off chunk w) \<or>
      (\<exists>k err. append_file (staging_path j c t) (checkpoint_used [''jobs'', j]) (maxOutputBytes cfg) 0
          (fst (ParseInt (FormatInt off))) (body_of chunk 8388608) (srv_files w) =
          ((k, err), srv_files (snd (checkpoint_request cfg n c t off chunk w))) \<and>
        answers k err (fst (checkpoint_request cfg n c t off chunk w)))"
    if "sync_of_job c j w" "t \<in> canonical_names N"
    using checkpoint_request_cases [OF _ that(1), of t cfg n off chunk] that(2) by (auto simp: canonical_names_def)
  show "\<exists>k err. append_file (staging_path j c t) (checkpoint_used [''jobs'', j]) (maxOutputBytes cfg) 0
          (fst (ParseInt (FormatInt off))) (body_of chunk 8388608) (srv_files w) =
          ((k, err), srv_files (snd (checkpoint_request cfg n c t off chunk w))) \<and>
        answers k err (fst (checkpoint_request cfg n c t off chunk w))"
    if "sync_of_job c j w" "checkpoint_ready n j c w" "t \<in> canonical_names N"
    using checkpoint_request_cases [OF _ that(1), of t cfg n off chunk] that(2,3) by (auto simp: canonical_names_def)
  show "sync_of_job c j (snd (checkpoint_request cfg n c t off chunk w))" if "sync_of_job c j w"
    using that by (simp add: sync_of_job_def)
  show "checkpoint_ready n j c (snd (checkpoint_request cfg n c t off chunk w))" if "checkpoint_ready n j c w"
    using that by (simp add: checkpoint_ready_def)
  show "prefix [''jobs'', j, ''checkpoint-staging'', c] (staging_path j c t)"
    by (simp add: staging_path_def)
  show "staging_path j c t \<noteq> []" by (simp add: staging_path_def)
  show "t = u" if "staging_path j c t = staging_path j c u" for u
    using that join_split by (metis same_append_eq staging_path_def)
  show "e = NotDir" if "checkpoint_used [''jobs'', j] fs = Inl e" for fs e by (rule checkpoint_used_error [OF that])
  show "total_size fs [''jobs'', j, ''checkpoint-staging'', c] \<le> amount"
    if "checkpoint_used [''jobs'', j] fs = Inr amount" for fs amount
    using checkpoint_used_Inr [OF that] total_nonneg [of fs "[''jobs'', j, ''output'']"]
      total_nonneg [of fs "[''jobs'', j, ''checkpoints'']"]
      total_mono [of "[''jobs'', j, ''checkpoint-staging'']" "[''jobs'', j, ''checkpoint-staging'', c]" fs]
    by (simp add: checkpoint_usage_def)
  show "checkpoint_used [''jobs'', j] fs = Inr (checkpoint_usage j fs)"
    if "\<And>q. strict_prefix q (staging_path j c t) \<Longrightarrow> node fs q = Some Dir" for fs
  proof -
    have d: "node fs q = Some Dir" if "prefix q [''jobs'', j]" for q
      by (rule \<open>\<And>q. strict_prefix q (staging_path j c t) \<Longrightarrow> node fs q = Some Dir\<close>)
        (use that in \<open>auto simp: staging_path_def strict_prefix_def prefix_Cons\<close>)
    have "\<not> blocked fs [''jobs'', j, x]" for x
    proof -
      have "prefix q [''jobs'', j]" if "strict_prefix q [''jobs'', j, x]" for q
        using that by (auto simp: strict_prefix_def prefix_Cons)
      with d show ?thesis by (fastforce simp: blocked_def list_ex_iff set_ancestors)
    qed
    then show ?thesis by (simp add: checkpoint_used_def checkpoint_usage_def directorySize_total)
  qed
  show "checkpoint_usage j fs' = checkpoint_usage j fs + k"
    if "\<And>r. total_size fs' r = total_size fs r + (if prefix r (staging_path j c t) then k else 0)" for fs fs' k
    using that [of "[''jobs'', j, ''output'']"] that [of "[''jobs'', j, ''checkpoints'']"]
      that [of "[''jobs'', j, ''checkpoint-staging'']"]
    by (simp add: checkpoint_usage_def staging_path_def)
qed simp

end
