(* ===== verification/InputFacts.thy ===== *)
theory InputFacts
  imports AgentInputs Uploads
begin

text \<open>
  What the materialisation of inputs does to the file system of the host: nothing outside the input directory,
  and inside it exactly the verified files of the manifest, or nothing at all.
\<close>

lemma materializedPath_Inr:
  assumes "materializedPath root p = Inr dest" "root \<noteq> []"
  shows "\<exists>us. us \<noteq> [] \<and> list_all ordinary_element us \<and> path_clean (slashed p) = join_with (CHR ''/'') us \<and> dest = root @ us"
proof -
  let ?c = "path_clean (slashed p)"
  have s: "safeRelativePath p = Inr ?c" and d: "dest = Join root ?c"
    and r: "(case Rel root dest of [] \<Rightarrow> True | x # xs \<Rightarrow> x \<noteq> ''..'')"
    using assms by (auto simp: materializedPath_def safeRelativePath_def Let_def split: if_splits list.splits)
  from safeRelativePath_elements [OF s] show ?thesis
  proof
    assume c: "?c = ''..''"
    have "prefix root dest" by (rule within_prefix) (use r in \<open>simp add: within_def\<close>)
    moreover have "dest = butlast root \<or> dest = root @ [''..'']"
      unfolding d c by (cases root rule: rev_cases) (simp_all add: Join_def clean_step_def)
    moreover have "dest \<noteq> root @ [''..'']" using r by (auto simp: Rel_append)
    ultimately have "root = []" by (cases root rule: rev_cases) auto
    with assms(2) show ?thesis by simp
  next
    assume "\<exists>us. us \<noteq> [] \<and> list_all ordinary_element us \<and> ?c = join_with (CHR ''/'') us"
    then show ?thesis using d Join_ordinary(1) by metis
  qed
qed

lemma materializedPath_below:
  "materializedPath root p = Inr dest \<Longrightarrow> root \<noteq> [] \<Longrightarrow> strict_prefix root dest"
  using materializedPath_Inr [of root p dest] by (auto simp: strict_prefix_def)

lemma materializedPath_inj:
  assumes "materializedPath root p = Inr d" "materializedPath root q = Inr d" "root \<noteq> []"
  shows "path_clean (slashed p) = path_clean (slashed q)"
  using materializedPath_Inr [OF assms(1,3)] materializedPath_Inr [OF assms(2,3)] by auto

text \<open>What a file of the manifest has to look like.\<close>

definition matches :: "InputFile \<Rightarrow> string \<Rightarrow> bool" where
  "matches f data \<longleftrightarrow> int (length data) = input_Size f \<and> SHA256 data = input_SHA256 f"

lemma downloadInput_facts:
  assumes "downloadInput answer dest item fs = (err, fs')" "fs_ok fs" "dest \<noteq> []"
  shows "fs_ok fs' \<and> (\<forall>q. q \<noteq> dest \<longrightarrow> node fs' q = node fs q) \<and>
    (case err of Some e \<Rightarrow> fs' = fs
     | None \<Rightarrow> \<exists>data. node fs' dest = Some (Reg 292 data) \<and> matches item data)"
proof (cases err)
  case (Some e)
  with assms(1,2) show ?thesis by (auto simp: downloadInput_def Let_def split: option.splits if_splits)
next
  case None
  then obtain data where d: "fs' = put dest (Reg 292 data) fs" "matches item data"
    "node fs (butlast dest) = Some Dir" "node fs dest \<noteq> Some Dir"
    using assms(1) by (auto simp: downloadInput_def Let_def matches_def split: option.splits if_splits)
  have "node fs dest = None \<or> is_reg (node fs dest)"
    using d(4) by (cases "node fs dest" rule: is_reg.cases) auto
  then have "fs_ok fs'" unfolding d(1) using assms(2,3) d(3) by (intro put_ok) auto
  with d None show ?thesis by auto
qed

definition placed :: "fpath \<Rightarrow> InputFile list \<Rightarrow> fpath \<Rightarrow> bool" where
  "placed root items p \<longleftrightarrow> (\<exists>f\<in>set items. materializedPath root (input_Path f) = Inr p)"

definition same_place :: "fpath \<Rightarrow> InputFile \<Rightarrow> InputFile \<Rightarrow> bool" where
  "same_place root f g \<longleftrightarrow> materializedPath root (input_Path f) = materializedPath root (input_Path g)"

text \<open>Any two files of the list have different places.\<close>

definition apart_files :: "fpath \<Rightarrow> InputFile list \<Rightarrow> bool" where
  "apart_files root items \<longleftrightarrow> distinct (map (\<lambda>f. path_clean (slashed (input_Path f))) items)"

lemma materialize_files_facts:
  assumes "materialize_files fetch root items fs net = (err, fs', net')" "fs_ok fs" "node fs root = Some Dir"
    and "apart_files root items" "root \<noteq> []"
  shows "fs_ok fs' \<and> node fs' root = Some Dir \<and> (\<forall>q. \<not> prefix root q \<longrightarrow> node fs' q = node fs q) \<and>
    (err = None \<longrightarrow>
      (\<forall>q m d. node fs' q = Some (Reg m d) \<longrightarrow> placed root items q \<or> node fs q = Some (Reg m d)) \<and>
      (\<forall>q m d. node fs q = Some (Reg m d) \<longrightarrow> placed root items q \<or> node fs' q = Some (Reg m d)) \<and>
      (\<forall>f\<in>set items. \<exists>p data. materializedPath root (input_Path f) = Inr p \<and>
         node fs' p = Some (Reg 292 data) \<and> matches f data))"
  using assms
proof (induction items arbitrary: fs net)
  case (Cons item items)
  show ?case
  proof (cases "materializedPath root (input_Path item)")
    case (Inl e)
    with Cons.prems show ?thesis by auto
  next
    case (Inr dest)
    have b: "strict_prefix root dest" by (rule materializedPath_below [OF Inr Cons.prems(5)])
    then have pb: "prefix root (butlast dest)" "dest \<noteq> []" "dest \<noteq> root" "prefix root dest"
      by (auto simp: strict_prefix_def prefix_def butlast_append)
    show ?thesis
    proof (cases "MkdirAll (butlast dest) fs")
      case (Inl e)
      with Inr Cons.prems show ?thesis by auto
    next
      case mk: (Inr fs1)
      have ok1: "fs_ok fs1" by (rule MkdirAll_ok [OF Cons.prems(2) mk])
      have up: "node fs q = Some Dir" if "prefix q root" for q
        using ancestor_dir [OF Cons.prems(2), of root q] Cons.prems(3) that by (cases "q = root") (auto simp: strict_prefix_def)
      have n1: "node fs1 q = node fs q" if "\<not> prefix root q" for q
      proof -
        have "prefix q root \<or> prefix root q" if "prefix q (butlast dest)"
          using that pb(1) prefix_same_cases by blast
        with MkdirAll_node [OF mk, of q] up that show ?thesis by auto
      qed
      have r1: "node fs1 q = Some (Reg m d) \<longleftrightarrow> node fs q = Some (Reg m d)" for q m d
        using MkdirAll_node [OF mk, of q] by auto
      have d1: "node fs1 root = Some Dir" using MkdirAll_node [OF mk, of root] Cons.prems(3) by simp
      obtain answer net1 where g: "http_get (fetch (input_Path item)) net = (answer, net1)" by (metis surj_pair)
      obtain e2 fs2 where dl: "downloadInput answer dest item fs1 = (e2, fs2)" by (metis surj_pair)
      note f2 = downloadInput_facts [OF dl ok1 pb(2)]
      have n2: "node fs2 q = node fs q" if "\<not> prefix root q" for q
        using f2 n1 [OF that] that pb(4) by metis
      have d2: "node fs2 root = Some Dir" using f2 d1 pb(3) by metis
      show ?thesis
      proof (cases e2)
        case (Some e)
        with Inr mk g dl Cons.prems(1) have "err = Some e" "fs' = fs2" by simp_all
        with f2 n2 d2 show ?thesis by simp
      next
        case None
        with Inr mk g dl Cons.prems(1) have rest: "materialize_files fetch root items fs2 net1 = (err, fs', net')" by simp
        have ap: "apart_files root items" and nd: "\<not> placed root items dest"
        proof -
          show "apart_files root items" using Cons.prems(4) by (simp add: apart_files_def)
          show "\<not> placed root items dest"
          proof
            assume "placed root items dest"
            then obtain g where "g \<in> set items" "materializedPath root (input_Path g) = Inr dest" by (auto simp: placed_def)
            with materializedPath_inj [OF Inr _ Cons.prems(5)] Cons.prems(4) show False by (force simp: apart_files_def)
          qed
        qed
        obtain data where data: "node fs2 dest = Some (Reg 292 data)" "matches item data" using f2 None by auto
        note ih = Cons.IH [OF rest conjunct1 [OF f2] d2 ap Cons.prems(5)]
        have o2: "node fs2 q = Some (Reg m d) \<longleftrightarrow> node fs q = Some (Reg m d)" if "q \<noteq> dest" for q m d
          using f2 r1 that by metis
        have pl: "placed root (item # items) q \<longleftrightarrow> q = dest \<or> placed root items q" for q
          using Inr by (auto simp: placed_def)
        show ?thesis
        proof (intro conjI impI allI ballI)
          show "fs_ok fs'" "node fs' root = Some Dir" using ih by blast+
          show "node fs' q = node fs q" if "\<not> prefix root q" for q using ih n2 that by metis
          fix q m d
          assume e: "err = None"
          show "placed root (item # items) q \<or> node fs q = Some (Reg m d)" if "node fs' q = Some (Reg m d)"
            using ih e o2 [of q m d] that pl by blast
          show "placed root (item # items) q \<or> node fs' q = Some (Reg m d)" if "node fs q = Some (Reg m d)"
            using ih e o2 [of q m d] that pl by blast
          fix f assume f: "f \<in> set (item # items)"
          show "\<exists>p data. materializedPath root (input_Path f) = Inr p \<and> node fs' p = Some (Reg 292 data) \<and> matches f data"
          proof (cases "f \<in> set items")
            case False
            with f have "f = item" by simp
            moreover have "node fs' dest = Some (Reg 292 data)" using ih e nd data(1) by blast
            ultimately show ?thesis using Inr data(2) by blast
          qed (use ih e in blast)
        qed
      qed
    qed
  qed
qed simp

lemma clean_up_inputs_facts:
  assumes "fs_ok fs" "root \<noteq> []"
  shows "fs_ok (clean_up_inputs root fs)"
    and "\<not> prefix root q \<Longrightarrow> node (clean_up_inputs root fs) q = node fs q"
    and "prefix root q \<Longrightarrow> node (clean_up_inputs root fs) q = None"
proof -
  consider "node fs root = None" "clean_up_inputs root fs = fs"
    | "clean_up_inputs root fs = RemoveAll root fs"
    by (cases "node fs root") (auto simp: clean_up_inputs_def removeMaterializedInputs_def Lstat_def split: if_splits)
  note c = this
  show "fs_ok (clean_up_inputs root fs)"
    by (cases rule: c) (use assms RemoveAll_ok in auto)
  show "\<not> prefix root q \<Longrightarrow> node (clean_up_inputs root fs) q = node fs q"
    by (cases rule: c) auto
  show "prefix root q \<Longrightarrow> node (clean_up_inputs root fs) q = None"
    by (cases rule: c) (use assms nothing_below in auto)
qed

lemma removeMaterializedInputs_facts:
  assumes "removeMaterializedInputs root fs = Inr fs'" "fs_ok fs" "root \<noteq> []"
  shows "fs_ok fs'" "\<not> prefix root q \<Longrightarrow> node fs' q = node fs q" "prefix root q \<Longrightarrow> node fs' q = None"
  using clean_up_inputs_facts [OF assms(2,3)] assms(1) by (simp_all add: clean_up_inputs_def)

lemma workspaceChild_below: "workspaceChild w root \<Longrightarrow> strict_prefix w root"
  using Rel_prefix [of w root]
  by (auto simp: workspaceChild_def strict_prefix_def split: list.splits)
    (metis Rel_append append_Nil2 prefixE list.distinct(1))

end
