(* ===== verification/RunFacts.thy ===== *)
theory RunFacts
  imports AgentRun InputFacts
begin

text \<open>
  The effect of the steps of an execution on Docker, the host's file system and the record.
\<close>

section \<open>Steps that leave the container alone\<close>

text \<open>Nothing but stops of the container is asked of Docker; the files and the identity of the run stay.\<close>

definition quiet :: "'s host \<Rightarrow> 's host \<Rightarrow> bool" where
  "quiet h h' \<longleftrightarrow> (\<exists>calls. h_docker h' = h_docker h @ calls \<and> (\<forall>x\<in>set calls. \<exists>c. x = StopContainer c)) \<and>
     h_disk h' = h_disk h \<and> h_running h' = h_running h \<and>
     rt_Assignment (h_record h') = rt_Assignment (h_record h) \<and>
     rt_ContainerID (h_record h') = rt_ContainerID (h_record h)"

lemma quiet_refl [simp]: "quiet h h"
  by (simp add: quiet_def)

lemma quiet_trans:
  assumes "quiet a b" "quiet b c"
  shows "quiet a c"
proof -
  obtain xs ys where "h_docker b = h_docker a @ xs" "\<forall>x\<in>set xs. \<exists>c. x = StopContainer c"
    "h_docker c = h_docker b @ ys" "\<forall>x\<in>set ys. \<exists>c. x = StopContainer c"
    using assms by (auto simp: quiet_def)
  then have "h_docker c = h_docker a @ (xs @ ys) \<and> (\<forall>x\<in>set (xs @ ys). \<exists>c. x = StopContainer c)" by auto
  with assms show ?thesis unfolding quiet_def by metis
qed

lemma quiet_network: "quiet h (h\<lparr>h_net := net\<rparr>)" "quiet h (h\<lparr>h_net := net, h_record := r\<rparr>)
    \<longleftrightarrow> rt_Assignment r = rt_Assignment (h_record h) \<and> rt_ContainerID r = rt_ContainerID (h_record h)"
  by (auto simp: quiet_def)

lemma save_simps [simp]:
  "h_docker (snd (save h)) = h_docker h" "h_disk (snd (save h)) = h_disk h"
  "h_running (snd (save h)) = h_running h" "h_record (snd (save h)) = h_record h"
  "h_net (snd (save h)) = h_net h" "h_stops (snd (save h)) = h_stops h"
  by (simp_all add: save_def Let_def)

lemma set_completed_simps [simp]:
  "h_docker (set_completed h) = h_docker h" "h_disk (set_completed h) = h_disk h"
  "h_running (set_completed h) = h_running h" "h_net (set_completed h) = h_net h"
  "rt_Assignment (h_record (set_completed h)) = rt_Assignment (h_record h)"
  "rt_ContainerID (h_record (set_completed h)) = rt_ContainerID (h_record h)"
  "rt_Completed (h_record (set_completed h))"
  by (simp_all add: set_completed_def)

lemma set_stop_simps [simp]:
  "h_docker (set_stop_requested h) = h_docker h" "h_disk (set_stop_requested h) = h_disk h"
  "h_running (set_stop_requested h) = h_running h" "h_net (set_stop_requested h) = h_net h"
  "rt_Assignment (h_record (set_stop_requested h)) = rt_Assignment (h_record h)"
  "rt_ContainerID (h_record (set_stop_requested h)) = rt_ContainerID (h_record h)"
  by (simp_all add: set_stop_requested_def)

lemma removeRunning_simps [simp]:
  "h_docker (removeRunning h) = h_docker h" "h_disk (removeRunning h) = h_disk h"
  "\<not> h_running (removeRunning h)" "h_record (removeRunning h) = h_record h"
  "h_saved (removeRunning h) = h_saved h" "h_net (removeRunning h) = h_net h"
  by (simp_all add: removeRunning_def)

lemma docker_simps [simp]:
  "h_docker (docker call h) = h_docker h @ [call]" "h_disk (docker call h) = h_disk h"
  "h_running (docker call h) = h_running h" "h_record (docker call h) = h_record h"
  "h_saved (docker call h) = h_saved h" "h_net (docker call h) = h_net h"
  by (simp_all add: docker_def)

lemma sendEvent_quiet: "quiet h (snd (sendEvent api ty st code reason digest payload outputs h))"
  by (auto simp: sendEvent_def quiet_def Let_def split: prod.splits bool.splits)

lemma stop_quiet: "h_running h \<Longrightarrow> quiet h (stop api h)"
  by (auto simp: stop_def quiet_def Let_def)

lemma stopRequested_quiet:
  assumes "h_running h"
  shows "quiet h (snd (stopRequested api h))"
proof -
  have "quiet (h\<lparr>h_stops := tl (h_stops h)\<rparr>) (stop api (h\<lparr>h_stops := tl (h_stops h)\<rparr>))"
    by (rule stop_quiet) (simp add: assms)
  then have "quiet h (stop api (h\<lparr>h_stops := tl (h_stops h)\<rparr>))" by (simp add: quiet_def)
  then show ?thesis by (simp add: stopRequested_def Let_def quiet_def)
qed

lemma cancellation_docker [simp]:
  "h_docker (completePreStartCancellation api h) = h_docker h"
  "h_disk (completePreStartCancellation api h) = h_disk h"
proof -
  obtain ok h' where s: "sendEvent api ''cancelled'' JobCancelled None ''job was stopped before the container started''
      '''' (outputs_payload []) [] (set_stop_requested h) = (ok, h')" by (metis surj_pair)
  moreover have "h_docker h' = h_docker h" "h_disk h' = h_disk h"
    using s by (auto simp: sendEvent_def Let_def split: prod.splits bool.splits)
  ultimately show "h_docker (completePreStartCancellation api h) = h_docker h"
    "h_disk (completePreStartCancellation api h) = h_disk h"
    by (auto simp: completePreStartCancellation_def split: bool.splits)
qed

lemma sendEvent_docker [simp]:
  "h_docker (snd (sendEvent api ty st code reason digest payload outputs h)) = h_docker h"
  "h_disk (snd (sendEvent api ty st code reason digest payload outputs h)) = h_disk h"
  "h_running (snd (sendEvent api ty st code reason digest payload outputs h)) = h_running h"
  "rt_ContainerID (h_record (snd (sendEvent api ty st code reason digest payload outputs h))) = rt_ContainerID (h_record h)"
  "rt_Assignment (h_record (snd (sendEvent api ty st code reason digest payload outputs h))) = rt_Assignment (h_record h)"
  by (auto simp: sendEvent_def Let_def split: prod.splits bool.splits)

lemma fail_effect [simp]:
  "h_docker (fail api ty err h) = h_docker h @
     (if rt_ContainerID (h_record h) = '''' then [] else [RemoveContainer (rt_ContainerID (h_record h))])"
  "h_disk (fail api ty err h) = h_disk h"
  "\<not> h_running (fail api ty err h)"
proof -
  obtain ok h' where s: "sendEvent api ty JobFailed None err '''' [] [] h = (ok, h')" by (metis surj_pair)
  have "h_docker h' = h_docker h" "h_disk h' = h_disk h" "rt_ContainerID (h_record h') = rt_ContainerID (h_record h)"
    using s sendEvent_docker [of api ty JobFailed None err "''''" "[]" "[]" h] by simp_all
  with s show "h_docker (fail api ty err h) = h_docker h @
     (if rt_ContainerID (h_record h) = '''' then [] else [RemoveContainer (rt_ContainerID (h_record h))])"
    "h_disk (fail api ty err h) = h_disk h" "\<not> h_running (fail api ty err h)"
    by (auto simp: fail_def Let_def)
qed

section \<open>What an execution leaves of its container\<close>

text \<open>
  \<open>calls\<close> start only the container that was created among them, and remove it unless the record is
  still among the running ones.
\<close>

definition tidy :: "string option \<Rightarrow> docker_call list \<Rightarrow> bool \<Rightarrow> bool" where
  "tidy created calls running \<longleftrightarrow>
     (\<forall>c. StartContainer c \<in> set calls \<longrightarrow> created = Some c \<and> (\<exists>r. CreateContainer r \<in> set calls)) \<and>
     (\<forall>c. created = Some c \<and> (\<exists>r. CreateContainer r \<in> set calls) \<longrightarrow> RemoveContainer c \<in> set calls \<or> running)"

definition adds :: "'s host \<Rightarrow> 's host \<Rightarrow> docker_call list \<Rightarrow> bool" where
  "adds h h' calls \<longleftrightarrow> h_docker h' = h_docker h @ calls"

definition no_container :: "docker_call list \<Rightarrow> bool" where
  "no_container calls \<longleftrightarrow> (\<forall>x\<in>set calls. (\<forall>r. x \<noteq> CreateContainer r) \<and> (\<forall>c. x \<noteq> StartContainer c))"

lemma no_container_tidy: "no_container calls \<Longrightarrow> tidy created calls running"
  by (auto simp: no_container_def tidy_def)

lemma adds_trans: "adds a b xs \<Longrightarrow> adds b c ys \<Longrightarrow> adds a c (xs @ ys)"
  by (simp add: adds_def)

lemma quiet_adds: "quiet h h' \<Longrightarrow> \<exists>calls. adds h h' calls \<and> no_container calls"
  by (auto simp: quiet_def adds_def no_container_def)

lemma no_container_append [simp]: "no_container (xs @ ys) \<longleftrightarrow> no_container xs \<and> no_container ys"
  by (auto simp: no_container_def)

text \<open>An end without a container: no container is created or started.\<close>

definition bare_end :: "'s host \<Rightarrow> 's host \<Rightarrow> bool" where
  "bare_end h h' \<longleftrightarrow> (\<exists>calls. adds h h' calls \<and> no_container calls) \<and> h_disk h' = h_disk h"

lemma bare_end_refl [simp]: "bare_end h h"
  by (auto simp: bare_end_def adds_def no_container_def)

lemma quiet_bare: "quiet h h' \<Longrightarrow> bare_end h h'"
  using quiet_adds by (auto simp: bare_end_def quiet_def)

lemma bare_trans: "bare_end a b \<Longrightarrow> bare_end b c \<Longrightarrow> bare_end a c"
  unfolding bare_end_def using adds_trans no_container_append by metis

lemma bare_ends:
  "bare_end h (completePreStartCancellation api h)"
  "bare_end h (fail api ty err h)"
  by (auto simp: bare_end_def adds_def no_container_def)

lemma bare_cancel_or_fail:
  assumes "h_running h"
  shows "bare_end h (cancel_or_fail api ty err h)" "bare_end h (cancel_or_return api h)"
proof -
  obtain s h1 where l: "stopRequested api h = (s, h1)" by (metis surj_pair)
  then have q: "bare_end h h1" using stopRequested_quiet [OF assms, of api] quiet_bare by (metis snd_conv)
  with l show "bare_end h (cancel_or_fail api ty err h)" "bare_end h (cancel_or_return api h)"
    using bare_trans [OF q bare_ends(1)] bare_trans [OF q bare_ends(2)] q
    by (auto simp: cancel_or_fail_def cancel_or_return_def split: bool.splits)
qed

section \<open>The phases\<close>

lemma accept_and_start_facts:
  assumes "accept_and_start api dk c h = (go, h')" "c \<noteq> ''''"
  shows "\<exists>calls. adds h h' calls \<and> (\<forall>r. CreateContainer r \<notin> set calls) \<and>
      (\<forall>x. StartContainer x \<in> set calls \<longrightarrow> x = c) \<and> (\<not> go \<longrightarrow> RemoveContainer c \<in> set calls) \<and> h_disk h' = h_disk h \<and>
      (go \<longrightarrow> h_running h' = h_running h \<and> rt_ContainerID (h_record h') = c \<and>
         rt_Assignment (h_record h') = rt_Assignment (h_record h))"
proof -
  let ?h1 = "h\<lparr>h_record := (h_record h)\<lparr>rt_ContainerID := c\<rparr>\<rparr>"
  obtain ok h2 where s: "save ?h1 = (ok, h2)" by (metis surj_pair)
  have h2: "h_docker h2 = h_docker h" "h_disk h2 = h_disk h" "h_running h2 = h_running h" "h_record h2 = h_record ?h1"
    using save_simps [of ?h1] s by simp_all
  obtain ans net where a: "http_do (api_accept api c) (h_net h2) = (ans, net)" by (metis surj_pair)
  let ?h3 = "h2\<lparr>h_net := net\<rparr>"
  consider "\<not> ok" "go = False" "h' = fail api ''assignment_persist_failed'' (dk_error dk) h2"
    | "go = False" "h' = completePreStartCancellation api (docker (RemoveContainer c) h2)"
    | "go = False" "h' = fail api ''assignment_accept_failed'' (dk_error dk) ?h3"
    | "go = True" "h' = docker (StartContainer c) ?h3"
    | "go = False" "h' = fail api ''container_start_failed'' (dk_error dk) (docker (StartContainer c) ?h3)"
    using assms(1) s a by (auto simp: accept_and_start_def Let_def split: bool.splits if_splits)
  then show ?thesis by cases (auto simp: adds_def h2 assms(2))
qed

lemma create_container_facts:
  assumes "create_container api dk img env binds h = (go, h')" "h_running h" "dk_create dk \<noteq> Some ''''"
  shows "\<exists>calls. adds h h' calls \<and> (\<exists>r. CreateContainer r \<in> set calls) \<and>
      (\<forall>x. StartContainer x \<in> set calls \<longrightarrow> dk_create dk = Some x) \<and>
      (\<not> go \<longrightarrow> (\<forall>c. dk_create dk = Some c \<longrightarrow> RemoveContainer c \<in> set calls)) \<and> h_disk h' = h_disk h \<and>
      (go \<longrightarrow> h_running h' \<and> dk_create dk = Some (rt_ContainerID (h_record h')) \<and>
         rt_Assignment (h_record h') = rt_Assignment (h_record h))"
proof -
  let ?cc = "CreateContainer (createRequest (create_options (rt_Assignment (h_record h)) img env binds))"
  let ?h1 = "docker ?cc h"
  have a1: "adds h ?h1 [?cc]"
    by (simp add: adds_def)
  show ?thesis
  proof (cases "dk_create dk")
    case None
    with assms(1) have e: "go = False" "h' = cancel_or_fail api ''container_create_failed'' (dk_error dk) ?h1"
      by (simp_all add: create_container_def Let_def)
    have "bare_end ?h1 h'" unfolding e by (rule bare_cancel_or_fail) (simp add: assms(2))
    then obtain calls where "adds ?h1 h' calls" "no_container calls" "h_disk h' = h_disk ?h1" by (auto simp: bare_end_def)
    with adds_trans [OF a1 this(1)] e None show ?thesis
      by (intro exI [of _ "[?cc] @ calls"]) (auto simp: no_container_def)
  next
    case (Some c)
    let ?h2 = "snd (stopRequested api ?h1)"
    have q: "quiet ?h1 ?h2" by (rule stopRequested_quiet) (simp add: assms(2))
    then obtain xs where xs: "adds ?h1 ?h2 xs" "no_container xs" using quiet_adds by blast
    have "accept_and_start api dk c ?h2 = (go, h')" "c \<noteq> ''''"
      using assms(1,3) Some by (simp_all add: create_container_def Let_def)
    from accept_and_start_facts [OF this] obtain ys where ys: "adds ?h2 h' ys" "\<forall>r. CreateContainer r \<notin> set ys"
      "\<forall>x. StartContainer x \<in> set ys \<longrightarrow> x = c" "\<not> go \<longrightarrow> RemoveContainer c \<in> set ys" "h_disk h' = h_disk ?h2"
      "go \<longrightarrow> h_running h' = h_running ?h2 \<and> rt_ContainerID (h_record h') = c \<and>
         rt_Assignment (h_record h') = rt_Assignment (h_record ?h2)" by blast
    from adds_trans [OF a1 adds_trans [OF xs(1) ys(1)]] xs(2) ys q Some assms(2) show ?thesis
      by (intro exI [of _ "[?cc] @ xs @ ys"]) (auto simp: no_container_def quiet_def)
  qed
qed

text \<open>What holds of a part of the execution that creates a container or returns.\<close>

definition starts :: "container_host \<Rightarrow> 's host \<Rightarrow> bool \<Rightarrow> 's host \<Rightarrow> bool" where
  "starts dk h go h' \<longleftrightarrow> (\<exists>calls. adds h h' calls \<and>
     (\<forall>x. StartContainer x \<in> set calls \<longrightarrow> dk_create dk = Some x \<and> (\<exists>r. CreateContainer r \<in> set calls)) \<and>
     (\<not> go \<longrightarrow> tidy (dk_create dk) calls False) \<and>
     (go \<longrightarrow> h_running h' \<and> dk_create dk = Some (rt_ContainerID (h_record h')) \<and> (\<exists>r. CreateContainer r \<in> set calls) \<and>
       rt_Assignment (h_record h') = rt_Assignment (h_record h))) \<and> h_disk h' = h_disk h"

lemma starts_bare: "bare_end h h' \<Longrightarrow> starts dk h False h'"
  unfolding bare_end_def starts_def using no_container_tidy by (auto simp: no_container_def) metis

lemma starts_after:
  assumes "\<exists>calls. adds h h1 calls \<and> no_container calls \<and> h_disk h1 = h_disk h \<and> h_running h1 = h_running h \<and>
      rt_Assignment (h_record h1) = rt_Assignment (h_record h)"
    and "starts dk h1 go h'"
  shows "starts dk h go h'"
proof -
  obtain xs where xs: "adds h h1 xs" "no_container xs" using assms(1) by blast
  obtain ys where ys: "adds h1 h' ys"
    "\<forall>x. StartContainer x \<in> set ys \<longrightarrow> dk_create dk = Some x \<and> (\<exists>r. CreateContainer r \<in> set ys)"
    "\<not> go \<longrightarrow> tidy (dk_create dk) ys False"
    "go \<longrightarrow> h_running h' \<and> dk_create dk = Some (rt_ContainerID (h_record h')) \<and> (\<exists>r. CreateContainer r \<in> set ys) \<and>
       rt_Assignment (h_record h') = rt_Assignment (h_record h1)" "h_disk h' = h_disk h1"
    using assms(2) unfolding starts_def by blast
  have "\<not> go \<longrightarrow> tidy (dk_create dk) (xs @ ys) False"
    using ys(3) xs(2) by (auto simp: tidy_def no_container_def)
  then show ?thesis unfolding starts_def
    using adds_trans [OF xs(1) ys(1)] ys(2,4,5) xs(2) assms(1)
    by (intro conjI exI [of _ "xs @ ys"]) (auto simp: no_container_def)
qed

lemma starts_quiet: "quiet h h1 \<Longrightarrow> starts dk h1 go h' \<Longrightarrow> starts dk h go h'"
  by (rule starts_after) (auto simp: quiet_def adds_def no_container_def)

lemma create_container_starts:
  assumes "create_container api dk img env binds h = (go, h')" "h_running h" "dk_create dk \<noteq> Some ''''"
  shows "starts dk h go h'"
  using create_container_facts [OF assms] unfolding starts_def tidy_def by fast

lemma sendEvent_step:
  assumes "sendEvent api ty st code reason digest payload outputs h = (ok, h')"
  shows "quiet h h'"
  using sendEvent_quiet [of h api ty st code reason digest payload outputs] assms by simp

lemma stopRequested_step:
  assumes "stopRequested api h = (s, h')" "h_running h"
  shows "quiet h h'"
  using stopRequested_quiet [OF assms(2), of api] assms(1) by simp

lemma quiet_running: "quiet h h' \<Longrightarrow> h_running h' = h_running h"
  by (simp add: quiet_def)

lemma fetch_image_facts:
  assumes "fetch_image api dk h = (r, h')"
  shows "\<exists>calls. adds h h' calls \<and> no_container calls \<and> h_disk h' = h_disk h \<and> h_running h' = h_running h \<and>
    rt_Assignment (h_record h') = rt_Assignment (h_record h)"
  using assms
  by (auto simp: fetch_image_def adds_def no_container_def Let_def split: if_splits prod.splits option.splits)


lemma start_container_facts:
  assumes "start_container cfg api dk env binds h = (go, h')" "h_running h" "dk_create dk \<noteq> Some ''''"
    and "materializeInputs (cfg_WorkspaceDir cfg) (api_input api) (spec_Inputs (asg_Spec (rt_Assignment (h_record h))))
      (job_dir cfg (rt_Assignment (h_record h)) @ [''input'']) (h_disk h) (h_net h) = (failed, disk, net)"
  shows "starts dk (h\<lparr>h_disk := disk\<rparr>) go h'"
proof -
  let ?h1 = "h\<lparr>h_disk := disk, h_net := net\<rparr>"
  have q1: "quiet (h\<lparr>h_disk := disk\<rparr>) ?h1" by (simp add: quiet_def)
  have "starts dk ?h1 go h'"
  proof (cases failed)
    case (Some e)
    with assms(1,4) have "go = False" "h' = cancel_or_fail api ''input_materialization_failed'' (dk_error dk) ?h1"
      by (simp_all add: start_container_def Let_def)
    then show ?thesis using bare_cancel_or_fail(1) [of ?h1] assms(2) starts_bare by fastforce
  next
    case None
    obtain sent h2 where s: "sendEvent api ''image_pull_started'' JobPullingImage None '''' '''' [] [] ?h1 = (sent, h2)"
      by (metis surj_pair)
    have q2: "quiet ?h1 h2" by (rule sendEvent_step [OF s])
    have r2: "h_running h2" using quiet_running [OF q2] assms(2) by simp
    have "starts dk h2 go h'"
    proof (cases sent)
      case False
      with s assms(1,4) None have "go = False" "h' = cancel_or_return api h2" by (simp_all add: start_container_def Let_def)
      then show ?thesis using bare_cancel_or_fail(2) [OF r2] starts_bare by metis
    next
      case True
      obtain img h3 where f: "fetch_image api dk h2 = (img, h3)" by (metis surj_pair)
      note f3 = fetch_image_facts [OF f]
      have r3: "h_running h3" using f3 r2 by auto
      have "starts dk h3 go h'"
      proof (cases img)
        case none: None
        with s f True assms(1,4) None have "go = False" "h' = cancel_or_fail api ''image_pull_failed'' (dk_error dk) h3"
          by (simp_all add: start_container_def Let_def)
        then show ?thesis using bare_cancel_or_fail(1) [OF r3] starts_bare by metis
      next
        case (Some id)
        obtain ri dg where id: "id = (ri, dg)" by (metis surj_pair)
        obtain st h4 where l: "stopRequested api h3 = (st, h4)" by (metis surj_pair)
        have q4: "quiet h3 h4" by (rule stopRequested_step [OF l r3])
        have r4: "h_running h4" using quiet_running [OF q4] r3 by simp
        have "starts dk h4 go h'"
        proof (cases st)
          case stopped: True
          with s f Some id l True assms(1,4) None have "go = False" "h' = completePreStartCancellation api h4"
            by (simp_all add: start_container_def Let_def)
          then show ?thesis using bare_ends(1) starts_bare by metis
        next
          case False
          obtain sent5 h5 where s5: "sendEvent api ''image_pull_finished'' JobStarting None '''' dg [] [] h4 = (sent5, h5)"
            by (metis surj_pair)
          have q5: "quiet h4 h5" by (rule sendEvent_step [OF s5])
          have r5: "h_running h5" using quiet_running [OF q5] r4 by simp
          have "starts dk h5 go h'"
          proof (cases sent5)
            case unsent: False
            with s f Some id l True False s5 assms(1,4) None have "go = False" "h' = cancel_or_return api h5"
              by (simp_all add: start_container_def Let_def)
            then show ?thesis using bare_cancel_or_fail(2) [OF r5] starts_bare by metis
          next
            case sent5: True
            obtain st6 h6 where l6: "stopRequested api h5 = (st6, h6)" by (metis surj_pair)
            have q6: "quiet h5 h6" by (rule stopRequested_step [OF l6 r5])
            have r6: "h_running h6" using quiet_running [OF q6] r5 by simp
            have "starts dk h6 go h'"
            proof (cases st6)
              case stopped: True
              with s f Some id l True False s5 sent5 l6 assms(1,4) None
              have "go = False" "h' = completePreStartCancellation api h6" by (simp_all add: start_container_def Let_def)
              then show ?thesis using bare_ends(1) starts_bare by metis
            next
              case on: False
              with s f Some id l True False s5 sent5 l6 assms(1,4) None
              have "create_container api dk ri env binds h6 = (go, h')" by (simp add: start_container_def Let_def)
              then show ?thesis by (rule create_container_starts [OF _ r6 assms(3)])
            qed
            then show ?thesis by (rule starts_quiet [OF q6])
          qed
          then show ?thesis by (rule starts_quiet [OF q5])
        qed
        then show ?thesis by (rule starts_quiet [OF q4])
      qed
      then show ?thesis by (rule starts_after [OF f3])
    qed
    then show ?thesis by (rule starts_quiet [OF q2])
  qed
  then show ?thesis by (rule starts_quiet [OF q1])
qed

text \<open>A container that runs is removed, unless the agent returns because the start could not be reported.\<close>

definition start_unreported :: "'s agent_api \<Rightarrow> string \<Rightarrow> 's host \<Rightarrow> bool" where
  "start_unreported api c h' \<longleftrightarrow> h_running h' \<and> rt_ContainerID (h_record h') = c \<and>
     (\<exists>h1 h2. sendEvent api ''container_started'' JobRunning None [] [] [] [] h1 = (False, h2) \<and>
        h_record h2 = h_record h' \<and> h_net h2 = h_net h')"

lemma run_container_facts:
  assumes "run_container cfg api dk h = (cleaned, h')" "h_running h" "rt_ContainerID (h_record h) = c" "c \<noteq> ''''"
  shows "\<exists>calls. adds h h' calls \<and> no_container calls \<and> (RemoveContainer c \<in> set calls \<or> start_unreported api c h') \<and>
    (if cleaned then removeMaterializedInputs (job_dir cfg (rt_Assignment (h_record h)) @ [''input'']) (h_disk h) = Inr (h_disk h')
     else h_disk h' = h_disk h)"
proof -
  obtain sent h1 where s: "sendEvent api ''container_started'' JobRunning None '''' '''' [] [] h = (sent, h1)" by (metis surj_pair)
  have q1: "quiet h h1" by (rule sendEvent_step [OF s])
  show ?thesis
  proof (cases sent)
    case False
    with s assms(1) have "cleaned = False" "h' = h1" by (simp_all add: run_container_def)
    moreover have "start_unreported api c h1"
      using q1 assms(2,3) s False by (auto simp: start_unreported_def quiet_def)
    ultimately show ?thesis using quiet_adds [OF q1] q1 by (auto simp: quiet_def)
  next
    case True
    obtain ls net where l: "streamLogs (api_log api) (map snd (asg_Secrets (rt_Assignment (h_record h1)))) (fst (dk_logs dk))
        (snd (dk_logs dk)) (rt_Logs (h_record h1)) (h_net h1) = (ls, net)" by (metis surj_pair)
    let ?h2 = "h1\<lparr>h_net := net, h_record := (h_record h1)\<lparr>rt_Logs := ls_agent ls\<rparr>\<rparr>"
    have q2: "quiet h ?h2" by (rule quiet_trans [OF q1]) (simp add: quiet_def)
    then obtain xs where xs: "adds h ?h2 xs" "no_container xs" using quiet_adds by blast
    have f2: "h_disk ?h2 = h_disk h" "rt_ContainerID (h_record ?h2) = c" "h_running ?h2"
      "rt_Assignment (h_record ?h2) = rt_Assignment (h_record h)"
      using q2 assms(2,3) by (simp_all add: quiet_def)
    show ?thesis
    proof (cases "dk_wait dk")
      case None
      with s True l assms(1) have "cleaned = False" "h' = fail api ''container_wait_failed'' (dk_error dk) ?h2"
        by (simp_all add: run_container_def Let_def)
      with xs f2 assms(4) show ?thesis
        by (intro exI [of _ "xs @ [RemoveContainer c]"]) (auto simp: adds_def no_container_def)
    next
      case (Some code)
      obtain ok outs net3 where o: "uploadOutputs (api_output api) (dk_outputs dk) net = (ok, outs, net3)" by (metis surj_pair)
      let ?h3 = "?h2\<lparr>h_net := net3\<rparr>"
      define h4 where "h4 = (if ok then ?h3 else snd (sendEvent api ''output_upload_warning'' (JobStatusOther '''')
        None (dk_error dk) '''' [] [] ?h3))"
      have q4: "quiet ?h2 h4"
      proof (cases ok)
        case True
        then show ?thesis unfolding h4_def using quiet_network(1) [of ?h2 net3] by (simp only: if_True)
      next
        case False
        then show ?thesis unfolding h4_def
          using quiet_trans [OF quiet_network(1) [of ?h2 net3] sendEvent_quiet] by (simp only: if_False)
      qed
      have q04: "quiet h h4" by (rule quiet_trans [OF q2 q4])
      then obtain ys where ys: "adds h h4 ys" "no_container ys" using quiet_adds by blast
      have f4: "h_disk h4 = h_disk h" "rt_ContainerID (h_record h4) = c" "h_running h4"
        "rt_Assignment (h_record h4) = rt_Assignment (h_record h)"
        using q04 assms(2,3) by (simp_all add: quiet_def)
      show ?thesis
      proof (cases "removeMaterializedInputs (job_dir cfg (rt_Assignment (h_record h4)) @ [''input'']) (h_disk h4)")
        case (Inl e)
        with s True l Some o assms(1) have "cleaned = False" "h' = fail api ''input_cleanup_failed'' (dk_error dk) h4"
          unfolding h4_def by (simp_all add: run_container_def Let_def)
        with ys f4 assms(4) show ?thesis
          by (intro exI [of _ "ys @ [RemoveContainer c]"]) (auto simp: adds_def no_container_def)
      next
        case (Inr disk)
        with s True l Some o assms(1) have e: "cleaned = True" "h' = publish_outcome api code outs (h4\<lparr>h_disk := disk\<rparr>)"
          unfolding h4_def by (simp_all add: run_container_def Let_def)
        let ?h5 = "h4\<lparr>h_disk := disk\<rparr>"
        obtain st h6 where k: "stopRequested api ?h5 = (st, h6)" by (metis surj_pair)
        have q6: "quiet ?h5 h6" by (rule stopRequested_step [OF k]) (simp add: f4)
        obtain status ty reason where oc: "outcome st code = (status, ty, reason)" by (metis surj_pair)
        let ?h7 = "snd (sendEvent api ty status (Some code) reason '''' (outputs_payload outs) outs h6)"
        have q7: "quiet ?h5 ?h7" by (rule quiet_trans [OF q6 sendEvent_quiet])
        then obtain zs where zs: "adds ?h5 ?h7 zs" "no_container zs" using quiet_adds by blast
        have f7: "h_disk ?h7 = disk" "rt_ContainerID (h_record ?h7) = c" using q7 f4 by (simp_all add: quiet_def)
        have "h_docker h' = h_docker ?h7 @ [RemoveContainer c]" "h_disk h' = disk"
          using e(2) k oc f7 by (simp_all add: publish_outcome_def Let_def)
        with ys zs e(1) Inr f4 show ?thesis
          by (intro exI [of _ "ys @ zs @ [RemoveContainer c]"]) (auto simp: adds_def no_container_def)
      qed
    qed
  qed
qed

section \<open>The whole execution\<close>

lemma make_dirs_ok:
  assumes "make_dirs ds fs = (ok, fs')" "fs_ok fs"
  shows "fs_ok fs'"
  using assms by (induction ds fs rule: make_dirs.induct) (auto split: sum.splits intro: MkdirAll_ok)

lemma writeReadOnlyFile_ok:
  assumes "writeReadOnlyFile p d fs = Inr fs'" "fs_ok fs" "p \<noteq> []"
  shows "fs_ok fs'"
proof -
  have p: "node fs (butlast p) = Some Dir" "fs' = put p (Reg 292 d) fs"
    "\<not> (node fs p = Some Dir \<and> list_ex (\<lambda>(q, n). strict_prefix p q) fs)"
    using assms(1) by (auto simp: writeReadOnlyFile_def split: if_splits)
  have below: "node fs q = None" if "node fs p = Some Dir" "strict_prefix p q" for q
  proof (rule ccontr)
    assume "node fs q \<noteq> None"
    then obtain n where "(q, n) \<in> set fs" unfolding node_def by (metis map_of_SomeD not_None_eq)
    with p(3) that show False by (auto simp: list_ex_iff)
  qed
  have "node (put p (Reg 292 d) fs) (butlast q) = Some Dir" if q: "q \<noteq> []" "node (put p (Reg 292 d) fs) q \<noteq> None" for q
  proof -
    have "node fs (butlast q) = Some Dir"
      using q p(1) assms(2) by (cases "q = p") (auto simp: fs_ok_def)
    moreover have "butlast q \<noteq> p"
    proof
      assume b: "butlast q = p"
      then obtain x where "q = p @ [x]" using q(1) by (cases q rule: rev_cases) auto
      then have "strict_prefix p q" "q \<noteq> p" by (simp_all add: strict_prefix_def)
      moreover have "node fs p = Some Dir" using calculation b \<open>node fs (butlast q) = Some Dir\<close> by simp
      ultimately have "node fs q = None" using below by blast
      with q(2) \<open>q \<noteq> p\<close> show False by simp
    qed
    ultimately show ?thesis by simp
  qed
  with assms(2,3) distinct_put show ?thesis unfolding p(2) by (auto simp: fs_ok_def)
qed

text \<open>A secret is written into the directory of the secrets.\<close>

lemma remove_dotdot_head: "b \<noteq> CHR ''.'' \<Longrightarrow> \<exists>r. remove_dotdot (b # cs) = b # r"
  by (cases cs) auto

lemma remove_dotdot_no_parent: "remove_dotdot s \<noteq> CHR ''.'' # CHR ''.'' # r"
proof (induction s arbitrary: r rule: remove_dotdot.induct)
  case (1 a b cs)
  then show ?case using remove_dotdot_head [of b cs] by (cases "a = CHR ''.'' \<and> b = CHR ''.''") auto
qed simp_all

lemma set_remove_dotdot: "set (remove_dotdot s) \<subseteq> set s"
  by (induction s rule: remove_dotdot.induct) auto

lemma secret_path: "Join dir (safeFilename t) = dir \<or> Join dir (safeFilename t) = dir @ [safeFilename t]"
proof (cases "path_base t = ''/''")
  case True
  then show ?thesis by (simp add: safeFilename_def Let_def Join_def clean_step_def)
next
  case False
  have "CHR ''/'' \<notin> set (path_base t)"
  proof -
    let ?t = "rev (dropWhile (\<lambda>c. c = CHR ''/'') (rev t))"
    have "CHR ''/'' \<notin> set (last (split_on (CHR ''/'') ?t))"
      using split_on_no_sep [of "last (split_on (CHR ''/'') ?t)" "CHR ''/''" ?t] split_on_not_Nil last_in_set by blast
    with False show ?thesis by (auto simp: path_base_def Let_def split: if_splits)
  qed
  then have "CHR ''/'' \<notin> set (safeFilename t)" "safeFilename t \<noteq> ''''" "safeFilename t \<noteq> ''.''" "safeFilename t \<noteq> ''..''"
    using set_remove_dotdot [of "path_base t"] remove_dotdot_no_parent [of "path_base t" "''''"]
    by (auto simp: safeFilename_def Let_def)
  then show ?thesis by (simp add: Join_def split_on_single clean_step_def)
qed

lemma place_secrets_ok:
  assumes "place_secrets err secrets dir refs env binds fs = (r, fs')" "fs_ok fs" "dir \<noteq> []"
  shows "fs_ok fs'"
  using assms
proof (induction err secrets dir refs env binds fs rule: place_secrets.induct)
  case (2 err secrets dir ref refs env binds fs)
  show ?case
  proof (cases "map_of secrets (ref_Name ref)")
    case None
    with 2 show ?thesis by simp
  next
    case (Some val)
    let ?p = "Join dir (safeFilename (ref_Target ref))"
    show ?thesis
    proof (cases "ref_Mode ref = ''env''")
      case True
      with 2 Some show ?thesis by simp
    next
      case False
      show ?thesis
      proof (cases "writeReadOnlyFile ?p val fs")
        case (Inl e)
        with 2 Some False show ?thesis by (simp add: Let_def)
      next
        case (Inr fs1)
        have "?p \<noteq> []" using secret_path [of dir "ref_Target ref"] 2(5) by auto
        then have "fs_ok fs1" by (rule writeReadOnlyFile_ok [OF Inr 2(4)])
        with 2 Some False Inr show ?thesis by (simp add: Let_def)
      qed
    qed
  qed
qed simp

lemma materializeInputs_ok:
  assumes "materializeInputs w fetch manifest root fs net = (err, fs', net')" "fs_ok fs" "root \<noteq> []"
  shows "fs_ok fs'"
proof (cases "removeMaterializedInputs root fs")
  case (Inl e)
  with assms(1,2) show ?thesis by (auto simp: materializeInputs_def split: if_splits)
next
  case (Inr fs1)
  have ok1: "fs_ok fs1" by (rule removeMaterializedInputs_facts [OF Inr assms(2,3)])
  have "fs_ok fs3" if "materialize_files fetch root items fs2 net2 = (e, fs3, net3)" "fs_ok fs2" for items fs2 net2 e fs3 net3
    using that
  proof (induction items arbitrary: fs2 net2)
    case (Cons item items)
    show ?case
    proof (cases "materializedPath root (input_Path item)")
      case (Inl e)
      with Cons.prems show ?thesis by auto
    next
      case (Inr dest)
      have ne: "dest \<noteq> []" using materializedPath_below [OF Inr assms(3)] by auto
      show ?thesis
      proof (cases "MkdirAll (butlast dest) fs2")
        case (Inl e)
        with Inr Cons.prems show ?thesis by auto
      next
        case mk: (Inr fs4)
        obtain answer net4 where g: "http_get (fetch (input_Path item)) net2 = (answer, net4)" by (metis surj_pair)
        obtain e2 fs5 where dl: "downloadInput answer dest item fs4 = (e2, fs5)" by (metis surj_pair)
        have "fs_ok fs5" using downloadInput_facts [OF dl MkdirAll_ok [OF Cons.prems(2) mk] ne] by blast
        with Inr mk g dl Cons show ?thesis by (cases e2) auto
      qed
    qed
  qed simp
  note loop = this
  show ?thesis
  proof (cases "MkdirAll root fs1")
    case (Inl e)
    with ok1 Inr assms(1,2) show ?thesis by (auto simp: materializeInputs_def split: if_splits)
  next
    case mk: (Inr fs2)
    obtain e fs3 net3 where m: "materialize_files fetch root manifest fs2 net = (e, fs3, net3)" by (metis surj_pair)
    have "fs_ok fs3" by (rule loop [OF m MkdirAll_ok [OF ok1 mk]])
    with m mk Inr assms clean_up_inputs_facts(1) [OF this assms(3)] show ?thesis
      by (cases e) (auto simp: materializeInputs_def split: if_splits)
  qed
qed

lemma prepare_workspace_ok:
  assumes "prepare_workspace cfg err a fs = (r, fs')" "fs_ok fs"
  shows "fs_ok fs'"
proof -
  let ?d = "job_dir cfg a"
  obtain ok fs1 where m: "make_dirs [?d, ?d @ [''logs''], ?d @ [''secrets''], ?d @ [''output'']] fs = (ok, fs1)"
    by (metis surj_pair)
  have ok1: "fs_ok fs1" by (rule make_dirs_ok [OF m assms(2)])
  show ?thesis
  proof (cases ok)
    case False
    with m assms(1) ok1 show ?thesis by (simp add: prepare_workspace_def Let_def)
  next
    case True
    show ?thesis
    proof (cases "writeReadOnlyFile (?d @ [''secrets''] @ [''job-token'']) (asg_JobToken a) fs1")
      case (Inl e)
      with True m assms(1) ok1 show ?thesis by (simp add: prepare_workspace_def Let_def)
    next
      case (Inr fs2)
      have ok2: "fs_ok fs2" by (rule writeReadOnlyFile_ok [OF Inr ok1]) simp
      from True m assms(1) Inr obtain env binds where
        "place_secrets err (asg_Secrets a) (?d @ [''secrets'']) (spec_SecretRefs (asg_Spec a)) env binds fs2 = (r, fs')"
        by (simp add: prepare_workspace_def Let_def)
      from place_secrets_ok [OF this ok2] show ?thesis by simp
    qed
  qed
qed

text \<open>The whole: inputs gone, the container started only when it was created, and removed in the end.\<close>

lemma execute_facts:
  assumes "h_running h" "rt_ContainerID (h_record h) = ''''" "fs_ok (h_disk h)" "dk_create dk \<noteq> Some ''''"
    and "workspaceChild (cfg_WorkspaceDir cfg) (job_dir cfg (rt_Assignment (h_record h)) @ [''input''])"
  shows "node (h_disk (execute cfg api dk h)) (job_dir cfg (rt_Assignment (h_record h)) @ [''input'']) = None \<and>
    (\<exists>calls. h_docker (execute cfg api dk h) = h_docker h @ calls \<and>
      (\<forall>x. StartContainer x \<in> set calls \<longrightarrow> dk_create dk = Some x \<and> (\<exists>r. CreateContainer r \<in> set calls)) \<and>
      (\<forall>c. dk_create dk = Some c \<and> (\<exists>r. CreateContainer r \<in> set calls) \<longrightarrow>
         RemoveContainer c \<in> set calls \<or> start_unreported api c (execute cfg api dk h)))"
proof -
  let ?a = "rt_Assignment (h_record h)"
  let ?input = "job_dir cfg ?a @ [''input'']"
  obtain r disk where p: "prepare_workspace cfg (dk_error dk) ?a (h_disk h) = (r, disk)" by (metis surj_pair)
  have ok: "fs_ok disk" by (rule prepare_workspace_ok [OF p assms(3)])
  obtain cleaned h' where e: "execute_body cfg api dk h = (cleaned, h')" by (metis surj_pair)
  have x: "execute cfg api dk h = (if cleaned then h' else h'\<lparr>h_disk := clean_up_inputs ?input (h_disk h')\<rparr>)"
    using assms(5) e by (simp add: execute_def)
  have gone: "node (h_disk (execute cfg api dk h)) ?input = None"
    if "fs_ok (h_disk h') \<and> \<not> cleaned \<or> (\<exists>d. removeMaterializedInputs ?input d = Inr (h_disk h') \<and> fs_ok d)"
    using that clean_up_inputs_facts(3) [of "h_disk h'" ?input ?input] removeMaterializedInputs_facts(3) [of ?input _ "h_disk h'" ?input]
    unfolding x by (cases cleaned) (auto, metis append_is_Nil_conv not_Cons_self2 prefix_order.refl clean_up_inputs_def sum.case(2) clean_up_inputs_facts(1,3))
  have keep: "h_docker (execute cfg api dk h) = h_docker h'"
    "start_unreported api c (execute cfg api dk h) \<longleftrightarrow> start_unreported api c h'" for c
    unfolding x by (simp_all add: start_unreported_def)
  let ?h1 = "h\<lparr>h_disk := disk\<rparr>"
  show ?thesis
  proof (cases r)
    case (Inl ev)
    obtain ty reason where ev: "ev = (ty, reason)" by (metis surj_pair)
    with Inl p e have c: "\<not> cleaned" "h' = fail api ty reason ?h1" by (auto simp: execute_body_def)
    then have "h_docker h' = h_docker h @ []" "h_disk h' = disk" using assms(2) by simp_all
    with gone ok c keep show ?thesis by (metis empty_iff empty_set)
  next
    case (Inr eb)
    obtain env binds where eb: "eb = (env, binds)" by (metis surj_pair)
    obtain failed disk2 net where m: "materializeInputs (cfg_WorkspaceDir cfg) (api_input api)
        (spec_Inputs (asg_Spec (rt_Assignment (h_record ?h1)))) (job_dir cfg (rt_Assignment (h_record ?h1)) @ [''input''])
        (h_disk ?h1) (h_net ?h1) = (failed, disk2, net)" by (metis surj_pair)
    have ok2: "fs_ok disk2" using materializeInputs_ok [OF m] ok by simp
    obtain go h2 where s: "start_container cfg api dk env binds ?h1 = (go, h2)" by (metis surj_pair)
    have r1: "h_running ?h1" using assms(1) by simp
    from start_container_facts [OF s r1 assms(4) m] obtain xs where xs: "h_docker h2 = h_docker h @ xs"
      "\<forall>x. StartContainer x \<in> set xs \<longrightarrow> dk_create dk = Some x \<and> (\<exists>r. CreateContainer r \<in> set xs)"
      "\<not> go \<longrightarrow> tidy (dk_create dk) xs False"
      "go \<longrightarrow> h_running h2 \<and> dk_create dk = Some (rt_ContainerID (h_record h2)) \<and> (\<exists>r. CreateContainer r \<in> set xs) \<and>
         rt_Assignment (h_record h2) = ?a" "h_disk h2 = disk2"
      unfolding starts_def adds_def by auto
    show ?thesis
    proof (cases go)
      case False
      with s p Inr eb e assms(2) have c: "\<not> cleaned" "h' = h2" by (auto simp: execute_body_def Let_def)
      show ?thesis unfolding keep c(2) using gone c ok2 xs False by (auto simp: tidy_def)
    next
      case True
      with s p Inr eb e assms(2) have run: "run_container cfg api dk h2 = (cleaned, h')"
        by (simp add: execute_body_def Let_def)
      have c: "rt_ContainerID (h_record h2) \<noteq> ''''" using xs(4) True assms(4) by auto
      have a2: "rt_Assignment (h_record h2) = ?a" and r2: "h_running h2" using xs(4) True by simp_all
      from run_container_facts [OF run r2 refl c, unfolded a2] obtain ys where ys: "h_docker h' = h_docker h2 @ ys"
        "no_container ys" "RemoveContainer (rt_ContainerID (h_record h2)) \<in> set ys \<or>
           start_unreported api (rt_ContainerID (h_record h2)) h'"
        "if cleaned then removeMaterializedInputs ?input (h_disk h2) = Inr (h_disk h') else h_disk h' = h_disk h2"
        unfolding adds_def by blast
      have "h_docker h' = h_docker h @ (xs @ ys)" using xs(1) ys(1) by simp
      moreover have "fs_ok (h_disk h') \<and> \<not> cleaned \<or> (\<exists>d. removeMaterializedInputs ?input d = Inr (h_disk h') \<and> fs_ok d)"
        using ys(4) xs(5) ok2 by (auto split: if_splits)
      ultimately show ?thesis unfolding keep using gone xs(2,4) ys(2,3) True
        by (intro conjI exI [of _ "xs @ ys"]) (auto simp: no_container_def)
    qed
  qed
qed

end
