(* ===== verification/UploadProperties.thy ===== *)
theory UploadProperties
  imports Uploads FileProperties Samples
begin

text \<open>
  What the uploads of an agent achieve end to end: from the container's log stream and output
  directory through the redactor, an unreliable network and the handlers into the files of the store.
\<close>

section \<open>A running job and a network\<close>

definition running_server :: server where
  "running_server = \<lparr>srv_db = placed_db, srv_files = empty_fs, srv_observations = []\<rparr>"

definition fresh_agent :: log_agent where
  "fresh_agent = \<lparr>la_local = (\<lambda>stream. ''''), la_StdoutOffset = 0, la_StderrOffset = 0, la_LogOrderOffset = 0,
     la_LogSequence = 0\<rparr>"

definition network :: "delivery list \<Rightarrow> server net" where
  "network ds = \<lparr>net_world = running_server, net_plan = map (Pair id) ds, net_sent = 0\<rparr>"

abbreviation log_ok :: "file_config \<Rightarrow> string \<Rightarrow> string \<Rightarrow> server \<Rightarrow> bool" where
  "log_ok cfg j a \<equiv> quota_ok (\<lambda>s. True) (log_dir j a) (maxLogBytes cfg)"

abbreviation stored_log :: "string \<Rightarrow> string \<Rightarrow> server \<Rightarrow> string \<Rightarrow> string" where
  "stored_log j a \<equiv> stored_at (log_path j a)"

lemma empty_total: "total_size empty_fs D = 0"
  by (simp add: total_size_def empty_fs_def)

lemma empty_content: "length p > 1 \<Longrightarrow> file_content empty_fs p = ''''"
  by (cases p) (auto simp: file_content_def empty_fs_def node_def)

lemma running_server_log_ok: "log_ok sample_config j a running_server"
  using empty_fs_ok by (simp add: quota_ok_def running_server_def empty_total sample_config_def store_ok_def)

lemma network_undisturbed: "undisturbed good view (network ds)"
  by (auto simp: undisturbed_def network_def undisturbing_def)


lemma fresh_behind: "behind (log_ok sample_config j a) (stored_log j a) fresh_agent (network ds)"
  using running_server_log_ok network_undisturbed
  by (simp add: behind_def network_def fresh_agent_def stored_at_def running_server_def log_path_def log_dir_def
      empty_content log_offset_def)

section \<open>Logs\<close>





text \<open>The attempt the scheduler gave the sample job.\<close>

definition sample_attempt :: string where
  "sample_attempt = (case Job ''j1'' placed_db of Inl e \<Rightarrow> '''' | Inr job \<Rightarrow> job_AttemptID job)"


definition pending_agent :: log_agent where
  "pending_agent = append_local ''stdout'' ''hello'' fresh_agent"





section \<open>A lost answer\<close>

text \<open>C22: A lost answer ends the upload of a log for good. When the server holds more of a stream than the agent
  knows, because an answer was lost after the chunk was stored, every later synchronisation fails, on whatever
  network, and changes neither the stored log nor the agent's offset: the agent never reads the
  \<^verbatim>\<open>next_offset\<close> of the refusals. The bytes the container writes after that are not stored.\<close>

theorem lost_answer_stops_log:
  assumes "behind (log_ok cfg j a) (stored_log j a) ag net" "t \<in> log_streams"
    and "log_offset ag t < int (length (stored_log j a (net_world net) t))"
    and "syncLog (log_request cfg n j a now) t (append_local t extra ag) net = (ok, ag', net')"
  shows "\<not> ok \<and> stored_log j a (net_world net') t = stored_log j a (net_world net) t \<and>
    log_offset ag' t = log_offset ag t"
proof -
  let ?ag = "append_local t extra ag"
  have b: "log_ok cfg j a (net_world net)" "undisturbed (log_ok cfg j a) (stored_log j a) net"
    "prefix (stored_log j a (net_world net) t) (la_local ag t)" "0 \<le> log_offset ag t"
    using assms(1,2) by (auto simp: behind_def log_streams_def)
  let ?rest = "drop (nat (log_offset ag t)) (la_local ?ag t)"
  have o: "log_offset ?ag t = log_offset ag t" by (rule logs.append_local_simps)
  have "length (stored_log j a (net_world net) t) \<le> length (la_local ag t)" using b(3) by (rule prefix_length_le)
  then have "?rest \<noteq> []" using assms(3) b(4) by (simp add: append_local_def)
  then have "chunks_of 262144 ?rest = take 262144 ?rest # chunks_of 262144 (drop 262144 ?rest)"
    by (subst chunks_of.simps) simp
  then obtain c cs where cs: "chunks_of 262144 ?rest = c # cs" by blast
  obtain m s net1 where u: "uploadBinary (log_request cfg n j a now t (log_offset ag t) c) net = ((m, s), net1)"
    by (metis surj_pair)
  have i: "in_i64 (log_offset ag t)"
    using in_i64_length [OF b(4) _ logs.stored_i64 [OF b(1) assms(2)]] assms(3) by simp
  note f = logs.upload_cases [OF b(1,2) assms(2) i u]
  have "\<not> s" "stored_log j a (net_world net1) t = stored_log j a (net_world net) t" using f(4,5) assms(3) by auto
  with u have "send_chunks (log_request cfg n j a now t) (log_offset ag t) (c # cs) net = ((log_offset ag t, False), net1)"
    by simp
  with assms(4) o cs have "ok = False" "ag' = set_log_offset t (log_offset ag t) ?ag" "net' = net1"
    by (simp_all add: syncLog_def)
  moreover have "log_offset (set_log_offset t x ?ag) t = x" for x
    using assms(2) by (auto simp: log_offset_def set_log_offset_def log_streams_def)
  ultimately show ?thesis using \<open>stored_log j a (net_world net1) t = _\<close> by simp
qed

text \<open>The first answer to the sample agent is lost.\<close>

definition after_loss :: "bool \<times> log_agent \<times> server net" where
  "after_loss = syncLog (log_request sample_config ''n1'' ''j1'' sample_attempt 0) ''stdout'' pending_agent
     (network [LostResponse])"

lemma after_loss_values:
  "log_offset (fst (snd after_loss)) ''stdout'' = 0"
  "stored_log ''j1'' sample_attempt (net_world (snd (snd after_loss))) ''stdout'' = ''hello''"
  by code_simp+

theorem lost_answer_stops_log_witness:
  "fst (syncLog (log_request sample_config ''n1'' ''j1'' sample_attempt 0) ''stdout''
     (append_local ''stdout'' '' world'' (fst (snd after_loss))) (snd (snd after_loss))) = False"
proof -
  obtain ok ag net where l: "after_loss = (ok, ag, net)" by (metis surj_pair)
  have b: "behind (log_ok sample_config ''j1'' sample_attempt) (stored_log ''j1'' sample_attempt) pending_agent
      (network [LostResponse])"
    by (rule logs.behind_grows [OF fresh_behind]) (simp_all add: pending_agent_def append_local_def log_offset_def)
  have "behind (log_ok sample_config ''j1'' sample_attempt) (stored_log ''j1'' sample_attempt) ag net"
    by (rule logs.syncLog_behind(1) [OF l [unfolded after_loss_def] b]) (simp_all add: log_streams_def)
  moreover have "''stdout'' \<in> log_streams" by (simp add: log_streams_def)
  moreover have "log_offset ag ''stdout'' < int (length (stored_log ''j1'' sample_attempt (net_world net) ''stdout''))"
    using after_loss_values unfolding l fst_conv snd_conv by simp
  moreover obtain ok2 ag2 net2 where s: "syncLog (log_request sample_config ''n1'' ''j1'' sample_attempt 0) ''stdout''
      (append_local ''stdout'' '' world'' ag) net = (ok2, ag2, net2)" by (metis surj_pair)
  ultimately have "\<not> ok2" using lost_answer_stops_log by blast
  with s show ?thesis unfolding l fst_conv snd_conv by simp
qed

end
