(* ===== verification/RunProperties.thy ===== *)
theory RunProperties
  imports RunFacts CheckpointProperties
begin

text \<open>
  What the execution of an assignment achieves and leaves behind: verified inputs that never outlive it,
  containers that are removed, and the ways in which a job and its agent lose each other.
\<close>

section \<open>Inputs\<close>

text \<open>C25: The inputs of a container are the files of the job's manifest: when \<^verbatim>\<open>materializeInputs\<close> succeeds for an
  accepted specification, whatever the server sent, the input directory holds every file of the manifest at
  its place, read-only and with the size and the SHA-256 digest of the manifest, and no file more. When
  it fails, the directory is gone. Nothing outside the directory is changed.\<close>

theorem inputs_are_verified:
  assumes "materializeInputs workspace fetch (spec_Inputs spec) root fs net = (err, fs', net')"
    and "fs_ok fs" "workspaceChild workspace root" "ValidateJobSpec spec = Inr ()"
  shows "(\<forall>q. \<not> prefix root q \<and> \<not> prefix q root \<longrightarrow> node fs' q = node fs q) \<and>
    (err \<noteq> None \<longrightarrow> (\<forall>q. prefix root q \<longrightarrow> node fs' q = None)) \<and>
    (err = None \<longrightarrow>
      (\<forall>f\<in>set (spec_Inputs spec). \<exists>p data. materializedPath root (input_Path f) = Inr p \<and>
         node fs' p = Some (Reg 292 data) \<and> int (length data) = input_Size f \<and> SHA256 data = input_SHA256 f) \<and>
      (\<forall>q m d. prefix root q \<and> node fs' q = Some (Reg m d) \<longrightarrow>
         (\<exists>f\<in>set (spec_Inputs spec). materializedPath root (input_Path f) = Inr q)))"
proof -
  have ne: "root \<noteq> []" using assms(3) by (cases workspace) (auto simp: workspaceChild_def)
  have "validate_inputs [] (spec_Inputs spec) = Inr ()"
    using assms(4) by (auto simp: ValidateJobSpec_def Let_def split: if_splits sum.splits)
  note v = validate_inputs_sound [OF this]
  have "path_clean (slashed (input_Path f)) = normalize_input_path (input_Path f)" if "f \<in> set (spec_Inputs spec)" for f
    using v(3) [OF that] by (simp add: input_path_rejected_def slashed_def normalize_input_path_def)
  with v(1) have ap: "apart_files root (spec_Inputs spec)"
    by (simp add: apart_files_def comp_def cong: map_cong)
  show ?thesis
  proof (cases "removeMaterializedInputs root fs")
    case (Inl e)
    then have "node fs root = None" by (auto simp: removeMaterializedInputs_def dest: Lstat_Inl split: sum.splits if_splits)
    with nothing_below [OF assms(2)] Inl assms(1,3) show ?thesis by (auto simp: materializeInputs_def)
  next
    case (Inr fs1)
    note f1 = removeMaterializedInputs_facts [OF Inr assms(2) ne]
    show ?thesis
    proof (cases "MkdirAll root fs1")
      case (Inl e)
      with Inr f1 assms(1,3) show ?thesis by (auto simp: materializeInputs_def)
    next
      case mk: (Inr fs2)
      have ok2: "fs_ok fs2" and d2: "node fs2 root = Some Dir"
        using MkdirAll_ok [OF f1(1) mk] MkdirAll_dir [OF mk] by simp_all
      have n2: "node fs2 q = node fs q" if "\<not> prefix root q" "\<not> prefix q root" for q
        using MkdirAll_node [OF mk, of q] f1(2) that by simp
      have e2: "node fs2 q \<noteq> Some (Reg m d)" if "prefix root q" for q m d
        using MkdirAll_node [OF mk, of q] f1(3) that by simp
      obtain e fs3 net3 where m: "materialize_files fetch root (spec_Inputs spec) fs2 net = (e, fs3, net3)" by (metis surj_pair)
      note f3 = materialize_files_facts [OF m ok2 d2 ap ne]
      show ?thesis
      proof (cases e)
        case None
        with m Inr mk assms(1,3) have r: "err = None" "fs' = fs3" by (simp_all add: materializeInputs_def)
        have "placed root (spec_Inputs spec) q" if "prefix root q" "node fs3 q = Some (Reg m d)" for q m d
          using f3 None that e2 by blast
        with r f3 None n2 show ?thesis by (simp add: placed_def matches_def)
      next
        case (Some x)
        with m Inr mk assms(1,3) have "err = Some x" "fs' = clean_up_inputs root fs3"
          by (simp_all add: materializeInputs_def)
        with clean_up_inputs_facts [OF conjunct1 [OF f3] ne] f3 n2 show ?thesis by simp
      qed
    qed
  qed
qed

text \<open>A server that sends the one byte the manifest promises.\<close>

definition one_input :: JobSpec where
  "one_input = sample_spec\<lparr>spec_Inputs := [\<lparr>input_Path = ''x'', input_Size = 1, input_SHA256 = SHA256 ''a''\<rparr>]\<rparr>"

definition one_download :: "string \<Rightarrow> unit \<Rightarrow> download" where
  "one_download p w = \<lparr>dl_status = 200, dl_sha256 = SHA256 ''a'', dl_oci_digest = '''', dl_length = 1,
     dl_body = \<lparr>rd_data = ''a'', rd_fails = False\<rparr>\<rparr>"

lemma one_input_valid: "ValidateJobSpec one_input = Inr ()"
proof -
  have "validate_inputs [] (spec_Inputs one_input) = Inr ()"
  proof -
    have "\<not> input_path_rejected (normalize_input_path ''x'')" by code_simp
    with SHA256_lowercase [of "''a''"] show ?thesis
      by (simp add: one_input_def lowercaseSHA256_def)
  qed
  moreover have "ValidateJobSpec sample_spec = Inr ()" by code_simp
  ultimately show ?thesis
    by (auto simp: ValidateJobSpec_def one_input_def validate_gpu_request_def Let_def split: if_splits sum.splits)
qed

lemma one_path: "materializedPath [''w'', ''i''] ''x'' = Inr [''w'', ''i'', ''x'']"
  by code_simp

definition bare_fs :: fs where
  "bare_fs = [([], Dir)]"

lemma bare_fs_ok: "fs_ok bare_fs"
  by (auto simp: fs_ok_def bare_fs_def node_def)

lemma one_input_runs:
  "fst (materializeInputs [''w''] one_download (spec_Inputs one_input) [''w'', ''i''] bare_fs
     \<lparr>net_world = (), net_plan = [], net_sent = 0\<rparr>) = None"
proof -
  have "SHA256 ''a'' \<noteq> ''''" using SHA256_length [of "''a''"] by (metis list.size(3) zero_neq_numeral)
  then show ?thesis
    by (simp add: materializeInputs_def workspaceChild_def removeMaterializedInputs_def Lstat_def missing_error_def
        blocked_def ancestors_def bare_fs_def one_input_def one_path http_get_def next_call_def one_download_def
        downloadInput_def LimitReader_def MkdirAll_def mkdir_missing_def node_def put_def Let_def)
qed

theorem inputs_are_verified_witness:
  "\<exists>data. node (fst (snd (materializeInputs [''w''] one_download (spec_Inputs one_input) [''w'', ''i''] bare_fs
     \<lparr>net_world = (), net_plan = [], net_sent = 0\<rparr>))) [''w'', ''i'', ''x''] = Some (Reg 292 data) \<and>
     SHA256 data = SHA256 ''a''"
proof -
  obtain fs' net' where m: "materializeInputs [''w''] one_download (spec_Inputs one_input) [''w'', ''i''] bare_fs
      \<lparr>net_world = (), net_plan = [], net_sent = 0\<rparr> = (None, fs', net')"
    using one_input_runs by (metis surj_pair fst_conv)
  have "workspaceChild [''w''] [''w'', ''i'']" by (simp add: workspaceChild_def)
  from inputs_are_verified [OF m bare_fs_ok this one_input_valid] m show ?thesis
    by (auto simp: one_input_def one_path)
qed

section \<open>Containers and inputs\<close>

text \<open>C26: An execution cleans up behind itself, however Docker, the server and the network behave and whenever it is
  stopped: the input directory is gone, only the container it created is ever started, and that container
  is removed. The one exception is a container whose start could not be reported: \<^verbatim>\<open>execute\<close> returns with the
  container running and the record still among the running ones.\<close>

theorem executions_clean_up:
  assumes "\<not> h_running h" "h_saves h = []" "fs_ok (h_disk h)" "dk_create dk \<noteq> Some ''''"
    and "workspaceChild (cfg_WorkspaceDir cfg) (job_dir cfg a @ [''input''])"
    and "h' = startAssignment cfg api dk a logs h"
  shows "node (h_disk h') (job_dir cfg a @ [''input'']) = None \<and>
    (\<exists>calls. h_docker h' = h_docker h @ calls \<and>
      (\<forall>c. StartContainer c \<in> set calls \<longrightarrow> dk_create dk = Some c \<and> (\<exists>r. CreateContainer r \<in> set calls)) \<and>
      (\<forall>c. dk_create dk = Some c \<and> (\<exists>r. CreateContainer r \<in> set calls) \<longrightarrow>
         RemoveContainer c \<in> set calls \<or> start_unreported api c h'))"
proof -
  define r0 where "r0 = \<lparr>rt_Assignment = a, rt_ContainerID = '''', rt_Sequence = asg_EventSequence a,
    rt_Completed = False, rt_StopRequested = False, rt_Logs = logs\<rparr>"
  define h1 where "h1 = h\<lparr>h_record := r0, h_running := True, h_saves := [], h_saved := Some r0\<rparr>"
  have "h' = execute cfg api dk h1"
    using assms(1,2,6) by (simp add: startAssignment_def save_def r0_def h1_def Let_def)
  moreover have "rt_Assignment (h_record h1) = a" "rt_ContainerID (h_record h1) = ''''" "h_running h1"
    "h_disk h1 = h_disk h" "h_docker h1 = h_docker h" by (simp_all add: h1_def r0_def)
  ultimately show ?thesis using execute_facts [of h1 dk cfg api] assms(3-5) by simp
qed

text \<open>A server that answers everything with success.\<close>

definition kind_api :: "unit agent_api" where
  "kind_api = \<lparr>api_event = (\<lambda>b w. (no_content, w)), api_accept = (\<lambda>c w. (no_content, w)),
     api_log = (\<lambda>s n d w. (next_offset 200 (n + int (length d)), w)),
     api_output = (\<lambda>s n d w. (next_offset 200 (n + int (length d)), w)),
     api_input = one_download, api_artifact = one_download ''''\<rparr>"

definition sample_assignment :: Assignment where
  "sample_assignment = \<lparr>asg_ID = ''s1'', asg_JobID = ''j1'', asg_AttemptID = ''a1'', asg_Spec = sample_spec,
     asg_GPUUUIDs = [], asg_CPUPackageID = '''', asg_CPUSet = '''', asg_JobToken = ''t'', asg_JobTokenEncrypted = '''',
     asg_Secrets = [], asg_RegistryAuth = '''', asg_ManagedArtifact = None, asg_CreatedAt = 0, asg_EventSequence = 1\<rparr>"

definition idle_host :: "'s \<Rightarrow> 's host" where
  "idle_host w = \<lparr>h_record = \<lparr>rt_Assignment = sample_assignment, rt_ContainerID = '''', rt_Sequence = 0,
       rt_Completed = False, rt_StopRequested = False, rt_Logs = fresh_agent\<rparr>,
     h_running = False, h_saved = None, h_disk = bare_fs, h_docker = [],
     h_net = \<lparr>net_world = w, net_plan = [], net_sent = 0\<rparr>, h_stops = [], h_saves = []\<rparr>"

definition good_docker :: container_host where
  "good_docker = \<lparr>dk_pull = True, dk_digest = (\<lambda>i. ''d''), dk_load = (\<lambda>a. True), dk_create = Some ''c1'', dk_start = True,
     dk_logs = ('''', False), dk_wait = Some 0, dk_outputs = [], dk_error = ''error''\<rparr>"

definition sample_agent :: agent_config where
  "sample_agent = \<lparr>cfg_WorkspaceDir = [''w''], cfg_ServerURL = ''u''\<rparr>"

lemma sample_job_dir: "job_dir sample_agent sample_assignment = [''w'', ''j1'', ''a1'']"
  by code_simp

theorem executions_clean_up_witness:
  "node (h_disk (startAssignment sample_agent kind_api good_docker sample_assignment fresh_agent (idle_host ())))
     [''w'', ''j1'', ''a1'', ''input''] = None"
proof -
  have "workspaceChild (cfg_WorkspaceDir sample_agent) (job_dir sample_agent sample_assignment @ [''input''])"
    unfolding sample_job_dir by (simp add: sample_agent_def workspaceChild_def)
  from executions_clean_up [OF _ _ _ _ this refl, of "idle_host ()" good_docker kind_api fresh_agent] bare_fs_ok
  show ?thesis by (simp add: idle_host_def good_docker_def sample_job_dir)
qed

section \<open>Lost completions\<close>

lemma try_complete_lost:
  "take k (net_plan net) = replicate k (id, LostRequest) \<Longrightarrow>
   \<exists>net'. try_complete k request net = (False, net') \<and> net_world net' = net_world net"
proof (induction k arbitrary: net)
  case (Suc k)
  then obtain cs where p: "net_plan net = (id, LostRequest) # cs" "take k cs = replicate k (id, LostRequest)"
    by (cases "net_plan net") (auto simp: id_def)
  define n where "n = net\<lparr>net_plan := cs, net_sent := Suc (net_sent net)\<rparr>"
  have n: "net_plan n = cs" "net_world n = net_world net" by (simp_all add: n_def)
  have "try_complete (Suc k) request net = try_complete k request n"
    using p(1) by (simp add: http_do_def next_call_def Let_def n_def)
  moreover have "\<exists>net'. try_complete k request n = (False, net') \<and> net_world net' = net_world n"
    by (rule Suc.IH) (simp only: n p(2))
  ultimately show ?case unfolding n(2) by simp
qed simp

text \<open>C28: The result of the last event of an execution is not looked at. When its five attempts are lost, the agent
  removes the container and saves the record as completed although the server knows nothing of the end; a
  later \<^verbatim>\<open>stop\<close> and the reconciliation after a restart then ignore the job. As the server delivers an accepted
  assignment only once, the job stays \<^verbatim>\<open>RUNNING\<close> for as long as its node is alive.\<close>

theorem lost_completion_strands_job:
  assumes "take 5 (net_plan (h_net h)) = replicate 5 (id, LostRequest)" "h_stops h = []" "h_saves h = []"
    and "h' = publish_outcome api exitCode outputs h"
  shows "net_world (h_net h') = net_world (h_net h) \<and> \<not> h_running h' \<and>
    RemoveContainer (rt_ContainerID (h_record h)) \<in> set (h_docker h') \<and>
    (\<exists>r. h_saved h' = Some r \<and> rt_Completed r \<and> rt_Sequence r = rt_Sequence (h_record h)) \<and>
    stop api' h' = h' \<and> reconcile cfg api' dk container h' = h'"
proof -
  obtain st ty reason where oc: "outcome (rt_StopRequested (h_record h)) exitCode = (st, ty, reason)" by (metis surj_pair)
  have l: "stopRequested api h = (rt_StopRequested (h_record h), h)"
    using assms(2) by (simp add: stopRequested_def Let_def)
  define body where "body = \<lparr>ag_attemptID = asg_AttemptID (rt_Assignment (h_record h)),
    ag_sequence = i64 (rt_Sequence (h_record h) + 1), ag_type = ty, ag_report = \<lparr>rp_status = st,
      rp_exitCode = Some exitCode, rp_imageDigest = '''', rp_reason = reason\<rparr>,
    ag_payload = outputs_payload outputs, ag_outputs = outputs\<rparr>"
  obtain net' where t: "try_complete 5 (api_event api body) (h_net h) = (False, net')" "net_world net' = net_world (h_net h)"
    using try_complete_lost [OF assms(1)] by blast
  then have n: "sendEvent api ty st (Some exitCode) reason '''' (outputs_payload outputs) outputs h =
      (False, h\<lparr>h_net := net'\<rparr>)" "net_world net' = net_world (h_net h)"
    by (simp_all add: sendEvent_def Let_def body_def)
  have "h' = removeRunning (docker (RemoveContainer (rt_ContainerID (h_record h)))
      (snd (save (set_completed (h\<lparr>h_net := net'\<rparr>)))))"
    using assms(4) l oc n(1) by (simp add: publish_outcome_def Let_def)
  then show ?thesis using assms(3) n(2)
    by (auto simp: save_def set_completed_def stop_def reconcile_def removeRunning_def docker_def split: option.splits)
qed

theorem lost_completion_strands_job_witness:
  "stop kind_api (publish_outcome kind_api 0 [] ((idle_host ())\<lparr>h_running := True,
       h_net := \<lparr>net_world = (), net_plan = replicate 5 (id, LostRequest), net_sent = 0\<rparr>\<rparr>)) =
   publish_outcome kind_api 0 [] ((idle_host ())\<lparr>h_running := True,
       h_net := \<lparr>net_world = (), net_plan = replicate 5 (id, LostRequest), net_sent = 0\<rparr>\<rparr>)"
  using lost_completion_strands_job [OF _ _ _ refl, of "(idle_host ())\<lparr>h_running := True,
       h_net := \<lparr>net_world = (), net_plan = replicate 5 (id, LostRequest), net_sent = 0\<rparr>\<rparr>"]
  by (simp add: idle_host_def)

section \<open>Swallowed reports\<close>

lemma update_status_loop_events:
  "tbl_events (snd (update_status_loop k (\<lambda>k d. d) i rp now d)) = tbl_events d"
proof (induction k)
  case (Suc k)
  have "tbl_events d' = tbl_events d" if "status_transaction job rp now d = Some (r, d')" for job r d'
    using that by (auto simp: status_transaction_def Let_def split: if_splits)
  with Suc show ?case by (auto split: sum.splits option.splits)
qed simp

lemma agentEvent_known:
  assumes "has_row (\<lambda>e. ev_job_id e = i \<and> ev_sequence e = ag_sequence body) (tbl_events d)"
  shows "tbl_events (snd (agentEvent no_env n i body now d)) = tbl_events d"
proof (cases "Job i d")
  case (Inr job)
  have "fst (AppendEvent \<lparr>event_ID = 0, event_JobID = job_ID job, event_AttemptID = ag_attemptID body,
      event_Sequence = ag_sequence body, event_Type = ag_type body, event_Status = rp_status (ag_report body),
      event_Payload = ag_payload body, event_CreatedAt = now\<rparr> d) = Inr () \<or> ag_type body = ''resource_sample''"
    using assms Job_ID [OF Inr] by (simp add: AppendEvent_def)
  moreover have "snd (AppendEvent \<lparr>event_ID = 0, event_JobID = job_ID job, event_AttemptID = ag_attemptID body,
      event_Sequence = ag_sequence body, event_Type = ag_type body, event_Status = rp_status (ag_report body),
      event_Payload = ag_payload body, event_CreatedAt = now\<rparr> d) = d"
    using assms Job_ID [OF Inr] by (simp add: AppendEvent_def)
  moreover have "tbl_events (snd (SetAttemptOutputs j a outs d')) = tbl_events d'" for j a outs d'
    by (simp add: SetAttemptOutputs_def Let_def)
  moreover have "tbl_events (snd (UpdateJobStatus no_env j rp now d)) = tbl_events d" for j rp
  proof -
    have "(no_env :: nat \<Rightarrow> db \<Rightarrow> db) = (\<lambda>k d. d)" by (simp add: no_env_def fun_eq_iff)
    then show ?thesis using update_status_loop_events by (simp add: UpdateJobStatus_def)
  qed
  ultimately show ?thesis using Inr
    by (auto simp: agentEvent_def split: prod.splits sum.splits) (metis snd_conv)+
qed (simp add: agentEvent_def)

text \<open>C27: Events of the server and of the agent share the sequence numbers of a job, and the agent only counts its
  own. After the server has logged an event of its own (a stop request, a checkpoint that was requested or
  confirmed), the next report of the agent has a number that is taken: it is not logged and no update of the
  status is published to the owner of the job, not even when the report is the end of the job and the
  status is changed.\<close>

theorem server_event_swallows_report:
  assumes "AppendServerEvent i ty payload t d = (Inr (), d1)"
    and "ag_sequence body = max_or_zero (map ev_sequence (filter (\<lambda>e. ev_job_id e = i) (tbl_events d))) + 1"
  shows "tbl_events (snd (agentEvent no_env n i body now d1)) = tbl_events d1"
proof -
  have "has_row (\<lambda>e. ev_job_id e = i \<and> ev_sequence e = ag_sequence body) (tbl_events d1)"
    if "append_server_event_loop k i ty payload t d = (Inr (), d1)" for k
    using that
  proof (induction k)
    case (Suc k)
    then show ?case using assms(2)
      by (auto simp: next_event_row_def push_event_def has_row_iff Let_def split: option.splits if_splits)
  qed simp
  with assms(1) have "has_row (\<lambda>e. ev_job_id e = i \<and> ev_sequence e = ag_sequence body) (tbl_events d1)"
    by (auto simp: AppendServerEvent_def)
  then show ?thesis by (rule agentEvent_known)
qed

text \<open>The sample job runs, its owner asks for a stop that comes too late, and the agent reports success.\<close>

definition asked_db :: db where
  "asked_db = snd (AppendServerEvent ''j1'' ''stop_requested'' [] 7500000000
     (snd (UpdateJobStatus no_env ''j1'' (sample_report JobRunning) 7000000000 placed_db)))"

definition last_report :: agent_report where
  "last_report = \<lparr>ag_attemptID = sample_attempt, ag_sequence = 2, ag_type = ''completed'',
     ag_report = sample_report JobSucceeded, ag_payload = [], ag_outputs = []\<rparr>"

lemma last_report_values:
  "fst (AppendServerEvent ''j1'' ''stop_requested'' [] 7500000000
     (snd (UpdateJobStatus no_env ''j1'' (sample_report JobRunning) 7000000000 placed_db))) = Inr ()"
  "max_or_zero (map ev_sequence (filter (\<lambda>e. ev_job_id e = ''j1'') (tbl_events
     (snd (UpdateJobStatus no_env ''j1'' (sample_report JobRunning) 7000000000 placed_db))))) = 1"
  "job_status (snd (agentEvent no_env ''n1'' ''j1'' last_report 8000000000 asked_db)) ''j1'' = Some JobSucceeded"
  "\<not> list_ex (\<lambda>e. ev_status e = JobSucceeded) (tbl_events asked_db)"
  by code_simp+

theorem server_event_swallows_report_witness:
  "job_status (snd (agentEvent no_env ''n1'' ''j1'' last_report 8000000000 asked_db)) ''j1'' = Some JobSucceeded \<and>
   \<not> list_ex (\<lambda>e. ev_status e = JobSucceeded)
       (tbl_events (snd (agentEvent no_env ''n1'' ''j1'' last_report 8000000000 asked_db)))"
proof -
  have "AppendServerEvent ''j1'' ''stop_requested'' [] 7500000000
      (snd (UpdateJobStatus no_env ''j1'' (sample_report JobRunning) 7000000000 placed_db)) = (Inr (), asked_db)"
    using last_report_values(1) by (simp add: asked_db_def prod_eq_iff)
  from server_event_swallows_report [OF this, of last_report "''n1''" 8000000000] last_report_values
  show ?thesis by (simp add: last_report_def)
qed

section \<open>Resumed containers\<close>

text \<open>The reconciliation after a restart of the agent takes a container of the job for a running one: it asks
  Docker for nothing but stops and removals, so a container that was created but not yet started is never
  started. The wait for \<^verbatim>\<open>not-running\<close> then returns at once, and with its exit code 0 the reported outcome
  of the job is success.\<close>

theorem resumed_container_is_not_started:
  assumes "h_saved h = Some r" "\<not> rt_Completed r" "c \<noteq> ''''"
  shows "\<exists>calls. h_docker (reconcile cfg api dk (Some c) h) = h_docker h @ calls \<and> no_container calls"
proof -
  define h1 where "h1 = h\<lparr>h_record := r\<lparr>rt_ContainerID := c\<rparr>, h_running := True\<rparr>"
  have e: "reconcile cfg api dk (Some c) h = execute cfg api dk h1" using assms by (simp add: reconcile_def h1_def)
  have f: "h_running h1" "rt_ContainerID (h_record h1) = c" "h_docker h1 = h_docker h" by (simp_all add: h1_def)
  obtain res disk where p: "prepare_workspace cfg (dk_error dk) (rt_Assignment (h_record h1)) (h_disk h1) = (res, disk)"
    by (metis surj_pair)
  have fail: "\<exists>calls. h_docker (fail api ty err g) = h_docker h @ calls \<and> no_container calls"
    if "h_docker g = h_docker h" for ty err g
    using that by (auto simp: no_container_def)
  show ?thesis
  proof (cases "workspaceChild (cfg_WorkspaceDir cfg) (job_dir cfg (rt_Assignment (h_record h1)) @ [''input''])")
    case False
    then show ?thesis using fail [of h1] f unfolding e by (simp add: execute_def)
  next
    case True
    obtain cleaned h2 where b: "execute_body cfg api dk h1 = (cleaned, h2)" by (metis surj_pair)
    have x: "h_docker (execute cfg api dk h1) = h_docker h2" using True b by (simp add: execute_def)
    show ?thesis
    proof (cases res)
      case (Inl ev)
      then obtain ty err where "h2 = fail api ty err (h1\<lparr>h_disk := disk\<rparr>)"
        using p b by (cases ev) (auto simp: execute_body_def)
      then show ?thesis using fail [of "h1\<lparr>h_disk := disk\<rparr>"] f unfolding e x by simp
    next
      case (Inr eb)
      with p b f(2) assms(3) have "run_container cfg api dk (h1\<lparr>h_disk := disk\<rparr>) = (cleaned, h2)"
        by (cases eb) (simp add: execute_body_def Let_def)
      from run_container_facts [OF this _ refl] f assms(3) show ?thesis unfolding e x by (auto simp: adds_def)
    qed
  qed
qed

theorem resumed_container_is_not_started_witness:
  "\<exists>calls. h_docker (reconcile sample_agent kind_api good_docker (Some ''c1'')
     ((idle_host ())\<lparr>h_saved := Some (h_record (idle_host ()))\<rparr>)) = calls \<and> no_container calls"
  using resumed_container_is_not_started [of "(idle_host ())\<lparr>h_saved := Some (h_record (idle_host ()))\<rparr>"
      "h_record (idle_host ())" "''c1''" sample_agent kind_api good_docker]
  by (simp add: idle_host_def)

end
