(* ===== verification/Auth.thy ===== *)
theory Auth
  imports SHA256
begin

text \<open>
  \<^verbatim>\<open>internal/auth/auth.go\<close>: the hashes under which credentials are stored, and passwords. Argon2 is a
  third-party package: \<open>idkey\<close> stands for \<^verbatim>\<open>argon2.IDKey(password, salt, time, memory, threads, keyLen)\<close>.
\<close>

section \<open>Base64\<close>

text \<open>\<^verbatim>\<open>RawStdEncoding\<close> and \<^verbatim>\<open>RawURLEncoding\<close> differ in two letters; both write no padding.\<close>

definition letter_codes :: "nat list" where
  "letter_codes = [65..<91] @ [97..<123] @ [48..<58]"

definition std_alphabet :: string where
  "std_alphabet = map char_of (letter_codes @ [43, 47])"

definition url_alphabet :: string where
  "url_alphabet = map char_of (letter_codes @ [45, 95])"

fun base64_encode :: "string \<Rightarrow> nat list \<Rightarrow> string" where
  "base64_encode al [] = []"
| "base64_encode al [a] = [al ! (a div 4), al ! (a mod 4 * 16)]"
| "base64_encode al [a, b] = [al ! (a div 4), al ! (a mod 4 * 16 + b div 16), al ! (b mod 16 * 4)]"
| "base64_encode al (a # b # c # bytes) =
     [al ! (a div 4), al ! (a mod 4 * 16 + b div 16), al ! (b mod 16 * 4 + c div 64), al ! (c mod 64)] @
     base64_encode al bytes"

text \<open>The position of a letter; a letter outside the alphabet is a \<^verbatim>\<open>CorruptInputError\<close>.\<close>

fun letter_value :: "string \<Rightarrow> char \<Rightarrow> nat option" where
  "letter_value [] c = None"
| "letter_value (l # ls) c = (if l = c then Some 0 else map_option Suc (letter_value ls c))"

fun base64_groups :: "nat list \<Rightarrow> nat list option" where
  "base64_groups [] = Some []"
| "base64_groups [p] = None"
| "base64_groups [p, q] = Some [p * 4 + q div 16]"
| "base64_groups [p, q, r] = Some [p * 4 + q div 16, q mod 16 * 16 + r div 4]"
| "base64_groups (p # q # r # s # vs) =
     map_option (\<lambda>bytes. [p * 4 + q div 16, q mod 16 * 16 + r div 4, r mod 4 * 64 + s] @ bytes)
       (base64_groups vs)"

text \<open>\<^verbatim>\<open>DecodeString\<close> skips line breaks and does not look at the unused low bits of the last letter.\<close>

definition base64_decode :: "string \<Rightarrow> string \<Rightarrow> nat list option" where
  "base64_decode al s =
     (let values = map (letter_value al) (filter (\<lambda>c. c \<noteq> CHR 0x0A \<and> c \<noteq> CHR 0x0D) s)
      in if list_all (\<lambda>v. v \<noteq> None) values then base64_groups (map the values) else None)"

definition octets :: "string \<Rightarrow> nat list" where
  "octets s = map of_char s"

definition string_of :: "nat list \<Rightarrow> string" where
  "string_of bytes = map char_of bytes"

section \<open>Tokens\<close>

definition word_bytes :: "word32 \<Rightarrow> nat list" where
  "word_bytes w = [unat (drop_bit 24 w) mod 256, unat (drop_bit 16 w) mod 256, unat (drop_bit 8 w) mod 256,
     unat w mod 256]"

definition TokenHash :: "string \<Rightarrow> string" where
  "TokenHash token = base64_encode url_alphabet (concat (map word_bytes (sha256 token)))"

section \<open>Passwords\<close>

type_synonym argon2 = "string \<Rightarrow> string \<Rightarrow> nat \<Rightarrow> nat \<Rightarrow> nat \<Rightarrow> nat \<Rightarrow> string"

definition raw_std :: "string \<Rightarrow> string" where
  "raw_std s = base64_encode std_alphabet (octets s)"

text \<open>\<open>salt\<close> is what \<^verbatim>\<open>rand.Read\<close> gives, 16 bytes. \<open>None\<close> is the error of a short password.\<close>

definition HashPassword :: "argon2 \<Rightarrow> string \<Rightarrow> string \<Rightarrow> string option" where
  "HashPassword idkey salt password =
     (if length password < 12 then None
      else Some (''$argon2id$v=19$m=65536,t=3,p=2$'' @ raw_std salt @ ''$'' @
        raw_std (idkey password salt 3 65536 2 32)))"

text \<open>
  \<^verbatim>\<open>fmt.Sscanf\<close> of one unsigned number: spaces but line breaks are skipped, the longest run of decimal
  digits is read and must fit \<open>bits\<close> bits.
\<close>

definition decimal :: "char \<Rightarrow> bool" where
  "decimal c \<longleftrightarrow> 48 \<le> (of_char c :: nat) \<and> (of_char c :: nat) \<le> 57"

definition scan_digits :: "nat \<Rightarrow> string \<Rightarrow> (nat \<times> string) option" where
  "scan_digits bits s =
     (let s = trim_left (filter (\<lambda>e. e \<noteq> [CHR 0x0A]) space_encodings) s;
          digits = takeWhile decimal s;
          n = foldl (\<lambda>n d. n * 10 + (of_char d - 48)) 0 digits
      in if digits = '''' \<or> 2 ^ bits \<le> n then None else Some (n, drop (length digits) s))"

definition scan_literal :: "string \<Rightarrow> string \<Rightarrow> string option" where
  "scan_literal p s = (if HasPrefix s p then Some (drop (length p) s) else None)"

text \<open>The parameters of an encoded hash, \<^verbatim>\<open>"m=%d,t=%d,p=%d"\<close>; what follows them is not looked at.\<close>

definition scan_parameters :: "string \<Rightarrow> (nat \<times> nat \<times> nat) option" where
  "scan_parameters s =
     Option.bind (scan_literal ''m='' s) (\<lambda>s. Option.bind (scan_digits 32 s) (\<lambda>(memory, s).
     Option.bind (scan_literal '',t='' s) (\<lambda>s. Option.bind (scan_digits 32 s) (\<lambda>(iterations, s).
     Option.bind (scan_literal '',p='' s) (\<lambda>s. Option.bind (scan_digits 8 s) (\<lambda>(parallelism, s).
       Some (memory, iterations, parallelism)))))))"

definition VerifyPassword :: "argon2 \<Rightarrow> string \<Rightarrow> string \<Rightarrow> bool" where
  "VerifyPassword idkey encoded password =
     (let parts = split_on (CHR ''$'') encoded
      in if length parts \<noteq> 6 \<or> parts ! 1 \<noteq> ''argon2id'' then False
         else (case scan_parameters (parts ! 3) of
           None \<Rightarrow> False
         | Some (memory, iterations, parallelism) \<Rightarrow>
             (case base64_decode std_alphabet (parts ! 4) of
                None \<Rightarrow> False
              | Some salt \<Rightarrow>
                  (case base64_decode std_alphabet (parts ! 5) of
                     None \<Rightarrow> False
                   | Some want \<Rightarrow>
                       idkey password (string_of salt) iterations memory parallelism (length want) =
                         string_of want))))"

section \<open>Facts\<close>

lemma letter_value_nth: "distinct al \<Longrightarrow> n < length al \<Longrightarrow> letter_value al (al ! n) = Some n"
proof (induction al arbitrary: n)
  case (Cons l ls)
  then show ?case by (cases n) auto
qed simp

lemma std_codes: "distinct (letter_codes @ [43, 47])" "set (letter_codes @ [43, 47]) \<subseteq> {43..<128}"
  by (auto simp: letter_codes_def)

lemma char_of_eq: "m < 256 \<Longrightarrow> n < 256 \<Longrightarrow> (char_of m :: char) = char_of n \<longleftrightarrow> m = n" for m n :: nat
  by (metis of_char_of mod_less)

lemma std_alphabet_facts: "length std_alphabet = 64" "distinct std_alphabet"
  "list_all (\<lambda>c. c \<noteq> CHR 0x0A \<and> c \<noteq> CHR 0x0D \<and> c \<noteq> CHR ''$'') std_alphabet"
proof -
  show "length std_alphabet = 64" by (simp add: std_alphabet_def letter_codes_def)
  have "inj_on char_of (set (letter_codes @ [43, 47]))"
  proof (rule inj_onI)
    fix m n assume "m \<in> set (letter_codes @ [43, 47])" "n \<in> set (letter_codes @ [43, 47])"
      and "(char_of m :: char) = char_of n"
    moreover from this std_codes(2) have "m < 256" "n < 256" by fastforce+
    ultimately show "m = n" by (simp add: char_of_eq)
  qed
  then show "distinct std_alphabet"
    unfolding std_alphabet_def distinct_map using std_codes(1) by blast
  have other: "(char_of n :: char) \<noteq> c" if "43 \<le> n" "n < 128" "(of_char c :: nat) < 43" for n :: nat and c
  proof
    assume "char_of n = c"
    then have "(of_char c :: nat) = n mod 256" by (metis of_char_of)
    with that show False by simp
  qed
  have "(of_char (CHR 0x0A) :: nat) < 43" "(of_char (CHR 0x0D) :: nat) < 43" "(of_char (CHR ''$'') :: nat) < 43"
    by simp_all
  then have "char_of n \<noteq> CHR 0x0A \<and> char_of n \<noteq> CHR 0x0D \<and> char_of n \<noteq> CHR ''$''"
    if "n \<in> set (letter_codes @ [43, 47])" for n :: nat using that std_codes(2) other by fastforce
  then show "list_all (\<lambda>c. c \<noteq> CHR 0x0A \<and> c \<noteq> CHR 0x0D \<and> c \<noteq> CHR ''$'') std_alphabet"
    unfolding std_alphabet_def list_all_iff by auto
qed

lemma std_letter [simp]:
  "n < 64 \<Longrightarrow> letter_value std_alphabet (std_alphabet ! n) = Some n"
  using letter_value_nth std_alphabet_facts by simp

lemma std_letter_plain:
  assumes "n < 64"
  shows "std_alphabet ! n \<noteq> CHR 0x0A" "std_alphabet ! n \<noteq> CHR 0x0D" "std_alphabet ! n \<noteq> CHR ''$''"
  using std_alphabet_facts(1,3) assms unfolding list_all_length by auto

lemma encode_letters:
  "list_all (\<lambda>b. b < 256) bytes \<Longrightarrow> c \<in> set (base64_encode std_alphabet bytes) \<Longrightarrow>
   \<exists>n<64. c = std_alphabet ! n"
proof (induction std_alphabet bytes rule: base64_encode.induct)
  case (2 a)
  then show ?case by (auto intro: exI [of _ "a div 4"] exI [of _ "a mod 4 * 16"])
next
  case (3 a b)
  then show ?case
    by (auto intro: exI [of _ "a div 4"] exI [of _ "a mod 4 * 16 + b div 16"] exI [of _ "b mod 16 * 4"])
next
  case (4 a b d bytes)
  then show ?case
    by (auto intro: exI [of _ "a div 4"] exI [of _ "a mod 4 * 16 + b div 16"] 
        exI [of _ "b mod 16 * 4 + d div 64"] exI [of _ "d mod 64"])
qed simp

lemma filter_encode:
  "list_all (\<lambda>b. b < 256) bytes \<Longrightarrow>
   filter (\<lambda>c. c \<noteq> CHR 0x0A \<and> c \<noteq> CHR 0x0D) (base64_encode std_alphabet bytes) =
     base64_encode std_alphabet bytes"
  by (rule filter_True) (metis encode_letters std_letter_plain(1,2))

lemma group_split: "y < k \<Longrightarrow> (x * k + y) div k = x \<and> (x * k + y) mod k = y" for x y k :: nat
  by simp

lemma sextets:
  assumes "a < 256" "b < 256" "c < (256::nat)"
  shows "a div 4 < 64" "a mod 4 * 16 + b div 16 < 64" "b mod 16 * 4 + c div 64 < 64" "c mod 64 < 64"
    "a mod 4 * 16 < 64" "b mod 16 * 4 < 64"
    "a div 4 * 4 + (a mod 4 * 16 + b div 16) div 16 = a"
    "(a mod 4 * 16 + b div 16) mod 16 * 16 + (b mod 16 * 4 + c div 64) div 4 = b"
    "(b mod 16 * 4 + c div 64) mod 4 * 64 + c mod 64 = c"
proof -
  have l: "b div 16 < 16" "c div 64 < 4" "a mod 4 < 4" "b mod 16 < 16" using assms by linarith+
  show "a div 4 < 64" "c mod 64 < 64" using assms by linarith+
  show "a mod 4 * 16 + b div 16 < 64" "b mod 16 * 4 + c div 64 < 64" "a mod 4 * 16 < 64" "b mod 16 * 4 < 64"
    using l by linarith+
  show "a div 4 * 4 + (a mod 4 * 16 + b div 16) div 16 = a"
    using group_split [OF l(1), of "a mod 4"] by (simp add: div_mult_mod_eq)
  show "(a mod 4 * 16 + b div 16) mod 16 * 16 + (b mod 16 * 4 + c div 64) div 4 = b"
    using group_split [OF l(1), of "a mod 4"] group_split [OF l(2), of "b mod 16"] by (simp add: div_mult_mod_eq)
  show "(b mod 16 * 4 + c div 64) mod 4 * 64 + c mod 64 = c"
    using group_split [OF l(2), of "b mod 16"] by (simp add: div_mult_mod_eq)
qed

lemma encode_values:
  "list_all (\<lambda>b. b < 256) bytes \<Longrightarrow>
   list_all (\<lambda>v. v \<noteq> None) (map (letter_value std_alphabet) (base64_encode std_alphabet bytes)) \<and>
   base64_groups (map (the \<circ> letter_value std_alphabet) (base64_encode std_alphabet bytes)) = Some bytes"
proof (induction std_alphabet bytes rule: base64_encode.induct)
  case (4 a b c bytes)
  then have v: "a < 256" "b < 256" "c < 256" by simp_all
  note g = sextets [OF v]
  from 4 have "list_all (\<lambda>v. v \<noteq> None) (map (letter_value std_alphabet) (base64_encode std_alphabet bytes))"
    "base64_groups (map (the \<circ> letter_value std_alphabet) (base64_encode std_alphabet bytes)) = Some bytes"
    by simp_all
  then show ?case using g by simp
next
  case (2 a)
  then show ?case using sextets [of a 0 0] by simp
next
  case (3 a b)
  then show ?case using sextets [of a b 0] by simp
qed simp

lemma base64_roundtrip: "list_all (\<lambda>b. b < 256) bytes \<Longrightarrow>
   base64_decode std_alphabet (base64_encode std_alphabet bytes) = Some bytes"
  using encode_values [of bytes] by (simp add: base64_decode_def filter_encode Let_def)

lemma octets_bound [simp]: "list_all (\<lambda>b. b < 256) (octets s)"
  by (simp add: octets_def list_all_iff)

lemma string_of_octets [simp]: "string_of (octets s) = s"
  by (simp add: string_of_def octets_def comp_def map_idI)

lemma raw_std_roundtrip [simp]: "base64_decode std_alphabet (raw_std s) = Some (octets s)"
  by (simp add: raw_std_def base64_roundtrip)

lemma raw_std_plain: "CHR ''$'' \<notin> set (raw_std s)"
  unfolding raw_std_def by (metis octets_bound encode_letters std_letter_plain(3))

lemma hash_parts:
  assumes "CHR ''$'' \<notin> set a" "CHR ''$'' \<notin> set b"
  shows "split_on (CHR ''$'') (''$argon2id$v=19$m=65536,t=3,p=2$'' @ a @ ''$'' @ b) =
    ['''', ''argon2id'', ''v=19'', ''m=65536,t=3,p=2'', a, b]"
proof -
  have "''$argon2id$v=19$m=65536,t=3,p=2$'' @ a @ ''$'' @ b =
      join_with (CHR ''$'') ['''', ''argon2id'', ''v=19'', ''m=65536,t=3,p=2'', a, b]" by simp
  moreover have "split_on (CHR ''$'') (join_with (CHR ''$'')
      ['''', ''argon2id'', ''v=19'', ''m=65536,t=3,p=2'', a, b]) =
      ['''', ''argon2id'', ''v=19'', ''m=65536,t=3,p=2'', a, b]"
    by (rule split_join) (use assms in auto)
  ultimately show ?thesis by simp
qed

lemma scan_plain:
  assumes "decimal c"
  shows "trim_left (filter (\<lambda>e. e \<noteq> [CHR 0x0A]) space_encodings) (c # cs) = c # cs"
proof -
  have "\<not> HasPrefix (c # cs) e" if "e \<in> set space_encodings" for e
    using that assms by (auto simp: space_encodings_def HasPrefix_def decimal_def)
  then have "find (\<lambda>e. HasPrefix (c # cs) e) (filter (\<lambda>e. e \<noteq> [CHR 0x0A]) space_encodings) = None"
    by (auto simp: find_None_iff)
  then show ?thesis by (simp add: trim_left.simps leading_space_def)
qed

lemma stored_parameters: "scan_parameters ''m=65536,t=3,p=2'' = Some (65536, 3, 2)"
proof -
  have d: "decimal (CHR ''6'')" "decimal (CHR ''3'')" "decimal (CHR ''2'')" "decimal (CHR ''5'')" "\<not> decimal (CHR '','')"
    by (simp_all add: decimal_def)
  show ?thesis
    by (simp add: scan_parameters_def scan_literal_def scan_digits_def HasPrefix_def scan_plain d Let_def)
qed

lemma verify_stored:
  assumes "length (idkey password salt 3 65536 2 32) = 32" "HashPassword idkey salt password = Some encoded"
  shows "VerifyPassword idkey encoded attempt \<longleftrightarrow>
    idkey attempt salt 3 65536 2 32 = idkey password salt 3 65536 2 32"
proof -
  from assms(2) have e: "encoded = ''$argon2id$v=19$m=65536,t=3,p=2$'' @ raw_std salt @ ''$'' @
      raw_std (idkey password salt 3 65536 2 32)"
    unfolding HashPassword_def by (simp only: option.simps split: if_splits)
  have parts: "split_on (CHR ''$'') encoded = ['''', ''argon2id'', ''v=19'', ''m=65536,t=3,p=2'', raw_std salt,
      raw_std (idkey password salt 3 65536 2 32)]"
    unfolding e by (rule hash_parts) (rule raw_std_plain)+
  have length: "length (octets (idkey password salt 3 65536 2 32)) = 32" using assms(1) by (simp add: octets_def)
  show ?thesis
    unfolding VerifyPassword_def parts Let_def by (simp add: stored_parameters length)
qed

end
