(* ===== verification/Accounts.thy ===== *)
theory Accounts
  imports Auth Http FileObjects
begin

text \<open>
  The accounts part of \<^verbatim>\<open>internal/store\<close>: users, sessions, personal access tokens, enrolment tokens, secrets,
  audit events and idempotency keys. These tables are kept apart from those of the jobs; no operation removes
  a user, so a foreign key on users can only fail on insertion.
\<close>

section \<open>Tables\<close>

record User =
  user_ID :: string
  user_Username :: string
  user_Role :: Role
  user_CreatedAt :: gotime
  user_LastSeenAt :: "gotime option"
  user_JobsRunning :: int

record UserRow =
  ur_id :: string
  ur_username :: string
  ur_password_hash :: string
  ur_role :: Role
  ur_created_at :: stamp

record SessionRow =
  ses_token_hash :: string
  ses_user_id :: string
  ses_csrf_token :: string
  ses_expires_at :: stamp
  ses_created_at :: stamp

record TokenRow =
  tok_id :: string
  tok_user_id :: string
  tok_name :: string
  tok_token_hash :: string
  tok_token_prefix :: string
  tok_scopes :: "string list"
  tok_expires_at :: "stamp option"
  tok_last_used_at :: "stamp option"
  tok_revoked_at :: "stamp option"
  tok_created_at :: stamp

record EnrollmentRow =
  enr_token_hash :: string
  enr_created_by :: string
  enr_expires_at :: stamp
  enr_used_at :: "stamp option"
  enr_created_at :: stamp
  enr_node_id :: "string option"

record SecretRow =
  sec_id :: string
  sec_owner_id :: string
  sec_name :: string
  sec_ciphertext :: string
  sec_kind :: string
  sec_created_at :: stamp
  sec_updated_at :: stamp

record AuditRow =
  aud_actor_id :: "string option"
  aud_actor_label :: "string option"
  aud_action :: string
  aud_target_type :: string
  aud_target_id :: string
  aud_target_label :: "string option"
  aud_metadata :: "json gomap"
  aud_created_at :: stamp

text \<open>
  The body of an answer; a JSON document is the value it encodes. \<open>SessionBody\<close> is the session cookie with
  the user and the CSRF token, \<open>SecretBody\<close> an id and the credential that is shown once.
\<close>

datatype body =
    NoBody
  | JobBody Job
  | JobsBody "Job list"
  | StatusBody string
  | SessionBody string User string
  | UserBody User
  | UsersBody "User list"
  | SecretBody string string
  | BuildBody Build
  | BuildsBody "Build list"
  | BuildEventsBody "BuildEvent list"
  | BuildPlanBody BuildPlan
  | BuildWorkBody BuildWork
  | BuildAssignmentBody BuildAssignment
  | ArtifactBody ManagedArtifact
  | TextBody string

record KeyRow =
  key_user_id :: string
  key_key :: string
  key_method :: string
  key_path :: string
  key_response :: "(nat \<times> body) option"
  key_created_at :: stamp

text \<open>\<open>acc_dashboards\<close> holds the ids and names in \<^verbatim>\<open>job_dashboards\<close>, which audit labels look up.\<close>

record accounts =
  acc_users :: "UserRow list"
  acc_sessions :: "SessionRow list"
  acc_tokens :: "TokenRow list"
  acc_enrollments :: "EnrollmentRow list"
  acc_secrets :: "SecretRow list"
  acc_audit :: "AuditRow list"
  acc_keys :: "KeyRow list"
  acc_dashboards :: "string gomap"

definition empty_accounts :: accounts where
  "empty_accounts = \<lparr>acc_users = [], acc_sessions = [], acc_tokens = [], acc_enrollments = [], acc_secrets = [],
     acc_audit = [], acc_keys = [], acc_dashboards = []\<rparr>"

type_synonym 'a accop = "accounts \<Rightarrow> (store_error + 'a) \<times> accounts"

definition user_row :: "string \<Rightarrow> accounts \<Rightarrow> UserRow option" where
  "user_row i acc = find (\<lambda>u. ur_id u = i) (acc_users acc)"

section \<open>Users\<close>

definition scan_user :: "UserRow \<Rightarrow> User" where
  "scan_user u = \<lparr>user_ID = ur_id u, user_Username = ur_username u, user_Role = ur_role u,
     user_CreatedAt = parseTime (ur_created_at u), user_LastSeenAt = None, user_JobsRunning = 0\<rparr>"

definition UserCount :: "accounts \<Rightarrow> nat" where
  "UserCount acc = length (acc_users acc)"

text \<open>\<^verbatim>\<open>COLLATE NOCASE\<close> compares names with their ASCII letters in lower case.\<close>

definition nocase :: "string \<Rightarrow> string" where
  "nocase s = map lower_char s"

definition new_user_row :: "User \<Rightarrow> string \<Rightarrow> UserRow" where
  "new_user_row user passwordHash = \<lparr>ur_id = user_ID user, ur_username = user_Username user,
     ur_password_hash = passwordHash, ur_role = user_Role user, ur_created_at = formatTime (user_CreatedAt user)\<rparr>"

definition CreateUser :: "User \<Rightarrow> string \<Rightarrow> unit accop" where
  "CreateUser user passwordHash acc =
     (if user_Role user \<noteq> RoleAdmin \<and> user_Role user \<noteq> RoleMember then (Inl ErrConstraint, acc)
      else if has_row (\<lambda>u. ur_id u = user_ID user \<or> nocase (ur_username u) = nocase (user_Username user))
          (acc_users acc) then (Inl ErrConflict, acc)
      else (Inr (), acc\<lparr>acc_users := acc_users acc @ [new_user_row user passwordHash]\<rparr>))"

text \<open>The insert selects its row only where there is no user; no row inserted is a conflict.\<close>

definition CreateInitialAdmin :: "User \<Rightarrow> string \<Rightarrow> unit accop" where
  "CreateInitialAdmin user passwordHash acc =
     (if acc_users acc \<noteq> [] then (Inl ErrConflict, acc) else CreateUser user passwordHash acc)"

definition UserByUsername :: "string \<Rightarrow> accounts \<Rightarrow> store_error + (User \<times> string)" where
  "UserByUsername username acc =
     (case find (\<lambda>u. nocase (ur_username u) = nocase username) (acc_users acc) of
        None \<Rightarrow> Inl ErrNotFound | Some u \<Rightarrow> Inr (scan_user u, ur_password_hash u))"

text \<open>\<^verbatim>\<open>MAX\<close> of a text column, none for no rows.\<close>

definition max_stamp :: "stamp list \<Rightarrow> stamp option" where
  "max_stamp ts = (case ts of [] \<Rightarrow> None
     | t # us \<Rightarrow> Some (foldl (\<lambda>m u. if stamp_less m u then u else m) t us))"

definition ListUsers :: "db \<Rightarrow> accounts \<Rightarrow> User list" where
  "ListUsers d acc =
     map (\<lambda>u. (scan_user u)\<lparr>
         user_LastSeenAt := map_option parseTime (max_stamp (map aud_created_at
           (filter (\<lambda>a. aud_actor_id a = Some (ur_id u)) (acc_audit acc)))),
         user_JobsRunning := int (length (filter (\<lambda>j. jr_owner_id j = ur_id u \<and> jr_status j = JobRunning)
           (tbl_jobs d)))\<rparr>)
       (sort_slice (\<lambda>a b. nocase (ur_username a) < nocase (ur_username b)) (acc_users acc))"

section \<open>Sessions\<close>

record Session =
  sn_User :: User
  sn_CSRFToken :: string
  sn_ExpiresAt :: gotime

definition CreateSession :: "string \<Rightarrow> string \<Rightarrow> string \<Rightarrow> gotime \<Rightarrow> gotime \<Rightarrow> unit accop" where
  "CreateSession tokenHash csrfToken userID expiresAt now acc =
     (if has_row (\<lambda>s. ses_token_hash s = tokenHash) (acc_sessions acc) \<or> user_row userID acc = None
      then (Inl ErrConstraint, acc)
      else (Inr (), acc\<lparr>acc_sessions := acc_sessions acc @
        [\<lparr>ses_token_hash = tokenHash, ses_user_id = userID, ses_csrf_token = csrfToken,
          ses_expires_at = formatTime expiresAt, ses_created_at = formatTime now\<rparr>]\<rparr>))"

definition Session :: "string \<Rightarrow> gotime \<Rightarrow> accounts \<Rightarrow> store_error + Session" where
  "Session tokenHash now acc =
     (case find (\<lambda>s. ses_token_hash s = tokenHash \<and> stamp_less (formatTime now) (ses_expires_at s))
          (acc_sessions acc) of
        None \<Rightarrow> Inl ErrNotFound
      | Some s \<Rightarrow>
          (case user_row (ses_user_id s) acc of
             None \<Rightarrow> Inl ErrNotFound
           | Some u \<Rightarrow> Inr \<lparr>sn_User = scan_user u, sn_CSRFToken = ses_csrf_token s,
                             sn_ExpiresAt = parseTime (ses_expires_at s)\<rparr>))"

definition DeleteSession :: "string \<Rightarrow> accounts \<Rightarrow> accounts" where
  "DeleteSession tokenHash acc =
     acc\<lparr>acc_sessions := delete_where (\<lambda>s. ses_token_hash s = tokenHash) (acc_sessions acc)\<rparr>"

section \<open>Personal access tokens\<close>

record PersonalAccessToken =
  pat_ID :: string
  pat_UserID :: string
  pat_Name :: string
  pat_Prefix :: string
  pat_Scopes :: "string list"
  pat_ExpiresAt :: "gotime option"
  pat_LastUsedAt :: "gotime option"
  pat_RevokedAt :: "gotime option"
  pat_CreatedAt :: gotime

definition CreatePersonalAccessToken :: "PersonalAccessToken \<Rightarrow> string \<Rightarrow> unit accop" where
  "CreatePersonalAccessToken token tokenHash acc =
     (if has_row (\<lambda>t. tok_id t = pat_ID token \<or> tok_token_hash t = tokenHash) (acc_tokens acc)
      then (Inl ErrConflict, acc)
      else if user_row (pat_UserID token) acc = None then (Inl ErrConstraint, acc)
      else (Inr (), acc\<lparr>acc_tokens := acc_tokens acc @
        [\<lparr>tok_id = pat_ID token, tok_user_id = pat_UserID token, tok_name = pat_Name token,
          tok_token_hash = tokenHash, tok_token_prefix = pat_Prefix token, tok_scopes = pat_Scopes token,
          tok_expires_at = map_option formatTime (pat_ExpiresAt token), tok_last_used_at = None,
          tok_revoked_at = None, tok_created_at = formatTime (pat_CreatedAt token)\<rparr>]\<rparr>))"

definition scanPersonalAccessToken :: "TokenRow \<Rightarrow> PersonalAccessToken" where
  "scanPersonalAccessToken t = \<lparr>pat_ID = tok_id t, pat_UserID = tok_user_id t, pat_Name = tok_name t,
     pat_Prefix = tok_token_prefix t, pat_Scopes = tok_scopes t,
     pat_ExpiresAt = map_option parseTime (tok_expires_at t),
     pat_LastUsedAt = map_option parseTime (tok_last_used_at t),
     pat_RevokedAt = map_option parseTime (tok_revoked_at t), pat_CreatedAt = parseTime (tok_created_at t)\<rparr>"

definition ListPersonalAccessTokens :: "string \<Rightarrow> accounts \<Rightarrow> PersonalAccessToken list" where
  "ListPersonalAccessTokens userID acc =
     map scanPersonalAccessToken (sort_slice (\<lambda>a b. stamp_less (tok_created_at b) (tok_created_at a))
       (filter (\<lambda>t. tok_user_id t = userID) (acc_tokens acc)))"

definition PersonalAccessTokenByHash ::
  "string \<Rightarrow> accounts \<Rightarrow> store_error + (PersonalAccessToken \<times> User)" where
  "PersonalAccessTokenByHash tokenHash acc =
     (case find (\<lambda>t. tok_token_hash t = tokenHash) (acc_tokens acc) of
        None \<Rightarrow> Inl ErrNotFound
      | Some t \<Rightarrow>
          (case user_row (tok_user_id t) acc of
             None \<Rightarrow> Inl ErrNotFound | Some u \<Rightarrow> Inr (scanPersonalAccessToken t, scan_user u)))"

definition TouchPersonalAccessToken :: "string \<Rightarrow> gotime \<Rightarrow> accounts \<Rightarrow> accounts" where
  "TouchPersonalAccessToken i now acc =
     acc\<lparr>acc_tokens := update_where
       (\<lambda>t. tok_id t = i \<and> (case tok_last_used_at t of None \<Rightarrow> True
          | Some used \<Rightarrow> stamp_less used (formatTime (now - 60000000000))))
       (\<lambda>t. t\<lparr>tok_last_used_at := Some (formatTime now)\<rparr>) (acc_tokens acc)\<rparr>"

definition RevokePersonalAccessToken :: "string \<Rightarrow> string \<Rightarrow> gotime \<Rightarrow> unit accop" where
  "RevokePersonalAccessToken userID i now acc =
     (let match = (\<lambda>t. tok_id t = i \<and> tok_user_id t = userID) in
      if rows_affected match (acc_tokens acc) = 0 then (Inl ErrNotFound, acc)
      else (Inr (), acc\<lparr>acc_tokens := update_where match
        (\<lambda>t. t\<lparr>tok_revoked_at := coalesce (tok_revoked_at t) (Some (formatTime now))\<rparr>) (acc_tokens acc)\<rparr>))"

section \<open>Enrolment tokens\<close>

definition CreateEnrollmentToken :: "string \<Rightarrow> string \<Rightarrow> gotime \<Rightarrow> gotime \<Rightarrow> unit accop" where
  "CreateEnrollmentToken tokenHash userID expires now acc =
     (if has_row (\<lambda>e. enr_token_hash e = tokenHash) (acc_enrollments acc) \<or> user_row userID acc = None
      then (Inl ErrConstraint, acc)
      else (Inr (), acc\<lparr>acc_enrollments := acc_enrollments acc @
        [\<lparr>enr_token_hash = tokenHash, enr_created_by = userID, enr_expires_at = formatTime expires,
          enr_used_at = None, enr_created_at = formatTime now, enr_node_id = None\<rparr>]\<rparr>))"

definition ConsumeEnrollmentToken :: "string \<Rightarrow> string \<Rightarrow> gotime \<Rightarrow> unit accop" where
  "ConsumeEnrollmentToken tokenHash nodeID now acc =
     (let match = (\<lambda>e. enr_token_hash e = tokenHash \<and> enr_used_at e = None \<and>
            stamp_less (formatTime now) (enr_expires_at e)) in
      if rows_affected match (acc_enrollments acc) \<noteq> 1 then (Inl ErrNotFound, acc)
      else (Inr (), acc\<lparr>acc_enrollments := update_where match
        (\<lambda>e. e\<lparr>enr_used_at := Some (formatTime now), enr_node_id := Some nodeID\<rparr>) (acc_enrollments acc)\<rparr>))"

definition RevokeEnrollmentToken :: "string \<Rightarrow> string \<Rightarrow> gotime \<Rightarrow> unit accop" where
  "RevokeEnrollmentToken tokenHash userID now acc =
     (let match = (\<lambda>e. enr_token_hash e = tokenHash \<and> enr_created_by e = userID \<and> enr_used_at e = None) in
      if rows_affected match (acc_enrollments acc) \<noteq> 1 then (Inl ErrNotFound, acc)
      else (Inr (), acc\<lparr>acc_enrollments := update_where match
        (\<lambda>e. e\<lparr>enr_used_at := Some (formatTime now)\<rparr>) (acc_enrollments acc)\<rparr>))"

record EnrollmentStatus =
  es_Status :: string
  es_NodeID :: string
  es_Name :: string
  es_LastHeartbeat :: "gotime option"

definition EnrollmentStatus :: "string \<Rightarrow> gotime \<Rightarrow> db \<Rightarrow> accounts \<Rightarrow> store_error + EnrollmentStatus" where
  "EnrollmentStatus tokenHash now d acc =
     (case find (\<lambda>e. enr_token_hash e = tokenHash \<and> stamp_less (formatTime now) (enr_expires_at e))
          (acc_enrollments acc) of
        None \<Rightarrow> Inl ErrNotFound
      | Some e \<Rightarrow>
          Inr (case Option.bind (enr_node_id e) (\<lambda>i. find (\<lambda>n. nr_id n = i) (tbl_nodes d)) of
             None \<Rightarrow> \<lparr>es_Status = ''pending'', es_NodeID = '''', es_Name = '''', es_LastHeartbeat = None\<rparr>
           | Some n \<Rightarrow> \<lparr>es_Status = ''connected'', es_NodeID = nr_id n, es_Name = nr_name n,
                         es_LastHeartbeat = Some (parseTime (nr_last_heartbeat n))\<rparr>))"

section \<open>Secrets\<close>

record SecretMetadata =
  sm_ID :: string
  sm_OwnerID :: string
  sm_Name :: string
  sm_Kind :: string
  sm_CreatedAt :: gotime
  sm_UpdatedAt :: gotime

definition CreateSecret :: "SecretMetadata \<Rightarrow> string \<Rightarrow> unit accop" where
  "CreateSecret m ciphertext acc =
     (if has_row (\<lambda>s. sec_id s = sm_ID m \<or> sec_owner_id s = sm_OwnerID m \<and> sec_name s = sm_Name m)
          (acc_secrets acc) then (Inl ErrConflict, acc)
      else if user_row (sm_OwnerID m) acc = None then (Inl ErrConstraint, acc)
      else (Inr (), acc\<lparr>acc_secrets := acc_secrets acc @
        [\<lparr>sec_id = sm_ID m, sec_owner_id = sm_OwnerID m, sec_name = sm_Name m, sec_ciphertext = ciphertext,
          sec_kind = sm_Kind m, sec_created_at = formatTime (sm_CreatedAt m),
          sec_updated_at = formatTime (sm_UpdatedAt m)\<rparr>]\<rparr>))"

definition scan_secret :: "SecretRow \<Rightarrow> SecretMetadata" where
  "scan_secret s = \<lparr>sm_ID = sec_id s, sm_OwnerID = sec_owner_id s, sm_Name = sec_name s, sm_Kind = sec_kind s,
     sm_CreatedAt = parseTime (sec_created_at s), sm_UpdatedAt = parseTime (sec_updated_at s)\<rparr>"

definition ListSecrets :: "string \<Rightarrow> accounts \<Rightarrow> SecretMetadata list" where
  "ListSecrets ownerID acc =
     map scan_secret (sort_slice (\<lambda>a b. sec_name a < sec_name b)
       (filter (\<lambda>s. sec_owner_id s = ownerID) (acc_secrets acc)))"

definition SecretMetadata :: "string \<Rightarrow> string \<Rightarrow> accounts \<Rightarrow> store_error + SecretMetadata" where
  "SecretMetadata ownerID i acc =
     (case find (\<lambda>s. sec_owner_id s = ownerID \<and> sec_id s = i) (acc_secrets acc) of
        None \<Rightarrow> Inl ErrNotFound | Some s \<Rightarrow> Inr (scan_secret s))"

definition SecretCiphertext :: "string \<Rightarrow> string \<Rightarrow> accounts \<Rightarrow> store_error + (string \<times> string)" where
  "SecretCiphertext ownerID name acc =
     (case find (\<lambda>s. sec_owner_id s = ownerID \<and> sec_name s = name) (acc_secrets acc) of
        None \<Rightarrow> Inl ErrNotFound | Some s \<Rightarrow> Inr (sec_ciphertext s, sec_kind s))"

definition DeleteSecret :: "string \<Rightarrow> string \<Rightarrow> unit accop" where
  "DeleteSecret ownerID i acc =
     (let match = (\<lambda>s. sec_owner_id s = ownerID \<and> sec_id s = i) in
      if rows_affected match (acc_secrets acc) = 0 then (Inl ErrNotFound, acc)
      else (Inr (), acc\<lparr>acc_secrets := delete_where match (acc_secrets acc)\<rparr>))"

section \<open>Audit\<close>

definition two_digits :: "int \<Rightarrow> string" where
  "two_digits n = [char_of (48 + nat n div 10), char_of (48 + nat n mod 10)]"

text \<open>The days since 1970-01-01 as year, month and day of the Gregorian calendar.\<close>

definition civil :: "int \<Rightarrow> int \<times> int \<times> int" where
  "civil days =
     (let z = days + 719468; era = z div 146097; doe = z mod 146097;
          yoe = (doe - doe div 1460 + doe div 36524 - doe div 146096) div 365;
          doy = doe - (365 * yoe + yoe div 4 - yoe div 100);
          mp = (5 * doy + 2) div 153;
          m = (if mp < 10 then mp + 3 else mp - 9)
      in (yoe + era * 400 + (if m \<le> 2 then 1 else 0), m, doy - (153 * mp + 2) div 5 + 1))"

text \<open>A time as JSON text, in UTC, for the years 0 to 9999.\<close>

fun stamp_text :: "stamp \<Rightarrow> string" where
  "stamp_text (Stamp s f) =
     (let (y, m, d) = civil (s div 86400); t = s mod 86400
      in two_digits (y div 100) @ two_digits (y mod 100) @ ''-'' @ two_digits m @ ''-'' @ two_digits d @ ''T'' @
         two_digits (t div 3600) @ '':'' @ two_digits (t div 60 mod 60) @ '':'' @ two_digits (t mod 60) @ f)"

definition json_time :: "gotime \<Rightarrow> json" where
  "json_time t = JStr (stamp_text (formatTime t))"

text \<open>The first of the two keys that holds a string with something but space in it.\<close>

fun audit_label_of :: "json gomap \<Rightarrow> string list \<Rightarrow> string" where
  "audit_label_of m [] = ''''"
| "audit_label_of m (k # ks) =
     (case map_of m k of
        Some (JStr v) \<Rightarrow> if TrimSpace v \<noteq> '''' then TrimSpace v else audit_label_of m ks
      | _ \<Rightarrow> audit_label_of m ks)"

definition auditMetadataLabel :: "json gomap \<Rightarrow> string" where
  "auditMetadataLabel m = audit_label_of m [''name'', ''username'']"

definition label_in :: "('r \<Rightarrow> string) \<Rightarrow> ('r \<Rightarrow> string) \<Rightarrow> string \<Rightarrow> 'r list \<Rightarrow> string" where
  "label_in key label i t = (case find (\<lambda>r. key r = i) t of None \<Rightarrow> '''' | Some r \<Rightarrow> label r)"

definition auditTargetLabel :: "db \<Rightarrow> accounts \<Rightarrow> string \<Rightarrow> string \<Rightarrow> string" where
  "auditTargetLabel d acc targetType i =
     (if targetType = ''user'' then label_in ur_id ur_username i (acc_users acc)
      else if targetType = ''node'' then
        label_in nr_id (\<lambda>n. case nr_name_override n of None \<Rightarrow> nr_name n | Some m \<Rightarrow> m) i (tbl_nodes d)
      else if targetType = ''job'' then label_in jr_id (\<lambda>j. spec_Name (jr_spec j)) i (tbl_jobs d)
      else if targetType = ''secret'' then label_in sec_id sec_name i (acc_secrets acc)
      else if targetType = ''build'' then label_in br_id br_name i (tbl_builds d)
      else if targetType = ''dashboard'' then label_in fst snd i (acc_dashboards acc)
      else if targetType = ''personal_access_token'' then label_in tok_id tok_name i (acc_tokens acc)
      else '''')"

definition AuditWithLabels ::
  "db \<Rightarrow> string \<Rightarrow> string \<Rightarrow> string \<Rightarrow> string \<Rightarrow> string \<Rightarrow> string \<Rightarrow> json gomap \<Rightarrow> gotime \<Rightarrow> accounts \<Rightarrow> accounts" where
  "AuditWithLabels d actorID actorLabel action targetType targetID targetLabel metadata now acc =
     (let actorLabel = (if actorLabel \<noteq> '''' then actorLabel
            else if actorID = '''' then ''System'' else label_in ur_id ur_username actorID (acc_users acc));
          targetLabel = (if targetLabel \<noteq> '''' then targetLabel else auditMetadataLabel metadata);
          targetLabel = (if targetLabel \<noteq> '''' then targetLabel else auditTargetLabel d acc targetType targetID)
      in acc\<lparr>acc_audit := acc_audit acc @
           [\<lparr>aud_actor_id = nullable actorID, aud_actor_label = nullable actorLabel, aud_action = action,
             aud_target_type = targetType, aud_target_id = targetID, aud_target_label = nullable targetLabel,
             aud_metadata = metadata, aud_created_at = formatTime now\<rparr>]\<rparr>)"

definition Audit ::
  "db \<Rightarrow> string \<Rightarrow> string \<Rightarrow> string \<Rightarrow> string \<Rightarrow> json gomap \<Rightarrow> gotime \<Rightarrow> accounts \<Rightarrow> accounts" where
  "Audit d actorID action targetType targetID metadata now acc =
     AuditWithLabels d actorID '''' action targetType targetID '''' metadata now acc"

section \<open>Idempotency keys\<close>

definition key_row :: "string \<Rightarrow> string \<Rightarrow> accounts \<Rightarrow> KeyRow option" where
  "key_row userID key acc = find (\<lambda>r. key_user_id r = userID \<and> key_key r = key) (acc_keys acc)"

text \<open>\<open>Inr None\<close>: the key is claimed now. \<open>Inr (Some _)\<close>: the response stored for it.\<close>

definition ClaimIdempotency ::
  "string \<Rightarrow> string \<Rightarrow> string \<Rightarrow> string \<Rightarrow> gotime \<Rightarrow> ((nat \<times> body) option) accop" where
  "ClaimIdempotency userID key method path now acc =
     (case key_row userID key acc of
        None \<Rightarrow>
          if user_row userID acc = None then (Inl ErrConstraint, acc)
          else (Inr None, acc\<lparr>acc_keys := acc_keys acc @
            [\<lparr>key_user_id = userID, key_key = key, key_method = method, key_path = path, key_response = None,
              key_created_at = formatTime now\<rparr>]\<rparr>)
      | Some r \<Rightarrow>
          if key_method r \<noteq> method \<or> key_path r \<noteq> path then (Inl ErrConflict, acc)
          else (case key_response r of
             None \<Rightarrow> (Inl ErrConflict, acc) | Some response \<Rightarrow> (Inr (Some response), acc)))"

definition CompleteIdempotency :: "string \<Rightarrow> string \<Rightarrow> nat \<Rightarrow> body \<Rightarrow> accounts \<Rightarrow> accounts" where
  "CompleteIdempotency userID key status body acc =
     acc\<lparr>acc_keys := update_where (\<lambda>r. key_user_id r = userID \<and> key_key r = key)
       (\<lambda>r. r\<lparr>key_response := Some (status, body)\<rparr>) (acc_keys acc)\<rparr>"

definition ReleaseIdempotency :: "string \<Rightarrow> string \<Rightarrow> accounts \<Rightarrow> accounts" where
  "ReleaseIdempotency userID key acc =
     acc\<lparr>acc_keys := delete_where (\<lambda>r. key_user_id r = userID \<and> key_key r = key \<and> key_response r = None)
       (acc_keys acc)\<rparr>"

end
