(* ===== verification/Access.thy ===== *)
theory Access
  imports Accounts UploadApi NodeStore BuildStore
begin

text \<open>
  Who may call what: the middleware of \<^verbatim>\<open>internal/httpapi/api.go\<close> (sessions with their CSRF tokens, scoped
  personal access tokens, the credentials of agents, builders and jobs), the handlers of users, sessions,
  tokens and enrolment, the login limit, and idempotency keys. A request is what these read of it;
  \<open>now\<close> is the time of the request and the random tokens and ids a handler draws are arguments.
\<close>

record request =
  rq_method :: string
  rq_path :: string
  rq_cookie :: "string option"
  rq_authorization :: string
  rq_csrf :: string
  rq_protocol :: string
  rq_key :: string

record answer = reply +
  ans_body :: body
  ans_replayed :: bool

definition refuse :: "reply \<Rightarrow> answer" where
  "refuse r = reply.extend r \<lparr>ans_body = NoBody, ans_replayed = False\<rparr>"

definition answer :: "nat \<Rightarrow> body \<Rightarrow> answer" where
  "answer status b = \<lparr>rep_status = status, rep_code = '''', rep_next = 0, ans_body = b, ans_replayed = False\<rparr>"

text \<open>The server: its database, its files, its accounts and the failed logins of each address.\<close>

record api =
  api_db :: db
  api_files :: fs
  api_accounts :: accounts
  api_logins :: "gotime list gomap"

type_synonym handler = "request \<Rightarrow> api \<Rightarrow> answer \<times> api"

definition audit :: "string \<Rightarrow> string \<Rightarrow> string \<Rightarrow> string \<Rightarrow> json gomap \<Rightarrow> gotime \<Rightarrow> api \<Rightarrow> api" where
  "audit actorID action targetType targetID metadata now s =
     s\<lparr>api_accounts := Audit (api_db s) actorID action targetType targetID metadata now (api_accounts s)\<rparr>"

section \<open>Credentials\<close>

definition bearer :: "request \<Rightarrow> string" where
  "bearer rq = (if HasPrefix (rq_authorization rq) ''Bearer '' then TrimSpace (drop 7 (rq_authorization rq)) else '''')"

definition hasScope :: "string list \<Rightarrow> string \<Rightarrow> bool" where
  "hasScope scopes required \<longleftrightarrow> List.member scopes required"

definition compatibleProtocol :: "request \<Rightarrow> bool" where
  "compatibleProtocol rq \<longleftrightarrow> rq_protocol rq = ''1''"

definition withSession :: "gotime \<Rightarrow> bool \<Rightarrow> bool \<Rightarrow> (User \<Rightarrow> handler) \<Rightarrow> handler" where
  "withSession now admin csrf next_handler rq s =
     (case rq_cookie rq of
        None \<Rightarrow> (refuse (writeProblem 401 ''unauthorized''), s)
      | Some cookie \<Rightarrow>
          (case Session (TokenHash cookie) now (api_accounts s) of
             Inl e \<Rightarrow> (refuse (writeProblem 401 ''unauthorized''), s)
           | Inr session \<Rightarrow>
               if admin \<and> user_Role (sn_User session) \<noteq> RoleAdmin
               then (refuse (writeProblem 403 ''forbidden''), s)
               else if csrf \<and> rq_csrf rq \<noteq> sn_CSRFToken session
               then (refuse (writeProblem 403 ''csrf_failed''), s)
               else next_handler (sn_User session) rq s))"

definition withAccess :: "gotime \<Rightarrow> string \<Rightarrow> bool \<Rightarrow> (User \<Rightarrow> handler) \<Rightarrow> handler" where
  "withAccess now requiredScope csrf next_handler rq s =
     (if bearer rq = '''' then withSession now False csrf next_handler rq s
      else (case PersonalAccessTokenByHash (TokenHash (bearer rq)) (api_accounts s) of
        Inl e \<Rightarrow> (refuse (writeProblem 401 ''invalid_personal_access_token''), s)
      | Inr (pat, user) \<Rightarrow>
          if pat_RevokedAt pat \<noteq> None then (refuse (writeProblem 401 ''personal_access_token_revoked''), s)
          else if (case pat_ExpiresAt pat of None \<Rightarrow> False | Some e \<Rightarrow> \<not> now < e)
          then (refuse (writeProblem 401 ''personal_access_token_expired''), s)
          else if \<not> hasScope (pat_Scopes pat) requiredScope
          then (refuse (writeProblem 403 ''insufficient_scope''), s)
          else next_handler user rq
            (s\<lparr>api_accounts := TouchPersonalAccessToken (pat_ID pat) now (api_accounts s)\<rparr>)))"

definition withAgent :: "gotime \<Rightarrow> (NodeRow \<Rightarrow> handler) \<Rightarrow> handler" where
  "withAgent now next_handler rq s =
     (if \<not> compatibleProtocol rq then (refuse (writeProblem 426 ''incompatible_protocol''), s)
      else (case NodeByCredential (TokenHash (bearer rq)) now (api_db s) of
        Inl e \<Rightarrow> (refuse (writeProblem 401 ''invalid_agent_credential''), s)
      | Inr n \<Rightarrow>
          if bearer rq = '''' then (refuse (writeProblem 401 ''invalid_agent_credential''), s)
          else next_handler n rq s))"

record builder_config =
  BuilderDisabled :: bool
  BuilderToken :: string

definition sourceBuildsEnabled :: "builder_config \<Rightarrow> bool" where
  "sourceBuildsEnabled cfg \<longleftrightarrow> \<not> BuilderDisabled cfg \<and> BuilderToken cfg \<noteq> ''''"

definition withBuilder :: "builder_config \<Rightarrow> handler \<Rightarrow> handler" where
  "withBuilder cfg next_handler rq s =
     (if \<not> compatibleProtocol rq then (refuse (writeProblem 426 ''incompatible_protocol''), s)
      else if \<not> sourceBuildsEnabled cfg then (refuse (writeProblem 503 ''builder_not_configured''), s)
      else if bearer rq = '''' \<or> TokenHash (bearer rq) \<noteq> TokenHash (BuilderToken cfg)
      then (refuse (writeProblem 401 ''invalid_builder_credential''), s)
      else next_handler rq s)"

definition withJob :: "(Job \<Rightarrow> handler) \<Rightarrow> handler" where
  "withJob next_handler rq s =
     (case JobByToken (TokenHash (bearer rq)) (api_db s) of
        Inl e \<Rightarrow> (refuse (writeProblem 401 ''invalid_job_credential''), s)
      | Inr job \<Rightarrow>
          if bearer rq = '''' then (refuse (writeProblem 401 ''invalid_job_credential''), s)
          else next_handler job rq s)"

definition authorizeJob :: "User \<Rightarrow> string \<Rightarrow> api \<Rightarrow> answer + Job" where
  "authorizeJob user jobID s =
     (case Job jobID (api_db s) of
        Inl e \<Rightarrow> Inl (refuse (writeStoreError e))
      | Inr job \<Rightarrow>
          if user_Role user \<noteq> RoleAdmin \<and> job_OwnerID job \<noteq> user_ID user
          then Inl (refuse (writeProblem 403 ''forbidden'')) else Inr job)"

section \<open>Idempotency\<close>

text \<open>\<open>Inl\<close>: the answer is given already, replayed or refused. \<open>Inr\<close>: the handler goes on.\<close>

definition beginIdempotency :: "request \<Rightarrow> string \<Rightarrow> gotime \<Rightarrow> api \<Rightarrow> (answer + unit) \<times> api" where
  "beginIdempotency rq userID now s =
     (if rq_key rq = '''' then (Inr (), s)
      else if length (rq_key rq) < 16 \<or> 128 < length (rq_key rq)
      then (Inl (refuse (writeProblem 422 ''invalid_idempotency_key'')), s)
      else (case ClaimIdempotency userID (rq_key rq) (rq_method rq) (rq_path rq) now (api_accounts s) of
        (Inl e, acc) \<Rightarrow> (Inl (refuse (writeStoreError e)), s\<lparr>api_accounts := acc\<rparr>)
      | (Inr (Some (status, body)), acc) \<Rightarrow>
          (Inl ((answer status body)\<lparr>ans_replayed := True\<rparr>), s\<lparr>api_accounts := acc\<rparr>)
      | (Inr None, acc) \<Rightarrow> (Inr (), s\<lparr>api_accounts := acc\<rparr>)))"

definition idem_abort :: "request \<Rightarrow> string \<Rightarrow> api \<Rightarrow> api" where
  "idem_abort rq userID s =
     (if rq_key rq = '''' then s
      else s\<lparr>api_accounts := ReleaseIdempotency userID (rq_key rq) (api_accounts s)\<rparr>)"

definition idem_write :: "request \<Rightarrow> string \<Rightarrow> nat \<Rightarrow> body \<Rightarrow> api \<Rightarrow> answer \<times> api" where
  "idem_write rq userID status body s =
     (answer status body,
      if rq_key rq = '''' then s
      else s\<lparr>api_accounts := CompleteIdempotency userID (rq_key rq) status body (api_accounts s)\<rparr>)"

end
