(* ===== verification/AccountApi.thy ===== *)
theory AccountApi
  imports Access
begin

text \<open>
  The secret box and the handlers of \<^verbatim>\<open>internal/httpapi/api.go\<close> and \<^verbatim>\<open>personal_access_tokens.go\<close> for accounts and nodes: first-run
  setup, login, users, personal access tokens, enrolment and the administration of nodes. \<open>client\<close> is the
  address \<^verbatim>\<open>clientAddress\<close> finds; a decoded body is \<open>None\<close> when \<^verbatim>\<open>decodeJSON\<close> refuses it.
\<close>

section \<open>The login limit\<close>

definition attempts_of :: "gotime list gomap \<Rightarrow> string \<Rightarrow> gotime list" where
  "attempts_of m remote = (case map_of m remote of None \<Rightarrow> [] | Some ts \<Rightarrow> ts)"

definition set_attempts :: "string \<Rightarrow> gotime list \<Rightarrow> api \<Rightarrow> api" where
  "set_attempts remote ts s =
     s\<lparr>api_logins := (remote, ts) # filter (\<lambda>(r, _). r \<noteq> remote) (api_logins s)\<rparr>"

definition allowLogin :: "string \<Rightarrow> gotime \<Rightarrow> api \<Rightarrow> bool \<times> api" where
  "allowLogin remote now s =
     (let attempts = filter (\<lambda>t. now - 60000000000 < t) (attempts_of (api_logins s) remote)
      in (length attempts < 10, set_attempts remote attempts s))"

definition recordLogin :: "string \<Rightarrow> gotime \<Rightarrow> api \<Rightarrow> api" where
  "recordLogin remote now s = set_attempts remote (attempts_of (api_logins s) remote @ [now]) s"

section \<open>Setup, login and users\<close>

record auth_config =
  SessionTTL :: int
  SetupToken :: string
  BootstrapUsername :: string
  BootstrapPassword :: string

definition new_user :: "string \<Rightarrow> string \<Rightarrow> Role \<Rightarrow> gotime \<Rightarrow> User" where
  "new_user i username role now = \<lparr>user_ID = i, user_Username = username, user_Role = role,
     user_CreatedAt = now, user_LastSeenAt = None, user_JobsRunning = 0\<rparr>"

text \<open>\<open>token\<close> and \<open>csrf\<close> are the random tokens of the new session.\<close>

definition writeSession ::
  "auth_config \<Rightarrow> string \<Rightarrow> string \<Rightarrow> User \<Rightarrow> gotime \<Rightarrow> api \<Rightarrow> (store_error + answer) \<times> api" where
  "writeSession cfg token csrf user now s =
     (case CreateSession (TokenHash token) csrf (user_ID user) (now + SessionTTL cfg) now (api_accounts s) of
        (Inl e, acc) \<Rightarrow> (Inl e, s\<lparr>api_accounts := acc\<rparr>)
      | (Inr _, acc) \<Rightarrow> (Inr (answer 200 (SessionBody token user csrf)), s\<lparr>api_accounts := acc\<rparr>))"

definition BootstrapAdmin ::
  "argon2 \<Rightarrow> auth_config \<Rightarrow> string \<Rightarrow> string \<Rightarrow> gotime \<Rightarrow> api \<Rightarrow> bool \<times> api" where
  "BootstrapAdmin idkey cfg salt i now s =
     (if UserCount (api_accounts s) > 0 \<or> SetupToken cfg \<noteq> '''' then (True, s)
      else if BootstrapPassword cfg = '''' then (False, s)
      else (case HashPassword idkey salt (BootstrapPassword cfg) of
        None \<Rightarrow> (False, s)
      | Some hash \<Rightarrow>
          let user = new_user i (BootstrapUsername cfg) RoleAdmin now in
          (case CreateInitialAdmin user hash (api_accounts s) of
             (Inl e, acc) \<Rightarrow> (False, s\<lparr>api_accounts := acc\<rparr>)
           | (Inr _, acc) \<Rightarrow>
               (True, audit i ''user.bootstrap'' ''user'' i [(''username'', JStr (BootstrapUsername cfg))] now
                 (s\<lparr>api_accounts := acc\<rparr>)))))"

record setup_body =
  setup_token :: string
  setup_username :: string
  setup_password :: string

definition valid_username :: "string \<Rightarrow> bool" where
  "valid_username name \<longleftrightarrow> 3 \<le> length name \<and> length name \<le> 64"

definition setupAdmin ::
  "argon2 \<Rightarrow> auth_config \<Rightarrow> string \<Rightarrow> setup_body option \<Rightarrow> string \<Rightarrow> string \<Rightarrow> string \<Rightarrow> string \<Rightarrow> gotime \<Rightarrow>
   api \<Rightarrow> answer \<times> api" where
  "setupAdmin idkey cfg client decoded i salt token csrf now s =
     (let (allowed, s) = allowLogin client now s in
      if \<not> allowed then (refuse (writeProblem 429 ''rate_limited''), s)
      else (case decoded of
        None \<Rightarrow> (refuse (writeProblem 400 ''invalid_json''), s)
      | Some b \<Rightarrow>
          if SetupToken cfg = '''' then (refuse (writeProblem 409 ''setup_unavailable''), s)
          else if setup_token b = '''' \<or> TokenHash (SetupToken cfg) \<noteq> TokenHash (setup_token b)
          then (refuse (writeProblem 401 ''invalid_setup_token''), recordLogin client now s)
          else let username = TrimSpace (setup_username b) in
            if \<not> valid_username username then (refuse (writeProblem 422 ''invalid_username''), s)
            else (case HashPassword idkey salt (setup_password b) of
              None \<Rightarrow> (refuse (writeProblem 422 ''invalid_password''), s)
            | Some hash \<Rightarrow>
                let user = new_user i username RoleAdmin now in
                (case CreateInitialAdmin user hash (api_accounts s) of
                   (Inl e, acc) \<Rightarrow>
                     (refuse (if e = ErrConflict then writeProblem 409 ''setup_complete''
                        else writeProblem 500 ''database_error''), s\<lparr>api_accounts := acc\<rparr>)
                 | (Inr _, acc) \<Rightarrow>
                     let s = s\<lparr>api_accounts :=
                           AuditWithLabels (api_db s) i username ''user.setup'' ''user'' i username [] now acc\<rparr>
                     in (case writeSession cfg token csrf user now s of
                       (Inl e, s) \<Rightarrow> (refuse (writeProblem 500 ''session_failed''), s)
                     | (Inr a, s) \<Rightarrow> (a, s))))))"

definition login ::
  "argon2 \<Rightarrow> auth_config \<Rightarrow> string \<Rightarrow> (string \<times> string) option \<Rightarrow> string \<Rightarrow> string \<Rightarrow> gotime \<Rightarrow>
   api \<Rightarrow> answer \<times> api" where
  "login idkey cfg client decoded token csrf now s =
     (let (allowed, s) = allowLogin client now s in
      if \<not> allowed then (refuse (writeProblem 429 ''rate_limited''), s)
      else (case decoded of
        None \<Rightarrow> (refuse (writeProblem 400 ''invalid_json''), s)
      | Some (username, password) \<Rightarrow>
          (case UserByUsername username (api_accounts s) of
             Inl e \<Rightarrow> (refuse (writeProblem 401 ''invalid_credentials''), recordLogin client now s)
           | Inr (user, hash) \<Rightarrow>
               if \<not> VerifyPassword idkey hash password
               then (refuse (writeProblem 401 ''invalid_credentials''), recordLogin client now s)
               else (case writeSession cfg token csrf user now s of
                 (Inl e, s) \<Rightarrow> (refuse (writeProblem 500 ''session_failed''), s)
               | (Inr a, s) \<Rightarrow> (a, audit (user_ID user) ''auth.login'' ''user'' (user_ID user) [] now s)))))"

definition logout :: "User \<Rightarrow> handler" where
  "logout user rq s =
     (answer 204 NoBody,
      case rq_cookie rq of
        None \<Rightarrow> s
      | Some cookie \<Rightarrow> s\<lparr>api_accounts := DeleteSession (TokenHash cookie) (api_accounts s)\<rparr>)"

record user_body =
  ub_Username :: string
  ub_Password :: string
  ub_Role :: Role

definition role_text :: "Role \<Rightarrow> string" where
  "role_text r = (case r of RoleAdmin \<Rightarrow> ''admin'' | RoleMember \<Rightarrow> ''member'' | RoleOther t \<Rightarrow> t)"

definition createUser ::
  "argon2 \<Rightarrow> user_body option \<Rightarrow> string \<Rightarrow> string \<Rightarrow> gotime \<Rightarrow> User \<Rightarrow> handler" where
  "createUser idkey decoded i salt now actor rq s =
     (case decoded of
        None \<Rightarrow> (refuse (writeProblem 400 ''invalid_json''), s)
      | Some b \<Rightarrow>
          if ub_Role b \<noteq> RoleAdmin \<and> ub_Role b \<noteq> RoleMember then (refuse (writeProblem 422 ''invalid_role''), s)
          else let username = TrimSpace (ub_Username b) in
            if \<not> valid_username username then (refuse (writeProblem 422 ''invalid_username''), s)
            else (case HashPassword idkey salt (ub_Password b) of
              None \<Rightarrow> (refuse (writeProblem 422 ''invalid_password''), s)
            | Some hash \<Rightarrow>
                let user = new_user i (TrimSpace username) (ub_Role b) now in
                (case CreateUser user hash (api_accounts s) of
                   (Inl e, acc) \<Rightarrow> (refuse (writeStoreError e), s\<lparr>api_accounts := acc\<rparr>)
                 | (Inr _, acc) \<Rightarrow>
                     (answer 201 (UserBody user),
                      audit (user_ID actor) ''user.create'' ''user'' i
                        [(''username'', JStr (user_Username user)), (''role'', JStr (role_text (ub_Role b)))]
                        now (s\<lparr>api_accounts := acc\<rparr>)))))"

definition listUsers :: "User \<Rightarrow> handler" where
  "listUsers user rq s = (answer 200 (UsersBody (ListUsers (api_db s) (api_accounts s))), s)"

section \<open>Personal access tokens\<close>

definition personalAccessTokenScopes :: "string list" where
  "personalAccessTokenScopes =
     [''nodes:read'', ''jobs:read'', ''jobs:write'', ''logs:read'', ''artifacts:read'']"

record token_body =
  tb_Name :: string
  tb_Scopes :: "string list"
  tb_ExpiresAt :: "gotime option"

text \<open>\<open>random\<close> is what \<^verbatim>\<open>ids.Token(32)\<close> draws: 64 hexadecimal digits.\<close>

definition createPersonalAccessToken ::
  "token_body option \<Rightarrow> string \<Rightarrow> string \<Rightarrow> gotime \<Rightarrow> User \<Rightarrow> handler" where
  "createPersonalAccessToken decoded i random now user rq s =
     (case decoded of
        None \<Rightarrow> (refuse (writeProblem 400 ''invalid_json''), s)
      | Some b \<Rightarrow>
          let name = TrimSpace (tb_Name b) in
          if name = '''' \<or> 128 < length name then (refuse (writeProblem 422 ''invalid_token_name''), s)
          else if tb_Scopes b = [] then (refuse (writeProblem 422 ''invalid_token_scopes''), s)
          else if \<not> list_all (\<lambda>c. List.member personalAccessTokenScopes c) (tb_Scopes b) \<or> \<not> distinct (tb_Scopes b)
          then (refuse (writeProblem 422 ''invalid_token_scopes''), s)
          else if (case tb_ExpiresAt b of None \<Rightarrow> False | Some e \<Rightarrow> \<not> now < e)
          then (refuse (writeProblem 422 ''invalid_token_expiry''), s)
          else let secret = ''jdp_'' @ random;
                   item = \<lparr>pat_ID = i, pat_UserID = user_ID user, pat_Name = name, pat_Prefix = take 12 secret,
                     pat_Scopes = tb_Scopes b, pat_ExpiresAt = tb_ExpiresAt b, pat_LastUsedAt = None,
                     pat_RevokedAt = None, pat_CreatedAt = now\<rparr>
            in (case CreatePersonalAccessToken item (TokenHash secret) (api_accounts s) of
                  (Inl e, acc) \<Rightarrow> (refuse (writeStoreError e), s\<lparr>api_accounts := acc\<rparr>)
                | (Inr _, acc) \<Rightarrow>
                    (answer 201 (SecretBody i secret),
                     audit (user_ID user) ''auth.pat.create'' ''personal_access_token'' i
                       [(''name'', JStr name), (''scopes'', JArr (map JStr (tb_Scopes b))),
                        (''expires_at'', case tb_ExpiresAt b of None \<Rightarrow> JNull | Some e \<Rightarrow> json_time e)] now
                       (s\<lparr>api_accounts := acc\<rparr>))))"

definition revokePersonalAccessToken :: "string \<Rightarrow> gotime \<Rightarrow> User \<Rightarrow> handler" where
  "revokePersonalAccessToken i now user rq s =
     (case RevokePersonalAccessToken (user_ID user) i now (api_accounts s) of
        (Inl e, acc) \<Rightarrow> (refuse (writeStoreError e), s\<lparr>api_accounts := acc\<rparr>)
      | (Inr _, acc) \<Rightarrow>
          (answer 204 NoBody,
           audit (user_ID user) ''auth.pat.revoke'' ''personal_access_token'' i [] now (s\<lparr>api_accounts := acc\<rparr>)))"

section \<open>Enrolment and nodes\<close>

definition createEnrollmentToken :: "string \<Rightarrow> gotime \<Rightarrow> User \<Rightarrow> handler" where
  "createEnrollmentToken token now user rq s =
     (case CreateEnrollmentToken (TokenHash token) (user_ID user) (now + 900000000000) now (api_accounts s) of
        (Inl e, acc) \<Rightarrow> (refuse (writeStoreError e), s\<lparr>api_accounts := acc\<rparr>)
      | (Inr _, acc) \<Rightarrow>
          (answer 201 (SecretBody ''one_time'' token),
           audit (user_ID user) ''node.enrollment_token.create'' ''enrollment_token'' ''one_time''
             [(''expires_at'', json_time (now + 900000000000))] now (s\<lparr>api_accounts := acc\<rparr>)))"

definition revokeEnrollmentToken :: "string option \<Rightarrow> gotime \<Rightarrow> User \<Rightarrow> handler" where
  "revokeEnrollmentToken decoded now user rq s =
     (case decoded of
        None \<Rightarrow> (refuse (writeProblem 400 ''invalid_json''), s)
      | Some token \<Rightarrow>
          if token = '''' then (refuse (writeProblem 422 ''invalid_enrollment_token''), s)
          else (case RevokeEnrollmentToken (TokenHash token) (user_ID user) now (api_accounts s) of
            (Inl e, acc) \<Rightarrow> (refuse (writeStoreError e), s\<lparr>api_accounts := acc\<rparr>)
          | (Inr _, acc) \<Rightarrow>
              (answer 204 NoBody,
               audit (user_ID user) ''node.enrollment_token.revoke'' ''enrollment_token'' ''one_time'' [] now
                 (s\<lparr>api_accounts := acc\<rparr>))))"

text \<open>The token is spent before the node is stored.\<close>

definition enrollAgent ::
  "(string \<times> Node) option \<Rightarrow> string \<Rightarrow> string \<Rightarrow> gotime \<Rightarrow> handler" where
  "enrollAgent decoded i credential now rq s =
     (if \<not> compatibleProtocol rq then (refuse (writeProblem 426 ''incompatible_protocol''), s)
      else (case decoded of
        None \<Rightarrow> (refuse (writeProblem 400 ''invalid_json''), s)
      | Some (token, n) \<Rightarrow>
          (case ConsumeEnrollmentToken (TokenHash token) i now (api_accounts s) of
             (Inl e, acc) \<Rightarrow> (refuse (writeProblem 401 ''invalid_enrollment_token''), s\<lparr>api_accounts := acc\<rparr>)
           | (Inr _, acc) \<Rightarrow>
               let s = s\<lparr>api_accounts := acc\<rparr>;
                   n = n\<lparr>node_ID := i, node_Status := NodeOnline, node_ProtocolVersion := 1,
                         node_LastHeartbeat := now, node_CreatedAt := now\<rparr>
               in (case UpsertNode n (TokenHash credential) now (api_db s) of
                     (Inl e, d) \<Rightarrow> (refuse (writeStoreError e), s\<lparr>api_db := d\<rparr>)
                   | (Inr _, d) \<Rightarrow>
                       (answer 201 (SecretBody i credential),
                        audit '''' ''node.enroll'' ''node'' i [(''name'', JStr (node_Name n))] now
                          (s\<lparr>api_db := d\<rparr>))))))"

definition agentHeartbeat :: "Node option \<Rightarrow> gotime \<Rightarrow> NodeRow \<Rightarrow> handler" where
  "agentHeartbeat decoded now n rq s =
     (case decoded of
        None \<Rightarrow> (refuse (writeProblem 400 ''invalid_json''), s)
      | Some reported \<Rightarrow>
          let reported = reported\<lparr>node_ID := nr_id n, node_LastHeartbeat := now,
                node_Status := (if node_Status reported = NodeStatusOther '''' then NodeOnline
                                else node_Status reported)\<rparr>
          in (case Heartbeat reported (api_db s) of
                (Inl e, d) \<Rightarrow> (refuse (writeStoreError e), s\<lparr>api_db := d\<rparr>)
              | (Inr _, d) \<Rightarrow> (answer 204 NoBody, s\<lparr>api_db := d\<rparr>)))"

definition rotateAgentCredential :: "string \<Rightarrow> gotime \<Rightarrow> NodeRow \<Rightarrow> handler" where
  "rotateAgentCredential credential now n rq s =
     (case RotateNodeCredential (nr_id n) (TokenHash credential) now (api_db s) of
        (Inl e, d) \<Rightarrow> (refuse (writeStoreError e), s\<lparr>api_db := d\<rparr>)
      | (Inr _, d) \<Rightarrow>
          (answer 200 (SecretBody (nr_id n) credential),
           audit '''' ''node.credential.rotate'' ''node'' (nr_id n) [] now (s\<lparr>api_db := d\<rparr>)))"

definition deleteNode :: "string \<Rightarrow> gotime \<Rightarrow> User \<Rightarrow> handler" where
  "deleteNode i now user rq s =
     (case DeleteNode i now (api_db s) of
        (Inl e, d) \<Rightarrow> (refuse (writeStoreError e), s\<lparr>api_db := d\<rparr>)
      | (Inr _, d) \<Rightarrow>
          (answer 204 NoBody, audit (user_ID user) ''node.delete'' ''node'' i [] now (s\<lparr>api_db := d\<rparr>)))"

definition setNodeStatus :: "string \<Rightarrow> NodeStatus \<Rightarrow> string \<Rightarrow> gotime \<Rightarrow> User \<Rightarrow> handler" where
  "setNodeStatus i st action now user rq s =
     (case SetNodeStatus i st (api_db s) of
        (Inl e, d) \<Rightarrow> (refuse (writeStoreError e), s\<lparr>api_db := d\<rparr>)
      | (Inr _, d) \<Rightarrow>
          (answer 200 (StatusBody (if st = NodeDraining then ''DRAINING'' else ''ONLINE'')),
           audit (user_ID user) action ''node'' i [] now (s\<lparr>api_db := d\<rparr>)))"

definition drainNode :: "string \<Rightarrow> gotime \<Rightarrow> User \<Rightarrow> handler" where
  "drainNode i now user = setNodeStatus i NodeDraining ''node.drain'' now user"

definition resumeNode :: "string \<Rightarrow> gotime \<Rightarrow> User \<Rightarrow> handler" where
  "resumeNode i now user = setNodeStatus i NodeOnline ''node.resume'' now user"

section \<open>Secrets\<close>

text \<open>
  \<^verbatim>\<open>internal/secretbox\<close> over AES-GCM of the standard library: \<open>aead_seal\<close> and \<open>aead_open\<close> take the nonce, the
  text and the associated data. The nonce is 12 random bytes and is stored in front.
\<close>

record aead =
  aead_seal :: "string \<Rightarrow> string \<Rightarrow> string \<Rightarrow> string"
  aead_open :: "string \<Rightarrow> string \<Rightarrow> string \<Rightarrow> string option"

definition Encrypt :: "aead \<Rightarrow> string \<Rightarrow> string \<Rightarrow> string \<Rightarrow> string" where
  "Encrypt box nonce plaintext associated = nonce @ aead_seal box nonce plaintext associated"

definition Decrypt :: "aead \<Rightarrow> string \<Rightarrow> string \<Rightarrow> string option" where
  "Decrypt box ciphertext associated =
     (if length ciphertext < 12 then None
      else aead_open box (take 12 ciphertext) (drop 12 ciphertext) associated)"

record secret_body =
  sb_Name :: string
  sb_Value :: string
  sb_Kind :: string

text \<open>The fields of a Docker \<^verbatim>\<open>AuthConfig\<close>; \<open>registry\<close> is \<^verbatim>\<open>json.Unmarshal\<close> into them.\<close>

record registry_auth =
  ra_username :: string
  ra_password :: string
  ra_auth :: string
  ra_serveraddress :: string

definition registry_ok :: "(string \<Rightarrow> registry_auth option) \<Rightarrow> string \<Rightarrow> bool" where
  "registry_ok registry v \<longleftrightarrow>
     (case registry v of
        None \<Rightarrow> False
      | Some r \<Rightarrow> ra_serveraddress r \<noteq> '''' \<and>
          (ra_auth r \<noteq> '''' \<or> ra_username r \<noteq> '''' \<and> ra_password r \<noteq> ''''))"

definition secret_kind :: "secret_body \<Rightarrow> string" where
  "secret_kind b = (if sb_Kind b = '''' then ''generic'' else sb_Kind b)"

definition createSecret ::
  "aead \<Rightarrow> (string \<Rightarrow> registry_auth option) \<Rightarrow> secret_body option \<Rightarrow> string \<Rightarrow> string \<Rightarrow> gotime \<Rightarrow>
   User \<Rightarrow> handler" where
  "createSecret box registry decoded i nonce now user rq s =
     (case decoded of
        None \<Rightarrow> (refuse (writeProblem 400 ''invalid_json''), s)
      | Some b \<Rightarrow>
          let name = TrimSpace (sb_Name b); kind = secret_kind b in
          if name = '''' \<or> sb_Value b = '''' then (refuse (writeProblem 422 ''invalid_secret''), s)
          else if kind \<noteq> ''generic'' \<and> kind \<noteq> ''registry''
          then (refuse (writeProblem 422 ''invalid_secret_kind''), s)
          else if kind = ''registry'' \<and> \<not> registry_ok registry (sb_Value b)
          then (refuse (writeProblem 422 ''invalid_registry_secret''), s)
          else (case CreateSecret \<lparr>sm_ID = i, sm_OwnerID = user_ID user, sm_Name = name, sm_Kind = kind,
                  sm_CreatedAt = now, sm_UpdatedAt = now\<rparr>
                  (Encrypt box nonce (sb_Value b) (user_ID user @ ''/'' @ name)) (api_accounts s) of
            (Inl e, acc) \<Rightarrow> (refuse (writeStoreError e), s\<lparr>api_accounts := acc\<rparr>)
          | (Inr _, acc) \<Rightarrow>
              (answer 201 NoBody,
               audit (user_ID user) ''secret.create'' ''secret'' i [(''name'', JStr name), (''kind'', JStr kind)] now
                 (s\<lparr>api_accounts := acc\<rparr>))))"

definition deleteSecret :: "string \<Rightarrow> gotime \<Rightarrow> User \<Rightarrow> handler" where
  "deleteSecret i now user rq s =
     (case SecretMetadata (user_ID user) i (api_accounts s) of
        Inl e \<Rightarrow> (refuse (writeStoreError e), s)
      | Inr m \<Rightarrow>
          (case DeleteSecret (user_ID user) i (api_accounts s) of
             (Inl e, acc) \<Rightarrow> (refuse (writeStoreError e), s\<lparr>api_accounts := acc\<rparr>)
           | (Inr _, acc) \<Rightarrow>
               (answer 204 NoBody,
                s\<lparr>api_accounts := AuditWithLabels (api_db s) (user_ID user) (user_Username user) ''secret.delete''
                  ''secret'' i (sm_Name m) [] now acc\<rparr>)))"

record metadata_body =
  md_Name :: string
  md_Labels :: "string gomap"

definition updateNodeMetadata :: "metadata_body option \<Rightarrow> string \<Rightarrow> gotime \<Rightarrow> User \<Rightarrow> handler" where
  "updateNodeMetadata decoded i now user rq s =
     (case decoded of
        None \<Rightarrow> (refuse (writeProblem 400 ''invalid_json''), s)
      | Some b \<Rightarrow>
          let name = TrimSpace (md_Name b); labels = md_Labels b in
          if name = '''' \<or> 128 < length name then (refuse (writeProblem 422 ''invalid_node_name''), s)
          else if 64 < length labels then (refuse (writeProblem 422 ''invalid_node_labels''), s)
          else if list_ex (\<lambda>(k, v). TrimSpace k = '''' \<or> 128 < length k \<or> 256 < length v) labels
          then (refuse (writeProblem 422 ''invalid_node_labels''), s)
          else (case UpdateNodeMetadata i name labels (api_db s) of
            (Inl e, d) \<Rightarrow> (refuse (writeStoreError e), s\<lparr>api_db := d\<rparr>)
          | (Inr _, d) \<Rightarrow>
              (answer 200 NoBody,
               audit (user_ID user) ''node.metadata.update'' ''node'' i
                 [(''name'', JStr name), (''labels'', JObj (map (\<lambda>(k, v). (k, JStr v)) labels))] now
                 (s\<lparr>api_db := d\<rparr>))))"

end
