(* ===== verification/JobApi.thy ===== *)
theory JobApi
  imports AccountApi
begin

text \<open>
  The handlers of \<^verbatim>\<open>internal/httpapi/api.go\<close>, \<^verbatim>\<open>job_inputs.go\<close> and \<^verbatim>\<open>job_attempts.go\<close> through which users create,
  list, stop, rerun and delete jobs, and \<^verbatim>\<open>nextAssignment\<close>, which hands a job with its secrets to an agent.
\<close>

section \<open>Job requests\<close>

text \<open>
  The parts of a multipart body as \<^verbatim>\<open>mime/multipart\<close> delivers them: form name, file name and content, or the
  error of \<^verbatim>\<open>NextPart\<close>. \<open>decode_spec\<close> is the strict JSON decoder, with the check that nothing follows the value.
\<close>

datatype part = Part string string reader | PartError

datatype job_content = JsonContent "JobSpec option" | MultipartContent "part list" | NoMultipart

type_synonym spec_decoder = "string \<Rightarrow> JobSpec option"

text \<open>The field ``spec'': read up to one byte more than 1 MiB.\<close>

definition spec_part :: "spec_decoder \<Rightarrow> reader \<Rightarrow> reply + JobSpec" where
  "spec_part decode_spec r =
     (let r = LimitReader r 1048577 in
      if rd_fails r then Inl (writeProblem 400 ''invalid_job_spec'')
      else if 1048576 < length (rd_data r) then Inl (writeProblem 413 ''job_spec_too_large'')
      else (case decode_spec (rd_data r) of
        None \<Rightarrow> Inl (writeProblem 400 ''invalid_job_spec'')
      | Some spec \<Rightarrow>
          if spec_Inputs spec \<noteq> [] then Inl (writeProblem 422 ''invalid_job_inputs'') else Inr spec))"

definition input_path :: "string \<Rightarrow> string \<Rightarrow> string" where
  "input_path name file =
     (if name = ''input'' then file else if HasPrefix name ''input:'' then drop 6 name else name)"

fun decode_parts ::
  "file_config \<Rightarrow> spec_decoder \<Rightarrow> string \<Rightarrow> part list \<Rightarrow> JobSpec option \<Rightarrow> InputFile list \<Rightarrow> string list \<Rightarrow> fs \<Rightarrow>
   (reply + JobSpec) \<times> fs" where
  "decode_parts cfg decode_spec jobID [] spec manifest paths fs =
     ((case spec of
         None \<Rightarrow> Inl (writeProblem 422 ''invalid_job_spec'')
       | Some spec \<Rightarrow> Inr (spec\<lparr>spec_Inputs := manifest\<rparr>)), fs)"
| "decode_parts cfg decode_spec jobID (PartError # parts) spec manifest paths fs =
     (Inl (writeProblem 400 ''invalid_multipart''), fs)"
| "decode_parts cfg decode_spec jobID (Part name file content # parts) spec manifest paths fs =
     (if name = ''spec'' then
        (if spec \<noteq> None then (Inl (writeProblem 422 ''invalid_job_spec''), fs)
         else (case spec_part decode_spec content of
           Inl r \<Rightarrow> (Inl r, fs)
         | Inr decoded \<Rightarrow> decode_parts cfg decode_spec jobID parts (Some decoded) manifest paths fs))
      else if name \<noteq> ''input'' \<and> \<not> HasPrefix name ''input:'' then
        (Inl (writeProblem 422 ''invalid_job_inputs''), fs)
      else if 1024 \<le> length manifest then (Inl (writeProblem 413 ''input_file_limit_exceeded''), fs)
      else let path = input_path name file in
        if path = '''' \<or> List.member paths path then (Inl (writeProblem 422 ''invalid_job_inputs''), fs)
        else (case StoreInput cfg jobID path content fs of
          (Inl e, fs) \<Rightarrow>
            (Inl (if e = ErrLimitExceeded then writeProblem 413 ''input_limit_exceeded''
                  else writeProblem 422 ''invalid_job_input''), fs)
        | (Inr m, fs) \<Rightarrow>
            decode_parts cfg decode_spec jobID parts spec
              (manifest @ [\<lparr>input_Path = im_Path m, input_Size = im_Size m, input_SHA256 = im_SHA256 m\<rparr>])
              (im_Path m # paths) fs))"

definition decodeJobRequest ::
  "file_config \<Rightarrow> spec_decoder \<Rightarrow> string \<Rightarrow> job_content \<Rightarrow> fs \<Rightarrow> (reply + JobSpec) \<times> fs" where
  "decodeJobRequest cfg decode_spec jobID content fs =
     (case content of
        JsonContent None \<Rightarrow> (Inl (writeProblem 400 ''invalid_json''), fs)
      | JsonContent (Some spec) \<Rightarrow>
          (if spec_Inputs spec \<noteq> [] then Inl (writeProblem 422 ''invalid_job_inputs'') else Inr spec, fs)
      | NoMultipart \<Rightarrow> (Inl (writeProblem 400 ''invalid_multipart''), fs)
      | MultipartContent parts \<Rightarrow> decode_parts cfg decode_spec jobID parts None [] [] fs)"

section \<open>Creating a job\<close>

text \<open>Every refusal after the key was claimed releases it and removes the files of the job again.\<close>

definition abandon_job :: "request \<Rightarrow> string \<Rightarrow> string \<Rightarrow> reply \<Rightarrow> api \<Rightarrow> answer \<times> api" where
  "abandon_job rq userID jobID r s =
     (let s = idem_abort rq userID s
      in (refuse r, s\<lparr>api_files := snd (DeleteJob jobID (api_files s))\<rparr>))"

definition secrets_available :: "string \<Rightarrow> JobSpec \<Rightarrow> accounts \<Rightarrow> bool" where
  "secrets_available userID spec acc \<longleftrightarrow>
     list_all (\<lambda>r. is_ok (SecretCiphertext userID (ref_Name r) acc)) (spec_SecretRefs spec)"

definition registry_available :: "string \<Rightarrow> JobSpec \<Rightarrow> accounts \<Rightarrow> bool" where
  "registry_available userID spec acc \<longleftrightarrow>
     (case SecretCiphertext userID (spec_RegistrySecret spec) acc of
        Inl e \<Rightarrow> False | Inr (c, kind) \<Rightarrow> kind = ''registry'')"

definition new_job :: "string \<Rightarrow> string \<Rightarrow> JobSpec \<Rightarrow> gotime \<Rightarrow> Job" where
  "new_job jobID ownerID spec now = \<lparr>job_ID = jobID, job_OwnerID = ownerID, job_Spec = spec,
     job_Status = JobQueued, job_DesiredStatus = JobRunning, job_ObservedStatus = JobQueued,
     job_AssignedNodeID = '''', job_AttemptID = '''', job_ImageDigest = '''', job_ExitCode = None,
     job_QueueReasonCode = '''', job_QueueReason = '''', job_FailureReason = '''', job_CreatedAt = now,
     job_StartedAt = None, job_FinishedAt = None, job_DeletedAt = None, job_Version = 1\<rparr>"

text \<open>The checks behind the decoding, in their order: what refuses the job, or whether its image is managed.\<close>

definition check_job :: "string \<Rightarrow> JobSpec \<Rightarrow> accounts \<Rightarrow> reply + (string \<times> string) option" where
  "check_job userID spec acc =
     (if \<not> is_ok (ValidateJobSpec spec) then Inl (writeProblem 422 ''invalid_job_spec'')
      else (case ParseManagedArtifactReference (spec_Image spec) of
        InvalidReference \<Rightarrow> Inl (writeProblem 422 ''invalid_managed_artifact'')
      | ManagedReference buildID digest \<Rightarrow>
          if spec_RegistrySecret spec \<noteq> '''' then Inl (writeProblem 422 ''managed_artifact_registry_forbidden'')
          else if \<not> secrets_available userID spec acc then Inl (writeProblem 422 ''secret_not_found'')
          else Inr (Some (buildID, digest))
      | NotManaged \<Rightarrow>
          if \<not> secrets_available userID spec acc then Inl (writeProblem 422 ''secret_not_found'')
          else if spec_RegistrySecret spec \<noteq> '''' \<and> \<not> registry_available userID spec acc
          then Inl (writeProblem 422 ''registry_secret_not_found'')
          else Inr None))"

definition store_job :: "Job \<Rightarrow> (string \<times> string) option \<Rightarrow> gotime \<Rightarrow> unit dbop" where
  "store_job job managed now d =
     (case managed of
        None \<Rightarrow> CreateJob job d
      | Some (buildID, digest) \<Rightarrow> CreateJobWithManagedArtifact job buildID digest now d)"

text \<open>\<open>jobID\<close> is the fresh id.\<close>

definition createJob ::
  "file_config \<Rightarrow> spec_decoder \<Rightarrow> string \<Rightarrow> job_content \<Rightarrow> gotime \<Rightarrow> User \<Rightarrow> handler" where
  "createJob cfg decode_spec jobID content now user rq s =
     (case beginIdempotency rq (user_ID user) now s of
        (Inl a, s) \<Rightarrow> (a, s)
      | (Inr _, s) \<Rightarrow>
          (case decodeJobRequest cfg decode_spec jobID content (api_files s) of
             (Inl r, fs) \<Rightarrow> abandon_job rq (user_ID user) jobID r (s\<lparr>api_files := fs\<rparr>)
           | (Inr spec, fs) \<Rightarrow>
               let s = s\<lparr>api_files := fs\<rparr> in
               (case check_job (user_ID user) spec (api_accounts s) of
                  Inl r \<Rightarrow> abandon_job rq (user_ID user) jobID r s
                | Inr managed \<Rightarrow>
                    let job = new_job jobID (user_ID user) spec now in
                    (case store_job job managed now (api_db s) of
                       (Inl e, d) \<Rightarrow>
                         abandon_job rq (user_ID user) jobID
                           (if managed \<noteq> None \<and> e = ErrNotFound
                            then writeProblem 422 ''managed_artifact_unavailable'' else writeStoreError e)
                           (s\<lparr>api_db := d\<rparr>)
                     | (Inr _, d) \<Rightarrow>
                         let s = s\<lparr>api_db := snd (AppendServerEvent jobID ''queued'' [] now d)\<rparr>;
                             s = audit (user_ID user) ''job.create'' ''job'' jobID
                                   [(''name'', JStr (spec_Name spec))] now s
                         in idem_write rq (user_ID user) 201 (JobBody job) s))))"

section \<open>Listing\<close>

text \<open>
  The query parameters of \<^verbatim>\<open>listJobs\<close>; an empty one does not filter. \<open>lower\<close> is \<^verbatim>\<open>strings.ToLower\<close>, and the name
  filter is lowered already.
\<close>

record job_filter =
  jf_status :: string
  jf_node :: string
  jf_owner :: string
  jf_name :: string

definition status_text :: "JobStatus \<Rightarrow> string" where
  "status_text st =
     (case st of
        JobQueued \<Rightarrow> ''QUEUED'' | JobAssigned \<Rightarrow> ''ASSIGNED'' | JobPullingImage \<Rightarrow> ''PULLING_IMAGE''
      | JobStarting \<Rightarrow> ''STARTING'' | JobRunning \<Rightarrow> ''RUNNING'' | JobStopping \<Rightarrow> ''STOPPING''
      | JobCancelled \<Rightarrow> ''CANCELLED'' | JobSucceeded \<Rightarrow> ''SUCCEEDED'' | JobFailed \<Rightarrow> ''FAILED''
      | JobLost \<Rightarrow> ''LOST'' | JobDeleting \<Rightarrow> ''DELETING'' | JobDeleted \<Rightarrow> ''DELETED''
      | JobStatusOther t \<Rightarrow> t)"

definition job_matches :: "(string \<Rightarrow> string) \<Rightarrow> job_filter \<Rightarrow> Job \<Rightarrow> bool" where
  "job_matches lower f job \<longleftrightarrow>
     (jf_status f = '''' \<or> status_text (job_Status job) = jf_status f) \<and>
     (jf_node f = '''' \<or> job_AssignedNodeID job = jf_node f) \<and>
     (jf_owner f = '''' \<or> job_OwnerID job = jf_owner f) \<and>
     (jf_name f = '''' \<or> sublist (jf_name f) (lower (spec_Name (job_Spec job))))"

text \<open>What a member sees of the job of another user.\<close>

definition visible_job :: "User \<Rightarrow> Job \<Rightarrow> Job" where
  "visible_job user job =
     (if user_Role user \<noteq> RoleAdmin \<and> job_OwnerID job \<noteq> user_ID user
      then job\<lparr>job_Spec := empty_spec\<lparr>spec_Name := spec_Name (job_Spec job)\<rparr>, job_FailureReason := ''''\<rparr>
      else job)"

definition listJobs :: "(string \<Rightarrow> string) \<Rightarrow> job_filter \<Rightarrow> User \<Rightarrow> handler" where
  "listJobs lower f user rq s =
     (answer 200 (JobsBody (map (visible_job user) (filter (job_matches lower f) (ListJobs False (api_db s))))), s)"

definition getJob :: "string \<Rightarrow> User \<Rightarrow> handler" where
  "getJob jobID user rq s =
     (case authorizeJob user jobID s of Inl a \<Rightarrow> (a, s) | Inr job \<Rightarrow> (answer 200 (JobBody job), s))"

section \<open>Stopping, rerunning and deleting\<close>

text \<open>\<open>env\<close> is what other requests commit between the two statements of the store operation.\<close>

definition stopJob :: "(db \<Rightarrow> db) \<Rightarrow> string \<Rightarrow> gotime \<Rightarrow> User \<Rightarrow> handler" where
  "stopJob env jobID now user rq s =
     (case authorizeJob user jobID s of
        Inl a \<Rightarrow> (a, s)
      | Inr job \<Rightarrow>
          (case beginIdempotency rq (user_ID user) now s of
             (Inl a, s) \<Rightarrow> (a, s)
           | (Inr _, s) \<Rightarrow>
               (case RequestStop env (job_ID job) now (api_db s) of
                  (Inl e, d) \<Rightarrow> (refuse (writeStoreError e), idem_abort rq (user_ID user) (s\<lparr>api_db := d\<rparr>))
                | (Inr _, d) \<Rightarrow>
                    let s = s\<lparr>api_db := snd (AppendServerEvent (job_ID job) ''stop_requested'' [] now d)\<rparr>;
                        s = audit (user_ID user) ''job.stop'' ''job'' (job_ID job) [] now s
                    in idem_write rq (user_ID user) 202 (StatusBody ''STOPPING'') s)))"

definition rerunJob :: "string \<Rightarrow> gotime \<Rightarrow> User \<Rightarrow> handler" where
  "rerunJob jobID now user rq s =
     (case authorizeJob user jobID s of
        Inl a \<Rightarrow> (a, s)
      | Inr job \<Rightarrow>
          (case beginIdempotency rq (user_ID user) now s of
             (Inl a, s) \<Rightarrow> (a, s)
           | (Inr _, s) \<Rightarrow>
               (case RerunJob (job_ID job) (api_db s) of
                  (Inl e, d) \<Rightarrow> (refuse (writeStoreError e), idem_abort rq (user_ID user) (s\<lparr>api_db := d\<rparr>))
                | (Inr _, d) \<Rightarrow>
                    let previous = [(''previous_attempt_id'', JStr (job_AttemptID job))];
                        s = s\<lparr>api_db := snd (AppendServerEvent (job_ID job) ''rerun_queued'' previous now d)\<rparr>;
                        s = audit (user_ID user) ''job.rerun'' ''job'' (job_ID job) previous now s
                    in (case Job (job_ID job) (api_db s) of
                          Inl e \<Rightarrow> (refuse (writeStoreError e), idem_abort rq (user_ID user) s)
                        | Inr queued \<Rightarrow> idem_write rq (user_ID user) 202 (JobBody queued) s))))"

definition deleteJob :: "(db \<Rightarrow> db) \<Rightarrow> string \<Rightarrow> gotime \<Rightarrow> User \<Rightarrow> handler" where
  "deleteJob env jobID now user rq s =
     (case authorizeJob user jobID s of
        Inl a \<Rightarrow> (a, s)
      | Inr job \<Rightarrow>
          (case beginIdempotency rq (user_ID user) now s of
             (Inl a, s) \<Rightarrow> (a, s)
           | (Inr _, s) \<Rightarrow>
               (case MarkDeleting env (job_ID job) (api_db s) of
                  (Inl e, d) \<Rightarrow> (refuse (writeStoreError e), idem_abort rq (user_ID user) (s\<lparr>api_db := d\<rparr>))
                | (Inr _, d) \<Rightarrow>
                    let s = audit (user_ID user) ''job.delete'' ''job'' (job_ID job) [] now (s\<lparr>api_db := d\<rparr>)
                    in idem_write rq (user_ID user) 202 (StatusBody ''DELETING'') s)))"

text \<open>The goroutine \<^verbatim>\<open>deleteJob\<close> starts.\<close>

definition finish_deletion :: "string \<Rightarrow> gotime \<Rightarrow> api \<Rightarrow> api" where
  "finish_deletion jobID now s =
     (case DeleteJob jobID (api_files s) of
        (Inl e, fs) \<Rightarrow> s\<lparr>api_files := fs\<rparr>
      | (Inr _, fs) \<Rightarrow>
          s\<lparr>api_files := fs, api_db := snd (MarkDeleted jobID now (api_db s))\<rparr>)"

section \<open>Handing out an assignment\<close>

definition open_secret :: "aead \<Rightarrow> string \<Rightarrow> string \<Rightarrow> string \<Rightarrow> accounts \<Rightarrow> string + string" where
  "open_secret box unavailable ownerID name acc =
     (case SecretCiphertext ownerID name acc of
        Inl e \<Rightarrow> Inl unavailable
      | Inr (ciphertext, kind) \<Rightarrow>
          (case Decrypt box ciphertext (ownerID @ ''/'' @ name) of
             None \<Rightarrow> Inl ''secret_decryption_failed'' | Some v \<Rightarrow> Inr v))"

fun assignment_secrets ::
  "aead \<Rightarrow> string \<Rightarrow> accounts \<Rightarrow> SecretRef list \<Rightarrow> string gomap \<Rightarrow> string + string gomap" where
  "assignment_secrets box ownerID acc [] m = Inr m"
| "assignment_secrets box ownerID acc (r # rs) m =
     (case open_secret box ''secret_unavailable'' ownerID (ref_Name r) acc of
        Inl code \<Rightarrow> Inl code
      | Inr v \<Rightarrow> assignment_secrets box ownerID acc rs
          ((ref_Name r, v) # filter (\<lambda>(k, _). k \<noteq> ref_Name r) m))"

definition registry_credential :: "aead \<Rightarrow> string \<Rightarrow> accounts \<Rightarrow> JobSpec \<Rightarrow> string + string" where
  "registry_credential box ownerID acc spec =
     (if spec_RegistrySecret spec = '''' then Inr ''''
      else (case open_secret box ''registry_secret_unavailable'' ownerID (spec_RegistrySecret spec) acc of
        Inl code \<Rightarrow> Inl code | Inr v \<Rightarrow> Inr (base64_encode url_alphabet (octets v))))"

text \<open>The image of a managed reference; an error of the lookup of the job leaves it with an empty owner.\<close>

definition owner_of :: "string \<Rightarrow> db \<Rightarrow> string" where
  "owner_of jobID d = (case Job jobID d of Inl e \<Rightarrow> '''' | Inr job \<Rightarrow> job_OwnerID job)"

definition assigned_image ::
  "Assignment \<Rightarrow> string \<Rightarrow> gotime \<Rightarrow> db \<Rightarrow> (string + ManagedArtifact option) \<times> db" where
  "assigned_image a nodeID now d =
     (case ParseManagedArtifactReference (spec_Image (asg_Spec a)) of
        NotManaged \<Rightarrow> (Inr None, d)
      | _ \<Rightarrow>
          (case ManagedArtifactForAssignment (asg_ID a) nodeID now d of
             (Inl e, d) \<Rightarrow> (Inl ''managed_artifact_unavailable'', d)
           | (Inr m, d) \<Rightarrow> (Inr (Some m), d)))"

definition complete_assignment ::
  "aead \<Rightarrow> string \<Rightarrow> Assignment \<Rightarrow> gotime \<Rightarrow> api \<Rightarrow> (string + Assignment) \<times> api" where
  "complete_assignment box nodeID a now s =
     (case Decrypt box (asg_JobTokenEncrypted a) (''assignment/'' @ asg_ID a) of
        None \<Rightarrow> (Inl ''assignment_decryption_failed'', s)
      | Some token \<Rightarrow>
          let ownerID = owner_of (asg_JobID a) (api_db s) in
          (case assigned_image a nodeID now (api_db s) of
             (Inl code, d) \<Rightarrow> (Inl code, s\<lparr>api_db := d\<rparr>)
           | (Inr img, d) \<Rightarrow>
               (case assignment_secrets box ownerID (api_accounts s) (spec_SecretRefs (asg_Spec a)) [] of
                  Inl code \<Rightarrow> (Inl code, s\<lparr>api_db := d\<rparr>)
                | Inr secrets \<Rightarrow>
                    (case registry_credential box ownerID (api_accounts s) (asg_Spec a) of
                       Inl code \<Rightarrow> (Inl code, s\<lparr>api_db := d\<rparr>)
                     | Inr credential \<Rightarrow>
                         (Inr (a\<lparr>asg_JobToken := token, asg_ManagedArtifact := img, asg_Secrets := secrets,
                                 asg_RegistryAuth := credential\<rparr>), s\<lparr>api_db := d\<rparr>)))))"

text \<open>What an agent polls for: an assignment, the jobs to stop, and the checkpoints to send.\<close>

record agent_work =
  aw_assignment :: "Assignment option"
  aw_stop_job_ids :: "string list"
  aw_checkpoint_syncs :: "CheckpointSync list"

definition poll_assignment ::
  "aead \<Rightarrow> string \<Rightarrow> bool \<Rightarrow> gotime \<Rightarrow> api \<Rightarrow> (reply + agent_work) option \<times> api" where
  "poll_assignment box nodeID expired now s =
     (let (found, d) = AssignmentForNode nodeID now (api_db s); s = s\<lparr>api_db := d\<rparr>;
          stops = StopRequestsForNode nodeID d; syncs = PendingCheckpointSyncsForNode nodeID d
      in (case found of
            Inr a \<Rightarrow>
              (case complete_assignment box nodeID a now s of
                 (Inl code, s) \<Rightarrow> (Some (Inl (writeProblem 500 code)), s)
               | (Inr a, s) \<Rightarrow>
                   (Some (Inr \<lparr>aw_assignment = Some a, aw_stop_job_ids = stops, aw_checkpoint_syncs = syncs\<rparr>), s))
          | Inl e \<Rightarrow>
              if e \<noteq> ErrNotFound then (Some (Inl (writeStoreError e)), s)
              else if stops \<noteq> [] \<or> syncs \<noteq> [] \<or> expired
              then (Some (Inr \<lparr>aw_assignment = None, aw_stop_job_ids = stops, aw_checkpoint_syncs = syncs\<rparr>), s)
              else (None, s)))"

text \<open>
  The long poll: one round per element of \<open>rounds\<close>, with the time and what other requests do before it. \<open>None\<close>
  is the end of the list, where the agent has gone away.
\<close>

fun nextAssignment ::
  "aead \<Rightarrow> string \<Rightarrow> gotime \<Rightarrow> (gotime \<times> (api \<Rightarrow> api)) list \<Rightarrow> api \<Rightarrow> (reply + agent_work) option \<times> api" where
  "nextAssignment box nodeID deadline [] s = (None, s)"
| "nextAssignment box nodeID deadline ((now, env) # rounds) s =
     (case poll_assignment box nodeID (deadline < now) now (env s) of
        (Some a, s) \<Rightarrow> (Some a, s)
      | (None, s) \<Rightarrow> nextAssignment box nodeID deadline rounds s)"

section \<open>Routes\<close>

text \<open>The handlers of jobs as \<^verbatim>\<open>Handler\<close> registers them: the handler of each route, and what guards it.\<close>

datatype endpoint =
    PostJob file_config spec_decoder string job_content
  | GetJobs "string \<Rightarrow> string" job_filter
  | GetJob string
  | PostStop string
  | PostRerun string
  | DeleteJobRoute string

definition handle :: "endpoint \<Rightarrow> gotime \<Rightarrow> User \<Rightarrow> handler" where
  "handle e now user =
     (case e of
        PostJob cfg decode_spec jobID content \<Rightarrow> createJob cfg decode_spec jobID content now user
      | GetJobs lower f \<Rightarrow> listJobs lower f user
      | GetJob jobID \<Rightarrow> getJob jobID user
      | PostStop jobID \<Rightarrow> stopJob id jobID now user
      | PostRerun jobID \<Rightarrow> rerunJob jobID now user
      | DeleteJobRoute jobID \<Rightarrow> deleteJob id jobID now user)"

definition guard :: "endpoint \<Rightarrow> gotime \<Rightarrow> (User \<Rightarrow> handler) \<Rightarrow> handler" where
  "guard e now =
     (case e of
        PostJob cfg decode_spec jobID content \<Rightarrow> withAccess now ''jobs:write'' True
      | GetJobs lower f \<Rightarrow> withAccess now ''jobs:read'' False
      | GetJob jobID \<Rightarrow> withAccess now ''jobs:read'' False
      | PostStop jobID \<Rightarrow> withAccess now ''jobs:write'' True
      | PostRerun jobID \<Rightarrow> withSession now False True
      | DeleteJobRoute jobID \<Rightarrow> withSession now False True)"

definition route :: "endpoint \<Rightarrow> gotime \<Rightarrow> handler" where
  "route e now = guard e now (handle e now)"

end
