(* ===== verification/AccessFacts.thy ===== *)
theory AccessFacts
  imports JobApi LifecycleFacts
begin

text \<open>
  Facts about the middleware and the handlers of jobs: which requests reach a handler, which job a handler
  changes, and what happens to idempotency keys.
\<close>

definition accepted :: "answer \<Rightarrow> bool" where
  "accepted a \<longleftrightarrow> 200 \<le> rep_status a \<and> rep_status a < 300"

lemma refuse_status [simp]: "rep_status (refuse r) = rep_status r"
  by (simp add: refuse_def reply.defs)

lemma refuse_problem [simp]: "accepted (refuse (writeProblem st code)) \<longleftrightarrow> 200 \<le> st \<and> st < 300"
  by (simp add: accepted_def writeProblem_def)

lemma refuse_store_error [simp]: "\<not> accepted (refuse (writeStoreError e))"
  by (simp add: writeStoreError_def split: store_error.splits)

lemma accepted_answer [simp]: "accepted (answer st b) \<longleftrightarrow> 200 \<le> st \<and> st < 300"
  by (simp add: accepted_def answer_def)

section \<open>Callers\<close>

text \<open>The two ways to be someone: a session with its CSRF token, or a personal access token with a scope.\<close>

definition by_session :: "gotime \<Rightarrow> request \<Rightarrow> api \<Rightarrow> User \<Rightarrow> bool" where
  "by_session now rq s user \<longleftrightarrow>
     (\<exists>cookie session. rq_cookie rq = Some cookie \<and> Session (TokenHash cookie) now (api_accounts s) = Inr session \<and>
        sn_User session = user \<and> sn_CSRFToken session = rq_csrf rq)"

definition by_token :: "gotime \<Rightarrow> string \<Rightarrow> request \<Rightarrow> api \<Rightarrow> User \<Rightarrow> bool" where
  "by_token now scope rq s user \<longleftrightarrow>
     (\<exists>pat. bearer rq \<noteq> '''' \<and> PersonalAccessTokenByHash (TokenHash (bearer rq)) (api_accounts s) = Inr (pat, user) \<and>
        pat_RevokedAt pat = None \<and> (\<forall>e. pat_ExpiresAt pat = Some e \<longrightarrow> now < e) \<and> scope \<in> set (pat_Scopes pat))"

lemma withSession_cases:
  assumes "withSession now admin csrf h rq s = (a, s')"
  obtains (refused) "s' = s" "\<not> accepted a"
  | (passed) user where "h user rq s = (a, s')" "csrf \<Longrightarrow> by_session now rq s user"
      "admin \<Longrightarrow> user_Role user = RoleAdmin"
  using assms by (auto simp: withSession_def by_session_def split: option.splits sum.splits if_splits)

lemma withAccess_cases:
  assumes "withAccess now scope csrf h rq s = (a, s')"
  obtains (refused) "s' = s" "\<not> accepted a"
  | (session) user where "h user rq s = (a, s')" "csrf \<Longrightarrow> by_session now rq s user"
  | (token) user i where "by_token now scope rq s user"
      "h user rq (s\<lparr>api_accounts := TouchPersonalAccessToken i now (api_accounts s)\<rparr>) = (a, s')"
proof (cases "bearer rq = ''''")
  case True
  then have "withSession now False csrf h rq s = (a, s')" using assms by (simp add: withAccess_def)
  then show thesis by (rule withSession_cases) (use refused session in blast)+
next
  case False
  then show thesis
    using assms refused token
    by (auto simp: withAccess_def by_token_def hasScope_def split: sum.splits if_splits option.splits)
qed

lemma Touch_keeps [simp]:
  "acc_keys (TouchPersonalAccessToken i now acc) = acc_keys acc"
  "acc_users (TouchPersonalAccessToken i now acc) = acc_users acc"
  "acc_secrets (TouchPersonalAccessToken i now acc) = acc_secrets acc"
  by (simp_all add: TouchPersonalAccessToken_def)

section \<open>What a handler leaves alone\<close>

lemma audit_keeps [simp]:
  "api_db (audit u act ty i m now s) = api_db s" "api_files (audit u act ty i m now s) = api_files s"
  "acc_keys (api_accounts (audit u act ty i m now s)) = acc_keys (api_accounts s)"
  "acc_users (api_accounts (audit u act ty i m now s)) = acc_users (api_accounts s)"
  "acc_secrets (api_accounts (audit u act ty i m now s)) = acc_secrets (api_accounts s)"
  by (simp_all add: audit_def Audit_def AuditWithLabels_def Let_def)

lemma append_server_event_loop_jobs: "tbl_jobs (snd (append_server_event_loop k i ty p now d)) = tbl_jobs d"
  by (induction k i ty p now d rule: append_server_event_loop.induct)
    (auto simp: push_event_def Let_def split: option.splits)

lemma AppendServerEvent_jobs [simp]: "tbl_jobs (snd (AppendServerEvent i ty p now d)) = tbl_jobs d"
  by (simp add: AppendServerEvent_def append_server_event_loop_jobs)

lemma abort_keeps [simp]: "api_db (idem_abort rq u s) = api_db s" "api_files (idem_abort rq u s) = api_files s"
  by (simp_all add: idem_abort_def)

lemma write_keeps: "idem_write rq u st b s = (a, s') \<Longrightarrow> api_db s' = api_db s \<and> api_files s' = api_files s"
  by (auto simp: idem_write_def)

lemma begin_keeps: "beginIdempotency rq u now s = (r, s') \<Longrightarrow> api_db s' = api_db s \<and> api_files s' = api_files s"
  by (auto simp: beginIdempotency_def split: if_splits prod.splits sum.splits option.splits)

lemma authorized:
  "authorizeJob user jobID s = Inr job \<Longrightarrow>
   \<exists>r. job_row jobID (api_db s) = Some r \<and> job = scanJob r \<and> jr_id r = jobID \<and>
       (user_Role user = RoleAdmin \<or> jr_owner_id r = user_ID user)"
  by (auto simp: authorizeJob_def Job_def scanJob_def job_row_Some split: sum.splits option.splits if_splits)

lemma authorized_id: "authorizeJob user jobID s = Inr job \<Longrightarrow> job_ID job = jobID"
  using authorized by (fastforce simp: scanJob_def)

text \<open>A statement that changes only the rows of one job.\<close>

lemma update_other:
  assumes "\<And>r. jr_id (f r) = jr_id r" "\<And>r. P r \<Longrightarrow> jr_id r = i" "j \<noteq> i"
  shows "find (\<lambda>r. jr_id r = j) (update_where P f t) = find (\<lambda>r. jr_id r = j) t"
proof (induction t)
  case (Cons r t)
  then show ?case using assms by (cases "P r") auto
qed simp

lemma stop_other: "j \<noteq> i \<Longrightarrow> job_row j (snd (RequestStop id i now d)) = job_row j d"
  by (auto simp: RequestStop_def job_row_def Let_def split: sum.splits intro!: update_other)

lemma delete_other: "j \<noteq> i \<Longrightarrow> job_row j (snd (MarkDeleting id i d)) = job_row j d"
  by (auto simp: MarkDeleting_def job_row_def Let_def split: sum.splits intro!: update_other)

lemma rerun_other: "j \<noteq> i \<Longrightarrow> job_row j (snd (RerunJob i d)) = job_row j d"
  by (auto simp: RerunJob_def job_row_def rerun_job_row_def Let_def intro!: update_other)

lemma find_append_Some: "find P xs = Some r \<Longrightarrow> find P (xs @ ys) = Some r"
  by (induction xs) auto

lemma store_other: "job_row j d = Some r \<Longrightarrow> job_row j (snd (store_job job managed now d)) = Some r"
  by (auto simp: store_job_def CreateJob_def CreateJobWithManagedArtifact_def touch_artifact_def job_row_def
      find_append_Some split: option.splits sum.splits prod.splits if_splits)

text \<open>A handler changes no row but that of the job it is about, and that only for its owner or an administrator.\<close>

definition may_change :: "User \<Rightarrow> JobRow \<Rightarrow> bool" where
  "may_change user r \<longleftrightarrow> user_Role user = RoleAdmin \<or> jr_owner_id r = user_ID user"

lemma store_job_error: "store_job job managed now d = (Inl e, d') \<Longrightarrow> d' = d"
  by (auto simp: store_job_def CreateJob_def CreateJobWithManagedArtifact_def
      split: option.splits sum.splits prod.splits if_splits)

lemma check_job_refuses: "check_job u spec acc = Inl r \<Longrightarrow> \<not> accepted (refuse r)"
  by (auto simp: check_job_def split: if_splits reference_result.splits)

lemma decode_parts_refuses:
  "decode_parts cfg dec i parts spec manifest paths fs = (Inl r, fs') \<Longrightarrow> \<not> accepted (refuse r)"
proof (induction parts arbitrary: spec manifest paths fs)
  case (Cons p parts)
  then show ?case
    by (cases p) (auto simp: Let_def spec_part_def split: if_splits option.splits sum.splits prod.splits)
qed (auto split: option.splits)

lemma decode_refuses: "decodeJobRequest cfg dec i content fs = (Inl r, fs') \<Longrightarrow> \<not> accepted (refuse r)"
  by (auto simp: decodeJobRequest_def split: job_content.splits option.splits if_splits dest: decode_parts_refuses)

lemma createJob_cases:
  assumes "createJob cfg dec i content now user rq s = (a, s')"
  obtains (early) "beginIdempotency rq (user_ID user) now s = (Inl a, s')"
  | (abandoned) s0 r where "beginIdempotency rq (user_ID user) now s = (Inr (), s0)"
      "abandon_job rq (user_ID user) i r
        (s0\<lparr>api_files := snd (decodeJobRequest cfg dec i content (api_files s0))\<rparr>) = (a, s')"
      "\<not> accepted a"
  | (created) s0 spec fs managed d where "beginIdempotency rq (user_ID user) now s = (Inr (), s0)"
      "decodeJobRequest cfg dec i content (api_files s0) = (Inr spec, fs)"
      "check_job (user_ID user) spec (api_accounts s0) = Inr managed"
      "store_job (new_job i (user_ID user) spec now) managed now (api_db s0) = (Inr (), d)"
      "idem_write rq (user_ID user) 201 (JobBody (new_job i (user_ID user) spec now))
        (audit (user_ID user) ''job.create'' ''job'' i [(''name'', JStr (spec_Name spec))] now
          (s0\<lparr>api_files := fs, api_db := snd (AppendServerEvent i ''queued'' [] now d)\<rparr>)) = (a, s')"
proof (cases "beginIdempotency rq (user_ID user) now s")
  case (Pair x s0)
  show thesis
  proof (cases x)
    case (Inl b)
    then show thesis using assms Pair early by (simp add: createJob_def)
  next
    case (Inr u)
    obtain y fs where y: "decodeJobRequest cfg dec i content (api_files s0) = (y, fs)" by (cases "decodeJobRequest cfg dec i content (api_files s0)")
    note st = assms [unfolded createJob_def Pair prod.case Inr sum.case y]
    show thesis
    proof (cases y)
      case (Inl r)
      with y have "\<not> accepted (refuse r)" using decode_refuses by metis
      with abandoned [of s0 r] st Inl Inr Pair y show thesis by (simp add: abandon_job_def Let_def split: if_splits)
    next
      case spec: (Inr spec)
      show thesis
      proof (cases "check_job (user_ID user) spec (api_accounts s0)")
        case (Inl r)
        then have "\<not> accepted (refuse r)" using check_job_refuses by metis
        with abandoned [of s0 r] st Inl spec Inr Pair y show thesis by (simp add: abandon_job_def Let_def split: if_splits)
      next
        case managed: (Inr managed)
        obtain z d where z: "store_job (new_job i (user_ID user) spec now) managed now (api_db s0) = (z, d)" by fastforce
        show thesis
        proof (cases z)
          case (Inl e)
          with z have d: "d = api_db s0" by (simp add: store_job_error)
          show thesis
            using abandoned [of s0 "if managed \<noteq> None \<and> e = ErrNotFound then writeProblem 422 ''managed_artifact_unavailable''
              else writeStoreError e"] st Inl spec Inr Pair y managed z d
            by (auto simp: abandon_job_def Let_def split: if_splits)
        next
          case ok: (Inr w)
          show thesis using created [of s0 spec fs managed d] st ok spec Inr Pair y managed z by (simp add: Let_def)
        qed
      qed
    qed
  qed
qed

lemma createJob_other:
  assumes "createJob cfg dec i content now user rq s = (a, s')" "job_row j (api_db s) = Some r"
  shows "job_row j (api_db s') = Some r"
  using assms(1)
proof (cases rule: createJob_cases)
  case early
  then show ?thesis using assms(2) begin_keeps by metis
next
  case (abandoned s0 r)
  then show ?thesis using assms(2) begin_keeps [OF abandoned(1)] by (auto simp: abandon_job_def Let_def)
next
  case (created s0 spec fs managed d)
  then have "job_row j (api_db s0) = Some r" using assms(2) begin_keeps by metis
  then have "job_row j d = Some r" using store_other created(4) by (metis snd_conv)
  then show ?thesis using write_keeps [OF created(5)] by (simp add: job_row_def)
qed

text \<open>What stopping, rerunning and deleting have in common.\<close>

fun target :: "endpoint \<Rightarrow> string option" where
  "target (PostStop i) = Some i"
| "target (PostRerun i) = Some i"
| "target (DeleteJobRoute i) = Some i"
| "target _ = None"

inductive job_action :: "User \<Rightarrow> string \<Rightarrow> gotime \<Rightarrow> request \<Rightarrow> api \<Rightarrow> answer \<Rightarrow> api \<Rightarrow> bool"
  for user i now rq s where
  refused: "authorizeJob user i s = Inl a \<Longrightarrow> job_action user i now rq s a s"
| early: "authorizeJob user i s = Inr job \<Longrightarrow> beginIdempotency rq (user_ID user) now s = (Inl a, s') \<Longrightarrow>
    job_action user i now rq s a s'"
| failed: "authorizeJob user i s = Inr job \<Longrightarrow> beginIdempotency rq (user_ID user) now s = (Inr (), s0) \<Longrightarrow>
    \<not> accepted a \<Longrightarrow> acc_keys (api_accounts t) = acc_keys (api_accounts s0) \<Longrightarrow>
    (\<And>j. j \<noteq> i \<Longrightarrow> job_row j (api_db t) = job_row j (api_db s)) \<Longrightarrow>
    job_action user i now rq s a (idem_abort rq (user_ID user) t)"
| acted: "authorizeJob user i s = Inr job \<Longrightarrow> beginIdempotency rq (user_ID user) now s = (Inr (), s0) \<Longrightarrow>
    acc_keys (api_accounts t) = acc_keys (api_accounts s0) \<Longrightarrow>
    (\<And>j. j \<noteq> i \<Longrightarrow> job_row j (api_db t) = job_row j (api_db s)) \<Longrightarrow>
    idem_write rq (user_ID user) 202 b t = (a, s') \<Longrightarrow> job_action user i now rq s a s'"

lemma event_rows: "job_row j (snd (AppendServerEvent k ty p now d)) = job_row j d"
  by (simp add: job_row_def)

lemma action_cases:
  assumes "\<And>a'. authorizeJob user i s = Inl a' \<Longrightarrow> (a, s') = (a', s)"
    "\<And>job a' t. authorizeJob user i s = Inr job \<Longrightarrow> beginIdempotency rq (user_ID user) now s = (Inl a', t) \<Longrightarrow>
      (a, s') = (a', t)"
    "\<And>job s0. authorizeJob user i s = Inr job \<Longrightarrow> beginIdempotency rq (user_ID user) now s = (Inr (), s0) \<Longrightarrow>
      job_ID job = i \<Longrightarrow> api_db s0 = api_db s \<Longrightarrow> job_action user i now rq s a s'"
  shows "job_action user i now rq s a s'"
proof (cases "authorizeJob user i s")
  case (Inl a')
  then show ?thesis using assms(1) refused by auto
next
  case (Inr job)
  obtain x t where b: "beginIdempotency rq (user_ID user) now s = (x, t)" by fastforce
  show ?thesis
  proof (cases x)
    case (Inl a')
    then show ?thesis using assms(2) Inr b early by auto
  next
    case u: (Inr u)
    then show ?thesis using assms(3) Inr b begin_keeps [OF b] authorized_id [OF Inr] by simp
  qed
qed

lemma stopJob_action:
  assumes "stopJob id i now user rq s = (a, s')"
  shows "job_action user i now rq s a s'"
proof (rule action_cases)
  fix job s0 assume h: "authorizeJob user i s = Inr job" "beginIdempotency rq (user_ID user) now s = (Inr (), s0)"
    "job_ID job = i" "api_db s0 = api_db s"
  obtain x d where x: "RequestStop id i now (api_db s) = (x, d)" by fastforce
  then have rows: "j \<noteq> i \<Longrightarrow> job_row j d = job_row j (api_db s)" for j using stop_other by (metis snd_conv)
  note st = assms [unfolded stopJob_def h(1) sum.case h(2) prod.case h(3,4) x]
  show "job_action user i now rq s a s'"
  proof (cases x)
    case (Inl e)
    then show ?thesis using st job_action.failed [OF h(1,2), of a "s0\<lparr>api_db := d\<rparr>"] rows by auto
  next
    case (Inr u)
    show ?thesis
      by (rule job_action.acted [OF h(1,2) _ _ st [unfolded Inr sum.case Let_def]]) (simp_all add: event_rows rows)
  qed
qed (use assms in \<open>simp_all add: stopJob_def\<close>)

lemma deleteJob_action:
  assumes "deleteJob id i now user rq s = (a, s')"
  shows "job_action user i now rq s a s'"
proof (rule action_cases)
  fix job s0 assume h: "authorizeJob user i s = Inr job" "beginIdempotency rq (user_ID user) now s = (Inr (), s0)"
    "job_ID job = i" "api_db s0 = api_db s"
  obtain x d where x: "MarkDeleting id i (api_db s) = (x, d)" by fastforce
  then have rows: "j \<noteq> i \<Longrightarrow> job_row j d = job_row j (api_db s)" for j using delete_other by (metis snd_conv)
  note st = assms [unfolded deleteJob_def h(1) sum.case h(2) prod.case h(3,4) x]
  show "job_action user i now rq s a s'"
  proof (cases x)
    case (Inl e)
    then show ?thesis using st job_action.failed [OF h(1,2), of a "s0\<lparr>api_db := d\<rparr>"] rows by auto
  next
    case (Inr u)
    show ?thesis
      by (rule job_action.acted [OF h(1,2) _ _ st [unfolded Inr sum.case Let_def]]) (simp_all add: event_rows rows)
  qed
qed (use assms in \<open>simp_all add: deleteJob_def\<close>)

lemma rerunJob_action:
  assumes "rerunJob i now user rq s = (a, s')"
  shows "job_action user i now rq s a s'"
proof (rule action_cases)
  fix job s0 assume h: "authorizeJob user i s = Inr job" "beginIdempotency rq (user_ID user) now s = (Inr (), s0)"
    "job_ID job = i" "api_db s0 = api_db s"
  obtain x d where x: "RerunJob i (api_db s) = (x, d)" by fastforce
  then have rows: "j \<noteq> i \<Longrightarrow> job_row j d = job_row j (api_db s)" for j using rerun_other by (metis snd_conv)
  note st = assms [unfolded rerunJob_def h(1) sum.case h(2) prod.case h(3,4) x]
  show "job_action user i now rq s a s'"
  proof (cases x)
    case (Inl e)
    then show ?thesis using st job_action.failed [OF h(1,2), of a "s0\<lparr>api_db := d\<rparr>"] rows by auto
  next
    case (Inr u)
    let ?t = "audit (user_ID user) ''job.rerun'' ''job'' i [(''previous_attempt_id'', JStr (job_AttemptID job))] now
      (s0\<lparr>api_db := snd (AppendServerEvent i ''rerun_queued''
        [(''previous_attempt_id'', JStr (job_AttemptID job))] now d)\<rparr>)"
    note st = st [unfolded Inr sum.case Let_def]
    show ?thesis
    proof (cases "Job i (api_db ?t)")
      case (Inl e)
      have "a = refuse (writeStoreError e)" "s' = idem_abort rq (user_ID user) ?t"
        using st unfolding Inl sum.case by simp_all
      then show ?thesis
        using job_action.failed [OF h(1,2), of a ?t] by (simp add: event_rows rows)
    next
      case (Inr queued)
      show ?thesis
        by (rule job_action.acted [OF h(1,2) _ _ st [unfolded Inr sum.case]]) (simp_all add: event_rows rows)
    qed
  qed
qed (use assms in \<open>simp_all add: rerunJob_def\<close>)

lemma target_action:
  "handle e now user rq s = (a, s') \<Longrightarrow> target e = Some i \<Longrightarrow> job_action user i now rq s a s'"
  by (cases e) (auto simp: handle_def intro: stopJob_action deleteJob_action rerunJob_action)

lemma action_changes:
  assumes "job_action user i now rq s a s'" "job_row j (api_db s) = Some r" "job_row j (api_db s') \<noteq> Some r"
  shows "may_change user r"
  using assms
proof cases
  case refused
  then show ?thesis using assms by simp
next
  case (early job)
  then show ?thesis using assms begin_keeps by metis
next
  case (failed job s0 t)
  have "j = i" by (rule ccontr) (use failed(1,6) assms(2,3) in simp)
  with authorized [OF failed(2)] assms(2) show ?thesis by (auto simp: may_change_def)
next
  case (acted job s0 t b)
  have "j = i" by (rule ccontr) (use acted(4) assms(2,3) write_keeps [OF acted(5)] in simp)
  with authorized [OF acted(1)] assms(2) show ?thesis by (auto simp: may_change_def)
qed

lemma handle_changes:
  assumes "handle e now user rq s = (a, s')" "job_row j (api_db s) = Some r" "job_row j (api_db s') \<noteq> Some r"
  shows "may_change user r"
proof (cases "target e")
  case None
  then show ?thesis
    using assms createJob_other
    by (cases e) (auto simp: handle_def listJobs_def getJob_def split: sum.splits)
next
  case (Some i)
  then show ?thesis using action_changes target_action assms by metis
qed

section \<open>Idempotency keys\<close>

text \<open>The key of the request holds the answer \<open>a\<close>.\<close>

definition answered :: "string \<Rightarrow> request \<Rightarrow> answer \<Rightarrow> api \<Rightarrow> bool" where
  "answered userID rq a s \<longleftrightarrow>
     16 \<le> length (rq_key rq) \<and> length (rq_key rq) \<le> 128 \<and>
     (\<exists>r. key_row userID (rq_key rq) (api_accounts s) = Some r \<and> key_method r = rq_method rq \<and>
        key_path r = rq_path rq \<and> key_response r = Some (rep_status a, ans_body a))"

definition replay :: "answer \<Rightarrow> answer" where
  "replay a = (answer (rep_status a) (ans_body a))\<lparr>ans_replayed := True\<rparr>"

lemma answered_cong: "acc_keys (api_accounts t) = acc_keys (api_accounts s) \<Longrightarrow> answered u rq a t \<longleftrightarrow> answered u rq a s"
  by (simp add: answered_def key_row_def)

lemma begin_replays: "answered u rq a s \<Longrightarrow> beginIdempotency rq u now s = (Inl (replay a), s)"
  by (auto simp: answered_def beginIdempotency_def ClaimIdempotency_def replay_def)

lemma begin_early:
  "beginIdempotency rq u now s = (Inl a, s') \<Longrightarrow> accepted a \<Longrightarrow> s' = s \<and> answered u rq a s"
  by (auto simp: answered_def beginIdempotency_def ClaimIdempotency_def answer_def not_less
      split: if_splits option.splits prod.splits sum.splits)

lemma begin_claims:
  assumes "beginIdempotency rq u now s = (Inr (), s0)" "rq_key rq \<noteq> ''''"
  obtains r where "key_row u (rq_key rq) (api_accounts s) = None"
    "key_row u (rq_key rq) (api_accounts s0) = Some r" "key_method r = rq_method rq" "key_path r = rq_path rq"
    "16 \<le> length (rq_key rq)" "length (rq_key rq) \<le> 128"
proof -
  have "find P xs = None \<Longrightarrow> P x \<Longrightarrow> find P (xs @ [x]) = Some x" for P and x :: KeyRow and xs
    by (induction xs) (auto split: if_splits)
  then show thesis
    using assms that
    by (auto simp: beginIdempotency_def ClaimIdempotency_def key_row_def not_less
        split: if_splits option.splits prod.splits sum.splits)
qed

lemma begin_keeps_answers:
  assumes "beginIdempotency rq u now s = (x, s0)" "answered u' rq' a s"
  shows "answered u' rq' a s0"
  using assms
  by (auto simp: answered_def beginIdempotency_def ClaimIdempotency_def key_row_def find_append_Some
      split: if_splits option.splits prod.splits sum.splits)

lemma find_filter: "find P xs = Some r \<Longrightarrow> Q r \<Longrightarrow> find P (filter Q xs) = Some r"
  by (induction xs) (auto split: if_splits)

lemma abort_keeps_answers: "answered u' rq' a s \<Longrightarrow> answered u' rq' a (idem_abort rq u s)"
  by (auto simp: answered_def idem_abort_def ReleaseIdempotency_def key_row_def delete_where_def intro!: find_filter)

lemma key_row_write:
  "key_row u k (CompleteIdempotency u' k' st b acc) =
     map_option (\<lambda>r. if u = u' \<and> k = k' then r\<lparr>key_response := Some (st, b)\<rparr> else r) (key_row u k acc)"
proof -
  have "find (\<lambda>r. key_user_id r = u \<and> key_key r = k)
      (update_where (\<lambda>r. key_user_id r = u' \<and> key_key r = k') (\<lambda>r. r\<lparr>key_response := Some (st, b)\<rparr>) t) =
    map_option (\<lambda>r. if u = u' \<and> k = k' then r\<lparr>key_response := Some (st, b)\<rparr> else r)
      (find (\<lambda>r. key_user_id r = u \<and> key_key r = k) t)" for t
    by (induction t) auto
  then show ?thesis by (simp add: key_row_def CompleteIdempotency_def)
qed

lemma write_answers:
  assumes "beginIdempotency rq u now s = (Inr (), s0)" "rq_key rq \<noteq> ''''"
    "acc_keys (api_accounts t) = acc_keys (api_accounts s0)" "idem_write rq u st b t = (a, s')"
  shows "answered u rq a s'"
proof -
  obtain r where r: "key_row u (rq_key rq) (api_accounts s0) = Some r" "key_method r = rq_method rq"
    "key_path r = rq_path rq" "16 \<le> length (rq_key rq)" "length (rq_key rq) \<le> 128"
    using begin_claims [OF assms(1,2)] by metis
  then have "key_row u (rq_key rq) (api_accounts t) = Some r" using assms(3) by (simp add: key_row_def)
  then show ?thesis using assms(2,4) r by (auto simp: answered_def idem_write_def answer_def key_row_write)
qed

lemma write_keeps_answers:
  assumes "beginIdempotency rq u now s = (Inr (), s0)" "answered u' rq' a s"
    "acc_keys (api_accounts t) = acc_keys (api_accounts s0)" "idem_write rq u st b t = (a', s')"
  shows "answered u' rq' a s'"
proof (cases "rq_key rq = ''''")
  case True
  then have "s' = t" using assms(4) by (simp add: idem_write_def)
  then show ?thesis using begin_keeps_answers [OF assms(1,2)] assms(3) answered_cong by blast
next
  case False
  have t: "answered u' rq' a t" using begin_keeps_answers [OF assms(1,2)] assms(3) answered_cong by blast
  have "key_row u (rq_key rq) (api_accounts s) = None" using begin_claims [OF assms(1) False] by metis
  then have "\<not> (u' = u \<and> rq_key rq' = rq_key rq)" using assms(2) by (auto simp: answered_def)
  then show ?thesis using t assms(4) False by (auto simp: answered_def idem_write_def key_row_write)
qed

definition mutates :: "endpoint \<Rightarrow> bool" where
  "mutates e \<longleftrightarrow> (case e of GetJobs lower f \<Rightarrow> False | GetJob i \<Rightarrow> False | _ \<Rightarrow> True)"

lemma mutates_cases: "mutates e \<Longrightarrow> (\<exists>cfg dec i content. e = PostJob cfg dec i content) \<or> (\<exists>i. target e = Some i)"
  by (cases e) (auto simp: mutates_def)

lemma authorize_refuses: "authorizeJob user i s = Inl a \<Longrightarrow> \<not> accepted a"
  by (auto simp: authorizeJob_def split: sum.splits if_splits)

lemma handle_answers:
  assumes "handle e now user rq s = (a, s')" "mutates e" "accepted a" "rq_key rq \<noteq> ''''"
  shows "answered (user_ID user) rq a s'"
  using mutates_cases [OF assms(2)]
proof (elim disjE exE)
  fix cfg dec i content assume "e = PostJob cfg dec i content"
  with assms(1) have "createJob cfg dec i content now user rq s = (a, s')" by (simp add: handle_def)
  then show ?thesis
  proof (cases rule: createJob_cases)
    case early
    then show ?thesis using begin_early assms(3) by blast
  next
    case (abandoned s0 r)
    then show ?thesis using assms(3) by simp
  next
    case (created s0 spec fs managed d)
    show ?thesis by (rule write_answers [OF created(1) assms(4) _ created(5)]) simp
  qed
next
  fix i assume "target e = Some i"
  from target_action [OF assms(1) this] show ?thesis
  proof cases
    case refused
    then show ?thesis using authorize_refuses assms(3) by blast
  next
    case (early job)
    then show ?thesis using begin_early assms(3) by blast
  next
    case (failed job s0 t)
    then show ?thesis using assms(3) by simp
  next
    case (acted job s0 t b)
    then show ?thesis using write_answers assms(4) by metis
  qed
qed

lemma handle_keeps_answers:
  assumes "handle e now user rq s = (a, s')" "answered u' rq' a' s"
  shows "answered u' rq' a' s'"
proof (cases "mutates e")
  case False
  then show ?thesis
    using assms by (cases e) (auto simp: mutates_def handle_def listJobs_def getJob_def split: sum.splits)
next
  case True
  from mutates_cases [OF this] show ?thesis
  proof (elim disjE exE)
    fix cfg dec i content assume "e = PostJob cfg dec i content"
    with assms(1) have "createJob cfg dec i content now user rq s = (a, s')" by (simp add: handle_def)
    then show ?thesis
    proof (cases rule: createJob_cases)
      case early
      then show ?thesis using begin_keeps_answers assms(2) by blast
    next
      case (abandoned s0 r)
      have "answered u' rq' a' s0" using begin_keeps_answers abandoned(1) assms(2) by blast
      then have "answered u' rq' a' (s0\<lparr>api_files := snd (decodeJobRequest cfg dec i content (api_files s0))\<rparr>)"
        by (simp add: answered_def)
      from abort_keeps_answers [OF this] show ?thesis
        using abandoned(2) by (auto simp: abandon_job_def Let_def answered_def)
    next
      case (created s0 spec fs managed d)
      show ?thesis by (rule write_keeps_answers [OF created(1) assms(2) _ created(5)]) simp
    qed
  next
    fix i assume "target e = Some i"
    from target_action [OF assms(1) this] show ?thesis
    proof cases
      case refused
      then show ?thesis using assms(2) by simp
    next
      case (early job)
      then show ?thesis using begin_keeps_answers assms(2) by blast
    next
      case (failed job s0 t)
      have "answered u' rq' a' s0" by (rule begin_keeps_answers [OF failed(3) assms(2)])
      then have "answered u' rq' a' t" by (simp only: answered_cong [OF failed(5)])
      then show ?thesis using failed(1) abort_keeps_answers by simp
    next
      case (acted job s0 t b)
      then show ?thesis using write_keeps_answers assms(2) by metis
    qed
  qed
qed

text \<open>
  What a server does: requests to these routes, and everything else, which does not touch the keys.
\<close>

inductive served :: "api \<Rightarrow> api \<Rightarrow> bool" where
  request: "route e now rq s = (a, s') \<Longrightarrow> served s s'"
| other: "acc_keys (api_accounts s') = acc_keys (api_accounts s) \<Longrightarrow> served s s'"

definition same_data :: "api \<Rightarrow> api \<Rightarrow> bool" where
  "same_data t s \<longleftrightarrow> api_db t = api_db s \<and> api_files t = api_files s \<and>
     acc_keys (api_accounts t) = acc_keys (api_accounts s)"

definition guarded :: "bool \<Rightarrow> gotime \<Rightarrow> (User \<Rightarrow> handler) \<Rightarrow> request \<Rightarrow> api \<Rightarrow> answer \<Rightarrow> api \<Rightarrow> bool" where
  "guarded writes now h rq s a s' \<longleftrightarrow>
     s' = s \<and> \<not> accepted a \<or>
     (\<exists>user t. h user rq t = (a, s') \<and> same_data t s \<and>
        (writes \<longrightarrow> by_session now rq s user \<or> by_token now ''jobs:write'' rq s user))"

lemma session_guarded: "withSession now False csrf h rq s = (a, s') \<Longrightarrow> (writes \<Longrightarrow> csrf) \<Longrightarrow> guarded writes now h rq s a s'"
  by (erule withSession_cases) (auto simp: guarded_def same_data_def)

lemma access_guarded:
  "withAccess now scope csrf h rq s = (a, s') \<Longrightarrow> (writes \<Longrightarrow> csrf \<and> scope = ''jobs:write'') \<Longrightarrow>
   guarded writes now h rq s a s'"
proof (erule withAccess_cases)
  fix user i assume h: "(writes \<Longrightarrow> csrf \<and> scope = ''jobs:write'')" "by_token now scope rq s user"
    "h user rq (s\<lparr>api_accounts := TouchPersonalAccessToken i now (api_accounts s)\<rparr>) = (a, s')"
  have "same_data (s\<lparr>api_accounts := TouchPersonalAccessToken i now (api_accounts s)\<rparr>) s"
    by (simp add: same_data_def)
  then show "guarded writes now h rq s a s'" using h unfolding guarded_def by blast
qed (auto simp: guarded_def same_data_def)

lemma route_guarded: "route e now rq s = (a, s') \<Longrightarrow> guarded (mutates e) now (handle e now) rq s a s'"
  by (cases e) (auto simp: route_def guard_def mutates_def intro: session_guarded access_guarded)

lemma route_cases:
  assumes "route e now rq s = (a, s')"
  obtains (refused) "s' = s" "\<not> accepted a"
  | (handled) user t where "handle e now user rq t = (a, s')" "same_data t s"
      "mutates e \<Longrightarrow> by_session now rq s user \<or> by_token now ''jobs:write'' rq s user"
  using route_guarded [OF assms] unfolding guarded_def by blast

lemma served_answers: "served s s' \<Longrightarrow> answered u rq a s \<Longrightarrow> answered u rq a s'"
proof (induction rule: served.induct)
  case (request e now rq' s b s')
  from request(1) show ?case
  proof (cases rule: route_cases)
    case refused
    then show ?thesis using request by simp
  next
    case (handled user t)
    from handled(2) have "acc_keys (api_accounts t) = acc_keys (api_accounts s)" by (simp add: same_data_def)
    from answered_cong [OF this] request(2) have "answered u rq a t" by simp
    then show ?thesis using handle_keeps_answers handled(1) by blast
  qed
next
  case (other s' s)
  then show ?case by (simp only: answered_cong [OF other(1)])
qed

lemma served_run_answers: "served\<^sup>*\<^sup>* s s' \<Longrightarrow> answered u rq a s \<Longrightarrow> answered u rq a s'"
  by (induction rule: rtranclp_induct) (auto intro: served_answers)

end
