(* ===== verification/AccessProperties.thy ===== *)
theory AccessProperties
  imports AccessFacts FileSteps Samples
begin

text \<open>
  What users may do: jobs change only for their owner or an administrator, a request under an idempotency key
  takes effect once, a refused job leaves nothing behind, members learn nothing about the jobs of others,
  logins are limited, and a job gets the secrets its owner stored.
\<close>

section \<open>Authorisation\<close>


section \<open>Idempotency\<close>

text \<open>C31: When creating, stopping, rerunning or deleting a job under an idempotency key has succeeded, a
  repetition with the key by the same user (same method and path) gives the same status and body at any later
  time, and has no effect at all.\<close>

theorem repeated_requests_replay:
  assumes "handle e now user rq s = (a, s1)" "accepted a" "mutates e" "rq_key rq \<noteq> ''''"
    "served\<^sup>*\<^sup>* s1 s2" "mutates e'" "\<And>i. target e' = Some i \<Longrightarrow> is_ok (authorizeJob user i s2)"
  shows "handle e' now' user rq s2 = (replay a, s2)"
proof -
  have "answered (user_ID user) rq a s2"
    using handle_answers [OF assms(1,3,2,4)] served_run_answers assms(5) by blast
  note b = begin_replays [OF this]
  show ?thesis
    using mutates_cases [OF assms(6)]
  proof (elim disjE exE)
    fix cfg dec i content assume "e' = PostJob cfg dec i content"
    then show ?thesis by (simp add: handle_def createJob_def b)
  next
    fix i assume t: "target e' = Some i"
    then obtain job where "authorizeJob user i s2 = Inr job" using assms(7) by (auto simp: is_ok_iff)
    then show ?thesis
      using t by (cases e') (auto simp: handle_def stopJob_def rerunJob_def deleteJob_def b)
  qed
qed

section \<open>Refused jobs\<close>







section \<open>What members see\<close>

text \<open>The row of a job of another user without what its owner keeps to itself.\<close>

definition redacted_row :: "User \<Rightarrow> JobRow \<Rightarrow> JobRow" where
  "redacted_row user r =
     (if may_change user r then r
      else r\<lparr>jr_spec := empty_spec\<lparr>spec_Name := spec_Name (jr_spec r)\<rparr>, jr_failure_reason := ''''\<rparr>)"

lemma redacted_simps [simp]:
  "jr_id (redacted_row u r) = jr_id r" "jr_status (redacted_row u r) = jr_status r"
  "jr_created_at (redacted_row u r) = jr_created_at r" "jr_owner_id (redacted_row u r) = jr_owner_id r"
  "may_change u (redacted_row u r) = may_change u r"
  by (simp_all add: redacted_row_def may_change_def)

lemma visible_scan: "visible_job u (scanJob r) = scanJob (redacted_row u r)"
  by (auto simp: visible_job_def scanJob_def redacted_row_def may_change_def)

lemma matches_visible: "job_matches lower f (visible_job u job) = job_matches lower f job"
  by (simp add: job_matches_def visible_job_def)

lemma insert_by_map: "(\<And>x y. lt (f x) (f y) = lt' x y) \<Longrightarrow> insert_by lt (f x) (map f ys) = map f (insert_by lt' x ys)"
  by (induction ys) simp_all

lemma sort_slice_map: "(\<And>x y. lt (f x) (f y) = lt' x y) \<Longrightarrow> sort_slice lt (map f xs) = map f (sort_slice lt' xs)"
  by (induction xs) (simp_all add: sort_slice_def insert_by_map)

lemma filter_map_commute: "(\<And>x. P (f x) = P x) \<Longrightarrow> filter P (map f xs) = map f (filter P xs)"
  by (induction xs) simp_all

lemma listing_of_redacted:
  "map (visible_job u) (filter (job_matches lower f) (ListJobs False d)) =
   filter (job_matches lower f) (map scanJob (sort_slice (\<lambda>a b. stamp_less (jr_created_at b) (jr_created_at a))
     (filter (\<lambda>r. jr_status r \<noteq> JobDeleted) (map (redacted_row u) (tbl_jobs d)))))"
proof -
  have "map (visible_job u) (filter (job_matches lower f) (ListJobs False d)) =
      filter (job_matches lower f) (map (visible_job u) (ListJobs False d))"
    by (simp add: filter_map_commute matches_visible)
  also have "map (visible_job u) (ListJobs False d) =
      map scanJob (map (redacted_row u) (sort_slice (\<lambda>a b. stamp_less (jr_created_at b) (jr_created_at a))
        (filter (\<lambda>r. jr_status r \<noteq> JobDeleted) (tbl_jobs d))))"
    by (simp add: ListJobs_def visible_scan)
  also have "\<dots> = map scanJob (sort_slice (\<lambda>a b. stamp_less (jr_created_at b) (jr_created_at a))
        (filter (\<lambda>r. jr_status r \<noteq> JobDeleted) (map (redacted_row u) (tbl_jobs d))))"
    by (simp add: filter_map_commute sort_slice_map
        [where lt = "\<lambda>a b. stamp_less (jr_created_at b) (jr_created_at a)" and f = "redacted_row u"
          and lt' = "\<lambda>a b. stamp_less (jr_created_at b) (jr_created_at a)"])
  finally show ?thesis .
qed

lemma authorize_of_redacted:
  assumes "map (redacted_row u) (tbl_jobs (api_db s)) = map (redacted_row u) (tbl_jobs (api_db t))"
  shows "authorizeJob u i s = authorizeJob u i t"
proof -
  have f: "find (\<lambda>r. jr_id r = i) (map (redacted_row u) xs) = map_option (redacted_row u) (find (\<lambda>r. jr_id r = i) xs)" for xs
    by (induction xs) simp_all
  have eq: "map_option (redacted_row u) (job_row i (api_db s)) = map_option (redacted_row u) (job_row i (api_db t))"
    unfolding job_row_def f [symmetric] assms by (rule refl)
  have "authorizeJob u i s = (case map_option (redacted_row u) (job_row i (api_db s)) of
      None \<Rightarrow> Inl (refuse (writeStoreError ErrNotFound))
    | Some r \<Rightarrow> if may_change u r then Inr (scanJob r) else Inl (refuse (writeProblem 403 ''forbidden'')))" for s
    by (auto simp: authorizeJob_def Job_def may_change_def redacted_row_def scanJob_def split: option.splits)
  from this [of s] this [of t] eq show ?thesis by simp
qed

text \<open>C32: What a user gets from the list of jobs and from a single job depends on the jobs of other users only
  through their redacted rows (no administrator): two databases that differ in the specifications of others,
  apart from the job names, or in their failure reasons give the same answers.\<close>

theorem members_see_redacted_jobs:
  assumes "map (redacted_row user) (tbl_jobs (api_db s)) = map (redacted_row user) (tbl_jobs (api_db t))"
    "\<not> mutates e"
  shows "fst (handle e now user rq s) = fst (handle e now user rq t)"
  using assms
proof (cases e)
  case (GetJobs lower f)
  then show ?thesis using assms(1) by (simp add: handle_def listJobs_def listing_of_redacted)
next
  case (GetJob i)
  then show ?thesis
    using authorize_of_redacted [OF assms(1), of i] by (auto simp: handle_def getJob_def split: sum.splits)
qed (simp_all add: mutates_def)

section \<open>The login limit\<close>





lemma attempts_set [simp]:
  "attempts_of (api_logins (set_attempts c ts s)) d = (if d = c then ts else attempts_of (api_logins s) d)"
proof -
  have "map_of (filter (\<lambda>(r, _). r \<noteq> c) m) d = (if d = c then None else map_of m d)" for m :: "gotime list gomap"
    by (induction m) auto
  then show ?thesis by (simp add: set_attempts_def attempts_of_def)
qed


lemma audit_logins [simp]: "api_logins (audit u act ty i m now s) = api_logins s"
  by (simp add: audit_def)







section \<open>Secrets and passwords\<close>

lemma assignment_secrets_values:
  "assignment_secrets box owner acc rs m = Inr m' \<Longrightarrow>
   (if n \<in> ref_Name ` set rs
    then \<exists>v. open_secret box ''secret_unavailable'' owner n acc = Inr v \<and> map_of m' n = Some v
    else map_of m' n = map_of m n)"
proof (induction rs arbitrary: m)
  case (Cons r rs)
  have f: "map_of (filter (\<lambda>(k, _). k \<noteq> x) m) n = (if n = x then None else map_of m n)" for x and m :: "string gomap"
    by (induction m) auto
  from Cons.prems obtain v where v: "open_secret box ''secret_unavailable'' owner (ref_Name r) acc = Inr v"
    "assignment_secrets box owner acc rs ((ref_Name r, v) # filter (\<lambda>(k, _). k \<noteq> ref_Name r) m) = Inr m'"
    by (auto split: sum.splits)
  from Cons.IH [OF v(2)] v(1) show ?case by (cases "n \<in> ref_Name ` set rs") (auto simp: f)
qed simp

lemma complete_assignment_secrets:
  "complete_assignment box nodeID a now s = (Inr a', s') \<Longrightarrow>
   asg_Spec a' = asg_Spec a \<and> asg_JobID a' = asg_JobID a \<and>
   assignment_secrets box (owner_of (asg_JobID a) (api_db s)) (api_accounts s) (spec_SecretRefs (asg_Spec a)) [] =
     Inr (asg_Secrets a')"
  by (auto simp: complete_assignment_def Let_def split: option.splits prod.splits sum.splits)

lemma AssignmentForNode_owner: "owner_of j (snd (AssignmentForNode nodeID now d)) = owner_of j d"
  by (auto simp: AssignmentForNode_def owner_of_def Job_def job_row_def split: list.splits option.splits)

lemma polled_secrets:
  assumes "poll_assignment box nodeID expired now s = (Some (Inr w), s')" "aw_assignment w = Some asg"
  shows "assignment_secrets box (owner_of (asg_JobID asg) (api_db s)) (api_accounts s)
    (spec_SecretRefs (asg_Spec asg)) [] = Inr (asg_Secrets asg)"
proof -
  let ?s = "s\<lparr>api_db := snd (AssignmentForNode nodeID now (api_db s))\<rparr>"
  obtain a where "complete_assignment box nodeID a now ?s = (Inr asg, s')"
    using assms by (auto simp: poll_assignment_def Let_def split: prod.splits sum.splits if_splits)
  from complete_assignment_secrets [OF this] show ?thesis by (simp add: AssignmentForNode_owner)
qed

text \<open>C33: The secrets an agent receives with an assignment are those of the owner of the job: exactly the names
  the specification refers to, and for a name under which the owner has stored a value, and whose row is still
  there, that value. This rests on the decryption of AES-GCM undoing its encryption.\<close>

theorem assigned_secrets_are_the_owners:
  assumes aead: "\<And>n p d. aead_open box n (aead_seal box n p d) d = Some p"
    and nonce: "length nonce = 12"
    and stored: "createSecret box registry (Some b) i nonce t0 user rq s = (a, s1)" "accepted a"
    and kept: "SecretCiphertext (user_ID user) (TrimSpace (sb_Name b)) (api_accounts s2) =
      SecretCiphertext (user_ID user) (TrimSpace (sb_Name b)) (api_accounts s1)"
    and polled: "poll_assignment box nodeID expired now s2 = (Some (Inr w), s3)" "aw_assignment w = Some asg"
    and owner: "owner_of (asg_JobID asg) (api_db s2) = user_ID user"
  shows "dom (map_of (asg_Secrets asg)) = ref_Name ` set (spec_SecretRefs (asg_Spec asg)) \<and>
    (TrimSpace (sb_Name b) \<in> ref_Name ` set (spec_SecretRefs (asg_Spec asg)) \<longrightarrow>
      map_of (asg_Secrets asg) (TrimSpace (sb_Name b)) = Some (sb_Value b))"
proof -
  let ?n = "TrimSpace (sb_Name b)" let ?u = "user_ID user"
  from stored have "SecretCiphertext ?u ?n (api_accounts s1) =
      Inr (Encrypt box nonce (sb_Value b) (?u @ ''/'' @ ?n), secret_kind b)"
  proof -
    have "find P xs = None \<Longrightarrow> P x \<Longrightarrow> find P (xs @ [x]) = Some x" for P and x :: SecretRow and xs
      by (induction xs) (auto split: if_splits)
    then show ?thesis
      using stored
      by (auto simp: createSecret_def CreateSecret_def SecretCiphertext_def Let_def audit_def Audit_def AuditWithLabels_def
          has_row_iff find_None_iff split: if_splits)
  qed
  then have known: "open_secret box e ?u ?n (api_accounts s2) = Inr (sb_Value b)" for e
    using kept nonce aead by (simp add: open_secret_def Encrypt_def Decrypt_def)
  have secrets: "assignment_secrets box ?u (api_accounts s2) (spec_SecretRefs (asg_Spec asg)) [] = Inr (asg_Secrets asg)"
    using polled_secrets [OF polled] owner by simp
  have dom: "x \<in> dom (map_of (asg_Secrets asg)) \<longleftrightarrow> x \<in> ref_Name ` set (spec_SecretRefs (asg_Spec asg))" for x
    using assignment_secrets_values [OF secrets, of x] by (auto split: if_splits)
  have "?n \<in> ref_Name ` set (spec_SecretRefs (asg_Spec asg)) \<Longrightarrow> map_of (asg_Secrets asg) ?n = Some (sb_Value b)"
    using assignment_secrets_values [OF secrets, of ?n] known by auto
  then show ?thesis using dom by blast
qed

text \<open>A stored password verifies exactly for the passwords Argon2 gives the same key with its salt, so the
  password itself always does: the encoding of the salt, the parameters and the key is read back as it was
  written.\<close>

theorem stored_password_verifies:
  assumes "length (idkey password salt 3 65536 2 32) = 32" "HashPassword idkey salt password = Some encoded"
  shows "VerifyPassword idkey encoded attempt \<longleftrightarrow>
    idkey attempt salt 3 65536 2 32 = idkey password salt 3 65536 2 32"
  using assms by (rule verify_stored)

definition toy_key :: argon2 where
  "toy_key = (\<lambda>p s t m th n. take n (p @ replicate n (CHR ''x'')))"

theorem stored_password_verifies_witness:
  "VerifyPassword toy_key (the (HashPassword toy_key ''0123456789abcdef'' ''correct horse'')) ''correct horse'' \<and>
   \<not> VerifyPassword toy_key (the (HashPassword toy_key ''0123456789abcdef'' ''correct horse'')) ''battery''"
  using stored_password_verifies [of toy_key "''correct horse''" "''0123456789abcdef''"
      "the (HashPassword toy_key ''0123456789abcdef'' ''correct horse'')"]
  by (simp add: toy_key_def HashPassword_def)

section \<open>A member, her session and her job\<close>

definition alice :: User where
  "alice = new_user ''u1'' ''alice'' RoleMember 0"

definition alice_accounts :: accounts where
  "alice_accounts = empty_accounts\<lparr>acc_users := [new_user_row alice ''''],
     acc_sessions := [\<lparr>ses_token_hash = TokenHash ''cookie'', ses_user_id = ''u1'', ses_csrf_token = ''csrf'',
       ses_expires_at = formatTime 5000000000, ses_created_at = formatTime 0\<rparr>]\<rparr>"

definition job_row_of :: "string \<Rightarrow> string \<Rightarrow> JobSpec \<Rightarrow> JobRow" where
  "job_row_of i owner spec = hd (tbl_jobs (snd (CreateJob (new_job i owner spec 0) empty_db)))"

definition alice_db :: db where
  "alice_db = empty_db\<lparr>tbl_jobs := [job_row_of ''j1'' ''u1'' sample_spec, job_row_of ''j2'' ''u2'' sample_spec]\<rparr>"

definition small_fs :: fs where
  "small_fs = [([], Dir), ([''jobs''], Dir), ([''builds''], Dir)]"

definition alice_api :: api where
  "alice_api = \<lparr>api_db = alice_db, api_files = small_fs,
     api_accounts = alice_accounts, api_logins = []\<rparr>"

definition alice_request :: request where
  "alice_request = \<lparr>rq_method = ''POST'', rq_path = ''/api/v1/jobs/j1/stop'', rq_cookie = Some ''cookie'',
     rq_authorization = '''', rq_csrf = ''csrf'', rq_protocol = '''', rq_key = ''0123456789abcdef''\<rparr>"

lemma job_row_of_simps [simp]:
  "jr_id (job_row_of i u spec) = i" "jr_owner_id (job_row_of i u spec) = u" "jr_spec (job_row_of i u spec) = spec"
  "jr_status (job_row_of i u spec) = JobQueued" "jr_attempt_id (job_row_of i u spec) = None"
  "jr_failure_reason (job_row_of i u spec) = ''''" "jr_created_at (job_row_of i u spec) = formatTime 0"
  by (simp_all add: job_row_of_def CreateJob_def new_job_def empty_db_def has_row_def)

lemma scan_job_row_of [simp]:
  "job_ID (scanJob (job_row_of i u spec)) = i" "job_OwnerID (scanJob (job_row_of i u spec)) = u"
  "job_Status (scanJob (job_row_of i u spec)) = JobQueued"
  by (simp_all add: scanJob_def)



lemma alice_job: "authorizeJob alice ''j1'' alice_api = Inr (scanJob (job_row_of ''j1'' ''u1'' sample_spec))"
  by (simp add: authorizeJob_def Job_def job_row_def alice_api_def alice_db_def alice_def new_user_def)

definition alice_claimed :: api where
  "alice_claimed = snd (beginIdempotency alice_request ''u1'' 0 alice_api)"

lemma alice_claim: "beginIdempotency alice_request ''u1'' 0 alice_api = (Inr (), alice_claimed)"
  by (simp add: alice_claimed_def beginIdempotency_def alice_request_def ClaimIdempotency_def key_row_def
      alice_api_def alice_accounts_def empty_accounts_def user_row_def new_user_row_def alice_def new_user_def)

definition stopped_row :: "JobRow \<Rightarrow> JobRow" where
  "stopped_row r = r\<lparr>jr_status := JobCancelled, jr_desired_status := JobCancelled,
     jr_observed_status := JobCancelled, jr_finished_at := Some (formatTime 0), jr_version := jr_version r + 1\<rparr>"

lemma alice_stops:
  "RequestStop id ''j1'' 0 alice_db = (Inr (), alice_db\<lparr>tbl_jobs :=
     [stopped_row (job_row_of ''j1'' ''u1'' sample_spec), job_row_of ''j2'' ''u2'' sample_spec]\<rparr>)"
  by (simp add: RequestStop_def Job_def job_row_def alice_db_def stopped_row_def)

lemma alice_handles:
  "fst (handle (PostStop ''j1'') 0 alice alice_request alice_api) = answer 202 (StatusBody ''STOPPING'')"
  "job_row ''j1'' (api_db (snd (handle (PostStop ''j1'') 0 alice alice_request alice_api))) =
     Some (stopped_row (job_row_of ''j1'' ''u1'' sample_spec))"
proof -
  have d: "api_db alice_claimed = alice_db" using begin_keeps [OF alice_claim] by (simp add: alice_api_def)
  have u: "user_ID alice = ''u1''" by (simp add: alice_def new_user_def)
  let ?t = "audit ''u1'' ''job.stop'' ''job'' ''j1'' [] 0 (alice_claimed\<lparr>api_db := snd (AppendServerEvent ''j1''
     ''stop_requested'' [] 0 (alice_db\<lparr>tbl_jobs := [stopped_row (job_row_of ''j1'' ''u1'' sample_spec),
       job_row_of ''j2'' ''u2'' sample_spec]\<rparr>))\<rparr>)"
  have h: "handle (PostStop ''j1'') 0 alice alice_request alice_api =
      idem_write alice_request ''u1'' 202 (StatusBody ''STOPPING'') ?t"
    by (simp add: handle_def stopJob_def alice_job u alice_claim d alice_stops Let_def)
  then show "fst (handle (PostStop ''j1'') 0 alice alice_request alice_api) = answer 202 (StatusBody ''STOPPING'')"
    by (simp add: idem_write_def)
  have "api_db (snd (handle (PostStop ''j1'') 0 alice alice_request alice_api)) = api_db ?t"
    unfolding h by (metis prod.collapse write_keeps)
  then show "job_row ''j1'' (api_db (snd (handle (PostStop ''j1'') 0 alice alice_request alice_api))) =
      Some (stopped_row (job_row_of ''j1'' ''u1'' sample_spec))"
    by (simp add: event_rows) (simp add: job_row_def stopped_row_def)
qed


theorem repeated_requests_replay_witness:
  "let (a, s) = handle (PostStop ''j1'') 0 alice alice_request alice_api
   in ans_body a = StatusBody ''STOPPING'' \<and> handle (PostStop ''j1'') 1 alice alice_request s = (replay a, s)"
proof -
  let ?h = "handle (PostStop ''j1'') 0 alice alice_request alice_api"
  have alice_key: "rq_key alice_request \<noteq> ''''" by (simp add: alice_request_def)
  have ok: "is_ok (authorizeJob alice ''j1'' (snd ?h))"
    using alice_handles(2) by (simp add: authorizeJob_def Job_def scanJob_def stopped_row_def alice_def new_user_def)
  have "handle (PostStop ''j1'') 1 alice alice_request (snd ?h) = (replay (fst ?h), snd ?h)"
    by (rule repeated_requests_replay [OF surjective_pairing])
      (use ok alice_key in \<open>auto simp: alice_handles(1) mutates_def\<close>)
  then show ?thesis by (simp add: case_prod_unfold alice_handles(1) answer_def)
qed






definition all_jobs :: job_filter where
  "all_jobs = \<lparr>jf_status = '''', jf_node = '''', jf_owner = '''', jf_name = ''''\<rparr>"

theorem members_see_redacted_jobs_witness:
  "let other = alice_api\<lparr>api_db := alice_db\<lparr>tbl_jobs := [job_row_of ''j1'' ''u1'' sample_spec,
         job_row_of ''j2'' ''u2'' (sample_spec\<lparr>spec_Image := ''secret'', spec_Command := [''x'']\<rparr>)]\<rparr>\<rparr>
   in api_db other \<noteq> api_db alice_api \<and>
      fst (handle (GetJobs to_lower all_jobs) 0 alice alice_request alice_api) =
      fst (handle (GetJobs to_lower all_jobs) 0 alice alice_request other)"
proof -
  let ?other = "alice_api\<lparr>api_db := alice_db\<lparr>tbl_jobs := [job_row_of ''j1'' ''u1'' sample_spec,
         job_row_of ''j2'' ''u2'' (sample_spec\<lparr>spec_Image := ''secret'', spec_Command := [''x'']\<rparr>)]\<rparr>\<rparr>"
  have m: "\<not> may_change alice (job_row_of ''j2'' ''u2'' spec)" for spec
    by (simp add: may_change_def alice_def new_user_def)
  have r: "redacted_row alice (job_row_of ''j2'' ''u2'' spec) =
      (job_row_of ''j2'' ''u2'' (empty_spec\<lparr>spec_Name := spec_Name spec\<rparr>))" for spec
    unfolding redacted_row_def by (simp add: m) (simp add: job_row_of_def CreateJob_def new_job_def empty_db_def has_row_def)
  have "map (redacted_row alice) (tbl_jobs (api_db alice_api)) = map (redacted_row alice) (tbl_jobs (api_db ?other))"
    by (simp add: alice_api_def alice_db_def r)
  from members_see_redacted_jobs [OF this, of "GetJobs to_lower all_jobs" 0 alice_request]
  have "fst (handle (GetJobs to_lower all_jobs) 0 alice alice_request alice_api) =
      fst (handle (GetJobs to_lower all_jobs) 0 alice alice_request ?other)" by (simp add: mutates_def)
  moreover have "api_db ?other \<noteq> api_db alice_api"
  proof
    assume "api_db ?other = api_db alice_api"
    then have "map (spec_Image \<circ> jr_spec) (tbl_jobs (api_db ?other)) = map (spec_Image \<circ> jr_spec) (tbl_jobs (api_db alice_api))"
      by simp
    then show False by (simp add: alice_api_def alice_db_def sample_spec_def)
  qed
  ultimately show ?thesis by (simp add: Let_def)
qed




text \<open>A box that does not hide anything, but opens what it sealed.\<close>

definition open_box :: aead where
  "open_box = \<lparr>aead_seal = (\<lambda>n p d. p), aead_open = (\<lambda>n c d. Some c)\<rparr>"

definition secret_spec :: JobSpec where
  "secret_spec = empty_spec\<lparr>spec_Name := ''train'', spec_Image := ''img'',
     spec_SecretRefs := [\<lparr>ref_Name = ''KEY'', ref_Target = ''KEY'', ref_Mode = ''env''\<rparr>]\<rparr>"

definition secret_db :: db where
  "secret_db = empty_db\<lparr>
     tbl_jobs := [(job_row_of ''j1'' ''u1'' secret_spec)\<lparr>jr_status := JobAssigned, jr_assigned_node_id := Some ''n1'',
       jr_attempt_id := Some ''a1''\<rparr>],
     tbl_assignments := [\<lparr>as_id = ''s1'', as_job_id = ''j1'', as_attempt_id = ''a1'', as_node_id = ''n1'',
       as_gpu_uuids = [], as_job_token_ciphertext = ''0123456789abtoken'', as_delivered_at = None,
       as_accepted_at = None, as_created_at = formatTime 0, as_cpu_package_id = '''', as_cpu_set = ''''\<rparr>]\<rparr>"

definition secret_request :: secret_body where
  "secret_request = \<lparr>sb_Name = ''KEY'', sb_Value = ''value'', sb_Kind = ''''\<rparr>"

definition stored_secret :: "answer \<times> api" where
  "stored_secret = createSecret open_box (\<lambda>_. None) (Some secret_request) ''x'' ''0123456789ab'' 0 alice alice_request
     (alice_api\<lparr>api_db := secret_db\<rparr>)"

lemma key_trimmed: "TrimSpace ''KEY'' = ''KEY''"
  by code_simp

lemma secret_stored:
  "fst stored_secret = answer 201 NoBody" "api_db (snd stored_secret) = secret_db"
  "SecretCiphertext ''u1'' ''KEY'' (api_accounts (snd stored_secret)) = Inr (''0123456789abvalue'', ''generic'')"
  by (simp_all add: stored_secret_def createSecret_def secret_request_def key_trimmed Let_def secret_kind_def
      CreateSecret_def alice_api_def alice_accounts_def empty_accounts_def has_row_def user_row_def new_user_row_def
      alice_def new_user_def audit_def Audit_def AuditWithLabels_def SecretCiphertext_def Encrypt_def open_box_def)

lemma secret_polled:
  obtains w asg s' where "poll_assignment open_box ''n1'' False 0 (snd stored_secret) = (Some (Inr w), s')"
    "aw_assignment w = Some asg" "asg_JobID asg = ''j1''" "asg_Spec asg = secret_spec"
proof -
  have r: "ParseManagedArtifactReference ''img'' = NotManaged" by code_simp
  have v: "open_secret open_box e ''u1'' ''KEY'' (api_accounts (snd stored_secret)) = Inr ''value''" for e
    by (simp add: open_secret_def secret_stored Decrypt_def open_box_def)
  show thesis
    using that
    by (simp add: poll_assignment_def secret_stored AssignmentForNode_def secret_db_def empty_db_def
        assignment_pending_def job_row_def order_by_def sort_slice_def complete_assignment_def Decrypt_def open_box_def
        owner_of_def Job_def scanJob_def assigned_image_def r secret_spec_def empty_spec_def registry_credential_def
        v [unfolded open_box_def] Let_def)
qed

theorem assigned_secrets_are_the_owners_witness:
  "\<exists>w asg s'. poll_assignment open_box ''n1'' False 0 (snd stored_secret) = (Some (Inr w), s') \<and>
     aw_assignment w = Some asg \<and> map_of (asg_Secrets asg) ''KEY'' = Some ''value''"
proof -
  obtain w asg s' where p: "poll_assignment open_box ''n1'' False 0 (snd stored_secret) = (Some (Inr w), s')"
    "aw_assignment w = Some asg" "asg_JobID asg = ''j1''" "asg_Spec asg = secret_spec" by (rule secret_polled)
  have o: "owner_of ''j1'' secret_db = user_ID alice"
    by (simp add: owner_of_def Job_def secret_db_def job_row_def scanJob_def alice_def new_user_def)
  have c: "createSecret open_box (\<lambda>_. None) (Some secret_request) ''x'' ''0123456789ab'' 0 alice alice_request
     (alice_api\<lparr>api_db := secret_db\<rparr>) = (fst stored_secret, snd stored_secret)"
    by (simp only: stored_secret_def [symmetric] prod.collapse)
  have "dom (map_of (asg_Secrets asg)) = ref_Name ` set (spec_SecretRefs (asg_Spec asg)) \<and>
    (TrimSpace (sb_Name secret_request) \<in> ref_Name ` set (spec_SecretRefs (asg_Spec asg)) \<longrightarrow>
      map_of (asg_Secrets asg) (TrimSpace (sb_Name secret_request)) = Some (sb_Value secret_request))"
    by (rule assigned_secrets_are_the_owners [OF _ _ c _ refl p(1,2)])
      (simp_all add: open_box_def secret_stored(1,2) p(3) o)
  then show ?thesis using p by (auto simp: secret_request_def key_trimmed secret_spec_def)
qed

end
