(* ===== verification/BuildApi.thy ===== *)
theory BuildApi
  imports Access AgentInputs
begin

text \<open>
  The handlers of source builds: those of users (\<^verbatim>\<open>internal/httpapi/builds.go\<close>), those of builders
  (\<^verbatim>\<open>internal/httpapi/builder.go\<close>), the download of an image by an agent (\<^verbatim>\<open>managed_artifacts.go\<close>), and the
  collection of old images (\<^verbatim>\<open>maintainManagedArtifacts\<close> of \<^verbatim>\<open>cmd/jobdock-server/main.go\<close>). The answer of \<^verbatim>\<open>putBuildLog\<close> to a
  builder has no body of interest: its \<open>TextBody\<close> is the header \<^verbatim>\<open>X-JobDock-Next-Offset\<close>. That of \<^verbatim>\<open>getBuildLogs\<close> is the text,
  and the offset is the component \<open>rep_next\<close>. A body above the limit of \<^verbatim>\<open>MaxBytesReader\<close> is a reader that fails.
\<close>

record build_config = builder_config +
  BuilderLease :: int
  MaxBuildArtifactBytes :: int
  FileLimits :: file_config

section \<open>Creating a build\<close>

text \<open>The field ``metadata'' as its JSON decoder gives it; unknown fields are an error.\<close>

record build_metadata =
  bmd_Name :: string
  bmd_Mode :: BuildMode
  bmd_ContextPath :: string
  bmd_DockerfilePath :: string

type_synonym metadata_decoder = "string \<Rightarrow> build_metadata option"

text \<open>A part as \<^verbatim>\<open>mime/multipart\<close> delivers it: form name, file name, content; or the error of \<^verbatim>\<open>NextPart\<close>.\<close>

datatype build_part = BuildPart string string reader | BuildPartError

definition metadata_part :: "metadata_decoder \<Rightarrow> reader \<Rightarrow> reply + build_metadata" where
  "metadata_part decode r =
     (let r = LimitReader r 65537
      in if rd_fails r \<or> 65536 < length (rd_data r) then Inl (writeProblem 400 ''invalid_build_metadata'')
         else (case decode (rd_data r) of
            None \<Rightarrow> Inl (writeProblem 400 ''invalid_build_metadata'') | Some m \<Rightarrow> Inr m))"

fun build_parts ::
  "file_config \<Rightarrow> metadata_decoder \<Rightarrow> string \<Rightarrow> build_part list \<Rightarrow> build_metadata option \<Rightarrow> BuildSource option \<Rightarrow> fs \<Rightarrow>
   (reply + build_metadata \<times> BuildSource) \<times> fs" where
  "build_parts cfg decode buildID [] metadata source fs =
     ((case (metadata, source) of
         (Some m, Some s) \<Rightarrow> Inr (m, s)
       | _ \<Rightarrow> Inl (writeProblem 422 ''invalid_build'')), fs)"
| "build_parts cfg decode buildID (BuildPartError # parts) metadata source fs =
     (Inl (writeProblem 400 ''invalid_multipart''), fs)"
| "build_parts cfg decode buildID (BuildPart name filename content # parts) metadata source fs =
     (if name = ''metadata'' then
        (if metadata \<noteq> None then (Inl (writeProblem 422 ''invalid_build''), fs)
         else (case metadata_part decode content of
            Inl r \<Rightarrow> (Inl r, fs)
          | Inr m \<Rightarrow> build_parts cfg decode buildID parts (Some m) source fs))
      else if name = ''source'' then
        (if source \<noteq> None \<or> filename = '''' then (Inl (writeProblem 422 ''invalid_build_source''), fs)
         else (case StoreBuildSource cfg buildID filename content fs of
            (Inl e, fs) \<Rightarrow>
              (Inl (if e = ErrLimitExceeded then writeProblem 413 ''build_source_limit_exceeded''
                    else writeProblem 422 ''invalid_build_source''), fs)
          | (Inr m, fs) \<Rightarrow>
              build_parts cfg decode buildID parts metadata
                (Some \<lparr>src_Filename = bsm_Filename m, src_Size = bsm_Size m, src_SHA256 = bsm_SHA256 m\<rparr>) fs))
      else (Inl (writeProblem 422 ''invalid_build''), fs))"

definition new_build :: "string \<Rightarrow> string \<Rightarrow> build_metadata \<Rightarrow> BuildSource \<Rightarrow> gotime \<Rightarrow> Build" where
  "new_build buildID ownerID m source now =
     (let contextPath = TrimSpace (bmd_ContextPath m); dockerfilePath = TrimSpace (bmd_DockerfilePath m);
          defaulted = (\<lambda>path default. if bmd_Mode m = BuildModeDockerfile \<and> path = '''' then default else path)
      in \<lparr>build_ID = buildID, build_OwnerID = ownerID, build_Name = TrimSpace (bmd_Name m),
          build_Mode = bmd_Mode m, build_Status = BuildCreated, build_Source = source,
          build_ContextPath = defaulted contextPath ''.'',
          build_DockerfilePath = defaulted dockerfilePath ''Dockerfile'',
          build_OCIDigest = '''', build_ArtifactReference = '''', build_ArtifactAvailable = False,
          build_FailureReason = '''', build_CreatedAt = now, build_StartedAt = None, build_FinishedAt = None,
          build_Version = 1\<rparr>)"

text \<open>\<^verbatim>\<open>fail\<close>: the key is released and the files of the build are removed.\<close>

definition fail_build :: "request \<Rightarrow> string \<Rightarrow> string \<Rightarrow> reply \<Rightarrow> api \<Rightarrow> answer \<times> api" where
  "fail_build rq userID buildID r s =
     (let s = idem_abort rq userID s
      in (refuse r, s\<lparr>api_files := snd (FileObjects.DeleteBuild buildID (api_files s))\<rparr>))"

text \<open>
  Railpack is a parameter: what it writes to the log, and its plan or its error. The project lies in
  the directory \<open>tmp\<close> of the build and is removed at the end; nothing is added to the archive formats.
\<close>

record analysis =
  an_Provider :: string
  an_Runtime :: string
  an_PackageManager :: string
  an_Entrypoint :: string
  an_RailpackVersion :: string
  an_Plan :: string
  an_Info :: string

record build_tools =
  bt_unzip :: "string \<Rightarrow> archive_entry list option"
  bt_untar :: "string \<Rightarrow> tar_item list option"
  bt_analyze :: "fs \<Rightarrow> fpath \<Rightarrow> string \<times> (string + analysis)"
  bt_tmp :: string
  bt_error :: "file_error \<Rightarrow> string"
  bt_store_error :: "store_error \<Rightarrow> string"

definition analysis_plan :: "string \<Rightarrow> analysis \<Rightarrow> gotime \<Rightarrow> BuildPlan" where
  "analysis_plan buildID a now = \<lparr>plan_BuildID = buildID, plan_Provider = an_Provider a, plan_Runtime = an_Runtime a,
     plan_PackageManager = an_PackageManager a, plan_Entrypoint = an_Entrypoint a,
     plan_RailpackVersion = an_RailpackVersion a, plan_Plan = an_Plan a, plan_Info = an_Info a,
     plan_CreatedAt = now, plan_ConfirmedAt = None\<rparr>"

text \<open>The build as the failure leaves it, or as it was when the failure cannot be stored.\<close>

definition fail_analysis :: "Build \<Rightarrow> string \<Rightarrow> gotime \<Rightarrow> api \<Rightarrow> Build \<times> api" where
  "fail_analysis build message now s =
     (case UpdateBuildStatus (build_ID build) BuildFailed '''' message now (api_db s) of
        (Inl e, d) \<Rightarrow> (build, s\<lparr>api_db := d\<rparr>)
      | (Inr failed, d) \<Rightarrow> (failed, s\<lparr>api_db := d\<rparr>))"

definition analyzed :: "build_tools \<Rightarrow> file_config \<Rightarrow> Build \<Rightarrow> fpath \<Rightarrow> gotime \<Rightarrow> api \<Rightarrow> Build \<times> api" where
  "analyzed tools cfg build project now s =
     (let i = build_ID build; (logs, result) = bt_analyze tools (api_files s) project;
          s = (if logs = '''' then s
               else s\<lparr>api_files := snd (AppendBuildLog cfg i 0 \<lparr>rd_data = logs, rd_fails = False\<rparr> (api_files s))\<rparr>);
          (build, s) =
            (case result of
               Inl message \<Rightarrow> fail_analysis build message now s
             | Inr a \<Rightarrow>
                 (case SaveBuildPlan (analysis_plan i a now) (api_db s) of
                    (Inl e, d) \<Rightarrow>
                      fail_analysis build (''Unable to persist the Railpack build plan: '' @ bt_store_error tools e)
                        now (s\<lparr>api_db := d\<rparr>)
                  | (Inr _, d) \<Rightarrow> (build, s\<lparr>api_db := d\<rparr>)))
      in (build, s\<lparr>api_files := RemoveAll [''builds'', i, bt_tmp tools] (api_files s)\<rparr>))"

definition analyzeBuild :: "build_tools \<Rightarrow> file_config \<Rightarrow> Build \<Rightarrow> gotime \<Rightarrow> api \<Rightarrow> Build \<times> api" where
  "analyzeBuild tools cfg build now s =
     (case UpdateBuildStatus (build_ID build) BuildAnalyzing '''' ''Analyzing source with Railpack'' now (api_db s) of
        (Inl e, d) \<Rightarrow> (build, s\<lparr>api_db := d\<rparr>)
      | (Inr build, d) \<Rightarrow>
          let s = s\<lparr>api_db := d\<rparr> in
          (case PrepareBuildSource (bt_unzip tools) (bt_untar tools) cfg (build_ID build)
                  (src_Filename (build_Source build)) (bt_tmp tools) (api_files s) of
             (Inl e, fs) \<Rightarrow> fail_analysis build (bt_error tools e) now (s\<lparr>api_files := fs\<rparr>)
           | (Inr project, fs) \<Rightarrow> analyzed tools cfg build project now (s\<lparr>api_files := fs\<rparr>)))"

definition mode_text :: "BuildMode \<Rightarrow> string" where
  "mode_text m = (case m of BuildModeRailpack \<Rightarrow> ''railpack'' | BuildModeDockerfile \<Rightarrow> ''dockerfile''
     | BuildModeOther t \<Rightarrow> t)"

text \<open>\<open>parts\<close>: none when the body is no multipart body. \<open>buildID\<close> is the fresh id.\<close>

definition createBuild ::
  "build_config \<Rightarrow> build_tools \<Rightarrow> metadata_decoder \<Rightarrow> string \<Rightarrow> build_part list option \<Rightarrow> gotime \<Rightarrow> User \<Rightarrow> handler" where
  "createBuild cfg tools decode buildID parts now user rq s =
     (if \<not> sourceBuildsEnabled (builder_config.truncate cfg) then (refuse (writeProblem 503 ''source_builds_disabled''), s)
      else (case beginIdempotency rq (user_ID user) now s of
        (Inl a, s) \<Rightarrow> (a, s)
      | (Inr _, s) \<Rightarrow>
          (case parts of
             None \<Rightarrow> fail_build rq (user_ID user) buildID (writeProblem 415 ''multipart_required'') s
           | Some ps \<Rightarrow>
               (case build_parts (FileLimits cfg) decode buildID ps None None (api_files s) of
                  (Inl r, fs) \<Rightarrow> fail_build rq (user_ID user) buildID r (s\<lparr>api_files := fs\<rparr>)
                | (Inr (m, source), fs) \<Rightarrow>
                    let s = s\<lparr>api_files := fs\<rparr>; build = new_build buildID (user_ID user) m source now in
                    if \<not> is_ok (ValidateBuild build)
                    then fail_build rq (user_ID user) buildID (writeProblem 422 ''invalid_build'') s
                    else (case CreateBuild build (api_db s) of
                       (Inl e, d) \<Rightarrow> fail_build rq (user_ID user) buildID (writeStoreError e) (s\<lparr>api_db := d\<rparr>)
                     | (Inr _, d) \<Rightarrow>
                         let s = audit (user_ID user) ''build.create'' ''build'' buildID
                               [(''mode'', JStr (mode_text (build_Mode build))),
                                (''source_sha256'', JStr (src_SHA256 source))] now (s\<lparr>api_db := d\<rparr>);
                             (build, s) = (if build_Mode build = BuildModeRailpack
                               then analyzeBuild tools (FileLimits cfg) build now s else (build, s))
                         in idem_write rq (user_ID user) 201 (BuildBody build) s)))))"

section \<open>Builds of a user\<close>

definition authorizeBuild :: "User \<Rightarrow> string \<Rightarrow> api \<Rightarrow> answer + Build" where
  "authorizeBuild user buildID s =
     (case Build buildID (api_db s) of
        Inl e \<Rightarrow> Inl (refuse (writeStoreError e))
      | Inr build \<Rightarrow>
          if user_Role user \<noteq> RoleAdmin \<and> build_OwnerID build \<noteq> user_ID user
          then Inl (refuse (writeProblem 403 ''forbidden'')) else Inr build)"

definition listBuilds :: "User \<Rightarrow> handler" where
  "listBuilds user rq s =
     (answer 200 (BuildsBody (ListBuilds (if user_Role user = RoleAdmin then '''' else user_ID user) (api_db s))), s)"

definition getBuild :: "string \<Rightarrow> User \<Rightarrow> handler" where
  "getBuild buildID user rq s =
     (case authorizeBuild user buildID s of
        Inl a \<Rightarrow> (a, s) | Inr build \<Rightarrow> (answer 200 (BuildBody build), s))"

definition getBuildEvents :: "string \<Rightarrow> User \<Rightarrow> handler" where
  "getBuildEvents buildID user rq s =
     (case authorizeBuild user buildID s of
        Inl a \<Rightarrow> (a, s)
      | Inr build \<Rightarrow> (answer 200 (BuildEventsBody (BuildEvents (build_ID build) (api_db s))), s))"

definition getBuildPlan :: "string \<Rightarrow> User \<Rightarrow> handler" where
  "getBuildPlan buildID user rq s =
     (case authorizeBuild user buildID s of
        Inl a \<Rightarrow> (a, s)
      | Inr build \<Rightarrow>
          (case BuildPlan (build_ID build) (api_db s) of
             Inl e \<Rightarrow> (refuse (writeStoreError e), s)
           | Inr plan \<Rightarrow> (answer 200 (BuildPlanBody plan), s)))"

definition confirm_metadata :: "Build \<Rightarrow> BuildWork \<Rightarrow> json gomap" where
  "confirm_metadata build work =
     [(''mode'', JStr (mode_text (build_Mode build))), (''assignment_id'', JStr (basg_ID (work_Assignment work)))] @
     (case work_Plan work of
        None \<Rightarrow> []
      | Some p \<Rightarrow> [(''provider'', JStr (plan_Provider p)), (''railpack_version'', JStr (plan_RailpackVersion p))])"

definition confirmBuild :: "build_config \<Rightarrow> string \<Rightarrow> string \<Rightarrow> gotime \<Rightarrow> User \<Rightarrow> handler" where
  "confirmBuild cfg assignmentID buildID now user rq s =
     (case authorizeBuild user buildID s of
        Inl a \<Rightarrow> (a, s)
      | Inr build \<Rightarrow>
          (case beginIdempotency rq (user_ID user) now s of
             (Inl a, s) \<Rightarrow> (a, s)
           | (Inr _, s) \<Rightarrow>
               if \<not> sourceBuildsEnabled (builder_config.truncate cfg)
               then (refuse (writeProblem 503 ''builder_not_configured''), idem_abort rq (user_ID user) s)
               else (case QueueBuild (build_ID build) assignmentID now (api_db s) of
                  (Inl e, d) \<Rightarrow> (refuse (writeStoreError e), idem_abort rq (user_ID user) (s\<lparr>api_db := d\<rparr>))
                | (Inr work, d) \<Rightarrow>
                    idem_write rq (user_ID user) 202 (BuildBody (work_Build work))
                      (audit (user_ID user) ''build.confirm'' ''build'' (build_ID build)
                        (confirm_metadata build work) now (s\<lparr>api_db := d\<rparr>)))))"

text \<open>\<open>offset\<close> and \<open>limit\<close> are the texts of the query, empty when they are not given.\<close>

definition getBuildLogs :: "string \<Rightarrow> string \<Rightarrow> string \<Rightarrow> User \<Rightarrow> handler" where
  "getBuildLogs buildID offset limit user rq s =
     (case authorizeBuild user buildID s of
        Inl a \<Rightarrow> (a, s)
      | Inr build \<Rightarrow>
          let (off, offErr) = (if offset = '''' then (0, None) else ParseInt offset);
              (lim, limErr) = (if limit = '''' then (1048576, None) else ParseInt limit)
          in if offErr \<noteq> None \<or> off < 0 then (refuse (writeProblem 422 ''invalid_log_offset''), s)
             else if limErr \<noteq> None \<or> lim \<le> 0 \<or> 4194304 < lim
             then (refuse (writeProblem 422 ''invalid_log_limit''), s)
             else (case ReadBuildLogChunk (api_files s) (build_ID build) off lim of
                (data, n, Some e) \<Rightarrow> (refuse (writeProblem 500 ''build_log_unavailable''), s)
              | (data, n, None) \<Rightarrow> ((answer 200 (TextBody data))\<lparr>rep_next := n\<rparr>, s)))"

definition cancelBuild :: "string \<Rightarrow> gotime \<Rightarrow> User \<Rightarrow> handler" where
  "cancelBuild buildID now user rq s =
     (case authorizeBuild user buildID s of
        Inl a \<Rightarrow> (a, s)
      | Inr build \<Rightarrow>
          (case beginIdempotency rq (user_ID user) now s of
             (Inl a, s) \<Rightarrow> (a, s)
           | (Inr _, s) \<Rightarrow>
               (case (if build_Status build = BuildBuilding
                      then RequestBuildCancellation (build_ID build) now (api_db s)
                      else UpdateBuildStatus (build_ID build) BuildCancelled '''' ''Cancelled by user'' now (api_db s)) of
                  (Inl e, d) \<Rightarrow> (refuse (writeStoreError e), idem_abort rq (user_ID user) (s\<lparr>api_db := d\<rparr>))
                | (Inr updated, d) \<Rightarrow>
                    idem_write rq (user_ID user) 202 (BuildBody updated)
                      (audit (user_ID user) ''build.cancel'' ''build'' (build_ID build) [] now (s\<lparr>api_db := d\<rparr>)))))"

definition deleteBuild :: "string \<Rightarrow> gotime \<Rightarrow> User \<Rightarrow> handler" where
  "deleteBuild buildID now user rq s =
     (case authorizeBuild user buildID s of
        Inl a \<Rightarrow> (a, s)
      | Inr build \<Rightarrow>
          (case BuildStore.DeleteBuild (build_ID build) (api_db s) of
             (Inl e, d) \<Rightarrow> (refuse (writeStoreError e), s\<lparr>api_db := d\<rparr>)
           | (Inr _, d) \<Rightarrow>
               let fs = snd (FileObjects.DeleteBuild (build_ID build) (api_files s)) in
               (answer 204 NoBody,
                s\<lparr>api_db := d, api_files := fs,
                  api_accounts := AuditWithLabels d (user_ID user) (user_Username user) ''build.delete'' ''build''
                    (build_ID build) (build_Name build) [] now (api_accounts s)\<rparr>)))"

section \<open>Builders\<close>

text \<open>\<open>builder\<close> is the header \<^verbatim>\<open>X-JobDock-Builder-ID\<close>. \<open>withBuilder\<close> has checked the token of the builder.\<close>

definition requireBuilderID :: "string \<Rightarrow> answer + string" where
  "requireBuilderID builder =
     (let i = TrimSpace builder
      in if i = '''' \<or> 128 < length i then Inl (refuse (writeProblem 422 ''invalid_builder_id'')) else Inr i)"

definition authorizeBuildAssignment :: "string \<Rightarrow> string \<Rightarrow> api \<Rightarrow> answer + BuildAssignment" where
  "authorizeBuildAssignment builder i s =
     (case requireBuilderID builder of
        Inl a \<Rightarrow> Inl a
      | Inr builderID \<Rightarrow>
          (case BuildAssignment i (api_db s) of
             Inl e \<Rightarrow> Inl (refuse (writeStoreError e))
           | Inr assignment \<Rightarrow>
               if basg_BuilderID assignment \<noteq> builderID
               then Inl (refuse (writeProblem 403 ''builder_assignment_forbidden'')) else Inr assignment))"

definition nextBuildAssignment :: "build_config \<Rightarrow> string \<Rightarrow> gotime \<Rightarrow> api \<Rightarrow> answer \<times> api" where
  "nextBuildAssignment cfg builder now s =
     (case requireBuilderID builder of
        Inl a \<Rightarrow> (a, s)
      | Inr builderID \<Rightarrow>
          (case NextBuildWork builderID (BuilderLease cfg) now (api_db s) of
             (Inl e, d) \<Rightarrow>
               (if e = ErrNotFound then answer 204 NoBody else refuse (writeStoreError e), s\<lparr>api_db := d\<rparr>)
           | (Inr work, d) \<Rightarrow> (answer 200 (BuildWorkBody work), s\<lparr>api_db := d\<rparr>)))"

text \<open>The image: the digest and name in the headers, the content in the body.\<close>

definition published_artifact :: "Build \<Rightarrow> string \<Rightarrow> string \<Rightarrow> BuildArtifactMetadata \<Rightarrow> gotime \<Rightarrow> ManagedArtifact" where
  "published_artifact build digest runtimeImage m now = \<lparr>art_BuildID = build_ID build,
     art_OwnerID = build_OwnerID build, art_Digest = digest, art_SHA256 = bam_SHA256 m, art_Size = bam_Size m,
     art_MediaType = ManagedImageMediaType, art_RuntimeImage = runtimeImage, art_CreatedAt = now,
     art_LastReferencedAt = now\<rparr>"

definition save_artifact :: "ManagedArtifact \<Rightarrow> bool \<Rightarrow> api \<Rightarrow> answer \<times> api" where
  "save_artifact artifact created s =
     (case SaveManagedArtifact artifact (api_db s) of
        (Inl e, d) \<Rightarrow>
          (refuse (writeStoreError e),
           s\<lparr>api_db := d,
             api_files := (if created then snd (DeleteBuildArtifact (art_BuildID artifact) (api_files s))
                           else api_files s)\<rparr>)
      | (Inr _, d) \<Rightarrow> (answer (if created then 201 else 200) (ArtifactBody artifact), s\<lparr>api_db := d\<rparr>))"

definition putBuildArtifact ::
  "build_config \<Rightarrow> string \<Rightarrow> string \<Rightarrow> string \<Rightarrow> string \<Rightarrow> reader \<Rightarrow> gotime \<Rightarrow> api \<Rightarrow> answer \<times> api" where
  "putBuildArtifact cfg builder i digestHeader imageHeader content now s =
     (case authorizeBuildAssignment builder i s of
        Inl a \<Rightarrow> (a, s)
      | Inr assignment \<Rightarrow>
          (case Build (basg_BuildID assignment) (api_db s) of
             Inl e \<Rightarrow> (refuse (writeStoreError e), s)
           | Inr build \<Rightarrow>
               let digest = TrimSpace digestHeader; runtimeImage = TrimSpace imageHeader in
               if \<not> (case ParseManagedArtifactReference (ManagedArtifactReference (build_ID build) digest) of
                      ManagedReference b parsed \<Rightarrow> parsed = digest | _ \<Rightarrow> False)
               then (refuse (writeProblem 422 ''invalid_artifact_digest''), s)
               else if runtimeImage \<noteq> ''jobdock.local/managed/'' @ build_ID build @ '':artifact''
               then (refuse (writeProblem 422 ''invalid_runtime_image''), s)
               else (case StoreBuildArtifact (build_ID build) content (MaxBuildArtifactBytes cfg) (api_files s) of
                  (Inl e, fs) \<Rightarrow>
                    (refuse (if e = ErrLimitExceeded then writeProblem 413 ''build_artifact_limit_exceeded''
                             else writeProblem 500 ''build_artifact_unavailable''), s\<lparr>api_files := fs\<rparr>)
                | (Inr m, fs) \<Rightarrow>
                    save_artifact (published_artifact build digest runtimeImage m now) (bam_Created m)
                      (s\<lparr>api_files := fs\<rparr>))))"

definition getBuildAssignment :: "string \<Rightarrow> string \<Rightarrow> api \<Rightarrow> answer \<times> api" where
  "getBuildAssignment builder i s =
     (case authorizeBuildAssignment builder i s of
        Inl a \<Rightarrow> (a, s) | Inr assignment \<Rightarrow> (answer 200 (BuildAssignmentBody assignment), s))"

definition heartbeatBuildAssignment :: "build_config \<Rightarrow> string \<Rightarrow> string \<Rightarrow> gotime \<Rightarrow> api \<Rightarrow> answer \<times> api" where
  "heartbeatBuildAssignment cfg builder i now s =
     (case authorizeBuildAssignment builder i s of
        Inl a \<Rightarrow> (a, s)
      | Inr assignment \<Rightarrow>
          (case RenewBuildAssignment (basg_ID assignment) (basg_BuilderID assignment) (BuilderLease cfg) now (api_db s) of
             (Inl e, d) \<Rightarrow> (refuse (writeStoreError e), s\<lparr>api_db := d\<rparr>)
           | (Inr updated, d) \<Rightarrow> (answer 200 (BuildAssignmentBody updated), s\<lparr>api_db := d\<rparr>)))"

definition problem_answer :: "answer \<Rightarrow> download" where
  "problem_answer a = problem_download (reply.truncate a)"

definition getBuildSource :: "string \<Rightarrow> string \<Rightarrow> api \<Rightarrow> download" where
  "getBuildSource builder i s =
     (case authorizeBuildAssignment builder i s of
        Inl a \<Rightarrow> problem_answer a
      | Inr assignment \<Rightarrow>
          (case Build (basg_BuildID assignment) (api_db s) of
             Inl e \<Rightarrow> problem_download (writeStoreError e)
           | Inr build \<Rightarrow>
               (case OpenBuildSource (api_files s) (build_ID build) of
                  Inl e \<Rightarrow> problem_download (writeProblem 500 ''build_source_unavailable'')
                | Inr data \<Rightarrow>
                    \<lparr>dl_status = 200, dl_sha256 = src_SHA256 (build_Source build), dl_oci_digest = '''',
                     dl_length = src_Size (build_Source build),
                     dl_body = declared_body (src_Size (build_Source build)) data\<rparr>)))"

definition with_next :: "reply \<Rightarrow> int \<Rightarrow> answer" where
  "with_next r n = (refuse r)\<lparr>ans_body := TextBody (FormatInt n)\<rparr>"

definition putBuildLog :: "build_config \<Rightarrow> string \<Rightarrow> string \<Rightarrow> string \<Rightarrow> reader \<Rightarrow> api \<Rightarrow> answer \<times> api" where
  "putBuildLog cfg builder i offsetHeader content s =
     (case authorizeBuildAssignment builder i s of
        Inl a \<Rightarrow> (a, s)
      | Inr assignment \<Rightarrow>
          (case ParseInt offsetHeader of (offset, err) \<Rightarrow>
             if err \<noteq> None \<or> offset < 0 then (refuse (writeProblem 422 ''invalid_log_offset''), s)
             else (case AppendBuildLog (FileLimits cfg) (basg_BuildID assignment) offset
                          (LimitReader content 4194305) (api_files s) of
                ((n, None), fs) \<Rightarrow> (with_next no_content n, s\<lparr>api_files := fs\<rparr>)
              | ((n, Some e), fs) \<Rightarrow>
                  (if e = ErrOffsetMismatch then with_next (writeProblem 409 ''log_offset_mismatch'') n
                   else if e = ErrLimitExceeded then with_next (writeProblem 413 ''build_log_limit_exceeded'') n
                   else refuse (writeProblem 500 ''build_log_unavailable''), s\<lparr>api_files := fs\<rparr>))))"

text \<open>The body of a completion: status, digest and message, none when it is not the JSON asked for.\<close>

definition completeBuildAssignment ::
  "string \<Rightarrow> string \<Rightarrow> (BuildAssignmentStatus \<times> string \<times> string) option \<Rightarrow> gotime \<Rightarrow> api \<Rightarrow> answer \<times> api" where
  "completeBuildAssignment builder i content now s =
     (case authorizeBuildAssignment builder i s of
        Inl a \<Rightarrow> (a, s)
      | Inr assignment \<Rightarrow>
          (case content of
             None \<Rightarrow> (refuse (writeProblem 400 ''invalid_json''), s)
           | Some (status, digest, message) \<Rightarrow>
               (case CompleteBuildAssignment (basg_ID assignment) (basg_BuilderID assignment) status
                       (TrimSpace digest) (TrimSpace message) now (api_db s) of
                  (Inl e, d) \<Rightarrow> (refuse (writeStoreError e), s\<lparr>api_db := d\<rparr>)
                | (Inr build, d) \<Rightarrow> (answer 200 (BuildBody build), s\<lparr>api_db := d\<rparr>))))"

text \<open>The routes of builders, as \<^verbatim>\<open>Handler\<close> registers them; the download of the source changes nothing and is left out.\<close>

datatype builder_endpoint =
    PollBuild
  | GetBuildAssignment string
  | BuildHeartbeat string
  | BuildLog string string reader
  | BuildArtifact string string string reader
  | BuildCompletion string "(BuildAssignmentStatus \<times> string \<times> string) option"

definition builder_handle :: "build_config \<Rightarrow> string \<Rightarrow> builder_endpoint \<Rightarrow> gotime \<Rightarrow> api \<Rightarrow> answer \<times> api" where
  "builder_handle cfg builder e now =
     (case e of
        PollBuild \<Rightarrow> nextBuildAssignment cfg builder now
      | GetBuildAssignment i \<Rightarrow> getBuildAssignment builder i
      | BuildHeartbeat i \<Rightarrow> heartbeatBuildAssignment cfg builder i now
      | BuildLog i off content \<Rightarrow> putBuildLog cfg builder i off content
      | BuildArtifact i digest img content \<Rightarrow> putBuildArtifact cfg builder i digest img content now
      | BuildCompletion i content \<Rightarrow> completeBuildAssignment builder i content now)"

definition builder_route :: "build_config \<Rightarrow> string \<Rightarrow> builder_endpoint \<Rightarrow> gotime \<Rightarrow> handler" where
  "builder_route cfg builder e now =
     withBuilder (builder_config.truncate cfg) (\<lambda>rq. builder_handle cfg builder e now)"

section \<open>Images for agents\<close>

definition getManagedArtifact :: "string \<Rightarrow> string \<Rightarrow> gotime \<Rightarrow> api \<Rightarrow> download \<times> api" where
  "getManagedArtifact nodeID i now s =
     (case ManagedArtifactForAssignment i nodeID now (api_db s) of
        (Inl e, d) \<Rightarrow>
          (problem_download (if e = ErrNotFound then writeProblem 404 ''managed_artifact_not_found''
             else writeStoreError e), s\<lparr>api_db := d\<rparr>)
      | (Inr artifact, d) \<Rightarrow>
          (case OpenBuildArtifact (api_files s) (art_BuildID artifact) of
             Inl e \<Rightarrow> problem_download (writeProblem 500 ''managed_artifact_unavailable'')
           | Inr data \<Rightarrow>
               \<lparr>dl_status = 200, dl_sha256 = art_SHA256 artifact, dl_oci_digest = art_Digest artifact,
                dl_length = art_Size artifact, dl_body = declared_body (art_Size artifact) data\<rparr>,
           s\<lparr>api_db := d\<rparr>))"

text \<open>One round of \<^verbatim>\<open>maintainManagedArtifacts\<close>.\<close>

definition collect_images :: "gotime \<Rightarrow> api \<Rightarrow> api" where
  "collect_images before s =
     (case GarbageCollectManagedArtifacts before (api_db s) of
        (artifacts, d) \<Rightarrow>
          s\<lparr>api_db := d, api_files :=
            foldl (\<lambda>fs a. snd (DeleteBuildArtifact (art_BuildID a) fs)) (api_files s) artifacts\<rparr>)"

end
