(* ===== verification/BuildWorker.thy ===== *)
theory BuildWorker
  imports BuildApi
begin

text \<open>
  The builder: \<^verbatim>\<open>internal/builder/builder.go\<close> and its client \<^verbatim>\<open>client.go\<close>. What the other side of the network does with
  a request is a parameter, as are BuildKit and the archive formats. The goroutine that uploads the log
  runs beside the build: each of its rounds sees what was written to the log before, and whether the
  context of the build is done. A loop that may go on for ever gives \<open>None\<close> when it does.
\<close>

section \<open>The client\<close>

datatype build_error =
    NoAnswer
  | APIError string
  | WrongAnswer
  | FileError file_error
  | DigestHeaderMismatch
  | SourceSizeMismatch
  | SourceDigestMismatch
  | IdentityMismatch
  | DigestNotConfirmed
  | ExecutorError string

text \<open>What a server does with each request of the client, for an assignment where it names one.\<close>

record 's build_client =
  bc_next :: "'s \<Rightarrow> answer \<times> 's"
  bc_heartbeat :: "string \<Rightarrow> 's \<Rightarrow> answer \<times> 's"
  bc_source :: "string \<Rightarrow> 's \<Rightarrow> download"
  bc_log :: "string \<Rightarrow> int \<Rightarrow> string \<Rightarrow> 's \<Rightarrow> answer \<times> 's"
  bc_publish :: "string \<Rightarrow> string \<Rightarrow> string \<Rightarrow> string \<Rightarrow> 's \<Rightarrow> answer \<times> 's"
  bc_complete :: "string \<Rightarrow> BuildAssignmentStatus \<Rightarrow> string \<Rightarrow> string \<Rightarrow> 's \<Rightarrow> answer \<times> 's"

text \<open>\<^verbatim>\<open>client.json\<close>: the body of an answer with a status of the 200s.\<close>

definition client_json :: "('s \<Rightarrow> answer \<times> 's) \<Rightarrow> 's net \<Rightarrow> (build_error + body) \<times> 's net" where
  "client_json request net =
     (case http_do request net of
        (None, net) \<Rightarrow> (Inl NoAnswer, net)
      | (Some a, net) \<Rightarrow>
          (if rep_status a < 200 \<or> 300 \<le> rep_status a then Inl (APIError (rep_code a)) else Inr (ans_body a), net))"

definition client_next :: "'s build_client \<Rightarrow> 's net \<Rightarrow> (build_error + BuildWork option) \<times> 's net" where
  "client_next client net =
     (case http_do (bc_next client) net of
        (None, net) \<Rightarrow> (Inl NoAnswer, net)
      | (Some a, net) \<Rightarrow>
          (if rep_status a = 204 then Inr None
           else if rep_status a \<noteq> 200 then Inl (APIError (rep_code a))
           else (case ans_body a of BuildWorkBody w \<Rightarrow> Inr (Some w) | _ \<Rightarrow> Inl WrongAnswer), net))"

definition client_heartbeat :: "'s build_client \<Rightarrow> string \<Rightarrow> 's net \<Rightarrow> (build_error + BuildAssignment) \<times> 's net" where
  "client_heartbeat client i net =
     (case client_json (bc_heartbeat client i) net of
        (Inl e, net) \<Rightarrow> (Inl e, net)
      | (Inr (BuildAssignmentBody a), net) \<Rightarrow> (Inr a, net)
      | (Inr _, net) \<Rightarrow> (Inl WrongAnswer, net))"

text \<open>The temporary file is renamed when size and digest are right, and removed otherwise.\<close>

definition downloadSource ::
  "int \<Rightarrow> 's build_client \<Rightarrow> BuildWork \<Rightarrow> fs \<Rightarrow> 's net \<Rightarrow> build_error option \<times> fs \<times> 's net" where
  "downloadSource maxSourceBytes client work fs net =
     (let source = build_Source (work_Build work) in
      case http_get (bc_source client (basg_ID (work_Assignment work))) net of
        (None, net) \<Rightarrow> (Some NoAnswer, fs, net)
      | (Some r, net) \<Rightarrow>
          if dl_status r \<noteq> 200 then (Some (APIError ''''), fs, net)
          else if dl_sha256 r \<noteq> src_SHA256 source then (Some DigestHeaderMismatch, fs, net)
          else let body = LimitReader (dl_body r) (maxSourceBytes + 1) in
            if rd_fails body then (Some (FileError ReadFailed), fs, net)
            else if int (length (rd_data body)) \<noteq> src_Size source then (Some SourceSizeMismatch, fs, net)
            else if SHA256 (rd_data body) \<noteq> src_SHA256 source then (Some SourceDigestMismatch, fs, net)
            else (None, put (source_file (build_ID (work_Build work))) (Reg 384 (rd_data body)) fs, net))"

text \<open>The next offset, whether the offset was wrong, and the error.\<close>

definition uploadLog ::
  "(int \<Rightarrow> string \<Rightarrow> 's \<Rightarrow> answer \<times> 's) \<Rightarrow> int \<Rightarrow> string \<Rightarrow> 's net \<Rightarrow>
   (int \<times> bool \<times> build_error option) \<times> 's net" where
  "uploadLog send offset data net =
     (case http_do (send offset data) net of
        (None, net) \<Rightarrow> ((offset, False, Some NoAnswer), net)
      | (Some a, net) \<Rightarrow>
          let n = (case ans_body a of
                TextBody v \<Rightarrow> if v = '''' then i64 (offset + int (length data)) else fst (ParseInt v)
              | _ \<Rightarrow> i64 (offset + int (length data)))
          in (if rep_status a = 409 then (n, True, None)
              else if rep_status a \<noteq> 204 then (offset, False, Some (APIError (rep_code a)))
              else (n, False, None), net))"

definition discoverLogOffset ::
  "(int \<Rightarrow> string \<Rightarrow> 's \<Rightarrow> answer \<times> 's) \<Rightarrow> 's net \<Rightarrow> (int \<times> build_error option) \<times> 's net" where
  "discoverLogOffset send net =
     (case uploadLog send 0 '''' net of
        ((n, mismatch, e), net) \<Rightarrow> (if mismatch \<or> e = None then (n, e) else (0, e), net))"

definition uploadArtifact ::
  "(string \<Rightarrow> string \<Rightarrow> string \<Rightarrow> 's \<Rightarrow> answer \<times> 's) \<Rightarrow> string option \<Rightarrow> string \<Rightarrow> string \<Rightarrow> 's net \<Rightarrow>
   (build_error + ManagedArtifact) \<times> 's net" where
  "uploadArtifact publish archive digest runtimeImage net =
     (case archive of
        None \<Rightarrow> (Inl (FileError NotExist), net)
      | Some content \<Rightarrow>
          (case http_do (publish content digest runtimeImage) net of
             (None, net) \<Rightarrow> (Inl NoAnswer, net)
           | (Some a, net) \<Rightarrow>
               (if rep_status a \<noteq> 201 \<and> rep_status a \<noteq> 200 then Inl (APIError (rep_code a))
                else (case ans_body a of
                  ArtifactBody artifact \<Rightarrow>
                    if art_Digest artifact \<noteq> digest then Inl DigestNotConfirmed else Inr artifact
                | _ \<Rightarrow> Inl WrongAnswer), net)))"

section \<open>The log\<close>

text \<open>
  One round of \<^verbatim>\<open>uploadLogs\<close>: what is written to the log before it reads, and whether the context is done when
  it finds nothing to read. After the last round nothing is written any more and the context is done, for
  \<^verbatim>\<open>execute\<close> cancels it before it waits.
\<close>

type_synonym log_round = "string \<times> bool"

definition written :: "log_round list \<Rightarrow> string" where
  "written rounds = (case rounds of [] \<Rightarrow> '''' | (w, _) # _ \<Rightarrow> w)"

definition context_done :: "log_round list \<Rightarrow> bool" where
  "context_done rounds = (case rounds of [] \<Rightarrow> True | (_, over) # _ \<Rightarrow> over)"

text \<open>\<open>content\<close> is the file, \<open>n\<close> the offset in it. The result is the offset up to which the file was sent.\<close>

partial_function (option) upload_loop ::
  "(int \<Rightarrow> string \<Rightarrow> 's \<Rightarrow> answer \<times> 's) \<Rightarrow> log_round list \<Rightarrow> string \<Rightarrow> int \<Rightarrow> nat \<Rightarrow> 's net \<Rightarrow> (string \<times> 's net) option" where
  "upload_loop send rounds content serverOffset n net =
     (let content = content @ written rounds; chunk = take 65536 (drop n content)
      in if chunk \<noteq> '''' then
           (case uploadLog send serverOffset chunk net of
              ((next_off, mismatch, Some e), net) \<Rightarrow> upload_loop send (tl rounds) content serverOffset n net
            | ((next_off, mismatch, None), net) \<Rightarrow>
                if mismatch then upload_loop send (tl rounds) content next_off n net
                else upload_loop send (tl rounds) content next_off (n + length chunk) net)
         else if context_done rounds then Some (take n content, net)
         else upload_loop send (tl rounds) content serverOffset n net)"

definition uploadLogs ::
  "(int \<Rightarrow> string \<Rightarrow> 's \<Rightarrow> answer \<times> 's) \<Rightarrow> log_round list \<Rightarrow> 's net \<Rightarrow> (string \<times> 's net) option" where
  "uploadLogs send rounds net =
     (case discoverLogOffset send net of
        ((n, e), net) \<Rightarrow> upload_loop send rounds '''' (if e = None then n else 0) 0 net)"

section \<open>The source\<close>

definition verifyFile :: "fpath \<Rightarrow> int \<Rightarrow> string \<Rightarrow> fs \<Rightarrow> build_error option" where
  "verifyFile p expected digest fs =
     (case node fs p of
        Some (Reg m data) \<Rightarrow>
          if int (length data) \<noteq> expected \<or> SHA256 data \<noteq> digest then Some IdentityMismatch else None
      | Some Dir \<Rightarrow> Some (FileError IsDir)
      | None \<Rightarrow> Some (FileError NotExist))"

record builder_host =
  bh_MaxSourceBytes :: int
  bh_tools :: build_tools

definition source_limits :: "builder_host \<Rightarrow> file_config" where
  "source_limits host = \<lparr>maxLogBytes = 1048576, maxOutputBytes = 1048576, maxInputBytes = bh_MaxSourceBytes host\<rparr>"

definition fetch_source ::
  "builder_host \<Rightarrow> 's build_client \<Rightarrow> BuildWork \<Rightarrow> fs \<Rightarrow> 's net \<Rightarrow> build_error option \<times> fs \<times> 's net" where
  "fetch_source host client work fs net =
     (case Lstat fs (source_file (build_ID (work_Build work))) of
        Inr n \<Rightarrow> (None, fs, net)
      | Inl e \<Rightarrow>
          if e = NotExist then downloadSource (bh_MaxSourceBytes host) client work fs net
          else (Some (FileError e), fs, net))"

definition prepareSource ::
  "builder_host \<Rightarrow> 's build_client \<Rightarrow> BuildWork \<Rightarrow> fs \<Rightarrow> 's net \<Rightarrow> (build_error + fpath) \<times> fs \<times> 's net" where
  "prepareSource host client work fs net =
     (let i = build_ID (work_Build work); source = build_Source (work_Build work); tools = bh_tools host in
      case MkdirAll [''builds'', i, ''source''] fs of
        Inl e \<Rightarrow> (Inl (FileError e), fs, net)
      | Inr fs \<Rightarrow>
          (case fetch_source host client work fs net of
             (Some e, fs, net) \<Rightarrow> (Inl e, fs, net)
           | (None, fs, net) \<Rightarrow>
               (case verifyFile (source_file i) (src_Size source) (src_SHA256 source) fs of
                  Some e \<Rightarrow> (Inl e, fs, net)
                | None \<Rightarrow>
                    (case PrepareBuildSource (bt_unzip tools) (bt_untar tools) (source_limits host) i
                            (src_Filename source) (bt_tmp tools) fs of
                       (Inl e, fs) \<Rightarrow> (Inl (FileError e), fs, net)
                     | (Inr project, fs) \<Rightarrow> (Inr project, fs, net)))))"

section \<open>A build\<close>

text \<open>The workspace, \<^verbatim>\<open>current.json\<close> and the image archives in the state directory. The local disk takes what it is given.\<close>

record worker =
  wk_fs :: fs
  wk_current :: "BuildWork option"
  wk_images :: "string gomap"

definition persistWork :: "BuildWork \<Rightarrow> worker \<Rightarrow> worker" where
  "persistWork work wk = wk\<lparr>wk_current := Some work\<rparr>"

text \<open>
  \<^verbatim>\<open>finish\<close> repeats the report until the server takes it or the builder is shut down: after \<open>alive\<close> attempts,
  never when it is \<open>None\<close>.
\<close>

partial_function (option) report_completion ::
  "('s \<Rightarrow> answer \<times> 's) \<Rightarrow> nat option \<Rightarrow> 's net \<Rightarrow> (bool \<times> 's net) option" where
  "report_completion complete alive net =
     (if alive = Some 0 then Some (False, net)
      else (case client_json complete net of
         (Inr _, net) \<Rightarrow> Some (True, net)
       | (Inl _, net) \<Rightarrow> report_completion complete (map_option (\<lambda>n. n - 1) alive) net))"

definition finish ::
  "'s build_client \<Rightarrow> nat option \<Rightarrow> BuildWork \<Rightarrow> BuildAssignmentStatus \<Rightarrow> string \<Rightarrow> string \<Rightarrow> worker \<Rightarrow> 's net \<Rightarrow>
   (worker \<times> 's net) option" where
  "finish client alive work status digest message wk net =
     (case report_completion (bc_complete client (basg_ID (work_Assignment work)) status digest message) alive net of
        None \<Rightarrow> None
      | Some (reported, net) \<Rightarrow>
          Some (if reported
                then wk\<lparr>wk_current := None,
                        wk_images := filter (\<lambda>(i, _). i \<noteq> build_ID (work_Build work)) (wk_images wk)\<rparr>
                else wk, net))"

text \<open>BuildKit: the image archive it leaves, and the digest or the error it returns.\<close>

type_synonym executor = "BuildWork \<Rightarrow> fs \<Rightarrow> fpath \<Rightarrow> string option \<times> (string + string)"

definition managedRuntimeImage :: "string \<Rightarrow> string" where
  "managedRuntimeImage buildID = ''jobdock.local/managed/'' @ buildID @ '':artifact''"

definition build_and_publish ::
  "'s build_client \<Rightarrow> executor \<Rightarrow> BuildWork \<Rightarrow> fpath \<Rightarrow> worker \<Rightarrow> 's net \<Rightarrow> (build_error + string) \<times> worker \<times> 's net" where
  "build_and_publish client executor work project wk net =
     (let i = build_ID (work_Build work); (archive, result) = executor work (wk_fs wk) project;
          wk = (case archive of None \<Rightarrow> wk
                | Some content \<Rightarrow> wk\<lparr>wk_images := (i, content) # filter (\<lambda>(k, _). k \<noteq> i) (wk_images wk)\<rparr>)
      in (case result of
            Inl message \<Rightarrow> (Inl (ExecutorError message), wk, net)
          | Inr digest \<Rightarrow>
              (case uploadArtifact (bc_publish client (basg_ID (work_Assignment work))) (map_of (wk_images wk) i)
                      digest (managedRuntimeImage i) net of
                 (Inl e, net) \<Rightarrow> (Inl e, wk, net)
               | (Inr artifact, net) \<Rightarrow> (Inr digest, wk, net))))"

text \<open>What interrupted the build: the heartbeat found it cancelled, or the time was up.\<close>

datatype interrupt = Uninterrupted | CancelledByServer | TimedOut

definition outcome ::
  "(build_error \<Rightarrow> string) \<Rightarrow> string \<Rightarrow> interrupt \<Rightarrow> build_error + string \<Rightarrow> BuildAssignmentStatus \<times> string \<times> string" where
  "outcome text timeout interrupted result =
     (case result of
        Inr digest \<Rightarrow>
          (BuildAssignmentSucceeded, digest, ''BuildKit completed and published the managed image artifact'')
      | Inl e \<Rightarrow>
          (case interrupted of
             CancelledByServer \<Rightarrow> (BuildAssignmentCancelled, '''', ''Build cancelled by user'')
           | TimedOut \<Rightarrow> (BuildAssignmentFailed, '''', ''Build exceeded the configured timeout of '' @ timeout)
           | Uninterrupted \<Rightarrow> (BuildAssignmentFailed, '''', text e)))"

text \<open>
  \<open>log_opens\<close>: the local log file can be created. \<open>log_uploaded\<close>: the goroutine of the log returns, for which
  the build waits before it reports.
\<close>

definition execute ::
  "builder_host \<Rightarrow> 's build_client \<Rightarrow> executor \<Rightarrow> (build_error \<Rightarrow> string) \<Rightarrow> string \<Rightarrow> interrupt \<Rightarrow> bool \<Rightarrow> bool \<Rightarrow>
   nat option \<Rightarrow> BuildWork \<Rightarrow> worker \<Rightarrow> 's net \<Rightarrow> (worker \<times> 's net) option" where
  "execute host client executor text timeout interrupted log_opens log_uploaded alive work wk net =
     (if \<not> log_opens
      then finish client alive work BuildAssignmentFailed '''' (text (FileError NotExist)) wk net
      else
        let i = build_ID (work_Build work); (prepared, fs, net) = prepareSource host client work (wk_fs wk) net;
            wk = wk\<lparr>wk_fs := fs\<rparr>;
            (result, wk, net) = (case prepared of
                Inl e \<Rightarrow> (Inl e, wk, net)
              | Inr project \<Rightarrow> build_and_publish client executor work project wk net);
            (status, digest, message) = outcome text timeout interrupted result
        in if \<not> log_uploaded then None
           else map_option (\<lambda>(wk, net).
                (if is_ok prepared then wk\<lparr>wk_fs := RemoveAll [''builds'', i, bt_tmp (bh_tools host)] (wk_fs wk)\<rparr> else wk, net))
              (finish client alive work status digest message wk net))"

text \<open>One poll of \<^verbatim>\<open>Run\<close>: whether there was work, and what it left.\<close>

definition worker_round ::
  "builder_host \<Rightarrow> 's build_client \<Rightarrow> executor \<Rightarrow> (build_error \<Rightarrow> string) \<Rightarrow> string \<Rightarrow> interrupt \<Rightarrow> bool \<Rightarrow> bool \<Rightarrow>
   nat option \<Rightarrow> worker \<Rightarrow> 's net \<Rightarrow> (bool \<times> worker \<times> 's net) option" where
  "worker_round host client executor text timeout interrupted log_opens log_uploaded alive wk net =
     (case client_next client net of
        (Inr (Some work), net) \<Rightarrow>
          map_option (\<lambda>(wk, net). (True, wk, net))
            (execute host client executor text timeout interrupted log_opens log_uploaded alive work
              (persistWork work wk) net)
      | (_, net) \<Rightarrow> Some (False, wk, net))"

text \<open>A tick of \<^verbatim>\<open>heartbeatLoop\<close>: whether it cancels the build.\<close>

definition heartbeat_tick :: "'s build_client \<Rightarrow> string \<Rightarrow> 's net \<Rightarrow> bool \<times> 's net" where
  "heartbeat_tick client i net =
     (case client_heartbeat client i net of
        (Inl e, net) \<Rightarrow> (False, net)
      | (Inr a, net) \<Rightarrow> (basg_CancelRequested a, net))"

section \<open>The control plane as the server\<close>

text \<open>A request of the builder reaches its handlers, at the time of the clock.\<close>

type_synonym build_world = "gotime \<times> api"

definition at_clock :: "(gotime \<Rightarrow> api \<Rightarrow> answer \<times> api) \<Rightarrow> build_world \<Rightarrow> answer \<times> build_world" where
  "at_clock handler w = (case handler (fst w) (snd w) of (a, s) \<Rightarrow> (a, (fst w, s)))"

definition control_plane :: "build_config \<Rightarrow> string \<Rightarrow> build_world build_client" where
  "control_plane cfg builder = \<lparr>
     bc_next = at_clock (nextBuildAssignment cfg builder),
     bc_heartbeat = (\<lambda>i. at_clock (heartbeatBuildAssignment cfg builder i)),
     bc_source = (\<lambda>i w. getBuildSource builder i (snd w)),
     bc_log = (\<lambda>i off data. at_clock (\<lambda>now. putBuildLog cfg builder i (FormatInt off) \<lparr>rd_data = data, rd_fails = False\<rparr>)),
     bc_publish = (\<lambda>i content digest img.
       at_clock (putBuildArtifact cfg builder i digest img \<lparr>rd_data = content, rd_fails = False\<rparr>)),
     bc_complete = (\<lambda>i status digest message.
       at_clock (completeBuildAssignment builder i (Some (status, digest, message))))\<rparr>"

end
