(* ===== verification/BuildLogs.thy ===== *)
theory BuildLogs
  imports BuildWorker UploadService FileAppends
begin

text \<open>
  The upload of a build log: the contract between the loop of the builder and the server that stores the log,
  what the loop achieves under it, and the control plane as an instance.
\<close>

section \<open>The contract\<close>

text \<open>
  A store of one byte string that grows by appends at its end, up to \<open>limit\<close>. A 204 means that all of the data was
  appended, a 409 that the offset was wrong and nothing was; both name the size of the log.
\<close>

locale build_log_service =
  fixes send :: "int \<Rightarrow> string \<Rightarrow> 's \<Rightarrow> answer \<times> 's"
    and stored :: "'s \<Rightarrow> string"
    and good :: "'s \<Rightarrow> bool"
    and limit :: int
  assumes send_good: "good w \<Longrightarrow> in_i64 off \<Longrightarrow> good (snd (send off c w))"
    and send_extends: "good w \<Longrightarrow> in_i64 off \<Longrightarrow> \<exists>k. stored (snd (send off c w)) = stored w @ take k c"
    and send_accepts: "good w \<Longrightarrow> in_i64 off \<Longrightarrow> length c \<le> 65536 \<Longrightarrow> rep_status (fst (send off c w)) = 204 \<Longrightarrow>
      stored (snd (send off c w)) = stored w @ c"
    and send_conflicts: "good w \<Longrightarrow> in_i64 off \<Longrightarrow> rep_status (fst (send off c w)) = 409 \<Longrightarrow>
      stored (snd (send off c w)) = stored w"
    and send_next: "good w \<Longrightarrow> in_i64 off \<Longrightarrow> rep_status (fst (send off c w)) \<in> {204, 409} \<Longrightarrow>
      ans_body (fst (send off c w)) = TextBody (FormatInt (int (length (stored (snd (send off c w))))))"
    and within_limit: "good w \<Longrightarrow> int (length (stored w)) \<le> limit \<and> limit < 9223372036854775808"
begin

abbreviation kept :: "'s net \<Rightarrow> bool" where
  "kept net \<equiv> good (net_world net) \<and> undisturbed good (\<lambda>w _. stored w) net"

lemma stored_i64: "good w \<Longrightarrow> in_i64 (int (length (stored w)))"
  using within_limit by (fastforce simp: in_i64_def)

text \<open>One request, with what the network and the rest of the server add.\<close>

lemma uploadLog_cases:
  assumes "kept net" "in_i64 off" "uploadLog send off c net = ((n, mismatch, e), net')" "length c \<le> 65536"
  shows "kept net'" "in_i64 n" "net_plan net' = tl (net_plan net)"
    and "\<exists>k. stored (net_world net') = stored (net_world net) @ take k c"
    and "e = None \<Longrightarrow> n = int (length (stored (net_world net')))"
    and "e = None \<Longrightarrow> \<not> mismatch \<Longrightarrow> stored (net_world net') = stored (net_world net) @ c"
    and "mismatch \<Longrightarrow> e = None \<and> stored (net_world net') = stored (net_world net)"
proof -
  obtain f d where c: "next_call net = (f, d)" by fastforce
  let ?w = "f (net_world net)" let ?a = "send off c ?w"
  have f: "good ?w" "stored ?w = stored (net_world net)"
    using next_call_in [OF c [symmetric]] assms(1) by (auto simp: undisturbed_def undisturbing_def fun_eq_iff)
  have w: "net_world net' = (if d = LostRequest then ?w else snd ?a)" "net_plan net' = tl (net_plan net)"
    "e = None \<Longrightarrow> d = Delivered \<and> rep_status (fst ?a) = (if mismatch then 409 else 204)" "mismatch \<Longrightarrow> e = None"
    "e \<noteq> None \<Longrightarrow> n = off"
    using assms(3) c by (auto simp: uploadLog_def http_do_def Let_def split: delivery.splits if_splits)
  have n: "n = int (length (stored (snd ?a)))" if "e = None"
  proof -
    have s: "d = Delivered" "rep_status (fst ?a) \<in> {204, 409}" using w(3) [OF that] by auto
    have b: "ans_body (fst ?a) = TextBody (FormatInt (int (length (stored (snd ?a)))))"
      by (rule send_next [OF f(1) assms(2) s(2)])
    have "FormatInt i \<noteq> ''''" for i by (simp add: FormatInt_def Itoa_def)
    moreover have "ParseInt (FormatInt (int (length (stored (snd ?a))))) = (int (length (stored (snd ?a))), None)"
      by (rule ParseInt_FormatInt [OF stored_i64 [OF send_good [OF f(1) assms(2)]]])
    ultimately show ?thesis
      using assms(3) c s b that by (auto simp: uploadLog_def http_do_def Let_def split: if_splits)
  qed
  show "kept net'" using f(1) assms(1,2) w(1,2) send_good by (auto simp: undisturbed_def dest: tl_in)
  show "in_i64 n" using n w(5) assms(2) stored_i64 [OF send_good [OF f(1) assms(2)]] by (cases e) auto
  show "net_plan net' = tl (net_plan net)" by (rule w(2))
  show "\<exists>k. stored (net_world net') = stored (net_world net) @ take k c"
    using w(1) f(2) send_extends [OF f(1) assms(2), of c] by (auto intro: exI [of _ 0])
  show "n = int (length (stored (net_world net')))" if "e = None"
    using n [OF that] w(1) w(3) [OF that] by simp
  show "stored (net_world net') = stored (net_world net) @ c" if "e = None" "\<not> mismatch"
    using send_accepts [OF f(1) assms(2,4)] w(1) w(3) [OF that(1)] that(2) f(2) by simp
  show "e = None \<and> stored (net_world net') = stored (net_world net)" if mismatch
    using send_conflicts [OF f(1) assms(2), of c] w(1) w(3) [OF w(4) [OF that]] w(4) [OF that] that f(2) by simp
qed

section \<open>Nothing is lost\<close>

text \<open>Behind what the log held at first, \<open>sent\<close> is in it, in order, though pieces may be there more than once.\<close>

definition holds :: "string \<Rightarrow> string \<Rightarrow> 's net \<Rightarrow> bool" where
  "holds base sent net \<longleftrightarrow> (\<exists>x. stored (net_world net) = base @ x \<and> subseq sent x)"

lemma holds_more: "holds base sent net \<Longrightarrow> stored (net_world net') = stored (net_world net) @ y \<Longrightarrow> holds base sent net'"
  unfolding holds_def by (metis append.assoc list_emb_append_mono subseq_order.order_refl self_append_conv list_emb_Nil)

lemma holds_append:
  "holds base sent net \<Longrightarrow> stored (net_world net') = stored (net_world net) @ y \<Longrightarrow> holds base (sent @ y) net'"
  unfolding holds_def by (auto intro!: list_emb_append_mono)

lemma take_length_take: "take (length (take k ys)) ys = take k ys"
  by (cases "length ys \<le> k") auto

lemma take_chunk: "take n xs @ take k (drop n xs) = take (n + length (take k (drop n xs))) xs"
  unfolding take_add take_length_take ..

lemma upload_loop_keeps:
  assumes "upload_loop send rounds content off n net = Some (sent, net')"
    and "kept net" "in_i64 off" "n \<le> length content" "holds base (take n content) net"
  shows "kept net' \<and> holds base sent net' \<and>
    ((\<forall>r\<in>set rounds. \<not> snd r) \<longrightarrow> sent = content @ concat (map fst rounds))"
proof -
  define P where "P = (\<lambda>s rounds content off n net result. s = send \<longrightarrow> kept net \<longrightarrow> in_i64 off \<longrightarrow>
      n \<le> length content \<longrightarrow> holds base (take n content) net \<longrightarrow> kept (snd result) \<and> holds base (fst result) (snd result) \<and>
      ((\<forall>r\<in>set rounds. \<not> snd r) \<longrightarrow> fst result = content @ concat (map fst (rounds :: log_round list))))"
  have "P send rounds content off n net (sent, net')"
  proof (rule upload_loop.raw_induct [where P = P, OF _ assms(1)])
    fix loop :: "(int \<Rightarrow> string \<Rightarrow> 's \<Rightarrow> answer \<times> 's) \<Rightarrow> log_round list \<Rightarrow> string \<Rightarrow> int \<Rightarrow> nat \<Rightarrow> 's net \<Rightarrow> (string \<times> 's net) option"
      and s rounds content off n net result
    assume ind: "\<And>s rounds content off n net result. loop s rounds content off n net = Some result \<Longrightarrow>
        P s rounds content off n net result"
      and body: "(let content = content @ written rounds; chunk = take 65536 (drop n content)
         in if chunk \<noteq> '''' then
              (case uploadLog s off chunk net of
                 ((next_off, mismatch, Some e), net) \<Rightarrow> loop s (tl rounds) content off n net
               | ((next_off, mismatch, None), net) \<Rightarrow>
                   if mismatch then loop s (tl rounds) content next_off n net
                   else loop s (tl rounds) content next_off (n + length chunk) net)
            else if context_done rounds then Some (take n content, net)
            else loop s (tl rounds) content off n net) = Some result"
    let ?content = "content @ written rounds"
    let ?chunk = "take 65536 (drop n ?content)"
    have all: "content @ concat (map fst rounds) = ?content @ concat (map fst (tl rounds))"
      by (cases rounds) (auto simp: written_def split: prod.splits)
    have rest: "\<forall>r\<in>set (tl rounds). \<not> snd r" if "\<forall>r\<in>set rounds. \<not> snd r"
      using that by (cases rounds) auto
    show "P s rounds content off n net result"
      unfolding P_def
    proof (intro impI)
      assume s: "s = send" and k: "kept net" and i: "in_i64 off" and l: "n \<le> length content"
        and h: "holds base (take n content) net"
      note run = body [unfolded s Let_def]
      have IH: "kept (snd result) \<and> holds base (fst result) (snd result) \<and>
          ((\<forall>r\<in>set rounds. \<not> snd r) \<longrightarrow> fst result = content @ concat (map fst rounds))"
        if "loop send (tl rounds) ?content off1 n1 net1 = Some result" "kept net1" "in_i64 off1"
          "n1 \<le> length ?content" "holds base (take n1 ?content) net1" for off1 n1 net1
        using ind [OF that(1)] that(2-) rest unfolding P_def all by blast
      have t: "take n ?content = take n content" using l by simp
      show "kept (snd result) \<and> holds base (fst result) (snd result) \<and>
          ((\<forall>r\<in>set rounds. \<not> snd r) \<longrightarrow> fst result = content @ concat (map fst rounds))"
      proof (cases "?chunk = ''''")
        case True
        then have "drop n ?content = ''''" unfolding take_eq_Nil by (metis zero_neq_numeral)
        then have n: "length ?content \<le> n" by (simp only: drop_eq_Nil)
        have "\<not> ?chunk \<noteq> ''''" using True by blast
        note run = run [unfolded if_not_P [OF this]]
        show ?thesis
        proof (cases "context_done rounds")
          case True
          then have s: "result = (take n ?content, net)" using run by simp
          have "rounds = []" if "\<forall>r\<in>set rounds. \<not> snd r"
            using that True by (cases rounds) (auto simp: context_done_def split: prod.splits)
          then show ?thesis using s k h t n l by (auto simp: written_def)
        next
          case False
          then have "loop send (tl rounds) ?content off n net = Some result" using run by simp
          from IH [OF this k i] l h t show ?thesis by simp
        qed
      next
        case False
        obtain m mismatch e net1 where u: "uploadLog send off ?chunk net = ((m, mismatch, e), net1)"
          by (metis surj_pair)
        note run = run [unfolded if_P [OF False] u]
        have "length ?chunk \<le> 65536" unfolding length_take by (rule min.cobounded2)
        note f = uploadLog_cases [OF k i u this]
        obtain j where j: "stored (net_world net1) = stored (net_world net) @ take j ?chunk" using f(4) by blast
        have h1: "holds base (take n ?content) net1" unfolding t by (rule holds_more [OF h j])
        consider "e \<noteq> None" | "e = None" mismatch | "e = None" "\<not> mismatch" by blast
        then show ?thesis
        proof cases
          case 1
          then have "loop send (tl rounds) ?content off n net1 = Some result" using run by auto
          from IH [OF this f(1) i _ h1] l show ?thesis by simp
        next
          case 2
          then have "loop send (tl rounds) ?content m n net1 = Some result" using run by simp
          from IH [OF this f(1,2) _ h1] l show ?thesis by simp
        next
          case 3
          then have go: "loop send (tl rounds) ?content m (n + length ?chunk) net1 = Some result"
            using run by simp
          have "holds base (take n content @ ?chunk) net1" by (rule holds_append [OF h f(6) [OF 3]])
          then have h2: "holds base (take (n + length ?chunk) ?content) net1"
            unfolding t [symmetric] take_chunk .
          have "?chunk \<noteq> ''''" by (rule False)
          then have "n \<le> length ?content" by (cases "n \<le> length ?content") auto
          then have "n + length ?chunk \<le> length ?content"
            unfolding length_take length_drop by simp
          from IH [OF go f(1,2) this h2] show ?thesis .
        qed
      qed
    qed
  qed
  then show ?thesis using assms(2-) by (simp add: P_def)
qed

lemma uploadLogs_keeps:
  assumes "uploadLogs send rounds net = Some (sent, net')" "kept net"
  shows "kept net' \<and> holds (stored (net_world net)) sent net' \<and>
    ((\<forall>r\<in>set rounds. \<not> snd r) \<longrightarrow> sent = concat (map fst rounds))"
proof -
  obtain n mismatch e net1 where u: "uploadLog send 0 '''' net = ((n, mismatch, e), net1)" by (metis surj_pair)
  have z: "in_i64 0" by (simp add: in_i64_def)
  note f = uploadLog_cases [OF assms(2) z u, simplified]
  define off where "off = (if e = None then n else 0)"
  have "upload_loop send rounds '''' off 0 net1 = Some (sent, net')"
    using assms(1) u f(7) by (auto simp: uploadLogs_def discoverLogOffset_def off_def split: if_splits)
  moreover have "holds (stored (net_world net)) (take 0 '''') net1" using f(4) by (simp add: holds_def)
  ultimately show ?thesis using upload_loop_keeps [OF _ f(1), of rounds "''''" off 0] f(2) z by (simp add: off_def)
qed

text \<open>So a log that is longer than the limit keeps the builder for ever, whatever the network does.\<close>

lemma uploadLogs_stuck:
  assumes "kept net" "\<forall>r\<in>set rounds. \<not> snd r" "limit < int (length (concat (map fst rounds)))"
  shows "uploadLogs send rounds net = None"
proof (rule ccontr)
  assume "uploadLogs send rounds net \<noteq> None"
  then obtain sent net' where r: "uploadLogs send rounds net = Some (sent, net')" by auto
  from uploadLogs_keeps [OF this assms(1)] assms(2)
  have h: "kept net'" "holds (stored (net_world net)) (concat (map fst rounds)) net'" by auto
  then obtain x where x: "stored (net_world net') = stored (net_world net) @ x" "subseq (concat (map fst rounds)) x"
    by (auto simp: holds_def)
  have "length (concat (map fst rounds)) \<le> length x" by (rule list_emb_length [OF x(2)])
  with x(1) within_limit h(1) assms(3) show False by fastforce
qed

end

section \<open>A server with room\<close>

text \<open>What a server must do in addition for the whole log to arrive.\<close>

locale build_log_room = build_log_service +
  fixes ready :: "'a \<Rightarrow> bool"
  assumes ready_good: "ready w \<Longrightarrow> good w"
    and ready_kept: "ready w \<Longrightarrow> in_i64 off \<Longrightarrow> ready (snd (send off c w))"
    and takes: "ready w \<Longrightarrow> c \<noteq> '''' \<Longrightarrow> length c \<le> 65536 \<Longrightarrow> int (length (stored w) + length c) \<le> limit \<Longrightarrow>
      rep_status (fst (send (int (length (stored w))) c w)) = 204"
    and refuses: "ready w \<Longrightarrow> 0 \<le> off \<Longrightarrow> in_i64 off \<Longrightarrow> off \<noteq> int (length (stored w)) \<Longrightarrow>
      rep_status (fst (send off c w)) = 409"
begin

lemma quiet_kept: "ready (net_world net) \<Longrightarrow> net_plan net = [] \<Longrightarrow> kept net"
  by (simp add: ready_good undisturbed_def)

text \<open>A request on a quiet and reliable network.\<close>

lemma quiet_upload:
  assumes "ready (net_world net)" "net_plan net = []" "in_i64 off" "length c \<le> 65536"
    and "uploadLog send off c net = ((n, mismatch, e), net')"
  shows "ready (net_world net')" "net_plan net' = []"
    and "rep_status (fst (send off c (net_world net))) = 204 \<Longrightarrow> e = None \<and> \<not> mismatch"
    and "rep_status (fst (send off c (net_world net))) = 409 \<Longrightarrow> e = None \<and> mismatch"
    and "rep_status (fst (send off c (net_world net))) \<notin> {204, 409} \<Longrightarrow> e \<noteq> None"
  using assms ready_kept [OF assms(1,3), of c]
  by (auto simp: uploadLog_def http_do_def next_call_def Let_def)

lemma upload_loop_ends:
  assumes "ready (net_world net)" "net_plan net = []" "off = int (length (stored (net_world net)))"
    "n \<le> length content" "\<forall>r\<in>set rounds. \<not> snd r"
    "int (length (stored (net_world net)) + (length (content @ concat (map fst rounds)) - n)) \<le> limit"
  shows "\<exists>net'. upload_loop send rounds content off n net = Some (content @ concat (map fst rounds), net') \<and>
    stored (net_world net') = stored (net_world net) @ drop n (content @ concat (map fst rounds))"
  using assms
proof (induction "length rounds + (length (content @ concat (map fst rounds)) - n)"
    arbitrary: rounds content off n net rule: less_induct)
  case less
  let ?content = "content @ written rounds"
  let ?chunk = "take 65536 (drop n ?content)"
  let ?all = "content @ concat (map fst rounds)"
  have all: "?all = ?content @ concat (map fst (tl rounds))"
    by (cases rounds) (auto simp: written_def split: prod.splits)
  have rest: "\<forall>r\<in>set (tl rounds). \<not> snd r" using less.prems(5) by (cases rounds) auto
  have i: "in_i64 off" unfolding less.prems(3) by (rule stored_i64 [OF ready_good [OF less.prems(1)]])
  note loop = upload_loop.simps [of send rounds content off n net, unfolded Let_def]
  show ?case
  proof (cases "?chunk = ''''")
    case True
    then have "drop n ?content = ''''" unfolding take_eq_Nil by (metis zero_neq_numeral)
    then have n: "length ?content \<le> n" by (simp only: drop_eq_Nil)
    have "\<not> ?chunk \<noteq> ''''" using True by blast
    note loop = loop [unfolded if_not_P [OF this]]
    have "length (written rounds) = 0" "n = length content"
      using n less.prems(4) unfolding length_append by linarith+
    then have w: "written rounds = ''''" "n = length content" by simp_all
    show ?thesis
    proof (cases "rounds = []")
      case True
      then show ?thesis using loop w by (simp add: context_done_def written_def)
    next
      case False
      then have "\<not> context_done rounds" using less.prems(5) by (cases rounds) (auto simp: context_done_def)
      then have go: "upload_loop send rounds content off n net = upload_loop send (tl rounds) ?content off n net"
        using loop by simp
      have "length (tl rounds) + (length (?content @ concat (map fst (tl rounds))) - n) <
          length rounds + (length ?all - n)"
        unfolding all [symmetric] using False by simp
      from less.hyps [OF this less.prems(1-3) _ rest] less.prems(4,6) show ?thesis
        unfolding go all by simp
    qed
  next
    case False
    obtain m mismatch e net1 where u: "uploadLog send off ?chunk net = ((m, mismatch, e), net1)"
      by (metis surj_pair)
    have small: "length ?chunk \<le> 65536" unfolding length_take by (rule min.cobounded2)
    have "n < length ?content" using False by (cases "n < length ?content") auto
    then have nl: "n + length ?chunk \<le> length ?content" unfolding length_take length_drop by simp
    have "length ?content \<le> length ?all" unfolding all by simp
    then have room: "int (length (stored (net_world net)) + length ?chunk) \<le> limit"
      using less.prems(6) nl by linarith
    have st: "rep_status (fst (send off ?chunk (net_world net))) = 204"
      unfolding less.prems(3) by (rule takes [OF less.prems(1) False small room])
    note q = quiet_upload [OF less.prems(1,2) i small u]
    have e: "e = None" "\<not> mismatch" using q(3) st by blast+
    note f = uploadLog_cases [OF quiet_kept [OF less.prems(1,2)] i u small]
    have go: "upload_loop send rounds content off n net = upload_loop send (tl rounds) ?content m (n + length ?chunk) net1"
      using loop [unfolded if_P [OF False] u] e by simp
    have s: "stored (net_world net1) = stored (net_world net) @ ?chunk" by (rule f(6) [OF e])
    have m: "m = int (length (stored (net_world net1)))" by (rule f(5) [OF e(1)])
    have pos: "0 < length ?chunk" using False by (simp only: length_greater_0_conv not_False_eq_True)
    have dec: "length (tl rounds) + (length (?content @ concat (map fst (tl rounds))) - (n + length ?chunk)) <
        length rounds + (length ?all - n)"
      unfolding all [symmetric] using pos nl \<open>length ?content \<le> length ?all\<close> unfolding length_tl by linarith
    have lim: "int (length (stored (net_world net1)) +
        (length (?content @ concat (map fst (tl rounds))) - (n + length ?chunk))) \<le> limit"
      unfolding all [symmetric] s length_append [of "stored (net_world net)"] using less.prems(6) nl \<open>length ?content \<le> length ?all\<close> by linarith
    from less.hyps [OF dec q(1,2) m nl rest lim]
    obtain net' where r: "upload_loop send (tl rounds) ?content m (n + length ?chunk) net1 = Some (?all, net')"
      "stored (net_world net') = stored (net_world net1) @ drop (n + length ?chunk) ?all"
      unfolding all [symmetric] by blast
    have "?chunk @ drop (n + length ?chunk) ?all = drop n ?all"
    proof -
      have d: "drop n ?all = drop n ?content @ concat (map fst (tl rounds))"
        unfolding all drop_append [of n ?content] using nl by simp
      have "length ?chunk \<le> length (drop n ?content)" unfolding length_take by (rule min.cobounded1)
      then have t: "take (length ?chunk) (drop n ?all) = ?chunk"
        unfolding d take_append take_length_take by simp
      have "drop (n + length ?chunk) ?all = drop (length ?chunk) (drop n ?all)" by (simp only: drop_drop add.commute)
      then show ?thesis using append_take_drop_id [of "length ?chunk" "drop n ?all"] unfolding t by simp
    qed
    with r(2) s have "stored (net_world net') = stored (net_world net) @ drop n ?all" by simp
    with r(1) show ?thesis unfolding go by blast
  qed
qed

text \<open>On a quiet network the whole log arrives behind what was there, and the goroutine ends.\<close>

lemma uploadLogs_converges:
  assumes "ready (net_world net)" "net_plan net = []" "\<forall>r\<in>set rounds. \<not> snd r"
    "int (length (stored (net_world net)) + length (concat (map fst rounds))) \<le> limit"
  shows "\<exists>net'. uploadLogs send rounds net = Some (concat (map fst rounds), net') \<and>
    stored (net_world net') = stored (net_world net) @ concat (map fst rounds)"
proof -
  obtain m mismatch e net1 where u: "uploadLog send 0 '''' net = ((m, mismatch, e), net1)" by (metis surj_pair)
  have z: "in_i64 0" by (simp add: in_i64_def)
  note q = quiet_upload [OF assms(1,2) z _ u, simplified]
  note f = uploadLog_cases [OF quiet_kept [OF assms(1,2)] z u, simplified]
  have s: "stored (net_world net1) = stored (net_world net)" using f(4) .
  have off: "(if e = None then m else 0) = int (length (stored (net_world net1)))"
  proof (cases "e = None")
    case False
    then have "rep_status (fst (send 0 '''' (net_world net))) \<noteq> 409" using q(4) by blast
    then show ?thesis using refuses [OF assms(1) _ z, of "''''"] s False by auto
  qed (use f(5) in simp)
  have "uploadLogs send rounds net = upload_loop send rounds '''' (if e = None then m else 0) 0 net1"
    using u f(7) by (auto simp: uploadLogs_def discoverLogOffset_def)
  with upload_loop_ends [OF q(1,2) off, of 0 "''''" rounds] assms(3,4) s show ?thesis by simp
qed

end

section \<open>The control plane keeps the contract\<close>

definition build_log_file :: "string \<Rightarrow> fpath" where
  "build_log_file buildID = [''builds'', buildID, ''logs'', ''build.log'']"

definition build_log :: "string \<Rightarrow> build_world \<Rightarrow> string" where
  "build_log buildID w = file_content (api_files (snd w)) (build_log_file buildID)"

text \<open>A well-formed file store whose log is within the limit; the assignment is that of the build.\<close>

definition log_good :: "build_config \<Rightarrow> string \<Rightarrow> string \<Rightarrow> build_world \<Rightarrow> bool" where
  "log_good cfg i buildID w \<longleftrightarrow> fs_ok (api_files (snd w)) \<and>
     (\<forall>a. BuildAssignment i (api_db (snd w)) = Inr a \<longrightarrow> basg_BuildID a = buildID) \<and>
     int (length (build_log buildID w)) \<le> maxLogBytes (FileLimits cfg) \<and>
     maxLogBytes (FileLimits cfg) < 9223372036854775808"

lemma append_bounded:
  assumes "fs_ok fs" "append_file p used limit early offset source fs = ((n, err), fs')"
    and used: "\<And>fs m d. node fs p = Some (Reg m d) \<Longrightarrow> used fs = Inr (int (length d))"
  shows "int (length (file_content fs' p)) \<le> max limit (int (length (file_content fs p)))"
proof -
  note e = assms(2) [unfolded append_file_def]
  show ?thesis
  proof (cases "MkdirAll (butlast p) fs")
    case (Inr fs1)
    note mk = this
    have ok1: "fs_ok fs1" by (rule MkdirAll_ok [OF assms(1) Inr])
    show ?thesis
    proof (cases "OpenFile 416 p fs1")
      case (Inl x)
      then have "fs' = fs1" using e mk by simp
      moreover have "file_content fs1 p = file_content fs p \<or> node fs1 p = Some Dir"
        using MkdirAll_node [OF mk, of p] by (auto simp: file_content_def)
      ultimately show ?thesis by (auto simp: file_content_def)
    next
      case (Inr r)
      obtain content fs2 where r: "OpenFile 416 p fs1 = Inr (content, fs2)" using Inr by (cases r) auto
      note o2 = OpenFile_facts [OF ok1 r]
      then obtain m where m: "node fs2 p = Some (Reg m content)" by blast
      have c: "length content \<le> length (file_content fs p)"
        using MkdirAll_node [OF mk, of p] o2(3) by (auto simp: file_content_def split: if_splits)
      show ?thesis
      proof (cases "fs' = fs2")
        case True
        then show ?thesis using m c by simp
      next
        case False
        with e mk r used [OF m] have d: "offset = int (length content)" "0 < limit - int (length content)"
          "copy_to p content offset (limit - int (length content)) source fs2 = ((n, err), fs')"
          by (auto split: if_splits sum.splits)
        from copy_to_facts [OF o2(1) m d] have "int (length (file_content fs' p)) \<le> limit"
          using d(1) by (auto simp: copied_def)
        then show ?thesis by simp
      qed
    qed
  qed (use e in auto)
qed

lemma refused_status [simp]: "rep_status (refuse r) = rep_status r"
  by (simp add: refuse_def reply.defs)

lemma with_next_simps [simp]: "rep_status (with_next r n) = rep_status r" "ans_body (with_next r n) = TextBody (FormatInt n)"
  by (simp_all add: with_next_def)

lemma unauthorised_builder:
  "authorizeBuildAssignment builder i s = Inl a \<Longrightarrow> rep_status a \<in> {403, 404, 422}"
  by (auto simp: authorizeBuildAssignment_def requireBuilderID_def BuildAssignment_def writeProblem_def
      writeStoreError_def Let_def split: if_splits option.splits sum.splits)

lemma authorised_builder:
  "authorizeBuildAssignment builder i s = Inr a \<Longrightarrow>
   BuildAssignment i (api_db s) = Inr a \<and> basg_BuilderID a = TrimSpace builder"
  by (auto simp: authorizeBuildAssignment_def requireBuilderID_def Let_def split: if_splits sum.splits)

lemma putBuildLog_cases:
  assumes "bc_log (control_plane cfg builder) i off c w = (r, w')" "in_i64 off" "log_good cfg i b w"
  shows "w' = w \<and> rep_status r \<notin> {204, 409} \<or>
    (\<exists>n err fs. append_file (build_log_file b) (\<lambda>fs. case node fs (build_log_file b) of Some n \<Rightarrow> Inr (node_size n) | None \<Rightarrow> Inr 0)
        (maxLogBytes (FileLimits cfg)) off off (LimitReader \<lparr>rd_data = c, rd_fails = False\<rparr> 4194305) (api_files (snd w)) =
          ((n, err), fs) \<and> w' = (fst w, (snd w)\<lparr>api_files := fs\<rparr>) \<and>
      (rep_status r = 204 \<longleftrightarrow> err = None) \<and> (rep_status r = 409 \<longleftrightarrow> err = Some ErrOffsetMismatch) \<and>
      (rep_status r \<in> {204, 409} \<longrightarrow> ans_body r = TextBody (FormatInt n)))"
proof -
  obtain t s where w: "w = (t, s)" by fastforce
  have p: "putBuildLog cfg builder i (FormatInt off) \<lparr>rd_data = c, rd_fails = False\<rparr> s = (r, snd w')" "fst w' = t"
    using assms(1) w by (auto simp: control_plane_def at_clock_def split: prod.splits)
  show ?thesis
  proof (cases "authorizeBuildAssignment builder i s")
    case (Inl a)
    then have "r = a" "snd w' = s" using p by (auto simp: putBuildLog_def)
    then show ?thesis using unauthorised_builder [OF Inl] p(2) w by (cases w') auto
  next
    case (Inr a)
    have b: "basg_BuildID a = b" using authorised_builder [OF Inr] assms(3) w by (simp add: log_good_def)
    show ?thesis
      using p Inr b w assms(2)
      by (cases w') (auto simp: putBuildLog_def ParseInt_FormatInt AppendBuildLog_def Let_def build_log_file_def
        writeProblem_def no_content_def split: if_splits prod.splits option.splits)
  qed
qed

lemma control_log:
  assumes "log_good cfg i b w" "in_i64 off" "bc_log (control_plane cfg builder) i off c w = (r, w')"
  shows "log_good cfg i b w'" "\<exists>k. build_log b w' = build_log b w @ take k c"
    "rep_status r = 204 \<Longrightarrow> length c \<le> 65536 \<Longrightarrow> build_log b w' = build_log b w @ c"
    "rep_status r = 409 \<Longrightarrow> build_log b w' = build_log b w"
    "rep_status r \<in> {204, 409} \<Longrightarrow> ans_body r = TextBody (FormatInt (int (length (build_log b w'))))"
proof -
  let ?p = "build_log_file b" let ?src = "LimitReader \<lparr>rd_data = c, rd_fails = False\<rparr> 4194305"
  let ?used = "\<lambda>fs. case node fs ?p of Some n \<Rightarrow> Inr (node_size n) | None \<Rightarrow> Inr 0"
  have "log_good cfg i b w' \<and> (\<exists>k. build_log b w' = build_log b w @ take k c) \<and>
    (rep_status r = 204 \<longrightarrow> length c \<le> 65536 \<longrightarrow> build_log b w' = build_log b w @ c) \<and>
    (rep_status r = 409 \<longrightarrow> build_log b w' = build_log b w) \<and>
    (rep_status r \<in> {204, 409} \<longrightarrow> ans_body r = TextBody (FormatInt (int (length (build_log b w')))))"
    using putBuildLog_cases [OF assms(3,2,1)]
  proof (elim disjE exE conjE)
    assume "w' = w" "rep_status r \<notin> {204, 409}"
    then show ?thesis using assms(1) by (auto intro: exI [of _ 0])
  next
    fix n err fs
    assume a: "append_file ?p ?used (maxLogBytes (FileLimits cfg)) off off ?src (api_files (snd w)) = ((n, err), fs)"
      and w': "w' = (fst w, (snd w)\<lparr>api_files := fs\<rparr>)"
      and r: "rep_status r = 204 \<longleftrightarrow> err = None" "rep_status r = 409 \<longleftrightarrow> err = Some ErrOffsetMismatch"
        "rep_status r \<in> {204, 409} \<longrightarrow> ans_body r = TextBody (FormatInt n)"
    have ok: "fs_ok (api_files (snd w))" using assms(1) by (simp add: log_good_def)
    have f: "appended ?p off off ?src (api_files (snd w)) n err fs"
      by (rule append_file_facts [OF ok a]) (auto split: option.splits)
    have bound: "int (length (file_content fs ?p)) \<le> max (maxLogBytes (FileLimits cfg)) (int (length (file_content (api_files (snd w)) ?p)))"
      by (rule append_bounded [OF ok a]) simp
    have logs: "build_log b w = file_content (api_files (snd w)) ?p" "build_log b w' = file_content fs ?p"
      using w' by (simp_all add: build_log_def)
    obtain k where k: "rd_data ?src = take k c" using LimitReader_prefix [of "\<lparr>rd_data = c, rd_fails = False\<rparr>" 4194305] by auto
    have whole: "rd_data ?src = c" if "length c \<le> 65536"
      using LimitReader_whole [of "\<lparr>rd_data = c, rd_fails = False\<rparr>" 4194305] that by simp
    have "log_good cfg i b w'"
      using assms(1) bound f w' logs by (simp add: log_good_def appended_def)
    moreover have "\<exists>k. build_log b w' = build_log b w @ take k c"
      using f logs unfolding appended_def k by (metis take_take)
    moreover have "build_log b w' = build_log b w @ c" if "err = None" "length c \<le> 65536"
      using f logs that whole unfolding appended_def by metis
    moreover have "build_log b w' = build_log b w" if "err = Some ErrOffsetMismatch"
      using f logs that unfolding appended_def by simp
    moreover have "n = int (length (build_log b w'))" if "err \<in> {None, Some ErrOffsetMismatch}"
      using f logs that unfolding appended_def by auto
    ultimately show ?thesis using r by auto
  qed
  then show "log_good cfg i b w'" "\<exists>k. build_log b w' = build_log b w @ take k c"
    "rep_status r = 204 \<Longrightarrow> length c \<le> 65536 \<Longrightarrow> build_log b w' = build_log b w @ c"
    "rep_status r = 409 \<Longrightarrow> build_log b w' = build_log b w"
    "rep_status r \<in> {204, 409} \<Longrightarrow> ans_body r = TextBody (FormatInt (int (length (build_log b w'))))"
    by blast+
qed

interpretation build_logs: build_log_service "bc_log (control_plane cfg builder) i" "build_log b" "log_good cfg i b"
  "maxLogBytes (FileLimits cfg)" for cfg builder i b
proof
  fix w off c
  let ?r = "bc_log (control_plane cfg builder) i off c w"
  have r: "?r = (fst ?r, snd ?r)" by simp
  assume g: "log_good cfg i b w"
  show "int (length (build_log b w)) \<le> maxLogBytes (FileLimits cfg) \<and> maxLogBytes (FileLimits cfg) < 9223372036854775808"
    using g by (simp add: log_good_def)
  assume o: "in_i64 off"
  note f = control_log [OF g o r]
  show "log_good cfg i b (snd ?r)" "\<exists>k. build_log b (snd ?r) = build_log b w @ take k c"
    "length c \<le> 65536 \<Longrightarrow> rep_status (fst ?r) = 204 \<Longrightarrow> build_log b (snd ?r) = build_log b w @ c"
    "rep_status (fst ?r) = 409 \<Longrightarrow> build_log b (snd ?r) = build_log b w"
    "rep_status (fst ?r) \<in> {204, 409} \<Longrightarrow> ans_body (fst ?r) = TextBody (FormatInt (int (length (build_log b (snd ?r)))))"
    using f by simp_all
qed

text \<open>With room, a holder of the assignment and nothing in the way of the file, the control plane takes the whole log.\<close>

lemma free_append:
  assumes "fs_ok fs" "free_path fs p" "p \<noteq> []"
    and used: "\<And>fs m d. node fs p = Some (Reg m d) \<Longrightarrow> used fs = Inr (int (length d))"
    and a: "append_file p used limit early offset source fs = ((n, err), fs')"
    and error: "\<And>fs e. used fs = Inl e \<Longrightarrow> e = NotDir"
  shows "free_path fs' p"
    and "offset \<noteq> int (length (file_content fs p)) \<Longrightarrow> err = Some ErrOffsetMismatch"
    and "offset = int (length (file_content fs p)) \<Longrightarrow> rd_data source \<noteq> '''' \<Longrightarrow> \<not> rd_fails source \<Longrightarrow>
      int (length (file_content fs p) + length (rd_data source)) \<le> limit \<Longrightarrow> err = None"
proof -
  obtain fs2 where f: "\<And>(used::fs \<Rightarrow> file_error + int) limit early offset source. append_file p used limit early offset source fs =
      (if int (length (file_content fs p)) \<noteq> offset
       then ((int (length (file_content fs p)), Some ErrOffsetMismatch), fs2)
       else (case used fs2 of
          Inl e \<Rightarrow> ((offset, Some e), fs2)
        | Inr u \<Rightarrow> if limit - u \<le> 0 then ((offset, Some ErrLimitExceeded), fs2)
            else copy_to p (file_content fs p) offset (limit - u) source fs2))"
    "fs_ok fs2" "\<exists>m. node fs2 p = Some (Reg m (file_content fs p))"
    by (rule free_path_opens [OF assms(1-3)]) blast
  from f(3) obtain m where m: "node fs2 p = Some (Reg m (file_content fs p))" by blast
  note u = used [OF m]
  have copy: "copied m (file_content fs p) (limit - int (length (file_content fs p))) source n err (node fs' p)"
    if "offset = int (length (file_content fs p))" "0 < limit - int (length (file_content fs p))"
  proof -
    have "copy_to p (file_content fs p) offset (limit - int (length (file_content fs p))) source fs2 = ((n, err), fs')"
      using a f(1) u that by simp
    from copy_to_facts [OF f(2) m that this] show ?thesis by blast
  qed
  have err: "err \<in> {None, Some ErrOffsetMismatch, Some ErrLimitExceeded, Some ReadFailed}"
  proof (cases "offset = int (length (file_content fs p)) \<and> 0 < limit - int (length (file_content fs p))")
    case True
    with copy show ?thesis by (auto simp: copied_def)
  next
    case False
    with a f(1) u show ?thesis by (auto split: if_splits)
  qed
  have ap: "appended p early offset source fs n err fs'" by (rule append_file_facts [OF assms(1) a error])
  then have "only_touches p fs fs'" "is_reg (node fs' p)" using err unfolding appended_def by blast+
  from free_path_kept [OF this assms(2)] show "free_path fs' p" by (simp add: strict_prefix_def)
  show "err = Some ErrOffsetMismatch" if "offset \<noteq> int (length (file_content fs p))"
    using a f(1) that by simp
  show "err = None" if "offset = int (length (file_content fs p))" "rd_data source \<noteq> ''''" "\<not> rd_fails source"
    "int (length (file_content fs p) + length (rd_data source)) \<le> limit"
  proof -
    have "0 < length (rd_data source)" using that(2) by simp
    then have "0 < limit - int (length (file_content fs p))" using that(4) by linarith
    from copy [OF that(1) this] show ?thesis using that(3,4) by (auto simp: copied_def)
  qed
qed

definition log_ready :: "build_config \<Rightarrow> string \<Rightarrow> string \<Rightarrow> string \<Rightarrow> build_world \<Rightarrow> bool" where
  "log_ready cfg builder i buildID w \<longleftrightarrow> log_good cfg i buildID w \<and>
     (\<exists>a. authorizeBuildAssignment builder i (snd w) = Inr a) \<and> safeSegment buildID \<and>
     free_path (api_files (snd w)) (build_log_file buildID)"

lemma ready_log:
  assumes "log_ready cfg builder i b w" "in_i64 off" "bc_log (control_plane cfg builder) i off c w = (r, w')"
  shows "log_ready cfg builder i b w'"
    and "0 \<le> off \<Longrightarrow> off \<noteq> int (length (build_log b w)) \<Longrightarrow> rep_status r = 409"
    and "off = int (length (build_log b w)) \<Longrightarrow> c \<noteq> '''' \<Longrightarrow> length c \<le> 65536 \<Longrightarrow>
      int (length (build_log b w) + length c) \<le> maxLogBytes (FileLimits cfg) \<Longrightarrow> rep_status r = 204"
proof -
  let ?p = "build_log_file b" let ?src = "LimitReader \<lparr>rd_data = c, rd_fails = False\<rparr> 4194305"
  let ?used = "\<lambda>fs. case node fs ?p of Some n \<Rightarrow> Inr (node_size n) | None \<Rightarrow> Inr 0"
  obtain t s where w: "w = (t, s)" by fastforce
  obtain asg where asg: "authorizeBuildAssignment builder i s = Inr asg" using assms(1) w by (auto simp: log_ready_def)
  have g: "log_good cfg i b w" "safeSegment b" "free_path (api_files s) ?p"
    using assms(1) w by (simp_all add: log_ready_def)
  have b: "basg_BuildID asg = b" using authorised_builder [OF asg] g(1) w by (simp add: log_good_def)
  have ok: "fs_ok (api_files s)" using g(1) w by (simp add: log_good_def)
  obtain n err fs where a: "append_file ?p ?used (maxLogBytes (FileLimits cfg)) off off ?src (api_files s) = ((n, err), fs)"
    by (metis surj_pair)
  have f: "free_path fs ?p" "off \<noteq> int (length (build_log b w)) \<Longrightarrow> err = Some ErrOffsetMismatch"
    "off = int (length (build_log b w)) \<Longrightarrow> c \<noteq> '''' \<Longrightarrow> length c \<le> 65536 \<Longrightarrow>
      int (length (build_log b w) + length c) \<le> maxLogBytes (FileLimits cfg) \<Longrightarrow> err = None"
  proof -
    have p: "?p \<noteq> []" by (simp add: build_log_file_def)
    have u: "\<And>fs m d. node fs ?p = Some (Reg m d) \<Longrightarrow> ?used fs = (Inr (int (length d)) :: file_error + int)"
      "\<And>fs e. ?used fs = (Inl e :: file_error + int) \<Longrightarrow> e = NotDir"
      by (auto split: option.splits)
    show "free_path fs ?p" by (rule free_append(1) [OF ok g(3) p _ a]) (erule u)+
    have f: "off \<noteq> int (length (file_content (api_files s) ?p)) \<Longrightarrow> err = Some ErrOffsetMismatch"
      by (rule free_append(2) [OF ok g(3) p _ a]) (erule u | assumption)+
    have f3: "off = int (length (file_content (api_files s) ?p)) \<Longrightarrow> rd_data ?src \<noteq> '''' \<Longrightarrow> \<not> rd_fails ?src \<Longrightarrow>
        int (length (file_content (api_files s) ?p) + length (rd_data ?src)) \<le> maxLogBytes (FileLimits cfg) \<Longrightarrow> err = None"
      by (rule free_append(3) [OF ok g(3) p _ a]) (erule u | assumption)+
    have l: "build_log b w = file_content (api_files s) ?p" using w by (simp add: build_log_def)
    show "err = Some ErrOffsetMismatch" if "off \<noteq> int (length (build_log b w))"
      using f that unfolding l .
    show "err = None" if "off = int (length (build_log b w))" "c \<noteq> ''''" "length c \<le> 65536"
      "int (length (build_log b w) + length c) \<le> maxLogBytes (FileLimits cfg)"
    proof -
      have "?src = \<lparr>rd_data = c, rd_fails = False\<rparr>"
        by (rule LimitReader_whole) (use that(3) in simp)
      with f3 that show ?thesis unfolding l by simp
    qed
  qed
  have p: "putBuildLog cfg builder i (FormatInt off) \<lparr>rd_data = c, rd_fails = False\<rparr> s = (r, snd w')" "fst w' = t"
    using assms(3) w by (auto simp: control_plane_def at_clock_def split: prod.splits)
  have h: "(if off < 0 then snd w' = s
      else snd w' = s\<lparr>api_files := fs\<rparr> \<and> (err = None \<longrightarrow> rep_status r = 204) \<and>
        (err = Some ErrOffsetMismatch \<longrightarrow> rep_status r = 409))"
    using p(1) asg b a assms(2) g(2)
    by (auto simp: putBuildLog_def ParseInt_FormatInt AppendBuildLog_def Let_def build_log_file_def
        writeProblem_def no_content_def split: if_splits prod.splits option.splits)
  show "log_ready cfg builder i b w'"
    using control_log(1) [OF g(1) assms(2,3)] asg g f(1) h w
    by (auto simp: log_ready_def authorizeBuildAssignment_def split: if_splits sum.splits)
  show "rep_status r = 409" if "0 \<le> off" "off \<noteq> int (length (build_log b w))"
    using h f(2) that by simp
  show "rep_status r = 204" if "off = int (length (build_log b w))" "c \<noteq> ''''" "length c \<le> 65536"
    "int (length (build_log b w) + length c) \<le> maxLogBytes (FileLimits cfg)"
    using h f(3) that by simp
qed

interpretation build_logs: build_log_room "bc_log (control_plane cfg builder) i" "build_log b" "log_good cfg i b"
  "maxLogBytes (FileLimits cfg)" "log_ready cfg builder i b" for cfg builder i b
proof
  fix w off c
  let ?r = "bc_log (control_plane cfg builder) i"
  assume g: "log_ready cfg builder i b w"
  then show "log_good cfg i b w" by (simp add: log_ready_def)
  show "log_ready cfg builder i b (snd (?r off c w))" if "in_i64 off"
    using ready_log(1) [OF g that surjective_pairing] .
  show "rep_status (fst (?r off c w)) = 409" if "0 \<le> off" "in_i64 off" "off \<noteq> int (length (build_log b w))"
    using ready_log(2) [OF g that(2) surjective_pairing that(1,3)] .
  show "rep_status (fst (?r (int (length (build_log b w))) c w)) = 204"
    if "c \<noteq> ''''" "length c \<le> 65536" "int (length (build_log b w) + length c) \<le> maxLogBytes (FileLimits cfg)"
  proof -
    have "in_i64 (int (length (build_log b w)))"
      using build_logs.stored_i64 [of cfg i b w] g by (simp add: log_ready_def)
    from ready_log(3) [OF g this surjective_pairing refl that] show ?thesis .
  qed
qed

end
