(* ===== verification/BuildImages.thy ===== *)
theory BuildImages
  imports BuildWorker FileSteps BuildSteps
begin

text \<open>
  The table of managed images against the file store: the steps of the build API and of the collection of old
  images, and the invariant that every image the table names is stored with its size and digest.
\<close>

section \<open>Rows and files\<close>

definition image_rows :: "db \<Rightarrow> (string \<times> string \<times> int) list" where
  "image_rows d = map (\<lambda>r. (mar_build_id r, mar_sha256 r, mar_size_bytes r)) (tbl_artifacts d)"

definition image_stored :: "fs \<Rightarrow> string \<times> string \<times> int \<Rightarrow> bool" where
  "image_stored fs x \<longleftrightarrow> (case x of (b, sha, n) \<Rightarrow> safeSegment b \<and>
     (\<exists>m data. node fs (artifact_file b) = Some (Reg m data) \<and> sha = SHA256 data \<and> n = int (length data)))"

definition images_match :: "api \<Rightarrow> bool" where
  "images_match s \<longleftrightarrow> store_ok (api_files s) \<and> distinct (map fst (image_rows (api_db s))) \<and>
     (\<forall>x\<in>set (image_rows (api_db s)). image_stored (api_files s) x)"

text \<open>The rest of the server: no change of the table, and none of the stored images.\<close>

definition spares_images :: "api \<Rightarrow> api \<Rightarrow> bool" where
  "spares_images s s' \<longleftrightarrow> image_rows (api_db s') = image_rows (api_db s) \<and>
     (store_ok (api_files s) \<longrightarrow> store_ok (api_files s') \<and>
      (\<forall>b. node (api_files s') (artifact_file b) = node (api_files s) (artifact_file b)))"

inductive image_step :: "api \<Rightarrow> api \<Rightarrow> bool" where
  create: "\<forall>p. prefix [''builds'', i] p \<longrightarrow> node (api_files s) p = None \<Longrightarrow> bt_tmp tools \<noteq> ''source'' \<Longrightarrow>
    image_step s (snd (createBuild cfg tools decode i parts now user rq s))"
| confirm: "image_step s (snd (confirmBuild cfg a i now user rq s))"
| cancel: "image_step s (snd (cancelBuild i now user rq s))"
| delete: "image_step s (snd (deleteBuild i now user rq s))"
| poll: "image_step s (snd (nextBuildAssignment cfg w now s))"
| heartbeat: "image_step s (snd (heartbeatBuildAssignment cfg w i now s))"
| log: "image_step s (snd (putBuildLog cfg w i off content s))"
| publish: "image_step s (snd (putBuildArtifact cfg w i digest img content now s))"
| complete: "image_step s (snd (completeBuildAssignment w i report now s))"
| serve: "image_step s (snd (getManagedArtifact n i now s))"
| collect: "image_step s (collect_images before s)"
| elsewhere: "spares_images s s' \<Longrightarrow> image_step s s'"

lemma spares_match: "images_match s \<Longrightarrow> spares_images s s' \<Longrightarrow> images_match s'"
  by (auto simp: images_match_def spares_images_def image_stored_def)

section \<open>Operations of the store\<close>

lemma image_rows_simps [simp]:
  "image_rows (d\<lparr>tbl_builds := x\<rparr>) = image_rows d" "image_rows (d\<lparr>tbl_build_events := e\<rparr>) = image_rows d"
  "image_rows (d\<lparr>tbl_build_plans := p\<rparr>) = image_rows d" "image_rows (d\<lparr>tbl_build_assignments := a\<rparr>) = image_rows d"
  "image_rows (d\<lparr>seq_build_events := n\<rparr>) = image_rows d"
  by (simp_all add: image_rows_def)

lemma push_build_event_images [simp]: "image_rows (push_build_event i st m now d) = image_rows d"
  by (simp add: push_build_event_def)

lemma start_build_images [simp]: "image_rows (start_build b a now d) = image_rows d"
  by (simp add: start_build_def Let_def)

lemma close_assignment_images [simp]: "image_rows (close_assignment i st now d) = image_rows d"
  by (simp add: close_assignment_def)

lemma settle_build_images: "settle_build b i st dg m now d = (r, d') \<Longrightarrow> image_rows d' = image_rows d"
  by (auto simp: settle_build_def Let_def split: if_splits prod.splits option.splits)

lemma image_rows_kept:
  "CreateBuild b d = (r1, d') \<Longrightarrow> image_rows d' = image_rows d"
  "UpdateBuildStatus i st dg m now d = (r2, d') \<Longrightarrow> image_rows d' = image_rows d"
  "SaveBuildPlan p d = (r3, d') \<Longrightarrow> image_rows d' = image_rows d"
  "QueueBuild i a now d = (r4, d') \<Longrightarrow> image_rows d' = image_rows d"
  "RequestBuildCancellation i now d = (r5, d') \<Longrightarrow> image_rows d' = image_rows d"
  "NextBuildWork w lease now d = (r6, d') \<Longrightarrow> image_rows d' = image_rows d"
  "RenewBuildAssignment i w lease now d = (r7, d') \<Longrightarrow> image_rows d' = image_rows d"
  "CompleteBuildAssignment i w ast dg m now d = (r8, d') \<Longrightarrow> image_rows d' = image_rows d"
  by (auto simp: CreateBuild_def UpdateBuildStatus_def SaveBuildPlan_def QueueBuild_def RequestBuildCancellation_def
      NextBuildWork_def RenewBuildAssignment_def CompleteBuildAssignment_def Let_def dest: settle_build_images
      split: if_splits sum.splits option.splits list.splits)

lemma image_rows_update:
  "(\<And>r. P r \<Longrightarrow> mar_build_id (f r) = mar_build_id r \<and> mar_sha256 (f r) = mar_sha256 r \<and>
     mar_size_bytes (f r) = mar_size_bytes r) \<Longrightarrow>
   image_rows (d\<lparr>tbl_artifacts := update_where P f (tbl_artifacts d)\<rparr>) = image_rows d"
  by (auto simp: image_rows_def update_where_def)

lemma touch_images: "ManagedArtifactForAssignment i n now d = (r, d') \<Longrightarrow> image_rows d' = image_rows d"
  by (auto simp: ManagedArtifactForAssignment_def touch_artifact_def image_rows_update split: option.splits)

lemma SaveManagedArtifact_images:
  assumes "SaveManagedArtifact art d = (r, d')"
  shows "image_rows d' = image_rows d \<or>
    r = Inr () \<and> art_BuildID art \<notin> fst ` set (image_rows d) \<and>
      image_rows d' = image_rows d @ [(art_BuildID art, art_SHA256 art, art_Size art)]"
proof -
  have new: "b \<notin> fst ` set (image_rows d)" if "artifact_row b d = None" for b
    using that by (auto simp: artifact_row_def find_None_iff image_rows_def)
  have more: "image_rows (d\<lparr>tbl_artifacts := tbl_artifacts d @ [x]\<rparr>) =
      image_rows d @ [(mar_build_id x, mar_sha256 x, mar_size_bytes x)]" for x
    by (simp add: image_rows_def)
  show ?thesis
    using assms by (auto simp: SaveManagedArtifact_def image_rows_update more dest: new split: if_splits option.splits)
qed

lemma DeleteBuild_images:
  assumes "BuildStore.DeleteBuild i d = (r, d')"
  shows "r = Inr () \<and> image_rows d' = filter (\<lambda>x. fst x \<noteq> i) (image_rows d) \<or> is_ok r = False \<and> d' = d"
  using assms
  by (auto simp: BuildStore.DeleteBuild_def delete_where_def image_rows_def filter_map o_def split: if_splits option.splits)

lemma GarbageCollect_images:
  assumes "GarbageCollectManagedArtifacts before d = (found, d')" "distinct (map fst (image_rows d))"
  shows "image_rows d' = filter (\<lambda>x. fst x \<notin> art_BuildID ` set found) (image_rows d)"
proof -
  let ?gone = "\<lambda>a r. mar_build_id r = mar_build_id a \<and> stamp_less (mar_last_referenced_at r) (formatTime before) \<and>
    \<not> image_referenced d (ManagedArtifactReference (mar_build_id a) (mar_digest a))"
  have fold: "tbl_artifacts (foldl (collect_one before) e as) = filter (\<lambda>r. \<forall>a\<in>set as. \<not> ?gone a r) (tbl_artifacts e)"
    if "tbl_jobs e = tbl_jobs d" for e "as"
    using that
  proof (induction "as" arbitrary: e)
    case (Cons a as)
    have "image_referenced e x = image_referenced d x" for x using Cons.prems by (simp add: image_referenced_def)
    then have one: "tbl_artifacts (collect_one before e a) = filter (\<lambda>r. \<not> ?gone a r) (tbl_artifacts e)"
      by (simp add: collect_one_def delete_where_def)
    have "tbl_jobs (collect_one before e a) = tbl_jobs d" using Cons.prems by (simp add: collect_one_def)
    from Cons.IH [OF this] show ?case unfolding foldl.simps one by (auto intro: filter_cong)
  qed simp
  let ?old = "filter (collectable before d) (tbl_artifacts d)"
  have found: "found = map scanManagedArtifact ?old" "d' = foldl (collect_one before) d ?old"
    using assms(1) by (simp_all add: GarbageCollectManagedArtifacts_def Let_def)
  have dist: "r = a" if "r \<in> set (tbl_artifacts d)" "a \<in> set (tbl_artifacts d)" "mar_build_id r = mar_build_id a" for r a
    using assms(2) that by (auto simp: image_rows_def distinct_map o_def inj_on_def)
  have "(\<forall>a\<in>set ?old. \<not> ?gone a r) \<longleftrightarrow> mar_build_id r \<notin> mar_build_id ` set ?old"
    if "r \<in> set (tbl_artifacts d)" for r
    using dist [OF that] that by (auto simp: collectable_def)
  moreover have "art_BuildID ` set found = mar_build_id ` set ?old"
    by (simp add: found(1) scanManagedArtifact_def image_image)
  ultimately have "tbl_artifacts d' = filter (\<lambda>r. mar_build_id r \<notin> art_BuildID ` set found) (tbl_artifacts d)"
    unfolding found(2) fold [OF refl] by (intro filter_cong) auto
  then show ?thesis by (simp add: image_rows_def filter_map o_def)
qed

section \<open>Operations on files\<close>

lemma artifact_file_outside: "prefix [''builds'', i] (artifact_file b) \<longleftrightarrow> b = i"
  by (auto simp: artifact_file_def)

lemma frame_spares:
  assumes "frame [''builds'', i] fs fs'" "b \<noteq> i"
  shows "node fs' (artifact_file b) = node fs (artifact_file b)"
  using assms artifact_file_outside by (auto simp: frame_def)

lemma StoreBuildArtifact_result:
  assumes "StoreBuildArtifact b source limit fs = (r, fs')"
  shows "r = Inr m \<Longrightarrow> image_stored fs' (b, bam_SHA256 m, bam_Size m)"
    and "r = Inr m \<Longrightarrow> bam_Created m \<Longrightarrow> node fs (artifact_file b) = None"
    and "node fs (artifact_file b) \<noteq> None \<Longrightarrow> fs' = fs"
  using assms
  by (auto simp: StoreBuildArtifact_def Let_def Lstat_def image_stored_def split: if_splits option.splits
      fnode.splits sum.splits)

lemma OpenBuildArtifact_stored:
  "image_stored fs (b, sha, n) \<Longrightarrow> \<exists>data. OpenBuildArtifact fs b = Inr data \<and> sha = SHA256 data \<and> n = int (length data)"
  by (auto simp: image_stored_def OpenBuildArtifact_def Lstat_def)

lemma StoreBuildSource_other:
  assumes "StoreBuildSource cfg b name source fs = (r, fs')" "\<not> prefix q (source_file b)"
  shows "node fs' q = node fs q"
proof -
  have "fs' = fs \<or> (\<exists>fs1. MkdirAll (butlast (source_file b)) fs = Inr fs1 \<and>
      (fs' = fs1 \<or> (\<exists>d. fs' = put (source_file b) (Reg 288 d) fs1)))"
    using assms(1) by (auto simp: StoreBuildSource_def Let_def split: if_splits sum.splits)
  moreover have "node fs1 q = node fs q" if "MkdirAll (butlast (source_file b)) fs = Inr fs1" for fs1
    using MkdirAll_node [OF that, of q] assms(2) butlast_prefix prefix_order.trans by metis
  ultimately show ?thesis using assms(2) by auto
qed

text \<open>What a request for one build leaves: a well-formed store, unchanged elsewhere.\<close>

definition own_files :: "string \<Rightarrow> fs \<Rightarrow> fs \<Rightarrow> bool" where
  "own_files i fs fs' \<longleftrightarrow> store_ok fs' \<and> frame [''builds'', i] fs fs'"

lemma own_files_frame: "store_ok fs \<Longrightarrow> frame [''builds'', i] fs fs' \<Longrightarrow> own_files i fs fs'"
  unfolding own_files_def using frame_store_ok by blast

lemma own_files_refl: "store_ok fs \<Longrightarrow> own_files i fs fs"
  by (simp add: own_files_def frame_refl store_ok_def)

lemma own_files_trans: "own_files i fs fs' \<Longrightarrow> own_files i fs' fs'' \<Longrightarrow> own_files i fs fs''"
  unfolding own_files_def using frame_trans by blast

lemma own_files_ok: "own_files i fs fs' \<Longrightarrow> store_ok fs'"
  by (simp add: own_files_def)

lemma own_files_remove: "store_ok fs \<Longrightarrow> prefix [''builds'', i] p \<Longrightarrow> own_files i fs (RemoveAll p fs)"
  by (intro own_files_frame frame_remove) (auto simp: store_ok_def)

lemma own_files_log: "store_ok fs \<Longrightarrow> own_files i fs (snd (AppendBuildLog cfg i off src fs))"
  using own_files_frame AppendBuildLog_frame [OF _ surjective_pairing] by blast

lemma own_files_delete: "store_ok fs \<Longrightarrow> own_files i fs (snd (FileObjects.DeleteBuild i fs))"
  by (auto simp: FileObjects.DeleteBuild_def intro: own_files_refl own_files_remove)

lemma build_parts_own:
  assumes "build_parts cfg decode i parts m src fs = (r, fs')" "store_ok fs" "tmp \<noteq> ''source''"
    "node fs [''builds'', i, tmp] = None"
  shows "own_files i fs fs' \<and> node fs' [''builds'', i, tmp] = None"
  using assms
proof (induction cfg decode i parts m src fs arbitrary: r fs' rule: build_parts.induct)
  case (1 cfg decode i m src fs)
  then show ?case by (auto intro: own_files_refl)
next
  case (2 cfg decode i parts m src fs)
  then show ?case by (auto intro: own_files_refl)
next
  case (3 cfg decode i name filename content parts m src fs)
  have stored: "own_files i fs fs1 \<and> node fs1 [''builds'', i, tmp] = None"
    if "StoreBuildSource cfg i filename content fs = (x, fs1)" for x fs1
    using own_files_frame [OF 3(4) StoreBuildSource_frame [OF 3(4) that]] StoreBuildSource_other [OF that] 3(5,6)
    by (simp add: source_file_def)
  note p = 3(3) [unfolded build_parts.simps]
  show ?case
  proof (cases "name = ''metadata''")
    case True
    show ?thesis
    proof (cases "m \<noteq> None \<or> \<not> is_ok (metadata_part decode content)")
      case True
      then have "fs' = fs" using p \<open>name = ''metadata''\<close> by (auto split: if_splits sum.splits)
      then show ?thesis using 3 by (simp add: own_files_refl)
    next
      case False
      then obtain x where x: "metadata_part decode content = Inr x" "m = None" by (auto simp: is_ok_iff)
      have "build_parts cfg decode i parts (Some x) src fs = (r, fs')" using p x True by simp
      from 3(1) [OF True _ x(1) this 3(4-6)] x(2) show ?thesis by simp
    qed
  next
    case False
    consider "fs' = fs" | x fs1 where "StoreBuildSource cfg i filename content fs = (x, fs1)" "fs' = fs1"
      | x fs1 where "name = ''source''" "\<not> (src \<noteq> None \<or> filename = '''')"
        "StoreBuildSource cfg i filename content fs = (Inr x, fs1)"
        "build_parts cfg decode i parts m (Some \<lparr>src_Filename = bsm_Filename x, src_Size = bsm_Size x,
           src_SHA256 = bsm_SHA256 x\<rparr>) fs1 = (r, fs')"
      using p False by (auto split: if_splits sum.splits prod.splits)
    then show ?thesis
    proof cases
      case 1
      then show ?thesis using 3 by (simp add: own_files_refl)
    next
      case (2 x fs1)
      then show ?thesis using stored by simp
    next
      case c: (3 x fs1)
      note s = stored [OF c(3)]
      have "store_ok fs1" using s own_files_ok by blast
      from 3(2) [OF False c(1,2) c(3) [symmetric] refl c(4) this 3(5)] s
      have "own_files i fs1 fs'" "node fs' [''builds'', i, tmp] = None" by simp_all
      then show ?thesis using s own_files_trans by blast
    qed
  qed
qed

section \<open>The steps keep the images\<close>

lemma UpdateBuildStatus_id: "UpdateBuildStatus i st dg m now d = (Inr b, d') \<Longrightarrow> build_ID b = i"
  by (auto simp: UpdateBuildStatus_def Build_def build_row_def scanBuild_def Let_def find_Some_iff
      split: if_splits sum.splits option.splits)

text \<open>What the analysis of build \<open>i\<close> may do.\<close>

definition own_build :: "string \<Rightarrow> api \<Rightarrow> api \<Rightarrow> bool" where
  "own_build i s s' \<longleftrightarrow> own_files i (api_files s) (api_files s') \<and> image_rows (api_db s') = image_rows (api_db s)"

lemma own_build_trans: "own_build i s s' \<Longrightarrow> own_build i s' s'' \<Longrightarrow> own_build i s s''"
  by (auto simp: own_build_def intro: own_files_trans)

lemma fail_analysis_own:
  "fail_analysis build m now s = (b, s') \<Longrightarrow> store_ok (api_files s) \<Longrightarrow> own_build i s s'"
  by (auto simp: fail_analysis_def own_build_def own_files_refl dest: image_rows_kept split: prod.splits sum.splits)

lemma analyzed_own:
  assumes "analyzed tools cfg build project now s = (b, s')" "store_ok (api_files s)"
  shows "own_build (build_ID build) s s'"
proof -
  let ?i = "build_ID build"
  obtain logs result where a: "bt_analyze tools (api_files s) project = (logs, result)" by fastforce
  define s1 where "s1 = (if logs = '''' then s
      else s\<lparr>api_files := snd (AppendBuildLog cfg ?i 0 \<lparr>rd_data = logs, rd_fails = False\<rparr> (api_files s))\<rparr>)"
  have o1: "own_build ?i s s1"
    using assms(2) by (simp add: s1_def own_build_def own_files_refl own_files_log)
  then have ok1: "store_ok (api_files s1)" by (auto simp: own_build_def intro: own_files_ok)
  define res where "res = (case result of
               Inl message \<Rightarrow> fail_analysis build message now s1
             | Inr a \<Rightarrow>
                 (case SaveBuildPlan (analysis_plan ?i a now) (api_db s1) of
                    (Inl e, d) \<Rightarrow>
                      fail_analysis build (''Unable to persist the Railpack build plan: '' @ bt_store_error tools e)
                        now (s1\<lparr>api_db := d\<rparr>)
                  | (Inr _, d) \<Rightarrow> (build, s1\<lparr>api_db := d\<rparr>)))"
  obtain b2 s2 where r: "res = (b2, s2)" by fastforce
  have o2: "own_build ?i s1 s2"
  proof (cases result)
    case (Inl m)
    then show ?thesis using r fail_analysis_own [OF _ ok1] by (simp add: res_def)
  next
    case (Inr x)
    obtain y d where p: "SaveBuildPlan (analysis_plan ?i x now) (api_db s1) = (y, d)" by fastforce
    have d: "own_build ?i s1 (s1\<lparr>api_db := d\<rparr>)"
      using image_rows_kept(3) [OF p] ok1 by (simp add: own_build_def own_files_refl)
    show ?thesis
    proof (cases y)
      case (Inl e)
      then have "fail_analysis build (''Unable to persist the Railpack build plan: '' @ bt_store_error tools e)
          now (s1\<lparr>api_db := d\<rparr>) = (b2, s2)"
        using r \<open>result = Inr x\<close> p by (simp add: res_def)
      from fail_analysis_own [OF this] ok1 d show ?thesis by (auto intro: own_build_trans)
    next
      case (Inr u)
      then show ?thesis using r \<open>result = Inr x\<close> p d by (simp add: res_def)
    qed
  qed
  then have ok2: "store_ok (api_files s2)" by (auto simp: own_build_def intro: own_files_ok)
  have "s' = s2\<lparr>api_files := RemoveAll [''builds'', ?i, bt_tmp tools] (api_files s2)\<rparr>"
    using assms(1) a unfolding analyzed_def Let_def by (simp add: r [unfolded res_def s1_def])
  moreover have "own_files ?i (api_files s2) (RemoveAll [''builds'', ?i, bt_tmp tools] (api_files s2))"
    by (rule own_files_remove [OF ok2]) simp
  ultimately have "own_build ?i s2 s'" by (simp add: own_build_def)
  with o1 o2 show ?thesis by (blast intro: own_build_trans)
qed

lemma analyzeBuild_own:
  assumes "analyzeBuild tools cfg build now s = (b, s')" "store_ok (api_files s)"
    "node (api_files s) [''builds'', build_ID build, bt_tmp tools] = None"
  shows "own_build (build_ID build) s s'"
proof -
  let ?i = "build_ID build"
  obtain x d where u: "UpdateBuildStatus ?i BuildAnalyzing '''' ''Analyzing source with Railpack'' now (api_db s) = (x, d)"
    by fastforce
  have d: "own_build ?i s (s\<lparr>api_db := d\<rparr>)"
    using image_rows_kept(2) [OF u] assms(2) by (simp add: own_build_def own_files_refl)
  show ?thesis
  proof (cases x)
    case (Inl e)
    then show ?thesis using assms(1) u d by (simp add: analyzeBuild_def)
  next
    case (Inr build1)
    have i: "build_ID build1 = ?i" using UpdateBuildStatus_id u Inr by blast
    obtain y fs where p: "PrepareBuildSource (bt_unzip tools) (bt_untar tools) cfg ?i
        (src_Filename (build_Source build1)) (bt_tmp tools) (api_files s) = (y, fs)" by fastforce
    have o: "own_files ?i (api_files s) fs"
      by (rule own_files_frame [OF assms(2) frame_smaller [OF PrepareBuildSource_facts(1) [OF assms(2,3) p]]]) simp
    have o1: "own_build ?i s (s\<lparr>api_db := d, api_files := fs\<rparr>)" using d o by (simp add: own_build_def)
    have ok: "store_ok fs" using o by (rule own_files_ok)
    show ?thesis
    proof (cases y)
      case (Inl e)
      then have "fail_analysis build1 (bt_error tools e) now (s\<lparr>api_db := d, api_files := fs\<rparr>) = (b, s')"
        using assms(1) u Inr p i by (simp add: analyzeBuild_def Let_def)
      from fail_analysis_own [OF this] ok o1 show ?thesis by (auto intro: own_build_trans)
    next
      case c: (Inr project)
      then have "analyzed tools cfg build1 project now (s\<lparr>api_db := d, api_files := fs\<rparr>) = (b, s')"
        using assms(1) u Inr p i by (simp add: analyzeBuild_def Let_def)
      from analyzed_own [OF this] ok o1 i show ?thesis by (auto intro: own_build_trans)
    qed
  qed
qed

lemma own_build_match:
  assumes "images_match s" "own_build i s s'" "node (api_files s) (artifact_file i) = None"
  shows "images_match s'"
proof -
  have "image_stored (api_files s') x" if x: "x \<in> set (image_rows (api_db s))" for x
  proof -
    have st: "image_stored (api_files s) x" using assms(1) x by (simp add: images_match_def)
    then have "fst x \<noteq> i" using assms(3) by (auto simp: image_stored_def)
    from frame_spares [OF _ this, of "api_files s" "api_files s'"] assms(2) st show ?thesis
      by (auto simp: own_build_def own_files_def image_stored_def)
  qed
  then show ?thesis using assms(1,2) by (auto simp: images_match_def own_build_def own_files_def)
qed

lemma api_simps [simp]:
  "api_files (audit u act ty i m now s) = api_files s" "api_db (audit u act ty i m now s) = api_db s"
  "api_files (idem_abort rq u s) = api_files s" "api_db (idem_abort rq u s) = api_db s"
  "api_files (snd (idem_write rq u st b s)) = api_files s" "api_db (snd (idem_write rq u st b s)) = api_db s"
  by (simp_all add: audit_def idem_abort_def idem_write_def)

lemma begin_spares: "beginIdempotency rq u now s = (x, s') \<Longrightarrow> api_files s' = api_files s \<and> api_db s' = api_db s"
  by (auto simp: beginIdempotency_def split: if_splits prod.splits sum.splits option.splits)

lemma fail_build_own:
  "store_ok (api_files s) \<Longrightarrow> own_build i s (snd (fail_build rq u i r s))"
  by (simp add: fail_build_def Let_def own_build_def own_files_delete)

lemma createBuild_own:
  assumes "store_ok (api_files s)" "\<forall>p. prefix [''builds'', i] p \<longrightarrow> node (api_files s) p = None" "bt_tmp tools \<noteq> ''source''"
  shows "own_build i s (snd (createBuild cfg tools decode i parts now user rq s))"
proof (cases "sourceBuildsEnabled (builder_config.truncate cfg)")
  case False
  then show ?thesis using assms(1) by (simp add: createBuild_def own_build_def own_files_refl)
next
  case True
  obtain x s0 where b: "beginIdempotency rq (user_ID user) now s = (x, s0)" by fastforce
  have s0: "api_files s0 = api_files s" "api_db s0 = api_db s" using begin_spares [OF b] by simp_all
  have o0: "own_build i s s0" using assms(1) s0 by (simp add: own_build_def own_files_refl)
  have ok0: "store_ok (api_files s0)" using assms(1) s0 by simp
  have tmp: "node (api_files s0) [''builds'', i, bt_tmp tools] = None" using assms(2) s0 by simp
  show ?thesis
  proof (cases x)
    case (Inl a)
    then show ?thesis using True b o0 by (simp add: createBuild_def)
  next
    case (Inr u)
    show ?thesis
    proof (cases parts)
      case None
      then show ?thesis
        using True b Inr own_build_trans [OF o0 fail_build_own [OF ok0]] by (simp add: createBuild_def)
    next
      case (Some ps)
      obtain y fs where p: "build_parts (FileLimits cfg) decode i ps None None (api_files s0) = (y, fs)" by fastforce
      have own: "own_files i (api_files s0) fs" "node fs [''builds'', i, bt_tmp tools] = None"
        using build_parts_own [OF p ok0 assms(3) tmp] by simp_all
      let ?s = "s0\<lparr>api_files := fs\<rparr>"
      have o1: "own_build i s ?s" using s0 own(1) by (simp add: own_build_def)
      have ok1: "store_ok fs" using own(1) by (rule own_files_ok)
      show ?thesis
      proof (cases y)
        case c: (Inl r)
        then show ?thesis
          using True b Inr Some p own_build_trans [OF o1 fail_build_own] ok1 by (simp add: createBuild_def)
      next
        case c: (Inr z)
        obtain m source where z: "z = (m, source)" by fastforce
        let ?build = "new_build i (user_ID user) m source now"
        have bi: "build_ID ?build = i" by (simp add: new_build_def Let_def)
        obtain v d where cb: "CreateBuild ?build (api_db s0) = (v, d)" by fastforce
        have d: "image_rows d = image_rows (api_db s0)" by (rule image_rows_kept(1) [OF cb])
        show ?thesis
        proof (cases "is_ok (ValidateBuild ?build) \<and> is_ok v")
          case False
          have "own_build i s (?s\<lparr>api_db := d\<rparr>)" using o1 d by (simp add: own_build_def)
          then have "own_build i s (snd (fail_build rq (user_ID user) i r (?s\<lparr>api_db := d\<rparr>)))"
            "own_build i s (snd (fail_build rq (user_ID user) i r ?s))" for r
            using o1 own_build_trans fail_build_own ok1 by simp_all
          then show ?thesis
            using False True b Inr Some p c z cb
            by (cases v) (auto simp: createBuild_def Let_def is_ok_def split: if_splits)
        next
          case ok: True
          then obtain w where w: "v = Inr w" by (auto simp: is_ok_iff)
          define s2 where "s2 = audit (user_ID user) ''build.create'' ''build'' i
            [(''mode'', JStr (mode_text (build_Mode ?build))), (''source_sha256'', JStr (src_SHA256 source))] now
            (?s\<lparr>api_db := d\<rparr>)"
          have o2: "own_build i s s2" "api_files s2 = fs" using o1 d by (simp_all add: s2_def own_build_def)
          have an: "own_build i s2 s3" if "analyzeBuild tools (FileLimits cfg) ?build now s2 = (b', s3)" for b' s3
            using analyzeBuild_own [OF that] o2(2) ok1 own(2) bi by simp
          obtain b' s3 where r: "(if build_Mode ?build = BuildModeRailpack
              then analyzeBuild tools (FileLimits cfg) ?build now s2 else (?build, s2)) = (b', s3)" by fastforce
          have o3: "own_build i s s3" using r an o2 own_build_trans by (auto split: if_splits)
          have "snd (createBuild cfg tools decode i parts now user rq s) =
              snd (idem_write rq (user_ID user) 201 (BuildBody b') s3)"
            using True b Inr Some p c z cb ok w r unfolding s2_def
            by (cases "build_Mode ?build = BuildModeRailpack") (auto simp: createBuild_def Let_def)
          then show ?thesis using o3 by (simp add: own_build_def)
        qed
      qed
    qed
  qed
qed

text \<open>Requests that change no file and not the table.\<close>

lemma same_files_spare:
  "api_files s' = api_files s \<Longrightarrow> image_rows (api_db s') = image_rows (api_db s) \<Longrightarrow> spares_images s s'"
  by (simp add: spares_images_def)

lemma user_requests_spare:
  "spares_images s (snd (confirmBuild cfg a i now user rq s))"
  "spares_images s (snd (cancelBuild i now user rq s))"
  by (auto simp: confirmBuild_def cancelBuild_def dest!: begin_spares image_rows_kept
      intro!: same_files_spare split: sum.splits prod.splits if_splits)

lemma builder_requests_spare:
  "spares_images s (snd (nextBuildAssignment cfg w now s))"
  "spares_images s (snd (heartbeatBuildAssignment cfg w i now s))"
  "spares_images s (snd (completeBuildAssignment w i report now s))"
  by (auto simp: nextBuildAssignment_def heartbeatBuildAssignment_def completeBuildAssignment_def
      dest!: image_rows_kept intro!: same_files_spare split: sum.splits prod.splits if_splits option.splits)

lemma getManagedArtifact_spares: "spares_images s (snd (getManagedArtifact n i now s))"
  by (auto simp: getManagedArtifact_def dest!: touch_images intro!: same_files_spare split: sum.splits prod.splits)

lemma AppendBuildLog_node:
  assumes "store_ok fs" "AppendBuildLog cfg b off src fs = (r, fs')"
  shows "node fs' (artifact_file c) = node fs (artifact_file c)"
proof -
  let ?p = "[''builds'', b, ''logs'', ''build.log'']"
  obtain n err where r: "r = (n, err)" by fastforce
  have "fs' = fs \<or> only_touches ?p fs fs'"
  proof (cases "safeSegment b")
    case True
    then have "append_file ?p (\<lambda>fs. case node fs ?p of Some n \<Rightarrow> Inr (node_size n) | None \<Rightarrow> Inr 0)
        (maxLogBytes cfg) off off src fs = ((n, err), fs')"
      using assms(2) r by (simp add: AppendBuildLog_def Let_def)
    then have "appended ?p off off src fs n err fs'"
      by (rule append_file_facts [rotated]) (use assms(1) in \<open>auto simp: store_ok_def split: option.splits\<close>)
    then show ?thesis unfolding appended_def by blast
  qed (use assms(2) in \<open>simp add: AppendBuildLog_def\<close>)
  moreover have "artifact_file c \<noteq> ?p" "\<not> prefix (artifact_file c) ?p" by (simp_all add: artifact_file_def)
  ultimately show ?thesis unfolding only_touches_def by metis
qed

lemma putBuildLog_spares: "spares_images s (snd (putBuildLog cfg w i off content s))"
proof -
  have "spares_images s (s\<lparr>api_files := fs\<rparr>)" if "AppendBuildLog lim b off src (api_files s) = (r, fs)" for lim b off src r fs
    using AppendBuildLog_node [OF _ that] own_files_log [of "api_files s" b lim off src] that
    by (auto simp: spares_images_def own_files_def)
  then show ?thesis
    by (auto simp: putBuildLog_def same_files_spare split: sum.splits prod.splits if_splits option.splits)
qed

lemma deleteBuild_match:
  assumes "images_match s"
  shows "images_match (snd (deleteBuild i now user rq s))"
proof -
  have ok: "store_ok (api_files s)" using assms by (simp add: images_match_def)
  have "images_match (s\<lparr>api_db := d, api_files := snd (FileObjects.DeleteBuild j (api_files s)), api_accounts := x\<rparr>)"
    if d: "BuildStore.DeleteBuild j (api_db s) = (Inr (), d)" for j d x
  proof -
    have rows: "image_rows d = filter (\<lambda>x. fst x \<noteq> j) (image_rows (api_db s))"
      using DeleteBuild_images [OF d] by simp
    have o: "own_files j (api_files s) (snd (FileObjects.DeleteBuild j (api_files s)))" by (rule own_files_delete [OF ok])
    have "image_stored (snd (FileObjects.DeleteBuild j (api_files s))) x"
      if "image_stored (api_files s) x" "fst x \<noteq> j" for x
      using frame_spares [of j "api_files s" _ "fst x"] o that by (auto simp: own_files_def image_stored_def)
    then show ?thesis
      using assms o by (auto simp: images_match_def rows own_files_def distinct_map_filter)
  qed
  then show ?thesis
    using assms DeleteBuild_images
    by (fastforce simp: deleteBuild_def Let_def split: sum.splits prod.splits)
qed

lemma collect_match:
  assumes "images_match s"
  shows "images_match (collect_images before s)"
proof -
  obtain found d where g: "GarbageCollectManagedArtifacts before (api_db s) = (found, d)" by fastforce
  have rows: "image_rows d = filter (\<lambda>x. fst x \<notin> art_BuildID ` set found) (image_rows (api_db s))"
    by (rule GarbageCollect_images [OF g]) (use assms in \<open>simp add: images_match_def\<close>)
  have files: "store_ok (foldl (\<lambda>fs a. snd (DeleteBuildArtifact (art_BuildID a) fs)) fs as) \<and>
      (\<forall>b. b \<notin> art_BuildID ` set as \<longrightarrow>
        node (foldl (\<lambda>fs a. snd (DeleteBuildArtifact (art_BuildID a) fs)) fs as) (artifact_file b) = node fs (artifact_file b))"
    if "store_ok fs" for fs "as"
    using that
  proof (induction "as" arbitrary: fs)
    case (Cons a as)
    have o: "own_files (art_BuildID a) fs (snd (DeleteBuildArtifact (art_BuildID a) fs))"
      using Cons.prems by (auto simp: DeleteBuildArtifact_def intro: own_files_refl own_files_remove)
    from Cons.IH [OF own_files_ok [OF this]] frame_spares [of "art_BuildID a" fs] o show ?case
      by (auto simp: own_files_def)
  qed simp
  have "image_stored (foldl (\<lambda>fs a. snd (DeleteBuildArtifact (art_BuildID a) fs)) (api_files s) found) x"
    if "image_stored (api_files s) x" "fst x \<notin> art_BuildID ` set found" for x
    using files [of "api_files s" found] that assms by (auto simp: image_stored_def images_match_def)
  then show ?thesis
    using assms files [of "api_files s" found]
    by (auto simp: images_match_def collect_images_def g rows distinct_map_filter)
qed

lemma image_stored_other:
  "own_files i fs fs' \<Longrightarrow> image_stored fs x \<Longrightarrow> fst x \<noteq> i \<Longrightarrow> image_stored fs' x"
  using frame_spares [of i fs fs' "fst x"] by (auto simp: own_files_def image_stored_def)

text \<open>A publication: the file first, then the row; the file goes again when the row cannot be written.\<close>

lemma save_artifact_match:
  assumes m: "images_match s" and st: "StoreBuildArtifact b content limit (api_files s) = (Inr meta, fs)"
    and art: "art_BuildID art = b" "art_SHA256 art = bam_SHA256 meta" "art_Size art = bam_Size meta"
  shows "images_match (snd (save_artifact art (bam_Created meta) (s\<lparr>api_files := fs\<rparr>)))"
proof -
  have ok: "store_ok (api_files s)" using m by (simp add: images_match_def)
  note r = StoreBuildArtifact_result [OF st]
  have own: "own_files b (api_files s) fs" by (rule own_files_frame [OF ok StoreBuildArtifact_frame [OF ok st]])
  have old: "image_stored fs x" if x: "x \<in> set (image_rows (api_db s))" for x
  proof (cases "fst x = b")
    case True
    have "image_stored (api_files s) x" using m x by (simp add: images_match_def)
    with True r(3) show ?thesis by (auto simp: image_stored_def)
  qed (use image_stored_other [OF own] m x in \<open>auto simp: images_match_def\<close>)
  obtain y d where sv: "SaveManagedArtifact art (api_db s) = (y, d)" by fastforce
  have dist: "distinct (map fst (image_rows (api_db s)))" using m by (simp add: images_match_def)
  show ?thesis
  proof (cases y)
    case (Inr u)
    have "images_match (s\<lparr>api_files := fs, api_db := d\<rparr>)"
      using SaveManagedArtifact_images [OF sv] old own_files_ok [OF own] dist r(1) [OF refl] art
      by (auto simp: images_match_def)
    then show ?thesis using sv Inr by (simp add: save_artifact_def)
  next
    case (Inl e)
    have rows: "image_rows d = image_rows (api_db s)" using SaveManagedArtifact_images [OF sv] Inl by auto
    have kept: "images_match (s\<lparr>api_db := d, api_files := fs\<rparr>)"
      using rows old own_files_ok [OF own] dist by (simp add: images_match_def)
    show ?thesis
    proof (cases "bam_Created meta")
      case True
      then have none: "x \<in> set (image_rows (api_db s)) \<Longrightarrow> fst x \<noteq> b" for x
        using r(2) [OF refl] m by (auto simp: images_match_def image_stored_def)
      have o2: "own_files b fs (snd (DeleteBuildArtifact b fs))"
        using own_files_ok [OF own] by (auto simp: DeleteBuildArtifact_def intro: own_files_refl own_files_remove)
      have "images_match (s\<lparr>api_db := d, api_files := snd (DeleteBuildArtifact b fs)\<rparr>)"
        using rows old none own_files_ok [OF o2] dist image_stored_other [OF o2] by (simp add: images_match_def)
      then show ?thesis using sv Inl True art by (simp add: save_artifact_def)
    next
      case False
      then show ?thesis using sv Inl kept by (simp add: save_artifact_def)
    qed
  qed
qed

lemma putBuildArtifact_match:
  assumes "images_match s"
  shows "images_match (snd (putBuildArtifact cfg w i digest img content now s))"
proof -
  have ok: "store_ok (api_files s)" using assms by (simp add: images_match_def)
  have stored: "images_match (s\<lparr>api_files := fs\<rparr>)"
    if st: "StoreBuildArtifact b content limit (api_files s) = (x, fs)" for b limit x fs
  proof -
    have own: "own_files b (api_files s) fs" by (rule own_files_frame [OF ok StoreBuildArtifact_frame [OF ok st]])
    have "image_stored fs y" if y: "image_stored (api_files s) y" for y
    proof (cases "fst y = b")
      case True
      with y StoreBuildArtifact_result(3) [OF st] show ?thesis by (auto simp: image_stored_def)
    qed (use image_stored_other [OF own] y in auto)
    then show ?thesis using assms own_files_ok [OF own] by (auto simp: images_match_def)
  qed
  show ?thesis
  proof (cases "authorizeBuildAssignment w i s")
    case (Inl a)
    then show ?thesis using assms by (simp add: putBuildArtifact_def)
  next
    case a: (Inr asg)
    show ?thesis
    proof (cases "Build (basg_BuildID asg) (api_db s)")
      case (Inl e)
      then show ?thesis using assms a by (simp add: putBuildArtifact_def)
    next
      case b: (Inr build)
      obtain x fs where st: "StoreBuildArtifact (build_ID build) content (MaxBuildArtifactBytes cfg) (api_files s) = (x, fs)"
        by fastforce
      show ?thesis
      proof (cases x)
        case (Inl e)
        then show ?thesis using assms a b st stored [OF st] by (simp add: putBuildArtifact_def Let_def)
      next
        case (Inr meta)
        have "images_match (snd (save_artifact (published_artifact build dg im meta now) (bam_Created meta) (s\<lparr>api_files := fs\<rparr>)))"
          for dg im
          by (rule save_artifact_match [OF assms st [unfolded Inr]]) (simp_all add: published_artifact_def)
        then show ?thesis using assms a b st Inr by (simp add: putBuildArtifact_def Let_def)
      qed
    qed
  qed
qed

lemma image_step_match:
  assumes "image_step s s'" "images_match s"
  shows "images_match s'"
  using assms(1)
proof cases
  case (create i tools cfg decode parts now user rq)
  have ok: "store_ok (api_files s)" using assms(2) by (simp add: images_match_def)
  show ?thesis unfolding create(1)
    by (rule own_build_match [OF assms(2) createBuild_own [OF ok create(2,3)]])
      (use create(2) in \<open>simp add: artifact_file_outside\<close>)
qed (use assms(2) in \<open>auto intro: spares_match user_requests_spare builder_requests_spare getManagedArtifact_spares
    putBuildLog_spares deleteBuild_match collect_match putBuildArtifact_match\<close>)

lemma image_steps_match: "image_step\<^sup>*\<^sup>* s s' \<Longrightarrow> images_match s \<Longrightarrow> images_match s'"
  by (induction rule: rtranclp_induct) (auto intro: image_step_match)

end
