(* ===== verification/BuilderProperties.thy ===== *)
theory BuilderProperties
  imports BuildLogs BuildImages
begin

text \<open>
  Source builds end to end: who may report on a build, what the image table promises, what becomes of the log of
  a build on its way to the server, when a builder hangs, and what it builds from.
\<close>

section \<open>Who reports\<close>

definition named_assignment :: "builder_endpoint \<Rightarrow> string option" where
  "named_assignment e =
     (case e of PollBuild \<Rightarrow> None | GetBuildAssignment i \<Rightarrow> Some i | BuildHeartbeat i \<Rightarrow> Some i
      | BuildLog i off content \<Rightarrow> Some i | BuildArtifact i dg img content \<Rightarrow> Some i | BuildCompletion i content \<Rightarrow> Some i)"

lemma authorised_assignment:
  assumes "named_assignment e = Some i" "builder_handle cfg builder e now s = (a, s')" "s' \<noteq> s"
  shows "\<exists>asg. authorizeBuildAssignment builder i s = Inr asg"
proof (cases "authorizeBuildAssignment builder i s")
  case (Inl r)
  then have "s' = s"
    using assms(1,2)
    by (cases e) (auto simp: named_assignment_def builder_handle_def getBuildAssignment_def heartbeatBuildAssignment_def
        putBuildLog_def putBuildArtifact_def completeBuildAssignment_def)
  with assms(3) show ?thesis ..
qed auto

lemma StoreBuildArtifact_own: "store_ok fs \<Longrightarrow> own_files b fs (snd (StoreBuildArtifact b src limit fs))"
  using own_files_frame StoreBuildArtifact_frame [OF _ surjective_pairing] by blast

lemma DeleteBuildArtifact_own: "store_ok fs \<Longrightarrow> own_files b fs (snd (DeleteBuildArtifact b fs))"
  by (auto simp: DeleteBuildArtifact_def intro: own_files_refl own_files_remove)

lemma Build_id: "Build i d = Inr b \<Longrightarrow> build_ID b = i"
  by (auto simp: Build_def scanBuild_def Let_def dest: build_row_Some split: option.splits)

lemma save_artifact_files:
  assumes "store_ok (api_files s)"
  shows "own_files (art_BuildID art) (api_files s) (api_files (snd (save_artifact art created s)))"
  using DeleteBuildArtifact_own [OF assms] own_files_refl [OF assms]
  by (auto simp: save_artifact_def split: prod.splits sum.splits)

lemma handled_own_files:
  assumes "named_assignment e = Some i" "authorizeBuildAssignment builder i s = Inr asg" "store_ok (api_files s)"
  shows "own_files (basg_BuildID asg) (api_files s) (api_files (snd (builder_handle cfg builder e now s)))"
proof -
  let ?b = "basg_BuildID asg"
  have logs: "own_files ?b (api_files s) fs" if "AppendBuildLog lim ?b off src (api_files s) = (r, fs)" for lim off src r fs
    using own_files_log [OF assms(3), of ?b lim off src] that by simp
  have refl: "own_files ?b (api_files s) (api_files s)" by (rule own_files_refl [OF assms(3)])
  show ?thesis
  proof (cases e)
    case (BuildArtifact j dg im content)
    then have j: "j = i" using assms(1) by (simp add: named_assignment_def)
    show ?thesis
    proof (cases "Build ?b (api_db s)")
      case (Inr build)
      have bi: "build_ID build = ?b" by (rule Build_id [OF Inr])
      obtain x fs where st: "StoreBuildArtifact ?b content (MaxBuildArtifactBytes cfg) (api_files s) = (x, fs)" by fastforce
      have o: "own_files ?b (api_files s) fs"
        using StoreBuildArtifact_own [OF assms(3), of ?b content "MaxBuildArtifactBytes cfg"] st by simp
      have "own_files ?b fs (api_files (snd (save_artifact (published_artifact build d m meta now) c (s\<lparr>api_files := fs\<rparr>))))"
        for d m meta c
        using save_artifact_files [of "s\<lparr>api_files := fs\<rparr>" "published_artifact build d m meta now" c] own_files_ok [OF o] bi
        by (simp add: published_artifact_def)
      then have "own_files ?b (api_files s) (api_files (snd (save_artifact (published_artifact build d m meta now) c (s\<lparr>api_files := fs\<rparr>))))"
        for d m meta c
        using o own_files_trans by blast
      then show ?thesis
        using BuildArtifact j assms(2) Inr st o refl bi
        by (cases x) (simp_all add: builder_handle_def putBuildArtifact_def Let_def)
    qed (use BuildArtifact j assms(2) refl in \<open>simp add: builder_handle_def putBuildArtifact_def\<close>)
  qed (use assms(1,2) refl logs in \<open>auto simp: named_assignment_def builder_handle_def getBuildAssignment_def
      heartbeatBuildAssignment_def putBuildLog_def completeBuildAssignment_def
      split: sum.splits prod.splits option.splits if_splits\<close>)
qed

text \<open>C39: Whatever a request to the routes of builders changes, its sender has shown the token of builders; unless it
  only asks for work, its header names the builder that the assignment of the request is leased to, and in the file
  store it changes nothing outside the directory of the build of that assignment.\<close>

theorem only_the_holder_reports:
  assumes "builder_route cfg builder e now rq s = (a, s')" "s' \<noteq> s" "store_ok (api_files s)"
  shows "TokenHash (bearer rq) = TokenHash (BuilderToken cfg) \<and> \<not> BuilderDisabled cfg \<and>
    (case named_assignment e of
       None \<Rightarrow> api_files s' = api_files s
     | Some i \<Rightarrow> \<exists>asg. BuildAssignment i (api_db s) = Inr asg \<and> basg_BuilderID asg = TrimSpace builder \<and>
         (\<forall>p. \<not> prefix [''builds'', basg_BuildID asg] p \<longrightarrow> node (api_files s') p = node (api_files s) p))"
proof -
  have h: "builder_handle cfg builder e now s = (a, s')" "TokenHash (bearer rq) = TokenHash (BuilderToken cfg)"
    "\<not> BuilderDisabled cfg"
    using assms(1,2)
    by (auto simp: builder_route_def withBuilder_def sourceBuildsEnabled_def builder_config.defs split: if_splits)
  show ?thesis
  proof (cases "named_assignment e")
    case None
    then have "e = PollBuild" by (cases e) (simp_all add: named_assignment_def)
    then have "api_files s' = api_files s"
      using h(1) by (auto simp: builder_handle_def nextBuildAssignment_def split: sum.splits prod.splits)
    then show ?thesis using h None by simp
  next
    case (Some i)
    obtain asg where asg: "authorizeBuildAssignment builder i s = Inr asg"
      using authorised_assignment [OF Some h(1) assms(2)] by blast
    from handled_own_files [OF Some asg assms(3), of cfg now] h(1)
    have "own_files (basg_BuildID asg) (api_files s) (api_files s')" by simp
    then show ?thesis
      using h(2,3) Some authorised_builder [OF asg] by (auto simp: own_files_def frame_def)
  qed
qed

section \<open>Images\<close>

text \<open>C35: Starting from a server without images, whatever requests and collections of old images follow, an agent that
  asks for the image of its assignment is either told that there is none, or it gets the whole image, with the size
  and the SHA-256 digest the answer promises.\<close>

theorem served_images_are_whole:
  assumes "image_step\<^sup>*\<^sup>* s0 s" "tbl_artifacts (api_db s0) = []" "store_ok (api_files s0)"
    "getManagedArtifact n i now s = (r, s')" "dl_status r \<noteq> 404"
  shows "dl_status r = 200 \<and> \<not> rd_fails (dl_body r) \<and> int (length (rd_data (dl_body r))) = dl_length r \<and>
    SHA256 (rd_data (dl_body r)) = dl_sha256 r"
proof -
  have m: "images_match s"
    by (rule image_steps_match [OF assms(1)]) (use assms(2,3) in \<open>simp add: images_match_def image_rows_def\<close>)
  obtain x d where f: "ManagedArtifactForAssignment i n now (api_db s) = (x, d)" by fastforce
  show ?thesis
  proof (cases x)
    case (Inl e)
    then have "e = ErrNotFound" using f by (auto simp: ManagedArtifactForAssignment_def split: option.splits)
    then show ?thesis
      using assms(4,5) f Inl by (auto simp: getManagedArtifact_def problem_download_def writeProblem_def)
  next
    case (Inr art)
    then obtain row where row: "row \<in> set (tbl_artifacts (api_db s))" "art = scanManagedArtifact row"
      using f by (auto simp: ManagedArtifactForAssignment_def find_Some_iff split: option.splits) (metis nth_mem)
    then have "image_stored (api_files s) (art_BuildID art, art_SHA256 art, art_Size art)"
      using m by (auto simp: images_match_def image_rows_def scanManagedArtifact_def)
    then obtain data where "OpenBuildArtifact (api_files s) (art_BuildID art) = Inr data"
      "art_SHA256 art = SHA256 data" "art_Size art = int (length data)"
      using OpenBuildArtifact_stored by blast
    then show ?thesis using assms(4) f Inr by (auto simp: getManagedArtifact_def declared_body_def)
  qed
qed

section \<open>The log of a build\<close>

text \<open>C36: Whatever requests and answers the network loses, when the upload of a build log ends, everything it took from
  the local log is in the stored log in its order, behind what was stored before, and what was stored before
  is unchanged; with no cancellation, what it took is the whole log. (Pieces whose answers were lost may be there
  twice.)\<close>

theorem no_build_log_is_lost:
  assumes "uploadLogs (bc_log (control_plane cfg builder) i) rounds net = Some (sent, net')"
    "log_good cfg i b (net_world net)" "undisturbed (log_good cfg i b) (\<lambda>w _. build_log b w) net"
  shows "(\<exists>x. build_log b (net_world net') = build_log b (net_world net) @ x \<and> subseq sent x) \<and>
    ((\<forall>r\<in>set rounds. \<not> snd r) \<longrightarrow> sent = concat (map fst rounds))"
  using build_logs.uploadLogs_keeps [OF assms(1)] assms(2,3) by (simp add: build_logs.holds_def)


text \<open>C38: A build whose log is longer than the server's limit never ends: whatever the network does, the upload of
  its log does not return, so the build is never reported, not even as failed.\<close>

theorem long_log_hangs_build:
  assumes "log_good cfg i b (net_world logs)" "undisturbed (log_good cfg i b) (\<lambda>w _. build_log b w) logs"
    "\<forall>r\<in>set rounds. \<not> snd r" "maxLogBytes (FileLimits cfg) < int (length (concat (map fst rounds)))"
  shows "uploadLogs (bc_log (control_plane cfg builder) i) rounds logs = None \<and>
    execute host client executor text timeout interrupted True
      (uploadLogs (bc_log (control_plane cfg builder) i) rounds logs \<noteq> None) alive work wk net = None"
proof -
  have "uploadLogs (bc_log (control_plane cfg builder) i) rounds logs = None"
    by (rule build_logs.uploadLogs_stuck [of cfg i b]) (use assms in auto)
  then show ?thesis by (simp add: execute_def Let_def split: prod.split)
qed

section \<open>A lost lease\<close>

text \<open>The assignment is not that of the builder (any more).\<close>

definition not_holder :: "string \<Rightarrow> string \<Rightarrow> build_world \<Rightarrow> bool" where
  "not_holder builder i w \<longleftrightarrow>
     (\<forall>a. BuildAssignment i (api_db (snd w)) = Inr a \<longrightarrow> basg_BuilderID a \<noteq> TrimSpace builder)"

lemma not_holder_refused:
  assumes "not_holder builder i w" "bc_complete (control_plane cfg builder) i st dg m w = (a, w')"
  shows "w' = w \<and> 300 \<le> rep_status a"
proof (cases "authorizeBuildAssignment builder i (snd w)")
  case (Inl r)
  then show ?thesis
    using assms(2) unauthorised_builder [OF Inl]
    by (auto simp: control_plane_def at_clock_def completeBuildAssignment_def split: prod.splits)
next
  case (Inr asg)
  from authorised_builder [OF this] assms(1) show ?thesis by (simp add: not_holder_def)
qed

lemma report_never_taken:
  fixes net :: "'s net"
  assumes "report_completion complete alive net = Some result"
    and "alive = None" "I (net_world net)" "\<forall>c\<in>set (net_plan net). \<forall>w. I w \<longrightarrow> I (fst c w)"
    and refused: "\<And>w a w'. I w \<Longrightarrow> complete w = (a, w') \<Longrightarrow> w' = w \<and> 300 \<le> rep_status a"
  shows False
proof -
  define P where "P = (\<lambda>c (alive :: nat option) (net :: 's net) (result :: bool \<times> 's net). c = complete \<longrightarrow> alive = None \<longrightarrow> I (net_world net) \<longrightarrow>
      (\<forall>c\<in>set (net_plan net). \<forall>w. I w \<longrightarrow> I (fst c w)) \<longrightarrow> False)"
  have "P complete alive net result"
  proof (rule report_completion.raw_induct [where P = P, OF _ assms(1)])
    fix rep :: "('s \<Rightarrow> answer \<times> 's) \<Rightarrow> nat option \<Rightarrow> 's net \<Rightarrow> (bool \<times> 's net) option" and c alive net result
    assume ind: "\<And>c alive net result. rep c alive net = Some result \<Longrightarrow> P c alive net result"
      and body: "(if alive = Some 0 then Some (False, net)
        else case client_json c net of (Inl e, net) \<Rightarrow> rep c (map_option (\<lambda>n. n - 1) alive) net
          | (Inr u, net) \<Rightarrow> Some (True, net)) = Some result"
    show "P c alive net result"
      unfolding P_def
    proof (intro impI)
      assume c: "c = complete" and al: "alive = None" and inv: "I (net_world net)"
        and plan: "\<forall>c\<in>set (net_plan net). \<forall>w. I w \<longrightarrow> I (fst c w)"
      obtain f d where n: "next_call net = (f, d)" by fastforce
      have f: "I (f (net_world net))" using next_call_in [OF n [symmetric]] plan inv by auto
      obtain a w' where a: "complete (f (net_world net)) = (a, w')" by fastforce
      note r = refused [OF f a]
      obtain e net1 where j: "client_json c net = (Inl e, net1)" "net_world net1 = f (net_world net)"
        "net_plan net1 = tl (net_plan net)"
        using n a r c by (cases d) (auto simp: client_json_def http_do_def Let_def)
      have "rep c None net1 = Some result" using body al j(1) by simp
      from ind [OF this] c f plan j(2,3) show False by (auto simp: P_def dest: tl_in)
    qed
  qed
  then show False unfolding P_def using assms(2-4) by blast
qed

text \<open>A builder that finishes a build after its lease went to another builder hangs: as long as the assignment is not
  its own again, its report is refused, and it repeats it for ever instead of asking for other work.\<close>

theorem lost_lease_hangs_builder:
  assumes "not_holder builder (basg_ID (work_Assignment work)) (net_world net)"
    "\<forall>c\<in>set (net_plan net). \<forall>w. not_holder builder (basg_ID (work_Assignment work)) w \<longrightarrow>
      not_holder builder (basg_ID (work_Assignment work)) (fst c w)"
  shows "finish (control_plane cfg builder) None work status digest message wk net = None"
proof (rule ccontr)
  assume "\<not> ?thesis"
  then obtain result where
    "report_completion (bc_complete (control_plane cfg builder) (basg_ID (work_Assignment work)) status digest message)
       None net = Some result"
    by (auto simp: finish_def split: option.splits)
  from report_never_taken [OF this refl, of "not_holder builder (basg_ID (work_Assignment work))"] assms
  show False using not_holder_refused by blast
qed

section \<open>The source of a build\<close>

lemma fetch_source_own:
  assumes "fetch_source host client work fs net = (e, fs', net')" "store_ok fs" "node fs p = None"
    "node fs [''builds'', build_ID (work_Build work), ''source''] = Some Dir" "p \<noteq> source_file (build_ID (work_Build work))"
  shows "own_files (build_ID (work_Build work)) fs fs' \<and> node fs' p = None"
proof -
  let ?f = "source_file (build_ID (work_Build work))"
  have ok: "fs_ok fs" using assms(2) by (simp add: store_ok_def)
  have "own_files (build_ID (work_Build work)) fs (put ?f (Reg 384 d) fs)" if "node fs ?f = None" for d
  proof -
    have "fs_ok (put ?f (Reg 384 d) fs)"
      by (rule put_ok [OF ok]) (use assms(4) that in \<open>auto simp: source_file_def\<close>)
    then have "frame [''builds'', build_ID (work_Build work)] fs (put ?f (Reg 384 d) fs)"
      by (rule frame_touches [OF only_touches_put _ ok]) (use assms(2) in \<open>simp_all add: source_file_def store_ok_def\<close>)
    then show ?thesis by (rule own_files_frame [OF assms(2)])
  qed
  then show ?thesis
    using assms own_files_refl [OF assms(2)]
    by (auto simp: fetch_source_def downloadSource_def Lstat_def Let_def split: option.splits if_splits prod.splits)
qed

text \<open>C40: A builder builds from the source that was uploaded and from nothing else: when its source is prepared, the
  archive on its disk has the size and the digest the build names, whether it was downloaded now or lay there already,
  and the project is a directory of the fresh workspace the archive was expanded to.\<close>

theorem sources_are_verified:
  assumes "prepareSource host client work fs net = (Inr project, fs', net')" "store_ok fs"
    "node fs [''builds'', i, bt_tmp (bh_tools host)] = None" "bt_tmp (bh_tools host) \<noteq> ''source''"
    "0 \<le> bh_MaxSourceBytes host" "i = build_ID (work_Build work)"
  shows "(\<exists>m data. node fs' (source_file i) = Some (Reg m data) \<and>
      int (length data) = src_Size (build_Source (work_Build work)) \<and>
      SHA256 data = src_SHA256 (build_Source (work_Build work))) \<and>
    prefix [''builds'', i, bt_tmp (bh_tools host)] project \<and> node fs' project = Some Dir"
proof -
  let ?tmp = "[''builds'', i, bt_tmp (bh_tools host)]"
  obtain fs1 where mk: "MkdirAll [''builds'', i, ''source''] fs = Inr fs1"
    using assms(1,6) by (auto simp: prepareSource_def Let_def split: sum.splits)
  obtain e fs2 net2 where fe: "fetch_source host client work fs1 net = (e, fs2, net2)" by (metis surj_pair)
  have p: "e = None" "verifyFile (source_file i) (src_Size (build_Source (work_Build work)))
      (src_SHA256 (build_Source (work_Build work))) fs2 = None"
    "PrepareBuildSource (bt_unzip (bh_tools host)) (bt_untar (bh_tools host)) (source_limits host) i
       (src_Filename (build_Source (work_Build work))) (bt_tmp (bh_tools host)) fs2 = (Inr project, fs')"
    using assms(1,6) mk fe by (auto simp: prepareSource_def Let_def split: option.splits prod.splits sum.splits)
  have o1: "own_files i fs fs1"
    by (rule own_files_frame [OF assms(2) frame_mkdir [OF mk]]) (use assms(2) in \<open>simp_all add: store_ok_def\<close>)
  have t1: "node fs1 ?tmp = None" using MkdirAll_node [OF mk, of ?tmp] assms(3,4) by simp
  have s1: "node fs1 [''builds'', i, ''source''] = Some Dir" by (rule MkdirAll_dir [OF mk]) simp
  have o2: "own_files i fs1 fs2 \<and> node fs2 ?tmp = None"
    using fetch_source_own [OF fe own_files_ok [OF o1] t1] s1 assms(6) by (simp add: source_file_def)
  obtain m data where d: "node fs2 (source_file i) = Some (Reg m data)"
    "int (length data) = src_Size (build_Source (work_Build work))"
    "SHA256 data = src_SHA256 (build_Source (work_Build work))"
    using p(2) by (auto simp: verifyFile_def split: option.splits fnode.splits if_splits)
  have ok2: "store_ok fs2" using o2 own_files_ok by blast
  note f = PrepareBuildSource_facts [OF ok2 conjunct2 [OF o2] p(3)]
  have "node fs' (source_file i) = node fs2 (source_file i)"
    using f(1) assms(4) by (auto simp: frame_def source_file_def)
  then show ?thesis using d f(3) [OF refl] assms(5) by (auto simp: source_limits_def)
qed

section \<open>A build and its builder\<close>

definition build_fs :: fs where
  "build_fs = [([], Dir), ([''jobs''], Dir), ([''builds''], Dir)]"

lemma build_fs_ok: "store_ok build_fs" "fs_ok build_fs"
  by (auto simp: store_ok_def fs_ok_def build_fs_def node_def split: if_splits)

lemma build_fs_node: "node build_fs (x # y # p) = None"
  by (simp add: build_fs_def node_def)

definition small_cfg :: build_config where
  "small_cfg = \<lparr>BuilderDisabled = False, BuilderToken = ''token'', BuilderLease = 60, MaxBuildArtifactBytes = 9,
     FileLimits = \<lparr>maxLogBytes = 4, maxOutputBytes = 4, maxInputBytes = 4\<rparr>\<rparr>"

definition b1_row :: BuildRow where
  "b1_row = \<lparr>br_id = ''b1'', br_owner_id = ''u1'', br_name = ''img'', br_mode = BuildModeDockerfile,
     br_status = BuildBuilding, br_source = \<lparr>src_Filename = ''s.zip'', src_Size = 2, src_SHA256 = SHA256 ''PK''\<rparr>,
     br_context_path = ''.'', br_dockerfile_path = ''Dockerfile'', br_oci_digest = '''', br_failure_reason = '''',
     br_created_at = formatTime 0, br_started_at = None, br_finished_at = None, br_version = 1\<rparr>"

definition a1_row :: "string \<Rightarrow> BuildAssignmentRow" where
  "a1_row builder = \<lparr>bar_id = ''a1'', bar_build_id = ''b1'', bar_status = BuildAssignmentRunning,
     bar_cancel_requested = False, bar_builder_id = Some builder, bar_lease_expires_at = None,
     bar_created_at = formatTime 0, bar_updated_at = formatTime 0\<rparr>"

definition leased_api :: "string \<Rightarrow> api" where
  "leased_api builder = \<lparr>api_db = empty_db\<lparr>tbl_builds := [b1_row], tbl_build_assignments := [a1_row builder]\<rparr>,
     api_files = build_fs, api_accounts = empty_accounts, api_logins = []\<rparr>"

definition builder_request :: request where
  "builder_request = \<lparr>rq_method = ''POST'', rq_path = '''', rq_cookie = None, rq_authorization = ''Bearer token'',
     rq_csrf = '''', rq_protocol = ''1'', rq_key = ''''\<rparr>"

lemma w1_trimmed: "TrimSpace ''w1'' = ''w1''" "TrimSpace ''token'' = ''token''"
  by code_simp+

lemma leased_assignment:
  "BuildAssignment ''a1'' (api_db (leased_api b)) = Inr (scanBuildAssignment (a1_row b))"
  by (simp add: BuildAssignment_def assignment_of_def leased_api_def a1_row_def)

lemma a1_scanned: "basg_BuildID (scanBuildAssignment (a1_row b)) = ''b1''" "basg_BuilderID (scanBuildAssignment (a1_row b)) = b"
  "basg_ID (scanBuildAssignment (a1_row b)) = ''a1''"
  by (simp_all add: scanBuildAssignment_def a1_row_def text_of_def)

lemma leased_authorised:
  "authorizeBuildAssignment ''w1'' ''a1'' (leased_api ''w1'') = Inr (scanBuildAssignment (a1_row ''w1''))"
  by (simp add: authorizeBuildAssignment_def requireBuilderID_def w1_trimmed leased_assignment a1_scanned Let_def)

theorem only_the_holder_reports_witness:
  "\<exists>a s'. builder_route small_cfg ''w1'' (BuildHeartbeat ''a1'') 5 builder_request (leased_api ''w1'') = (a, s') \<and>
     s' \<noteq> leased_api ''w1'' \<and> (\<exists>asg. BuildAssignment ''a1'' (api_db (leased_api ''w1'')) = Inr asg \<and> basg_BuilderID asg = ''w1'')"
proof -
  obtain a s' where r: "builder_route small_cfg ''w1'' (BuildHeartbeat ''a1'') 5 builder_request (leased_api ''w1'') = (a, s')"
    by fastforce
  have "bearer builder_request = ''token''"
    by (simp add: bearer_def builder_request_def HasPrefix_def w1_trimmed)
  then have "builder_route small_cfg ''w1'' (BuildHeartbeat ''a1'') 5 builder_request (leased_api ''w1'') =
      heartbeatBuildAssignment small_cfg ''w1'' ''a1'' 5 (leased_api ''w1'')"
    by (simp add: builder_route_def withBuilder_def compatibleProtocol_def sourceBuildsEnabled_def builder_handle_def
        builder_request_def small_cfg_def builder_config.defs)
  then have "api_db s' = snd (RenewBuildAssignment ''a1'' ''w1'' 60 5 (api_db (leased_api ''w1'')))"
    using r by (auto simp: heartbeatBuildAssignment_def leased_authorised a1_scanned small_cfg_def
        split: prod.splits sum.splits)
  then have "map bar_lease_expires_at (tbl_build_assignments (api_db s')) = [Some (formatTime 65)]"
    by (simp add: RenewBuildAssignment_def Let_def rows_affected_def update_where_def leased_api_def a1_row_def)
  then have c: "s' \<noteq> leased_api ''w1''" by (auto simp: leased_api_def a1_row_def)
  have "store_ok (api_files (leased_api ''w1''))" using build_fs_ok by (simp add: leased_api_def)
  from only_the_holder_reports [OF r c this] r c show ?thesis by (auto simp: named_assignment_def w1_trimmed)
qed

section \<open>Logs of the build\<close>

definition quiet :: "api \<Rightarrow> build_world net" where
  "quiet s = \<lparr>net_world = (0, s), net_plan = [], net_sent = 0\<rparr>"

lemma leased_log: "build_log ''b1'' (0, leased_api b) = ''''"
  by (simp add: build_log_def build_log_file_def leased_api_def file_content_def build_fs_node)

lemma leased_log_good: "log_good small_cfg ''a1'' ''b1'' (net_world (quiet (leased_api b)))"
  by (auto simp: log_good_def quiet_def leased_log leased_assignment a1_scanned small_cfg_def)
    (simp add: leased_api_def build_fs_ok)

lemma leased_log_ready: "log_ready small_cfg ''w1'' ''a1'' ''b1'' (net_world (quiet (leased_api ''w1'')))"
proof -
  have "free_path build_fs (build_log_file ''b1'')" by code_simp
  moreover have "safeSegment ''b1''" by code_simp
  ultimately show ?thesis
    using leased_log_good [of "''w1''"] leased_authorised
    by (simp add: log_ready_def quiet_def leased_api_def)
qed


theorem no_build_log_is_lost_witness:
  "\<exists>sent net'. uploadLogs (bc_log (control_plane small_cfg ''w1'') ''a1'') [(''hey'', False)] (quiet (leased_api ''w1'')) =
      Some (sent, net') \<and> sent = ''hey'' \<and> subseq ''hey'' (build_log ''b1'' (net_world net'))"
proof -
  from build_logs.uploadLogs_converges [OF leased_log_ready, of "[(''hey'', False)]"]
  obtain net' where r: "uploadLogs (bc_log (control_plane small_cfg ''w1'') ''a1'') [(''hey'', False)] (quiet (leased_api ''w1'')) =
      Some (''hey'', net')" by (auto simp: leased_log quiet_def small_cfg_def)
  from no_build_log_is_lost [OF this leased_log_good]
  have "subseq ''hey'' (build_log ''b1'' (net_world net'))"
    by (auto simp: quiet_def undisturbed_def leased_log)
  with r show ?thesis by blast
qed

definition no_host :: builder_host where
  "no_host = \<lparr>bh_MaxSourceBytes = 9, bh_tools = \<lparr>bt_unzip = (\<lambda>_. Some []), bt_untar = (\<lambda>_. None),
     bt_analyze = (\<lambda>_ _. ('''', Inl '''')), bt_tmp = ''.analysis-1'', bt_error = (\<lambda>_. ''failed''),
     bt_store_error = (\<lambda>_. ''failed'')\<rparr>\<rparr>"

definition b1_work :: "string \<Rightarrow> BuildWork" where
  "b1_work builder = \<lparr>work_Assignment = scanBuildAssignment (a1_row builder), work_Build = scanBuild empty_db b1_row,
     work_Plan = None\<rparr>"

theorem long_log_hangs_build_witness:
  "execute no_host (control_plane small_cfg ''w1'') (\<lambda>_ _ _. (Some ''image'', Inr ''digest'')) (\<lambda>_. ''failed'') ''1h''
     Uninterrupted True
     (uploadLogs (bc_log (control_plane small_cfg ''w1'') ''a1'') [(''hello'', False)] (quiet (leased_api ''w1'')) \<noteq> None)
     None (b1_work ''w1'') \<lparr>wk_fs = build_fs, wk_current = None, wk_images = []\<rparr> (quiet (leased_api ''w1'')) = None"
  by (rule conjunct2 [OF long_log_hangs_build [OF leased_log_good]])
    (simp_all add: quiet_def undisturbed_def small_cfg_def)

theorem lost_lease_hangs_builder_witness:
  "finish (control_plane small_cfg ''w1'') None (b1_work ''w1'') BuildAssignmentSucceeded ''digest'' ''done''
     \<lparr>wk_fs = build_fs, wk_current = Some (b1_work ''w1''), wk_images = []\<rparr> (quiet (leased_api ''w2'')) = None"
  by (rule lost_lease_hangs_builder)
    (simp_all add: not_holder_def b1_work_def a1_scanned quiet_def leased_assignment w1_trimmed)

text \<open>A source that is downloaded and holds one file.\<close>

definition zip_host :: builder_host where
  "zip_host = no_host\<lparr>bh_tools := (bh_tools no_host)\<lparr>bt_unzip := (\<lambda>_. Some [\<lparr>ae_Name = ''Dockerfile'', ae_Kind = RegularEntry,
     ae_Executable = False, ae_Size = 4, ae_Open = Inr \<lparr>rd_data = ''FROM'', rd_fails = False\<rparr>\<rparr>])\<rparr>\<rparr>"

definition source_client :: "unit build_client" where
  "source_client = \<lparr>bc_next = undefined, bc_heartbeat = undefined,
     bc_source = (\<lambda>i _. \<lparr>dl_status = 200, dl_sha256 = SHA256 ''PK'', dl_oci_digest = '''', dl_length = 2,
       dl_body = \<lparr>rd_data = ''PK'', rd_fails = False\<rparr>\<rparr>),
     bc_log = undefined, bc_publish = undefined, bc_complete = undefined\<rparr>"

definition downloaded_fs :: fs where
  "downloaded_fs = put (source_file ''b1'') (Reg 384 ''PK'')
     (mkdir_missing (mkdir_missing build_fs [''builds'', ''b1'']) [''builds'', ''b1'', ''source''])"

lemma expanded_source:
  "fst (PrepareBuildSource (bt_unzip (bh_tools zip_host)) (bt_untar (bh_tools zip_host)) (source_limits zip_host) ''b1'' ''s.zip''
     ''.analysis-1'' downloaded_fs) = Inr [''builds'', ''b1'', ''.analysis-1'']"
  by code_simp

lemma prepared_source:
  assumes "MkdirAll [''builds'', build_ID (work_Build work), ''source''] fs = Inr fs1"
    and "fetch_source host client work fs1 net = (None, fs2, net2)"
    and "verifyFile (source_file (build_ID (work_Build work))) (src_Size (build_Source (work_Build work)))
      (src_SHA256 (build_Source (work_Build work))) fs2 = None"
    and "PrepareBuildSource (bt_unzip (bh_tools host)) (bt_untar (bh_tools host)) (source_limits host)
      (build_ID (work_Build work)) (src_Filename (build_Source (work_Build work))) (bt_tmp (bh_tools host)) fs2 =
      (Inr project, fs3)"
  shows "prepareSource host client work fs net = (Inr project, fs3, net2)"
  by (simp add: prepareSource_def assms Let_def)

theorem sources_are_verified_witness:
  "\<exists>fs' net'. prepareSource zip_host source_client (b1_work ''w1'') build_fs \<lparr>net_world = (), net_plan = [], net_sent = 0\<rparr> =
     (Inr [''builds'', ''b1'', ''.analysis-1''], fs', net') \<and>
     (\<exists>m data. node fs' (source_file ''b1'') = Some (Reg m data) \<and> int (length data) = 2 \<and> SHA256 data = SHA256 ''PK'')"
proof -
  let ?net = "\<lparr>net_world = (), net_plan = [], net_sent = 0\<rparr> :: unit net"
  let ?dirs = "mkdir_missing (mkdir_missing build_fs [''builds'', ''b1'']) [''builds'', ''b1'', ''source'']"
  have mk: "MkdirAll [''builds'', ''b1'', ''source''] build_fs = Inr ?dirs" by code_simp
  have ls: "Lstat ?dirs (source_file ''b1'') = Inl NotExist" by code_simp
  have w: "build_ID (work_Build (b1_work ''w1'')) = ''b1''" "src_Size (build_Source (work_Build (b1_work ''w1''))) = 2"
    "src_SHA256 (build_Source (work_Build (b1_work ''w1''))) = SHA256 ''PK''"
    "src_Filename (build_Source (work_Build (b1_work ''w1''))) = ''s.zip''"
    by (simp_all add: b1_work_def scanBuild_def b1_row_def Let_def)
  have h: "bh_MaxSourceBytes zip_host = 9" "bt_tmp (bh_tools zip_host) = ''.analysis-1''"
    by (simp_all add: zip_host_def no_host_def)
  obtain net1 where f: "fetch_source zip_host source_client (b1_work ''w1'') ?dirs ?net = (None, downloaded_fs, net1)"
    by (simp add: fetch_source_def downloadSource_def w ls h http_get_def next_call_def source_client_def LimitReader_def
        downloaded_fs_def Let_def)
  have v: "verifyFile (source_file ''b1'') 2 (SHA256 ''PK'') downloaded_fs = None"
    by (simp add: verifyFile_def downloaded_fs_def)
  define fs' where "fs' = snd (PrepareBuildSource (bt_unzip (bh_tools zip_host)) (bt_untar (bh_tools zip_host))
      (source_limits zip_host) ''b1'' ''s.zip'' ''.analysis-1'' downloaded_fs)"
  have x: "PrepareBuildSource (bt_unzip (bh_tools zip_host)) (bt_untar (bh_tools zip_host)) (source_limits zip_host)
      ''b1'' ''s.zip'' ''.analysis-1'' downloaded_fs = (Inr [''builds'', ''b1'', ''.analysis-1''], fs')"
    unfolding fs'_def by (rule prod_eqI) (simp_all only: expanded_source fst_conv snd_conv)
  have p: "prepareSource zip_host source_client (b1_work ''w1'') build_fs ?net =
      (Inr [''builds'', ''b1'', ''.analysis-1''], fs', net1)"
    by (rule prepared_source [where ?fs1.0 = ?dirs and ?fs2.0 = downloaded_fs]) (simp_all only: w h mk f v x)
  have "bt_tmp (bh_tools zip_host) \<noteq> ''source''" "0 \<le> bh_MaxSourceBytes zip_host" unfolding h by simp_all
  note s = conjunct1 [OF sources_are_verified [OF p build_fs_ok(1) build_fs_node this w(1) [symmetric]]]
  have "\<exists>m data. node fs' (source_file ''b1'') = Some (Reg m data) \<and> int (length data) = 2 \<and> SHA256 data = SHA256 ''PK''"
    using s unfolding w .
  with p show ?thesis by blast
qed

section \<open>An image that is published and fetched\<close>

definition zero_digest :: string where
  "zero_digest = ''sha256:'' @ replicate 64 (CHR ''0'')"

definition published :: "answer \<times> api" where
  "published = putBuildArtifact small_cfg ''w1'' ''a1'' zero_digest ''jobdock.local/managed/b1:artifact''
     \<lparr>rd_data = ''img'', rd_fails = False\<rparr> 1 (leased_api ''w1'')"

definition img_fs :: fs where
  "img_fs = put (artifact_file ''b1'') (Reg 288 ''img'')
     (mkdir_missing (mkdir_missing build_fs [''builds'', ''b1'']) [''builds'', ''b1'', ''artifact''])"

definition img_row :: ArtifactRow where
  "img_row = \<lparr>mar_build_id = ''b1'', mar_owner_id = ''u1'', mar_digest = zero_digest, mar_sha256 = SHA256 ''img'',
     mar_size_bytes = 3, mar_media_type = ManagedImageMediaType,
     mar_runtime_image = ''jobdock.local/managed/b1:artifact'', mar_created_at = formatTime 1,
     mar_last_referenced_at = formatTime 1\<rparr>"

lemma published_state:
  "api_files (snd published) = img_fs" "tbl_artifacts (api_db (snd published)) = [img_row]"
proof -
  have mk: "MkdirAll (butlast (artifact_file ''b1'')) build_fs =
      Inr (mkdir_missing (mkdir_missing build_fs [''builds'', ''b1'']) [''builds'', ''b1'', ''artifact''])" by code_simp
  have ls: "Lstat build_fs (artifact_file ''b1'') = Inl NotExist" "safeSegment ''b1''" by code_simp+
  have st: "StoreBuildArtifact ''b1'' \<lparr>rd_data = ''img'', rd_fails = False\<rparr> 9 build_fs =
      (Inr \<lparr>bam_Size = 3, bam_SHA256 = SHA256 ''img'', bam_Created = True\<rparr>, img_fs)"
    using mk ls by (simp add: StoreBuildArtifact_def Let_def read_limited_def LimitReader_def img_fs_def)
  have t: "TrimSpace zero_digest = zero_digest" "TrimSpace ''jobdock.local/managed/b1:artifact'' = ''jobdock.local/managed/b1:artifact''"
    "ociDigest zero_digest" "TrimSpace ''b1'' = ''b1''" "TrimSpace ''u1'' = ''u1''" by code_simp+
  have ref: "ParseManagedArtifactReference (ManagedArtifactReference ''b1'' zero_digest) = ManagedReference ''b1'' zero_digest"
    by code_simp
  have sha: "lowercaseSHA256 (SHA256 ''img'')"
    using SHA256_chars [of "''img''"]
    by (simp add: lowercaseSHA256_def list_all_iff lower_hex_def List.member_iff subset_eq)
  define build where "build = scanBuild (api_db (leased_api ''w1'')) b1_row"
  have b: "Build ''b1'' (api_db (leased_api ''w1'')) = Inr build" "build_ID build = ''b1''" "build_OwnerID build = ''u1''"
    by (simp_all add: build_def Build_def build_row_def leased_api_def scanBuild_def b1_row_def Let_def)
  have sv: "SaveManagedArtifact (published_artifact build zero_digest ''jobdock.local/managed/b1:artifact''
      \<lparr>bam_Size = 3, bam_SHA256 = SHA256 ''img'', bam_Created = True\<rparr> 1) (api_db (leased_api ''w1'')) =
      (Inr (), (api_db (leased_api ''w1''))\<lparr>tbl_artifacts := [img_row]\<rparr>)"
    using t sha b
    by (simp add: SaveManagedArtifact_def published_artifact_def ValidateManagedArtifact_def zero_time_def build_row_def
        leased_api_def b1_row_def artifact_row_def empty_db_def img_row_def)
  have pub: "published = save_artifact (published_artifact build zero_digest ''jobdock.local/managed/b1:artifact''
      \<lparr>bam_Size = 3, bam_SHA256 = SHA256 ''img'', bam_Created = True\<rparr> 1) True ((leased_api ''w1'')\<lparr>api_files := img_fs\<rparr>)"
    using t(1,2) ref st b
    by (simp add: published_def putBuildArtifact_def leased_authorised a1_scanned small_cfg_def Let_def)
      (simp add: leased_api_def)
  show "api_files (snd published) = img_fs" "tbl_artifacts (api_db (snd published)) = [img_row]"
    unfolding pub save_artifact_def by (simp_all add: sv)
qed

text \<open>A job of the same server that runs on the image.\<close>

definition img_api :: api where
  "img_api = (snd published)\<lparr>api_db := (api_db (snd published))\<lparr>
     tbl_jobs := [\<lparr>jr_id = ''j1'', jr_owner_id = ''u1'',
       jr_spec = empty_spec\<lparr>spec_Image := ManagedArtifactReference ''b1'' zero_digest\<rparr>, jr_status = JobAssigned,
       jr_desired_status = JobRunning, jr_observed_status = JobAssigned, jr_assigned_node_id = Some ''n1'',
       jr_attempt_id = Some ''t1'', jr_image_digest = '''', jr_exit_code = None, jr_queue_reason_code = '''',
       jr_queue_reason = '''', jr_failure_reason = '''', jr_created_at = formatTime 0, jr_started_at = None,
       jr_finished_at = None, jr_deleted_at = None, jr_version = 1\<rparr>],
     tbl_assignments := [\<lparr>as_id = ''s1'', as_job_id = ''j1'', as_attempt_id = ''t1'', as_node_id = ''n1'',
       as_gpu_uuids = [], as_job_token_ciphertext = '''', as_delivered_at = None, as_accepted_at = None,
       as_created_at = formatTime 0, as_cpu_package_id = '''', as_cpu_set = ''''\<rparr>]\<rparr>\<rparr>"

theorem served_images_are_whole_witness:
  "dl_status (fst (getManagedArtifact ''n1'' ''s1'' 2 img_api)) = 200 \<and>
   SHA256 (rd_data (dl_body (fst (getManagedArtifact ''n1'' ''s1'' 2 img_api)))) =
     dl_sha256 (fst (getManagedArtifact ''n1'' ''s1'' 2 img_api))"
proof -
  have "image_step (leased_api ''w1'') (snd published)" unfolding published_def by (rule image_step.publish)
  moreover have "spares_images (snd published) img_api" by (simp add: spares_images_def img_api_def image_rows_def)
  ultimately have steps: "image_step\<^sup>*\<^sup>* (leased_api ''w1'') img_api"
    by (meson image_step.elsewhere r_into_rtranclp rtranclp.rtrancl_into_rtrancl)
  have start: "tbl_artifacts (api_db (leased_api ''w1'')) = []" "store_ok (api_files (leased_api ''w1''))"
    by (simp_all add: leased_api_def empty_db_def build_fs_ok)
  have img: "assignment_image (api_db img_api) ''s1'' ''n1'' = Some (ManagedArtifactReference ''b1'' zero_digest)"
    by (simp add: assignment_image_def img_api_def job_row_def)
  have "tbl_artifacts (api_db img_api) = [img_row]" using published_state(2) by (simp add: img_api_def)
  then have "fst (ManagedArtifactForAssignment ''s1'' ''n1'' 2 (api_db img_api)) = Inr (scanManagedArtifact img_row)"
    by (simp add: ManagedArtifactForAssignment_def img) (simp add: img_row_def)
  then have "dl_status (fst (getManagedArtifact ''n1'' ''s1'' 2 img_api)) \<noteq> 404"
    by (cases "ManagedArtifactForAssignment ''s1'' ''n1'' 2 (api_db img_api)")
      (auto simp: getManagedArtifact_def problem_download_def writeProblem_def split: sum.splits)
  from served_images_are_whole [OF steps start surjective_pairing this] show ?thesis by simp
qed

end
