(* ===== verification/Spec2Isabelle.thy ===== *)
theory Spec2Isabelle
  imports SchedulerProperties JobProperties AgentProperties NodeProperties ValidationProperties
    BuildProperties LogProperties FileProperties RunProperties AccessProperties BuilderProperties
begin

text \<open>
  A verification development of JobDock.

  JobDock runs containers for a team on nodes with GPUs. A \<^emph>\<open>control plane\<close> (\<^verbatim>\<open>cmd/jobdock-server\<close>) keeps its
  state in a SQLite database (\<^verbatim>\<open>internal/store\<close>) and in a directory of files (\<^verbatim>\<open>internal/filestore\<close>), serves
  the HTTP API of users, agents and builders (\<^verbatim>\<open>internal/httpapi\<close>), and places queued jobs on nodes
  (\<^verbatim>\<open>internal/scheduler\<close>, \<^verbatim>\<open>internal/capacity\<close>). An \<^emph>\<open>agent\<close> on each node (\<^verbatim>\<open>internal/agent\<close>) polls for
  assignments, fetches inputs and images, runs the container through Docker (\<^verbatim>\<open>internal/dockerengine\<close>), reports
  events, and uploads logs, outputs and checkpoints. A \<^emph>\<open>builder\<close> (\<^verbatim>\<open>internal/builder\<close>) turns uploaded sources into
  managed images, which the control plane stores and hands to agents. All three talk HTTP and nothing else; the
  order of requests is the only interleaving between them, and the database and the files are the only
  state they share.

  \<^bold>\<open>Theories and code.\<close> Operations have the names of the Go functions they translate; a function that is one
  transaction of the store is one function \<open>db \<Rightarrow> result \<times> db\<close>, a handler one function from the request and the
  state of the server to the answer and the new state, each early return a branch.

  \<^item> \<open>Prelude\<close>: results (\<open>'e + 'a\<close>, \<open>Inl\<close> the error), Go's 64-bit integers (\<open>i64\<close>), and what the code calls of
    \<^verbatim>\<open>strings\<close>, \<^verbatim>\<open>path\<close> and \<^verbatim>\<open>sort\<close>; the contract of a comparison function, the locale \<open>slice_order\<close>. \<open>Systems\<close>: the
    contracts of a system with an invariant and of a store of records with statuses.
  \<^item> \<open>Types\<close>, \<open>Tables\<close>: \<^verbatim>\<open>domain/types.go\<close> with its transition tables; the tables of \<^verbatim>\<open>store/migrations\<close> as lists of rows
    in one record \<open>db\<close>, and the text under which times are stored. \<open>Json\<close>, \<open>Validate\<close>: \<^verbatim>\<open>json.Valid\<close>,
    \<^verbatim>\<open>domain/validate.go\<close> and \<^verbatim>\<open>managed_artifact.go\<close>. \<open>SHA256\<close>: \<^verbatim>\<open>crypto/sha256\<close> on 32-bit words.
  \<^item> \<open>JobStore\<close>, \<open>AgentStore\<close>, \<open>NodeStore\<close>, \<open>BuildStore\<close>: \<^verbatim>\<open>store/store.go\<close>, \<^verbatim>\<open>builds.go\<close>, \<^verbatim>\<open>build_assignments.go\<close>,
    \<^verbatim>\<open>managed_artifacts.go\<close>. \<open>Scheduler\<close>: \<^verbatim>\<open>scheduler.go\<close> and \<^verbatim>\<open>capacity.go\<close>; the pass \<open>Schedule\<close> is in \<open>NodeStore\<close>.
  \<^item> \<open>FileTree\<close>, \<open>FileStore\<close>, \<open>FileObjects\<close>: \<^verbatim>\<open>filestore/filestore.go\<close> on a tree of files and directories.
  \<^item> \<open>Http\<close>, \<open>UploadApi\<close>, \<open>JobApi\<close>, \<open>AccountApi\<close>, \<open>BuildApi\<close>: the handlers of \<^verbatim>\<open>httpapi/api.go\<close>, \<^verbatim>\<open>job_inputs.go\<close>,
    \<^verbatim>\<open>job_attempts.go\<close>, \<^verbatim>\<open>personal_access_tokens.go\<close>, \<^verbatim>\<open>builds.go\<close>, \<^verbatim>\<open>builder.go\<close>, \<^verbatim>\<open>managed_artifacts.go\<close>. \<open>Auth\<close>, \<open>Accounts\<close>,
    \<open>Access\<close>: \<^verbatim>\<open>auth/auth.go\<close>, the accounts part of the store with \<^verbatim>\<open>store/personal_access_tokens.go\<close>, and the
    middleware with its idempotency keys. The record \<open>api\<close> of \<open>Access\<close> is the whole server.
  \<^item> \<open>Redactor\<close>, \<open>AgentUpload\<close>, \<open>AgentInputs\<close>, \<open>AgentRun\<close>: \<^verbatim>\<open>agent/redactor.go\<close>, \<^verbatim>\<open>agent.go\<close>, \<^verbatim>\<open>inputs.go\<close>,
    \<^verbatim>\<open>managed_artifact.go\<close>, with the log stream of \<^verbatim>\<open>dockerengine/client.go\<close>. \<open>BuildWorker\<close>: \<^verbatim>\<open>builder/builder.go\<close> and
    \<^verbatim>\<open>client.go\<close>.

  \<^bold>\<open>What the lemmas show.\<close> Theories named \<open>Facts\<close>, \<open>Steps\<close>, \<open>Invariant\<close>, \<open>Service\<close> hold the library, those named
  \<open>Properties\<close> the theorems it is for, with a witness on concrete values (\<open>Samples\<close>) where they have hypotheses.

  \<^item> Jobs (\<open>LifecycleFacts\<close>, \<open>StoreSteps\<close>, \<open>StoreInvariant\<close>, \<open>JobProperties\<close>): every committed operation is a step of one
    relation; the invariant of jobs, attempts, assignments and GPUs makes the store an instance of \<open>status_machine\<close>,
    so statuses move along \<^verbatim>\<open>CanTransition\<close>, GPUs are exclusive, and an update is safe whatever commits while it runs.
  \<^item> Scheduling (\<open>SchedulerFacts\<close>, \<open>SchedulerProperties\<close>): the comparison functions are strict weak orders, the
    scan agrees with a declarative feasibility of nodes, and the chosen node is the best; so are the GPUs of a node.
  \<^item> Agents and nodes (\<open>AgentProperties\<close>, \<open>NodeProperties\<close>): stale and repeated reports, tokens, credentials,
    the sweep over silent nodes.
  \<^item> Builds (\<open>BuildSteps\<close>, \<open>BuildProperties\<close>, \<open>BuildImages\<close>, \<open>BuildLogs\<close>, \<open>BuilderProperties\<close>): the second instance of
    \<open>status_machine\<close>, leases, the agreement of the image table with the stored images over every request and collection,
    the upload of build logs under the locale \<open>build_log_service\<close>, and what the builder builds from.
  \<^item> Files (\<open>FileFacts\<close>, \<open>FileSteps\<close>, \<open>FileAppends\<close>, \<open>FileProperties\<close>): every operation, with any arguments, keeps the tree
    well formed and stays in the directory of its job or build; limits, checkpoints, expansion of archives.
  \<^item> Uploads (\<open>UploadService\<close>, \<open>CheckpointService\<close>, \<open>Uploads\<close>, \<open>UploadProperties\<close>, \<open>CheckpointProperties\<close>): the agent's loops are
    proved against the locale \<open>append_service\<close>, the handlers are proved to fulfil it, and together they give the
    end-to-end statements: the stored log is a prefix of the redacted output, a confirmed checkpoint is what was read.
  \<^item> Executions (\<open>InputFacts\<close>, \<open>RunFacts\<close>, \<open>RunProperties\<close>), the redactor (\<open>LogProperties\<close>), validation
    (\<open>ValidationProperties\<close>), and access (\<open>AccessFacts\<close>, \<open>AccessProperties\<close>): who can change a job, what a refused request
    leaves, what repeated requests do, what members see, how often logins fail, and which secrets a job gets.

  \<^bold>\<open>Loops and bounds.\<close> Bounded loops have the bounds of the code: three attempts to update a status or to append a
  server event, five to send an event, to upload a chunk or to complete a checkpoint; chunks of 262144 bytes
  (agent) and 65536 bytes (builder). A long poll is a list of rounds. The upload of a build log and the report of
  a builder repeat without a bound and are partial functions whose value \<open>None\<close> means that they never return; that
  they return is a theorem of its own, and so is when they do not. Every other function is total.

  \<^bold>\<open>The network\<close> is a plan: for each request, what other parties do to the server before it, and whether request or
  answer is lost. Statements about uploads hold for every plan, or for the plan that loses nothing. What other
  parties do is arbitrary up to the hypotheses named in a statement (\<open>undisturbed\<close>). Calls of the file store are
  sequential; the code has no lock there, and two calls that interleave on one file are not modelled. Transactions of the store are atomic;
  where the code reads, computes and writes in separate transactions, the model has an argument for what commits in between.

  \<^bold>\<open>Parameters.\<close> Code outside the repository is an argument of the definitions that use it: Argon2, AES-GCM, random
  identifiers and tokens, \<^verbatim>\<open>strings.ToLower\<close>, JSON decoders of request bodies, the zip and tar readers,
  Docker, Railpack and BuildKit. The clock is an argument; a time is its nanoseconds and has no zone.

  \<^bold>\<open>Not modelled.\<close> Telemetry, metrics, series, tables and rich observations, dashboards, server-sent events and read-only
  views of nodes: their behaviour is aggregation in SQL over floating-point data and presentation, and no state of jobs or
  builds depends on it. Enrolment, heartbeat sampling and NVML in the agent, the runs of Railpack and \<^verbatim>\<open>buildctl\<close>,
  configuration, command line and process start-up: operating system and external tools. The downloads of stored logs,
  outputs and archives, and the filtered pages of the audit log. Timers are left out: a loop is modelled by its body. Of the
  database, the checks of JSON columns and the foreign key from jobs to users are assumed to hold, and the order of
  stored times is that of their text. Of the file system, symbolic links, permissions, errors of the disk and temporary
  files (which appear complete at once) are left out; the agent and the builder can always write to their local disk.
  Container names use the first twelve characters of an identifier, which are there because identifiers are UUIDs.
\<close>

end
